(* ===== verification/Prelude.thy ===== *)
theory Prelude
  imports Main "HOL-Library.Char_ord" "HOL-Library.List_Lexorder" "HOL-Library.Product_Lexorder"
    "HOL-Library.Code_Target_Nat"
begin

text \<open>
  Shared vocabulary of the development: results of fallible Python code as sums, the tables of
  the SQLite store as keyed row lists, the JSON values the rows carry, the parts of Python's
  string library the sources use, and the generic invariant principle for step systems.

  Strings are lists of code points below 256 (\<^typ>\<open>char\<close>); the character classes below are
  those of Python's \<^verbatim>\<open>str\<close> methods on that range.
\<close>

named_theorems table_simps \<open>rewrite rules of keyed row lists\<close>
named_theorems py_str_simps \<open>unfolding rules of the string functions\<close>

section \<open>Results\<close>

text \<open>A raise is \<open>Inl\<close>, a return is \<open>Inr\<close>; \<open>rbind\<close> is the propagation of a raise.\<close>

fun rbind :: "'e + 'a \<Rightarrow> ('a \<Rightarrow> 'e + 'b) \<Rightarrow> 'e + 'b" where
  "rbind (Inl e) f = Inl e"
| "rbind (Inr x) f = f x"

lemma rbind_Inr_iff [simp]: "rbind m f = Inr y \<longleftrightarrow> (\<exists>x. m = Inr x \<and> f x = Inr y)"
  by (cases m) auto

lemma rbind_Inl_iff: "rbind m f = Inl e \<longleftrightarrow> m = Inl e \<or> (\<exists>x. m = Inr x \<and> f x = Inl e)"
  by (cases m) auto

lemma rbind_assoc: "rbind (rbind m f) g = rbind m (\<lambda>x. rbind (f x) g)"
  by (cases m) auto

lemma rbind_cong [fundef_cong]: "m = m' \<Longrightarrow> (\<And>x. m' = Inr x \<Longrightarrow> f x = f' x) \<Longrightarrow> rbind m f = rbind m' f'"
  by (cases m') auto

text \<open>Python truthiness of an optional string: \<^verbatim>\<open>None\<close> and the empty string are false.\<close>

definition truthy :: "string option \<Rightarrow> bool" where
  "truthy s \<longleftrightarrow> s \<noteq> None \<and> s \<noteq> Some []"

lemma truthy_simps [simp]:
  "\<not> truthy None" "truthy (Some s) \<longleftrightarrow> s \<noteq> []"
  by (auto simp: truthy_def)

lemma truthy_iff: "truthy s \<longleftrightarrow> (\<exists>v. s = Some v \<and> v \<noteq> [])"
  by (cases s) auto

section \<open>JSON values\<close>

text \<open>
  The values of the JSON columns. A float is kept as the text \<^verbatim>\<open>json.dumps\<close> prints for it: no
  modelled operation computes with one.
\<close>

datatype json =
    JNull
  | JBool bool
  | JInt int
  | JFloat string
  | JStr string
  | JList "json list"
  | JObj "(string \<times> json) list"

type_synonym json_obj = "(string \<times> json) list"

text \<open>A Python dict keeps insertion order; an update overwrites in place or appends.\<close>

fun dict_set :: "'k \<Rightarrow> 'v \<Rightarrow> ('k \<times> 'v) list \<Rightarrow> ('k \<times> 'v) list" where
  "dict_set k v [] = [(k, v)]"
| "dict_set k v ((k', v') # d) = (if k = k' then (k, v) # d else (k', v') # dict_set k v d)"

fun dict_update :: "('k \<times> 'v) list \<Rightarrow> ('k \<times> 'v) list \<Rightarrow> ('k \<times> 'v) list" where
  "dict_update d [] = d"
| "dict_update d ((k, v) # e) = dict_update (dict_set k v d) e"

lemma map_of_dict_set [simp]: "map_of (dict_set k v d) = (map_of d)(k \<mapsto> v)"
  by (induction d) (auto simp: fun_eq_iff)

lemma keys_dict_set: "fst ` set (dict_set k v d) = insert k (fst ` set d)"
proof (induction d)
  case Nil
  show ?case by simp
next
  case (Cons p d)
  then show ?case by (cases p) (simp add: insert_commute)
qed

lemma distinct_dict_set [simp]:
  "distinct (map fst d) \<Longrightarrow> distinct (map fst (dict_set k v d))"
proof (induction d)
  case Nil
  then show ?case by simp
next
  case (Cons p d)
  obtain k' v' where p: "p = (k', v')" by (cases p)
  have "k' \<notin> fst ` set d" using Cons.prems p by auto
  then show ?case using Cons p keys_dict_set [of k v d] by auto
qed

text \<open>Change the first element of a list that has a property.\<close>

fun map_first :: "('a \<Rightarrow> bool) \<Rightarrow> ('a \<Rightarrow> 'a) \<Rightarrow> 'a list \<Rightarrow> 'a list" where
  "map_first P f [] = []"
| "map_first P f (x # xs) = (if P x then f x # xs else x # map_first P f xs)"

section \<open>Keyed tables\<close>

text \<open>
  A table is the list of its rows in insertion order. \<open>tbl_get\<close> is \<^verbatim>\<open>session.get\<close> (look a row up
  by its primary key), \<open>tbl_put\<close> is the flush of a changed row, which replaces the stored row with
  the same key.
\<close>

definition tbl_get :: "('r \<Rightarrow> 'k) \<Rightarrow> 'r list \<Rightarrow> 'k \<Rightarrow> 'r option" where
  "tbl_get key t k = find (\<lambda>r. key r = k) t"

definition tbl_put :: "('r \<Rightarrow> 'k) \<Rightarrow> 'r \<Rightarrow> 'r list \<Rightarrow> 'r list" where
  "tbl_put key r t = map (\<lambda>x. if key x = key r then r else x) t"

text \<open>The interface of a table, as the services use it.\<close>

locale keyed_table =
  fixes key :: "'r \<Rightarrow> 'k"
    and get :: "'r list \<Rightarrow> 'k \<Rightarrow> 'r option"
    and put :: "'r \<Rightarrow> 'r list \<Rightarrow> 'r list"
  assumes get_Some: "get t k = Some r \<Longrightarrow> r \<in> set t \<and> key r = k"
    and get_None: "get t k = None \<longleftrightarrow> k \<notin> key ` set t"
    and keys_put: "map key (put r t) = map key t"
    and set_put: "set (put r t) =
      (if key r \<in> key ` set t then insert r {x \<in> set t. key x \<noteq> key r} else set t)"
begin

lemma get_mem: "get t k = Some r \<Longrightarrow> r \<in> set t"
  using get_Some by blast

lemma get_key: "get t k = Some r \<Longrightarrow> key r = k"
  using get_Some by blast

lemma get_unique:
  assumes "distinct (map key t)" and "r \<in> set t"
  shows "get t (key r) = Some r"
proof -
  have "key r \<in> key ` set t" using assms(2) by blast
  then obtain r' where r': "get t (key r) = Some r'"
    using get_None [of t "key r"] by (cases "get t (key r)") auto
  then have "r' \<in> set t" "key r' = key r" using get_Some by blast+
  with assms have "r' = r" by (auto simp: distinct_map inj_on_def)
  with r' show ?thesis by simp
qed

lemma distinct_put: "distinct (map key t) \<Longrightarrow> distinct (map key (put r t))"
  by (simp add: keys_put)

lemma key_set_put: "key ` set (put r t) = key ` set t"
  by (metis keys_put list.set_map)

lemma ball_put: "(\<forall>x \<in> set t. P x) \<Longrightarrow> P r \<Longrightarrow> \<forall>x \<in> set (put r t). P x"
  by (auto simp: set_put)

lemma mem_put: "x \<in> set (put r t) \<Longrightarrow> x = r \<or> x \<in> set t \<and> key x \<noteq> key r \<or> x \<in> set t \<and> key r \<notin> key ` set t"
  by (auto simp: set_put split: if_splits)

lemma get_put_same:
  assumes "distinct (map key t)" and "get t (key r) = Some r0"
  shows "get (put r t) (key r) = Some r"
proof (rule get_unique)
  show "distinct (map key (put r t))" using assms(1) by (rule distinct_put)
  have "key r \<in> key ` set t" using get_Some [OF assms(2)] by (metis imageI)
  then show "r \<in> set (put r t)" by (simp add: set_put)
qed

lemma get_put_other:
  assumes "distinct (map key t)" and "k \<noteq> key r"
  shows "get (put r t) k = get t k"
proof (cases "get t k")
  case None
  then show ?thesis using get_None key_set_put by metis
next
  case (Some x)
  then have x: "x \<in> set t" "key x = k" using get_Some by blast+
  with assms(2) have "x \<in> set (put r t)" by (auto simp: set_put)
  then have "get (put r t) (key x) = Some x"
    using get_unique [OF distinct_put [OF assms(1)]] by blast
  with x(2) Some show ?thesis by simp
qed

end

interpretation tbl: keyed_table key "tbl_get key" "tbl_put key" for key :: "'r \<Rightarrow> 'k"
proof
  fix t k r
  show "tbl_get key t k = Some r \<Longrightarrow> r \<in> set t \<and> key r = k"
    by (auto simp: tbl_get_def find_Some_iff)
  show "tbl_get key t k = None \<longleftrightarrow> k \<notin> key ` set t"
    by (auto simp: tbl_get_def find_None_iff)
  show "map key (tbl_put key r t) = map key t"
    by (auto simp: tbl_put_def)
  show "set (tbl_put key r t) =
      (if key r \<in> key ` set t then insert r {x \<in> set t. key x \<noteq> key r} else set t)"
    by (auto simp: tbl_put_def image_iff)
qed

lemmas [table_simps] = tbl.get_put_same tbl.get_put_other tbl.distinct_put tbl.key_set_put

lemma tbl_get_append:
  "tbl_get key (t @ [r]) k = (case tbl_get key t k of None \<Rightarrow> if key r = k then Some r else None
     | Some x \<Rightarrow> Some x)"
  by (induction t) (auto simp: tbl_get_def)

lemma length_filter_put_le:
  assumes "distinct (map key t)" "tbl_get key t (key r) = Some r0" "P r \<Longrightarrow> P r0"
  shows "length (filter P (tbl_put key r t)) \<le> length (filter P t)"
proof -
  have r0: "r0 \<in> set t" "key r0 = key r" using tbl.get_Some [OF assms(2)] by auto
  have uniq: "\<And>x. x \<in> set t \<Longrightarrow> key x = key r \<Longrightarrow> x = r0"
    using assms(1) r0 by (auto simp: distinct_map inj_on_def)
  have "\<And>u. set u \<subseteq> set t \<Longrightarrow>
      length (filter P (map (\<lambda>x. if key x = key r then r else x) u)) \<le> length (filter P u)"
    subgoal for u
      by (induction u) (use uniq assms(3) in auto)
    done
  from this [of t] show ?thesis by (simp add: tbl_put_def)
qed

section \<open>Step systems and invariants\<close>

locale step_system =
  fixes init :: "'s \<Rightarrow> bool" and step :: "'s \<Rightarrow> 's \<Rightarrow> bool" and inv :: "'s \<Rightarrow> bool"
  assumes inv_init: "init s \<Longrightarrow> inv s"
    and inv_step: "inv s \<Longrightarrow> step s t \<Longrightarrow> inv t"
begin

lemma inv_steps: "step\<^sup>*\<^sup>* s t \<Longrightarrow> inv s \<Longrightarrow> inv t"
  by (induction rule: rtranclp_induct) (auto intro: inv_step)

lemma inv_reachable: "init s \<Longrightarrow> step\<^sup>*\<^sup>* s t \<Longrightarrow> inv t"
  using inv_init inv_steps by blast

text \<open>A relation between an earlier and a later state that holds for each step from a state
  satisfying the invariant holds along every run.\<close>

lemma monotone_steps:
  assumes "step\<^sup>*\<^sup>* s t" and "inv s"
    and "\<And>s. R s s"
    and "\<And>s t u. R s t \<Longrightarrow> R t u \<Longrightarrow> R s u"
    and "\<And>s t. inv s \<Longrightarrow> step s t \<Longrightarrow> R s t"
  shows "R s t"
  using assms(1)
proof (induction rule: rtranclp_induct)
  case base
  show ?case by (rule assms(3))
next
  case (step t u)
  have "inv t" using step.hyps(1) assms(2) by (rule inv_steps)
  with step show ?case using assms(4,5) by blast
qed

end

end
