(* ===== verification/Job_State.thy ===== *)
theory Job_State
  imports Prelude
begin

text \<open>
  Status enums of \<^verbatim>\<open>jobs/models.py\<close>, the transition tables and guards of \<^verbatim>\<open>jobs/state.py\<close>, and
  the structured errors of \<^verbatim>\<open>jobs/errors.py\<close>. A status column holds the enum's value under a CHECK
  constraint, so the model stores the enum itself.
\<close>

section \<open>Enums\<close>

datatype audit_status = AS_CREATED | AS_RUNNING | AS_COMPLETED | AS_FAILED | AS_CANCELLED | AS_INTERRUPTED

datatype job_status = JS_QUEUED | JS_RUNNING | JS_COMPLETED | JS_FAILED | JS_CANCELLED | JS_INTERRUPTED

fun job_status_value :: "job_status \<Rightarrow> string" where
  "job_status_value JS_QUEUED = ''queued''"
| "job_status_value JS_RUNNING = ''running''"
| "job_status_value JS_COMPLETED = ''completed''"
| "job_status_value JS_FAILED = ''failed''"
| "job_status_value JS_CANCELLED = ''cancelled''"
| "job_status_value JS_INTERRUPTED = ''interrupted''"

definition terminal :: "job_status \<Rightarrow> bool" where
  "terminal s \<longleftrightarrow> s \<in> {JS_COMPLETED, JS_FAILED, JS_CANCELLED, JS_INTERRUPTED}"

datatype error_category =
  EC_VALIDATION | EC_TOOL_MISSING | EC_PERMISSION | EC_TIMEOUT | EC_CANCELLED | EC_INTERNAL
  | EC_STORAGE | EC_PARSE

fun error_category_value :: "error_category \<Rightarrow> string" where
  "error_category_value EC_VALIDATION = ''validation''"
| "error_category_value EC_TOOL_MISSING = ''tool_missing''"
| "error_category_value EC_PERMISSION = ''permission''"
| "error_category_value EC_TIMEOUT = ''timeout''"
| "error_category_value EC_CANCELLED = ''cancelled''"
| "error_category_value EC_INTERNAL = ''internal''"
| "error_category_value EC_STORAGE = ''storage''"
| "error_category_value EC_PARSE = ''parse''"

record job_error =
  je_code :: string
  je_category :: error_category
  je_message :: string
  je_component :: string
  je_retryable :: bool
  je_details :: json_obj

record job_progress =
  jp_percentage :: int
  jp_stage :: string
  jp_message :: string

text \<open>The field constraints pydantic checks before a progress value exists.\<close>

definition valid_progress :: "job_progress \<Rightarrow> bool" where
  "valid_progress p \<longleftrightarrow> 0 \<le> jp_percentage p \<and> jp_percentage p \<le> 100
     \<and> 1 \<le> length (jp_stage p) \<and> length (jp_stage p) \<le> 64
     \<and> 1 \<le> length (jp_message p) \<and> length (jp_message p) \<le> 512"

section \<open>Exceptions\<close>

datatype exc =
    EntityNotFound string
  | InvalidJobTransition job_status job_status
  | InvalidAuditTransition audit_status audit_status
  | ValueError string
  | IntegrityError
  | WorkerAlreadyRunning
  | RetryNotAllowed string
  | AuditBusy string nat
  | HandlerNotRegistered string

section \<open>Transition tables\<close>

fun JOB_TRANSITIONS :: "job_status \<Rightarrow> job_status set" where
  "JOB_TRANSITIONS JS_QUEUED = {JS_RUNNING, JS_CANCELLED}"
| "JOB_TRANSITIONS JS_RUNNING = {JS_COMPLETED, JS_FAILED, JS_CANCELLED, JS_INTERRUPTED}"
| "JOB_TRANSITIONS JS_COMPLETED = {}"
| "JOB_TRANSITIONS JS_FAILED = {}"
| "JOB_TRANSITIONS JS_CANCELLED = {}"
| "JOB_TRANSITIONS JS_INTERRUPTED = {}"

fun AUDIT_TRANSITIONS :: "audit_status \<Rightarrow> audit_status set" where
  "AUDIT_TRANSITIONS AS_CREATED = {AS_RUNNING, AS_CANCELLED, AS_FAILED}"
| "AUDIT_TRANSITIONS AS_RUNNING = {AS_COMPLETED, AS_FAILED, AS_CANCELLED, AS_INTERRUPTED}"
| "AUDIT_TRANSITIONS AS_COMPLETED = {AS_RUNNING}"
| "AUDIT_TRANSITIONS AS_FAILED = {AS_RUNNING}"
| "AUDIT_TRANSITIONS AS_CANCELLED = {AS_RUNNING}"
| "AUDIT_TRANSITIONS AS_INTERRUPTED = {AS_RUNNING}"

definition AUDIT_JOB_ACCEPTING :: "audit_status set" where
  "AUDIT_JOB_ACCEPTING = {AS_CREATED, AS_RUNNING, AS_COMPLETED}"

definition require_job_transition :: "job_status \<Rightarrow> job_status \<Rightarrow> exc + unit" where
  "require_job_transition current desired =
     (if desired \<notin> JOB_TRANSITIONS current then Inl (InvalidJobTransition current desired)
      else Inr ())"

definition require_audit_transition :: "audit_status \<Rightarrow> audit_status \<Rightarrow> exc + unit" where
  "require_audit_transition current desired =
     (if desired \<notin> AUDIT_TRANSITIONS current then Inl (InvalidAuditTransition current desired)
      else Inr ())"

lemma require_job_transition_Inr [simp]:
  "require_job_transition c d = Inr u \<longleftrightarrow> d \<in> JOB_TRANSITIONS c"
  by (simp add: require_job_transition_def)

lemma require_audit_transition_Inr [simp]:
  "require_audit_transition c d = Inr u \<longleftrightarrow> d \<in> AUDIT_TRANSITIONS c"
  by (simp add: require_audit_transition_def)

text \<open>Terminal is exactly "no outgoing transition".\<close>

lemma terminal_iff_no_transition: "terminal s \<longleftrightarrow> JOB_TRANSITIONS s = {}"
  by (cases s) (auto simp: terminal_def)

lemma terminal_simps [simp]:
  "\<not> terminal JS_QUEUED" "\<not> terminal JS_RUNNING"
  "terminal JS_COMPLETED" "terminal JS_FAILED" "terminal JS_CANCELLED" "terminal JS_INTERRUPTED"
  by (auto simp: terminal_def)

definition active :: "job_status \<Rightarrow> bool" where
  "active s \<longleftrightarrow> s \<in> {JS_QUEUED, JS_RUNNING}"

lemma active_simps [simp]:
  "active JS_QUEUED" "active JS_RUNNING"
  "\<not> active JS_COMPLETED" "\<not> active JS_FAILED" "\<not> active JS_CANCELLED" "\<not> active JS_INTERRUPTED"
  by (auto simp: active_def)

lemma active_iff_not_terminal: "active s \<longleftrightarrow> \<not> terminal s"
  by (cases s) auto

lemma no_transition_to_queued: "JS_QUEUED \<notin> JOB_TRANSITIONS s"
  by (cases s) auto

end
