(* ===== verification/Job_Store.thy ===== *)
theory Job_Store
  imports Job_State
begin

text \<open>
  The rows of \<^verbatim>\<open>persistence/models.py\<close> that the job system reads and writes, the database as one
  record of tables, and the transaction bracket of \<^verbatim>\<open>persistence/database.py\<close>. Times are
  microseconds since the epoch, UTC; the clock reading and the fresh UUIDs of an operation are its
  arguments.
\<close>

section \<open>Rows\<close>

record audit_row =
  a_id :: string
  a_created_at :: int
  a_started_at :: "int option"
  a_finished_at :: "int option"
  a_status :: audit_status
  a_profile :: string
  a_interface :: "string option"
  a_scope :: json_obj
  a_actor :: "string option"
  a_environment_snapshot_reference :: "string option"
  a_summary :: json_obj
  a_error :: "json_obj option"

record job_row =
  j_id :: string
  j_audit_id :: string
  j_type :: string
  j_status :: job_status
  j_priority :: int
  j_created_at :: int
  j_started_at :: "int option"
  j_finished_at :: "int option"
  j_progress :: int
  j_stage :: string
  j_message :: "string option"
  j_target :: "string option"
  j_parameters :: json_obj
  j_result_reference :: "string option"
  j_error_code :: "string option"
  j_error_category :: "error_category option"
  j_error_message :: "string option"
  j_error_component :: "string option"
  j_error_retryable :: "bool option"
  j_error_details :: "json_obj option"
  j_cancel_requested :: bool
  j_worker_id :: "string option"
  j_attempt :: int
  j_resource_key :: "string option"
  j_resource_group :: "string option"
  j_resource_limit :: "int option"

record event_row =
  e_audit_id :: string
  e_job_id :: string
  e_created_at :: int
  e_event_type :: string
  e_stage :: "string option"
  e_progress :: "int option"
  e_message :: string
  e_details :: json_obj

record lock_row =
  l_resource_key :: string
  l_resource_group :: "string option"
  l_job_id :: string
  l_worker_id :: string
  l_acquired_at :: int

datatype worker_status = W_STARTING | W_IDLE | W_RUNNING | W_STOPPED

record worker_row =
  w_id :: string
  w_started_at :: int
  w_heartbeat_at :: int
  w_status :: worker_status
  w_current_job_id :: "string option"

text \<open>The event table is in id order: an append is the next autoincremented id.\<close>

record db =
  audits :: "audit_row list"
  jobs :: "job_row list"
  events :: "event_row list"
  locks :: "lock_row list"
  workers :: "worker_row list"

definition empty_db :: db where
  "empty_db = \<lparr>audits = [], jobs = [], events = [], locks = [], workers = []\<rparr>"

section \<open>Row access\<close>

abbreviation get_audit_row :: "db \<Rightarrow> string \<Rightarrow> audit_row option" where
  "get_audit_row d \<equiv> tbl_get a_id (audits d)"

abbreviation get_job_row :: "db \<Rightarrow> string \<Rightarrow> job_row option" where
  "get_job_row d \<equiv> tbl_get j_id (jobs d)"

definition put_audit :: "audit_row \<Rightarrow> db \<Rightarrow> db" where
  "put_audit a d = d\<lparr>audits := tbl_put a_id a (audits d)\<rparr>"

definition put_job :: "job_row \<Rightarrow> db \<Rightarrow> db" where
  "put_job j d = d\<lparr>jobs := tbl_put j_id j (jobs d)\<rparr>"

text \<open>Inserting a row whose primary key is stored already is an integrity error.\<close>

definition insert_audit :: "audit_row \<Rightarrow> db \<Rightarrow> exc + db" where
  "insert_audit a d = (if get_audit_row d (a_id a) \<noteq> None then Inl IntegrityError
     else Inr (d\<lparr>audits := audits d @ [a]\<rparr>))"

text \<open>A job row also needs its audit (foreign key).\<close>

definition insert_job :: "job_row \<Rightarrow> db \<Rightarrow> exc + db" where
  "insert_job j d = (if get_job_row d (j_id j) \<noteq> None then Inl IntegrityError
     else if get_audit_row d (j_audit_id j) = None then Inl IntegrityError
     else Inr (d\<lparr>jobs := jobs d @ [j]\<rparr>))"

text \<open>A lock row has a unique key and a unique job, and its job must exist.\<close>

definition insert_lock :: "lock_row \<Rightarrow> db \<Rightarrow> exc + db" where
  "insert_lock l d = (if l_resource_key l \<in> l_resource_key ` set (locks d) then Inl IntegrityError
     else if l_job_id l \<in> l_job_id ` set (locks d) then Inl IntegrityError
     else if get_job_row d (l_job_id l) = None then Inl IntegrityError
     else Inr (d\<lparr>locks := locks d @ [l]\<rparr>))"

definition add_event_row :: "event_row \<Rightarrow> db \<Rightarrow> db" where
  "add_event_row e d = d\<lparr>events := events d @ [e]\<rparr>"

lemmas store_defs = put_audit_def put_job_def insert_audit_def insert_job_def insert_lock_def
  add_event_row_def

section \<open>Transactions\<close>

text \<open>
  \<^verbatim>\<open>immediate_session\<close> (and \<^verbatim>\<open>session.begin()\<close>): the body runs on the committed state; a raise rolls
  back and propagates, a normal return commits.
\<close>

definition immediate_session :: "(db \<Rightarrow> exc + db \<times> 'a) \<Rightarrow> db \<Rightarrow> db \<times> (exc + 'a)" where
  "immediate_session body d =
     (case body d of Inl e \<Rightarrow> (d, Inl e) | Inr (d', x) \<Rightarrow> (d', Inr x))"

lemma immediate_session_error: "snd (immediate_session f d) = Inl e \<Longrightarrow> fst (immediate_session f d) = d"
  by (auto simp: immediate_session_def split: sum.splits prod.splits)

lemma immediate_session_ok:
  "immediate_session f d = (d', Inr x) \<longleftrightarrow> f d = Inr (d', x)"
  by (auto simp: immediate_session_def split: sum.splits prod.splits)

lemma immediate_session_preserves:
  assumes "P d" and "\<And>d' x. f d = Inr (d', x) \<Longrightarrow> P d'"
  shows "P (fst (immediate_session f d))"
  using assms by (auto simp: immediate_session_def split: sum.splits prod.splits)

end
