(* ===== verification/Job_Service.thy ===== *)
theory Job_Service
  imports Job_Store
begin

text \<open>
  The transactional job service, \<^verbatim>\<open>jobs/service.py\<close>. A private helper works on the session's state
  and returns the new state or a raise; a public operation is its body in the transaction bracket.
  One clock reading \<open>now\<close> stands for the readings of one operation.
\<close>

section \<open>Records returned to callers\<close>

record job_record =
  jr_id :: string
  jr_audit_id :: string
  jr_type :: string
  jr_status :: job_status
  jr_priority :: int
  jr_created_at :: int
  jr_started_at :: "int option"
  jr_finished_at :: "int option"
  jr_updated_at :: int
  jr_progress :: int
  jr_stage :: string
  jr_message :: "string option"
  jr_target :: "string option"
  jr_parameters :: json_obj
  jr_result_reference :: "string option"
  jr_cancel_requested :: bool
  jr_worker_id :: "string option"
  jr_attempt :: int
  jr_resource_key :: "string option"
  jr_resource_group :: "string option"
  jr_error :: "job_error option"

definition later :: "int \<Rightarrow> int option \<Rightarrow> int" where
  "later left right = (case right of None \<Rightarrow> left | Some r \<Rightarrow> if r > left then r else left)"

text \<open>\<open>evs\<close> is the event table while the row is attached to a session, \<open>None\<close> after it closed.\<close>

definition job_updated_at :: "event_row list option \<Rightarrow> job_row \<Rightarrow> int" where
  "job_updated_at evs j =
     (let latest = later (later (j_created_at j) (j_started_at j)) (j_finished_at j)
      in case evs of None \<Rightarrow> latest
         | Some es \<Rightarrow>
             (case map e_created_at (filter (\<lambda>e. e_job_id e = j_id j) es) of
                [] \<Rightarrow> later latest None
              | t # ts \<Rightarrow> later latest (Some (fold max ts t))))"

definition job_record_error :: "job_row \<Rightarrow> job_error option" where
  "job_record_error j =
     (case (j_error_code j, j_error_category j, j_error_message j) of
        (Some c, Some cat, Some m) \<Rightarrow>
          if c \<noteq> [] \<and> m \<noteq> []
          then Some \<lparr>je_code = c, je_category = cat, je_message = m,
                     je_component = (if truthy (j_error_component j)
                                     then the (j_error_component j) else ''unknown''),
                     je_retryable = (j_error_retryable j = Some True),
                     je_details = (case j_error_details j of None \<Rightarrow> [] | Some d \<Rightarrow> d)\<rparr>
          else None
      | _ \<Rightarrow> None)"

definition job_record_of :: "event_row list option \<Rightarrow> job_row \<Rightarrow> job_record" where
  "job_record_of evs j =
     \<lparr>jr_id = j_id j, jr_audit_id = j_audit_id j, jr_type = j_type j, jr_status = j_status j,
      jr_priority = j_priority j, jr_created_at = j_created_at j, jr_started_at = j_started_at j,
      jr_finished_at = j_finished_at j, jr_updated_at = job_updated_at evs j,
      jr_progress = j_progress j, jr_stage = j_stage j, jr_message = j_message j,
      jr_target = j_target j, jr_parameters = j_parameters j,
      jr_result_reference = j_result_reference j, jr_cancel_requested = j_cancel_requested j,
      jr_worker_id = j_worker_id j, jr_attempt = j_attempt j, jr_resource_key = j_resource_key j,
      jr_resource_group = j_resource_group j, jr_error = job_record_error j\<rparr>"

record 'a page =
  p_items :: "'a list"
  p_limit :: nat
  p_offset :: nat
  p_total :: nat

definition page_of :: "nat \<Rightarrow> nat \<Rightarrow> 'a list \<Rightarrow> 'a page" where
  "page_of limit offset rows =
     \<lparr>p_items = take limit (drop offset rows), p_limit = limit, p_offset = offset,
      p_total = length rows\<rparr>"

section \<open>Private helpers\<close>

definition require_audit :: "db \<Rightarrow> string \<Rightarrow> exc + audit_row" where
  "require_audit d i = (case get_audit_row d i of
     None \<Rightarrow> Inl (EntityNotFound (''Audit not found: '' @ i)) | Some a \<Rightarrow> Inr a)"

definition require_job :: "db \<Rightarrow> string \<Rightarrow> exc + job_row" where
  "require_job d i = (case get_job_row d i of
     None \<Rightarrow> Inl (EntityNotFound (''Job not found: '' @ i)) | Some j \<Rightarrow> Inr j)"

definition add_event :: "int \<Rightarrow> job_row \<Rightarrow> string \<Rightarrow> string \<Rightarrow> db \<Rightarrow> db" where
  "add_event now j event_type message d =
     add_event_row \<lparr>e_audit_id = j_audit_id j, e_job_id = j_id j, e_created_at = now,
       e_event_type = event_type, e_stage = Some (j_stage j), e_progress = Some (j_progress j),
       e_message = message, e_details = []\<rparr> d"

definition apply_error :: "job_error \<Rightarrow> job_row \<Rightarrow> job_row" where
  "apply_error e j = j\<lparr>j_error_code := Some (je_code e), j_error_category := Some (je_category e),
     j_error_message := Some (je_message e), j_error_component := Some (je_component e),
     j_error_retryable := Some (je_retryable e), j_error_details := Some (je_details e)\<rparr>"

definition transitioned ::
  "int \<Rightarrow> job_row \<Rightarrow> job_status \<Rightarrow> string \<Rightarrow> int \<Rightarrow> string \<Rightarrow> job_error option \<Rightarrow> job_row" where
  "transitioned now j desired stage progress message err =
     (let j1 = j\<lparr>j_status := desired, j_stage := stage, j_progress := progress,
                 j_message := Some message\<rparr>;
          j2 = (if desired = JS_RUNNING
                then j1\<lparr>j_started_at := (case j_started_at j1 of None \<Rightarrow> Some now | t \<Rightarrow> t)\<rparr>
                else j1);
          j3 = (if terminal desired then j2\<lparr>j_finished_at := Some now\<rparr> else j2)
      in case err of None \<Rightarrow> j3 | Some e \<Rightarrow> apply_error e j3)"

definition transition_job ::
  "int \<Rightarrow> job_row \<Rightarrow> job_status \<Rightarrow> string \<Rightarrow> int \<Rightarrow> string \<Rightarrow> job_error option \<Rightarrow> db
     \<Rightarrow> exc + db \<times> job_row" where
  "transition_job now j desired stage progress message err d =
     rbind (require_job_transition (j_status j) desired) (\<lambda>_.
       let j' = transitioned now j desired stage progress message err
       in Inr (add_event now j' (''job_'' @ job_status_value desired) message (put_job j' d), j'))"

definition resource_available :: "db \<Rightarrow> job_row \<Rightarrow> bool" where
  "resource_available d j =
     (if truthy (j_resource_key j) \<and> the (j_resource_key j) \<in> l_resource_key ` set (locks d)
      then False
      else if truthy (j_resource_group j) \<and> j_resource_limit j \<noteq> None \<and> j_resource_limit j \<noteq> Some 0
      then int (length (filter (\<lambda>l. l_resource_group l = j_resource_group j) (locks d)))
             < the (j_resource_limit j)
      else True)"

definition release_lock :: "string \<Rightarrow> db \<Rightarrow> db" where
  "release_lock i d = d\<lparr>locks := filter (\<lambda>l. l_job_id l \<noteq> i) (locks d)\<rparr>"

definition audit_job_statuses :: "db \<Rightarrow> string \<Rightarrow> job_status list" where
  "audit_job_statuses d i = map j_status (filter (\<lambda>j. j_audit_id j = i) (jobs d))"

definition desired_audit_status :: "job_status list \<Rightarrow> audit_status" where
  "desired_audit_status ss =
     (if \<exists>s \<in> set ss. s \<in> {JS_QUEUED, JS_RUNNING} then AS_RUNNING
      else if JS_FAILED \<in> set ss then AS_FAILED
      else if JS_INTERRUPTED \<in> set ss then AS_INTERRUPTED
      else if JS_CANCELLED \<in> set ss then AS_CANCELLED
      else AS_COMPLETED)"

definition refreshed_audit :: "int \<Rightarrow> job_status list \<Rightarrow> audit_status \<Rightarrow> audit_row \<Rightarrow> audit_row" where
  "refreshed_audit now ss desired a =
     (let a1 = a\<lparr>a_status := desired\<rparr>;
          a2 = (if desired = AS_RUNNING
                then a1\<lparr>a_started_at := (case a_started_at a1 of None \<Rightarrow> Some now | t \<Rightarrow> t),
                        a_finished_at := None\<rparr>
                else if desired \<in> {AS_COMPLETED, AS_FAILED, AS_CANCELLED, AS_INTERRUPTED}
                then a1\<lparr>a_finished_at := Some now\<rparr>
                else a1)
      in if desired \<in> {AS_FAILED, AS_INTERRUPTED}
         then a2\<lparr>a_error := (case find (\<lambda>s. s \<in> {JS_FAILED, JS_INTERRUPTED}) ss of
                   None \<Rightarrow> None | Some s \<Rightarrow> Some [(''job_status'', JStr (job_status_value s))])\<rparr>
         else a2)"

definition refresh_audit :: "int \<Rightarrow> string \<Rightarrow> db \<Rightarrow> exc + db" where
  "refresh_audit now i d =
     rbind (require_audit d i) (\<lambda>a.
       let ss = audit_job_statuses d i; desired = desired_audit_status ss
       in if ss = [] then Inr d
          else if a_status a = desired then Inr d
          else rbind (require_audit_transition (a_status a) desired) (\<lambda>_.
                 Inr (put_audit (refreshed_audit now ss desired a) d)))"

definition merge_summary :: "string \<Rightarrow> json_obj \<Rightarrow> db \<Rightarrow> exc + db" where
  "merge_summary i summary d =
     rbind (require_audit d i) (\<lambda>a.
       Inr (put_audit (a\<lparr>a_summary := dict_update (a_summary a) summary\<rparr>) d))"

section \<open>Audits\<close>

definition create_audit ::
  "int \<Rightarrow> string \<Rightarrow> string \<Rightarrow> string option \<Rightarrow> json_obj option \<Rightarrow> string option \<Rightarrow> db
     \<Rightarrow> db \<times> (exc + audit_row)" where
  "create_audit now new_id profile interface scope actor =
     immediate_session (\<lambda>d.
       let a = \<lparr>a_id = new_id, a_created_at = now, a_started_at = None, a_finished_at = None,
                a_status = AS_CREATED, a_profile = profile, a_interface = interface,
                a_scope = (case scope of None \<Rightarrow> [] | Some s \<Rightarrow> s), a_actor = actor,
                a_environment_snapshot_reference = None, a_summary = [], a_error = None\<rparr>
       in rbind (insert_audit a d) (\<lambda>d'. Inr (d', a)))"

definition set_environment_reference :: "string \<Rightarrow> string \<Rightarrow> db \<Rightarrow> db \<times> (exc + audit_row)" where
  "set_environment_reference i artifact_id =
     immediate_session (\<lambda>d. rbind (require_audit d i) (\<lambda>a.
       let a' = a\<lparr>a_environment_snapshot_reference := Some artifact_id\<rparr>
       in Inr (put_audit a' d, a')))"

definition error_json :: "job_error \<Rightarrow> json_obj" where
  "error_json e = [(''code'', JStr (je_code e)),
     (''category'', JStr (error_category_value (je_category e))), (''message'', JStr (je_message e)),
     (''component'', JStr (je_component e)), (''retryable'', JBool (je_retryable e)),
     (''details'', JObj (je_details e))]"

definition fail_audit :: "int \<Rightarrow> string \<Rightarrow> job_error \<Rightarrow> db \<Rightarrow> db \<times> (exc + audit_row)" where
  "fail_audit now i e =
     immediate_session (\<lambda>d. rbind (require_audit d i) (\<lambda>a.
       rbind (require_audit_transition (a_status a) AS_FAILED) (\<lambda>_.
         let a' = a\<lparr>a_status := AS_FAILED, a_finished_at := Some now, a_error := Some (error_json e)\<rparr>
         in Inr (put_audit a' d, a'))))"

definition list_audits :: "nat \<Rightarrow> nat \<Rightarrow> audit_status option \<Rightarrow> db \<Rightarrow> audit_row page" where
  "list_audits limit offset status d =
     page_of limit offset (sort_key (\<lambda>a. - a_created_at a)
       (filter (\<lambda>a. case status of None \<Rightarrow> True | Some s \<Rightarrow> a_status a = s) (audits d)))"

section \<open>Jobs\<close>

definition queued_job ::
  "int \<Rightarrow> string \<Rightarrow> string \<Rightarrow> string \<Rightarrow> string option \<Rightarrow> json_obj option \<Rightarrow> int \<Rightarrow> string option
     \<Rightarrow> string option \<Rightarrow> int option \<Rightarrow> string \<Rightarrow> job_row" where
  "queued_job now new_id audit job_type target params priority rkey rgroup rlimit message =
     \<lparr>j_id = new_id, j_audit_id = audit, j_type = job_type, j_status = JS_QUEUED,
      j_priority = priority, j_created_at = now, j_started_at = None, j_finished_at = None,
      j_progress = 0, j_stage = ''queued'', j_message = Some message, j_target = target,
      j_parameters = (case params of None \<Rightarrow> [] | Some p \<Rightarrow> p), j_result_reference = None,
      j_error_code = None, j_error_category = None, j_error_message = None,
      j_error_component = None, j_error_retryable = None, j_error_details = None,
      j_cancel_requested = False, j_worker_id = None, j_attempt = 0, j_resource_key = rkey,
      j_resource_group = rgroup, j_resource_limit = rlimit\<rparr>"

definition create_job_tx ::
  "int \<Rightarrow> string \<Rightarrow> string \<Rightarrow> string \<Rightarrow> string option \<Rightarrow> json_obj option \<Rightarrow> int \<Rightarrow> string option
     \<Rightarrow> string option \<Rightarrow> int option \<Rightarrow> db \<Rightarrow> exc + db \<times> job_record" where
  "create_job_tx now new_id audit job_type target params priority rkey rgroup rlimit d =
     (let j = queued_job now new_id audit job_type target params priority rkey rgroup rlimit
                ''Job queued''
      in rbind (require_audit d audit) (\<lambda>a.
           if a_status a \<notin> AUDIT_JOB_ACCEPTING
           then Inl (InvalidAuditTransition (a_status a) AS_RUNNING)
           else rbind (if a_status a = AS_COMPLETED
                       then rbind (require_audit_transition (a_status a) AS_RUNNING) (\<lambda>_.
                              Inr (put_audit (a\<lparr>a_status := AS_RUNNING, a_finished_at := None\<rparr>) d))
                       else Inr d) (\<lambda>d1.
                rbind (insert_job j d1) (\<lambda>d2.
                  Inr (add_event now j ''job_queued'' ''Job queued'' d2, job_record_of None j)))))"

definition create_job where
  "create_job now new_id audit job_type target params priority rkey rgroup rlimit =
     immediate_session
       (create_job_tx now new_id audit job_type target params priority rkey rgroup rlimit)"

definition get_job :: "string \<Rightarrow> db \<Rightarrow> exc + job_record" where
  "get_job i d = rbind (require_job d i) (\<lambda>j. Inr (job_record_of (Some (events d)) j))"

definition list_jobs ::
  "nat \<Rightarrow> nat \<Rightarrow> job_status option \<Rightarrow> string option \<Rightarrow> string option \<Rightarrow> db \<Rightarrow> job_record page" where
  "list_jobs limit offset status audit job_type d =
     page_of limit offset (map (job_record_of None) (sort_key (\<lambda>j. - j_created_at j)
       (filter (\<lambda>j. (status = None \<or> status = Some (j_status j))
                  \<and> (audit = None \<or> audit = Some (j_audit_id j))
                  \<and> (job_type = None \<or> job_type = Some (j_type j))) (jobs d))))"

definition list_events :: "string \<Rightarrow> nat \<Rightarrow> nat \<Rightarrow> db \<Rightarrow> exc + event_row page" where
  "list_events i limit offset d = rbind (require_job d i) (\<lambda>_.
     Inr (page_of limit offset (filter (\<lambda>e. e_job_id e = i) (events d))))"

definition cancelled_before_start :: job_error where
  "cancelled_before_start = \<lparr>je_code = ''cancelled_before_start'', je_category = EC_CANCELLED,
     je_message = ''Job was cancelled before execution'', je_component = ''job_service'',
     je_retryable = False, je_details = []\<rparr>"

definition request_cancel_tx :: "int \<Rightarrow> string \<Rightarrow> db \<Rightarrow> exc + db \<times> job_record" where
  "request_cancel_tx now i d =
     rbind (require_job d i) (\<lambda>j.
       if j_status j = JS_QUEUED then
         rbind (transition_job now j JS_CANCELLED ''cancelled'' (j_progress j)
                  ''Queued job cancelled'' (Some cancelled_before_start) d) (\<lambda>(d1, j1).
           rbind (refresh_audit now (j_audit_id j1) d1) (\<lambda>d2. Inr (d2, job_record_of None j1)))
       else if j_status j = JS_RUNNING then
         (if \<not> j_cancel_requested j then
            let j1 = j\<lparr>j_cancel_requested := True\<rparr>
            in Inr (add_event now j1 ''cancellation_requested'' ''Cancellation requested''
                      (put_job j1 d), job_record_of None j1)
          else Inr (d, job_record_of None j))
       else Inr (d, job_record_of (Some (events d)) j))"

definition request_cancel where
  "request_cancel now i = immediate_session (request_cancel_tx now i)"

text \<open>\<^verbatim>\<open>ORDER BY priority DESC, created_at\<close>; equal keys stay in insertion order.\<close>

definition claim_candidates :: "db \<Rightarrow> job_row list" where
  "claim_candidates d = sort_key (\<lambda>j. (- j_priority j, j_created_at j))
     (filter (\<lambda>j. j_status j = JS_QUEUED) (jobs d))"

definition lock_key :: "job_row \<Rightarrow> string" where
  "lock_key j = (if truthy (j_resource_key j) then the (j_resource_key j) else ''job:'' @ j_id j)"

definition needs_lock :: "job_row \<Rightarrow> bool" where
  "needs_lock j \<longleftrightarrow> truthy (j_resource_key j) \<or> truthy (j_resource_group j)"

definition claim_audit :: "int \<Rightarrow> string \<Rightarrow> db \<Rightarrow> exc + db" where
  "claim_audit now i d =
     rbind (require_audit d i) (\<lambda>a.
       if a_status a \<in> {AS_CREATED, AS_COMPLETED}
       then rbind (require_audit_transition (a_status a) AS_RUNNING) (\<lambda>_.
              Inr (put_audit (a\<lparr>a_status := AS_RUNNING,
                     a_started_at := (case a_started_at a of None \<Rightarrow> Some now | t \<Rightarrow> t),
                     a_finished_at := None\<rparr>) d))
       else Inr d)"

definition claim_job :: "int \<Rightarrow> string \<Rightarrow> job_row \<Rightarrow> db \<Rightarrow> exc + db \<times> job_row" where
  "claim_job now worker j d =
     rbind (transition_job now j JS_RUNNING ''starting'' (max 1 (j_progress j))
              ''Worker claimed job'' None d) (\<lambda>(d1, j1).
       let j2 = j1\<lparr>j_worker_id := Some worker, j_attempt := j_attempt j1 + 1\<rparr>;
           d2 = put_job j2 d1
       in rbind (if needs_lock j2
                 then insert_lock \<lparr>l_resource_key = lock_key j2, l_resource_group = j_resource_group j2,
                        l_job_id = j_id j2, l_worker_id = worker, l_acquired_at = now\<rparr> d2
                 else Inr d2) (\<lambda>d3.
            rbind (claim_audit now (j_audit_id j2) d3) (\<lambda>d4. Inr (d4, j2))))"

definition mark_waiting :: "int \<Rightarrow> job_row \<Rightarrow> db \<Rightarrow> db" where
  "mark_waiting now j d =
     (if j_stage j \<noteq> ''resource_wait''
      then let j' = j\<lparr>j_stage := ''resource_wait'',
                      j_message := Some ''Waiting for exclusive resource''\<rparr>
           in add_event now j' ''resource_wait'' ''Waiting for exclusive resource'' (put_job j' d)
      else d)"

fun claim_loop :: "int \<Rightarrow> string \<Rightarrow> job_row list \<Rightarrow> db \<Rightarrow> exc + db \<times> job_row option" where
  "claim_loop now worker [] d = Inr (d, None)"
| "claim_loop now worker (j # js) d =
     (if \<not> resource_available d j then claim_loop now worker js (mark_waiting now j d)
      else rbind (claim_job now worker j d) (\<lambda>(d', j'). Inr (d', Some j')))"

definition claim_next :: "int \<Rightarrow> string \<Rightarrow> db \<Rightarrow> db \<times> (exc + job_record option)" where
  "claim_next now worker =
     immediate_session (\<lambda>d. rbind (claim_loop now worker (claim_candidates d) d) (\<lambda>(d', r).
       Inr (d', map_option (job_record_of (Some (events d'))) r)))"

definition update_progress_tx :: "int \<Rightarrow> string \<Rightarrow> job_progress \<Rightarrow> db \<Rightarrow> exc + db \<times> job_record" where
  "update_progress_tx now i p d =
     rbind (require_job d i) (\<lambda>j.
       if j_status j \<noteq> JS_RUNNING then Inl (InvalidJobTransition (j_status j) JS_RUNNING)
       else if jp_percentage p < j_progress j
       then Inl (ValueError ''Job progress cannot move backwards'')
       else let j' = j\<lparr>j_progress := jp_percentage p, j_stage := jp_stage p,
                       j_message := Some (jp_message p)\<rparr>
            in Inr (add_event now j' ''progress'' (jp_message p) (put_job j' d),
                    job_record_of None j'))"

definition update_progress where
  "update_progress now i p = immediate_session (update_progress_tx now i p)"

definition complete_job_tx ::
  "int \<Rightarrow> string \<Rightarrow> string option \<Rightarrow> json_obj option \<Rightarrow> db \<Rightarrow> exc + db \<times> job_record" where
  "complete_job_tx now i result_reference summary d =
     rbind (require_job d i) (\<lambda>j.
       rbind (transition_job now (j\<lparr>j_result_reference := result_reference\<rparr>) JS_COMPLETED
                ''completed'' 100 ''Job completed'' None d) (\<lambda>(d1, j1).
         let d2 = release_lock (j_id j1) d1
         in rbind (case summary of None \<Rightarrow> Inr d2
                   | Some s \<Rightarrow> merge_summary (j_audit_id j1) s d2) (\<lambda>d3.
              rbind (refresh_audit now (j_audit_id j1) d3) (\<lambda>d4.
                Inr (d4, job_record_of None j1)))))"

definition complete_job where
  "complete_job now i result_reference summary =
     immediate_session (complete_job_tx now i result_reference summary)"

definition fail_job_tx :: "int \<Rightarrow> string \<Rightarrow> job_error \<Rightarrow> db \<Rightarrow> exc + db \<times> job_record" where
  "fail_job_tx now i e d =
     rbind (require_job d i) (\<lambda>j.
       rbind (transition_job now j JS_FAILED ''failed'' (j_progress j) (je_message e) (Some e) d)
         (\<lambda>(d1, j1).
            rbind (refresh_audit now (j_audit_id j1) (release_lock (j_id j1) d1)) (\<lambda>d2.
              Inr (d2, job_record_of None j1))))"

definition fail_job where
  "fail_job now i e = immediate_session (fail_job_tx now i e)"

definition cancelled_error :: "string \<Rightarrow> job_error" where
  "cancelled_error message = \<lparr>je_code = ''cancelled'', je_category = EC_CANCELLED,
     je_message = message, je_component = ''job_worker'', je_retryable = False, je_details = []\<rparr>"

definition cancel_running_job_tx ::
  "int \<Rightarrow> string \<Rightarrow> string \<Rightarrow> string option \<Rightarrow> json_obj \<Rightarrow> db \<Rightarrow> exc + db \<times> job_record" where
  "cancel_running_job_tx now i message result_reference summary d =
     rbind (require_job d i) (\<lambda>j.
       let j0 = (if truthy result_reference then j\<lparr>j_result_reference := result_reference\<rparr> else j)
       in rbind (transition_job now j0 JS_CANCELLED ''cancelled'' (j_progress j0) message
                   (Some (cancelled_error message)) d) (\<lambda>(d1, j1).
            let d2 = release_lock (j_id j1) d1
            in rbind (if summary \<noteq> [] then merge_summary (j_audit_id j1) summary d2 else Inr d2)
                 (\<lambda>d3. rbind (refresh_audit now (j_audit_id j1) d3) (\<lambda>d4.
                    Inr (d4, job_record_of None j1)))))"

definition cancel_running_job where
  "cancel_running_job now i message result_reference summary =
     immediate_session (cancel_running_job_tx now i message result_reference summary)"

section \<open>Workers and recovery\<close>

definition application_restart :: job_error where
  "application_restart = \<lparr>je_code = ''application_restart'', je_category = EC_INTERNAL,
     je_message = ''Job interrupted by application restart'', je_component = ''job_recovery'',
     je_retryable = True, je_details = []\<rparr>"

fun interrupt_all :: "int \<Rightarrow> job_row list \<Rightarrow> db \<Rightarrow> exc + db" where
  "interrupt_all now [] d = Inr d"
| "interrupt_all now (j # js) d =
     rbind (transition_job now j JS_INTERRUPTED ''interrupted'' (j_progress j)
              ''Application restarted during execution'' (Some application_restart) d)
       (\<lambda>(d1, _). interrupt_all now js d1)"

fun refresh_all :: "int \<Rightarrow> string list \<Rightarrow> db \<Rightarrow> exc + db" where
  "refresh_all now [] d = Inr d"
| "refresh_all now (i # is) d = rbind (refresh_audit now i d) (refresh_all now is)"

definition running_jobs :: "db \<Rightarrow> job_row list" where
  "running_jobs d = filter (\<lambda>j. j_status j = JS_RUNNING) (jobs d)"

definition stop_workers :: "db \<Rightarrow> db" where
  "stop_workers d = d\<lparr>locks := [],
     workers := map (\<lambda>w. w\<lparr>w_status := W_STOPPED, w_current_job_id := None\<rparr>) (workers d)\<rparr>"

text \<open>The set of touched audits is traversed in the order of their first running job.\<close>

definition recover_running :: "int \<Rightarrow> db \<Rightarrow> exc + db \<times> nat" where
  "recover_running now d =
     (let running = running_jobs d
      in rbind (interrupt_all now running d) (\<lambda>d1.
           rbind (refresh_all now (remdups (map j_audit_id running)) (stop_workers d1)) (\<lambda>d2.
             Inr (d2, length running))))"

definition recover_after_restart where
  "recover_after_restart now = immediate_session (recover_running now)"

definition upsert_worker :: "int \<Rightarrow> string \<Rightarrow> db \<Rightarrow> db" where
  "upsert_worker now i d =
     (case tbl_get w_id (workers d) i of
        None \<Rightarrow> d\<lparr>workers := workers d @ [\<lparr>w_id = i, w_started_at = now, w_heartbeat_at = now,
                   w_status = W_STARTING, w_current_job_id = None\<rparr>]\<rparr>
      | Some w \<Rightarrow> d\<lparr>workers := tbl_put w_id (w\<lparr>w_started_at := now, w_heartbeat_at := now,
                   w_status := W_STARTING, w_current_job_id := None\<rparr>) (workers d)\<rparr>)"

definition healthy_workers :: "int \<Rightarrow> worker_status set \<Rightarrow> db \<Rightarrow> nat" where
  "healthy_workers cutoff states d =
     length (filter (\<lambda>w. w_heartbeat_at w \<ge> cutoff \<and> w_status w \<in> states) (workers d))"

definition prepare_supervisor :: "int \<Rightarrow> string \<Rightarrow> int \<Rightarrow> db \<Rightarrow> db \<times> (exc + nat)" where
  "prepare_supervisor now supervisor stale_after_seconds =
     immediate_session (\<lambda>d.
       if healthy_workers (now - stale_after_seconds * 1000000) {W_STARTING, W_IDLE, W_RUNNING} d > 0
       then Inl WorkerAlreadyRunning
       else rbind (recover_running now d) (\<lambda>(d1, n). Inr (upsert_worker now supervisor d1, n)))"

definition register_worker :: "int \<Rightarrow> string \<Rightarrow> db \<Rightarrow> db \<times> (exc + unit)" where
  "register_worker now i = immediate_session (\<lambda>d. Inr (upsert_worker now i d, ()))"

definition heartbeat_worker ::
  "int \<Rightarrow> string \<Rightarrow> worker_status \<Rightarrow> string option \<Rightarrow> db \<Rightarrow> db \<times> (exc + unit)" where
  "heartbeat_worker now i status current =
     immediate_session (\<lambda>d. case tbl_get w_id (workers d) i of
         None \<Rightarrow> Inl (EntityNotFound (''Worker not found: '' @ i))
       | Some w \<Rightarrow> Inr (d\<lparr>workers := tbl_put w_id (w\<lparr>w_heartbeat_at := now, w_status := status,
                    w_current_job_id := current\<rparr>) (workers d)\<rparr>, ()))"

definition worker_is_ready :: "int \<Rightarrow> int \<Rightarrow> db \<Rightarrow> bool" where
  "worker_is_ready now stale_after_seconds d \<longleftrightarrow>
     healthy_workers (now - stale_after_seconds * 1000000) {W_IDLE, W_RUNNING} d > 0"

end
