(* ===== verification/Job_Invariant.thy ===== *)
theory Job_Invariant
  imports Job_Service
begin

text \<open>
  The invariant of the job store: keys are unique, every job has its audit, the resource locks are
  exactly those of the running jobs that need one, progress stays in its range, and the status of an
  audit is the summary of its jobs' statuses. Every operation of the service keeps it.
\<close>

section \<open>The invariant\<close>

definition keys_ok :: "db \<Rightarrow> bool" where
  "keys_ok d \<longleftrightarrow> distinct (map a_id (audits d)) \<and> distinct (map j_id (jobs d))
     \<and> distinct (map l_resource_key (locks d)) \<and> distinct (map l_job_id (locks d))
     \<and> (\<forall>j \<in> set (jobs d). j_audit_id j \<in> a_id ` set (audits d))"

definition lock_of :: "job_row \<Rightarrow> lock_row \<Rightarrow> bool" where
  "lock_of j l \<longleftrightarrow> l_job_id l = j_id j \<and> j_status j = JS_RUNNING \<and> needs_lock j
     \<and> l_resource_key l = lock_key j \<and> l_resource_group l = j_resource_group j"

definition locks_ok :: "db \<Rightarrow> bool" where
  "locks_ok d \<longleftrightarrow> (\<forall>l \<in> set (locks d). \<exists>j \<in> set (jobs d). lock_of j l)
     \<and> (\<forall>j \<in> set (jobs d). j_status j = JS_RUNNING \<and> needs_lock j
          \<longrightarrow> (\<exists>l \<in> set (locks d). lock_of j l))"

definition progress_ok :: "job_row \<Rightarrow> bool" where
  "progress_ok j \<longleftrightarrow> 0 \<le> j_progress j \<and> j_progress j \<le> 100
     \<and> (j_status j = JS_RUNNING \<longrightarrow> 1 \<le> j_progress j)
     \<and> (j_status j = JS_COMPLETED \<longrightarrow> j_progress j = 100)"

definition core_inv :: "db \<Rightarrow> bool" where
  "core_inv d \<longleftrightarrow> keys_ok d \<and> locks_ok d \<and> (\<forall>j \<in> set (jobs d). progress_ok j)"

text \<open>A new audit only holds queued jobs; any other audit shows the summary of its jobs.\<close>

definition summary_ok :: "audit_status \<Rightarrow> job_status list \<Rightarrow> bool" where
  "summary_ok s ss \<longleftrightarrow> (if s = AS_CREATED then set ss \<subseteq> {JS_QUEUED}
     else ss = [] \<or> s = desired_audit_status ss)"

definition audit_ok :: "db \<Rightarrow> string \<Rightarrow> bool" where
  "audit_ok d i \<longleftrightarrow>
     (\<forall>a \<in> set (audits d). a_id a = i \<longrightarrow> summary_ok (a_status a) (audit_job_statuses d i))"

definition job_inv :: "db \<Rightarrow> bool" where
  "job_inv d \<longleftrightarrow> core_inv d \<and> (\<forall>i. audit_ok d i)"

text \<open>What \<^const>\<open>refresh_audit\<close> needs to succeed.\<close>

definition refreshable :: "audit_status \<Rightarrow> job_status list \<Rightarrow> bool" where
  "refreshable s ss \<longleftrightarrow> ss = [] \<or> s = desired_audit_status ss \<or> s = AS_RUNNING
     \<or> (s = AS_CREATED \<and> set ss \<subseteq> {JS_QUEUED, JS_CANCELLED})"

lemma desired_audit_status_range:
  "desired_audit_status ss \<in> {AS_RUNNING, AS_FAILED, AS_INTERRUPTED, AS_CANCELLED, AS_COMPLETED}"
  by (simp add: desired_audit_status_def)

lemma desired_not_started:
  assumes "set ss \<subseteq> {JS_QUEUED, JS_CANCELLED}" "ss \<noteq> []"
  shows "desired_audit_status ss = (if JS_QUEUED \<in> set ss then AS_RUNNING else AS_CANCELLED)"
proof -
  have "JS_QUEUED \<in> set ss \<or> JS_CANCELLED \<in> set ss" using assms by (cases ss) auto
  moreover have "JS_FAILED \<notin> set ss" "JS_INTERRUPTED \<notin> set ss" "JS_RUNNING \<notin> set ss"
    using assms(1) by auto
  ultimately show ?thesis by (auto simp: desired_audit_status_def)
qed

lemma refreshable_transition:
  assumes "refreshable s ss" "ss \<noteq> []" "s \<noteq> desired_audit_status ss"
  shows "desired_audit_status ss \<in> AUDIT_TRANSITIONS s"
proof -
  consider "s = AS_RUNNING" | "s = AS_CREATED" "set ss \<subseteq> {JS_QUEUED, JS_CANCELLED}"
    using assms by (auto simp: refreshable_def)
  then show ?thesis
  proof cases
    case 1
    with assms(3) desired_audit_status_range [of ss] show ?thesis by auto
  next
    case 2
    with assms(2) show ?thesis by (simp add: desired_not_started)
  qed
qed

lemma desired_neq_created [simp]:
  "desired_audit_status ss \<noteq> AS_CREATED" "AS_CREATED \<noteq> desired_audit_status ss"
  by (simp_all add: desired_audit_status_def)

lemma desired_cong: "set ss = set ss' \<Longrightarrow> desired_audit_status ss = desired_audit_status ss'"
  by (simp add: desired_audit_status_def)

lemma set_audit_job_statuses:
  "set (audit_job_statuses d i) = j_status ` {j \<in> set (jobs d). j_audit_id j = i}"
  by (auto simp: audit_job_statuses_def)

lemma audit_job_statuses_Nil: "audit_job_statuses d i = [] \<longleftrightarrow> (\<forall>j \<in> set (jobs d). j_audit_id j \<noteq> i)"
  by (auto simp: audit_job_statuses_def filter_empty_conv)

section \<open>Frame lemmas\<close>

lemma events_frame [simp]:
  "core_inv (add_event n j t m d) = core_inv d"
  "audit_ok (add_event n j t m d) i = audit_ok d i"
  "jobs (add_event n j t m d) = jobs d"
  "audits (add_event n j t m d) = audits d"
  "locks (add_event n j t m d) = locks d"
  "workers (add_event n j t m d) = workers d"
  "audit_job_statuses (add_event n j t m d) i = audit_job_statuses d i"
  by (simp_all add: add_event_def add_event_row_def core_inv_def keys_ok_def locks_ok_def
      audit_ok_def audit_job_statuses_def)

lemma put_job_frame [simp]:
  "audits (put_job j d) = audits d" "locks (put_job j d) = locks d"
  "events (put_job j d) = events d" "workers (put_job j d) = workers d"
  "jobs (put_job j d) = tbl_put j_id j (jobs d)"
  by (simp_all add: put_job_def)

lemma put_audit_frame [simp]:
  "jobs (put_audit a d) = jobs d" "locks (put_audit a d) = locks d"
  "events (put_audit a d) = events d" "workers (put_audit a d) = workers d"
  "audits (put_audit a d) = tbl_put a_id a (audits d)"
  "audit_job_statuses (put_audit a d) i = audit_job_statuses d i"
  by (simp_all add: put_audit_def audit_job_statuses_def)

lemma release_lock_frame [simp]:
  "jobs (release_lock i d) = jobs d" "audits (release_lock i d) = audits d"
  "events (release_lock i d) = events d" "workers (release_lock i d) = workers d"
  "audit_job_statuses (release_lock i d) k = audit_job_statuses d k"
  "audit_ok (release_lock i d) k = audit_ok d k"
  by (simp_all add: release_lock_def audit_job_statuses_def audit_ok_def)

lemma core_inv_put_audit [simp]: "core_inv (put_audit a d) = core_inv d"
  by (simp add: core_inv_def keys_ok_def locks_ok_def tbl.keys_put tbl.key_set_put)

lemma core_inv_keys: "core_inv d \<Longrightarrow> keys_ok d"
  by (simp add: core_inv_def)

lemma job_unique:
  "keys_ok d \<Longrightarrow> j \<in> set (jobs d) \<Longrightarrow> k \<in> set (jobs d) \<Longrightarrow> j_id j = j_id k \<Longrightarrow> j = k"
  by (auto simp: keys_ok_def distinct_map inj_on_def)

lemma audit_unique:
  "keys_ok d \<Longrightarrow> a \<in> set (audits d) \<Longrightarrow> b \<in> set (audits d) \<Longrightarrow> a_id a = a_id b \<Longrightarrow> a = b"
  by (auto simp: keys_ok_def distinct_map inj_on_def)

lemma get_job_row_iff:
  "keys_ok d \<Longrightarrow> get_job_row d i = Some j \<longleftrightarrow> j \<in> set (jobs d) \<and> j_id j = i"
  using tbl.get_Some [of j_id "jobs d" i j] tbl.get_unique [of j_id "jobs d" j]
  by (auto simp: keys_ok_def)

lemma get_audit_row_iff:
  "keys_ok d \<Longrightarrow> get_audit_row d i = Some a \<longleftrightarrow> a \<in> set (audits d) \<and> a_id a = i"
  using tbl.get_Some [of a_id "audits d" i a] tbl.get_unique [of a_id "audits d" a]
  by (auto simp: keys_ok_def)

lemma require_job_Inr:
  "keys_ok d \<Longrightarrow> require_job d i = Inr j \<longleftrightarrow> j \<in> set (jobs d) \<and> j_id j = i"
  using get_job_row_iff [of d i] by (cases "get_job_row d i") (auto simp: require_job_def)

lemma require_audit_Inr:
  "keys_ok d \<Longrightarrow> require_audit d i = Inr a \<longleftrightarrow> a \<in> set (audits d) \<and> a_id a = i"
  using get_audit_row_iff [of d i] by (cases "get_audit_row d i") (auto simp: require_audit_def)

lemma require_audit_exists:
  "keys_ok d \<Longrightarrow> j \<in> set (jobs d) \<Longrightarrow> \<exists>a. require_audit d (j_audit_id j) = Inr a"
  by (simp add: require_audit_Inr) (force simp: keys_ok_def)

lemma set_put_job:
  assumes "keys_ok d" "j0 \<in> set (jobs d)" "j_id j' = j_id j0"
  shows "set (tbl_put j_id j' (jobs d)) = insert j' (set (jobs d) - {j0})"
proof -
  have "{x \<in> set (jobs d). j_id x \<noteq> j_id j'} = set (jobs d) - {j0}"
    using assms job_unique [OF assms(1)] by auto
  moreover have "j_id j' \<in> j_id ` set (jobs d)" using assms by auto
  ultimately show ?thesis by (simp add: tbl.set_put)
qed

lemma statuses_put_other:
  assumes "keys_ok d" "j0 \<in> set (jobs d)" "j_id j' = j_id j0" "j_audit_id j' = j_audit_id j0"
    and "i \<noteq> j_audit_id j0 \<or> j_status j' = j_status j0"
  shows "audit_job_statuses (put_job j' d) i = audit_job_statuses d i"
proof -
  have hit: "x = j0" if "x \<in> set (jobs d)" "j_id x = j_id j'" for x
    using job_unique [OF assms(1) that(1) assms(2)] that(2) assms(3) by simp
  have "set u \<subseteq> set (jobs d) \<Longrightarrow>
      map j_status (filter (\<lambda>j. j_audit_id j = i) (map (\<lambda>x. if j_id x = j_id j' then j' else x) u))
        = map j_status (filter (\<lambda>j. j_audit_id j = i) u)" for u
  proof (induction u)
    case Nil
    show ?case by simp
  next
    case (Cons x u)
    then have x: "x \<in> set (jobs d)" by simp
    show ?case
    proof (cases "j_id x = j_id j'")
      case True
      then have "x = j0" using hit [OF x] by simp
      with True Cons assms(4,5) show ?thesis by auto
    next
      case False
      with Cons show ?thesis by simp
    qed
  qed
  from this [of "jobs d"] show ?thesis
    by (simp add: audit_job_statuses_def tbl_put_def)
qed

section \<open>Single row changes\<close>

lemma transitioned_frame [simp]:
  "j_id (transitioned n j s st p m e) = j_id j"
  "j_audit_id (transitioned n j s st p m e) = j_audit_id j"
  "j_status (transitioned n j s st p m e) = s"
  "j_progress (transitioned n j s st p m e) = p"
  "j_resource_key (transitioned n j s st p m e) = j_resource_key j"
  "j_resource_group (transitioned n j s st p m e) = j_resource_group j"
  "j_resource_limit (transitioned n j s st p m e) = j_resource_limit j"
  by (simp_all add: transitioned_def apply_error_def Let_def split: option.splits)

text \<open>Two versions of a row that the store treats as the same job.\<close>

definition same_job :: "job_row \<Rightarrow> job_row \<Rightarrow> bool" where
  "same_job j0 j' \<longleftrightarrow> j_id j' = j_id j0 \<and> j_audit_id j' = j_audit_id j0
     \<and> j_resource_key j' = j_resource_key j0 \<and> j_resource_group j' = j_resource_group j0"

lemma same_job_lock_key: "same_job j0 j' \<Longrightarrow> lock_key j' = lock_key j0"
  and same_job_needs_lock: "same_job j0 j' \<Longrightarrow> needs_lock j' = needs_lock j0"
  by (simp_all add: same_job_def lock_key_def needs_lock_def)

lemma same_job_lock_of:
  "same_job j0 j' \<Longrightarrow> j_status j' = j_status j0 \<Longrightarrow> lock_of j' l = lock_of j0 l"
  using same_job_lock_key [of j0 j'] same_job_needs_lock [of j0 j']
  by (auto simp: lock_of_def same_job_def)

lemma keys_ok_put_job:
  assumes "keys_ok d" "j0 \<in> set (jobs d)" "same_job j0 j'"
  shows "keys_ok (put_job j' d)"
proof -
  have "set (tbl_put j_id j' (jobs d)) = insert j' (set (jobs d) - {j0})"
    using assms set_put_job by (simp add: same_job_def)
  with assms show ?thesis by (auto simp: keys_ok_def tbl.keys_put same_job_def)
qed

lemma core_inv_put_same:
  assumes inv: "core_inv d" and j0: "j0 \<in> set (jobs d)" and same: "same_job j0 j'"
    and st: "j_status j' = j_status j0" and pr: "progress_ok j'"
  shows "core_inv (put_job j' d)"
proof -
  have keys: "keys_ok d" using inv by (rule core_inv_keys)
  have jobs': "set (tbl_put j_id j' (jobs d)) = insert j' (set (jobs d) - {j0})"
    using set_put_job [OF keys j0] same by (simp add: same_job_def)
  have lk: "lock_of j' l = lock_of j0 l" for l by (rule same_job_lock_of [OF same st])
  have ok: "locks_ok d" using inv by (simp add: core_inv_def)
  have "locks_ok (put_job j' d)"
    unfolding locks_ok_def put_job_frame jobs'
  proof (intro conjI ballI impI)
    fix l assume "l \<in> set (locks d)"
    then obtain j where "j \<in> set (jobs d)" "lock_of j l" using ok by (auto simp: locks_ok_def)
    then show "\<exists>j \<in> insert j' (set (jobs d) - {j0}). lock_of j l"
      using lk by (cases "j = j0") blast+
  next
    fix j assume j: "j \<in> insert j' (set (jobs d) - {j0})"
      and r: "j_status j = JS_RUNNING \<and> needs_lock j"
    show "\<exists>l \<in> set (locks d). lock_of j l"
    proof (cases "j = j'")
      case True
      with r st same_job_needs_lock [OF same] have "j_status j0 = JS_RUNNING \<and> needs_lock j0" by simp
      with ok j0 True lk show ?thesis by (simp add: locks_ok_def)
    next
      case False
      with j r ok show ?thesis by (simp add: locks_ok_def)
    qed
  qed
  then show ?thesis
    using inv keys_ok_put_job [OF keys j0 same] pr jobs' by (auto simp: core_inv_def)
qed

lemma lock_of_unique_job:
  assumes "core_inv d" "l \<in> set (locks d)" "j \<in> set (jobs d)" "l_job_id l = j_id j"
  shows "lock_of j l"
proof -
  from assms obtain k where "k \<in> set (jobs d)" "lock_of k l"
    by (auto simp: core_inv_def locks_ok_def)
  moreover with assms have "k = j"
    using job_unique [OF core_inv_keys [OF assms(1)]] by (auto simp: lock_of_def)
  ultimately show ?thesis by simp
qed

lemma core_inv_finish:
  assumes inv: "core_inv d" and j0: "j0 \<in> set (jobs d)" and same: "same_job j0 j'"
    and st: "j_status j' \<noteq> JS_RUNNING" and pr: "progress_ok j'"
  shows "core_inv (release_lock (j_id j0) (put_job j' d))"
proof -
  have keys: "keys_ok d" using inv by (rule core_inv_keys)
  have jobs': "set (tbl_put j_id j' (jobs d)) = insert j' (set (jobs d) - {j0})"
    using set_put_job [OF keys j0] same by (simp add: same_job_def)
  have k: "keys_ok (release_lock (j_id j0) (put_job j' d))"
    using keys_ok_put_job [OF keys j0 same]
    by (auto simp: keys_ok_def release_lock_def intro: distinct_map_filter)
  have "locks_ok (release_lock (j_id j0) (put_job j' d))"
    unfolding locks_ok_def
  proof (intro conjI ballI impI)
    fix l assume "l \<in> set (locks (release_lock (j_id j0) (put_job j' d)))"
    then have l: "l \<in> set (locks d)" "l_job_id l \<noteq> j_id j0" by (auto simp: release_lock_def)
    then obtain j where "j \<in> set (jobs d)" "lock_of j l"
      using inv by (auto simp: core_inv_def locks_ok_def)
    with l(2) show "\<exists>j \<in> set (jobs (release_lock (j_id j0) (put_job j' d))). lock_of j l"
      using jobs' by (auto simp: lock_of_def)
  next
    fix j assume "j \<in> set (jobs (release_lock (j_id j0) (put_job j' d)))"
      and r: "j_status j = JS_RUNNING \<and> needs_lock j"
    then have j: "j \<in> set (jobs d)" "j \<noteq> j0" using jobs' st by auto
    with r obtain l where l: "l \<in> set (locks d)" "lock_of j l"
      using inv by (auto simp: core_inv_def locks_ok_def)
    moreover have "l_job_id l \<noteq> j_id j0"
      using l(2) j job_unique [OF keys j(1) j0] by (auto simp: lock_of_def)
    ultimately show "\<exists>l \<in> set (locks (release_lock (j_id j0) (put_job j' d))). lock_of j l"
      by (auto simp: release_lock_def)
  qed
  with k show ?thesis using inv pr jobs' by (auto simp: core_inv_def)
qed

text \<open>A job that does not run holds no lock, so cancelling a queued job has none to release.\<close>

lemma release_lock_idle:
  assumes "core_inv d" "j \<in> set (jobs d)" "j_status j \<noteq> JS_RUNNING"
  shows "release_lock (j_id j) d = d"
proof -
  have "\<forall>l \<in> set (locks d). l_job_id l \<noteq> j_id j"
    using lock_of_unique_job [OF assms(1) _ assms(2)] assms(3) by (auto simp: lock_of_def)
  then have "filter (\<lambda>l. l_job_id l \<noteq> j_id j) (locks d) = locks d"
    by (simp add: filter_id_conv)
  then show ?thesis by (simp add: release_lock_def)
qed

lemma core_inv_finish_queued:
  assumes inv: "core_inv d" and j0: "j0 \<in> set (jobs d)" and same: "same_job j0 j'"
    and st0: "j_status j0 \<noteq> JS_RUNNING" and st: "j_status j' \<noteq> JS_RUNNING" and pr: "progress_ok j'"
  shows "core_inv (put_job j' d)"
proof -
  have "release_lock (j_id j0) (put_job j' d) = put_job j' (release_lock (j_id j0) d)"
    by (simp add: release_lock_def put_job_def)
  with core_inv_finish [OF inv j0 same st pr] release_lock_idle [OF inv j0 st0]
  show ?thesis by simp
qed

section \<open>Audit rows\<close>

lemma put_job_put_job: "j_id j2 = j_id j1 \<Longrightarrow> put_job j2 (put_job j1 d) = put_job j2 d"
  by (simp add: put_job_def tbl_put_def)

lemma put_job_add_event: "put_job j2 (add_event n j t m d) = add_event n j t m (put_job j2 d)"
  by (simp add: put_job_def add_event_def add_event_row_def)

lemma release_lock_add_event: "release_lock i (add_event n j t m d) = add_event n j t m (release_lock i d)"
  by (simp add: release_lock_def add_event_def add_event_row_def)

lemma set_put_audit:
  assumes "keys_ok d" "a0 \<in> set (audits d)" "a_id a' = a_id a0"
  shows "set (tbl_put a_id a' (audits d)) = insert a' (set (audits d) - {a0})"
proof -
  have "{x \<in> set (audits d). a_id x \<noteq> a_id a'} = set (audits d) - {a0}"
    using assms audit_unique [OF assms(1)] by auto
  moreover have "a_id a' \<in> a_id ` set (audits d)" using assms by auto
  ultimately show ?thesis by (simp add: tbl.set_put)
qed

lemma audit_okI:
  assumes "keys_ok d" "a \<in> set (audits d)" "a_id a = i"
    and "summary_ok (a_status a) (audit_job_statuses d i)"
  shows "audit_ok d i"
  unfolding audit_ok_def
proof (intro ballI impI)
  fix b assume "b \<in> set (audits d)" "a_id b = i"
  then have "b = a" using audit_unique [OF assms(1) _ assms(2)] assms(3) by simp
  then show "summary_ok (a_status b) (audit_job_statuses d i)" using assms(4) by simp
qed

lemma audit_okD:
  "audit_ok d i \<Longrightarrow> a \<in> set (audits d) \<Longrightarrow> a_id a = i \<Longrightarrow> summary_ok (a_status a) (audit_job_statuses d i)"
  by (simp add: audit_ok_def)

lemma audit_ok_put_audit:
  assumes "keys_ok d" "a0 \<in> set (audits d)" "a_id a' = a_id a0"
    and "k \<noteq> a_id a0 \<Longrightarrow> audit_ok d k"
    and "k = a_id a0 \<Longrightarrow> summary_ok (a_status a') (audit_job_statuses d k)"
  shows "audit_ok (put_audit a' d) k"
proof -
  have s: "set (audits (put_audit a' d)) = insert a' (set (audits d) - {a0})"
    using set_put_audit assms by simp
  show ?thesis
    unfolding audit_ok_def
  proof (intro ballI impI)
    fix a assume a: "a \<in> set (audits (put_audit a' d))" and k: "a_id a = k"
    show "summary_ok (a_status a) (audit_job_statuses (put_audit a' d) k)"
    proof (cases "a = a'")
      case True
      with k assms(3,5) show ?thesis by simp
    next
      case False
      with a s have "a \<in> set (audits d)" "a \<noteq> a0" by auto
      moreover then have "k \<noteq> a_id a0" using audit_unique [OF assms(1) _ assms(2)] k by auto
      ultimately show ?thesis using assms(4) k by (simp add: audit_ok_def)
    qed
  qed
qed

lemma audit_ok_same_status:
  assumes "keys_ok d" "a0 \<in> set (audits d)" "a_id a' = a_id a0" "a_status a' = a_status a0"
    and "audit_ok d k"
  shows "audit_ok (put_audit a' d) k"
  using assms by (intro audit_ok_put_audit [of d a0]) (auto simp: audit_ok_def)

lemma refreshed_audit_frame [simp]:
  "a_id (refreshed_audit n ss s a) = a_id a" "a_status (refreshed_audit n ss s a) = s"
  by (simp_all add: refreshed_audit_def Let_def split: option.splits)

lemma refresh_audit_succeeds:
  assumes "require_audit d i = Inr a" "refreshable (a_status a) (audit_job_statuses d i)"
  shows "\<exists>d'. refresh_audit now i d = Inr d'"
  using assms refreshable_transition [of "a_status a" "audit_job_statuses d i"]
  by (auto simp: refresh_audit_def Let_def require_audit_transition_def)

lemma refresh_audit_cases:
  assumes "refresh_audit now i d = Inr d'"
  obtains "d' = d" "\<exists>a. require_audit d i = Inr a
      \<and> (audit_job_statuses d i = [] \<or> a_status a = desired_audit_status (audit_job_statuses d i))"
  | a where "require_audit d i = Inr a"
      "d' = put_audit (refreshed_audit now (audit_job_statuses d i)
              (desired_audit_status (audit_job_statuses d i)) a) d"
  using assms by (auto simp: refresh_audit_def Let_def split: if_splits)

lemma refresh_audit_frame:
  assumes "refresh_audit now i d = Inr d'"
  shows "jobs d' = jobs d" "locks d' = locks d" "events d' = events d" "workers d' = workers d"
    "core_inv d' = core_inv d" "audit_job_statuses d' k = audit_job_statuses d k"
  using assms by (auto elim!: refresh_audit_cases)

lemma refresh_audit_other:
  assumes keys: "keys_ok d" and r: "refresh_audit now i d = Inr d'" and k: "k \<noteq> i" "audit_ok d k"
  shows "audit_ok d' k"
  using r
proof (cases rule: refresh_audit_cases)
  case 1
  with k show ?thesis by simp
next
  case (2 a)
  then have "a \<in> set (audits d)" "a_id a = i" using require_audit_Inr [OF keys] by auto
  with 2(2) k show ?thesis by (auto intro!: audit_ok_put_audit [OF keys])
qed

lemma refresh_audit_self:
  assumes keys: "keys_ok d" and r: "refresh_audit now i d = Inr d'"
    and ne: "audit_job_statuses d i \<noteq> []"
  shows "audit_ok d' i"
  using r
proof (cases rule: refresh_audit_cases)
  case 1
  then obtain a where a: "require_audit d i = Inr a"
    "a_status a = desired_audit_status (audit_job_statuses d i)" using ne by auto
  have "b = a" if "b \<in> set (audits d)" "a_id b = i" for b
    using a(1) that audit_unique [OF keys] require_audit_Inr [OF keys] by auto
  with 1(1) a(2) show ?thesis by (auto simp: audit_ok_def summary_ok_def)
next
  case (2 a)
  then have "a \<in> set (audits d)" "a_id a = i" using require_audit_Inr [OF keys] by auto
  with 2(2) show ?thesis by (auto intro!: audit_ok_put_audit [OF keys] simp: summary_ok_def)
qed

lemma refresh_audit_job_inv:
  assumes "core_inv d" "refresh_audit now i d = Inr d'" "audit_job_statuses d i \<noteq> []"
    and "\<And>k. k \<noteq> i \<Longrightarrow> audit_ok d k"
  shows "job_inv d'"
proof -
  have keys: "keys_ok d" using assms(1) by (rule core_inv_keys)
  have "audit_ok d' k" for k
    using refresh_audit_self [OF keys assms(2,3)] refresh_audit_other [OF keys assms(2)] assms(4)
    by (cases "k = i") auto
  then show ?thesis using refresh_audit_frame(5) [OF assms(2)] assms(1) by (simp add: job_inv_def)
qed

lemma merge_summary_cases:
  assumes "merge_summary i sm d = Inr d'"
  obtains a where "require_audit d i = Inr a"
    "d' = put_audit (a\<lparr>a_summary := dict_update (a_summary a) sm\<rparr>) d"
  using assms by (auto simp: merge_summary_def)

lemma merge_summary_audit_ok:
  assumes "keys_ok d" "merge_summary i sm d = Inr d'" "audit_ok d k"
  shows "audit_ok d' k"
  using assms(2)
proof (cases rule: merge_summary_cases)
  case (1 a)
  then have "a \<in> set (audits d)" using require_audit_Inr [OF assms(1)] by auto
  with 1(2) show ?thesis using assms by (auto intro!: audit_ok_same_status [of d a])
qed

lemma merge_summary_frame:
  assumes "merge_summary i sm d = Inr d'"
  shows "jobs d' = jobs d" "locks d' = locks d" "events d' = events d" "workers d' = workers d"
    "core_inv d' = core_inv d" "audit_job_statuses d' k = audit_job_statuses d k"
  using assms by (auto elim!: merge_summary_cases)

section \<open>Finishing a job\<close>

lemma transition_job_Inr:
  "transition_job now j desired st p m e d = Inr (d1, j1) \<longleftrightarrow>
     desired \<in> JOB_TRANSITIONS (j_status j) \<and> j1 = transitioned now j desired st p m e
     \<and> d1 = add_event now j1 (''job_'' @ job_status_value desired) m (put_job j1 d)"
  by (auto simp: transition_job_def Let_def)

lemma transition_from_active: "s \<in> JOB_TRANSITIONS s0 \<Longrightarrow> active s0"
  by (cases s0) auto

lemma transition_from_queued: "s \<in> JOB_TRANSITIONS JS_QUEUED \<Longrightarrow> s \<noteq> JS_RUNNING \<Longrightarrow> s = JS_CANCELLED"
  by auto

lemma audit_of_job_status:
  assumes "job_inv d" "j \<in> set (jobs d)" "a \<in> set (audits d)" "a_id a = j_audit_id j"
    and "active (j_status j)"
  shows "a_status a = AS_RUNNING \<or> a_status a = AS_CREATED \<and> j_status j = JS_QUEUED
     \<and> set (audit_job_statuses d (a_id a)) \<subseteq> {JS_QUEUED}"
proof -
  have m: "j_status j \<in> set (audit_job_statuses d (a_id a))"
    using assms(2,4) by (auto simp: set_audit_job_statuses)
  have s: "summary_ok (a_status a) (audit_job_statuses d (a_id a))"
    using assms(1,3) by (auto simp: job_inv_def audit_ok_def)
  have "desired_audit_status (audit_job_statuses d (a_id a)) = AS_RUNNING"
    using m assms(5) by (auto simp: desired_audit_status_def active_def)
  with s m show ?thesis by (auto simp: summary_ok_def split: if_splits)
qed

lemma refreshable_after_finish:
  assumes inv: "job_inv d" and j0: "j0 \<in> set (jobs d)" and same: "same_job j0 j'"
    and tr: "j_status j' \<in> JOB_TRANSITIONS (j_status j0)" and st: "j_status j' \<noteq> JS_RUNNING"
    and a: "a \<in> set (audits d)" "a_id a = j_audit_id j0"
  shows "refreshable (a_status a) (audit_job_statuses (put_job j' d) (j_audit_id j0))"
proof -
  have keys: "keys_ok d" using inv by (simp add: job_inv_def core_inv_def)
  have jobs': "set (tbl_put j_id j' (jobs d)) = insert j' (set (jobs d) - {j0})"
    using set_put_job [OF keys j0] same by (simp add: same_job_def)
  consider "a_status a = AS_RUNNING" | "a_status a = AS_CREATED" "j_status j0 = JS_QUEUED"
      "set (audit_job_statuses d (a_id a)) \<subseteq> {JS_QUEUED}"
    using audit_of_job_status [OF inv j0 a transition_from_active [OF tr]] by blast
  then show ?thesis
  proof cases
    case 1
    then show ?thesis by (simp add: refreshable_def)
  next
    case 2
    have "j_status j' = JS_CANCELLED" using 2(2) tr st by auto
    with 2(3) a(2) jobs' show ?thesis
      by (auto simp: refreshable_def set_audit_job_statuses 2(1))
  qed
qed

text \<open>
  The common tail of every operation that ends a job: the row becomes terminal, its lock goes, the
  audit's summary may be merged, the audit is refreshed. From a state in the invariant the tail
  returns, and it returns to the invariant.
\<close>

definition finish_job :: "int \<Rightarrow> job_row \<Rightarrow> json_obj option \<Rightarrow> db \<Rightarrow> exc + db" where
  "finish_job now j sm d =
     rbind (case sm of None \<Rightarrow> Inr (release_lock (j_id j) d)
            | Some s \<Rightarrow> merge_summary (j_audit_id j) s (release_lock (j_id j) d))
       (refresh_audit now (j_audit_id j))"

lemma put_job_job_inv_pre:
  assumes inv: "job_inv d" and j0: "j0 \<in> set (jobs d)" and same: "same_job j0 j'"
    and st: "j_status j' \<noteq> JS_RUNNING" and pr: "progress_ok j'"
  shows "core_inv (release_lock (j_id j') (add_event n k t m (put_job j' d)))"
    and "i \<noteq> j_audit_id j' \<Longrightarrow>
      audit_ok (release_lock (j_id j') (add_event n k t m (put_job j' d))) i"
    and "audit_job_statuses (put_job j' d) (j_audit_id j') \<noteq> []"
proof -
  have keys: "keys_ok d" using inv by (simp add: job_inv_def core_inv_def)
  show "core_inv (release_lock (j_id j') (add_event n k t m (put_job j' d)))"
    using core_inv_finish [OF _ j0 same st pr] inv same
    by (simp add: release_lock_add_event job_inv_def same_job_def)
  show "audit_ok (release_lock (j_id j') (add_event n k t m (put_job j' d))) i"
    if "i \<noteq> j_audit_id j'"
    using statuses_put_other [OF keys j0, of j' i] same that inv
    by (simp add: same_job_def audit_ok_def job_inv_def)
  have "j' \<in> set (tbl_put j_id j' (jobs d))"
    using set_put_job [OF keys j0] same by (simp add: same_job_def)
  then show "audit_job_statuses (put_job j' d) (j_audit_id j') \<noteq> []"
    by (auto simp: audit_job_statuses_Nil)
qed

lemma finish_job_inv:
  assumes inv: "job_inv d" and j0: "j0 \<in> set (jobs d)" and same: "same_job j0 j'"
    and st: "j_status j' \<noteq> JS_RUNNING" and pr: "progress_ok j'"
    and fin: "finish_job now j' sm (add_event n k t m (put_job j' d)) = Inr d'"
  shows "job_inv d'"
proof -
  let ?d1 = "release_lock (j_id j') (add_event n k t m (put_job j' d))"
  note pre = put_job_job_inv_pre [OF inv j0 same st pr]
  obtain d2 where d2: "refresh_audit now (j_audit_id j') d2 = Inr d'"
    and cases: "sm = None \<and> d2 = ?d1 \<or> (\<exists>s. merge_summary (j_audit_id j') s ?d1 = Inr d2)"
    using fin by (auto simp: finish_job_def split: option.splits)
  have core: "core_inv d2" and ne: "audit_job_statuses d2 (j_audit_id j') \<noteq> []"
    using cases pre(1,3) merge_summary_frame(5,6) by fastforce+
  have "audit_ok d2 i" if "i \<noteq> j_audit_id j'" for i
    using cases pre(2) [OF that] merge_summary_audit_ok [OF core_inv_keys [OF pre(1)]] by blast
  with refresh_audit_job_inv [OF core d2 ne] show ?thesis by blast
qed

lemma finish_job_succeeds:
  assumes inv: "job_inv d" and j0: "j0 \<in> set (jobs d)" and same: "same_job j0 j'"
    and tr: "j_status j' \<in> JOB_TRANSITIONS (j_status j0)" and st: "j_status j' \<noteq> JS_RUNNING"
  shows "\<exists>d'. finish_job now j' sm (add_event n k t m (put_job j' d)) = Inr d'"
proof -
  let ?d1 = "release_lock (j_id j') (add_event n k t m (put_job j' d))"
  have keys: "keys_ok d" using inv by (simp add: job_inv_def core_inv_def)
  have eq: "j_audit_id j' = j_audit_id j0" using same by (simp add: same_job_def)
  obtain a where ra: "require_audit d (j_audit_id j0) = Inr a"
    using require_audit_exists [OF keys j0] by blast
  then have a: "a \<in> set (audits d)" "a_id a = j_audit_id j0"
    using require_audit_Inr [OF keys] by auto
  have ra1: "require_audit ?d1 (j_audit_id j') = Inr a"
    using ra eq by (simp add: require_audit_def)
  have rf: "refreshable (a_status a) (audit_job_statuses (put_job j' d) (j_audit_id j'))"
    using refreshable_after_finish [OF inv j0 same tr st a] eq by simp
  show ?thesis
  proof (cases sm)
    case None
    from refresh_audit_succeeds [OF ra1] rf show ?thesis by (simp add: finish_job_def None)
  next
    case (Some s)
    let ?a = "a\<lparr>a_summary := dict_update (a_summary a) s\<rparr>"
    have "tbl_get a_id (tbl_put a_id ?a (audits d)) (a_id ?a) = Some ?a"
      using keys a get_audit_row_iff [OF keys, of "a_id a" a]
      by (intro tbl.get_put_same) (auto simp: keys_ok_def)
    then have "require_audit (put_audit ?a ?d1) (j_audit_id j') = Inr ?a"
      using a eq by (simp add: require_audit_def)
    from refresh_audit_succeeds [OF this] rf ra1 show ?thesis
      by (simp add: finish_job_def Some merge_summary_def)
  qed
qed

lemma complete_job_tx_eq:
  "complete_job_tx now i rr sm d =
     rbind (require_job d i) (\<lambda>j.
       rbind (transition_job now (j\<lparr>j_result_reference := rr\<rparr>) JS_COMPLETED ''completed'' 100
                ''Job completed'' None d) (\<lambda>(d1, j1).
         rbind (finish_job now j1 sm d1) (\<lambda>d2. Inr (d2, job_record_of None j1))))"
  by (auto simp: complete_job_tx_def finish_job_def Let_def rbind_assoc
      intro!: arg_cong2 [of _ _ _ _ rbind] split: option.splits)

lemma fail_job_tx_eq:
  "fail_job_tx now i e d =
     rbind (require_job d i) (\<lambda>j.
       rbind (transition_job now j JS_FAILED ''failed'' (j_progress j) (je_message e) (Some e) d)
         (\<lambda>(d1, j1). rbind (finish_job now j1 None d1) (\<lambda>d2. Inr (d2, job_record_of None j1))))"
  by (auto simp: fail_job_tx_def finish_job_def Let_def)

lemma cancel_running_job_tx_eq:
  "cancel_running_job_tx now i msg rr sm d =
     rbind (require_job d i) (\<lambda>j.
       rbind (transition_job now (if truthy rr then j\<lparr>j_result_reference := rr\<rparr> else j) JS_CANCELLED
                ''cancelled'' (j_progress j) msg (Some (cancelled_error msg)) d) (\<lambda>(d1, j1).
         rbind (finish_job now j1 (if sm \<noteq> [] then Some sm else None) d1) (\<lambda>d2.
           Inr (d2, job_record_of None j1))))"
  by (auto simp: cancel_running_job_tx_def finish_job_def Let_def rbind_assoc
      intro!: arg_cong2 [of _ _ _ _ rbind] split: option.splits)

end
