(* ===== verification/Job_Recovery.thy ===== *)
theory Job_Recovery
  imports Job_Service
begin

text \<open>
  Operations on the job store outside \<^verbatim>\<open>jobs/service.py\<close>: the operator's retry
  (\<^verbatim>\<open>backend/recovery.py\<close>), the deletion of an audit (the transaction of
  \<^verbatim>\<open>backend/audit_deletion.py\<close>, foreign-key cascades included; the removal of evidence files after the
  commit is file I/O), and event retention (\<^verbatim>\<open>jobs/maintenance.py\<close>).
\<close>

definition RETRYABLE_STATES :: "job_status set" where
  "RETRYABLE_STATES = {JS_FAILED, JS_INTERRUPTED, JS_CANCELLED}"

definition equivalent_active :: "db \<Rightarrow> job_row \<Rightarrow> bool" where
  "equivalent_active d source \<longleftrightarrow>
     (\<exists>j \<in> set (jobs d). j_audit_id j = j_audit_id source \<and> j_type j = j_type source
        \<and> j_status j \<in> {JS_QUEUED, JS_RUNNING})"

definition retry_refusal :: "db \<Rightarrow> job_row \<Rightarrow> string option" where
  "retry_refusal d source =
     (if j_status source \<notin> RETRYABLE_STATES
      then Some (''Only failed, interrupted, or cancelled jobs can be retried; job is ''
                 @ job_status_value (j_status source))
      else if j_type source \<in> {''snmp_topology'', ''ssh_topology''}
      then Some (let name = (if j_type source = ''snmp_topology'' then ''SNMP'' else ''SSH'')
                 in name @ '' topology jobs require fresh credentials; launch '' @ name
                    @ '' topology enrichment again from the topology screen'')
      else if equivalent_active d source
      then Some ''An equivalent job is already queued or running for this audit''
      else None)"

definition optional_json :: "string option \<Rightarrow> json" where
  "optional_json s = (case s of None \<Rightarrow> JNull | Some v \<Rightarrow> JStr v)"

definition retried_event :: "int \<Rightarrow> job_row \<Rightarrow> job_row \<Rightarrow> string option \<Rightarrow> event_row" where
  "retried_event now retried source actor =
     \<lparr>e_audit_id = j_audit_id retried, e_job_id = j_id retried, e_created_at = now,
      e_event_type = ''job_retried'', e_stage = Some ''queued'', e_progress = Some 0,
      e_message = ''Retry queued'',
      e_details = [(''retry_of'', JStr (j_id source)), (''actor'', optional_json actor)]\<rparr>"

definition scheduled_event :: "int \<Rightarrow> job_row \<Rightarrow> job_row \<Rightarrow> string option \<Rightarrow> event_row" where
  "scheduled_event now retried source actor =
     \<lparr>e_audit_id = j_audit_id source, e_job_id = j_id source, e_created_at = now,
      e_event_type = ''retry_scheduled'', e_stage = Some (j_stage source),
      e_progress = Some (j_progress source), e_message = ''Replacement job queued'',
      e_details = [(''retry_job_id'', JStr (j_id retried)), (''actor'', optional_json actor)]\<rparr>"

definition reopened_audit :: "audit_row \<Rightarrow> exc + audit_row" where
  "reopened_audit a =
     (if a_status a \<noteq> AS_RUNNING
      then rbind (require_audit_transition (a_status a) AS_RUNNING) (\<lambda>_.
             Inr (a\<lparr>a_status := AS_RUNNING, a_finished_at := None, a_error := None\<rparr>))
      else Inr a)"

definition retry_row :: "int \<Rightarrow> string \<Rightarrow> job_row \<Rightarrow> job_row" where
  "retry_row now new_id source = queued_job now new_id (j_audit_id source) (j_type source)
     (j_target source) (Some (j_parameters source)) (j_priority source)
     (j_resource_key source) (j_resource_group source) (j_resource_limit source)
     (''Retry queued for '' @ j_id source)"

definition retry_tx :: "int \<Rightarrow> string \<Rightarrow> string \<Rightarrow> string option \<Rightarrow> db \<Rightarrow> exc + db \<times> string" where
  "retry_tx now new_id i actor d =
     rbind (require_job d i) (\<lambda>source.
       case retry_refusal d source of Some msg \<Rightarrow> Inl (RetryNotAllowed msg)
       | None \<Rightarrow>
         rbind (require_audit d (j_audit_id source)) (\<lambda>a.
           rbind (reopened_audit a) (\<lambda>a1.
             let retried = retry_row now new_id source;
                 a2 = a1\<lparr>a_started_at := (case a_started_at a1 of None \<Rightarrow> Some now | t \<Rightarrow> t)\<rparr>
             in rbind (insert_job retried d) (\<lambda>d1.
                  Inr (put_audit a2 (add_event_row (scheduled_event now retried source actor)
                         (add_event_row (retried_event now retried source actor) d1)), new_id)))))"

definition retry :: "int \<Rightarrow> string \<Rightarrow> string \<Rightarrow> string option \<Rightarrow> db \<Rightarrow> db \<times> (exc + job_record)" where
  "retry now new_id i actor d =
     (case immediate_session (retry_tx now new_id i actor) d of
        (d', Inl e) \<Rightarrow> (d', Inl e)
      | (d', Inr new) \<Rightarrow> (d', get_job new d'))"

text \<open>Deleting an audit row cascades to its jobs and their events and locks.\<close>

definition cascade_audit :: "string \<Rightarrow> db \<Rightarrow> db" where
  "cascade_audit i d =
     (let gone = j_id ` {j \<in> set (jobs d). j_audit_id j = i}
      in d\<lparr>audits := filter (\<lambda>a. a_id a \<noteq> i) (audits d),
           jobs := filter (\<lambda>j. j_audit_id j \<noteq> i) (jobs d),
           events := filter (\<lambda>e. e_audit_id e \<noteq> i \<and> e_job_id e \<notin> gone) (events d),
           locks := filter (\<lambda>l. l_job_id l \<notin> gone) (locks d)\<rparr>)"

definition delete_audit_tx :: "string \<Rightarrow> db \<Rightarrow> exc + db \<times> unit" where
  "delete_audit_tx i d =
     rbind (require_audit d i) (\<lambda>a.
       let active_jobs = length (filter (\<lambda>j. j_audit_id j = i
                           \<and> j_status j \<in> {JS_QUEUED, JS_RUNNING}) (jobs d))
       in if active_jobs \<noteq> 0 \<or> a_status a = AS_RUNNING then Inl (AuditBusy i active_jobs)
          else Inr (cascade_audit i d, ()))"

definition delete_audit where
  "delete_audit i = immediate_session (delete_audit_tx i)"

definition prunable_jobs :: "int \<Rightarrow> db \<Rightarrow> string set" where
  "prunable_jobs cutoff d = j_id ` {j \<in> set (jobs d). terminal (j_status j)
     \<and> (case j_finished_at j of None \<Rightarrow> False | Some t \<Rightarrow> t < cutoff)}"

definition prune_terminal_job_events :: "int \<Rightarrow> int \<Rightarrow> db \<Rightarrow> db \<times> (exc + nat)" where
  "prune_terminal_job_events now retention_days =
     immediate_session (\<lambda>d.
       let cutoff = now - retention_days * 86400000000;
           kept = filter (\<lambda>e. \<not> (e_job_id e \<in> prunable_jobs cutoff d \<and> e_created_at e < cutoff))
                    (events d)
       in Inr (d\<lparr>events := kept\<rparr>, length (events d) - length kept))"

end
