(* ===== verification/Job_Operations.thy ===== *)
theory Job_Operations
  imports Job_Invariant Job_Recovery
begin

text \<open>
  Every operation of the job store keeps the invariant; the store as a step system whose steps are
  those operations; what follows for every reachable state.
\<close>

section \<open>Operations that end a job\<close>

lemma core_of [simp]: "job_inv d \<Longrightarrow> core_inv d" and keys_of [simp]: "job_inv d \<Longrightarrow> keys_ok d"
  by (simp_all add: job_inv_def core_inv_def)

lemma progress_of: "job_inv d \<Longrightarrow> j \<in> set (jobs d) \<Longrightarrow> progress_ok j"
  by (simp add: job_inv_def core_inv_def)

lemma progress_ok_terminal:
  assumes "progress_ok j" "terminal s" "s \<noteq> JS_COMPLETED"
  shows "progress_ok (transitioned now k s st (j_progress j) m e)"
  using assms by (auto simp: progress_ok_def)

text \<open>One lemma for the three operations: a transition to a terminal status followed by the tail.\<close>

lemma end_job_inv:
  assumes inv: "job_inv d" and j: "require_job d i = Inr j" and same: "same_job j j0"
    and t: "transition_job now j0 s st p m e d = Inr (d1, j1)" and s: "s \<noteq> JS_RUNNING"
    and pr: "progress_ok (transitioned now j0 s st p m e)"
    and fin: "finish_job now j1 sm d1 = Inr d'"
  shows "job_inv d'"
proof -
  have j0: "j \<in> set (jobs d)" using j require_job_Inr inv by simp
  have j1: "j1 = transitioned now j0 s st p m e"
    and d1: "d1 = add_event now j1 (''job_'' @ job_status_value s) m (put_job j1 d)"
    using t by (simp_all add: transition_job_Inr)
  have "same_job j j1" using same j1 by (simp add: same_job_def)
  from finish_job_inv [OF inv j0 this _ _ fin [unfolded d1]] s pr j1 show ?thesis by simp
qed

lemma end_job_succeeds:
  assumes inv: "job_inv d" and j: "require_job d i = Inr j" and same: "same_job j j0"
    and st0: "j_status j0 = j_status j"
    and tr: "s \<in> JOB_TRANSITIONS (j_status j)" and s: "s \<noteq> JS_RUNNING"
  shows "\<exists>d1 j1 d'. transition_job now j0 s st p m e d = Inr (d1, j1) \<and> finish_job now j1 sm d1 = Inr d'"
proof -
  have j0: "j \<in> set (jobs d)" using j require_job_Inr inv by simp
  let ?j1 = "transitioned now j0 s st p m e"
  have "same_job j ?j1" using same by (simp add: same_job_def)
  from finish_job_succeeds [OF inv j0 this] tr s st0 show ?thesis
    by (auto simp: transition_job_def Let_def require_job_transition_def)
qed

lemma same_job_refl [simp]: "same_job j j"
  and same_job_result [simp]: "same_job j (j\<lparr>j_result_reference := r\<rparr>)"
  by (simp_all add: same_job_def)

lemma complete_job_tx_inv:
  assumes inv: "job_inv d" and ok: "complete_job_tx now i rr sm d = Inr (d', r)"
  shows "job_inv d'"
proof -
  from ok obtain j d1 j1 where j: "require_job d i = Inr j"
    and t: "transition_job now (j\<lparr>j_result_reference := rr\<rparr>) JS_COMPLETED ''completed'' 100
        ''Job completed'' None d = Inr (d1, j1)"
    and f: "finish_job now j1 sm d1 = Inr d'"
    by (auto simp: complete_job_tx_eq)
  show ?thesis
    by (rule end_job_inv [OF inv j same_job_result t _ _ f]) (simp_all add: progress_ok_def)
qed

lemma fail_job_tx_inv:
  assumes inv: "job_inv d" and ok: "fail_job_tx now i e d = Inr (d', r)"
  shows "job_inv d'"
proof -
  from ok obtain j d1 j1 where j: "require_job d i = Inr j"
    and t: "transition_job now j JS_FAILED ''failed'' (j_progress j) (je_message e) (Some e) d
        = Inr (d1, j1)"
    and f: "finish_job now j1 None d1 = Inr d'"
    by (auto simp: fail_job_tx_eq)
  have "progress_ok j" using j require_job_Inr [of d i j] inv progress_of by simp
  then show ?thesis
    by (intro end_job_inv [OF inv j same_job_refl t _ _ f] progress_ok_terminal) simp_all
qed

lemma cancel_running_job_tx_inv:
  assumes inv: "job_inv d" and ok: "cancel_running_job_tx now i m rr sm d = Inr (d', r)"
  shows "job_inv d'"
proof -
  from ok obtain j d1 j1 where j: "require_job d i = Inr j"
    and t: "transition_job now (if truthy rr then j\<lparr>j_result_reference := rr\<rparr> else j) JS_CANCELLED
        ''cancelled'' (j_progress j) m (Some (cancelled_error m)) d = Inr (d1, j1)"
    and f: "finish_job now j1 (if sm \<noteq> [] then Some sm else None) d1 = Inr d'"
    by (auto simp: cancel_running_job_tx_eq)
  have "progress_ok j" using j require_job_Inr [of d i j] inv progress_of by simp
  then show ?thesis
    by (intro end_job_inv [OF inv j _ t _ _ f] progress_ok_terminal) simp_all
qed

lemma job_inv_add_event [simp]: "job_inv (add_event n k t m d) = job_inv d"
  by (simp add: job_inv_def)

lemma job_inv_put_same:
  assumes inv: "job_inv d" and j: "j \<in> set (jobs d)" and same: "same_job j j'"
    and st: "j_status j' = j_status j" and pr: "progress_ok j'"
  shows "job_inv (put_job j' d)"
proof -
  have "core_inv (put_job j' d)"
    by (rule core_inv_put_same [OF core_of [OF inv] j same st pr])
  moreover have "audit_job_statuses (put_job j' d) k = audit_job_statuses d k" for k
    using same st by (intro statuses_put_other [OF keys_of [OF inv] j]) (simp_all add: same_job_def)
  ultimately show ?thesis using inv by (simp add: job_inv_def audit_ok_def)
qed

lemma request_cancel_tx_inv:
  assumes inv: "job_inv d" and ok: "request_cancel_tx now i d = Inr (d', r)"
  shows "job_inv d'"
proof -
  from ok obtain j where j: "require_job d i = Inr j"
    by (auto simp: request_cancel_tx_def)
  then have jm: "j \<in> set (jobs d)" using require_job_Inr inv by simp
  have pr: "progress_ok j" using progress_of inv jm by simp
  consider "j_status j = JS_QUEUED" | "j_status j = JS_RUNNING" "\<not> j_cancel_requested j" | "d' = d"
    using ok j by (auto simp: request_cancel_tx_def split: if_splits)
  then show ?thesis
  proof cases
    case 1
    let ?j1 = "transitioned now j JS_CANCELLED ''cancelled'' (j_progress j) ''Queued job cancelled''
      (Some cancelled_before_start)"
    have same: "same_job j ?j1" by (simp add: same_job_def)
    have pr1: "progress_ok ?j1" using pr by (simp add: progress_ok_terminal)
    have core: "core_inv (put_job ?j1 d)"
      by (rule core_inv_finish_queued [OF _ jm same _ _ pr1]) (simp_all add: inv 1)
    have "jobs (put_job ?j1 d) = tbl_put j_id ?j1 (jobs d)" by simp
    then have "?j1 \<in> set (jobs (put_job ?j1 d))"
      using set_put_job [OF keys_of [OF inv] jm, of ?j1] by simp
    from release_lock_idle [OF core this]
    have rel: "release_lock (j_id j) (put_job ?j1 d) = put_job ?j1 d" by simp
    have "finish_job now ?j1 None (add_event now ?j1 (''job_'' @ job_status_value JS_CANCELLED)
        ''Queued job cancelled'' (put_job ?j1 d)) = Inr d'"
      using ok j 1 rel
      by (auto simp: request_cancel_tx_def finish_job_def transition_job_Inr release_lock_add_event)
    from finish_job_inv [OF inv jm same _ pr1 this] show ?thesis by simp
  next
    case 2
    let ?j1 = "j\<lparr>j_cancel_requested := True\<rparr>"
    have d': "d' = add_event now ?j1 ''cancellation_requested'' ''Cancellation requested'' (put_job ?j1 d)"
      using ok j 2 by (auto simp: request_cancel_tx_def Let_def)
    have "job_inv (put_job ?j1 d)"
      using pr by (intro job_inv_put_same [OF inv jm]) (simp_all add: same_job_def progress_ok_def)
    then show ?thesis by (simp add: d')
  next
    case 3
    then show ?thesis using inv by simp
  qed
qed

section \<open>Progress and claiming\<close>

lemma update_progress_tx_inv:
  assumes inv: "job_inv d" and v: "valid_progress p" and ok: "update_progress_tx now i p d = Inr (d', r)"
  shows "job_inv d'"
proof -
  from ok obtain j where j: "require_job d i = Inr j" and st: "j_status j = JS_RUNNING"
    and le: "j_progress j \<le> jp_percentage p"
    and d': "d' = add_event now (j\<lparr>j_progress := jp_percentage p, j_stage := jp_stage p,
        j_message := Some (jp_message p)\<rparr>) ''progress'' (jp_message p)
        (put_job (j\<lparr>j_progress := jp_percentage p, j_stage := jp_stage p,
        j_message := Some (jp_message p)\<rparr>) d)"
    by (auto simp: update_progress_tx_def Let_def split: if_splits)
  have jm: "j \<in> set (jobs d)" using j require_job_Inr inv by simp
  have "progress_ok j" using progress_of inv jm by simp
  with v le st have "progress_ok (j\<lparr>j_progress := jp_percentage p, j_stage := jp_stage p,
      j_message := Some (jp_message p)\<rparr>)"
    by (auto simp: progress_ok_def valid_progress_def)
  then show ?thesis
    unfolding d' using job_inv_put_same [OF inv jm] by (simp add: same_job_def)
qed

lemma core_inv_claim:
  assumes inv: "core_inv d" and j: "j \<in> set (jobs d)" and same: "same_job j j'"
    and q: "j_status j \<noteq> JS_RUNNING" and st: "j_status j' = JS_RUNNING" and pr: "progress_ok j'"
    and l: "if needs_lock j' then lock_of j' l \<and> insert_lock l (put_job j' d) = Inr d'
            else d' = put_job j' d"
  shows "core_inv d'"
proof -
  have keys: "keys_ok d" using inv by (rule core_inv_keys)
  have jobs': "set (tbl_put j_id j' (jobs d)) = insert j' (set (jobs d) - {j})"
    using set_put_job [OF keys j] same by (simp add: same_job_def)
  have d': "d' = (put_job j' d)\<lparr>locks := locks d @ (if needs_lock j' then [l] else [])\<rparr>"
    and fresh: "needs_lock j' \<Longrightarrow> l_resource_key l \<notin> l_resource_key ` set (locks d)
                  \<and> l_job_id l \<notin> l_job_id ` set (locks d)"
    using l by (auto simp: insert_lock_def split: if_splits)
  have "keys_ok d'"
    using keys_ok_put_job [OF keys j same] fresh by (auto simp: keys_ok_def d')
  moreover have "locks_ok d'"
    unfolding locks_ok_def
  proof (intro conjI ballI impI)
    fix x assume "x \<in> set (locks d')"
    then consider "x \<in> set (locks d)" | "x = l" "needs_lock j'"
      by (auto simp: d' split: if_splits)
    then show "\<exists>k \<in> set (jobs d'). lock_of k x"
    proof cases
      case 1
      then obtain k where "k \<in> set (jobs d)" "lock_of k x"
        using inv by (auto simp: core_inv_def locks_ok_def)
      moreover then have "k \<noteq> j" using q by (auto simp: lock_of_def)
      ultimately show ?thesis using jobs' by (auto simp: d')
    next
      case 2
      with l show ?thesis using jobs' by (auto simp: d')
    qed
  next
    fix k assume k: "k \<in> set (jobs d')" and r: "j_status k = JS_RUNNING \<and> needs_lock k"
    then consider "k = j'" | "k \<in> set (jobs d)" using jobs' by (auto simp: d')
    then show "\<exists>x \<in> set (locks d'). lock_of k x"
    proof cases
      case 1
      with r l show ?thesis by (auto simp: d')
    next
      case 2
      then obtain x where "x \<in> set (locks d)" "lock_of k x"
        using inv r by (auto simp: core_inv_def locks_ok_def)
      then show ?thesis by (auto simp: d')
    qed
  qed
  ultimately show ?thesis using inv pr jobs' by (auto simp: core_inv_def d')
qed

lemma insert_lock_frame:
  assumes "insert_lock l d = Inr d'"
  shows "jobs d' = jobs d" "audits d' = audits d" "events d' = events d" "workers d' = workers d"
    "locks d' = locks d @ [l]" "audit_job_statuses d' i = audit_job_statuses d i"
  using assms by (auto simp: insert_lock_def audit_job_statuses_def split: if_splits)

lemma claim_audit_cases:
  assumes "claim_audit now i d = Inr d'"
  obtains a where "require_audit d i = Inr a" "a_status a \<notin> {AS_CREATED, AS_COMPLETED}" "d' = d"
  | a where "require_audit d i = Inr a" "a_status a \<in> {AS_CREATED, AS_COMPLETED}"
      "d' = put_audit (a\<lparr>a_status := AS_RUNNING,
             a_started_at := (case a_started_at a of None \<Rightarrow> Some now | t \<Rightarrow> t),
             a_finished_at := None\<rparr>) d"
proof -
  from assms obtain a where a: "require_audit d i = Inr a" by (auto simp: claim_audit_def)
  show thesis
  proof (cases "a_status a \<in> {AS_CREATED, AS_COMPLETED}")
    case True
    with assms a show thesis by (intro that(2) [of a]) (auto simp: claim_audit_def)
  next
    case False
    with assms a show thesis by (intro that(1) [of a]) (auto simp: claim_audit_def)
  qed
qed

text \<open>The row a claim writes.\<close>

definition claimed :: "int \<Rightarrow> string \<Rightarrow> job_row \<Rightarrow> job_row" where
  "claimed now w j =
     (let j1 = transitioned now j JS_RUNNING ''starting'' (max 1 (j_progress j)) ''Worker claimed job'' None
      in j1\<lparr>j_worker_id := Some w, j_attempt := j_attempt j1 + 1\<rparr>)"

lemma claimed_frame [simp]:
  "j_id (claimed now w j) = j_id j" "j_audit_id (claimed now w j) = j_audit_id j"
  "j_status (claimed now w j) = JS_RUNNING" "j_progress (claimed now w j) = max 1 (j_progress j)"
  "j_resource_key (claimed now w j) = j_resource_key j"
  "j_resource_group (claimed now w j) = j_resource_group j"
  "j_resource_limit (claimed now w j) = j_resource_limit j"
  "needs_lock (claimed now w j) = needs_lock j" "lock_key (claimed now w j) = lock_key j"
  "same_job j (claimed now w j)"
  by (simp_all add: claimed_def needs_lock_def lock_key_def same_job_def Let_def)

definition claim_lock :: "int \<Rightarrow> string \<Rightarrow> job_row \<Rightarrow> lock_row" where
  "claim_lock now w j = \<lparr>l_resource_key = lock_key j, l_resource_group = j_resource_group j,
     l_job_id = j_id j, l_worker_id = w, l_acquired_at = now\<rparr>"

definition claim_event :: "int \<Rightarrow> job_row \<Rightarrow> db \<Rightarrow> db" where
  "claim_event now j = add_event now (transitioned now j JS_RUNNING ''starting'' (max 1 (j_progress j))
     ''Worker claimed job'' None) ''job_running'' ''Worker claimed job''"

lemma claim_job_eq:
  "claim_job now w j d =
     (if j_status j = JS_QUEUED
      then let d2 = claim_event now j (put_job (claimed now w j) d)
           in rbind (if needs_lock j then insert_lock (claim_lock now w j) d2 else Inr d2) (\<lambda>d3.
                rbind (claim_audit now (j_audit_id j) d3) (\<lambda>d4. Inr (d4, claimed now w j)))
      else Inl (InvalidJobTransition (j_status j) JS_RUNNING))"
proof (cases "j_status j = JS_QUEUED")
  case True
  let ?j1 = "transitioned now j JS_RUNNING ''starting'' (max 1 (j_progress j)) ''Worker claimed job'' None"
  have j2: "?j1\<lparr>j_worker_id := Some w, j_attempt := j_attempt ?j1 + 1\<rparr> = claimed now w j"
    by (simp add: claimed_def Let_def)
  have t: "transition_job now j JS_RUNNING ''starting'' (max 1 (j_progress j)) ''Worker claimed job'' None d
      = Inr (claim_event now j (put_job ?j1 d), ?j1)"
    using True by (simp add: transition_job_def claim_event_def require_job_transition_def Let_def)
  have "put_job (claimed now w j) (claim_event now j (put_job ?j1 d))
      = claim_event now j (put_job (claimed now w j) d)"
    by (simp add: claim_event_def put_job_add_event put_job_put_job)
  then show ?thesis
    by (simp add: claim_job_def t j2 True claim_lock_def Let_def)
next
  case False
  then have "JS_RUNNING \<notin> JOB_TRANSITIONS (j_status j)" by (cases "j_status j") auto
  with False show ?thesis by (simp add: claim_job_def transition_job_def require_job_transition_def)
qed

lemma claim_event_frame [simp]:
  "core_inv (claim_event now j d) = core_inv d" "jobs (claim_event now j d) = jobs d"
  "audits (claim_event now j d) = audits d" "locks (claim_event now j d) = locks d"
  "audit_job_statuses (claim_event now j d) i = audit_job_statuses d i"
  by (simp_all add: claim_event_def)

lemma claim_job_inv:
  assumes inv: "job_inv d" and j: "j \<in> set (jobs d)" and ok: "claim_job now w j d = Inr (d', j')"
  shows "job_inv d'"
proof -
  let ?d2 = "put_job j' (claim_event now j d)"
  have d2: "claim_event now j (put_job j' d) = ?d2" by (simp add: claim_event_def put_job_add_event)
  have q: "j_status j = JS_QUEUED" and j': "j' = claimed now w j"
    using ok by (auto simp: claim_job_eq Let_def split: if_splits)
  from ok obtain d3 where
      d3: "(if needs_lock j then insert_lock (claim_lock now w j) ?d2 else Inr ?d2) = Inr d3"
    and ca: "claim_audit now (j_audit_id j) d3 = Inr d'"
    unfolding j' using q by (auto simp: claim_job_eq Let_def d2 [unfolded j'])
  have pr: "progress_ok j'" using progress_of [OF inv j] j' by (auto simp: progress_ok_def)
  have lk: "lock_of j' (claim_lock now w j)" if "needs_lock j"
    using that j' by (simp add: lock_of_def claim_lock_def)
  have core3: "core_inv d3"
    by (rule core_inv_claim [of "claim_event now j d" j j' "claim_lock now w j"])
      (use inv j q pr d3 lk in \<open>auto simp: j'\<close>)
  have au3: "audits d3 = audits d" and ss3: "audit_job_statuses d3 k = audit_job_statuses (put_job j' d) k" for k
    using d3 insert_lock_frame d2 by (auto split: if_splits simp flip: d2)
  have other: "audit_ok d3 k" if "k \<noteq> j_audit_id j" for k
    using statuses_put_other [OF keys_of [OF inv] j, of j' k] that inv j'
    by (simp add: audit_ok_def au3 ss3 job_inv_def)
  have "j' \<in> set (jobs (put_job j' d))"
    using set_put_job [OF keys_of [OF inv] j, of j'] j' by simp
  then have "j_status j' \<in> set (audit_job_statuses d3 (j_audit_id j'))"
    unfolding ss3 set_audit_job_statuses by blast
  then have run: "desired_audit_status (audit_job_statuses d3 (j_audit_id j)) = AS_RUNNING"
    using j' by (auto simp: desired_audit_status_def)
  show "job_inv d'"
    using ca
  proof (cases rule: claim_audit_cases)
    case (1 a)
    then have a: "a \<in> set (audits d)" "a_id a = j_audit_id j"
      using require_audit_Inr [OF core_inv_keys [OF core3]] au3 by auto
    then have "a_status a = AS_RUNNING"
      using audit_of_job_status [OF inv j a] q 1(2) by auto
    then have "audit_ok d3 (j_audit_id j)"
      using a run au3 by (intro audit_okI [OF core_inv_keys [OF core3], of a]) (auto simp: summary_ok_def)
    with other core3 1(3) show ?thesis unfolding job_inv_def by metis
  next
    case (2 a)
    then have a: "a \<in> set (audits d3)" "a_id a = j_audit_id j"
      using require_audit_Inr [OF core_inv_keys [OF core3]] by auto
    have "audit_ok d' k" for k
      unfolding 2(3) using other run a
      by (intro audit_ok_put_audit [OF core_inv_keys [OF core3] a(1)]) (auto simp: summary_ok_def)
    with core3 2(3) show ?thesis by (simp add: job_inv_def)
  qed
qed

lemma mark_waiting_frame [simp]:
  "audits (mark_waiting now j d) = audits d" "locks (mark_waiting now j d) = locks d"
  "workers (mark_waiting now j d) = workers d"
  by (simp_all add: mark_waiting_def Let_def)

lemma mark_waiting_inv:
  assumes inv: "job_inv d" and j: "j \<in> set (jobs d)"
  shows "job_inv (mark_waiting now j d)"
proof -
  let ?j = "j\<lparr>j_stage := ''resource_wait'', j_message := Some ''Waiting for exclusive resource''\<rparr>"
  have "job_inv (put_job ?j d)"
    using progress_of [OF inv j]
    by (intro job_inv_put_same [OF inv j]) (simp_all add: same_job_def progress_ok_def)
  with inv show ?thesis by (simp add: mark_waiting_def Let_def)
qed

lemma mark_waiting_jobs:
  assumes "keys_ok d" "j \<in> set (jobs d)" "k \<in> set (jobs d)" "j_id k \<noteq> j_id j"
  shows "k \<in> set (jobs (mark_waiting now j d))"
  using assms set_put_job [OF assms(1,2), of "j\<lparr>j_stage := ''resource_wait'',
    j_message := Some ''Waiting for exclusive resource''\<rparr>"]
  by (auto simp: mark_waiting_def Let_def)

lemma claim_loop_inv:
  assumes "job_inv d" "set js \<subseteq> set (jobs d)" "distinct (map j_id js)"
    and "claim_loop now w js d = Inr (d', r)"
  shows "job_inv d'"
  using assms
proof (induction js arbitrary: d)
  case Nil
  then show ?case by simp
next
  case (Cons j js)
  have j: "j \<in> set (jobs d)" using Cons.prems(2) by simp
  show ?case
  proof (cases "resource_available d j")
    case True
    with Cons.prems claim_job_inv [OF Cons.prems(1) j] show ?thesis by auto
  next
    case False
    let ?d = "mark_waiting now j d"
    have "set js \<subseteq> set (jobs ?d)"
    proof
      fix k assume "k \<in> set js"
      then have "j_id k \<in> j_id ` set js" "k \<in> set (jobs d)" using Cons.prems(2) by auto
      moreover have "j_id j \<notin> j_id ` set js" using Cons.prems(3) by simp
      ultimately have "k \<in> set (jobs d)" "j_id k \<noteq> j_id j" by metis+
      then show "k \<in> set (jobs ?d)" using mark_waiting_jobs [OF keys_of [OF Cons.prems(1)] j] by blast
    qed
    moreover have "job_inv ?d" using mark_waiting_inv [OF Cons.prems(1) j] .
    ultimately show ?thesis using Cons.IH [of ?d] Cons.prems(3,4) False by simp
  qed
qed

lemma set_claim_candidates: "set (claim_candidates d) = {j \<in> set (jobs d). j_status j = JS_QUEUED}"
  by (auto simp: claim_candidates_def)

lemma distinct_claim_candidates: "keys_ok d \<Longrightarrow> distinct (map j_id (claim_candidates d))"
  by (auto simp: claim_candidates_def keys_ok_def distinct_map inj_on_def intro: distinct_filter)

lemma claim_next_inv:
  assumes "job_inv d"
  shows "job_inv (fst (claim_next now w d))"
  unfolding claim_next_def
proof (rule immediate_session_preserves)
  show "job_inv d" by (rule assms)
next
  fix d' x
  assume "rbind (claim_loop now w (claim_candidates d) d) (\<lambda>(d', r).
       Inr (d', map_option (job_record_of (Some (events d'))) r)) = Inr (d', x)"
  then obtain r where "claim_loop now w (claim_candidates d) d = Inr (d', r)" by auto
  from claim_loop_inv [OF assms _ _ this] show "job_inv d'"
    using distinct_claim_candidates [OF keys_of [OF assms]] by (auto simp: set_claim_candidates)
qed

section \<open>Creation\<close>

lemma job_inv_insert_audit:
  assumes inv: "job_inv d" and ok: "insert_audit a d = Inr d'" and st: "a_status a = AS_CREATED"
  shows "job_inv d'"
proof -
  have new: "a_id a \<notin> a_id ` set (audits d)" and d': "d' = d\<lparr>audits := audits d @ [a]\<rparr>"
    using ok tbl.get_None [of a_id "audits d" "a_id a"] by (auto simp: insert_audit_def split: if_splits)
  have "core_inv d'"
    using inv new by (auto simp: job_inv_def core_inv_def keys_ok_def locks_ok_def d')
  moreover have "audit_ok d' i" for i
  proof -
    have "audit_job_statuses d (a_id a) = []"
      using new keys_of [OF inv] unfolding audit_job_statuses_Nil keys_ok_def by metis
    moreover have "audit_job_statuses d' i = audit_job_statuses d i"
      by (simp add: audit_job_statuses_def d')
    ultimately show ?thesis
    proof (cases "i = a_id a")
      case True
      then have "summary_ok (a_status a) (audit_job_statuses d' i)"
        using st \<open>audit_job_statuses d (a_id a) = []\<close> \<open>audit_job_statuses d' i = audit_job_statuses d i\<close>
        by (simp add: summary_ok_def)
      with True show ?thesis
        by (intro audit_okI [OF core_inv_keys [OF \<open>core_inv d'\<close>], of a]) (simp_all add: d')
    next
      case False
      have "audit_ok d i" using inv by (simp add: job_inv_def)
      with False \<open>audit_job_statuses d' i = audit_job_statuses d i\<close> show ?thesis
        by (auto simp: audit_ok_def d')
    qed
  qed
  ultimately show ?thesis by (simp add: job_inv_def)
qed

lemma insert_job_frame:
  assumes "insert_job j d = Inr d'"
  shows "d' = d\<lparr>jobs := jobs d @ [j]\<rparr>" "j_id j \<notin> j_id ` set (jobs d)"
    "j_audit_id j \<in> a_id ` set (audits d)"
  using assms tbl.get_None [of j_id "jobs d" "j_id j"] tbl.get_None [of a_id "audits d" "j_audit_id j"]
  by (auto simp: insert_job_def split: if_splits)

lemma core_inv_insert_job:
  assumes inv: "core_inv d" and ok: "insert_job j d = Inr d'"
    and st: "j_status j = JS_QUEUED" and pr: "j_progress j = 0"
  shows "core_inv d'"
  using inv insert_job_frame [OF ok] st pr
  by (auto simp: core_inv_def keys_ok_def locks_ok_def lock_of_def progress_ok_def)

lemma audit_ok_insert_job:
  assumes ok: "insert_job j d = Inr d'" and st: "j_status j = JS_QUEUED"
    and other: "i \<noteq> j_audit_id j \<Longrightarrow> audit_ok d i"
    and self: "\<And>a. i = j_audit_id j \<Longrightarrow> a \<in> set (audits d) \<Longrightarrow> a_id a = i \<Longrightarrow>
       a_status a = AS_RUNNING \<or> a_status a = AS_CREATED \<and> audit_ok d i"
  shows "audit_ok d' i"
proof -
  have ss: "audit_job_statuses d' i = audit_job_statuses d i @ (if j_audit_id j = i then [JS_QUEUED] else [])"
    and au: "audits d' = audits d"
    using insert_job_frame(1) [OF ok] st by (simp_all add: audit_job_statuses_def)
  show ?thesis
  proof (cases "i = j_audit_id j")
    case True
    then have "desired_audit_status (audit_job_statuses d' i) = AS_RUNNING"
      using ss by (simp add: desired_audit_status_def)
    then have run: "summary_ok AS_RUNNING (audit_job_statuses d' i)" by (simp add: summary_ok_def)
    show ?thesis
      unfolding audit_ok_def
    proof (intro ballI impI)
      fix a assume "a \<in> set (audits d')" and i: "a_id a = i"
      then have a: "a \<in> set (audits d)" using au by simp
      from self [OF True a i] show "summary_ok (a_status a) (audit_job_statuses d' i)"
      proof
        assume "a_status a = AS_RUNNING"
        with run show ?thesis by simp
      next
        assume *: "a_status a = AS_CREATED \<and> audit_ok d i"
        then have "summary_ok AS_CREATED (audit_job_statuses d i)" using a i by (auto simp: audit_ok_def)
        with * show ?thesis by (auto simp: summary_ok_def ss)
      qed
    qed
  next
    case False
    with other ss show ?thesis by (simp add: audit_ok_def au)
  qed
qed

lemma create_job_tx_inv:
  assumes inv: "job_inv d"
    and ok: "create_job_tx now nid aid jt tg ps prio rk rg rl d = Inr (d', r)"
  shows "job_inv d'"
proof -
  let ?j = "queued_job now nid aid jt tg ps prio rk rg rl ''Job queued''"
  from ok obtain a d1 d2 where a: "require_audit d aid = Inr a"
    and acc: "a_status a \<in> AUDIT_JOB_ACCEPTING"
    and d1: "if a_status a = AS_COMPLETED
      then d1 = put_audit (a\<lparr>a_status := AS_RUNNING, a_finished_at := None\<rparr>) d else d1 = d"
    and d2: "insert_job ?j d1 = Inr d2" and d': "d' = add_event now ?j ''job_queued'' ''Job queued'' d2"
    by (auto simp: create_job_tx_def Let_def split: if_splits)
  have am: "a \<in> set (audits d)" "a_id a = aid" using a require_audit_Inr keys_of [OF inv] by auto
  have core1: "core_inv d1" using d1 inv by (auto split: if_splits)
  have other: "audit_ok d1 i" if "i \<noteq> aid" for i
    using d1 inv am that
    by (auto split: if_splits simp: job_inv_def intro!: audit_ok_put_audit [of d a])
  have self: "b_status = AS_RUNNING \<or> b_status = AS_CREATED \<and> audit_ok d1 aid"
    if "b \<in> set (audits d1)" "a_id b = aid" "b_status = a_status b" for b b_status
  proof (cases "a_status a = AS_COMPLETED")
    case True
    then have "set (audits d1) = insert (a\<lparr>a_status := AS_RUNNING, a_finished_at := None\<rparr>) (set (audits d) - {a})"
      using d1 set_put_audit [OF keys_of [OF inv] am(1)] by simp
    with that am audit_unique [OF keys_of [OF inv]] show ?thesis by auto
  next
    case False
    with d1 that have "b = a" using audit_unique [OF keys_of [OF inv] _ am(1)] am(2) by simp
    with False acc d1 inv that(3) show ?thesis by (auto simp: AUDIT_JOB_ACCEPTING_def job_inv_def)
  qed
  have "core_inv d2"
    by (rule core_inv_insert_job [OF core1 d2]) (simp_all add: queued_job_def)
  moreover have "audit_ok d2 i" for i
    using other self by (intro audit_ok_insert_job [OF d2]) (auto simp: queued_job_def)
  ultimately show ?thesis by (simp add: d' job_inv_def)
qed

section \<open>Recovery after a restart\<close>

lemma summary_ok_cong: "set ss = set ss' \<Longrightarrow> summary_ok s ss = summary_ok s ss'"
  and refreshable_cong: "set ss = set ss' \<Longrightarrow> refreshable s ss = refreshable s ss'"
  using desired_cong [of ss ss'] by (auto simp: summary_ok_def refreshable_def simp flip: set_empty)

definition interrupted :: "int \<Rightarrow> job_row \<Rightarrow> job_row" where
  "interrupted now j = transitioned now j JS_INTERRUPTED ''interrupted'' (j_progress j)
     ''Application restarted during execution'' (Some application_restart)"

lemma interrupted_frame [simp]:
  "j_id (interrupted now j) = j_id j" "j_audit_id (interrupted now j) = j_audit_id j"
  "j_status (interrupted now j) = JS_INTERRUPTED" "j_progress (interrupted now j) = j_progress j"
  by (simp_all add: interrupted_def)

lemma interrupt_all_spec:
  assumes "keys_ok d" "set js \<subseteq> set (jobs d)" "distinct (map j_id js)"
    and "\<And>j. j \<in> set js \<Longrightarrow> j_status j = JS_RUNNING"
  shows "\<exists>d'. interrupt_all now js d = Inr d' \<and> keys_ok d' \<and> audits d' = audits d \<and> locks d' = locks d
     \<and> workers d' = workers d \<and> set (jobs d') = (set (jobs d) - set js) \<union> interrupted now ` set js"
  using assms
proof (induction js arbitrary: d)
  case Nil
  then show ?case by simp
next
  case (Cons j js)
  let ?d1 = "add_event now (interrupted now j) ''job_interrupted''
    ''Application restarted during execution'' (put_job (interrupted now j) d)"
  have j: "j \<in> set (jobs d)" "j_status j = JS_RUNNING" using Cons.prems by auto
  have step: "interrupt_all now (j # js) d = interrupt_all now js ?d1"
    by (simp add: transition_job_def require_job_transition_def j interrupted_def Let_def)
  have jobs1: "set (jobs ?d1) = insert (interrupted now j) (set (jobs d) - {j})"
    using set_put_job [OF Cons.prems(1) j(1)] by simp
  have notin: "j \<notin> set js" "interrupted now j \<notin> set js"
    using Cons.prems(3) Cons.prems(4) [of "interrupted now j"] by auto
  have "keys_ok (put_job (interrupted now j) d)"
    by (rule keys_ok_put_job [OF Cons.prems(1) j(1)]) (simp add: same_job_def interrupted_def)
  then have keys1: "keys_ok ?d1" by (simp add: keys_ok_def)
  have sub: "set js \<subseteq> set (jobs ?d1)"
  proof
    fix k assume k: "k \<in> set js"
    then have "k \<noteq> j" using notin by blast
    with k show "k \<in> set (jobs ?d1)" using Cons.prems(2) jobs1 by auto
  qed
  have dist: "distinct (map j_id js)" using Cons.prems(3) by simp
  obtain d' where d': "interrupt_all now js ?d1 = Inr d'" "keys_ok d'" "audits d' = audits d"
    "locks d' = locks d" "workers d' = workers d"
    "set (jobs d') = (set (jobs ?d1) - set js) \<union> interrupted now ` set js"
    using Cons.IH [OF keys1 sub dist] Cons.prems(4) by auto
  have "set (jobs d') = (set (jobs d) - set (j # js)) \<union> interrupted now ` set (j # js)"
    unfolding d'(6) jobs1 using notin by auto
  with d' step show ?case by auto
qed

lemma refresh_all_ok:
  assumes "core_inv d" "distinct is" "\<And>k. k \<notin> set is \<Longrightarrow> audit_ok d k"
    and "\<And>i. i \<in> set is \<Longrightarrow> audit_job_statuses d i \<noteq> []
          \<and> (\<exists>a. require_audit d i = Inr a \<and> refreshable (a_status a) (audit_job_statuses d i))"
  shows "\<exists>d'. refresh_all now is d = Inr d' \<and> job_inv d' \<and> jobs d' = jobs d \<and> locks d' = locks d
     \<and> workers d' = workers d"
  using assms
proof (induction "is" arbitrary: d)
  case Nil
  then show ?case by (auto simp: job_inv_def)
next
  case (Cons i "is")
  have keys: "keys_ok d" using Cons.prems(1) by (rule core_inv_keys)
  obtain a where a: "require_audit d i = Inr a" "refreshable (a_status a) (audit_job_statuses d i)"
    and ne: "audit_job_statuses d i \<noteq> []" using Cons.prems(4) by auto
  obtain d1 where d1: "refresh_audit now i d = Inr d1" using refresh_audit_succeeds [OF a] by blast
  note fr = refresh_audit_frame [OF d1]
  have core1: "core_inv d1" using fr(5) Cons.prems(1) by simp
  have ok1: "audit_ok d1 k" if "k \<notin> set is" for k
  proof (cases "k = i")
    case True
    then show ?thesis using refresh_audit_self [OF keys d1 ne] by simp
  next
    case False
    with that Cons.prems(3) show ?thesis using refresh_audit_other [OF keys d1] by simp
  qed
  have get1: "require_audit d1 k = require_audit d k" if "k \<noteq> i" for k
    using d1
  proof (cases rule: refresh_audit_cases)
    case 1
    then show ?thesis by simp
  next
    case (2 b)
    then have "a_id b = i" using require_audit_Inr [OF keys] by simp
    with 2 that keys show ?thesis by (simp add: require_audit_def tbl.get_put_other keys_ok_def)
  qed
  have i: "i \<notin> set is" and dist: "distinct is" using Cons.prems(2) by auto
  have rest: "audit_job_statuses d1 k \<noteq> []
      \<and> (\<exists>a. require_audit d1 k = Inr a \<and> refreshable (a_status a) (audit_job_statuses d1 k))"
    if "k \<in> set is" for k
  proof -
    have "k \<noteq> i" using that i by blast
    then show ?thesis using Cons.prems(4) [of k] that get1 [of k] fr(6) [of k] by simp
  qed
  from Cons.IH [OF core1 dist ok1 rest] d1 fr show ?case by auto
qed

definition no_running :: "db \<Rightarrow> bool" where
  "no_running d \<longleftrightarrow> (\<forall>j \<in> set (jobs d). j_status j \<noteq> JS_RUNNING)"

lemma recover_running_spec:
  assumes inv: "job_inv d"
  shows "\<exists>d'. recover_running now d = Inr (d', length (running_jobs d)) \<and> job_inv d'
    \<and> no_running d' \<and> locks d' = []
    \<and> workers d' = map (\<lambda>w. w\<lparr>w_status := W_STOPPED, w_current_job_id := None\<rparr>) (workers d)
    \<and> set (jobs d') = {j \<in> set (jobs d). j_status j \<noteq> JS_RUNNING} \<union> interrupted now ` set (running_jobs d)"
proof -
  let ?js = "running_jobs d"
  have keys: "keys_ok d" using inv by simp
  have js: "set ?js = {j \<in> set (jobs d). j_status j = JS_RUNNING}" by (auto simp: running_jobs_def)
  have dist: "distinct (map j_id ?js)"
    using keys by (auto simp: running_jobs_def keys_ok_def intro: distinct_map_filter)
  have sub: "set ?js \<subseteq> set (jobs d)" and run: "\<And>j. j \<in> set ?js \<Longrightarrow> j_status j = JS_RUNNING"
    using js by auto
  obtain d1 where d1: "interrupt_all now ?js d = Inr d1" "keys_ok d1" "audits d1 = audits d"
    "locks d1 = locks d" "workers d1 = workers d"
    "set (jobs d1) = (set (jobs d) - set ?js) \<union> interrupted now ` set ?js"
    using interrupt_all_spec [OF keys sub dist run] by blast
  let ?d2 = "stop_workers d1"
  have jobs2: "jobs ?d2 = jobs d1" "audits ?d2 = audits d" "locks ?d2 = []"
    by (simp_all add: stop_workers_def d1)
  have nr: "no_running ?d2" by (auto simp: no_running_def jobs2 d1(6) js)
  have core2: "core_inv ?d2"
  proof -
    have "keys_ok ?d2" using d1(2,3) by (simp add: keys_ok_def jobs2)
    moreover have "progress_ok j" if "j \<in> set (jobs ?d2)" for j
      using that progress_of [OF inv] by (auto simp: jobs2 d1(6) js progress_ok_def)
    ultimately show ?thesis using nr by (auto simp: core_inv_def locks_ok_def jobs2 no_running_def)
  qed
  let ?is = "remdups (map j_audit_id ?js)"
  have same: "set (audit_job_statuses ?d2 k) = set (audit_job_statuses d k)" if "k \<notin> set ?is" for k
  proof -
    have out: "j_audit_id j \<noteq> k" if "j \<in> set ?js" for j using that \<open>k \<notin> set ?is\<close> by auto
    have "{j \<in> set (jobs d1). j_audit_id j = k} = {j \<in> set (jobs d). j_audit_id j = k}"
      unfolding d1(6) using out by fastforce
    then show ?thesis by (simp add: set_audit_job_statuses jobs2)
  qed
  have ok: "audit_ok ?d2 k" if "k \<notin> set ?is" for k
    using inv summary_ok_cong [OF same [OF that]] by (simp add: audit_ok_def jobs2 job_inv_def)
  have rf: "audit_job_statuses ?d2 k \<noteq> []
      \<and> (\<exists>a. require_audit ?d2 k = Inr a \<and> refreshable (a_status a) (audit_job_statuses ?d2 k))"
    if "k \<in> set ?is" for k
  proof -
    from that obtain j where j: "j \<in> set (jobs d)" "j_status j = JS_RUNNING" "j_audit_id j = k"
      using js by auto
    then have "interrupted now j \<in> set (jobs ?d2)" by (auto simp: jobs2 d1(6) js)
    with j(3) have "audit_job_statuses ?d2 k \<noteq> []"
      by (auto simp: audit_job_statuses_Nil intro: bexI [of _ "interrupted now j"])
    moreover obtain a where a: "require_audit d k = Inr a"
      using require_audit_exists [OF keys j(1)] j(3) by blast
    then have "a \<in> set (audits d)" "a_id a = j_audit_id j"
      using require_audit_Inr [OF keys] j(3) by auto
    then have "a_status a = AS_RUNNING" using audit_of_job_status [OF inv j(1)] j(2) by auto
    ultimately show ?thesis using a by (auto simp: require_audit_def jobs2 refreshable_def)
  qed
  obtain d3 where d3: "refresh_all now ?is ?d2 = Inr d3" "job_inv d3" "jobs d3 = jobs ?d2"
    "locks d3 = locks ?d2" "workers d3 = workers ?d2"
    using refresh_all_ok [OF core2 distinct_remdups ok rf] by blast
  have "recover_running now d = Inr (d3, length ?js)"
    using d1(1) d3(1) by (simp add: recover_running_def Let_def)
  moreover have "no_running d3" using nr d3(3) by (simp add: no_running_def)
  moreover have "set (jobs d) - set ?js = {j \<in> set (jobs d). j_status j \<noteq> JS_RUNNING}"
    using js by auto
  ultimately show ?thesis
    using d3 d1(5,6) jobs2 by (simp add: stop_workers_def)
qed

section \<open>Workers, audits and retention\<close>

lemma job_inv_frame:
  assumes "job_inv d" "jobs d' = jobs d" "audits d' = audits d" "locks d' = locks d"
  shows "job_inv d'"
  using assms
  by (simp add: job_inv_def core_inv_def keys_ok_def locks_ok_def audit_ok_def audit_job_statuses_def)

lemma upsert_worker_frame [simp]:
  "jobs (upsert_worker now i d) = jobs d" "audits (upsert_worker now i d) = audits d"
  "locks (upsert_worker now i d) = locks d" "events (upsert_worker now i d) = events d"
  by (simp_all add: upsert_worker_def split: option.splits)

lemma prepare_supervisor_inv:
  assumes inv: "job_inv d"
  shows "job_inv (fst (prepare_supervisor now sv st d))"
proof -
  obtain d1 where d1: "recover_running now d = Inr (d1, length (running_jobs d))" "job_inv d1"
    using recover_running_spec [OF inv] by blast
  have "job_inv (upsert_worker now sv d1)" by (rule job_inv_frame [OF d1(2)]) simp_all
  with inv d1(1) show ?thesis by (simp add: prepare_supervisor_def immediate_session_def)
qed

lemma recover_after_restart_inv: "job_inv d \<Longrightarrow> job_inv (fst (recover_after_restart now d))"
  using recover_running_spec [of d now] by (auto simp: recover_after_restart_def immediate_session_def)

lemma register_worker_inv: "job_inv d \<Longrightarrow> job_inv (fst (register_worker now i d))"
  by (auto simp: register_worker_def immediate_session_def intro: job_inv_frame)

lemma heartbeat_worker_inv: "job_inv d \<Longrightarrow> job_inv (fst (heartbeat_worker now i st c d))"
  by (auto simp: heartbeat_worker_def immediate_session_def intro: job_inv_frame split: option.splits)

lemma prune_inv: "job_inv d \<Longrightarrow> job_inv (fst (prune_terminal_job_events now days d))"
  by (auto simp: prune_terminal_job_events_def immediate_session_def Let_def intro: job_inv_frame)

lemma create_audit_inv: "job_inv d \<Longrightarrow> job_inv (fst (create_audit now nid pf ifc sc ac d))"
  unfolding create_audit_def
  by (rule immediate_session_preserves) (auto simp: Let_def intro: job_inv_insert_audit)

lemma set_environment_reference_inv:
  assumes inv: "job_inv d"
  shows "job_inv (fst (set_environment_reference i art d))"
  unfolding set_environment_reference_def
proof (rule immediate_session_preserves)
  show "job_inv d" by (rule inv)
next
  fix d' x
  assume "rbind (require_audit d i) (\<lambda>a. let a' = a\<lparr>a_environment_snapshot_reference := Some art\<rparr>
       in Inr (put_audit a' d, a')) = Inr (d', x)"
  then obtain a where a: "require_audit d i = Inr a"
    and d': "d' = put_audit (a\<lparr>a_environment_snapshot_reference := Some art\<rparr>) d"
    by (auto simp: Let_def)
  have "a \<in> set (audits d)" using a require_audit_Inr keys_of [OF inv] by auto
  then have "audit_ok d' k" for k
    unfolding d' using inv by (intro audit_ok_same_status [of d a]) (simp_all add: job_inv_def core_inv_def)
  then show "job_inv d'" using inv by (simp add: d' job_inv_def)
qed

text \<open>\<^verbatim>\<open>fail_audit\<close> has one caller, the creation of an audit, before the audit has any job.\<close>

lemma fail_audit_inv:
  assumes inv: "job_inv d" and none: "audit_job_statuses d i = []"
  shows "job_inv (fst (fail_audit now i e d))"
  unfolding fail_audit_def
proof (rule immediate_session_preserves)
  show "job_inv d" by (rule inv)
next
  fix d' x
  assume "rbind (require_audit d i) (\<lambda>a. rbind (require_audit_transition (a_status a) AS_FAILED) (\<lambda>_.
         let a' = a\<lparr>a_status := AS_FAILED, a_finished_at := Some now, a_error := Some (error_json e)\<rparr>
         in Inr (put_audit a' d, a'))) = Inr (d', x)"
  then obtain a where a: "require_audit d i = Inr a"
    and d': "d' = put_audit (a\<lparr>a_status := AS_FAILED, a_finished_at := Some now,
        a_error := Some (error_json e)\<rparr>) d"
    by (auto simp: Let_def)
  have am: "a \<in> set (audits d)" "a_id a = i" using a require_audit_Inr keys_of [OF inv] by auto
  then have "audit_ok d' k" for k
    unfolding d' using inv none am
    by (intro audit_ok_put_audit [of d a]) (auto simp: job_inv_def core_inv_def summary_ok_def)
  then show "job_inv d'" using inv by (simp add: d' job_inv_def)
qed

lemma retry_tx_inv:
  assumes inv: "job_inv d" and ok: "retry_tx now nid i actor d = Inr (d', x)"
  shows "job_inv d'"
proof -
  from ok obtain source a a1 d1 where src: "require_job d i = Inr source"
    and a: "require_audit d (j_audit_id source) = Inr a" and a1: "reopened_audit a = Inr a1"
    and ins: "insert_job (retry_row now nid source) d = Inr d1"
    and d': "d' = put_audit (a1\<lparr>a_started_at := (case a_started_at a1 of None \<Rightarrow> Some now | t \<Rightarrow> t)\<rparr>)
        (add_event_row (scheduled_event now (retry_row now nid source) source actor)
          (add_event_row (retried_event now (retry_row now nid source) source actor) d1))"
    by (auto simp: retry_tx_def Let_def split: option.splits)
  let ?a2 = "a1\<lparr>a_started_at := (case a_started_at a1 of None \<Rightarrow> Some now | t \<Rightarrow> t)\<rparr>"
  let ?d2 = "add_event_row (scheduled_event now (retry_row now nid source) source actor)
          (add_event_row (retried_event now (retry_row now nid source) source actor) d1)"
  have am: "a \<in> set (audits d)" "a_id a = j_audit_id source"
    using a require_audit_Inr keys_of [OF inv] by auto
  have a1s: "a_status a1 = AS_RUNNING" "a_id a1 = a_id a"
    using a1 by (auto simp: reopened_audit_def split: if_splits)
  have core1: "core_inv d1"
    by (rule core_inv_insert_job [OF core_of [OF inv] ins]) (simp_all add: retry_row_def queued_job_def)
  have core2: "core_inv ?d2" using core1
    by (simp add: add_event_row_def core_inv_def keys_ok_def locks_ok_def)
  have au2: "audits ?d2 = audits d" "audit_job_statuses ?d2 k = audit_job_statuses d1 k" for k
    using insert_job_frame(1) [OF ins] by (simp_all add: add_event_row_def audit_job_statuses_def)
  have "audit_ok d' k" for k
    unfolding d'
  proof (rule audit_ok_put_audit [of ?d2 a])
    show "keys_ok ?d2" using core2 by (rule core_inv_keys)
    show "a \<in> set (audits ?d2)" "a_id ?a2 = a_id a" using am au2 a1s by simp_all
    show "audit_ok ?d2 k" if "k \<noteq> a_id a"
    proof -
      have "audit_ok d1 k"
        using that inv am(2) by (intro audit_ok_insert_job [OF ins]) (auto simp: retry_row_def queued_job_def job_inv_def)
      then show ?thesis using au2 insert_job_frame(1) [OF ins] by (simp add: audit_ok_def)
    qed
    show "summary_ok (a_status ?a2) (audit_job_statuses ?d2 k)" if "k = a_id a"
    proof -
      have "JS_QUEUED \<in> set (audit_job_statuses d1 k)"
        using insert_job_frame(1) [OF ins] that am(2)
        by (simp add: audit_job_statuses_def retry_row_def queued_job_def)
      then show ?thesis using a1s by (auto simp: summary_ok_def au2 desired_audit_status_def)
    qed
  qed
  with core2 show ?thesis by (simp add: d' job_inv_def)
qed

lemma delete_audit_tx_inv:
  assumes inv: "job_inv d" and ok: "delete_audit_tx i d = Inr (d', x)"
  shows "job_inv d'"
proof -
  from ok have idle: "\<forall>j \<in> set (jobs d). j_audit_id j = i \<longrightarrow> \<not> active (j_status j)"
    and d': "d' = cascade_audit i d"
    by (auto simp: delete_audit_tx_def Let_def active_def filter_empty_conv split: if_splits)
  let ?gone = "j_id ` {j \<in> set (jobs d). j_audit_id j = i}"
  have jobs': "jobs d' = filter (\<lambda>j. j_audit_id j \<noteq> i) (jobs d)"
    and audits': "audits d' = filter (\<lambda>a. a_id a \<noteq> i) (audits d)"
    by (simp_all add: d' cascade_audit_def Let_def)
  have "\<forall>l \<in> set (locks d). l_job_id l \<notin> ?gone"
    using lock_of_unique_job [OF core_of [OF inv]] idle by (fastforce simp: lock_of_def)
  then have locks': "locks d' = locks d"
    by (simp add: d' cascade_audit_def Let_def filter_id_conv)
  have "keys_ok d'"
    using keys_of [OF inv]
    by (auto simp: keys_ok_def jobs' audits' locks' intro: distinct_map_filter)
  moreover have "locks_ok d'"
    unfolding locks_ok_def
  proof (intro conjI ballI impI)
    fix l assume "l \<in> set (locks d')"
    then obtain j where "j \<in> set (jobs d)" "lock_of j l"
      using inv by (auto simp: locks' job_inv_def core_inv_def locks_ok_def)
    moreover then have "j_audit_id j \<noteq> i" using idle by (auto simp: lock_of_def)
    ultimately show "\<exists>j \<in> set (jobs d'). lock_of j l" by (auto simp: jobs')
  next
    fix j assume "j \<in> set (jobs d')" "j_status j = JS_RUNNING \<and> needs_lock j"
    then show "\<exists>l \<in> set (locks d'). lock_of j l"
      using inv by (auto simp: jobs' locks' job_inv_def core_inv_def locks_ok_def)
  qed
  moreover have "\<forall>j \<in> set (jobs d'). progress_ok j" using progress_of [OF inv] by (simp add: jobs')
  moreover have "audit_ok d' k" for k
  proof (cases "k = i")
    case True
    then show ?thesis by (simp add: audit_ok_def audits')
  next
    case False
    then have "audit_job_statuses d' k = audit_job_statuses d k"
      by (auto simp: audit_job_statuses_def jobs' intro!: arg_cong [of _ _ "map j_status"] filter_cong)
    then show ?thesis using inv by (simp add: audit_ok_def audits' job_inv_def)
  qed
  ultimately show ?thesis by (simp add: job_inv_def core_inv_def)
qed

end
