(* ===== verification/Job_System.thy ===== *)
theory Job_System
  imports Job_Operations "HOL-Library.Sublist"
begin

text \<open>
  The job store as a step system: one rule per operation of the services, a failed operation being a
  step that leaves the state as it is. The invariant holds in every reachable state.
\<close>

section \<open>The step relation\<close>

inductive job_step :: "db \<Rightarrow> db \<Rightarrow> bool" where
  step_create_audit: "job_step d (fst (create_audit now nid pf ifc sc ac d))"
| step_environment: "job_step d (fst (set_environment_reference i art d))"
| step_fail_audit: "audit_job_statuses d i = [] \<Longrightarrow> job_step d (fst (fail_audit now i e d))"
| step_create_job: "job_step d (fst (create_job now nid i jt tg ps prio rk rg rl d))"
| step_request_cancel: "job_step d (fst (request_cancel now i d))"
| step_claim_next: "job_step d (fst (claim_next now w d))"
| step_update_progress: "valid_progress p \<Longrightarrow> job_step d (fst (update_progress now i p d))"
| step_complete_job: "job_step d (fst (complete_job now i rr sm d))"
| step_fail_job: "job_step d (fst (fail_job now i e d))"
| step_cancel_running: "job_step d (fst (cancel_running_job now i m rr s d))"
| step_recover: "job_step d (fst (recover_after_restart now d))"
| step_supervisor: "job_step d (fst (prepare_supervisor now sv st d))"
| step_register: "job_step d (fst (register_worker now i d))"
| step_heartbeat: "job_step d (fst (heartbeat_worker now i ws c d))"
| step_retry: "job_step d (fst (retry now nid i actor d))"
| step_delete_audit: "job_step d (fst (delete_audit i d))"
| step_prune: "job_step d (fst (prune_terminal_job_events now days d))"

definition reachable :: "db \<Rightarrow> bool" where
  "reachable d \<longleftrightarrow> job_step\<^sup>*\<^sup>* empty_db d"

lemma fst_retry: "fst (retry now nid i actor d) = fst (immediate_session (retry_tx now nid i actor) d)"
  by (auto simp: retry_def split: prod.splits sum.splits)

lemma tx_inv:
  assumes "job_inv d" "\<And>d' x. f d = Inr (d', x) \<Longrightarrow> job_inv d'"
  shows "job_inv (fst (immediate_session f d))"
  by (rule immediate_session_preserves [of job_inv]) (use assms in blast)+

lemma job_step_inv: "job_inv d \<Longrightarrow> job_step d d' \<Longrightarrow> job_inv d'"
proof (erule job_step.cases, simp_all only: fst_retry create_job_def request_cancel_def
    update_progress_def complete_job_def fail_job_def cancel_running_job_def delete_audit_def)
qed (blast intro: create_audit_inv set_environment_reference_inv fail_audit_inv claim_next_inv
    recover_after_restart_inv prepare_supervisor_inv register_worker_inv heartbeat_worker_inv prune_inv
    tx_inv create_job_tx_inv request_cancel_tx_inv update_progress_tx_inv complete_job_tx_inv
    fail_job_tx_inv cancel_running_job_tx_inv retry_tx_inv delete_audit_tx_inv)+

lemma empty_db_inv: "job_inv empty_db"
  by (simp add: job_inv_def core_inv_def keys_ok_def locks_ok_def audit_ok_def empty_db_def)

interpretation job_sys: step_system "\<lambda>d. d = empty_db" job_step job_inv
  by unfold_locales (auto intro: empty_db_inv job_step_inv)

lemma reachable_inv: "reachable d \<Longrightarrow> job_inv d"
  unfolding reachable_def by (rule job_sys.inv_reachable) simp_all

lemma reachable_step: "reachable d \<Longrightarrow> job_step d d' \<Longrightarrow> reachable d'"
  by (simp add: reachable_def)

lemma reachable_empty: "reachable empty_db"
  by (simp add: reachable_def)

section \<open>Locks and running jobs\<close>

lemma running_lock:
  assumes "job_inv d" "j \<in> set (jobs d)" "j_status j = JS_RUNNING" "needs_lock j"
  obtains l where "l \<in> set (locks d)" "lock_of j l"
  using assms by (auto simp: job_inv_def core_inv_def locks_ok_def)

lemma running_same_key:
  assumes inv: "job_inv d" and j: "j \<in> set (jobs d)" "j_status j = JS_RUNNING"
    and k: "k \<in> set (jobs d)" "j_status k = JS_RUNNING"
    and r: "j_resource_key j = Some r" "j_resource_key k = Some r" "r \<noteq> []"
  shows "j = k"
proof -
  have n: "needs_lock j" "needs_lock k" and key: "lock_key j = r" "lock_key k = r"
    using r by (simp_all add: needs_lock_def lock_key_def)
  obtain l where l: "l \<in> set (locks d)" "lock_of j l" using running_lock [OF inv j n(1)] .
  obtain l' where l': "l' \<in> set (locks d)" "lock_of k l'" using running_lock [OF inv k n(2)] .
  have "l_resource_key l = l_resource_key l'" using l(2) l'(2) key by (simp add: lock_of_def)
  then have "l = l'" using l(1) l'(1) keys_of [OF inv] by (auto simp: keys_ok_def distinct_map inj_on_def)
  with l l' show ?thesis using job_unique [OF keys_of [OF inv] j(1) k(1)] by (simp add: lock_of_def)
qed

definition running_in_group :: "string \<Rightarrow> db \<Rightarrow> nat" where
  "running_in_group g d =
     length (filter (\<lambda>j. j_status j = JS_RUNNING \<and> j_resource_group j = Some g) (jobs d))"

definition group_locks :: "string \<Rightarrow> db \<Rightarrow> nat" where
  "group_locks g d = length (filter (\<lambda>l. l_resource_group l = Some g) (locks d))"

lemma length_eq_by_key:
  assumes "distinct (map f xs)" "distinct (map g ys)" "f ` set xs = g ` set ys"
  shows "length xs = length ys"
proof -
  have "length xs = card (f ` set xs)" "length ys = card (g ` set ys)"
    using assms(1,2) distinct_card [of "map f xs"] distinct_card [of "map g ys"] by simp_all
  with assms(3) show ?thesis by simp
qed

text \<open>The locks of a group count the running jobs of that group.\<close>

lemma group_locks_running:
  assumes inv: "job_inv d" and g: "g \<noteq> []"
  shows "group_locks g d = running_in_group g d"
  unfolding group_locks_def running_in_group_def
proof (rule length_eq_by_key [of l_job_id _ j_id])
  show "distinct (map l_job_id (filter (\<lambda>l. l_resource_group l = Some g) (locks d)))"
    "distinct (map j_id (filter (\<lambda>j. j_status j = JS_RUNNING \<and> j_resource_group j = Some g) (jobs d)))"
    using keys_of [OF inv] by (auto simp: keys_ok_def intro: distinct_map_filter)
  have ok: "locks_ok d" using inv by (simp add: job_inv_def core_inv_def)
  have "\<exists>j \<in> set (jobs d). j_status j = JS_RUNNING \<and> j_resource_group j = Some g \<and> j_id j = l_job_id l"
    if "l \<in> set (locks d)" "l_resource_group l = Some g" for l
    using ok that by (fastforce simp: locks_ok_def lock_of_def)
  moreover have "\<exists>l \<in> set (locks d). l_resource_group l = Some g \<and> l_job_id l = j_id j"
    if "j \<in> set (jobs d)" "j_status j = JS_RUNNING" "j_resource_group j = Some g" for j
  proof -
    have "needs_lock j" using that(3) g by (simp add: needs_lock_def)
    with ok that show ?thesis by (fastforce simp: locks_ok_def lock_of_def)
  qed
  ultimately show "l_job_id ` set (filter (\<lambda>l. l_resource_group l = Some g) (locks d)) =
    j_id ` set (filter (\<lambda>j. j_status j = JS_RUNNING \<and> j_resource_group j = Some g) (jobs d))"
    by (auto simp: image_iff) (metis+)
qed

section \<open>Claiming\<close>

lemma resource_available_mark_waiting [simp]:
  "resource_available (mark_waiting now j d) k = resource_available d k"
  unfolding resource_available_def mark_waiting_frame ..

lemma claim_audit_frame:
  assumes "claim_audit now i d = Inr d'"
  shows "jobs d' = jobs d" "locks d' = locks d" "events d' = events d"
  using assms by (auto elim!: claim_audit_cases)

lemma claim_job_frame:
  assumes "claim_job now w j d = Inr (d', j')"
  shows "j_status j = JS_QUEUED" "j' = claimed now w j" "jobs d' = tbl_put j_id j' (jobs d)"
    "locks d' = locks d @ (if needs_lock j then [claim_lock now w j] else [])"
proof -
  let ?d2 = "claim_event now j (put_job (claimed now w j) d)"
  show q: "j_status j = JS_QUEUED" and j': "j' = claimed now w j"
    using assms by (auto simp: claim_job_eq Let_def split: if_splits)
  from assms obtain d3 where d3: "(if needs_lock j then insert_lock (claim_lock now w j) ?d2
      else Inr ?d2) = Inr d3" and ca: "claim_audit now (j_audit_id j) d3 = Inr d'"
    using q by (auto simp: claim_job_eq Let_def)
  note fr = claim_audit_frame [OF ca]
  show "jobs d' = tbl_put j_id j' (jobs d)"
    "locks d' = locks d @ (if needs_lock j then [claim_lock now w j] else [])"
    using d3 fr insert_lock_frame [of "claim_lock now w j" ?d2 d3] j' by (auto split: if_splits)
qed

lemma claim_loop_spec:
  assumes "claim_loop now w js d = Inr (d', r)"
  shows "case r of None \<Rightarrow> \<forall>j \<in> set js. \<not> resource_available d j
    | Some j' \<Rightarrow> \<exists>pre j post. js = pre @ j # post \<and> (\<forall>k \<in> set pre. \<not> resource_available d k)
        \<and> resource_available d j \<and> j_status j = JS_QUEUED \<and> j' = claimed now w j
        \<and> locks d' = locks d @ (if needs_lock j then [claim_lock now w j] else [])"
  using assms
proof (induction js arbitrary: d)
  case Nil
  then show ?case by simp
next
  case (Cons j js)
  show ?case
  proof (cases "resource_available d j")
    case True
    then obtain j' where r: "r = Some j'" and c: "claim_job now w j d = Inr (d', j')"
      using Cons.prems by auto
    then show ?thesis using True claim_job_frame [OF c] by (auto intro!: exI [of _ "[]"])
  next
    case False
    with Cons.prems have "claim_loop now w js (mark_waiting now j d) = Inr (d', r)" by simp
    from Cons.IH [OF this] show ?thesis
    proof (cases r)
      case None
      with Cons.IH [OF \<open>claim_loop now w js (mark_waiting now j d) = Inr (d', r)\<close>] False
      show ?thesis by simp
    next
      case (Some j')
      with Cons.IH [OF \<open>claim_loop now w js (mark_waiting now j d) = Inr (d', r)\<close>]
      obtain pre k post where "js = pre @ k # post" "\<forall>x \<in> set pre. \<not> resource_available d x"
        "resource_available d k" "j_status k = JS_QUEUED" "j' = claimed now w k"
        "locks d' = locks d @ (if needs_lock k then [claim_lock now w k] else [])" by auto
      then have "j # js = (j # pre) @ k # post \<and> (\<forall>x \<in> set (j # pre). \<not> resource_available d x)
          \<and> resource_available d k \<and> j_status k = JS_QUEUED \<and> j' = claimed now w k
          \<and> locks d' = locks d @ (if needs_lock k then [claim_lock now w k] else [])"
        using False by simp
      then show ?thesis unfolding Some option.case by blast
    qed
  qed
qed

text \<open>The candidate list is ordered, so the first available candidate is a best one.\<close>

lemma claim_candidates_first:
  assumes "claim_candidates d = pre @ j # post" "k \<in> set post"
  shows "(- j_priority j, j_created_at j) \<le> (- j_priority k, j_created_at k)"
proof -
  have "sorted (map (\<lambda>j. (- j_priority j, j_created_at j)) (pre @ j # post))"
    unfolding assms(1) [symmetric] claim_candidates_def by (rule sorted_sort_key)
  with assms(2) show ?thesis by (auto simp: sorted_append)
qed

lemma claim_next_Inr:
  "claim_next now w d = (d', Inr r) \<longleftrightarrow>
     (\<exists>x. claim_loop now w (claim_candidates d) d = Inr (d', x)
        \<and> r = map_option (job_record_of (Some (events d'))) x)"
  by (auto simp: claim_next_def immediate_session_ok)

lemma claim_job_succeeds:
  assumes inv: "job_inv d" and j: "j \<in> set (jobs d)" "j_status j = JS_QUEUED"
    and av: "resource_available d j"
    and own: "\<And>k. k \<in> set (jobs d) \<Longrightarrow> truthy (j_resource_key k) \<Longrightarrow> \<not> prefix ''job:'' (the (j_resource_key k))"
  shows "\<exists>d' j'. claim_job now w j d = Inr (d', j')"
proof -
  let ?d2 = "claim_event now j (put_job (claimed now w j) d)"
  have key: "lock_key j \<notin> l_resource_key ` set (locks d)"
  proof (cases "truthy (j_resource_key j)")
    case True
    with av show ?thesis by (auto simp: resource_available_def lock_key_def split: if_splits)
  next
    case False
    then have lk: "lock_key j = ''job:'' @ j_id j" by (simp add: lock_key_def)
    show ?thesis
    proof
      assume "lock_key j \<in> l_resource_key ` set (locks d)"
      then obtain l k where l: "l \<in> set (locks d)" "l_resource_key l = lock_key j"
        and k: "k \<in> set (jobs d)" "lock_of k l"
        using inv by (auto simp: job_inv_def core_inv_def locks_ok_def)
      then have eq: "lock_key k = ''job:'' @ j_id j" using lk by (simp add: lock_of_def)
      show False
      proof (cases "truthy (j_resource_key k)")
        case True
        with eq own [OF k(1)] show False by (simp add: lock_key_def)
      next
        case False
        with eq have "j_id k = j_id j" by (simp add: lock_key_def)
        with job_unique [OF keys_of [OF inv] k(1) j(1)] k(2) j(2) show False by (simp add: lock_of_def)
      qed
    qed
  qed
  have idle: "j_id j \<notin> l_job_id ` set (locks d)"
  proof
    assume "j_id j \<in> l_job_id ` set (locks d)"
    then obtain l where "l \<in> set (locks d)" "l_job_id l = j_id j" by auto
    with lock_of_unique_job [OF core_of [OF inv] _ j(1)] j(2) show False by (auto simp: lock_of_def)
  qed
  have "j_id j \<in> j_id ` set (jobs ?d2)" using j(1) by (simp add: tbl.key_set_put)
  then have row: "get_job_row ?d2 (j_id j) \<noteq> None" using tbl.get_None by metis
  have "\<exists>d3. (if needs_lock j then insert_lock (claim_lock now w j) ?d2 else Inr ?d2) = Inr d3
      \<and> audits d3 = audits d"
    using key idle row by (auto simp: insert_lock_def claim_lock_def)
  then obtain d3 where d3: "(if needs_lock j then insert_lock (claim_lock now w j) ?d2 else Inr ?d2) = Inr d3"
    "audits d3 = audits d" by blast
  obtain a where "require_audit d (j_audit_id j) = Inr a"
    using require_audit_exists [OF keys_of [OF inv] j(1)] by blast
  then have "\<exists>d4. claim_audit now (j_audit_id j) d3 = Inr d4"
    using d3(2) by (auto simp: claim_audit_def require_audit_def require_audit_transition_def)
  with d3(1) j(2) show ?thesis by (auto simp: claim_job_eq Let_def)
qed

lemma claim_loop_succeeds:
  assumes "job_inv d" "set js \<subseteq> set (jobs d)" "distinct (map j_id js)"
    and "\<And>j. j \<in> set js \<Longrightarrow> j_status j = JS_QUEUED"
    and "\<And>k. k \<in> set (jobs d) \<Longrightarrow> truthy (j_resource_key k) \<Longrightarrow> \<not> prefix ''job:'' (the (j_resource_key k))"
  shows "\<exists>d' r. claim_loop now w js d = Inr (d', r)"
  using assms
proof (induction js arbitrary: d)
  case Nil
  then show ?case by simp
next
  case (Cons j js)
  have j: "j \<in> set (jobs d)" "j_status j = JS_QUEUED" using Cons.prems by auto
  show ?case
  proof (cases "resource_available d j")
    case True
    from claim_job_succeeds [OF Cons.prems(1) j True Cons.prems(5)] True show ?thesis by fastforce
  next
    case False
    let ?d = "mark_waiting now j d"
    have inv1: "job_inv ?d" using mark_waiting_inv [OF Cons.prems(1) j(1)] .
    have sub: "set js \<subseteq> set (jobs ?d)"
    proof
      fix k assume k: "k \<in> set js"
      then have "j_id k \<in> j_id ` set js" by simp
      moreover have "j_id j \<notin> j_id ` set js" using Cons.prems(3) by simp
      ultimately have "j_id k \<noteq> j_id j" by metis
      with k Cons.prems(2) show "k \<in> set (jobs ?d)"
        using mark_waiting_jobs [OF keys_of [OF Cons.prems(1)] j(1)] by auto
    qed
    have own: "\<not> prefix ''job:'' (the (j_resource_key k))"
      if "k \<in> set (jobs ?d)" "truthy (j_resource_key k)" for k
      using that Cons.prems(5) j(1) tbl.mem_put [of k j_id]
      by (fastforce simp: mark_waiting_def Let_def split: if_splits)
    from Cons.IH [OF inv1 sub _ _ own] Cons.prems(3,4) False show ?thesis by auto
  qed
qed

end
