(* ===== verification/Job_History.thy ===== *)
theory Job_History
  imports Job_System
begin

text \<open>
  How one operation changes the stored job rows: a row follows the transition table by at most one
  edge, keeps what it was created with, never loses progress, and is final once terminal.
\<close>

section \<open>One step of a row\<close>

definition same_request :: "job_row \<Rightarrow> job_row \<Rightarrow> bool" where
  "same_request j j' \<longleftrightarrow> j_id j' = j_id j \<and> j_audit_id j' = j_audit_id j \<and> j_type j' = j_type j
     \<and> j_priority j' = j_priority j \<and> j_created_at j' = j_created_at j \<and> j_target j' = j_target j
     \<and> j_parameters j' = j_parameters j \<and> j_resource_key j' = j_resource_key j
     \<and> j_resource_group j' = j_resource_group j \<and> j_resource_limit j' = j_resource_limit j"

definition row_step :: "job_row \<Rightarrow> job_row \<Rightarrow> bool" where
  "row_step j j' \<longleftrightarrow> j' = j \<or>
     (same_request j j' \<and> active (j_status j) \<and> j_progress j \<le> j_progress j'
      \<and> (j_status j' = j_status j \<or> j_status j' \<in> JOB_TRANSITIONS (j_status j))
      \<and> j_attempt j' = j_attempt j
          + (if j_status j = JS_QUEUED \<and> j_status j' = JS_RUNNING then 1 else 0))"

text \<open>A row is gone only when its audit was deleted, and then it was terminal.\<close>

definition rows_step :: "db \<Rightarrow> db \<Rightarrow> bool" where
  "rows_step d d' \<longleftrightarrow> (\<forall>j \<in> set (jobs d). (\<exists>j' \<in> set (jobs d'). row_step j j')
     \<or> (terminal (j_status j) \<and> j_audit_id j \<notin> a_id ` set (audits d')))"

lemma row_step_refl [simp]: "row_step j j"
  by (simp add: row_step_def)

lemma row_kept: "j \<in> A \<Longrightarrow> \<exists>j' \<in> A. row_step j j'"
  by (rule bexI [of _ j]) simp_all

lemma rows_step_superset: "set (jobs d) \<subseteq> set (jobs d') \<Longrightarrow> rows_step d d'"
  by (auto simp: rows_step_def dest: subsetD intro: row_kept)

lemma rows_step_put:
  assumes "keys_ok d" "j \<in> set (jobs d)" "row_step j j'" "j_id j' = j_id j"
    and "jobs d' = tbl_put j_id j' (jobs d)"
  shows "rows_step d d'"
  using assms(3,5) set_put_job [OF assms(1,2,4)] unfolding rows_step_def
  by (metis Diff_iff insert_iff row_step_refl singletonD)

lemma rows_step_tx:
  assumes "\<And>d' x. f d = Inr (d', x) \<Longrightarrow> rows_step d d'"
  shows "rows_step d (fst (immediate_session f d))"
  by (rule immediate_session_preserves [of "rows_step d"]) (use assms in \<open>auto intro: rows_step_superset\<close>)

lemma transitioned_request [simp]:
  "j_type (transitioned n j s st p m e) = j_type j"
  "j_priority (transitioned n j s st p m e) = j_priority j"
  "j_created_at (transitioned n j s st p m e) = j_created_at j"
  "j_target (transitioned n j s st p m e) = j_target j"
  "j_parameters (transitioned n j s st p m e) = j_parameters j"
  "j_attempt (transitioned n j s st p m e) = j_attempt j"
  by (simp_all add: transitioned_def apply_error_def Let_def split: option.splits)

lemma row_step_transitioned:
  assumes "s \<in> JOB_TRANSITIONS (j_status j)" "s \<noteq> JS_RUNNING" "j_progress j \<le> p"
    and "same_request j j0" "j_attempt j0 = j_attempt j"
  shows "row_step j (transitioned n j0 s st p m e)"
  using assms transition_from_active [OF assms(1)] by (simp add: row_step_def same_request_def)

lemma row_step_claimed: "j_status j = JS_QUEUED \<Longrightarrow> row_step j (claimed n w j)"
  by (simp add: row_step_def same_request_def claimed_def Let_def)

lemma row_step_waiting: "j_status j = JS_QUEUED \<Longrightarrow>
    row_step j (j\<lparr>j_stage := s, j_message := m\<rparr>)"
  by (simp add: row_step_def same_request_def)

section \<open>The operations\<close>

lemma finish_job_jobs: "finish_job now j sm d = Inr d' \<Longrightarrow> jobs d' = jobs d"
  using merge_summary_frame(1) refresh_audit_frame(1)
  by (fastforce simp: finish_job_def split: option.splits)

lemma finish_rows:
  assumes inv: "job_inv d" and j: "require_job d i = Inr j"
    and t: "transition_job now j0 s st p m e d = Inr (d1, j1)"
    and fin: "finish_job now j1 sm d1 = Inr d'"
    and st: "j_status j0 = j_status j" "s \<noteq> JS_RUNNING" "j_progress j \<le> p" "same_request j j0"
      "j_attempt j0 = j_attempt j"
  shows "rows_step d d'"
proof -
  have jm: "j \<in> set (jobs d)" using j require_job_Inr inv by simp
  have t': "s \<in> JOB_TRANSITIONS (j_status j)" "j1 = transitioned now j0 s st p m e"
    "jobs d1 = tbl_put j_id j1 (jobs d)"
    using t st(1) by (auto simp: transition_job_Inr)
  then have "row_step j j1" "j_id j1 = j_id j"
    using row_step_transitioned st by (simp_all add: same_request_def)
  then show ?thesis
    using rows_step_put [OF keys_of [OF inv] jm] finish_job_jobs [OF fin] t'(3) by simp
qed

lemma complete_job_rows:
  assumes "job_inv d"
  shows "rows_step d (fst (complete_job now i rr sm d))"
  unfolding complete_job_def
proof (rule rows_step_tx)
  fix d' x assume "complete_job_tx now i rr sm d = Inr (d', x)"
  then obtain j d1 j1 where j: "require_job d i = Inr j"
    and t: "transition_job now (j\<lparr>j_result_reference := rr\<rparr>) JS_COMPLETED ''completed'' 100
        ''Job completed'' None d = Inr (d1, j1)" and f: "finish_job now j1 sm d1 = Inr d'"
    by (auto simp: complete_job_tx_eq)
  have "j \<in> set (jobs d)" using j require_job_Inr assms by simp
  then have "j_progress j \<le> 100" using progress_of [OF assms] by (simp add: progress_ok_def)
  then show "rows_step d d'"
    by (intro finish_rows [OF assms j t f]) (simp_all add: same_request_def)
qed

lemma fail_job_rows:
  assumes "job_inv d"
  shows "rows_step d (fst (fail_job now i e d))"
  unfolding fail_job_def
proof (rule rows_step_tx)
  fix d' x assume "fail_job_tx now i e d = Inr (d', x)"
  then obtain j d1 j1 where j: "require_job d i = Inr j"
    and t: "transition_job now j JS_FAILED ''failed'' (j_progress j) (je_message e) (Some e) d
      = Inr (d1, j1)" and f: "finish_job now j1 None d1 = Inr d'"
    by (auto simp: fail_job_tx_eq)
  show "rows_step d d'"
    by (intro finish_rows [OF assms j t f]) (simp_all add: same_request_def)
qed

lemma cancel_running_job_rows:
  assumes "job_inv d"
  shows "rows_step d (fst (cancel_running_job now i m rr sm d))"
  unfolding cancel_running_job_def
proof (rule rows_step_tx)
  fix d' x assume "cancel_running_job_tx now i m rr sm d = Inr (d', x)"
  then obtain j d1 j1 sm' where j: "require_job d i = Inr j"
    and t: "transition_job now (if truthy rr then j\<lparr>j_result_reference := rr\<rparr> else j) JS_CANCELLED
      ''cancelled'' (j_progress j) m (Some (cancelled_error m)) d = Inr (d1, j1)"
    and f: "finish_job now j1 sm' d1 = Inr d'"
    by (auto simp: cancel_running_job_tx_eq)
  show "rows_step d d'"
    by (intro finish_rows [OF assms j t f]) (simp_all add: same_request_def)
qed

lemma request_cancel_rows:
  assumes inv: "job_inv d"
  shows "rows_step d (fst (request_cancel now i d))"
  unfolding request_cancel_def
proof (rule rows_step_tx)
  fix d' x assume ok: "request_cancel_tx now i d = Inr (d', x)"
  then obtain j where j: "require_job d i = Inr j" by (auto simp: request_cancel_tx_def)
  then have jm: "j \<in> set (jobs d)" using require_job_Inr inv by simp
  note put = rows_step_put [OF keys_of [OF inv] jm]
  consider "j_status j = JS_QUEUED" | "j_status j = JS_RUNNING"
    | "j_status j \<noteq> JS_QUEUED" "j_status j \<noteq> JS_RUNNING" by blast
  then show "rows_step d d'"
  proof cases
    case 1
    then obtain d1 where "refresh_audit now (j_audit_id j) d1 = Inr d'"
      "jobs d1 = tbl_put j_id (transitioned now j JS_CANCELLED ''cancelled'' (j_progress j)
         ''Queued job cancelled'' (Some cancelled_before_start)) (jobs d)"
      using ok j by (auto simp: request_cancel_tx_def transition_job_Inr)
    then show ?thesis
      using refresh_audit_frame(1) 1
      by (intro put) (auto intro!: row_step_transitioned simp: same_request_def)
  next
    case 2
    have "row_step j (j\<lparr>j_cancel_requested := True\<rparr>)"
      using 2 by (simp add: row_step_def same_request_def)
    then show ?thesis
      using ok j 2 put by (auto simp: request_cancel_tx_def Let_def intro: rows_step_superset split: if_splits)
  next
    case 3
    then show ?thesis using ok j by (auto simp: request_cancel_tx_def intro: rows_step_superset)
  qed
qed

lemma update_progress_rows:
  assumes inv: "job_inv d"
  shows "rows_step d (fst (update_progress now i p d))"
  unfolding update_progress_def
proof (rule rows_step_tx)
  fix d' x assume "update_progress_tx now i p d = Inr (d', x)"
  then obtain j where j: "require_job d i = Inr j" "j_status j = JS_RUNNING"
    "j_progress j \<le> jp_percentage p"
    and d': "jobs d' = tbl_put j_id (j\<lparr>j_progress := jp_percentage p, j_stage := jp_stage p,
       j_message := Some (jp_message p)\<rparr>) (jobs d)"
    by (auto simp: update_progress_tx_def Let_def split: if_splits)
  have "j \<in> set (jobs d)" using j(1) require_job_Inr inv by simp
  from rows_step_put [OF keys_of [OF inv] this _ _ d'] j(2,3) show "rows_step d d'"
    by (simp add: row_step_def same_request_def)
qed

text \<open>The claim loop changes each candidate at most once and no other row.\<close>

lemma claim_loop_rows:
  assumes "job_inv d" "set js \<subseteq> set (jobs d)" "distinct (map j_id js)"
    and "\<And>j. j \<in> set js \<Longrightarrow> j_status j = JS_QUEUED"
    and "claim_loop now w js d = Inr (d', r)" and "k \<in> set (jobs d)"
  shows "if k \<in> set js then \<exists>k' \<in> set (jobs d'). row_step k k' else k \<in> set (jobs d')"
  using assms
proof (induction js arbitrary: d k)
  case Nil
  then show ?case by simp
next
  case (Cons j js)
  have j: "j \<in> set (jobs d)" "j_status j = JS_QUEUED" and new: "j_id j \<notin> j_id ` set js"
    using Cons.prems(2-4) by auto
  have ne: "j_id k \<noteq> j_id j" if "k \<noteq> j"
    using job_unique [OF keys_of [OF Cons.prems(1)] Cons.prems(6) j(1)] that by blast
  show ?case
  proof (cases "resource_available d j")
    case True
    then obtain j' where c: "claim_job now w j d = Inr (d', j')" using Cons.prems(5) by auto
    have s: "set (jobs d') = insert (claimed now w j) (set (jobs d) - {j})"
      using claim_job_frame(2,3) [OF c] set_put_job [OF keys_of [OF Cons.prems(1)] j(1)] by simp
    show ?thesis
    proof (cases "k = j")
      case True
      then show ?thesis using s row_step_claimed [OF j(2)] by auto
    next
      case False
      then have "k \<in> set (jobs d')" using s Cons.prems(6) by simp
      then show ?thesis by (simp add: row_kept)
    qed
  next
    case False
    let ?d = "mark_waiting now j d"
    let ?w = "j\<lparr>j_stage := ''resource_wait'', j_message := Some ''Waiting for exclusive resource''\<rparr>"
    have loop: "claim_loop now w js ?d = Inr (d', r)" using Cons.prems(5) False by simp
    have inv1: "job_inv ?d" using mark_waiting_inv [OF Cons.prems(1) j(1)] .
    have keep: "x \<in> set (jobs ?d)" if "x \<in> set (jobs d)" "j_id x \<noteq> j_id j" for x
      using mark_waiting_jobs [OF keys_of [OF Cons.prems(1)] j(1) that] .
    have sub: "set js \<subseteq> set (jobs ?d)"
    proof
      fix x assume x: "x \<in> set js"
      then have "j_id x \<in> j_id ` set js" by (rule imageI)
      with new have "j_id x \<noteq> j_id j" by metis
      with keep [of x] x Cons.prems(2) show "x \<in> set (jobs ?d)" by auto
    qed
    have IH: "if x \<in> set js then \<exists>k' \<in> set (jobs d'). row_step x k' else x \<in> set (jobs d')"
      if "x \<in> set (jobs ?d)" for x
    proof (rule Cons.IH [OF inv1 sub _ _ loop that])
      show "distinct (map j_id js)" "\<And>j. j \<in> set js \<Longrightarrow> j_status j = JS_QUEUED"
        using Cons.prems(3,4) by simp_all
    qed
    show ?thesis
    proof (cases "k = j")
      case False
      with IH [OF keep [OF Cons.prems(6) ne]] show ?thesis by simp
    next
      case True
      let ?j = "if j_stage j = ''resource_wait'' then j else ?w"
      have mem: "?w \<in> set (tbl_put j_id ?w (jobs d))"
        using set_put_job [OF keys_of [OF Cons.prems(1)] j(1), of ?w] by simp
      have "?j \<in> set (jobs ?d)" "j_id ?j = j_id j" "row_step j ?j"
        using mem j(1) row_step_waiting [OF j(2)] by (simp_all add: mark_waiting_def Let_def)
      then obtain j1 where j1: "j1 \<in> set (jobs ?d)" "j_id j1 = j_id j" "row_step j j1" by blast
      then have "j1 \<notin> set js" using new by (metis imageI)
      with IH [OF j1(1)] have "j1 \<in> set (jobs d')" by simp
      with j1(3) True show ?thesis by (simp only: list.set_intros(1) if_True) (rule bexI)
    qed
  qed
qed

lemma claim_next_rows:
  assumes inv: "job_inv d"
  shows "rows_step d (fst (claim_next now w d))"
  unfolding claim_next_def
proof (rule rows_step_tx)
  fix d' x assume "rbind (claim_loop now w (claim_candidates d) d)
    (\<lambda>(d', r). Inr (d', map_option (job_record_of (Some (events d'))) r)) = Inr (d', x)"
  then obtain r where loop: "claim_loop now w (claim_candidates d) d = Inr (d', r)" by auto
  have "\<exists>k' \<in> set (jobs d'). row_step k k'" if "k \<in> set (jobs d)" for k
  proof -
    have "set (claim_candidates d) \<subseteq> set (jobs d)" by (auto simp: set_claim_candidates)
    moreover have "j_status j = JS_QUEUED" if "j \<in> set (claim_candidates d)" for j
      using that by (simp add: set_claim_candidates)
    ultimately have "if k \<in> set (claim_candidates d) then \<exists>k' \<in> set (jobs d'). row_step k k'
        else k \<in> set (jobs d')"
      using claim_loop_rows [OF inv _ distinct_claim_candidates [OF keys_of [OF inv]] _ loop that] by blast
    then show ?thesis using row_kept by (cases "k \<in> set (claim_candidates d)") (simp, fastforce)
  qed
  then show "rows_step d d'" by (simp add: rows_step_def)
qed

lemma recover_running_rows:
  assumes inv: "job_inv d" and ok: "recover_running now d = Inr (d', n)"
  shows "rows_step d d'"
proof -
  have s: "set (jobs d') = {j \<in> set (jobs d). j_status j \<noteq> JS_RUNNING} \<union> interrupted now ` set (running_jobs d)"
    using recover_running_spec [OF inv, of now] ok by auto
  have "\<exists>j' \<in> set (jobs d'). row_step j j'" if j: "j \<in> set (jobs d)" for j
  proof (cases "j_status j = JS_RUNNING")
    case True
    have "row_step j (interrupted now j)"
      using True by (auto simp: interrupted_def same_request_def intro!: row_step_transitioned)
    moreover have "interrupted now j \<in> set (jobs d')" using s True j by (simp add: running_jobs_def)
    ultimately show ?thesis by blast
  next
    case False
    then show ?thesis using s j by (intro row_kept) simp
  qed
  then show ?thesis by (simp add: rows_step_def)
qed

lemma create_job_rows: "rows_step d (fst (create_job now nid i jt tg ps pr rk rg rl d))"
  unfolding create_job_def
proof (rule rows_step_tx)
  fix d' x assume "create_job_tx now nid i jt tg ps pr rk rg rl d = Inr (d', x)"
  then have "\<exists>j. jobs d' = jobs d @ [j]"
    by (auto simp: create_job_tx_def Let_def insert_job_def split: if_splits)
  then show "rows_step d d'" by (intro rows_step_superset) auto
qed

lemma retry_rows: "rows_step d (fst (retry now nid i actor d))"
  unfolding fst_retry
proof (rule rows_step_tx)
  fix d' x assume "retry_tx now nid i actor d = Inr (d', x)"
  then have "\<exists>j. jobs d' = jobs d @ [j]"
    by (auto simp: retry_tx_def Let_def insert_job_def add_event_row_def split: if_splits option.splits)
  then show "rows_step d d'" by (intro rows_step_superset) auto
qed

lemma delete_audit_rows: "rows_step d (fst (delete_audit i d))"
  unfolding delete_audit_def
proof (rule rows_step_tx)
  fix d' x assume ok: "delete_audit_tx i d = Inr (d', x)"
  then have idle: "\<forall>j \<in> set (jobs d). j_audit_id j = i \<longrightarrow> terminal (j_status j)"
    and d': "d' = cascade_audit i d"
    by (auto simp: delete_audit_tx_def Let_def filter_empty_conv terminal_def split: if_splits)
      (metis job_status.exhaust)
  show "rows_step d d'"
    unfolding rows_step_def
  proof
    fix j assume j: "j \<in> set (jobs d)"
    show "(\<exists>j' \<in> set (jobs d'). row_step j j')
        \<or> (terminal (j_status j) \<and> j_audit_id j \<notin> a_id ` set (audits d'))"
    proof (cases "j_audit_id j = i")
      case True
      with idle j d' show ?thesis by (auto simp: cascade_audit_def Let_def)
    next
      case False
      then have "j \<in> set (jobs d')" using j d' by (simp add: cascade_audit_def Let_def)
      then show ?thesis by (blast intro: row_step_refl)
    qed
  qed
qed

lemma recover_after_restart_rows: "job_inv d \<Longrightarrow> rows_step d (fst (recover_after_restart now d))"
  unfolding recover_after_restart_def by (rule rows_step_tx) (rule recover_running_rows)

lemma prepare_supervisor_rows:
  assumes "job_inv d"
  shows "rows_step d (fst (prepare_supervisor now sv st d))"
  unfolding prepare_supervisor_def
proof (rule rows_step_tx)
  fix d' x
  assume "(if healthy_workers (now - st * 1000000) {W_STARTING, W_IDLE, W_RUNNING} d > 0
      then Inl WorkerAlreadyRunning
      else rbind (recover_running now d) (\<lambda>(d1, n). Inr (upsert_worker now sv d1, n))) = Inr (d', x)"
  then obtain d1 n where "recover_running now d = Inr (d1, n)" "d' = upsert_worker now sv d1"
    by (auto split: if_splits)
  with recover_running_rows [OF assms] show "rows_step d d'" by (simp add: rows_step_def)
qed

lemma same_jobs_tx:
  assumes "\<And>d' x. f d = Inr (d', x) \<Longrightarrow> jobs d' = jobs d"
  shows "rows_step d (fst (immediate_session f d))"
  by (rule rows_step_tx) (use assms in \<open>auto intro: rows_step_superset\<close>)

lemma create_audit_rows: "rows_step d (fst (create_audit now nid pf ifc sc ac d))"
  unfolding create_audit_def
  by (rule same_jobs_tx) (auto simp: Let_def insert_audit_def split: if_splits)

lemma set_environment_reference_rows: "rows_step d (fst (set_environment_reference i art d))"
  unfolding set_environment_reference_def by (rule same_jobs_tx) (auto simp: Let_def)

lemma fail_audit_rows: "rows_step d (fst (fail_audit now i e d))"
  unfolding fail_audit_def by (rule same_jobs_tx) (auto simp: Let_def)

lemma register_worker_rows: "rows_step d (fst (register_worker now i d))"
  unfolding register_worker_def by (rule same_jobs_tx) auto

lemma heartbeat_worker_rows: "rows_step d (fst (heartbeat_worker now i ws c d))"
  unfolding heartbeat_worker_def by (rule same_jobs_tx) (auto split: option.splits)

lemma prune_rows: "rows_step d (fst (prune_terminal_job_events now days d))"
  unfolding prune_terminal_job_events_def by (rule same_jobs_tx) (auto simp: Let_def)

lemma job_step_rows:
  assumes "job_inv d" "job_step d d'"
  shows "rows_step d d'"
  using assms(2,1)
  by cases (simp_all only: create_audit_rows set_environment_reference_rows fail_audit_rows
    register_worker_rows heartbeat_worker_rows prune_rows create_job_rows request_cancel_rows
    claim_next_rows update_progress_rows complete_job_rows fail_job_rows cancel_running_job_rows
    recover_after_restart_rows prepare_supervisor_rows retry_rows delete_audit_rows)

section \<open>Ending a running job\<close>

text \<open>What every operation that ends a job does to the store: the one row becomes terminal, its lock
  goes, every other row and lock stays.\<close>

definition job_ended :: "int \<Rightarrow> db \<Rightarrow> job_row \<Rightarrow> db \<Rightarrow> job_row \<Rightarrow> bool" where
  "job_ended now d j d' j' \<longleftrightarrow> same_request j j' \<and> jobs d' = tbl_put j_id j' (jobs d)
     \<and> j_finished_at j' = Some now \<and> locks d' = filter (\<lambda>l. l_job_id l \<noteq> j_id j) (locks d)
     \<and> map a_id (audits d') = map a_id (audits d) \<and> workers d' = workers d"

lemma refresh_audit_ids: "refresh_audit now i d = Inr d' \<Longrightarrow> map a_id (audits d') = map a_id (audits d)"
  by (auto elim!: refresh_audit_cases simp: tbl.keys_put)

lemma merge_summary_ids: "merge_summary i s d = Inr d' \<Longrightarrow> map a_id (audits d') = map a_id (audits d)"
  by (auto elim!: merge_summary_cases simp: tbl.keys_put)

lemma finish_job_frame:
  assumes "finish_job now j sm d = Inr d'"
  shows "locks d' = filter (\<lambda>l. l_job_id l \<noteq> j_id j) (locks d)" "workers d' = workers d"
    "map a_id (audits d') = map a_id (audits d)"
proof -
  obtain d1 where d1: "(sm = None \<and> d1 = release_lock (j_id j) d)
      \<or> (\<exists>s. merge_summary (j_audit_id j) s (release_lock (j_id j) d) = Inr d1)"
    and r: "refresh_audit now (j_audit_id j) d1 = Inr d'"
    using assms by (auto simp: finish_job_def split: option.splits)
  have "locks d1 = locks (release_lock (j_id j) d)" "workers d1 = workers d"
    "map a_id (audits d1) = map a_id (audits d)"
    using d1 merge_summary_frame(2,4) merge_summary_ids by fastforce+
  then show "locks d' = filter (\<lambda>l. l_job_id l \<noteq> j_id j) (locks d)" "workers d' = workers d"
    "map a_id (audits d') = map a_id (audits d)"
    using refresh_audit_frame(2,4) [OF r] refresh_audit_ids [OF r] by (simp_all add: release_lock_def)
qed

lemma transitioned_finished [simp]:
  "terminal s \<Longrightarrow> j_finished_at (transitioned n j s st p m e) = Some n"
  by (simp add: transitioned_def apply_error_def Let_def split: option.splits)

lemma end_job_ended:
  assumes t: "transition_job now j0 s st p m e d = Inr (d1, j1)"
    and f: "finish_job now j1 sm d1 = Inr d'"
    and st: "terminal s" "same_request j j0"
  shows "job_ended now d j d' j1"
  using t finish_job_frame [OF f] finish_job_jobs [OF f] st
  by (simp add: job_ended_def transition_job_Inr same_request_def)

lemma complete_job_running:
  assumes inv: "job_inv d" and j: "j \<in> set (jobs d)" "j_status j = JS_RUNNING"
  shows "\<exists>d' j'. complete_job now (j_id j) rr sm d = (d', Inr (job_record_of None j'))
    \<and> job_ended now d j d' j' \<and> j_status j' = JS_COMPLETED \<and> j_progress j' = 100
    \<and> j_result_reference j' = rr"
proof -
  have r: "require_job d (j_id j) = Inr j" using inv j(1) by (simp add: require_job_Inr)
  obtain d1 j1 d' where t: "transition_job now (j\<lparr>j_result_reference := rr\<rparr>) JS_COMPLETED
      ''completed'' 100 ''Job completed'' None d = Inr (d1, j1)" and f: "finish_job now j1 sm d1 = Inr d'"
    using end_job_succeeds [OF inv r same_job_result, of rr JS_COMPLETED] j(2) by fastforce
  have "job_ended now d j d' j1" by (rule end_job_ended [OF t f]) (simp_all add: same_request_def)
  moreover have "j_status j1 = JS_COMPLETED" "j_progress j1 = 100" "j_result_reference j1 = rr"
    using t by (auto simp: transition_job_Inr transitioned_def)
  moreover have "complete_job now (j_id j) rr sm d = (d', Inr (job_record_of None j1))"
    using r t f by (simp add: complete_job_def immediate_session_ok complete_job_tx_eq)
  ultimately show ?thesis by blast
qed

lemma fail_job_running:
  assumes inv: "job_inv d" and j: "j \<in> set (jobs d)" "j_status j = JS_RUNNING"
  shows "\<exists>d' j'. fail_job now (j_id j) e d = (d', Inr (job_record_of None j'))
    \<and> job_ended now d j d' j' \<and> j_status j' = JS_FAILED \<and> j_progress j' = j_progress j
    \<and> j_error_code j' = Some (je_code e)"
proof -
  have r: "require_job d (j_id j) = Inr j" using inv j(1) by (simp add: require_job_Inr)
  obtain d1 j1 d' where t: "transition_job now j JS_FAILED ''failed'' (j_progress j) (je_message e)
      (Some e) d = Inr (d1, j1)" and f: "finish_job now j1 None d1 = Inr d'"
    using end_job_succeeds [OF inv r same_job_refl, of JS_FAILED] j(2) by fastforce
  have "job_ended now d j d' j1" by (rule end_job_ended [OF t f]) (simp_all add: same_request_def)
  moreover have "j_status j1 = JS_FAILED" "j_progress j1 = j_progress j"
    "j_error_code j1 = Some (je_code e)"
    using t by (auto simp: transition_job_Inr transitioned_def apply_error_def)
  moreover have "fail_job now (j_id j) e d = (d', Inr (job_record_of None j1))"
    using r t f by (simp add: fail_job_def immediate_session_ok fail_job_tx_eq)
  ultimately show ?thesis by blast
qed

lemma cancel_job_running:
  assumes inv: "job_inv d" and j: "j \<in> set (jobs d)" "j_status j = JS_RUNNING"
  shows "\<exists>d' j'. cancel_running_job now (j_id j) m rr sm d = (d', Inr (job_record_of None j'))
    \<and> job_ended now d j d' j' \<and> j_status j' = JS_CANCELLED \<and> j_progress j' = j_progress j"
proof -
  let ?j0 = "if truthy rr then j\<lparr>j_result_reference := rr\<rparr> else j"
  have r: "require_job d (j_id j) = Inr j" using inv j(1) by (simp add: require_job_Inr)
  have s: "same_job j ?j0" "j_status ?j0 = j_status j" "same_request j ?j0"
    by (simp_all add: same_request_def)
  obtain d1 j1 d' where t: "transition_job now ?j0 JS_CANCELLED ''cancelled'' (j_progress j) m
      (Some (cancelled_error m)) d = Inr (d1, j1)"
    and f: "finish_job now j1 (if sm \<noteq> [] then Some sm else None) d1 = Inr d'"
    using end_job_succeeds [OF inv r s(1,2), of JS_CANCELLED] j(2) by fastforce
  have "job_ended now d j d' j1" by (rule end_job_ended [OF t f _ s(3)]) simp
  moreover have "j_status j1 = JS_CANCELLED" "j_progress j1 = j_progress j"
    using t by (auto simp: transition_job_Inr)
  moreover have "cancel_running_job now (j_id j) m rr sm d = (d', Inr (job_record_of None j1))"
    using r t f by (simp add: cancel_running_job_def immediate_session_ok cancel_running_job_tx_eq)
  ultimately show ?thesis by blast
qed

end
