(* ===== verification/Job_Worker.thy ===== *)
theory Job_Worker
  imports Job_History
begin

text \<open>
  The handler registry (\<^verbatim>\<open>jobs/registry.py\<close>) and the worker loop body (\<^verbatim>\<open>jobs/worker.py\<close>). A handler
  is the value the registry holds: from the job, the audit and the store it gives the store after its
  run (its own progress reports and whatever other processes committed meanwhile), whether the
  cancellation monitor fired, and how it ended. \<open>t k\<close> is the clock reading of the \<open>k\<close>-th service call.
\<close>

section \<open>Handlers and their registry\<close>

record handler_result =
  hr_reference :: "string option"
  hr_summary :: json_obj

datatype outcome =
    Returned handler_result
  | Raised_Cancelled string "string option" json_obj
  | Raised_Execution job_error
  | Raised_Other string

type_synonym handler = "job_record \<Rightarrow> audit_row \<Rightarrow> db \<Rightarrow> db \<times> bool \<times> outcome"
type_synonym registry = "(string \<times> handler) list"

definition register :: "string \<Rightarrow> handler \<Rightarrow> registry \<Rightarrow> exc + registry" where
  "register job_type h reg =
     (if job_type \<in> fst ` set reg then Inl (ValueError (''Handler already registered: '' @ job_type))
      else Inr (reg @ [(job_type, h)]))"

definition resolve :: "registry \<Rightarrow> string \<Rightarrow> exc + handler" where
  "resolve reg job_type = (case map_of reg job_type of
     None \<Rightarrow> Inl (HandlerNotRegistered (''No handler registered for job type: '' @ job_type))
   | Some h \<Rightarrow> Inr h)"

definition job_types :: "registry \<Rightarrow> string list" where
  "job_types reg = sort (map fst reg)"

definition handled_job_types :: "string list" where
  "handled_job_types = [''passive_discovery'', ''packet_capture'', ''traffic_analysis'',
     ''active_discovery'', ''snmp_topology'', ''ssh_topology'', ''protocol_audit'',
     ''findings_evaluation'', ''report_generation'', ''global_analysis'']"

fun register_all :: "(string \<Rightarrow> handler) \<Rightarrow> string list \<Rightarrow> registry \<Rightarrow> exc + registry" where
  "register_all h [] reg = Inr reg"
| "register_all h (n # ns) reg = rbind (register n (h n) reg) (register_all h ns)"

text \<open>\<open>h n\<close> is the handler object the entry point constructs for the job type \<open>n\<close>.\<close>

definition build_registry :: "(string \<Rightarrow> handler) \<Rightarrow> exc + registry" where
  "build_registry h = register_all h handled_job_types []"

section \<open>The worker\<close>

fun exc_name :: "exc \<Rightarrow> string" where
  "exc_name (EntityNotFound m) = ''EntityNotFound''"
| "exc_name (InvalidJobTransition a b) = ''InvalidTransition''"
| "exc_name (InvalidAuditTransition a b) = ''InvalidTransition''"
| "exc_name (ValueError m) = ''ValueError''"
| "exc_name IntegrityError = ''IntegrityError''"
| "exc_name WorkerAlreadyRunning = ''WorkerAlreadyRunning''"
| "exc_name (RetryNotAllowed m) = ''RetryNotAllowed''"
| "exc_name (AuditBusy m n) = ''AuditBusy''"
| "exc_name (HandlerNotRegistered m) = ''LookupError''"

definition unhandled_exception :: "string \<Rightarrow> job_error" where
  "unhandled_exception name = \<lparr>je_code = ''unhandled_exception'', je_category = EC_INTERNAL,
     je_message = ''Job failed due to an internal error'', je_component = ''job_worker'',
     je_retryable = False, je_details = [(''exception_type'', JStr name)]\<rparr>"

definition stop_or_fail ::
  "int \<Rightarrow> string \<Rightarrow> bool \<Rightarrow> job_error \<Rightarrow> db \<Rightarrow> db \<times> (exc + job_record)" where
  "stop_or_fail now i token e d =
     (case get_job i d of Inl x \<Rightarrow> (d, Inl x)
      | Inr current \<Rightarrow>
          if token \<or> jr_cancel_requested current
          then cancel_running_job now i ''Job cancelled'' None [] d
          else fail_job now i e d)"

definition settle_result ::
  "int \<Rightarrow> string \<Rightarrow> bool \<Rightarrow> handler_result \<Rightarrow> db \<Rightarrow> db \<times> (exc + job_record)" where
  "settle_result now i token r d =
     (case get_job i d of Inl x \<Rightarrow> (d, Inl x)
      | Inr current \<Rightarrow>
          if token \<or> jr_cancel_requested current
          then cancel_running_job now i ''Job cancelled'' (hr_reference r) (hr_summary r) d
          else complete_job now i (hr_reference r) (Some (hr_summary r)) d)"

text \<open>The \<^verbatim>\<open>try\<close> block after the handler's run: an exception of the service while settling a normal
  result is caught by the last clause.\<close>

definition settle :: "int \<Rightarrow> string \<Rightarrow> bool \<Rightarrow> outcome \<Rightarrow> db \<Rightarrow> db \<times> (exc + job_record)" where
  "settle now i token out d =
     (case out of
        Returned r \<Rightarrow> (case settle_result now i token r d of
            (d', Inr x) \<Rightarrow> (d', Inr x)
          | (d', Inl x) \<Rightarrow> stop_or_fail now i token (unhandled_exception (exc_name x)) d')
      | Raised_Cancelled message reference summary \<Rightarrow>
          cancel_running_job now i message reference summary d
      | Raised_Execution e \<Rightarrow> stop_or_fail now i token e d
      | Raised_Other name \<Rightarrow> stop_or_fail now i token (unhandled_exception name) d)"

definition run_handler :: "registry \<Rightarrow> job_record \<Rightarrow> audit_row \<Rightarrow> db \<Rightarrow> db \<times> bool \<times> outcome" where
  "run_handler reg job audit d = (case resolve reg (jr_type job) of
     Inl x \<Rightarrow> (d, False, Raised_Other (exc_name x)) | Inr h \<Rightarrow> h job audit d)"

definition execute_job ::
  "(nat \<Rightarrow> int) \<Rightarrow> registry \<Rightarrow> string \<Rightarrow> job_record \<Rightarrow> audit_row \<Rightarrow> db \<Rightarrow> db \<times> (exc + job_record)" where
  "execute_job t reg worker job audit d =
     (case heartbeat_worker (t 0) worker W_RUNNING (Some (jr_id job)) d of
        (d1, Inl x) \<Rightarrow> (d1, Inl x)
      | (d1, Inr _) \<Rightarrow>
          let (d2, token, out) = run_handler reg job audit d1;
              (d3, res) = settle (t 1) (jr_id job) token out d2
          in case heartbeat_worker (t 2) worker W_IDLE None d3 of
               (d4, Inl x) \<Rightarrow> (d4, Inl x)
             | (d4, Inr _) \<Rightarrow> (case res of Inl x \<Rightarrow> (d4, Inl x) | Inr _ \<Rightarrow> (d4, get_job (jr_id job) d4)))"

definition startup :: "(nat \<Rightarrow> int) \<Rightarrow> string \<Rightarrow> db \<Rightarrow> db \<times> (exc + unit)" where
  "startup t worker d = (case register_worker (t 0) worker d of
     (d1, Inl x) \<Rightarrow> (d1, Inl x) | (d1, Inr _) \<Rightarrow> heartbeat_worker (t 1) worker W_IDLE None d1)"

text \<open>\<^verbatim>\<open>run_once\<close> of a worker that is registered: \<open>True\<close> when a job was handled.\<close>

definition run_once :: "(nat \<Rightarrow> int) \<Rightarrow> registry \<Rightarrow> string \<Rightarrow> db \<Rightarrow> db \<times> (exc + bool)" where
  "run_once t reg worker d =
     (case heartbeat_worker (t 0) worker W_IDLE None d of
        (d1, Inl x) \<Rightarrow> (d1, Inl x)
      | (d1, Inr _) \<Rightarrow> (case claim_next (t 1) worker d1 of
            (d2, Inl x) \<Rightarrow> (d2, Inl x)
          | (d2, Inr None) \<Rightarrow> (d2, Inr False)
          | (d2, Inr (Some job)) \<Rightarrow> (case require_audit d2 (jr_audit_id job) of
                Inl x \<Rightarrow> (d2, Inl x)
              | Inr audit \<Rightarrow> (case execute_job (\<lambda>k. t (k + 2)) reg worker job audit d2 of
                    (d3, Inl x) \<Rightarrow> (d3, Inl x)
                  | (d3, Inr _) \<Rightarrow> (d3, Inr True)))))"

section \<open>Registry facts\<close>

lemma register_all_resolve:
  assumes "distinct ns" "set ns \<inter> fst ` set reg = {}"
  shows "register_all h ns reg = Inr (reg @ map (\<lambda>n. (n, h n)) ns)"
  using assms by (induction ns arbitrary: reg) (auto simp: register_def)

lemma resolve_append: "resolve (reg @ [(n, h)]) n' =
    (if n' \<in> fst ` set reg then resolve reg n' else if n' = n then Inr h else resolve [] n')"
proof (cases "map_of reg n'")
  case None
  then have "n' \<notin> fst ` set reg" by (simp add: map_of_eq_None_iff)
  with None show ?thesis by (simp add: resolve_def map_add_def)
next
  case (Some x)
  then have "n' \<in> fst ` set reg" using map_of_SomeD by force
  with Some show ?thesis by (simp add: resolve_def map_add_def)
qed

section \<open>Settling always ends a running job\<close>

lemma job_ended_row:
  assumes "job_inv d" "j \<in> set (jobs d)" "job_ended now d j d' j'"
  shows "j' \<in> set (jobs d')" "j_id j' = j_id j" "\<forall>l \<in> set (locks d'). l_job_id l \<noteq> j_id j"
  using assms set_put_job [OF keys_of [OF assms(1)] assms(2), of j']
  by (auto simp: job_ended_def same_request_def)

lemma get_job_running:
  "job_inv d \<Longrightarrow> j \<in> set (jobs d) \<Longrightarrow> get_job (j_id j) d = Inr (job_record_of (Some (events d)) j)"
  by (simp add: get_job_def) (auto simp: require_job_Inr)

text \<open>The result of a service call that ended the job \<open>j\<close> in one of the statuses \<open>S\<close>.\<close>

definition ended_in :: "job_status set \<Rightarrow> int \<Rightarrow> db \<Rightarrow> job_row \<Rightarrow> db \<times> (exc + job_record) \<Rightarrow> bool" where
  "ended_in S now d j res \<longleftrightarrow> (\<exists>d' j'. res = (d', Inr (job_record_of None j'))
     \<and> job_ended now d j d' j' \<and> j_status j' \<in> S)"

lemma ended_in_mono: "ended_in S now d j res \<Longrightarrow> S \<subseteq> S' \<Longrightarrow> ended_in S' now d j res"
  by (auto simp: ended_in_def)

lemma ended_inE:
  assumes "ended_in S now d j res"
  obtains d' j' where "res = (d', Inr (job_record_of None j'))" "job_ended now d j d' j'"
    "j_status j' \<in> S"
  using assms by (auto simp: ended_in_def)

lemma running_ended_in:
  assumes "job_inv d" "j \<in> set (jobs d)" "j_status j = JS_RUNNING"
  shows "ended_in {JS_COMPLETED} now d j (complete_job now (j_id j) rr sm d)"
    "ended_in {JS_FAILED} now d j (fail_job now (j_id j) e d)"
    "ended_in {JS_CANCELLED} now d j (cancel_running_job now (j_id j) m rr s d)"
  using complete_job_running [OF assms] fail_job_running [OF assms] cancel_job_running [OF assms]
  by (simp_all add: ended_in_def) blast+

lemma stop_or_fail_ends:
  assumes "job_inv d" "j \<in> set (jobs d)" "j_status j = JS_RUNNING"
  shows "ended_in {if tok \<or> j_cancel_requested j then JS_CANCELLED else JS_FAILED} now d j
    (stop_or_fail now (j_id j) tok e d)"
  using running_ended_in [OF assms]
  by (simp add: stop_or_fail_def get_job_running [OF assms(1,2)] job_record_of_def)

lemma settle_result_ends:
  assumes "job_inv d" "j \<in> set (jobs d)" "j_status j = JS_RUNNING"
  shows "ended_in {if tok \<or> j_cancel_requested j then JS_CANCELLED else JS_COMPLETED} now d j
    (settle_result now (j_id j) tok r d)"
  using running_ended_in [OF assms]
  by (simp add: settle_result_def get_job_running [OF assms(1,2)] job_record_of_def)

text \<open>The status a job ends in, from the cancellation flags and the handler's outcome.\<close>

fun final_status :: "bool \<Rightarrow> outcome \<Rightarrow> job_status" where
  "final_status stop (Raised_Cancelled m rr s) = JS_CANCELLED"
| "final_status stop (Returned r) = (if stop then JS_CANCELLED else JS_COMPLETED)"
| "final_status stop (Raised_Execution e) = (if stop then JS_CANCELLED else JS_FAILED)"
| "final_status stop (Raised_Other n) = (if stop then JS_CANCELLED else JS_FAILED)"

lemma final_status_terminal [simp]: "terminal (final_status stop out)"
  by (cases out) auto

lemma settle_ends:
  assumes "job_inv d" "j \<in> set (jobs d)" "j_status j = JS_RUNNING"
  shows "ended_in {final_status (tok \<or> j_cancel_requested j) out} now d j (settle now (j_id j) tok out d)"
proof (cases out)
  case (Returned r)
  have e: "ended_in {final_status (tok \<or> j_cancel_requested j) out} now d j
      (settle_result now (j_id j) tok r d)"
    using settle_result_ends [OF assms, of tok now r] Returned by simp
  then obtain d' j' where "settle_result now (j_id j) tok r d = (d', Inr (job_record_of None j'))"
    by (rule ended_inE)
  with e Returned show ?thesis by (simp add: settle_def)
qed (use running_ended_in [OF assms] stop_or_fail_ends [OF assms] in \<open>simp_all add: settle_def\<close>)

section \<open>Worker rows\<close>

definition has_worker :: "db \<Rightarrow> string \<Rightarrow> bool" where
  "has_worker d w \<longleftrightarrow> w \<in> w_id ` set (workers d)"

lemma heartbeat_ok:
  assumes "has_worker d w"
  obtains d' where "heartbeat_worker now w s c d = (d', Inr ())" "has_worker d' w"
    "jobs d' = jobs d" "locks d' = locks d" "audits d' = audits d" "events d' = events d"
proof -
  obtain r where r: "tbl_get w_id (workers d) w = Some r"
    using assms tbl.get_None [of w_id "workers d" w] by (auto simp: has_worker_def)
  let ?d = "d\<lparr>workers := tbl_put w_id (r\<lparr>w_heartbeat_at := now, w_status := s,
      w_current_job_id := c\<rparr>) (workers d)\<rparr>"
  have "heartbeat_worker now w s c d = (?d, Inr ())"
    using r by (simp add: heartbeat_worker_def immediate_session_def)
  moreover have "has_worker ?d w" using assms by (simp add: has_worker_def tbl.key_set_put)
  ultimately show thesis by (intro that [of ?d]) simp_all
qed

lemma claim_job_workers: "claim_job now w j d = Inr (d', j') \<Longrightarrow> workers d' = workers d"
proof -
  let ?d2 = "claim_event now j (put_job (claimed now w j) d)"
  assume "claim_job now w j d = Inr (d', j')"
  then obtain d3 where d3: "(if needs_lock j then insert_lock (claim_lock now w j) ?d2 else Inr ?d2) = Inr d3"
    and ca: "claim_audit now (j_audit_id j) d3 = Inr d'"
    by (auto simp: claim_job_eq Let_def split: if_splits)
  have "workers ?d2 = workers d" by (simp add: claim_event_def)
  then have "workers d3 = workers d" using d3 insert_lock_frame(4) by (cases "needs_lock j") auto
  with ca show ?thesis by (auto elim!: claim_audit_cases)
qed

lemma claim_loop_workers: "claim_loop now w js d = Inr (d', r) \<Longrightarrow> workers d' = workers d"
proof (induction js arbitrary: d)
  case (Cons j js)
  then show ?case
    using claim_job_workers [of now w j d d'] by (cases "resource_available d j") auto
qed simp

lemma claim_next_workers: "workers (fst (claim_next now w d)) = workers d"
  unfolding claim_next_def by (rule immediate_session_preserves) (auto dest: claim_loop_workers)

section \<open>One round of the worker\<close>

text \<open>
  What the worker relies on during a handler's run: the store changes only by operations of the
  services, the worker's row stays, and nobody else ends the job (the operations that end a running
  job are called by its worker, and recovery refuses to run beside a worker with a
  fresh heartbeat).
\<close>

definition cooperative :: "string \<Rightarrow> handler \<Rightarrow> bool" where
  "cooperative w h \<longleftrightarrow> (\<forall>r a d d' tok out. h r a d = (d', tok, out) \<longrightarrow> has_worker d w \<longrightarrow>
     job_step\<^sup>*\<^sup>* d d' \<and> has_worker d' w
     \<and> (\<forall>j \<in> set (jobs d). j_id j = jr_id r \<and> j_status j = JS_RUNNING \<longrightarrow>
          (\<exists>j' \<in> set (jobs d'). j_id j' = jr_id r \<and> j_status j' = JS_RUNNING)))"

lemma run_handler_spec:
  assumes reg: "\<forall>h \<in> snd ` set reg. cooperative w h" and run: "run_handler reg job a d = (d', tok, out)"
    and inv: "job_inv d" and w: "has_worker d w"
    and j: "j \<in> set (jobs d)" "j_id j = jr_id job" "j_status j = JS_RUNNING"
  obtains j' where "job_inv d'" "has_worker d' w" "j' \<in> set (jobs d')" "j_id j' = jr_id job"
    "j_status j' = JS_RUNNING"
proof (cases "map_of reg (jr_type job)")
  case None
  with run have "d' = d" by (simp add: run_handler_def resolve_def)
  with that inv w j show thesis by blast
next
  case (Some h)
  then have h: "h job a d = (d', tok, out)" using run by (simp add: run_handler_def resolve_def)
  have "cooperative w h" using reg map_of_SomeD [OF Some] by force
  then have "job_step\<^sup>*\<^sup>* d d'" "has_worker d' w"
    "\<exists>j' \<in> set (jobs d'). j_id j' = jr_id job \<and> j_status j' = JS_RUNNING"
    using h w j unfolding cooperative_def by blast+
  with that job_sys.inv_steps [OF _ inv] show thesis by blast
qed

lemma settle_inv:
  assumes inv: "job_inv d"
  shows "job_inv (fst (settle now i tok out d))"
proof -
  have c: "job_inv d \<Longrightarrow> job_inv (fst (complete_job now i rr sm d))"
    "job_inv d \<Longrightarrow> job_inv (fst (fail_job now i e d))"
    "job_inv d \<Longrightarrow> job_inv (fst (cancel_running_job now i m rr s d))" for d rr sm e m s
    by (blast intro: job_step_inv job_step.intros)+
  have f: "job_inv d \<Longrightarrow> job_inv (fst (stop_or_fail now i tok e d))" for d e
    using c by (auto simp: stop_or_fail_def split: sum.splits)
  have r: "job_inv (fst (settle_result now i tok x d))" for x
    using c inv by (auto simp: settle_result_def split: sum.splits)
  show ?thesis
  proof (cases out)
    case (Returned x)
    obtain d1 res where e: "settle_result now i tok x d = (d1, res)" by (cases "settle_result now i tok x d")
    with r [of x] have "job_inv d1" by simp
    with Returned e f show ?thesis by (cases res) (simp_all add: settle_def)
  qed (use c(3) f inv in \<open>simp_all add: settle_def\<close>)
qed

lemma execute_job_spec:
  assumes reg: "\<forall>h \<in> snd ` set reg. cooperative w h" and inv: "job_inv d" and w: "has_worker d w"
    and j: "j \<in> set (jobs d)" "j_id j = jr_id job" "j_status j = JS_RUNNING"
  shows "\<exists>d' r. execute_job t reg w job a d = (d', Inr r) \<and> job_inv d' \<and> has_worker d' w
    \<and> (\<exists>j' \<in> set (jobs d'). j_id j' = jr_id job \<and> terminal (j_status j'))
    \<and> (\<forall>l \<in> set (locks d'). l_job_id l \<noteq> jr_id job)"
proof -
  obtain d1 where h1: "heartbeat_worker (t 0) w W_RUNNING (Some (jr_id job)) d = (d1, Inr ())"
    "has_worker d1 w" "jobs d1 = jobs d" "locks d1 = locks d" "audits d1 = audits d"
    using heartbeat_ok [OF w] by blast
  have inv1: "job_inv d1" using job_inv_frame [OF inv h1(3,5,4)] .
  obtain d2 tok out where run: "run_handler reg job a d1 = (d2, tok, out)" by (metis prod_cases3)
  obtain j2 where j2: "job_inv d2" "has_worker d2 w" "j2 \<in> set (jobs d2)" "j_id j2 = jr_id job"
    "j_status j2 = JS_RUNNING"
    using run_handler_spec [OF reg run inv1 h1(2)] j h1(3) by metis
  obtain d3 j3 where s: "settle (t 1) (jr_id job) tok out d2 = (d3, Inr (job_record_of None j3))"
    "job_ended (t 1) d2 j2 d3 j3" "terminal (j_status j3)"
    using settle_ends [OF j2(1,3,5), of tok out "t 1"] j2(4) by (auto elim!: ended_inE)
  have inv3: "job_inv d3" using settle_inv [OF j2(1), of "t 1" "jr_id job" tok out] s(1) by simp
  note row = job_ended_row [OF j2(1,3) s(2)]
  have "has_worker d3 w" using j2(2) s(2) by (simp add: has_worker_def job_ended_def)
  from heartbeat_ok [OF this] obtain d4 where h4:
    "heartbeat_worker (t 2) w W_IDLE None d3 = (d4, Inr ())" "has_worker d4 w"
    "jobs d4 = jobs d3" "locks d4 = locks d3" "audits d4 = audits d3" by blast
  have inv4: "job_inv d4" using job_inv_frame [OF inv3 h4(3,5,4)] .
  have "get_job (jr_id job) d4 = Inr (job_record_of (Some (events d4)) j3)"
    using get_job_running [OF inv4, of j3] row(1,2) h4(3) j2(4) by simp
  then have "execute_job t reg w job a d = (d4, Inr (job_record_of (Some (events d4)) j3))"
    using h1(1) run s(1) h4(1) by (simp add: execute_job_def)
  with inv4 h4 row s(3) j2(4) show ?thesis by auto
qed

definition own_lock_keys :: "db \<Rightarrow> bool" where
  "own_lock_keys d \<longleftrightarrow> (\<forall>k \<in> set (jobs d). truthy (j_resource_key k) \<longrightarrow>
     \<not> prefix ''job:'' (the (j_resource_key k)))"

lemma claim_next_total:
  assumes inv: "job_inv d" and own: "own_lock_keys d"
  shows "\<exists>d' r. claim_loop now w (claim_candidates d) d = Inr (d', r)"
  using own
  by (intro claim_loop_succeeds [OF inv])
    (auto simp: set_claim_candidates distinct_claim_candidates inv own_lock_keys_def)

lemma claim_next_claimed:
  assumes inv: "job_inv d" and ok: "claim_next now w d = (d', Inr (Some r))"
  obtains j where "j \<in> set (jobs d)" "j_status j = JS_QUEUED" "resource_available d j"
    "claimed now w j \<in> set (jobs d')" "r = job_record_of (Some (events d')) (claimed now w j)"
proof -
  obtain j' where loop: "claim_loop now w (claim_candidates d) d = Inr (d', Some j')"
    and r: "r = job_record_of (Some (events d')) j'"
    using ok by (auto simp: claim_next_Inr map_option_case split: option.splits)
  from claim_loop_spec [OF loop] obtain pre j post where "claim_candidates d = pre @ j # post"
    and j1: "resource_available d j" "j_status j = JS_QUEUED" "j' = claimed now w j" by auto
  then have j: "j \<in> set (claim_candidates d)" by simp
  have "claim_loop now w js d = Inr (d', Some j') \<Longrightarrow> set js \<subseteq> set (jobs d) \<Longrightarrow> distinct (map j_id js)
      \<Longrightarrow> job_inv d \<Longrightarrow> j' \<in> set (jobs d')" for js d
  proof (induction js arbitrary: d)
    case (Cons k js)
    show ?case
    proof (cases "resource_available d k")
      case True
      then have c: "claim_job now w k d = Inr (d', j')" using Cons.prems(1) by auto
      show ?thesis
        using claim_job_frame(2,3) [OF c] set_put_job [of d k "claimed now w k"] Cons.prems(2,4) by simp
    next
      case False
      have k: "k \<in> set (jobs d)" using Cons.prems(2) by simp
      have "x \<in> set (jobs (mark_waiting now k d))" if "x \<in> set js" for x
      proof (rule mark_waiting_jobs [OF keys_of [OF Cons.prems(4)] k])
        show "x \<in> set (jobs d)" using Cons.prems(2) that by auto
        show "j_id x \<noteq> j_id k" using Cons.prems(3) that by (metis distinct.simps(2) image_eqI list.simps(9) set_map)
      qed
      with False Cons show ?thesis using mark_waiting_inv [OF Cons.prems(4) k] by auto
    qed
  qed simp
  then have "j' \<in> set (jobs d')"
    using loop inv distinct_claim_candidates by (auto simp: set_claim_candidates)
  with that [of j] j j1 r show thesis by (simp add: set_claim_candidates)
qed

lemma claim_next_empty:
  assumes "claim_next now w d = (d', Inr None)" "j \<in> set (jobs d)" "j_status j = JS_QUEUED"
  shows "\<not> resource_available d j"
proof -
  have "claim_loop now w (claim_candidates d) d = Inr (d', None)"
    using assms(1) by (auto simp: claim_next_Inr)
  from claim_loop_spec [OF this] assms(2,3) show ?thesis by (auto simp: set_claim_candidates)
qed

text \<open>A round handles a job exactly when one is available, and leaves it terminal.\<close>

definition handled_job :: "db \<Rightarrow> db \<Rightarrow> bool" where
  "handled_job d d' \<longleftrightarrow> (\<exists>j \<in> set (jobs d). j_status j = JS_QUEUED \<and> resource_available d j
     \<and> (\<exists>j' \<in> set (jobs d'). j_id j' = j_id j \<and> terminal (j_status j'))
     \<and> (\<forall>l \<in> set (locks d'). l_job_id l \<noteq> j_id j))"

lemma run_once_spec:
  assumes reg: "\<forall>h \<in> snd ` set reg. cooperative w h" and inv: "job_inv d" and w: "has_worker d w"
    and own: "own_lock_keys d"
  shows "\<exists>d' b. run_once t reg w d = (d', Inr b) \<and> job_inv d' \<and> has_worker d' w
    \<and> (if b then handled_job d d'
       else \<forall>j \<in> set (jobs d). j_status j = JS_QUEUED \<longrightarrow> \<not> resource_available d j)"
proof -
  obtain d1 where h1: "heartbeat_worker (t 0) w W_IDLE None d = (d1, Inr ())"
    "has_worker d1 w" "jobs d1 = jobs d" "locks d1 = locks d" "audits d1 = audits d"
    using heartbeat_ok [OF w] by blast
  have inv1: "job_inv d1" using job_inv_frame [OF inv h1(3,5,4)] .
  have av: "resource_available d1 j = resource_available d j" for j
    unfolding resource_available_def h1(4) ..
  have "own_lock_keys d1" using own h1(3) by (simp add: own_lock_keys_def)
  from claim_next_total [OF inv1 this, of "t 1" w] obtain d2 r
    where c: "claim_next (t 1) w d1 = (d2, Inr r)" unfolding claim_next_Inr by blast
  have inv2: "job_inv d2" using claim_next_inv [OF inv1, of "t 1" w] c by simp
  have w2: "has_worker d2 w" using claim_next_workers [of "t 1" w d1] c h1(2) by (simp add: has_worker_def)
  show ?thesis
  proof (cases r)
    case None
    have "\<not> resource_available d j" if "j \<in> set (jobs d)" "j_status j = JS_QUEUED" for j
      using claim_next_empty [of "t 1" w d1 d2 j] c None that h1(3) av by simp
    moreover have "run_once t reg w d = (d2, Inr False)" using h1(1) c None by (simp add: run_once_def)
    ultimately show ?thesis using inv2 w2 by (intro exI [of _ d2] exI [of _ False]) simp
  next
    case (Some job)
    obtain j where j: "j \<in> set (jobs d1)" "j_status j = JS_QUEUED" "resource_available d1 j"
      "claimed (t 1) w j \<in> set (jobs d2)" "job = job_record_of (Some (events d2)) (claimed (t 1) w j)"
      using claim_next_claimed [OF inv1] c Some by blast
    then have id: "jr_id job = j_id j" "jr_audit_id job = j_audit_id (claimed (t 1) w j)"
      by (simp_all add: job_record_of_def)
    obtain a where a: "require_audit d2 (jr_audit_id job) = Inr a"
      using require_audit_exists [OF keys_of [OF inv2] j(4)] id by auto
    obtain d3 x where e: "execute_job (\<lambda>k. t (k + 2)) reg w job a d2 = (d3, Inr x)" "job_inv d3"
      "has_worker d3 w" "\<exists>j' \<in> set (jobs d3). j_id j' = jr_id job \<and> terminal (j_status j')"
      "\<forall>l \<in> set (locks d3). l_job_id l \<noteq> jr_id job"
      using execute_job_spec [OF reg inv2 w2 j(4), of job "\<lambda>k. t (k + 2)" a] id by auto
    have "handled_job d d3" using j(1-3) e(4,5) id(1) h1(3) av by (auto simp: handled_job_def)
    moreover have "run_once t reg w d = (d3, Inr True)" using h1(1) c Some a e(1) by (simp add: run_once_def)
    ultimately show ?thesis using e(2,3) by (intro exI [of _ d3] exI [of _ True]) simp
  qed
qed

end
