(* ===== verification/Job_Properties.thy ===== *)
theory Job_Properties
  imports Job_Worker
begin

text \<open>
  The properties of the durable job system: exclusion, scheduling, history, termination of jobs,
  recovery. The states of the witnesses are built by the operations themselves from the empty store.
\<close>

section \<open>Concrete states\<close>

definition demo_audit :: db where
  "demo_audit = fst (create_audit 10 ''a1'' ''quick'' (Some ''eth0'') None None empty_db)"

definition demo_queued :: db where
  "demo_queued = fst (create_job 21 ''j2'' ''a1'' ''packet_capture'' None None 5
     (Some ''interface:eth0'') (Some ''capture'') (Some 1)
     (fst (create_job 20 ''j1'' ''a1'' ''passive_discovery'' None None 9
       (Some ''interface:eth0'') (Some ''capture'') (Some 1) demo_audit)))"

definition demo_running :: db where
  "demo_running = fst (claim_next 30 ''w1'' demo_queued)"

definition demo_failed :: db where
  "demo_failed = fst (request_cancel 41 ''j2'' (fst (fail_job 40 ''j1'' application_restart demo_running)))"

lemmas demo_defs = demo_audit_def demo_queued_def demo_running_def demo_failed_def

lemma demo_audit_reachable: "reachable demo_audit"
  unfolding demo_audit_def by (rule reachable_step [OF reachable_empty step_create_audit])

lemma demo_queued_reachable: "reachable demo_queued"
  unfolding demo_queued_def
  by (rule reachable_step [OF reachable_step [OF demo_audit_reachable step_create_job] step_create_job])

lemma demo_running_reachable: "reachable demo_running"
  unfolding demo_running_def by (rule reachable_step [OF demo_queued_reachable step_claim_next])

lemma demo_failed_reachable: "reachable demo_failed"
  unfolding demo_failed_def
  by (rule reachable_step [OF reachable_step [OF demo_running_reachable step_fail_job] step_request_cancel])

lemmas demo_reachable = demo_audit_reachable demo_queued_reachable demo_running_reachable
  demo_failed_reachable

definition demo_j1 :: job_row where
  "demo_j1 = claimed 30 ''w1'' (queued_job 20 ''j1'' ''a1'' ''passive_discovery'' None None 9
     (Some ''interface:eth0'') (Some ''capture'') (Some 1) ''Job queued'')"

lemma demo_queued_eval:
  "audits demo_queued = [\<lparr>a_id = ''a1'', a_created_at = 10, a_started_at = None, a_finished_at = None,
     a_status = AS_CREATED, a_profile = ''quick'', a_interface = Some ''eth0'', a_scope = [],
     a_actor = None, a_environment_snapshot_reference = None, a_summary = [], a_error = None\<rparr>]"
  "map j_id (jobs demo_queued) = [''j1'', ''j2'']" "locks demo_queued = []"
  by code_simp+

lemma demo_running_eval:
  "jobs demo_running ! 0 = demo_j1" "map j_status (jobs demo_running) = [JS_RUNNING, JS_QUEUED]"
  "map l_job_id (locks demo_running) = [''j1'']"
  by code_simp+

section \<open>Exclusion\<close>

text \<open>
  C1: in every reachable state of the job store, two running jobs that ask for the same (nonempty)
  resource key are the same job: the resource locks make the key exclusive.
\<close>

theorem running_exclusive:
  assumes "reachable d" "j \<in> set (jobs d)" "k \<in> set (jobs d)"
    and "j_status j = JS_RUNNING" "j_status k = JS_RUNNING"
    and "j_resource_key j = Some r" "j_resource_key k = Some r" "r \<noteq> []"
  shows "j = k"
  using running_same_key [OF reachable_inv [OF assms(1)]] assms(2-8) by blast

lemma demo_j1_mem: "demo_j1 \<in> set (jobs demo_running)"
  using demo_running_eval(1,2) by (metis list.size(3) length_map length_greater_0_conv list.discI nth_mem)

lemma demo_j1_eval: "j_id demo_j1 = ''j1''" "j_status demo_j1 = JS_RUNNING"
  "j_resource_key demo_j1 = Some ''interface:eth0''" "j_audit_id demo_j1 = ''a1''"
  by code_simp+

theorem running_exclusive_witness: "demo_j1 = jobs demo_running ! 0"
proof (rule running_exclusive [where r = "''interface:eth0''", OF demo_running_reachable demo_j1_mem])
  show "jobs demo_running ! 0 \<in> set (jobs demo_running)" using demo_running_eval(1) demo_j1_mem by simp
qed (simp_all add: demo_running_eval demo_j1_eval)




section \<open>History of a job\<close>

text \<open>
  C3: one operation of the services, from any reachable state, changes a stored job by at most one edge
  of the transition table, never changes what the job was created with, never lowers its progress,
  counts an attempt exactly when a worker claims it, and leaves a terminal job untouched. A job
  disappears only with its deleted audit, and then it was terminal.
\<close>

theorem job_history:
  assumes "reachable d" "job_step d d'"
  shows "rows_step d d'"
  by (rule job_step_rows [OF reachable_inv [OF assms(1)] assms(2)])

theorem job_history_witness: "rows_step demo_queued demo_running"
  unfolding demo_running_def by (rule job_history [OF demo_queued_reachable step_claim_next])

text \<open>
  C4: completing, failing or cancelling a running job of a reachable state always succeeds. The job gets
  its terminal status (a completed one shows 100 percent, the others keep their progress), its
  resource lock is released, and every other job and lock stays.
\<close>

theorem end_running_job:
  assumes "reachable d" "j \<in> set (jobs d)" "j_status j = JS_RUNNING"
  shows "(\<exists>d' j'. complete_job now (j_id j) rr sm d = (d', Inr (job_record_of None j'))
      \<and> job_ended now d j d' j' \<and> j_status j' = JS_COMPLETED \<and> j_progress j' = 100)
    \<and> (\<exists>d' j'. fail_job now (j_id j) e d = (d', Inr (job_record_of None j'))
      \<and> job_ended now d j d' j' \<and> j_status j' = JS_FAILED \<and> j_progress j' = j_progress j)
    \<and> (\<exists>d' j'. cancel_running_job now (j_id j) m rr s d = (d', Inr (job_record_of None j'))
      \<and> job_ended now d j d' j' \<and> j_status j' = JS_CANCELLED \<and> j_progress j' = j_progress j)"
  using complete_job_running [OF reachable_inv [OF assms(1)] assms(2,3), of now rr sm]
    fail_job_running [OF reachable_inv [OF assms(1)] assms(2,3), of now e]
    cancel_job_running [OF reachable_inv [OF assms(1)] assms(2,3), of now m rr s]
  by blast

theorem end_running_job_witness:
  "\<exists>d' j'. complete_job 50 ''j1'' None None demo_running = (d', Inr (job_record_of None j'))
     \<and> job_ended 50 demo_running demo_j1 d' j' \<and> j_status j' = JS_COMPLETED \<and> j_progress j' = 100"
  using end_running_job [OF demo_running_reachable demo_j1_mem demo_j1_eval(2), of 50 None None]
  by (simp add: demo_j1_eval)

section \<open>Scheduling\<close>

text \<open>
  The job a worker claims was queued and available, no available queued job has a higher priority,
  and among the available jobs of its priority none was created earlier. The record shows it running,
  owned by the worker, with one more attempt.
\<close>

definition best_claim :: "string \<Rightarrow> db \<Rightarrow> job_record \<Rightarrow> bool" where
  "best_claim w d r \<longleftrightarrow> (\<exists>j \<in> set (jobs d). j_status j = JS_QUEUED \<and> resource_available d j
    \<and> jr_id r = j_id j \<and> jr_status r = JS_RUNNING \<and> jr_worker_id r = Some w
    \<and> jr_attempt r = j_attempt j + 1
    \<and> (\<forall>k \<in> set (jobs d). j_status k = JS_QUEUED \<and> resource_available d k \<longrightarrow>
         (- j_priority j, j_created_at j) \<le> (- j_priority k, j_created_at k)))"

lemma claim_next_best:
  assumes "claim_next now w d = (d', Inr (Some r))"
  shows "best_claim w d r"
proof -
  obtain j' where loop: "claim_loop now w (claim_candidates d) d = Inr (d', Some j')"
    and r: "r = job_record_of (Some (events d')) j'"
    using assms by (auto simp: claim_next_Inr map_option_case split: option.splits)
  from claim_loop_spec [OF loop] obtain pre j post where c: "claim_candidates d = pre @ j # post"
    "\<forall>k \<in> set pre. \<not> resource_available d k" "resource_available d j" "j_status j = JS_QUEUED"
    "j' = claimed now w j" by auto
  have "(- j_priority j, j_created_at j) \<le> (- j_priority k, j_created_at k)"
    if k: "k \<in> set (jobs d)" "j_status k = JS_QUEUED" "resource_available d k" for k
  proof -
    have "k \<in> set (pre @ j # post)" using k c(1) set_claim_candidates [of d] by auto
    then have "k = j \<or> k \<in> set post" using k(3) c(2) by auto
    then show ?thesis using claim_candidates_first [OF c(1)] by auto
  qed
  moreover have "j \<in> set (jobs d)" using c(1) set_claim_candidates [of d] by auto
  ultimately show ?thesis unfolding best_claim_def
    using c(3-5) r by (intro bexI [of _ j]) (auto simp: job_record_of_def claimed_def Let_def)
qed

lemma demo_claim: "claim_next 30 ''w1'' demo_queued =
    (demo_running, Inr (Some (job_record_of (Some (events demo_running)) demo_j1)))"
  by code_simp

text \<open>
  C5: in a reachable state whose jobs do not use the service's own \<^verbatim>\<open>job:\<close> keys, claiming never raises, and it returns nothing
  exactly when no queued job is available. The job it returns was queued and available, no available queued job has a higher
  priority, none of its priority was created earlier, and the record shows it running, owned by the worker, with one more attempt.
\<close>

theorem claim_next_correct:
  assumes "reachable d" "own_lock_keys d"
  shows "\<exists>d' r. claim_next now w d = (d', Inr r)
    \<and> (r = None \<longleftrightarrow> (\<forall>j \<in> set (jobs d). j_status j = JS_QUEUED \<longrightarrow> \<not> resource_available d j))
    \<and> (\<forall>q. r = Some q \<longrightarrow> best_claim w d q)"
proof -
  have inv: "job_inv d" by (rule reachable_inv [OF assms(1)])
  obtain d' x where "claim_loop now w (claim_candidates d) d = Inr (d', x)"
    using claim_next_total [OF inv assms(2)] by blast
  then have c: "claim_next now w d = (d', Inr (map_option (job_record_of (Some (events d'))) x))"
    by (auto simp: claim_next_Inr)
  show ?thesis
  proof (cases x)
    case None
    with c claim_next_empty [of now w d d'] show ?thesis by auto
  next
    case (Some y)
    then have "best_claim w d (job_record_of (Some (events d')) y)" using c claim_next_best by simp
    with Some c show ?thesis by (auto simp: best_claim_def)
  qed
qed

lemma demo_own_keys: "own_lock_keys demo_queued"
  by code_simp

theorem claim_next_correct_witness: "\<exists>d' q. claim_next 30 ''w1'' demo_queued = (d', Inr (Some q)) \<and> best_claim ''w1'' demo_queued q"
  using claim_next_correct [OF demo_queued_reachable demo_own_keys, of 30 "''w1''"] demo_claim by auto

text \<open>
  After a claim of a job with a resource group and a positive limit, at most that many jobs of the
  group run.
\<close>

theorem claim_next_group_limit:
  assumes "reachable d" "claim_next now w d = (d', Inr (Some r))"
    and "j \<in> set (jobs d)" "j_id j = jr_id r"
    and "j_resource_group j = Some g" "g \<noteq> []" "j_resource_limit j = Some n" "n > 0"
  shows "int (running_in_group g d') \<le> n"
proof -
  have inv: "job_inv d" by (rule reachable_inv [OF assms(1)])
  have inv': "job_inv d'" using claim_next_inv [OF inv, of now w] assms(2) by simp
  obtain j' where loop: "claim_loop now w (claim_candidates d) d = Inr (d', Some j')"
    and r: "r = job_record_of (Some (events d')) j'"
    using assms(2) by (auto simp: claim_next_Inr map_option_case split: option.splits)
  from claim_loop_spec [OF loop] obtain pre k post where c: "claim_candidates d = pre @ k # post"
    "resource_available d k" "j' = claimed now w k"
    "locks d' = locks d @ (if needs_lock k then [claim_lock now w k] else [])" by auto
  have "k \<in> set (jobs d)" using c(1) set_claim_candidates [of d] by auto
  moreover have "j_id k = j_id j" using assms(4) r c(3) by (simp add: job_record_of_def)
  ultimately have kj: "k = j" using job_unique [OF keys_of [OF inv] _ assms(3)] by blast
  have "int (group_locks g d) < n"
    using c(2) kj assms(5-8) by (auto simp: resource_available_def group_locks_def split: if_splits)
  moreover have "group_locks g d' \<le> group_locks g d + 1" using c(4) by (simp add: group_locks_def)
  ultimately show ?thesis using group_locks_running [OF inv' assms(6)] by simp
qed

lemma demo_first_job: "jobs demo_queued ! 0 \<in> set (jobs demo_queued)"
  "j_id (jobs demo_queued ! 0) = ''j1''" "j_resource_group (jobs demo_queued ! 0) = Some ''capture''"
  "j_resource_limit (jobs demo_queued ! 0) = Some 1"
  by code_simp+

theorem claim_next_group_limit_witness: "int (running_in_group ''capture'' demo_running) \<le> 1"
  using claim_next_group_limit [OF demo_queued_reachable demo_claim demo_first_job(1)] demo_first_job
  by (simp add: job_record_of_def demo_j1_eval)

section \<open>Workers and recovery\<close>

text \<open>
  Recovery after a restart always succeeds on a reachable state. It reports the number of jobs that
  were running, marks exactly those interrupted, leaves every other job as it was, removes every lock
  and stops every worker.
\<close>

theorem recovery_interrupts_running:
  assumes "reachable d"
  shows "\<exists>d'. recover_after_restart now d = (d', Inr (length (running_jobs d)))
    \<and> set (jobs d') = {j \<in> set (jobs d). j_status j \<noteq> JS_RUNNING} \<union> interrupted now ` set (running_jobs d)
    \<and> no_running d' \<and> locks d' = [] \<and> (\<forall>w \<in> set (workers d'). w_status w = W_STOPPED)"
  using recover_running_spec [OF reachable_inv [OF assms], of now]
  by (auto simp: recover_after_restart_def immediate_session_ok)

theorem recovery_interrupts_running_witness:
  "\<exists>d'. recover_after_restart 60 demo_running = (d', Inr 1) \<and> locks d' = [] \<and> no_running d'"
proof -
  have "length (running_jobs demo_running) = 1" by code_simp
  with recovery_interrupts_running [OF demo_running_reachable, of 60] show ?thesis by auto
qed


text \<open>A handler that reports progress once and then fails.\<close>

definition demo_progress :: job_progress where
  "demo_progress = \<lparr>jp_percentage = 40, jp_stage = ''scan'', jp_message = ''Scanning''\<rparr>"

definition demo_handler :: handler where
  "demo_handler r a d = (fst (update_progress 70 (jr_id r) demo_progress d), False,
     Raised_Execution application_restart)"











section \<open>Operator actions\<close>

text \<open>
  A retry of a failed, interrupted or cancelled job (not a topology job that needs credentials, no
  equivalent job active) with a fresh id always succeeds on a reachable state: a new queued job with
  the same request and no progress is added, every existing job row stays as it was, and the audit
  runs again.
\<close>

lemma retry_schedules_copy:
  assumes "reachable d" "s \<in> set (jobs d)" "retry_refusal d s = None" "get_job_row d nid = None"
  shows "\<exists>d' r. retry now nid (j_id s) actor d = (d', Inr r) \<and> jobs d' = jobs d @ [retry_row now nid s]
    \<and> jr_id r = nid \<and> jr_status r = JS_QUEUED \<and> jr_parameters r = j_parameters s
    \<and> (\<exists>a \<in> set (audits d'). a_id a = j_audit_id s \<and> a_status a = AS_RUNNING)"
proof -
  have inv: "job_inv d" by (rule reachable_inv [OF assms(1)])
  have src: "require_job d (j_id s) = Inr s" using assms(2) inv by (simp add: require_job_Inr)
  obtain a where a: "require_audit d (j_audit_id s) = Inr a"
    using require_audit_exists [OF keys_of [OF inv] assms(2)] by blast
  then have am: "a \<in> set (audits d)" "a_id a = j_audit_id s" using require_audit_Inr inv by auto
  obtain a1 where a1: "reopened_audit a = Inr a1" "a_status a1 = AS_RUNNING" "a_id a1 = a_id a"
    by (cases "a_status a") (auto simp: reopened_audit_def require_audit_transition_def)
  define a2 where "a2 = a1\<lparr>a_started_at := (case a_started_at a1 of None \<Rightarrow> Some now | t \<Rightarrow> t)\<rparr>"
  let ?n = "retry_row now nid s"
  let ?d1 = "d\<lparr>jobs := jobs d @ [?n]\<rparr>"
  let ?d2 = "put_audit a2 (add_event_row (scheduled_event now ?n s actor)
      (add_event_row (retried_event now ?n s actor) ?d1))"
  have nid: "j_id ?n = nid" "j_audit_id ?n = j_audit_id s" by (simp_all add: retry_row_def queued_job_def)
  have ins: "insert_job ?n d = Inr ?d1"
    using assms(4) nid am get_audit_row_iff [OF keys_of [OF inv], of "j_audit_id s" a]
    by (simp add: insert_job_def)
  have tx: "retry_tx now nid (j_id s) actor d = Inr (?d2, nid)"
    using src assms(3) a a1(1) ins by (simp add: retry_tx_def Let_def a2_def)
  have jobs2: "jobs ?d2 = jobs d @ [?n]" by (simp add: add_event_row_def)
  have "get_job_row ?d2 nid = Some ?n"
    using assms(4) nid(1) unfolding jobs2 by (simp add: tbl_get_append)
  then have g: "get_job nid ?d2 = Inr (job_record_of (Some (events ?d2)) ?n)"
    by (simp add: get_job_def require_job_def)
  have "retry now nid (j_id s) actor d = (?d2, Inr (job_record_of (Some (events ?d2)) ?n))"
    using tx g by (simp add: retry_def immediate_session_def)
  moreover have "a2 \<in> set (audits ?d2)" "a_id a2 = j_audit_id s" "a_status a2 = AS_RUNNING"
    using am a1 by (auto simp: a2_def add_event_row_def tbl.set_put image_iff)
  moreover have "jr_id (job_record_of e ?n) = nid" "jr_status (job_record_of e ?n) = JS_QUEUED"
    "jr_parameters (job_record_of e ?n) = j_parameters s" for e
    by (simp_all add: job_record_of_def retry_row_def queued_job_def)
  ultimately show ?thesis using jobs2 by blast
qed

text \<open>
  C10: an audit that has one failed job and no active job is failed, whatever else happened: also when
  a retry of the failed job completed. Creating a job in it is refused.
\<close>

theorem failed_job_pins_audit:
  assumes "reachable d" "j \<in> set (jobs d)" "j_status j = JS_FAILED"
    and "\<forall>k \<in> set (jobs d). j_audit_id k = j_audit_id j \<longrightarrow> terminal (j_status k)"
  shows "(\<forall>a \<in> set (audits d). a_id a = j_audit_id j \<longrightarrow> a_status a = AS_FAILED)
    \<and> create_job now nid (j_audit_id j) jt tg ps pr rk rg rl d
        = (d, Inl (InvalidAuditTransition AS_FAILED AS_RUNNING))"
proof -
  have inv: "job_inv d" by (rule reachable_inv [OF assms(1)])
  let ?ss = "audit_job_statuses d (j_audit_id j)"
  have m: "JS_FAILED \<in> set ?ss" using assms(2,3) by (force simp: set_audit_job_statuses)
  moreover have "JS_QUEUED \<notin> set ?ss" "JS_RUNNING \<notin> set ?ss"
    using assms(4) by (auto simp: set_audit_job_statuses terminal_def)
  ultimately have des: "desired_audit_status ?ss = AS_FAILED" by (auto simp: desired_audit_status_def)
  have st: "a_status a = AS_FAILED" if "a \<in> set (audits d)" "a_id a = j_audit_id j" for a
  proof -
    have "audit_ok d (j_audit_id j)" using inv by (simp add: job_inv_def)
    from audit_okD [OF this that] m des show ?thesis by (auto simp: summary_ok_def split: if_splits)
  qed
  obtain a where a: "require_audit d (j_audit_id j) = Inr a"
    using require_audit_exists [OF keys_of [OF inv] assms(2)] by blast
  then have "a_status a = AS_FAILED" using st require_audit_Inr inv by simp
  with a have "create_job now nid (j_audit_id j) jt tg ps pr rk rg rl d
      = (d, Inl (InvalidAuditTransition AS_FAILED AS_RUNNING))"
    by (simp add: create_job_def create_job_tx_def immediate_session_def Let_def AUDIT_JOB_ACCEPTING_def)
  with st show ?thesis by blast
qed

text \<open>The first job failed and its retry completed.\<close>

definition demo_retried :: db where
  "demo_retried = fst (complete_job 80 ''j3'' None None (fst (claim_next 70 ''w1''
     (fst (retry 60 ''j3'' ''j1'' None demo_failed)))))"

lemma demo_retried_facts: "reachable demo_retried"
  "map j_status (jobs demo_retried) = [JS_FAILED, JS_CANCELLED, JS_COMPLETED]"
  "map j_audit_id (jobs demo_retried) = [''a1'', ''a1'', ''a1'']"
  "map a_id (audits demo_retried) = [''a1'']"
proof -
  show "reachable demo_retried"
    unfolding demo_retried_def
    by (rule reachable_step [OF reachable_step [OF reachable_step [OF demo_failed_reachable step_retry]
          step_claim_next] step_complete_job])
qed code_simp+

lemma retry_schedules_copy_example:
  "\<exists>d' r. retry 60 ''j3'' ''j1'' None demo_failed = (d', Inr r) \<and> jr_status r = JS_QUEUED"
proof -
  have "jobs demo_failed ! 0 \<in> set (jobs demo_failed)" "retry_refusal demo_failed (jobs demo_failed ! 0) = None"
    "get_job_row demo_failed ''j3'' = None" "j_id (jobs demo_failed ! 0) = ''j1''"
    by code_simp+
  with retry_schedules_copy [OF demo_failed_reachable, of "jobs demo_failed ! 0" "''j3''" 60 None]
  show ?thesis by auto
qed

theorem failed_job_pins_audit_witness:
  "map a_status (audits demo_retried) = [AS_FAILED]"
proof -
  obtain j k l where js: "jobs demo_retried = [j, k, l]" "j_status j = JS_FAILED" "j_status k = JS_CANCELLED"
    "j_status l = JS_COMPLETED" "j_audit_id j = ''a1''"
    using demo_retried_facts(2,3) by (auto simp: map_eq_Cons_conv)
  obtain a where "audits demo_retried = [a]" "a_id a = ''a1''"
    using demo_retried_facts(4) by (auto simp: map_eq_Cons_conv)
  with failed_job_pins_audit [OF demo_retried_facts(1), of j] js show ?thesis by auto
qed

text \<open>
  A cancellation request never raises for a stored job of a reachable state. A queued job is
  cancelled at once, a running one is only flagged (its worker ends it), a terminal one is returned
  unchanged; asking again changes nothing more.
\<close>

theorem request_cancel_effect:
  assumes "reachable d" "j \<in> set (jobs d)"
  shows "\<exists>d' r. request_cancel now (j_id j) d = (d', Inr r) \<and> jr_id r = j_id j
    \<and> jr_status r = (if j_status j = JS_QUEUED then JS_CANCELLED else j_status j)
    \<and> jr_cancel_requested r = (j_status j = JS_RUNNING \<or> j_cancel_requested j)
    \<and> locks d' = locks d \<and> (terminal (j_status j) \<longrightarrow> d' = d)"
proof -
  have inv: "job_inv d" by (rule reachable_inv [OF assms(1)])
  have r: "require_job d (j_id j) = Inr j" using assms(2) inv by (simp add: require_job_Inr)
  consider "j_status j = JS_QUEUED" | "j_status j = JS_RUNNING" | "terminal (j_status j)"
    by (cases "j_status j") auto
  then show ?thesis
  proof cases
    case 1
    obtain d1 j1 d' where t: "transition_job now j JS_CANCELLED ''cancelled'' (j_progress j)
        ''Queued job cancelled'' (Some cancelled_before_start) d = Inr (d1, j1)"
      and f: "finish_job now j1 None d1 = Inr d'"
      using end_job_succeeds [OF inv r same_job_refl refl, of JS_CANCELLED] 1 by fastforce
    have j1: "j_id j1 = j_id j" "j_status j1 = JS_CANCELLED" "j_cancel_requested j1 = j_cancel_requested j"
      using t by (auto simp: transition_job_Inr transitioned_def apply_error_def)
    have idle: "filter (\<lambda>l. l_job_id l \<noteq> j_id j) (locks d) = locks d"
      using arg_cong [OF release_lock_idle [OF core_of [OF inv] assms(2)], of locks] 1
      by (simp add: release_lock_def)
    have l1: "locks d1 = locks d" using t by (simp add: transition_job_Inr)
    have rel: "release_lock (j_id j1) d1 = d1" using idle l1 j1(1) by (simp add: release_lock_def)
    have "request_cancel now (j_id j) d = (d', Inr (job_record_of None j1))"
      using r t f 1 rel
      by (simp add: request_cancel_def immediate_session_ok request_cancel_tx_def finish_job_def)
    moreover have "locks d' = locks d" using finish_job_frame(1) [OF f] l1 j1(1) idle by simp
    ultimately show ?thesis using 1 j1 by (simp add: job_record_of_def)
  next
    case 2
    then show ?thesis
      using r by (auto simp: request_cancel_def request_cancel_tx_def immediate_session_def Let_def
          job_record_of_def)
  next
    case 3
    then have "j_status j \<noteq> JS_QUEUED" "j_status j \<noteq> JS_RUNNING" by auto
    then show ?thesis
      using r by (simp add: request_cancel_def request_cancel_tx_def immediate_session_def job_record_of_def)
  qed
qed

theorem request_cancel_effect_witness:
  "\<exists>d' r. request_cancel 55 ''j1'' demo_running = (d', Inr r) \<and> jr_status r = JS_RUNNING
     \<and> jr_cancel_requested r"
  using request_cancel_effect [OF demo_running_reachable demo_j1_mem, of 55] by (auto simp: demo_j1_eval)

text \<open>
  C12: deleting an audit of a reachable state is refused, without any change, exactly when one of its
  jobs is active or it is marked running; otherwise no row of it is left (audit, jobs, events, locks)
  and the jobs of every other audit stay.
\<close>

theorem delete_audit_complete:
  assumes "reachable d" "a \<in> set (audits d)"
  shows "if a_status a = AS_RUNNING \<or> (\<exists>j \<in> set (jobs d). j_audit_id j = a_id a \<and> active (j_status j))
    then \<exists>n. delete_audit (a_id a) d = (d, Inl (AuditBusy (a_id a) n))
    else \<exists>d'. delete_audit (a_id a) d = (d', Inr ()) \<and> a_id a \<notin> a_id ` set (audits d')
       \<and> jobs d' = filter (\<lambda>j. j_audit_id j \<noteq> a_id a) (jobs d)
       \<and> (\<forall>e \<in> set (events d'). e_audit_id e \<noteq> a_id a)
       \<and> (\<forall>l \<in> set (locks d'). \<exists>j \<in> set (jobs d'). l_job_id l = j_id j)"
proof -
  have inv: "job_inv d" by (rule reachable_inv [OF assms(1)])
  have r: "require_audit d (a_id a) = Inr a" using assms(2) inv by (simp add: require_audit_Inr)
  let ?busy = "a_status a = AS_RUNNING \<or> (\<exists>j \<in> set (jobs d). j_audit_id j = a_id a \<and> active (j_status j))"
  have b: "?busy \<longleftrightarrow> length (filter (\<lambda>j. j_audit_id j = a_id a \<and> j_status j \<in> {JS_QUEUED, JS_RUNNING})
      (jobs d)) \<noteq> 0 \<or> a_status a = AS_RUNNING"
    unfolding length_0_conv filter_empty_conv active_def by blast
  show ?thesis
  proof (cases ?busy)
    case True
    with b r show ?thesis
      by (auto simp: delete_audit_def delete_audit_tx_def immediate_session_def Let_def)
  next
    case False
    then have del: "delete_audit (a_id a) d = (cascade_audit (a_id a) d, Inr ())"
      using b r by (auto simp: delete_audit_def delete_audit_tx_def immediate_session_def Let_def)
    have "job_inv (cascade_audit (a_id a) d)"
      using job_step_inv [OF inv step_delete_audit, of "a_id a"] del by simp
    then have "\<forall>l \<in> set (locks (cascade_audit (a_id a) d)).
        \<exists>j \<in> set (jobs (cascade_audit (a_id a) d)). l_job_id l = j_id j"
      by (fastforce simp: job_inv_def core_inv_def locks_ok_def lock_of_def)
    then show ?thesis using False del by (auto simp: cascade_audit_def Let_def)
  qed
qed

theorem delete_audit_complete_witness:
  "\<exists>d'. delete_audit ''a1'' demo_retried = (d', Inr ()) \<and> jobs d' = []"
proof -
  obtain j k l where js: "jobs demo_retried = [j, k, l]" "j_status j = JS_FAILED" "j_status k = JS_CANCELLED"
    "j_status l = JS_COMPLETED" "j_audit_id j = ''a1''" "j_audit_id k = ''a1''" "j_audit_id l = ''a1''"
    using demo_retried_facts(2,3) by (auto simp: map_eq_Cons_conv)
  have "map a_status (audits demo_retried) = [AS_FAILED]" by code_simp
  then obtain a where "audits demo_retried = [a]" "a_id a = ''a1''" "a_status a = AS_FAILED"
    using demo_retried_facts(4) by (auto simp: map_eq_Cons_conv)
  with delete_audit_complete [OF demo_retried_facts(1), of a] js show ?thesis by auto
qed

text \<open>
  The registry the worker starts with has a handler for each of the ten job types and no other,
  resolves each to the handler registered for it, and refuses a second registration of a type.
\<close>

theorem registry_complete:
  "\<exists>reg. build_registry h = Inr reg \<and> map fst reg = handled_job_types
     \<and> (\<forall>n \<in> set handled_job_types. resolve reg n = Inr (h n) \<and> (\<forall>g. \<exists>m. register n g reg = Inl (ValueError m)))
     \<and> (\<forall>n. n \<notin> set handled_job_types \<longrightarrow> (\<exists>m. resolve reg n = Inl (HandlerNotRegistered m)))"
proof -
  let ?reg = "map (\<lambda>n. (n, h n)) handled_job_types"
  have d: "distinct handled_job_types" by code_simp
  have b: "build_registry h = Inr ?reg" using register_all_resolve [OF d, of "[]"] by (simp add: build_registry_def)
  have m: "map_of ?reg n = (if n \<in> set handled_job_types then Some (h n) else None)" for n
    by (simp add: map_of_map_restrict restrict_map_def)
  have f: "fst ` set ?reg = set handled_job_types" by (simp add: image_image)
  show ?thesis
    using b m f by (intro exI [of _ ?reg]) (simp add: resolve_def register_def comp_def)
qed

theorem registry_complete_witness:
  "\<exists>reg. build_registry (\<lambda>_. demo_handler) = Inr reg \<and> resolve reg ''packet_capture'' = Inr demo_handler"
proof -
  have "''packet_capture'' \<in> set handled_job_types" by code_simp
  with registry_complete [of "\<lambda>_. demo_handler"] show ?thesis by blast
qed

lemma prunable_iff:
  "i \<in> prunable_jobs c d \<longleftrightarrow> (\<exists>j \<in> set (jobs d). j_id j = i \<and> terminal (j_status j)
     \<and> (\<exists>t. j_finished_at j = Some t \<and> t < c))"
  by (force simp: prunable_jobs_def image_iff split: option.splits)

text \<open>
  Event retention touches only the event table, keeps the order of the events it keeps, and removes
  an event exactly when it is older than the retention and belongs to a job that finished before it; it
  reports how many it removed.
\<close>

theorem prune_only_old_events:
  "\<exists>d' n. prune_terminal_job_events now days d = (d', Inr n)
     \<and> jobs d' = jobs d \<and> audits d' = audits d \<and> locks d' = locks d \<and> workers d' = workers d
     \<and> subseq (events d') (events d) \<and> length (events d') + n = length (events d)
     \<and> (\<forall>e. e \<in> set (events d') \<longleftrightarrow> e \<in> set (events d)
          \<and> \<not> (e_created_at e < now - days * 86400000000
               \<and> (\<exists>j \<in> set (jobs d). j_id j = e_job_id e \<and> terminal (j_status j)
                    \<and> (\<exists>t. j_finished_at j = Some t \<and> t < now - days * 86400000000))))"
  by (auto simp: prune_terminal_job_events_def immediate_session_def Let_def prunable_iff
      subseq_filter_left length_filter_le)

end
