(* ===== verification/Py_String.thy ===== *)
theory Py_String
  imports Prelude
begin

text \<open>
  The string functions of Python the sources use, on code points below 256: \<^verbatim>\<open>split\<close>, \<^verbatim>\<open>join\<close>,
  \<^verbatim>\<open>strip\<close>, \<^verbatim>\<open>lower\<close>, \<^verbatim>\<open>isdigit\<close>, \<^verbatim>\<open>startswith\<close>, and numbers in base ten and sixteen, with the round
  trips the parsers rest on.
\<close>

section \<open>Splitting and joining\<close>

fun split_on :: "char \<Rightarrow> string \<Rightarrow> string list" where
  "split_on c [] = [[]]"
| "split_on c (x # xs) = (if x = c then [] # split_on c xs
     else (case split_on c xs of [] \<Rightarrow> [[x]] | w # ws \<Rightarrow> (x # w) # ws))"

fun join_on :: "string \<Rightarrow> string list \<Rightarrow> string" where
  "join_on sep [] = []"
| "join_on sep [w] = w"
| "join_on sep (w # v # ws) = w @ sep @ join_on sep (v # ws)"

lemma split_on_neq [simp]: "split_on c s \<noteq> []"
  by (induction s) (auto split: list.splits)

lemma split_on_word: "c \<notin> set w \<Longrightarrow> split_on c w = [w]"
  by (induction w) auto

lemma split_on_append: "c \<notin> set w \<Longrightarrow> split_on c (w @ c # s) = w # split_on c s"
  by (induction w) (auto split: list.splits)

lemma split_join:
  "ws \<noteq> [] \<Longrightarrow> (\<And>w. w \<in> set ws \<Longrightarrow> c \<notin> set w) \<Longrightarrow> split_on c (join_on [c] ws) = ws"
proof (induction "[c]" ws rule: join_on.induct)
  case (3 w v ws)
  then have "split_on c (join_on [c] (v # ws)) = v # ws" by simp
  moreover have "c \<notin> set w" using 3(3) by simp
  ultimately show ?case by (simp add: split_on_append)
qed (auto simp: split_on_word)

lemma set_join_on: "x \<in> set (join_on sep ws) \<Longrightarrow> x \<in> set sep \<or> (\<exists>w \<in> set ws. x \<in> set w)"
  by (induction sep ws rule: join_on.induct) auto

section \<open>Characters\<close>

definition code :: "char \<Rightarrow> nat" where
  "code c = of_char c"

definition is_space :: "char \<Rightarrow> bool" where
  "is_space c \<longleftrightarrow> code c \<in> {9, 10, 11, 12, 13, 28, 29, 30, 31, 32, 133, 160}"

definition strip :: "string \<Rightarrow> string" where
  "strip s = rev (dropWhile is_space (rev (dropWhile is_space s)))"

text \<open>\<^verbatim>\<open>s.split()\<close>: the words between runs of whitespace.\<close>

fun words_of :: "string \<Rightarrow> string \<Rightarrow> string list" where
  "words_of acc [] = (if acc = [] then [] else [acc])"
| "words_of acc (c # s) = (if is_space c then (if acc = [] then words_of [] s else acc # words_of [] s)
     else words_of (acc @ [c]) s)"

text \<open>\<^verbatim>\<open>str.splitlines\<close> on code points below 256.\<close>

definition line_end :: "char \<Rightarrow> bool" where
  "line_end c \<longleftrightarrow> code c \<in> {10, 11, 12, 13, 28, 29, 30, 133}"

fun splitlines :: "string \<Rightarrow> string \<Rightarrow> string list" where
  "splitlines acc [] = (if acc = [] then [] else [rev acc])"
| "splitlines acc (c # s) =
     (if line_end c then rev acc # splitlines [] (if code c = 13 \<and> s \<noteq> [] \<and> code (hd s) = 10 then tl s else s)
      else splitlines (c # acc) s)"

text \<open>\<^verbatim>\<open>rstrip(".")\<close>.\<close>

definition rstrip_dots :: "string \<Rightarrow> string" where
  "rstrip_dots s = rev (dropWhile (\<lambda>c. c = CHR ''.'') (rev s))"

definition is_ascii_digit :: "char \<Rightarrow> bool" where
  "is_ascii_digit c \<longleftrightarrow> 48 \<le> code c \<and> code c \<le> 57"

text \<open>\<^verbatim>\<open>str.isdigit\<close> also accepts the superscripts two, three and one.\<close>

definition is_digit :: "char \<Rightarrow> bool" where
  "is_digit c \<longleftrightarrow> is_ascii_digit c \<or> code c \<in> {178, 179, 185}"

definition str_isdigit :: "string \<Rightarrow> bool" where
  "str_isdigit s \<longleftrightarrow> s \<noteq> [] \<and> list_all is_digit s"

definition lower_char :: "char \<Rightarrow> char" where
  "lower_char c = (if 65 \<le> code c \<and> code c \<le> 90 \<or> 192 \<le> code c \<and> code c \<le> 222 \<and> code c \<noteq> 215
     then char_of (code c + 32) else c)"

definition lower :: "string \<Rightarrow> string" where
  "lower s = map lower_char s"

fun starts_with :: "string \<Rightarrow> string \<Rightarrow> bool" where
  "starts_with s [] = True"
| "starts_with [] (p # ps) = False"
| "starts_with (c # s) (p # ps) = (c = p \<and> starts_with s ps)"

lemma starts_with_iff: "starts_with s p \<longleftrightarrow> (\<exists>t. s = p @ t)"
  by (induction s p rule: starts_with.induct) auto

text \<open>Python's \<^verbatim>\<open>needle in haystack\<close>.\<close>

fun contains_str :: "string \<Rightarrow> string \<Rightarrow> bool" where
  "contains_str [] n = (n = [])"
| "contains_str (c # s) n = (starts_with (c # s) n \<or> contains_str s n)"

lemma contains_str_iff: "contains_str s n \<longleftrightarrow> (\<exists>u t. s = u @ n @ t)"
proof (induction s)
  case (Cons c s)
  have "contains_str (c # s) n \<longleftrightarrow> (\<exists>t. c # s = n @ t) \<or> (\<exists>u t. s = u @ n @ t)"
    using Cons by (simp add: starts_with_iff)
  also have "\<dots> \<longleftrightarrow> (\<exists>u t. c # s = u @ n @ t)" by (auto simp: Cons_eq_append_conv)
  finally show ?case .
qed auto

lemma dropWhile_hd: "xs = [] \<or> \<not> P (hd xs) \<Longrightarrow> dropWhile P xs = xs"
  by (cases xs) auto

lemma strip_id:
  assumes "s = [] \<or> (\<not> is_space (hd s) \<and> \<not> is_space (last s))"
  shows "strip s = s"
proof -
  have "dropWhile is_space s = s" "dropWhile is_space (rev s) = rev s"
    using assms by (auto intro!: dropWhile_hd simp: hd_rev)
  then show ?thesis by (simp add: strip_def)
qed

lemma hd_dropWhile_neg: "dropWhile P xs \<noteq> [] \<Longrightarrow> \<not> P (hd (dropWhile P xs))"
  by (rule hd_dropWhile)

lemma strip_strip: "strip (strip s) = strip s"
proof (cases "strip s = []")
  case True
  have "strip [] = []" by (simp add: strip_def)
  with True show ?thesis by simp
next
  case False
  let ?d = "dropWhile is_space s"
  have l: "\<not> is_space (last (strip s))"
    using False hd_dropWhile_neg [of is_space "rev ?d"] by (simp add: strip_def last_rev)
  have "?d \<noteq> []" using False unfolding strip_def by (metis dropWhile.simps(1) rev.simps(1))
  then have "\<not> is_space (hd ?d)" by (rule hd_dropWhile_neg)
  moreover have "hd (strip s) = hd ?d"
  proof -
    obtain t where "rev ?d = t @ dropWhile is_space (rev ?d)"
      using takeWhile_dropWhile_id [of is_space "rev ?d"] by metis
    then have "?d = strip s @ rev t" by (metis rev_append rev_rev_ident strip_def)
    then show ?thesis using False by (metis hd_append2)
  qed
  ultimately show ?thesis using l by (intro strip_id) simp
qed

section \<open>Numbers\<close>

fun digits :: "nat \<Rightarrow> nat \<Rightarrow> nat list" where
  "digits b n = (if n < b \<or> b < 2 then [n] else digits b (n div b) @ [n mod b])"

declare digits.simps [simp del]

definition undigits :: "nat \<Rightarrow> nat list \<Rightarrow> nat" where
  "undigits b ds = foldl (\<lambda>a d. a * b + d) 0 ds"

lemma undigits_snoc [simp]: "undigits b (ds @ [d]) = undigits b ds * b + d"
  and undigits_Nil [simp]: "undigits b [] = 0"
  by (simp_all add: undigits_def)

lemma undigits_digits: "undigits b (digits b n) = n"
proof (induction b n rule: digits.induct)
  case (1 b n)
  show ?case
  proof (cases "n < b \<or> b < 2")
    case True
    then show ?thesis by (subst digits.simps) (simp add: undigits_def)
  next
    case False
    with 1 show ?thesis by (subst digits.simps) simp
  qed
qed

lemma digits_less: "2 \<le> b \<Longrightarrow> d \<in> set (digits b n) \<Longrightarrow> d < b"
proof (induction b n rule: digits.induct)
  case (1 b n)
  then show ?case by (cases "n < b"; simp add: digits.simps [of b n]) (auto split: if_splits)
qed

lemma digits_neq [simp]: "digits b n \<noteq> []"
  by (subst digits.simps) simp

lemma length_digits: "2 \<le> b \<Longrightarrow> n < b ^ k \<Longrightarrow> 0 < k \<Longrightarrow> length (digits b n) \<le> k"
proof (induction b n arbitrary: k rule: digits.induct)
  case (1 b n)
  show ?case
  proof (cases "n < b")
    case True
    with 1(4) show ?thesis by (simp add: digits.simps [of b n])
  next
    case False
    obtain k' where k: "k = Suc k'" using 1(4) by (cases k) auto
    have "k' \<noteq> 0" using False 1(3) k by (cases k') auto
    moreover have "n div b < b ^ k'" using 1(2,3) k by (simp add: less_mult_imp_div_less mult.commute)
    ultimately have "length (digits b (n div b)) \<le> k'" using 1(1) [of k'] 1(2) False by simp
    then show ?thesis using False 1(2) k by (simp add: digits.simps [of b n])
  qed
qed

lemma hd_digits: "2 \<le> b \<Longrightarrow> hd (digits b n) = 0 \<Longrightarrow> n = 0"
proof (induction b n rule: digits.induct)
  case (1 b n)
  show ?case
  proof (cases "n < b")
    case True
    with 1(3) show ?thesis by (simp add: digits.simps [of b n])
  next
    case False
    then have "hd (digits b (n div b)) = 0" using 1(2,3) by (simp add: digits.simps [of b n])
    then have "n div b = 0" using 1 False by simp
    with False 1(2) show ?thesis by (simp add: div_eq_0_iff)
  qed
qed

definition digit_char :: "nat \<Rightarrow> char" where
  "digit_char d = char_of (if d < 10 then 48 + d else 87 + d)"

definition digit_val :: "char \<Rightarrow> nat option" where
  "digit_val c = (if 48 \<le> code c \<and> code c \<le> 57 then Some (code c - 48)
     else if 97 \<le> code c \<and> code c \<le> 102 then Some (code c - 87)
     else if 65 \<le> code c \<and> code c \<le> 70 then Some (code c - 55)
     else None)"

definition dec :: "nat \<Rightarrow> string" where
  "dec n = map digit_char (digits 10 n)"

definition hex :: "nat \<Rightarrow> string" where
  "hex n = map digit_char (digits 16 n)"

definition from_base :: "nat \<Rightarrow> string \<Rightarrow> nat" where
  "from_base b s = undigits b (map (\<lambda>c. case digit_val c of Some d \<Rightarrow> d | None \<Rightarrow> 0) s)"

lemma code_char_of [simp]: "n < 256 \<Longrightarrow> code (char_of n) = n"
  by (simp add: code_def of_char_of)

lemma digit_val_char: "d < 16 \<Longrightarrow> digit_val (digit_char d) = Some d"
  by (simp add: digit_val_def digit_char_def)

lemma from_base_digits:
  assumes "2 \<le> b" "b \<le> 16"
  shows "from_base b (map digit_char (digits b n)) = n"
proof -
  have "x < 16" if "x \<in> set (digits b n)" for x
    using digits_less [OF assms(1) that] assms(2) by simp
  then have "map (\<lambda>d. case digit_val (digit_char d) of Some d \<Rightarrow> d | None \<Rightarrow> 0) (digits b n) = digits b n"
    by (intro map_idI) (simp add: digit_val_char)
  then show ?thesis by (simp add: from_base_def comp_def undigits_digits)
qed

lemma from_base_dec [simp]: "from_base 10 (dec n) = n"
  and from_base_hex [simp]: "from_base 16 (hex n) = n"
  by (simp_all add: dec_def hex_def from_base_digits)

lemma dec_digit: "c \<in> set (dec n) \<Longrightarrow> is_ascii_digit c"
proof -
  assume "c \<in> set (dec n)"
  then obtain d where d: "d \<in> set (digits 10 n)" "c = digit_char d" by (auto simp: dec_def)
  then have "d < 10" using digits_less [of 10 d n] by simp
  then show "is_ascii_digit c" using d(2) by (simp add: digit_char_def is_ascii_digit_def)
qed

lemma hex_digit: "c \<in> set (hex n) \<Longrightarrow> digit_val c \<noteq> None"
proof -
  assume "c \<in> set (hex n)"
  then obtain d where d: "d \<in> set (digits 16 n)" "c = digit_char d" by (auto simp: hex_def)
  then have "d < 16" using digits_less [of 16 d n] by simp
  then show "digit_val c \<noteq> None" using d(2) digit_val_char by simp
qed

lemma dec_neq [simp]: "dec n \<noteq> []" and hex_neq [simp]: "hex n \<noteq> []"
  by (simp_all add: dec_def hex_def)

lemma Nil_neq_hex [simp]: "[] \<noteq> hex n"
  using hex_neq [of n] by metis

lemma length_dec: "n < 10 ^ k \<Longrightarrow> 0 < k \<Longrightarrow> length (dec n) \<le> k"
  and length_hex: "n < 16 ^ k \<Longrightarrow> 0 < k \<Longrightarrow> length (hex n) \<le> k"
  by (simp_all add: dec_def hex_def length_digits)

lemma hd_dec: "hd (dec n) = CHR ''0'' \<Longrightarrow> n = 0"
proof -
  assume "hd (dec n) = CHR ''0''"
  then have "digit_char (hd (digits 10 n)) = CHR ''0''" by (simp add: dec_def hd_map)
  moreover have "hd (digits 10 n) < 10" using digits_less [of 10 "hd (digits 10 n)" n] by simp
  ultimately have "hd (digits 10 n) = 0"
    using digit_val_char [of "hd (digits 10 n)"] by (simp add: digit_val_def code_def)
  then show ?thesis by (rule hd_digits [rotated]) simp
qed

lemma not_digit_colon [simp]: "\<not> is_ascii_digit CHR '':''" "\<not> is_ascii_digit CHR ''.''"
  "\<not> is_ascii_digit CHR ''/''" "\<not> is_ascii_digit CHR ''%''"
  by (simp_all add: is_ascii_digit_def code_def)

lemma no_hex_value [simp]: "digit_val CHR '':'' = None" "digit_val CHR ''.'' = None"
  "digit_val CHR ''/'' = None" "digit_val CHR ''%'' = None"
  by (simp_all add: digit_val_def code_def)

end
