(* ===== verification/Ip_Address.thy ===== *)
theory Ip_Address
  imports Py_String
begin

text \<open>
  What the sources use of Python's \<^verbatim>\<open>ipaddress\<close> module (version 3.11): parsing and printing of
  addresses, networks and interfaces, containment, and the address classes. An address is its
  integer with its version; bit masks of contiguous prefixes are written as division by powers of
  two. \<open>None\<close> is a \<^verbatim>\<open>ValueError\<close>.
\<close>

section \<open>Data\<close>

record ipaddr =
  ip_version :: nat
  ip_int :: nat
  ip_scope :: "string option"

record ipnet =
  net_address :: ipaddr
  net_prefixlen :: nat

definition max_prefixlen :: "nat \<Rightarrow> nat" where
  "max_prefixlen v = (if v = 4 then 32 else 128)"

definition v4 :: "nat \<Rightarrow> ipaddr" where
  "v4 n = \<lparr>ip_version = 4, ip_int = n, ip_scope = None\<rparr>"

definition v6 :: "nat \<Rightarrow> string option \<Rightarrow> ipaddr" where
  "v6 n s = \<lparr>ip_version = 6, ip_int = n, ip_scope = s\<rparr>"

section \<open>Parsing addresses\<close>

definition parse_octet :: "string \<Rightarrow> nat option" where
  "parse_octet s = (if s = [] \<or> \<not> list_all is_ascii_digit s \<or> length s > 3 then None
     else if s \<noteq> ''0'' \<and> hd s = CHR ''0'' then None
     else if from_base 10 s > 255 then None else Some (from_base 10 s))"

definition ipv4_int :: "string \<Rightarrow> nat option" where
  "ipv4_int s = (let octets = split_on CHR ''.'' s
     in if length octets \<noteq> 4 then None else map_option (undigits 256) (those (map parse_octet octets)))"

definition ipv4_address :: "string \<Rightarrow> ipaddr option" where
  "ipv4_address s = (if CHR ''/'' \<in> set s then None else map_option v4 (ipv4_int s))"

definition parse_hextet :: "string \<Rightarrow> nat option" where
  "parse_hextet s = (if list_ex (\<lambda>c. digit_val c = None) s \<or> length s > 4 \<or> s = [] then None
     else Some (from_base 16 s))"

definition expand_ipv4_suffix :: "string list \<Rightarrow> string list option" where
  "expand_ipv4_suffix parts = (if CHR ''.'' \<in> set (last parts)
     then (case ipv4_int (last parts) of None \<Rightarrow> None
           | Some n \<Rightarrow> Some (butlast parts @ [hex (n div 65536 mod 65536), hex (n mod 65536)]))
     else Some parts)"

definition hextets_int :: "string list \<Rightarrow> nat \<Rightarrow> string list \<Rightarrow> nat option" where
  "hextets_int hi skipped lo = (case (those (map parse_hextet hi), those (map parse_hextet lo)) of
     (Some h, Some l) \<Rightarrow> Some (undigits 65536 (h @ replicate skipped 0 @ l))
   | _ \<Rightarrow> None)"

definition parts_int :: "string list \<Rightarrow> nat option" where
  "parts_int parts =
     (let n = length parts
      in if n > 9 then None
         else case filter (\<lambda>i. parts ! i = []) [1..<n - 1] of
           [] \<Rightarrow> if n \<noteq> 8 \<or> hd parts = [] \<or> last parts = [] then None else hextets_int parts 0 []
         | [skip] \<Rightarrow>
             let parts_hi = skip; parts_lo = n - skip - 1
             in if hd parts = [] \<and> parts_hi - 1 \<noteq> 0 then None
                else if last parts = [] \<and> parts_lo - 1 \<noteq> 0 then None
                else let hi = (if hd parts = [] then parts_hi - 1 else parts_hi);
                         lo = (if last parts = [] then parts_lo - 1 else parts_lo)
                     in if hi + lo \<ge> 8 then None
                        else hextets_int (take hi parts) (8 - (hi + lo)) (drop (n - lo) parts)
         | _ \<Rightarrow> None)"

definition ipv6_int :: "string \<Rightarrow> nat option" where
  "ipv6_int s = (if s = [] then None
     else let parts = split_on CHR '':'' s
          in if length parts < 3 then None
             else Option.bind (expand_ipv4_suffix parts) parts_int)"

definition ipv6_address :: "string \<Rightarrow> ipaddr option" where
  "ipv6_address s = (if CHR ''/'' \<in> set s then None
     else case split_on CHR ''%'' s of
       [a] \<Rightarrow> map_option (\<lambda>n. v6 n None) (ipv6_int a)
     | [a, scope] \<Rightarrow> if scope = [] then None else map_option (\<lambda>n. v6 n (Some scope)) (ipv6_int a)
     | _ \<Rightarrow> None)"

definition ip_address :: "string \<Rightarrow> ipaddr option" where
  "ip_address s = (case ipv4_address s of Some a \<Rightarrow> Some a | None \<Rightarrow> ipv6_address s)"

section \<open>Parsing networks\<close>

definition parse_prefix :: "nat \<Rightarrow> string \<Rightarrow> nat option" where
  "parse_prefix w s = (if s = [] \<or> \<not> list_all is_ascii_digit s \<or> from_base 10 s > w then None
     else Some (from_base 10 s))"

fun right_zeros :: "nat \<Rightarrow> nat \<Rightarrow> nat" where
  "right_zeros 0 n = 0"
| "right_zeros (Suc bits) n = (if n mod 2 = 1 then 0 else Suc (right_zeros bits (n div 2)))"

definition prefix_of_mask :: "nat \<Rightarrow> nat option" where
  "prefix_of_mask n = (let z = right_zeros 32 n; p = 32 - z
     in if n div 2 ^ z = 2 ^ p - 1 then Some p else None)"

text \<open>A dotted mask is a netmask, or else a host mask.\<close>

definition parse_mask4 :: "string \<Rightarrow> nat option" where
  "parse_mask4 s = (case parse_prefix 32 s of Some p \<Rightarrow> Some p
     | None \<Rightarrow> Option.bind (ipv4_int s) (\<lambda>n. case prefix_of_mask n of Some p \<Rightarrow> Some p
         | None \<Rightarrow> prefix_of_mask (2 ^ 32 - 1 - n)))"

datatype net_error = AddressValueError | HostBitsSet

definition host_part :: "ipaddr \<Rightarrow> nat \<Rightarrow> nat" where
  "host_part a p = ip_int a mod 2 ^ (max_prefixlen (ip_version a) - p)"

definition network_from :: "bool \<Rightarrow> ipaddr option \<Rightarrow> nat option \<Rightarrow> net_error + ipnet" where
  "network_from strict addr len = (case (addr, len) of
     (Some a, Some p) \<Rightarrow>
       if host_part a p \<noteq> 0 then
         (if strict then Inl HostBitsSet
          else Inr \<lparr>net_address = \<lparr>ip_version = ip_version a, ip_int = ip_int a - host_part a p,
                                   ip_scope = None\<rparr>, net_prefixlen = p\<rparr>)
       else Inr \<lparr>net_address = a, net_prefixlen = p\<rparr>
   | _ \<Rightarrow> Inl AddressValueError)"

definition split_mask :: "string \<Rightarrow> (string \<times> string option) option" where
  "split_mask s = (case split_on CHR ''/'' s of [a] \<Rightarrow> Some (a, None) | [a, m] \<Rightarrow> Some (a, Some m)
     | _ \<Rightarrow> None)"

definition ipv4_network :: "bool \<Rightarrow> string \<Rightarrow> net_error + ipnet" where
  "ipv4_network strict s = (case split_mask s of None \<Rightarrow> Inl AddressValueError
     | Some (a, m) \<Rightarrow> network_from strict (ipv4_address a)
         (case m of None \<Rightarrow> Some 32 | Some t \<Rightarrow> parse_mask4 t))"

definition ipv6_network :: "bool \<Rightarrow> string \<Rightarrow> net_error + ipnet" where
  "ipv6_network strict s = (case split_mask s of None \<Rightarrow> Inl AddressValueError
     | Some (a, m) \<Rightarrow> network_from strict (ipv6_address a)
         (case m of None \<Rightarrow> Some 128 | Some t \<Rightarrow> parse_prefix 128 t))"

definition ip_network :: "bool \<Rightarrow> string \<Rightarrow> ipnet option" where
  "ip_network strict s = (case ipv4_network strict s of
     Inr n \<Rightarrow> Some n
   | Inl HostBitsSet \<Rightarrow> None
   | Inl AddressValueError \<Rightarrow> (case ipv6_network strict s of Inr n \<Rightarrow> Some n | Inl _ \<Rightarrow> None))"

text \<open>\<^verbatim>\<open>ip_interface(s).network\<close>.\<close>

definition ip_interface_network :: "string \<Rightarrow> ipnet option" where
  "ip_interface_network s = ip_network False s"

section \<open>Printing\<close>

definition octets_of :: "nat \<Rightarrow> nat list" where
  "octets_of n = [n div 2 ^ 24 mod 256, n div 2 ^ 16 mod 256, n div 2 ^ 8 mod 256, n mod 256]"

definition ipv4_str :: "nat \<Rightarrow> string" where
  "ipv4_str n = join_on ''.'' (map dec (octets_of n))"

definition hextets_of :: "nat \<Rightarrow> nat list" where
  "hextets_of n = map (\<lambda>i. n div 2 ^ (16 * i) mod 65536) [7, 6, 5, 4, 3, 2, 1, 0]"

text \<open>The scan for the longest run of zero hextets: index, current run, best run.\<close>

fun best_run :: "nat \<Rightarrow> nat \<times> nat \<Rightarrow> nat \<times> nat \<Rightarrow> string list \<Rightarrow> nat \<times> nat" where
  "best_run i (cs, cl) best [] = best"
| "best_run i (cs, cl) (bs, bl) (h # hs) =
     (if h = ''0''
      then let cs' = (if cl = 0 then i else cs); cl' = cl + 1
           in best_run (i + 1) (cs', cl') (if cl' > bl then (cs', cl') else (bs, bl)) hs
      else best_run (i + 1) (0, 0) (bs, bl) hs)"

definition compress_hextets :: "string list \<Rightarrow> string list" where
  "compress_hextets hs = (case best_run 0 (0, 0) (0, 0) hs of (bs, bl) \<Rightarrow>
     if bl > 1
     then (if bs = 0 then [[]] else []) @ take bs hs @ [[]] @ drop (bs + bl) hs
            @ (if bs + bl = length hs then [[]] else [])
     else hs)"

definition ipv6_str :: "nat \<Rightarrow> string" where
  "ipv6_str n = join_on '':'' (compress_hextets (map hex (hextets_of n)))"

definition ip_str :: "ipaddr \<Rightarrow> string" where
  "ip_str a = (if ip_version a = 4 then ipv4_str (ip_int a)
     else ipv6_str (ip_int a) @ (case ip_scope a of None \<Rightarrow> [] | Some s \<Rightarrow> ''%'' @ s))"

definition net_str :: "ipnet \<Rightarrow> string" where
  "net_str n = ip_str (net_address n) @ ''/'' @ dec (net_prefixlen n)"

section \<open>Networks as sets\<close>

abbreviation net_version :: "ipnet \<Rightarrow> nat" where
  "net_version n \<equiv> ip_version (net_address n)"

definition num_addresses :: "ipnet \<Rightarrow> nat" where
  "num_addresses n = 2 ^ (max_prefixlen (net_version n) - net_prefixlen n)"

definition first_int :: "ipnet \<Rightarrow> nat" where
  "first_int n = ip_int (net_address n)"

definition broadcast_int :: "ipnet \<Rightarrow> nat" where
  "broadcast_int n = first_int n + num_addresses n - 1"

text \<open>\<^verbatim>\<open>address in network\<close>.\<close>

definition in_network :: "ipaddr \<Rightarrow> ipnet \<Rightarrow> bool" where
  "in_network a n \<longleftrightarrow> ip_version a = net_version n
     \<and> ip_int a - ip_int a mod num_addresses n = first_int n"

text \<open>\<^verbatim>\<open>a.subnet_of(b)\<close>: the order on addresses compares integers, and \<open>\<le>\<close> of equal integers asks
  for equal addresses, scope included.\<close>

definition subnet_of :: "ipnet \<Rightarrow> ipnet \<Rightarrow> bool" where
  "subnet_of a b \<longleftrightarrow> (first_int b < first_int a \<or> net_address b = net_address a)
     \<and> broadcast_int a \<le> broadcast_int b"

definition in_prefix :: "nat \<Rightarrow> nat \<Rightarrow> nat \<Rightarrow> nat \<Rightarrow> bool" where
  "in_prefix w base p n \<longleftrightarrow> n div 2 ^ (w - p) = base div 2 ^ (w - p)"

definition addr_is_multicast :: "nat \<Rightarrow> nat \<Rightarrow> bool" where
  "addr_is_multicast v n = (if v = 4 then in_prefix 32 (224 * 2 ^ 24) 4 n
     else in_prefix 128 (0xff00 * 2 ^ 112) 8 n)"

definition addr_is_loopback :: "nat \<Rightarrow> nat \<Rightarrow> bool" where
  "addr_is_loopback v n = (if v = 4 then in_prefix 32 (127 * 2 ^ 24) 8 n else n = 1)"

definition addr_is_link_local :: "nat \<Rightarrow> nat \<Rightarrow> bool" where
  "addr_is_link_local v n = (if v = 4 then in_prefix 32 (169 * 2 ^ 24 + 254 * 2 ^ 16) 16 n
     else in_prefix 128 (0xfe80 * 2 ^ 112) 10 n)"

definition net_all :: "(nat \<Rightarrow> nat \<Rightarrow> bool) \<Rightarrow> ipnet \<Rightarrow> bool" where
  "net_all P n \<longleftrightarrow> P (net_version n) (first_int n) \<and> P (net_version n) (broadcast_int n)"

definition is_multicast :: "ipnet \<Rightarrow> bool" where
  "is_multicast n = net_all addr_is_multicast n"

definition is_unspecified :: "ipnet \<Rightarrow> bool" where
  "is_unspecified n = net_all (\<lambda>_ i. i = 0) n"

definition is_loopback :: "ipnet \<Rightarrow> bool" where
  "is_loopback n = net_all addr_is_loopback n"

definition is_link_local :: "ipnet \<Rightarrow> bool" where
  "is_link_local n = net_all addr_is_link_local n"

end
