(* ===== verification/Ip_Roundtrip.thy ===== *)
theory Ip_Roundtrip
  imports Ip_Address
begin

text \<open>
  Parsing and printing addresses and networks are inverse: the text WireScope stores for a target
  denotes the network it was printed from, IPv6 zero compression included.
\<close>

section \<open>Well-formed values\<close>

definition valid_scope :: "string option \<Rightarrow> bool" where
  "valid_scope s \<longleftrightarrow> (case s of None \<Rightarrow> True
     | Some t \<Rightarrow> t \<noteq> [] \<and> CHR ''%'' \<notin> set t \<and> CHR ''/'' \<notin> set t)"

definition valid_addr :: "ipaddr \<Rightarrow> bool" where
  "valid_addr a \<longleftrightarrow> ip_version a = 4 \<and> ip_int a < 2 ^ 32 \<and> ip_scope a = None
     \<or> ip_version a = 6 \<and> ip_int a < 2 ^ 128 \<and> valid_scope (ip_scope a)"

definition valid_net :: "ipnet \<Rightarrow> bool" where
  "valid_net n \<longleftrightarrow> valid_addr (net_address n) \<and> net_prefixlen n \<le> max_prefixlen (net_version n)
     \<and> host_part (net_address n) (net_prefixlen n) = 0"

lemma those_map_Some: "(\<And>x. x \<in> set xs \<Longrightarrow> f x = Some (g x)) \<Longrightarrow> those (map f xs) = Some (map g xs)"
  by (induction xs) auto

lemma those_length: "those ys = Some xs \<Longrightarrow> length xs = length ys"
  by (induction ys arbitrary: xs) (auto split: option.splits)

lemma those_all: "those (map f ys) = Some xs \<Longrightarrow> y \<in> set ys \<Longrightarrow> f y \<noteq> None"
  by (induction ys arbitrary: xs) (auto split: option.splits)

lemma those_set: "those (map f ys) = Some xs \<Longrightarrow> x \<in> set xs \<Longrightarrow> \<exists>y \<in> set ys. f y = Some x"
  by (induction ys arbitrary: xs) (auto split: option.splits)

section \<open>IPv4\<close>

lemma dec_0: "dec 0 = ''0''"
  by code_simp

lemma parse_octet_dec: "n < 256 \<Longrightarrow> parse_octet (dec n) = Some n"
proof -
  assume n: "n < 256"
  have "list_all is_ascii_digit (dec n)" using dec_digit by (auto simp: list_all_iff)
  moreover have "length (dec n) \<le> 3" using n length_dec [of n 3] by simp
  moreover have "dec n = ''0''" if "hd (dec n) = CHR ''0''"
    using hd_dec [OF that] dec_0 by simp
  ultimately show ?thesis using n by (auto simp: parse_octet_def)
qed

lemma undigits_Cons: "undigits b (d # ds) = d * b ^ length ds + undigits b ds"
proof (induction ds rule: rev_induct)
  case (snoc x xs)
  then have "undigits b (d # xs @ [x]) = undigits b (d # xs) * b + x"
    using undigits_snoc [of b "d # xs" x] by simp
  with snoc show ?case by (simp add: algebra_simps)
qed (simp add: undigits_def)

lemma undigits_bound: "(\<And>d. d \<in> set ds \<Longrightarrow> d < b) \<Longrightarrow> undigits b ds < b ^ length ds"
proof (induction ds)
  case (Cons d ds)
  have "undigits b ds < b ^ length ds" using Cons by simp
  moreover have "Suc d * b ^ length ds \<le> b * b ^ length ds" using Cons.prems [of d] by (intro mult_right_mono) auto
  ultimately show ?case by (simp add: undigits_Cons)
qed simp

text \<open>Base \<open>2 ^ k\<close> digits of a number, most significant first.\<close>

lemma undigits_of_number:
  "undigits (2 ^ k) (map (\<lambda>i. n div 2 ^ (k * i) mod 2 ^ k) (rev [0..<m])) = n mod 2 ^ (k * m)"
proof (induction m)
  case (Suc m)
  have "undigits (2 ^ k) (map (\<lambda>i. n div 2 ^ (k * i) mod 2 ^ k) (rev [0..<Suc m]))
      = (n div 2 ^ (k * m) mod 2 ^ k) * 2 ^ (k * m) + n mod 2 ^ (k * m)"
    using Suc by (simp add: undigits_Cons power_mult)
  also have "\<dots> = n mod (2 ^ (k * m) * 2 ^ k)"
    using mod_mult2_eq [of n "2 ^ (k * m)" "2 ^ k"] by (simp add: mult.commute)
  also have "2 ^ (k * m) * 2 ^ k = (2::nat) ^ (k * Suc m)" by (simp add: power_add algebra_simps)
  finally show ?case .
qed simp

lemma undigits_octets: "n < 2 ^ 32 \<Longrightarrow> undigits 256 (octets_of n) = n"
  using undigits_of_number [of 8 n 4] by (simp add: octets_of_def upt_rec)

lemma octets_less: "x \<in> set (octets_of n) \<Longrightarrow> x < 256"
  by (auto simp: octets_of_def)

lemma dec_no_sep: "CHR ''.'' \<notin> set (dec n)" "CHR '':'' \<notin> set (dec n)" "CHR ''/'' \<notin> set (dec n)"
  "CHR ''%'' \<notin> set (dec n)"
  using dec_digit not_digit_colon by blast+

lemma split_ipv4_str: "split_on CHR ''.'' (ipv4_str n) = map dec (octets_of n)"
  unfolding ipv4_str_def by (rule split_join) (auto simp: octets_of_def dec_no_sep)

lemma ipv4_int_str: "n < 2 ^ 32 \<Longrightarrow> ipv4_int (ipv4_str n) = Some n"
proof -
  assume n: "n < 2 ^ 32"
  have "those (map parse_octet (map dec (octets_of n))) = Some (octets_of n)"
    using those_map_Some [of "octets_of n" "parse_octet \<circ> dec" id] parse_octet_dec octets_less
    by (simp add: comp_def)
  then show ?thesis
    using n by (simp add: ipv4_int_def split_ipv4_str undigits_octets) (simp add: octets_of_def)
qed

lemma ipv4_str_chars: "c \<in> set (ipv4_str n) \<Longrightarrow> c = CHR ''.'' \<or> is_ascii_digit c"
  using set_join_on [of c "''.''"] dec_digit by (fastforce simp: ipv4_str_def)

lemma ipv4_address_str: "n < 2 ^ 32 \<Longrightarrow> ipv4_address (ipv4_str n) = Some (v4 n)"
proof -
  assume "n < 2 ^ 32"
  moreover have "CHR ''/'' \<notin> set (ipv4_str n)" using ipv4_str_chars not_digit_colon by blast
  ultimately show ?thesis by (simp add: ipv4_address_def ipv4_int_str)
qed

lemma set_split_on: "c \<in> set s \<Longrightarrow> c \<noteq> x \<Longrightarrow> \<exists>w \<in> set (split_on x s). c \<in> set w"
  by (induction s) (auto split: list.splits)

lemma ipv4_int_chars: "ipv4_int s = Some n \<Longrightarrow> c \<in> set s \<Longrightarrow> c = CHR ''.'' \<or> is_ascii_digit c"
proof -
  assume a: "ipv4_int s = Some n" and c: "c \<in> set s"
  then obtain xs where xs: "those (map parse_octet (split_on CHR ''.'' s)) = Some xs"
    by (auto simp: ipv4_int_def Let_def split: if_splits)
  show ?thesis
  proof (cases "c = CHR ''.''")
    case False
    then obtain w where w: "w \<in> set (split_on CHR ''.'' s)" "c \<in> set w" using set_split_on [OF c] by blast
    then have "parse_octet w \<noteq> None" using those_all [OF xs] by blast
    then have "list_all is_ascii_digit w" by (simp add: parse_octet_def split: if_splits)
    with w(2) show ?thesis by (simp add: list_all_iff)
  qed simp
qed

section \<open>IPv6\<close>

lemma filter_upt_single:
  assumes "a \<le> s" "s < b" "P s" "\<And>i. a \<le> i \<Longrightarrow> i < b \<Longrightarrow> P i \<Longrightarrow> i = s"
  shows "filter P [a..<b] = [s]"
proof -
  have "[a..<b] = [a..<s] @ [s..<b]"
    using upt_add_eq_append [OF assms(1), of "b - s"] assms(2) by simp
  then have "[a..<b] = [a..<s] @ s # [Suc s..<b]" using upt_conv_Cons [OF assms(2)] by simp
  moreover have "\<not> P i" if "a \<le> i" "i < b" "i \<noteq> s" for i using assms(4) that by blast
  then have "filter P [a..<s] = []" "filter P [Suc s..<b] = []"
    using assms(1,2) by (simp_all add: filter_empty_conv)
  ultimately show ?thesis using assms(3) by simp
qed

lemma parse_hextet_hex: "n < 65536 \<Longrightarrow> parse_hextet (hex n) = Some n"
  using length_hex [of n 4] hex_digit by (fastforce simp: parse_hextet_def list_ex_iff)

lemma parse_hextets: "(\<And>x. x \<in> set xs \<Longrightarrow> x < 65536) \<Longrightarrow> those (map parse_hextet (map hex xs)) = Some xs"
  using those_map_Some [of xs "parse_hextet \<circ> hex" id] parse_hextet_hex by (simp add: comp_def)

lemma hextets_int_hex:
  assumes "\<And>x. x \<in> set (xs @ ys) \<Longrightarrow> x < 65536"
  shows "hextets_int (map hex xs) k (map hex ys) = Some (undigits 65536 (xs @ replicate k 0 @ ys))"
  using parse_hextets [of xs] parse_hextets [of ys] assms by (simp add: hextets_int_def)

text \<open>The parts of a compressed address: \<open>A\<close>, the double colon, \<open>B\<close>.\<close>

definition colon_parts :: "string list \<Rightarrow> string list \<Rightarrow> string list" where
  "colon_parts A B = (if A = [] then [[]] else []) @ A @ [[]] @ B @ (if B = [] then [[]] else [])"

lemma colon_parts_facts:
  assumes "[] \<notin> set A" "[] \<notin> set B"
  shows "length (colon_parts A B) = length A + length B + 1 + (if A = [] then 1 else 0) + (if B = [] then 1 else 0)"
    "hd (colon_parts A B) = [] \<longleftrightarrow> A = []" "last (colon_parts A B) = [] \<longleftrightarrow> B = []"
  using assms by (cases A; cases B rule: rev_cases; auto simp: colon_parts_def)+

lemma colon_parts_skip:
  assumes "[] \<notin> set A" "[] \<notin> set B"
  shows "filter (\<lambda>i. colon_parts A B ! i = []) [1..<length (colon_parts A B) - 1] = [max 1 (length A)]"
proof (rule filter_upt_single)
  show "1 \<le> max 1 (length A)" by simp
  show "max 1 (length A) < length (colon_parts A B) - 1"
    using colon_parts_facts(1) [OF assms] by (cases A; cases B) auto
  show "colon_parts A B ! max 1 (length A) = []"
    by (cases A) (auto simp: colon_parts_def nth_append)
next
  fix i assume i: "1 \<le> i" "i < length (colon_parts A B) - 1" "colon_parts A B ! i = []"
  have p: "colon_parts A B = (if A = [] then [[]] else []) @ A @ [[]] @ B @ (if B = [] then [[]] else [])"
    by (simp add: colon_parts_def)
  show "i = max 1 (length A)"
  proof (rule ccontr)
    assume ne: "i \<noteq> max 1 (length A)"
    have len: "i < length A + length B + (if A = [] then 1 else 0) + (if B = [] then 1 else 0)"
      using i(2) colon_parts_facts(1) [OF assms] by simp
    have "i = max 1 (length A) + 1 + (i - max 1 (length A) - 1) \<and> i - max 1 (length A) - 1 < length B"
      if "\<not> i < length A"
    proof (cases "A = []")
      case True
      then show ?thesis using len i(1) ne by (cases "B = []") (simp, simp, arith)
    next
      case False
      then have "max 1 (length A) = length A" by (cases A) auto
      then show ?thesis using len ne that False by (cases "B = []") (simp_all, arith?)
    qed
    then consider "i < length A" | k where "i = max 1 (length A) + 1 + k" "k < length B"
      by (cases "i < length A") auto
    then show False
    proof cases
      case 1
      then have "A \<noteq> []" by auto
      then have "colon_parts A B ! i = A ! i" using 1 by (simp add: p nth_append)
      with i(3) assms(1) 1 show False by (metis nth_mem)
    next
      case 2
      then have "colon_parts A B ! i = B ! k" by (cases A) (simp_all add: colon_parts_def nth_append)
      with i(3) assms(2) 2(2) show False by (metis nth_mem)
    qed
  qed
qed

lemma parts_int_colon:
  assumes "[] \<notin> set A" "[] \<notin> set B" "length A + length B < 8"
  shows "parts_int (colon_parts A B) = hextets_int A (8 - (length A + length B)) B"
proof -
  let ?P = "colon_parts A B"
  note f = colon_parts_facts [OF assms(1,2)]
  have n: "\<not> length ?P > 9" using f(1) assms(3) by auto
  have take: "take (if A = [] then max 1 (length A) - 1 else max 1 (length A)) ?P = A"
    by (cases A) (simp_all add: colon_parts_def)
  have lo: "length ?P - max 1 (length A) - 1 = (if B = [] then 1 else length B)"
    using f(1) by (cases A; cases B) auto
  have drop: "drop (length ?P - (if B = [] then 0 else length B)) ?P = B"
    using f(1) by (cases A; cases "B = []") (simp_all add: colon_parts_def)
  have m: "max (Suc 0) (length A) = length A" if "A \<noteq> []" using that by (cases A) auto
  show ?thesis
  proof (cases "B = []")
    case True
    then show ?thesis
      using n take lo drop f(2,3) assms(3) colon_parts_skip [OF assms(1,2)] m
      by (cases "A = []") (simp_all add: parts_int_def Let_def)
  next
    case False
    then show ?thesis
      using n take lo drop f(2,3) assms(3) colon_parts_skip [OF assms(1,2)] m
      by (cases "A = []") (simp_all add: parts_int_def Let_def)
  qed
qed

lemma parts_int_plain:
  assumes "[] \<notin> set A" "length A = 8"
  shows "parts_int A = hextets_int A 0 []"
proof -
  have "A ! i \<noteq> []" if "i < 8" for i using assms that nth_mem [of i A] by metis
  then have "filter (\<lambda>i. A ! i = []) [1..<length A - 1] = []"
    using assms(2) by (simp add: filter_empty_conv)
  moreover have "A \<noteq> []" using assms(2) by auto
  then have "hd A \<noteq> []" "last A \<noteq> []" using assms(1) by (metis list.set_sel(1)) (metis \<open>A \<noteq> []\<close> assms(1) last_in_set)
  ultimately show ?thesis using assms(2) by (simp add: parts_int_def)
qed

text \<open>The best run is a run of zeros inside the list.\<close>

lemma best_run_zeros:
  assumes "\<And>k. bs \<le> k \<Longrightarrow> k < bs + bl \<Longrightarrow> xs ! k = ''0''" "bs + bl \<le> i"
    and "\<And>k. i - cl \<le> k \<Longrightarrow> k < i \<Longrightarrow> xs ! k = ''0''" "cl \<le> i" "cl = 0 \<or> cs = i - cl"
    and "best_run i (cs, cl) (bs, bl) (drop i xs) = (rs, rl)" "i \<le> length xs"
  shows "rs + rl \<le> length xs \<and> (\<forall>k. rs \<le> k \<longrightarrow> k < rs + rl \<longrightarrow> xs ! k = ''0'')"
  using assms
proof (induction "length xs - i" arbitrary: i cs cl bs bl)
  case 0
  then have "drop i xs = []" by simp
  with 0 show ?case by auto
next
  case (Suc n)
  then have i: "i < length xs" by simp
  then have d: "drop i xs = xs ! i # drop (Suc i) xs" by (rule Cons_nth_drop_Suc [symmetric])
  have step: "n = length xs - Suc i" using Suc.hyps(2) by simp
  show ?case
  proof (cases "xs ! i = ''0''")
    case False
    then have r: "best_run (Suc i) (0, 0) (bs, bl) (drop (Suc i) xs) = (rs, rl)"
      using Suc.prems(6) d by simp
    show ?thesis by (rule Suc.hyps(1) [OF step Suc.prems(1) _ _ _ _ r]) (use Suc.prems(2) i in simp_all)
  next
    case True
    let ?cs = "if cl = 0 then i else cs"
    have cs: "?cs = Suc i - Suc cl" using Suc.prems(4,5) by auto
    have z: "xs ! k = ''0''" if "Suc i - Suc cl \<le> k" "k < Suc i" for k
      using Suc.prems(3) [of k] that True by (cases "k = i") auto
    let ?b = "if Suc cl > bl then (?cs, Suc cl) else (bs, bl)"
    have r: "best_run (Suc i) (?cs, Suc cl) (fst ?b, snd ?b) (drop (Suc i) xs) = (rs, rl)"
      using Suc.prems(6) d True by (simp add: Let_def)
    have b: "xs ! k = ''0''" if "fst ?b \<le> k" "k < fst ?b + snd ?b" for k
      using that z [of k] Suc.prems(1) [of k] cs Suc.prems(4) by (auto split: if_splits)
    have le: "fst ?b + snd ?b \<le> Suc i" using cs Suc.prems(2,4) by (auto split: if_splits)
    show ?thesis
      by (rule Suc.hyps(1) [OF step b le z _ _ r]) (use Suc.prems(4) cs i in simp_all)
  qed
qed

lemma best_run_spec:
  assumes "best_run 0 (0, 0) (0, 0) xs = (bs, bl)"
  shows "bs + bl \<le> length xs" "\<And>k. bs \<le> k \<Longrightarrow> k < bs + bl \<Longrightarrow> xs ! k = ''0''"
  using best_run_zeros [of 0 0 xs 0 0 0 bs bl] assms by simp_all

lemma hex_zero: "hex n = ''0'' \<Longrightarrow> n = 0"
proof -
  have "from_base 16 ''0'' = 0" by code_simp
  moreover assume "hex n = ''0''"
  ultimately show "n = 0" using from_base_hex [of n] by simp
qed

lemma compress_colon:
  assumes "length hs = 8" "\<And>x. x \<in> set hs \<Longrightarrow> x < 65536"
  shows "parts_int (compress_hextets (map hex hs)) = Some (undigits 65536 hs)"
proof -
  obtain bs bl where b: "best_run 0 (0, 0) (0, 0) (map hex hs) = (bs, bl)" by force
  note spec = best_run_spec [OF b]
  show ?thesis
  proof (cases "bl > 1")
    case False
    then have "compress_hextets (map hex hs) = map hex hs" using b by (simp add: compress_hextets_def)
    moreover have "[] \<notin> set (map hex hs)" by auto
    ultimately show ?thesis
      using assms parts_int_plain [of "map hex hs"] hextets_int_hex [of hs "[]" 0] by simp
  next
    case True
    let ?A = "take bs hs" and ?B = "drop (bs + bl) hs"
    have le: "bs + bl \<le> 8" using spec(1) assms(1) by simp
    have parts: "compress_hextets (map hex hs) = colon_parts (map hex ?A) (map hex ?B)"
      using b True le assms(1)
      by (auto simp: compress_hextets_def colon_parts_def take_map drop_map)
    have ne: "[] \<notin> set (map hex ?A)" "[] \<notin> set (map hex ?B)" by auto
    have len: "length (map hex ?A) + length (map hex ?B) = 8 - bl" using le assms(1) by auto
    have hs: "hs = ?A @ replicate bl 0 @ ?B"
    proof -
      have "take bl (drop bs hs) = replicate bl 0"
      proof (rule nth_equalityI)
        fix k assume "k < length (take bl (drop bs hs))"
        then have k: "k < bl" "bs + k < length hs" using le assms(1) by auto
        have "hex (hs ! (bs + k)) = ''0''" using spec(2) [of "bs + k"] k by simp
        then show "take bl (drop bs hs) ! k = replicate bl 0 ! k" using k hex_zero by simp
      qed (use le assms(1) in auto)
      then show ?thesis by (metis append_take_drop_id drop_drop add.commute)
    qed
    have "parts_int (colon_parts (map hex ?A) (map hex ?B)) =
        hextets_int (map hex ?A) bl (map hex ?B)"
    proof -
      have "length (map hex ?A) + length (map hex ?B) < 8" "8 - (length (map hex ?A) + length (map hex ?B)) = bl"
        unfolding len using True le by auto
      then show ?thesis using parts_int_colon [OF ne] by metis
    qed
    also have "\<dots> = Some (undigits 65536 (?A @ replicate bl 0 @ ?B))"
      by (rule hextets_int_hex) (use assms(2) in \<open>auto dest: in_set_takeD in_set_dropD\<close>)
    finally show ?thesis using parts hs by metis
  qed
qed

lemma length_hextets_of: "length (hextets_of n) = 8"
  by (simp add: hextets_of_def)

lemma hextets_less: "x \<in> set (hextets_of n) \<Longrightarrow> x < 65536"
  by (auto simp: hextets_of_def)

lemma undigits_hextets: "n < 2 ^ 128 \<Longrightarrow> undigits 65536 (hextets_of n) = n"
proof -
  assume n: "n < 2 ^ 128"
  have r: "rev [0..<8] = [7, 6, 5, 4, 3, 2, 1, 0::nat]" by code_simp
  have p: "(2::nat) ^ 16 = 65536" by simp
  have "undigits 65536 (hextets_of n) = n mod 2 ^ (16 * 8)"
    using undigits_of_number [of 16 n 8] unfolding hextets_of_def r p .
  also have "\<dots> = n" using n by (intro mod_less) simp
  finally show ?thesis .
qed

lemma hex_no_sep: "CHR '':'' \<notin> set (hex n)" "CHR ''.'' \<notin> set (hex n)" "CHR ''%'' \<notin> set (hex n)"
  "CHR ''/'' \<notin> set (hex n)"
  using hex_digit no_hex_value by blast+

lemma compress_parts:
  assumes "w \<in> set (compress_hextets (map hex hs))"
  shows "w = [] \<or> (\<exists>n. w = hex n)"
proof -
  have "w = [] \<or> w \<in> set (map hex hs)"
    using assms by (auto simp: compress_hextets_def split: prod.splits if_splits dest!: in_set_takeD in_set_dropD)
  then show ?thesis by auto
qed

lemma compress_length:
  assumes "length hs = 8"
  shows "3 \<le> length (compress_hextets (map hex hs))"
proof -
  obtain bs bl where b: "best_run 0 (0, 0) (0, 0) (map hex hs) = (bs, bl)" by force
  have "bs + bl \<le> 8" using best_run_spec(1) [OF b] assms by simp
  then show ?thesis using b assms by (auto simp: compress_hextets_def)
qed

lemma ipv6_str_chars: "c \<in> set (ipv6_str n) \<Longrightarrow> c = CHR '':'' \<or> digit_val c \<noteq> None"
  using set_join_on [of c "'':''"] compress_parts hex_digit unfolding ipv6_str_def
  by (metis (no_types, lifting) empty_iff empty_set list.set_cases set_ConsD)

lemma ipv6_str_no_sep: "CHR ''.'' \<notin> set (ipv6_str n)" "CHR ''%'' \<notin> set (ipv6_str n)"
  "CHR ''/'' \<notin> set (ipv6_str n)"
  using ipv6_str_chars no_hex_value by fastforce+

lemma split_ipv6_str: "split_on CHR '':'' (ipv6_str n) = compress_hextets (map hex (hextets_of n))"
  unfolding ipv6_str_def
proof (rule split_join)
  show "compress_hextets (map hex (hextets_of n)) \<noteq> []"
    using compress_length [OF length_hextets_of, of n] by auto
  show "CHR '':'' \<notin> set w" if "w \<in> set (compress_hextets (map hex (hextets_of n)))" for w
    using compress_parts [OF that] hex_no_sep(1) by auto
qed

lemma ipv6_int_str: "n < 2 ^ 128 \<Longrightarrow> ipv6_int (ipv6_str n) = Some n"
proof -
  assume n: "n < 2 ^ 128"
  let ?P = "compress_hextets (map hex (hextets_of n))"
  have len: "3 \<le> length ?P" by (rule compress_length [OF length_hextets_of])
  then have "last ?P \<in> set ?P" by (intro last_in_set) auto
  then have "CHR ''.'' \<notin> set (last ?P)" using compress_parts hex_no_sep(2) by fastforce
  then have e: "expand_ipv4_suffix ?P = Some ?P" by (simp add: expand_ipv4_suffix_def)
  have "ipv6_str n \<noteq> []"
  proof
    assume "ipv6_str n = []"
    with split_ipv6_str [of n] have "length ?P = 1" by (metis One_nat_def length_Cons list.size(3) split_on.simps(1))
    with len show False by simp
  qed
  moreover have "parts_int ?P = Some (undigits 65536 (hextets_of n))"
    by (rule compress_colon [OF length_hextets_of hextets_less])
  ultimately show ?thesis
    using n e len by (simp add: ipv6_int_def split_ipv6_str undigits_hextets)
qed

section \<open>Addresses and networks\<close>

lemma ip_str_no_slash: "valid_addr a \<Longrightarrow> CHR ''/'' \<notin> set (ip_str a)"
  using ipv6_str_no_sep(3) ipv4_str_chars not_digit_colon(3)
  by (fastforce simp: ip_str_def valid_addr_def valid_scope_def split: option.splits)

lemma ipv6_str_colon: "CHR '':'' \<in> set (ipv6_str n)"
proof (rule ccontr)
  assume "CHR '':'' \<notin> set (ipv6_str n)"
  then have "compress_hextets (map hex (hextets_of n)) = [ipv6_str n]"
    using split_ipv6_str [of n] split_on_word by metis
  with compress_length [OF length_hextets_of, of n] show False by simp
qed

lemma ipv4_address_v6: "ip_version a \<noteq> 4 \<Longrightarrow> ipv4_address (ip_str a) = None"
proof -
  assume "ip_version a \<noteq> 4"
  then have "CHR '':'' \<in> set (ip_str a)" using ipv6_str_colon by (simp add: ip_str_def)
  then have "ipv4_int (ip_str a) = None" using ipv4_int_chars not_digit_colon(1) by fastforce
  then show ?thesis by (simp add: ipv4_address_def)
qed

lemma ipv6_address_str:
  assumes "valid_addr a" "ip_version a = 6"
  shows "ipv6_address (ip_str a) = Some a"
proof -
  have a: "ip_int a < 2 ^ 128" "valid_scope (ip_scope a)" using assms by (auto simp: valid_addr_def)
  have eq: "v6 (ip_int a) (ip_scope a) = a" using assms(2) by (cases a) (simp add: v6_def)
  show ?thesis
  proof (cases "ip_scope a")
    case None
    then have s: "ip_str a = ipv6_str (ip_int a)" using assms(2) by (simp add: ip_str_def)
    then have "split_on CHR ''%'' (ip_str a) = [ip_str a]" using ipv6_str_no_sep(2) by (simp add: split_on_word)
    with s None eq ipv6_int_str [OF a(1)] ip_str_no_slash [OF assms(1)] show ?thesis
      by (simp add: ipv6_address_def)
  next
    case (Some t)
    then have t: "t \<noteq> []" "CHR ''%'' \<notin> set t" using a(2) by (auto simp: valid_scope_def)
    have s: "ip_str a = ipv6_str (ip_int a) @ CHR ''%'' # t" using assms(2) Some by (simp add: ip_str_def)
    have "split_on CHR ''%'' (ip_str a) = [ipv6_str (ip_int a), t]"
      using s split_on_append [OF ipv6_str_no_sep(2)] split_on_word [OF t(2)] by simp
    with t(1) Some eq ipv6_int_str [OF a(1)] ip_str_no_slash [OF assms(1)] show ?thesis
      by (simp add: ipv6_address_def)
  qed
qed

lemma ip_address_str: "valid_addr a \<Longrightarrow> ip_address (ip_str a) = Some a"
proof -
  assume a: "valid_addr a"
  show ?thesis
  proof (cases "ip_version a = 4")
    case True
    then have "ip_str a = ipv4_str (ip_int a)" "ip_int a < 2 ^ 32" "v4 (ip_int a) = a"
      using a by (cases a; auto simp: ip_str_def valid_addr_def v4_def)+
    then show ?thesis using ipv4_address_str [of "ip_int a"] by (simp add: ip_address_def)
  next
    case False
    then have "ip_version a = 6" using a by (auto simp: valid_addr_def)
    then show ?thesis using ipv6_address_str [OF a] ipv4_address_v6 [OF False] by (simp add: ip_address_def)
  qed
qed

lemma parse_prefix_dec: "p \<le> w \<Longrightarrow> parse_prefix w (dec p) = Some p"
  using dec_digit by (auto simp: parse_prefix_def list_all_iff)

lemma split_net_str: "valid_net n \<Longrightarrow> split_mask (net_str n) = Some (ip_str (net_address n), Some (dec (net_prefixlen n)))"
  using split_on_append [OF ip_str_no_slash, of "net_address n"] split_on_word [OF dec_no_sep(3)]
  by (simp add: split_mask_def net_str_def valid_net_def)

lemma ip_network_str:
  assumes "valid_net n"
  shows "ip_network strict (net_str n) = Some n"
proof -
  let ?a = "net_address n" and ?p = "net_prefixlen n"
  have a: "valid_addr ?a" and h: "host_part ?a ?p = 0" using assms by (simp_all add: valid_net_def)
  note s = split_net_str [OF assms]
  show ?thesis
  proof (cases "ip_version ?a = 4")
    case True
    then have "ipv4_address (ip_str ?a) = Some ?a"
      using a ipv4_address_str [of "ip_int ?a"] by (cases ?a) (auto simp: ip_str_def valid_addr_def v4_def)
    moreover have "parse_mask4 (dec ?p) = Some ?p"
      using assms True parse_prefix_dec [of ?p 32] by (simp add: parse_mask4_def valid_net_def max_prefixlen_def)
    ultimately show ?thesis
      using s h by (simp add: ip_network_def ipv4_network_def network_from_def)
  next
    case False
    then have v: "ip_version ?a = 6" using a by (auto simp: valid_addr_def)
    have "ipv4_network strict (net_str n) = Inl AddressValueError"
      using s ipv4_address_v6 [OF False] by (simp add: ipv4_network_def network_from_def)
    moreover have "parse_prefix 128 (dec ?p) = Some ?p"
      using assms v by (intro parse_prefix_dec) (simp add: valid_net_def max_prefixlen_def)
    ultimately show ?thesis
      using s h ipv6_address_str [OF a v] by (simp add: ip_network_def ipv6_network_def network_from_def)
  qed
qed

section \<open>Parsed values are well-formed\<close>

lemma split_on_words: "w \<in> set (split_on c s) \<Longrightarrow> c \<notin> set w \<and> set w \<subseteq> set s"
proof (induction s arbitrary: w)
  case (Cons x xs)
  obtain v vs where v: "split_on c xs = v # vs" by (cases "split_on c xs") auto
  have "c \<notin> set u \<and> set u \<subseteq> set xs" if "u \<in> set (v # vs)" for u using Cons.IH v that by simp
  then show ?case using Cons.prems v by (cases "x = c") fastforce+
qed simp

lemma parse_octet_less: "parse_octet s = Some n \<Longrightarrow> n < 256"
  by (auto simp: parse_octet_def split: if_splits)

lemma ipv4_int_less: "ipv4_int s = Some n \<Longrightarrow> n < 2 ^ 32"
proof -
  assume "ipv4_int s = Some n"
  then obtain xs where xs: "those (map parse_octet (split_on CHR ''.'' s)) = Some xs" "n = undigits 256 xs"
    "length (split_on CHR ''.'' s) = 4"
    by (auto simp: ipv4_int_def Let_def split: if_splits)
  have "undigits 256 xs < 256 ^ length xs"
    using those_set [OF xs(1)] parse_octet_less by (intro undigits_bound) blast
  moreover have "length xs = 4" using those_length [OF xs(1)] xs(3) by simp
  ultimately show ?thesis using xs(2) by simp
qed

lemma digit_val_less: "digit_val c = Some d \<Longrightarrow> d < 16"
  by (auto simp: digit_val_def split: if_splits)

lemma parse_hextet_less: "parse_hextet s = Some n \<Longrightarrow> n < 65536"
proof -
  assume "parse_hextet s = Some n"
  then have n: "n = from_base 16 s" and l: "length s \<le> 4" by (auto simp: parse_hextet_def split: if_splits)
  have "from_base 16 s < 16 ^ length s"
    unfolding from_base_def
    by (rule less_le_trans [OF undigits_bound]) (auto split: option.splits dest: digit_val_less)
  also have "\<dots> \<le> 16 ^ 4" using l by (intro power_increasing) auto
  finally show ?thesis using n by simp
qed

lemma hextets_int_less:
  assumes "hextets_int hi k lo = Some n" "length hi + k + length lo = 8"
  shows "n < 2 ^ 128"
proof -
  obtain h l where hl: "those (map parse_hextet hi) = Some h" "those (map parse_hextet lo) = Some l"
    "n = undigits 65536 (h @ replicate k 0 @ l)"
    using assms(1) by (auto simp: hextets_int_def split: option.splits)
  have len: "length (h @ replicate k 0 @ l) = 8"
    using those_length [OF hl(1)] those_length [OF hl(2)] assms(2) by simp
  have "undigits 65536 (h @ replicate k 0 @ l) < 65536 ^ length (h @ replicate k 0 @ l)"
    using those_set [OF hl(1)] those_set [OF hl(2)] parse_hextet_less
    by (intro undigits_bound) (auto dest!: in_set_replicate [THEN iffD1])
  then show ?thesis unfolding len using hl(3) by simp
qed

lemma filter_single_range:
  assumes "filter P [a..<b] = [s]"
  shows "a \<le> s" "s < b"
proof -
  have "s \<in> set (filter P [a..<b])" unfolding assms by simp
  then show "a \<le> s" "s < b" by simp_all
qed

lemma parts_int_less:
  assumes "parts_int ps = Some n"
  shows "n < 2 ^ 128"
proof -
  let ?n = "length ps"
  consider "hextets_int ps 0 [] = Some n" "?n = 8"
    | s where "filter (\<lambda>i. ps ! i = []) [1..<?n - 1] = [s]"
    using assms by (auto simp: parts_int_def Let_def split: if_splits list.splits)
  then show ?thesis
  proof cases
    case 1
    then show ?thesis using hextets_int_less [of ps 0 "[]"] by simp
  next
    case 2
    have s: "1 \<le> s" "s < ?n - 1" using filter_single_range [OF 2] by auto
    define hi where "hi = (if hd ps = [] then s - 1 else s)"
    define lo where "lo = (if last ps = [] then ?n - s - 1 - 1 else ?n - s - 1)"
    have h: "hextets_int (take hi ps) (8 - (hi + lo)) (drop (?n - lo) ps) = Some n" "hi + lo < 8"
      using assms 2 by (auto simp: parts_int_def Let_def hi_def lo_def split: if_splits)
    have "hi \<le> ?n" "lo \<le> ?n" using s by (auto simp: hi_def lo_def)
    then show ?thesis using hextets_int_less [OF h(1)] h(2) by simp
  qed
qed

lemma ipv6_int_less: "ipv6_int s = Some n \<Longrightarrow> n < 2 ^ 128"
  using parts_int_less by (auto simp: ipv6_int_def Let_def bind_eq_Some_conv split: if_splits)

lemma ipv4_address_valid: "ipv4_address s = Some a \<Longrightarrow> valid_addr a \<and> ip_version a = 4"
  using ipv4_int_less by (auto simp: ipv4_address_def valid_addr_def v4_def split: if_splits)

lemma ipv6_address_valid:
  assumes "ipv6_address s = Some a"
  shows "valid_addr a \<and> ip_version a = 6"
proof -
  have slash: "CHR ''/'' \<notin> set s" using assms by (auto simp: ipv6_address_def split: if_splits)
  consider w n where "ipv6_int w = Some n" "a = v6 n None"
    | w t n where "split_on CHR ''%'' s = [w, t]" "t \<noteq> []" "ipv6_int w = Some n" "a = v6 n (Some t)"
    using assms by (auto simp: ipv6_address_def split: if_splits list.splits)
  then show ?thesis
  proof cases
    case 1
    then show ?thesis using ipv6_int_less by (auto simp: valid_addr_def v6_def valid_scope_def)
  next
    case 2
    have "CHR ''%'' \<notin> set t" "set t \<subseteq> set s" using split_on_words [of t "CHR ''%''" s] 2(1) by auto
    with 2 slash ipv6_int_less show ?thesis by (auto simp: valid_addr_def v6_def valid_scope_def)
  qed
qed

lemma ip_address_valid: "ip_address s = Some a \<Longrightarrow> valid_addr a"
  using ipv4_address_valid ipv6_address_valid by (auto simp: ip_address_def split: option.splits)

lemma parse_prefix_le: "parse_prefix w s = Some p \<Longrightarrow> p \<le> w"
  by (auto simp: parse_prefix_def split: if_splits)

lemma parse_mask4_le: "parse_mask4 s = Some p \<Longrightarrow> p \<le> 32"
  using parse_prefix_le
  by (auto simp: parse_mask4_def prefix_of_mask_def Let_def bind_eq_Some_conv split: option.splits if_splits)

lemma network_from_valid:
  assumes "network_from strict (Some a) (Some p) = Inr n" "valid_addr a" "p \<le> max_prefixlen (ip_version a)"
  shows "valid_net n"
proof (cases "host_part a p = 0")
  case True
  with assms(1) have "n = \<lparr>net_address = a, net_prefixlen = p\<rparr>" by (simp add: network_from_def)
  with True assms(2,3) show ?thesis by (simp add: valid_net_def)
next
  case False
  let ?m = "2 ^ (max_prefixlen (ip_version a) - p) :: nat"
  have n: "n = \<lparr>net_address = \<lparr>ip_version = ip_version a, ip_int = ip_int a - ip_int a mod ?m, ip_scope = None\<rparr>,
      net_prefixlen = p\<rparr>"
    using assms(1) False by (simp add: network_from_def host_part_def split: if_splits)
  have "(ip_int a - ip_int a mod ?m) mod ?m = 0" by (simp add: minus_mod_eq_mult_div)
  then show ?thesis
    using assms(2,3) n by (auto simp: valid_net_def valid_addr_def host_part_def valid_scope_def)
qed

lemma network_from_Inr:
  assumes "network_from strict x y = Inr n"
  obtains a p where "x = Some a" "y = Some p"
  using assms by (auto simp: network_from_def split: option.splits)

lemma ipv4_network_valid:
  assumes "ipv4_network strict s = Inr n"
  shows "valid_net n"
proof -
  obtain t m where nf: "network_from strict (ipv4_address t)
      (case m of None \<Rightarrow> Some 32 | Some t \<Rightarrow> parse_mask4 t) = Inr n"
    using assms by (auto simp: ipv4_network_def split: option.splits)
  then obtain a p where a: "ipv4_address t = Some a"
    and p: "(case m of None \<Rightarrow> Some 32 | Some t \<Rightarrow> parse_mask4 t) = Some p" by (rule network_from_Inr)
  have "p \<le> 32" using p parse_mask4_le by (auto split: option.splits)
  with network_from_valid [of strict a p n] nf a p ipv4_address_valid [OF a] show ?thesis
    by (simp add: max_prefixlen_def)
qed

lemma ipv6_network_valid:
  assumes "ipv6_network strict s = Inr n"
  shows "valid_net n"
proof -
  obtain t m where nf: "network_from strict (ipv6_address t)
      (case m of None \<Rightarrow> Some 128 | Some t \<Rightarrow> parse_prefix 128 t) = Inr n"
    using assms by (auto simp: ipv6_network_def split: option.splits)
  then obtain a p where a: "ipv6_address t = Some a"
    and p: "(case m of None \<Rightarrow> Some 128 | Some t \<Rightarrow> parse_prefix 128 t) = Some p" by (rule network_from_Inr)
  have "p \<le> 128" using p parse_prefix_le by (auto split: option.splits)
  with network_from_valid [of strict a p n] nf a p ipv6_address_valid [OF a] show ?thesis
    by (simp add: max_prefixlen_def)
qed

lemma ip_network_valid: "ip_network strict s = Some n \<Longrightarrow> valid_net n"
  using ipv4_network_valid [of strict s n] ipv6_network_valid [of strict s n]
  by (auto simp: ip_network_def split: sum.splits net_error.splits)

section \<open>Containment\<close>

lemma valid_net_dvd:
  assumes "valid_net n"
  shows "first_int n mod num_addresses n = 0" "0 < num_addresses n"
  using assms by (simp_all add: valid_net_def host_part_def first_int_def num_addresses_def)

text \<open>The addresses of a network are the integers from its first to its broadcast address.\<close>

definition net_ints :: "ipnet \<Rightarrow> nat set" where
  "net_ints n = {first_int n .. broadcast_int n}"

lemma card_net_ints: "valid_net n \<Longrightarrow> card (net_ints n) = num_addresses n"
  using valid_net_dvd(2) [of n] by (simp add: net_ints_def broadcast_int_def)

lemma in_network_iff:
  assumes "valid_net n"
  shows "in_network a n \<longleftrightarrow> ip_version a = net_version n \<and> ip_int a \<in> net_ints n"
proof -
  let ?m = "num_addresses n" and ?i = "ip_int a"
  obtain q where q: "first_int n = ?m * q" using valid_net_dvd(1) [OF assms] by (auto simp: mod_eq_0_iff_dvd elim: dvdE)
  have m: "0 < ?m" by (rule valid_net_dvd(2) [OF assms])
  have "?i - ?i mod ?m = ?m * (?i div ?m)" by (simp add: minus_mod_eq_mult_div)
  then have "?i - ?i mod ?m = first_int n \<longleftrightarrow> ?i div ?m = q" using q m by auto
  also have "\<dots> \<longleftrightarrow> first_int n \<le> ?i \<and> ?i < first_int n + ?m"
  proof
    assume "?i div ?m = q"
    then have "?i = ?m * q + ?i mod ?m" by (metis mult_div_mod_eq)
    moreover have "?i mod ?m < ?m" using m by simp
    ultimately show "first_int n \<le> ?i \<and> ?i < first_int n + ?m" unfolding q by linarith
  next
    assume "first_int n \<le> ?i \<and> ?i < first_int n + ?m"
    then show "?i div ?m = q" using q by (intro div_nat_eqI) simp_all
  qed
  finally show ?thesis using m by (auto simp: in_network_def net_ints_def broadcast_int_def)
qed

end
