(* ===== verification/Scope.thy ===== *)
theory Scope
  imports Ip_Roundtrip Job_State
begin

text \<open>
  Active-scan scopes, \<^verbatim>\<open>engine/scope.py\<close>: validation and canonical form of the operator's targets,
  the address limits of a profile, and the proposal of a scope from an interface. Values that come
  from JSON (peers, routes) are taken as strings.
\<close>

section \<open>Data\<close>

datatype active_profile = DISCOVERY | STANDARD | DEEP

fun profile_value :: "active_profile \<Rightarrow> string" where
  "profile_value DISCOVERY = ''discovery''"
| "profile_value STANDARD = ''standard''"
| "profile_value DEEP = ''deep''"

datatype scope_code = SC_EMPTY | SC_INVALID_TARGET | SC_PROHIBITED_TARGET | SC_TOO_MANY | SC_LIMIT_EXCEEDED

fun scope_code_value :: "scope_code \<Rightarrow> string" where
  "scope_code_value SC_EMPTY = ''empty_scope''"
| "scope_code_value SC_INVALID_TARGET = ''invalid_target''"
| "scope_code_value SC_PROHIBITED_TARGET = ''prohibited_target''"
| "scope_code_value SC_TOO_MANY = ''too_many_scope_expressions''"
| "scope_code_value SC_LIMIT_EXCEEDED = ''scope_limit_exceeded''"

record limit_details =
  ld_address_count :: int
  ld_family_counts :: "int \<times> int"
  ld_limits :: "int \<times> int"
  ld_profile :: string

record scope_error =
  se_code :: scope_code
  se_message :: string
  se_details :: "limit_details option"

record scope_target =
  tg_value :: string
  tg_family :: nat
  tg_kind :: string
  tg_address_count :: int

record validated_scope =
  vs_profile :: active_profile
  vs_targets :: "scope_target list"
  vs_canonical_targets :: "string list"
  vs_address_families :: "nat list"
  vs_address_count :: int
  vs_safety_limits :: "int \<times> int"

record scope_settings =
  active_discovery_max_targets :: int
  active_standard_max_targets :: int
  active_deep_max_targets :: int
  active_ipv6_max_targets :: int
  active_allow_large_scopes :: bool

section \<open>Validation\<close>

definition scope_raise :: "scope_code \<Rightarrow> string \<Rightarrow> scope_error + 'a" where
  "scope_raise c m = Inl \<lparr>se_code = c, se_message = m, se_details = None\<rparr>"

fun profile_limit :: "scope_settings \<Rightarrow> active_profile \<Rightarrow> int" where
  "profile_limit s DISCOVERY = active_discovery_max_targets s"
| "profile_limit s STANDARD = active_standard_max_targets s"
| "profile_limit s DEEP = active_deep_max_targets s"

text \<open>The check both target parsers end with.\<close>

definition prohibited :: "ipnet \<Rightarrow> bool" where
  "prohibited n \<longleftrightarrow> net_prefixlen n = 0 \<or> is_unspecified n \<or> is_multicast n"

definition checked_network :: "string \<Rightarrow> ipnet option \<Rightarrow> scope_error + ipnet" where
  "checked_network raw n = (case n of
     None \<Rightarrow> scope_raise SC_INVALID_TARGET (''Invalid IP target: '' @ raw)
   | Some n \<Rightarrow> if prohibited n
       then scope_raise SC_PROHIBITED_TARGET (''Unspecified or multicast target is prohibited: '' @ raw)
       else Inr n)"

definition single_network :: "string \<Rightarrow> ipnet option" where
  "single_network value = (case ip_address value of None \<Rightarrow> None
     | Some a \<Rightarrow> ip_network True (ip_str a @ ''/'' @ dec (max_prefixlen (ip_version a))))"

definition parse_target :: "string \<Rightarrow> scope_error + ipnet" where
  "parse_target raw = (let value = strip raw
     in checked_network raw (if CHR ''/'' \<in> set value then ip_network True value else single_network value))"

fun parse_targets :: "string list \<Rightarrow> scope_error + ipnet list" where
  "parse_targets [] = Inr []"
| "parse_targets (t # ts) = rbind (parse_target t) (\<lambda>n. rbind (parse_targets ts) (\<lambda>ns. Inr (n # ns)))"

text \<open>Python's \<^verbatim>\<open>set\<close> of networks, listed by first occurrence.\<close>

definition py_set :: "'a list \<Rightarrow> 'a list" where
  "py_set xs = rev (remdups (rev xs))"

definition net_key :: "ipnet \<Rightarrow> nat \<times> nat \<times> nat" where
  "net_key n = (net_version n, first_int n, net_prefixlen n)"

fun drop_covered :: "ipnet list \<Rightarrow> ipnet list \<Rightarrow> ipnet list" where
  "drop_covered result [] = result"
| "drop_covered result (n # ns) =
     (if \<exists>e \<in> set result. net_version n = net_version e \<and> subnet_of n e then drop_covered result ns
      else drop_covered (result @ [n]) ns)"

definition remove_duplicates_and_covered :: "ipnet list \<Rightarrow> ipnet list" where
  "remove_duplicates_and_covered ns = drop_covered [] (sort_key net_key (py_set ns))"

definition display_value :: "ipnet \<Rightarrow> string" where
  "display_value n = (if net_prefixlen n = max_prefixlen (net_version n) then ip_str (net_address n)
     else net_str n)"

definition family_count :: "nat \<Rightarrow> ipnet list \<Rightarrow> int" where
  "family_count v ns = sum_list (map (int \<circ> num_addresses) (filter (\<lambda>n. net_version n = v) ns))"

definition safety_limits :: "scope_settings \<Rightarrow> active_profile \<Rightarrow> int \<times> int" where
  "safety_limits s p = (profile_limit s p, min (profile_limit s p) (active_ipv6_max_targets s))"

definition normalized_target :: "ipnet \<Rightarrow> scope_target" where
  "normalized_target n = \<lparr>tg_value = display_value n, tg_family = net_version n,
     tg_kind = (if net_prefixlen n = max_prefixlen (net_version n) then ''single'' else ''cidr''),
     tg_address_count = int (num_addresses n)\<rparr>"

definition scope_of :: "scope_settings \<Rightarrow> active_profile \<Rightarrow> ipnet list \<Rightarrow> scope_error + validated_scope" where
  "scope_of s profile networks =
     (let c4 = family_count 4 networks; c6 = family_count 6 networks; count = c4 + c6;
          limits = safety_limits s profile
      in if \<not> active_allow_large_scopes s \<and> (c4 > fst limits \<or> c6 > snd limits)
         then Inl \<lparr>se_code = SC_LIMIT_EXCEEDED,
                se_message = profile_value profile @ '' scope contains '' @ dec (nat count)
                  @ '' addresses; one or more address-family limits were exceeded'',
                se_details = Some \<lparr>ld_address_count = count, ld_family_counts = (c4, c6),
                  ld_limits = limits, ld_profile = profile_value profile\<rparr>\<rparr>
         else let ts = map normalized_target networks
              in Inr \<lparr>vs_profile = profile, vs_targets = ts, vs_canonical_targets = map tg_value ts,
                   vs_address_families = sort (remdups (map tg_family ts)),
                   vs_address_count = count, vs_safety_limits = limits\<rparr>)"

definition validate :: "scope_settings \<Rightarrow> string list \<Rightarrow> active_profile \<Rightarrow> scope_error + validated_scope" where
  "validate s targets profile =
     (if targets = [] then scope_raise SC_EMPTY ''At least one active target is required''
      else if length targets > 256
      then scope_raise SC_TOO_MANY ''Active scope contains more than 256 expressions''
      else rbind (parse_targets targets) (\<lambda>ns. scope_of s profile (remove_duplicates_and_covered ns)))"

section \<open>Proposals\<close>

datatype proposal_source = PS_INTERFACE_PREFIX | PS_VLAN_HINTS | PS_ROUTE_HINTS | PS_EMPTY

record proposed_network =
  pn_cidr :: string
  pn_origin :: string
  pn_assigned :: "string option"
  pn_vlan_id :: "nat option"
  pn_interface :: "string option"

record rejected_candidate =
  rc_value :: string
  rc_code :: string

record scope_proposal =
  sp_interface :: string
  sp_source :: proposal_source
  sp_networks :: "proposed_network list"
  sp_canonical_targets :: "string list"
  sp_assigned_addresses :: "string list"
  sp_vlan_ids :: "nat list"
  sp_rejected :: "rejected_candidate list"

record peer =
  peer_name :: "string option"
  peer_ipv4 :: "string list option"
  peer_ipv6 :: "string list option"

record route =
  rt_dev :: "string option"
  rt_gateway :: "string option"
  rt_dst :: "string option"

definition proposal_limit :: "scope_settings \<Rightarrow> nat \<Rightarrow> int" where
  "proposal_limit s version =
     (let limit = max (active_discovery_max_targets s)
                    (max (active_standard_max_targets s) (active_deep_max_targets s))
      in if version = 6 then min limit (active_ipv6_max_targets s) else limit)"

definition assigned_network :: "string \<Rightarrow> scope_error + ipnet" where
  "assigned_network raw = (let value = strip raw
     in checked_network raw (if CHR ''/'' \<in> set value then ip_interface_network value
          else single_network value))"

fun unique_cidrs :: "string list \<Rightarrow> proposed_network list \<Rightarrow> proposed_network list" where
  "unique_cidrs seen [] = []"
| "unique_cidrs seen (n # ns) = (if pn_cidr n \<in> set seen then unique_cidrs seen ns
     else n # unique_cidrs (pn_cidr n # seen) ns)"

definition proposal ::
  "string \<Rightarrow> proposal_source \<Rightarrow> proposed_network list \<Rightarrow> rejected_candidate list \<Rightarrow> scope_proposal" where
  "proposal interface src networks rejected =
     (let unique = unique_cidrs [] networks
      in \<lparr>sp_interface = interface, sp_source = src, sp_networks = unique,
          sp_canonical_targets = map pn_cidr unique,
          sp_assigned_addresses = map (the \<circ> pn_assigned) (filter (\<lambda>n. truthy (pn_assigned n)) unique),
          sp_vlan_ids = sort (remdups (List.map_filter pn_vlan_id unique)),
          sp_rejected = rejected\<rparr>)"

definition eligible_value ::
  "scope_settings \<Rightarrow> string \<Rightarrow> string \<Rightarrow> nat option \<Rightarrow> string \<Rightarrow> rejected_candidate + proposed_network" where
  "eligible_value s origin interface vlan value =
     (case assigned_network value of
        Inl e \<Rightarrow> Inl \<lparr>rc_value = value, rc_code = scope_code_value (se_code e)\<rparr>
      | Inr n \<Rightarrow>
          if is_loopback n \<or> is_link_local n
          then Inl \<lparr>rc_value = value, rc_code = ''not_global_unicast''\<rparr>
          else if \<not> active_allow_large_scopes s
                  \<and> int (num_addresses n) > proposal_limit s (net_version n)
          then Inl \<lparr>rc_value = value, rc_code = scope_code_value SC_LIMIT_EXCEEDED\<rparr>
          else Inr \<lparr>pn_cidr = display_value n, pn_origin = origin,
                 pn_assigned = (if origin = ''assigned'' then Some value else None),
                 pn_vlan_id = vlan, pn_interface = Some interface\<rparr>)"

text \<open>The networks found and the list of rejected candidates, extended.\<close>

fun eligible_networks ::
  "scope_settings \<Rightarrow> string \<Rightarrow> string \<Rightarrow> nat option \<Rightarrow> string list \<Rightarrow> rejected_candidate list
     \<Rightarrow> proposed_network list \<times> rejected_candidate list" where
  "eligible_networks s origin interface vlan [] rejected = ([], rejected)"
| "eligible_networks s origin interface vlan (raw # raws) rejected =
     (let value = strip raw
      in if value = [] then eligible_networks s origin interface vlan raws rejected
         else case eligible_value s origin interface vlan value of
             Inl r \<Rightarrow> eligible_networks s origin interface vlan raws (rejected @ [r])
           | Inr n \<Rightarrow> (case eligible_networks s origin interface vlan raws rejected of
               (found, rej) \<Rightarrow> (n # found, rej)))"

text \<open>\<^verbatim>\<open>int(suffix)\<close> raises on a digit that is not an ASCII digit.\<close>

definition vlan_id_for :: "string \<Rightarrow> string \<Rightarrow> exc + nat option" where
  "vlan_id_for parent child =
     (let name = hd (split_on CHR ''@'' child); pre = parent @ ''.''
      in if \<not> starts_with name pre then Inr None
         else let suffix = drop (length pre) name
              in if str_isdigit suffix
                 then if list_all is_ascii_digit suffix
                      then let n = from_base 10 suffix in if n \<le> 4095 then Inr (Some n) else Inr None
                      else Inl (ValueError (''invalid literal for int() with base 10: '' @ suffix))
                 else Inr None)"

definition route_destination :: "route \<Rightarrow> string option" where
  "route_destination r = (case rt_dst r of None \<Rightarrow> None
     | Some d \<Rightarrow> if d \<in> {[], ''default'', ''unspecified'', ''0.0.0.0/0'', ''::/0''} then None else Some d)"

definition or_empty :: "'a list option \<Rightarrow> 'a list" where
  "or_empty x = (case x of None \<Rightarrow> [] | Some v \<Rightarrow> v)"

definition dict_extend :: "string \<Rightarrow> 'v list \<Rightarrow> (string \<times> 'v list) list \<Rightarrow> (string \<times> 'v list) list" where
  "dict_extend k vs d = dict_set k ((case map_of d k of None \<Rightarrow> [] | Some ws \<Rightarrow> ws) @ vs) d"

fun vlan_networks ::
  "scope_settings \<Rightarrow> string \<Rightarrow> peer list \<Rightarrow> (string \<times> proposed_network list) list \<Rightarrow> rejected_candidate list
     \<Rightarrow> exc + (string \<times> proposed_network list) list \<times> rejected_candidate list" where
  "vlan_networks s interface [] found rejected = Inr (found, rejected)"
| "vlan_networks s interface (p # ps) found rejected =
     (let name = or_empty (peer_name p)
      in rbind (vlan_id_for interface name) (\<lambda>vlan. case vlan of
           None \<Rightarrow> vlan_networks s interface ps found rejected
         | Some v \<Rightarrow>
             (case eligible_networks s ''vlan'' name (Some v) (or_empty (peer_ipv4 p) @ or_empty (peer_ipv6 p))
                     rejected of
                (ns, rej) \<Rightarrow> vlan_networks s interface ps
                  (if ns \<noteq> [] then dict_extend name ns found else found) rej)))"

fun route_networks ::
  "scope_settings \<Rightarrow> string \<Rightarrow> route list \<Rightarrow> rejected_candidate list
     \<Rightarrow> proposed_network list \<times> rejected_candidate list" where
  "route_networks s interface [] rejected = ([], rejected)"
| "route_networks s interface (r # rs) rejected =
     (if or_empty (rt_dev r) \<noteq> interface \<or> truthy (rt_gateway r) then route_networks s interface rs rejected
      else case route_destination r of None \<Rightarrow> route_networks s interface rs rejected
        | Some d \<Rightarrow> (case eligible_networks s ''route'' interface None [d] rejected of
            (ns, rej) \<Rightarrow> (case route_networks s interface rs rej of (ms, rej') \<Rightarrow> (ns @ ms, rej'))))"

definition propose ::
  "scope_settings \<Rightarrow> string \<Rightarrow> string list \<Rightarrow> peer list \<Rightarrow> route list \<Rightarrow> exc + scope_proposal" where
  "propose s interface assigned peers routes =
     (case eligible_networks s ''assigned'' interface None assigned [] of (selected, rej) \<Rightarrow>
        if selected \<noteq> [] then Inr (proposal interface PS_INTERFACE_PREFIX selected rej)
        else rbind (vlan_networks s interface peers [] rej) (\<lambda>(found, rej').
          case found of
            (chosen, ns) # _ \<Rightarrow> Inr (proposal chosen PS_VLAN_HINTS ns rej')
          | [] \<Rightarrow> (case route_networks s interface routes rej' of (rs, rej'') \<Rightarrow>
              if rs \<noteq> [] then Inr (proposal interface PS_ROUTE_HINTS rs rej'')
              else Inr (proposal interface PS_EMPTY [] rej''))))"

definition expand_connected_network_targets :: "string list \<Rightarrow> string list \<Rightarrow> string list" where
  "expand_connected_network_targets targets assigned =
     (let networks = List.map_filter ip_interface_network assigned
      in List.map_filter (\<lambda>raw. let value = strip raw
           in if value = [] then None
              else if CHR ''/'' \<in> set value then Some value
              else case ip_address value of None \<Rightarrow> Some value
                | Some a \<Rightarrow> (case find (\<lambda>n. net_address n = a) networks of
                    None \<Rightarrow> Some value | Some n \<Rightarrow> Some (net_str n))) targets)"

end
