(* ===== verification/Inventory_Models.thy ===== *)
theory Inventory_Models
  imports Scope
begin

text \<open>
  The record types the inventory, the protocol audits and the findings share:
  \<^verbatim>\<open>inventory/models.py\<close> and the confidence levels of \<^verbatim>\<open>engine/passive_models.py\<close>. Times are integers as in
  the job store.
\<close>

datatype confidence_level = CL_CONFIRMED | CL_HIGH | CL_MEDIUM | CL_LOW | CL_HINT | CL_UNKNOWN

fun confidence_value :: "confidence_level \<Rightarrow> string" where
  "confidence_value CL_CONFIRMED = ''confirmed''"
| "confidence_value CL_HIGH = ''high''"
| "confidence_value CL_MEDIUM = ''medium''"
| "confidence_value CL_LOW = ''low''"
| "confidence_value CL_HINT = ''hint''"
| "confidence_value CL_UNKNOWN = ''unknown''"

datatype asset_state = AST_OBSERVED | AST_RESPONSIVE | AST_UNRESPONSIVE | AST_UNKNOWN

datatype device_class_hint = DC_SERVER | DC_WORKSTATION | DC_NETWORK_DEVICE | DC_PRINTER | DC_IOT | DC_UNKNOWN

record confirmed_scope =
  cs_id :: string
  cs_audit_id :: string
  cs_created_at :: int
  cs_activated_at :: "int option"
  cs_profile :: active_profile
  cs_interface :: string
  cs_targets :: "string list"
  cs_address_families :: "nat list"
  cs_address_count :: int
  cs_route_context :: json_obj
  cs_timing_policy :: string
  cs_actor :: "string option"
  cs_snapshot_hash :: string

record address_record =
  ar_id :: string
  ar_asset_id :: string
  ar_address :: string
  ar_family :: nat
  ar_is_primary :: bool
  ar_first_seen :: int
  ar_last_seen :: int
  ar_source :: string
  ar_confidence :: confidence_level

record name_record =
  nr_id :: string
  nr_asset_id :: string
  nr_name :: string
  nr_name_type :: string
  nr_source :: string
  nr_confidence :: confidence_level
  nr_first_seen :: int
  nr_last_seen :: int

record service_record =
  sr_id :: string
  sr_audit_id :: string
  sr_asset_id :: string
  sr_protocol :: string
  sr_port :: int
  sr_state :: string
  sr_reason :: "string option"
  sr_service_name :: "string option"
  sr_product :: "string option"
  sr_version :: "string option"
  sr_extra_info :: "string option"
  sr_tunnel :: "string option"
  sr_cpe :: "string list"
  sr_banner :: "string option"
  sr_method :: "string option"
  sr_confidence :: confidence_level
  sr_source :: string
  sr_first_seen :: int
  sr_last_seen :: int

record asset_record =
  as_id :: string
  as_audit_id :: string
  as_state :: asset_state
  as_mac :: "string option"
  as_vendor :: "string option"
  as_vendor_source :: "string option"
  as_vendor_database_version :: "string option"
  as_device_class_hint :: device_class_hint
  as_device_class_confidence :: confidence_level
  as_os_family :: "string option"
  as_os_name :: "string option"
  as_os_generation :: "string option"
  as_os_accuracy :: "int option"
  as_first_seen :: int
  as_last_seen :: int
  as_metadata :: json_obj
  as_addresses :: "address_record list"
  as_names :: "name_record list"
  as_services :: "service_record list"

text \<open>\<^verbatim>\<open>(value or "")\<close> of an optional string.\<close>

definition or_str :: "string option \<Rightarrow> string" where
  "or_str s = (case s of None \<Rightarrow> [] | Some v \<Rightarrow> v)"

end
