(* ===== verification/Py_Value.thy ===== *)
theory Py_Value
  imports Py_String
begin

text \<open>
  Python's view of a JSON value: truth, \<^verbatim>\<open>dict.get\<close>, \<^verbatim>\<open>str\<close> and \<^verbatim>\<open>repr\<close>, \<^verbatim>\<open>int\<close>, and the text
  \<^verbatim>\<open>json.dumps\<close> prints with sorted keys and compact separators, with its length in UTF-8 bytes.
\<close>

section \<open>Numbers\<close>

definition int_str :: "int \<Rightarrow> string" where
  "int_str i = (if i < 0 then CHR ''-'' # dec (nat (- i)) else dec (nat i))"

text \<open>Digits with single underscores between them, as \<^verbatim>\<open>int\<close> reads them.\<close>

fun int_digits :: "bool \<Rightarrow> nat \<Rightarrow> string \<Rightarrow> nat option" where
  "int_digits after_digit acc [] = (if after_digit then Some acc else None)"
| "int_digits after_digit acc (c # s) =
     (if is_ascii_digit c then int_digits True (acc * 10 + (code c - 48)) s
      else if c = CHR ''_'' \<and> after_digit \<and> s \<noteq> [] then int_digits False acc s else None)"

definition py_int_of_str :: "string \<Rightarrow> int option" where
  "py_int_of_str t = (let s = strip t in
     case s of [] \<Rightarrow> None
     | c # r \<Rightarrow> if c = CHR ''-'' then map_option (\<lambda>n. - int n) (int_digits False 0 r)
              else if c = CHR ''+'' then map_option int (int_digits False 0 r)
              else map_option int (int_digits False 0 s))"

section \<open>Truth and lookup\<close>

fun json_truthy :: "json \<Rightarrow> bool" where
  "json_truthy JNull = False"
| "json_truthy (JBool b) = b"
| "json_truthy (JInt i) = (i \<noteq> 0)"
| "json_truthy (JFloat t) = (t \<notin> {''0.0'', ''-0.0''})"
| "json_truthy (JStr s) = (s \<noteq> [])"
| "json_truthy (JList xs) = (xs \<noteq> [])"
| "json_truthy (JObj d) = (d \<noteq> [])"

definition jget :: "json_obj \<Rightarrow> string \<Rightarrow> json" where
  "jget d k = (case map_of d k of None \<Rightarrow> JNull | Some v \<Rightarrow> v)"

definition jor :: "json \<Rightarrow> json \<Rightarrow> json" where
  "jor a b = (if json_truthy a then a else b)"

section \<open>\<^verbatim>\<open>str\<close> and \<^verbatim>\<open>repr\<close>\<close>

definition hex2 :: "nat \<Rightarrow> string" where
  "hex2 n = (if n < 16 then ''0'' else []) @ hex n"

lemma hex_pair:
  assumes "n < 256"
  shows "hex2 n = [digit_char (n div 16), digit_char (n mod 16)]"
proof (cases "n < 16")
  case True
  moreover have "digit_char 0 = CHR ''0''" by code_simp
  ultimately show ?thesis by (simp add: hex2_def hex_def digits.simps)
next
  case False
  then have "n div 16 < 16" "n div 16 \<noteq> 0" using assms by simp_all
  with False show ?thesis by (simp add: hex2_def hex_def digits.simps)
qed

definition repr_char :: "char \<Rightarrow> char \<Rightarrow> string" where
  "repr_char q c =
     (if c = q \<or> code c = 92 then [char_of (92 :: nat), c]
      else if code c = 10 then [char_of (92 :: nat), CHR ''n'']
      else if code c = 13 then [char_of (92 :: nat), CHR ''r'']
      else if code c = 9 then [char_of (92 :: nat), CHR ''t'']
      else if code c < 32 \<or> 127 \<le> code c \<and> code c \<le> 160 \<or> code c = 173
      then [char_of (92 :: nat), CHR ''x''] @ hex2 (code c)
      else [c])"

definition repr_str :: "string \<Rightarrow> string" where
  "repr_str s = (let q = (if char_of (39 :: nat) \<in> set s \<and> char_of (34 :: nat) \<notin> set s
                           then char_of (34 :: nat) else char_of (39 :: nat))
     in q # concat (map (repr_char q) s) @ [q])"

lemma json_list_size [termination_simp]: "x \<in> set xs \<Longrightarrow> size x < Suc (size_list size (xs :: json list))"
  by (induction xs) auto

lemma size_prod_snd: "size_prod (\<lambda>_. 0) size = (\<lambda>x :: string \<times> json. Suc (size (snd x)))"
  by (simp add: fun_eq_iff)

lemma json_obj_size [termination_simp]:
  fixes p :: "string \<times> json"
  shows "p \<in> set d \<Longrightarrow> size (snd p) < Suc (size_list (size_prod (\<lambda>_. 0) size) d)"
  unfolding size_prod_snd by (induction d) auto

fun py_repr :: "json \<Rightarrow> string" where
  "py_repr JNull = ''None''"
| "py_repr (JBool b) = (if b then ''True'' else ''False'')"
| "py_repr (JInt i) = int_str i"
| "py_repr (JFloat t) = t"
| "py_repr (JStr s) = repr_str s"
| "py_repr (JList xs) = ''['' @ join_on '', '' (map py_repr xs) @ '']''"
| "py_repr (JObj d) = ''{'' @ join_on '', '' (map (\<lambda>p. repr_str (fst p) @ '': '' @ py_repr (snd p)) d) @ ''}''"

definition py_str :: "json \<Rightarrow> string" where
  "py_str v = (case v of JStr s \<Rightarrow> s | _ \<Rightarrow> py_repr v)"

section \<open>\<^verbatim>\<open>json.dumps\<close>\<close>

definition json_char :: "char \<Rightarrow> string" where
  "json_char c =
     (if code c = 34 \<or> code c = 92 then [char_of (92 :: nat), c]
      else if code c = 10 then [char_of (92 :: nat), CHR ''n'']
      else if code c = 13 then [char_of (92 :: nat), CHR ''r'']
      else if code c = 9 then [char_of (92 :: nat), CHR ''t'']
      else if code c = 12 then [char_of (92 :: nat), CHR ''f'']
      else if code c = 8 then [char_of (92 :: nat), CHR ''b'']
      else if code c < 32 then [char_of (92 :: nat)] @ ''u00'' @ hex2 (code c)
      else [c])"

definition json_quote :: "string \<Rightarrow> string" where
  "json_quote s = char_of (34 :: nat) # concat (map json_char s) @ [char_of (34 :: nat)]"

fun json_dumps :: "json \<Rightarrow> string" where
  "json_dumps JNull = ''null''"
| "json_dumps (JBool b) = (if b then ''true'' else ''false'')"
| "json_dumps (JInt i) = int_str i"
| "json_dumps (JFloat t) = t"
| "json_dumps (JStr s) = json_quote s"
| "json_dumps (JList xs) = ''['' @ join_on '','' (map json_dumps xs) @ '']''"
| "json_dumps (JObj d) = ''{'' @ join_on '',''
     (map snd (sort_key fst (map (\<lambda>p. (fst p, json_quote (fst p) @ '':'' @ json_dumps (snd p))) d))) @ ''}''"

text \<open>A code point from 128 to 255 takes two bytes.\<close>

definition utf8_length :: "string \<Rightarrow> nat" where
  "utf8_length s = sum_list (map (\<lambda>c. if code c < 128 then 1 else 2) s)"

lemma utf8_length_ge: "length s \<le> utf8_length s"
  by (induction s) (auto simp: utf8_length_def)

lemma utf8_length_append [simp]: "utf8_length (s @ t) = utf8_length s + utf8_length t"
  by (simp add: utf8_length_def)

lemma length_concat_ge: "(\<And>x. x \<in> set xs \<Longrightarrow> 1 \<le> length (f x)) \<Longrightarrow> length xs \<le> length (concat (map f xs))"
proof (induction xs)
  case (Cons x xs)
  have "1 \<le> length (f x)" using Cons.prems by simp
  moreover have "length xs \<le> length (concat (map f xs))" using Cons by simp
  ultimately show ?case by simp
qed simp

lemma json_quote_ge: "length s < length (json_quote s)"
proof -
  have "length s \<le> length (concat (map json_char s))" by (rule length_concat_ge) (simp add: json_char_def)
  then show ?thesis by (simp add: json_quote_def)
qed

lemma length_join_on_mem: "w \<in> set ws \<Longrightarrow> length w \<le> length (join_on sep ws)"
  by (induction sep ws rule: join_on.induct) auto

text \<open>A string inside a value is not longer than the printed value.\<close>

lemma json_dumps_list_ge: "x \<in> set xs \<Longrightarrow> length (json_dumps x) < length (json_dumps (JList xs))"
  using length_join_on_mem [of "json_dumps x" "map json_dumps xs" "'',''"] by simp

lemma json_dumps_obj_ge:
  assumes "p \<in> set d"
  shows "length (fst p) + length (json_dumps (snd p)) < length (json_dumps (JObj d))"
proof -
  let ?w = "json_quote (fst p) @ '':'' @ json_dumps (snd p)"
  have "?w \<in> set (map snd (sort_key fst (map (\<lambda>p. (fst p, json_quote (fst p) @ '':'' @ json_dumps (snd p))) d)))"
    using assms by (force simp: image_iff)
  then have "length ?w \<le> length (join_on '','' (map snd (sort_key fst
      (map (\<lambda>p. (fst p, json_quote (fst p) @ '':'' @ json_dumps (snd p))) d))))"
    by (rule length_join_on_mem)
  then show ?thesis using json_quote_ge [of "fst p"] by simp
qed

end
