(* ===== verification/Protocol_Targets.thy ===== *)
theory Protocol_Targets
  imports Inventory_Models Py_Value
begin

text \<open>
  Which service of which asset a protocol module may probe, and at which address:
  \<^verbatim>\<open>protocol_audits/targets.py\<close>, \<^verbatim>\<open>matching.py\<close>, \<^verbatim>\<open>registry.py\<close>, the predicates of \<^verbatim>\<open>models.py\<close>, and the
  module classes of \<^verbatim>\<open>modules/\<close> with the argument vectors they build. The parsers of tool output are
  parameters. Timeouts are whole seconds, as the settings and the classes give them.
\<close>

section \<open>Errors\<close>

datatype pa_error = PA_ValueError string | PA_RuntimeError string | PA_LookupError string
  | PA_JobCancelled string | PA_IntegrityError

section \<open>Addresses and host names\<close>

definition parsed_address :: "string \<Rightarrow> pa_error + ipaddr" where
  "parsed_address s = (case ip_address s of None \<Rightarrow> Inl (PA_ValueError s) | Some a \<Rightarrow> Inr a)"

definition canonical_host :: "string \<Rightarrow> pa_error + string" where
  "canonical_host address = rbind (parsed_address (strip address)) (\<lambda>a. Inr (ip_str a))"

definition bracket_host :: "string \<Rightarrow> pa_error + string" where
  "bracket_host address =
     rbind (canonical_host address) (\<lambda>h. rbind (parsed_address h) (\<lambda>a.
       Inr (if ip_version a = 6 then ''['' @ ip_str a @ '']'' else ip_str a)))"

definition connect_endpoint :: "string \<Rightarrow> int \<Rightarrow> pa_error + string" where
  "connect_endpoint address port =
     (if \<not> (0 \<le> port \<and> port \<le> 65535) then Inl (PA_ValueError ''port is out of range'')
      else rbind (bracket_host address) (\<lambda>h. Inr (h @ '':'' @ int_str port)))"

definition is_alnum :: "char \<Rightarrow> bool" where
  "is_alnum c \<longleftrightarrow> is_ascii_digit c \<or> 65 \<le> code c \<and> code c \<le> 90 \<or> 97 \<le> code c \<and> code c \<le> 122"

text \<open>One label of the host name pattern.\<close>

definition valid_label :: "string \<Rightarrow> bool" where
  "valid_label l \<longleftrightarrow> l \<noteq> [] \<and> length l \<le> 63 \<and> is_alnum (hd l) \<and> is_alnum (last l)
     \<and> list_all (\<lambda>c. is_alnum c \<or> c = CHR ''-'') l"

definition hostname_matches :: "string \<Rightarrow> bool" where
  "hostname_matches s \<longleftrightarrow> 1 \<le> length s \<and> length s \<le> 253 \<and> list_all valid_label (split_on CHR ''.'' s)"

definition safe_hostname :: "string option \<Rightarrow> string option" where
  "safe_hostname value =
     (if \<not> truthy value then None
      else let candidate = rstrip_dots (strip (the value))
           in if candidate = [] \<or> hd candidate = CHR ''-'' then None
              else if list_ex (\<lambda>c. code c \<in> {47, 92, 32, 9, 10, 58}) candidate then None
              else if \<not> hostname_matches candidate then None else Some candidate)"

fun any_target :: "ipaddr \<Rightarrow> string list \<Rightarrow> pa_error + bool" where
  "any_target a [] = Inr False"
| "any_target a (t # ts) = (case ip_network False t of
     None \<Rightarrow> Inl (PA_ValueError t)
   | Some n \<Rightarrow> if ip_version a = net_version n \<and> in_network a n then Inr True else any_target a ts)"

definition address_in_scope :: "string \<Rightarrow> confirmed_scope \<Rightarrow> pa_error + bool" where
  "address_in_scope address scope =
     rbind (canonical_host address) (\<lambda>h. rbind (parsed_address h) (\<lambda>a. any_target a (cs_targets scope)))"

fun in_scope_addresses :: "address_record list \<Rightarrow> confirmed_scope \<Rightarrow> pa_error + string list" where
  "in_scope_addresses [] scope = Inr []"
| "in_scope_addresses (r # rs) scope =
     rbind (address_in_scope (ar_address r) scope) (\<lambda>b. rbind (in_scope_addresses rs scope) (\<lambda>as.
       Inr (if b then ar_address r # as else as)))"

definition select_probe_address :: "asset_record \<Rightarrow> confirmed_scope \<Rightarrow> pa_error + string option" where
  "select_probe_address asset scope =
     rbind (in_scope_addresses (as_addresses asset) scope) (\<lambda>in_scope.
       if in_scope = [] then Inr None
       else let ipv4 = filter (\<lambda>s. CHR '':'' \<notin> set s) in_scope;
                preferred = (if ipv4 \<noteq> [] then ipv4 else in_scope)
            in case find (\<lambda>r. ar_is_primary r \<and> ar_address r \<in> set preferred) (as_addresses asset) of
                 Some r \<Rightarrow> rbind (canonical_host (ar_address r)) (\<lambda>h. Inr (Some h))
               | None \<Rightarrow> rbind (canonical_host (hd preferred)) (\<lambda>h. Inr (Some h)))"

definition select_hostname :: "asset_record \<Rightarrow> string option" where
  "select_hostname asset =
     (let ranked = sort_key (\<lambda>r. (if lower (nr_name_type r) = ''ptr'' then 0 else 1 :: nat, nr_source r, nr_name r))
                     (as_names asset)
      in case List.map_filter (\<lambda>r. safe_hostname (Some (nr_name r))) ranked of [] \<Rightarrow> None | h # _ \<Rightarrow> Some h)"

definition OPEN_STATES :: "string list" where
  "OPEN_STATES = [''open'', ''open|filtered'']"

definition is_open_service :: "service_record \<Rightarrow> bool" where
  "is_open_service s \<longleftrightarrow> lower (sr_state s) \<in> set OPEN_STATES"

definition scheme_hint :: "service_record \<Rightarrow> string option" where
  "scheme_hint s =
     (let name = lower (or_str (sr_service_name s)); tunnel = lower (or_str (sr_tunnel s))
      in if sr_port s \<in> {443, 8443, 636, 993, 995, 465, 990}
            \<or> name \<in> {''https'', ''ssl'', ''tls'', ''ldaps'', ''imaps'', ''pop3s'', ''smtps''}
            \<or> tunnel \<in> {''ssl'', ''tls''}
         then Some ''tls''
         else if sr_port s \<in> {80, 8000, 8008, 8080, 8888} \<or> name \<in> {''http'', ''http-proxy''}
         then Some ''http'' else None)"

record probe_target =
  pt_asset :: asset_record
  pt_service :: service_record
  pt_address :: string
  pt_port :: int
  pt_hostname :: "string option"
  pt_scheme_hint :: "string option"

definition build_probe_target ::
  "asset_record \<Rightarrow> service_record \<Rightarrow> confirmed_scope \<Rightarrow> pa_error + probe_target option" where
  "build_probe_target asset service scope =
     (if \<not> is_open_service service then Inr None
      else rbind (select_probe_address asset scope) (\<lambda>address. case address of None \<Rightarrow> Inr None
        | Some a \<Rightarrow> Inr (Some \<lparr>pt_asset = asset, pt_service = service, pt_address = a,
            pt_port = sr_port service, pt_hostname = select_hostname asset,
            pt_scheme_hint = scheme_hint service\<rparr>)))"

section \<open>Modules\<close>

datatype safety_class = SAFE | GATED | NEVER_DEFAULT

record service_predicate =
  sp_ports :: "int list"
  sp_protocols :: "string list"
  sp_service_names :: "string list"
  sp_products :: "string list"
  sp_tunnels :: "string list"

definition predicate_matches :: "service_predicate \<Rightarrow> service_record \<Rightarrow> bool" where
  "predicate_matches p s =
     (if lower (sr_protocol s) \<notin> set (map lower (sp_protocols p)) then False
      else let name = lower (or_str (sr_service_name s));
               parts = map the (filter truthy [sr_product s, sr_extra_info s, sr_banner s]);
               haystack = lower (join_on '' '' parts);
               tunnel = lower (or_str (sr_tunnel s));
               checks =
                 (if sp_ports p \<noteq> [] then [sr_port s \<in> set (sp_ports p)] else [])
                 @ (if sp_service_names p \<noteq> []
                    then [list_ex (\<lambda>t. lower t = name \<or> contains_str name (lower t)) (sp_service_names p)] else [])
                 @ (if sp_products p \<noteq> []
                    then [list_ex (\<lambda>t. contains_str haystack (lower t)) (sp_products p)] else [])
                 @ (if sp_tunnels p \<noteq> [] then [list_ex (\<lambda>t. lower t = tunnel) (sp_tunnels p)] else [])
           in list_ex id checks)"

record tool_command =
  tc_tool :: string
  tc_args :: "string list"
  tc_timeout :: int
  tc_environment :: "(string \<times> string) list"

record protocol_settings =
  ps_timeout :: int
  ps_ssh_audit_binary :: string
  ps_openssl_binary :: string
  ps_curl_binary :: string
  ps_dig_binary :: string
  ps_smbclient_binary :: string
  ps_snmpget_binary :: string
  ps_ldapsearch_binary :: string

definition settings_timeout :: "protocol_settings \<Rightarrow> int \<Rightarrow> int" where
  "settings_timeout s t = (if ps_timeout s \<noteq> 0 then min (ps_timeout s) t else t)"

record protocol_module =
  pm_name :: string
  pm_protocol :: string
  pm_safety :: safety_class
  pm_required_tool :: string
  pm_min_version :: "string option"
  pm_timeout_seconds :: int
  pm_version_args :: "string list"
  pm_predicates :: "service_predicate list"
  pm_tool_name :: "protocol_settings \<Rightarrow> string"
  pm_build_commands :: "probe_target \<Rightarrow> protocol_settings \<Rightarrow> pa_error + tool_command list"

definition module_matches :: "protocol_module \<Rightarrow> service_record \<Rightarrow> bool" where
  "module_matches m s = list_ex (\<lambda>p. predicate_matches p s) (pm_predicates m)"

definition tcp_predicate :: "int list \<Rightarrow> string list \<Rightarrow> service_predicate" where
  "tcp_predicate ports names = \<lparr>sp_ports = ports, sp_protocols = [''tcp''], sp_service_names = names,
     sp_products = [], sp_tunnels = []\<rparr>"

definition lc_command :: "string \<Rightarrow> string list \<Rightarrow> int \<Rightarrow> tool_command" where
  "lc_command tool args timeout = \<lparr>tc_tool = tool, tc_args = args, tc_timeout = timeout,
     tc_environment = [(''LC_ALL'', ''C'')]\<rparr>"

definition ssh_commands :: "probe_target \<Rightarrow> protocol_settings \<Rightarrow> pa_error + tool_command list" where
  "ssh_commands t s = rbind (canonical_host (pt_address t)) (\<lambda>host.
     Inr [lc_command (ps_ssh_audit_binary s) [''-n'', ''-p'', int_str (pt_port t), host] (settings_timeout s 20)])"

definition SshModule :: protocol_module where
  "SshModule = \<lparr>pm_name = ''ssh'', pm_protocol = ''ssh'', pm_safety = SAFE, pm_required_tool = ''ssh-audit'',
     pm_min_version = Some ''2.0'', pm_timeout_seconds = 20, pm_version_args = [''--version''],
     pm_predicates = [(tcp_predicate [22] [''ssh''])\<lparr>sp_products := [''openssh'', ''dropbear'']\<rparr>],
     pm_tool_name = ps_ssh_audit_binary, pm_build_commands = ssh_commands\<rparr>"

definition tls_commands :: "probe_target \<Rightarrow> protocol_settings \<Rightarrow> pa_error + tool_command list" where
  "tls_commands t s = rbind (connect_endpoint (pt_address t) (pt_port t)) (\<lambda>endpoint.
     rbind (case safe_hostname (pt_hostname t) of Some h \<Rightarrow> Inr h | None \<Rightarrow> canonical_host (pt_address t)) (\<lambda>name.
       Inr [lc_command (ps_openssl_binary s) [''s_client'', ''-connect'', endpoint, ''-servername'', name]
              (settings_timeout s 20)]))"

definition TlsModule :: protocol_module where
  "TlsModule = \<lparr>pm_name = ''tls'', pm_protocol = ''tls'', pm_safety = SAFE, pm_required_tool = ''openssl'',
     pm_min_version = None, pm_timeout_seconds = 20, pm_version_args = [''version''],
     pm_predicates = [(tcp_predicate [443, 636, 993, 995, 465, 990, 8443]
       [''https'', ''ssl'', ''tls'', ''imaps'', ''pop3s'', ''smtps'', ''ldaps''])\<lparr>sp_tunnels := [''ssl'', ''tls'']\<rparr>],
     pm_tool_name = ps_openssl_binary, pm_build_commands = tls_commands\<rparr>"

definition http_uses_tls :: "probe_target \<Rightarrow> bool" where
  "http_uses_tls t = (if pt_scheme_hint t = Some ''tls'' then True
     else pt_port t \<in> {443, 8443} \<or> lower (or_str (sr_service_name (pt_service t))) = ''https''
       \<or> lower (or_str (sr_tunnel (pt_service t))) \<in> {''ssl'', ''tls''})"

definition http_commands :: "probe_target \<Rightarrow> protocol_settings \<Rightarrow> pa_error + tool_command list" where
  "http_commands t s = rbind (bracket_host (pt_address t)) (\<lambda>host.
     let scheme = (if http_uses_tls t then ''https'' else ''http'');
         url = scheme @ ''://'' @ host @ '':'' @ int_str (pt_port t) @ ''/'';
         args = [''--silent'', ''--show-error'', ''--include'', ''--max-time'', dec (nat (settings_timeout s 15)),
                 ''--max-redirs'', ''0'', ''--max-filesize'', ''65536'', ''--path-as-is'', ''--user-agent'',
                 ''WireScope/0.1'']
     in Inr [lc_command (ps_curl_binary s)
               (args @ (if scheme = ''https'' then [''--insecure''] else []) @ [url])
               (settings_timeout s 15 + 2)])"

definition HttpModule :: protocol_module where
  "HttpModule = \<lparr>pm_name = ''http'', pm_protocol = ''http'', pm_safety = SAFE, pm_required_tool = ''curl'',
     pm_min_version = None, pm_timeout_seconds = 15, pm_version_args = [''--version''],
     pm_predicates = [tcp_predicate [80, 81, 8000, 8008, 8080, 8081, 8888, 3000, 443, 8443]
       [''http'', ''http-proxy'', ''https'', ''http-alt'']],
     pm_tool_name = ps_curl_binary, pm_build_commands = http_commands\<rparr>"

definition dns_commands :: "probe_target \<Rightarrow> protocol_settings \<Rightarrow> pa_error + tool_command list" where
  "dns_commands t s = rbind (canonical_host (pt_address t)) (\<lambda>host.
     let timeout = max 1 (settings_timeout s 12 div 2);
         common = [''@'' @ host, ''+time='' @ dec (nat timeout), ''+tries=1'', ''+norecurse'', ''+noall'', ''+answer'',
                   ''+comments'']
           @ (if lower (sr_protocol (pt_service t)) = ''tcp'' then [''+tcp''] else [])
     in Inr [lc_command (ps_dig_binary s) (common @ [''version.bind'', ''CH'', ''TXT'']) (settings_timeout s 12),
             lc_command (ps_dig_binary s) (common @ [''id.server'', ''CH'', ''TXT'']) (settings_timeout s 12)])"

definition DnsModule :: protocol_module where
  "DnsModule = \<lparr>pm_name = ''dns'', pm_protocol = ''dns'', pm_safety = SAFE, pm_required_tool = ''dig'',
     pm_min_version = None, pm_timeout_seconds = 12, pm_version_args = [''-v''],
     pm_predicates = [(tcp_predicate [53] [''domain'', ''dns''])\<lparr>sp_protocols := [''udp'']\<rparr>,
       tcp_predicate [53] [''domain'', ''dns'']],
     pm_tool_name = ps_dig_binary, pm_build_commands = dns_commands\<rparr>"

definition smb_commands :: "probe_target \<Rightarrow> protocol_settings \<Rightarrow> pa_error + tool_command list" where
  "smb_commands t s = rbind (canonical_host (pt_address t)) (\<lambda>host. rbind (bracket_host host) (\<lambda>b.
     Inr [lc_command (ps_smbclient_binary s) [''-N'', ''-L'', ''//'' @ b, ''-p'', int_str (pt_port t), ''-m'', ''SMB3'']
            (settings_timeout s 15)]))"

definition SmbModule :: protocol_module where
  "SmbModule = \<lparr>pm_name = ''smb'', pm_protocol = ''smb'', pm_safety = SAFE, pm_required_tool = ''smbclient'',
     pm_min_version = None, pm_timeout_seconds = 15, pm_version_args = [''-V''],
     pm_predicates = [tcp_predicate [139, 445] [''microsoft-ds'', ''netbios-ssn'', ''smb'']],
     pm_tool_name = ps_smbclient_binary, pm_build_commands = smb_commands\<rparr>"

definition snmp_commands :: "probe_target \<Rightarrow> protocol_settings \<Rightarrow> pa_error + tool_command list" where
  "snmp_commands t s = rbind (canonical_host (pt_address t)) (\<lambda>host.
     Inr [lc_command (ps_snmpget_binary s) [''-v3'', ''-l'', ''noAuthNoPriv'', ''-u'', ''wirescope-unauth'', ''-t'', ''2'',
            ''-r'', ''0'', host, ''1.3.6.1.2.1.1.1.0''] (settings_timeout s 8)])"

definition SnmpModule :: protocol_module where
  "SnmpModule = \<lparr>pm_name = ''snmp'', pm_protocol = ''snmp'', pm_safety = SAFE, pm_required_tool = ''snmpget'',
     pm_min_version = None, pm_timeout_seconds = 8, pm_version_args = [''-V''],
     pm_predicates = [(tcp_predicate [161] [''snmp''])\<lparr>sp_protocols := [''udp'']\<rparr>],
     pm_tool_name = ps_snmpget_binary, pm_build_commands = snmp_commands\<rparr>"

definition ldap_uses_tls :: "probe_target \<Rightarrow> bool" where
  "ldap_uses_tls t = (pt_port t = 636 \<or> lower (or_str (sr_service_name (pt_service t))) \<in> {''ldaps'', ''ldapssl''}
     \<or> lower (or_str (sr_tunnel (pt_service t))) \<in> {''ssl'', ''tls''})"

definition ldap_commands :: "probe_target \<Rightarrow> protocol_settings \<Rightarrow> pa_error + tool_command list" where
  "ldap_commands t s = rbind (bracket_host (pt_address t)) (\<lambda>host.
     let scheme = (if ldap_uses_tls t then ''ldaps'' else ''ldap'');
         uri = scheme @ ''://'' @ host @ '':'' @ int_str (pt_port t);
         args = [''-x'', ''-LLL'', ''-H'', uri, ''-s'', ''base'', ''-b'', '''', ''-l'', ''8'', ''namingContexts'',
                 ''defaultNamingContext'', ''dnsHostName'', ''ldapServiceName'', ''supportedLDAPVersion'']
     in Inr [lc_command (ps_ldapsearch_binary s)
               (args @ (if scheme = ''ldaps'' then [''-o'', ''tls_reqcert=allow''] else []))
               (settings_timeout s 12)])"

definition LdapModule :: protocol_module where
  "LdapModule = \<lparr>pm_name = ''ldap'', pm_protocol = ''ldap'', pm_safety = SAFE, pm_required_tool = ''ldapsearch'',
     pm_min_version = None, pm_timeout_seconds = 12, pm_version_args = [''-VV''],
     pm_predicates = [tcp_predicate [389] [''ldap''], tcp_predicate [636] [''ldaps'', ''ldapssl'']],
     pm_tool_name = ps_ldapsearch_binary, pm_build_commands = ldap_commands\<rparr>"

definition GatedModule :: "string \<Rightarrow> string \<Rightarrow> string \<Rightarrow> protocol_module" where
  "GatedModule name protocol tool = \<lparr>pm_name = name, pm_protocol = protocol, pm_safety = NEVER_DEFAULT,
     pm_required_tool = tool, pm_min_version = None, pm_timeout_seconds = 1, pm_version_args = [''--version''],
     pm_predicates = [], pm_tool_name = (\<lambda>_. tool),
     pm_build_commands = (\<lambda>_ _. Inl (PA_RuntimeError (name @ '' is gated off and cannot build commands'')))\<rparr>"

definition TestsslModule :: protocol_module where
  "TestsslModule = GatedModule ''testssl'' ''tls'' ''testssl.sh''"

definition NiktoModule :: protocol_module where
  "NiktoModule = GatedModule ''nikto'' ''http'' ''nikto''"

definition NucleiModule :: protocol_module where
  "NucleiModule = GatedModule ''nuclei'' ''http'' ''nuclei''"

section \<open>Registry\<close>

record module_registry =
  mr_modules :: "(string \<times> protocol_module) list"
  mr_gated :: "(string \<times> protocol_module) list"

definition register_module :: "protocol_module \<Rightarrow> module_registry \<Rightarrow> pa_error + module_registry" where
  "register_module m r =
     (if pm_name m \<in> fst ` set (mr_modules r) \<or> pm_name m \<in> fst ` set (mr_gated r)
      then Inl (PA_ValueError (''Module already registered: '' @ pm_name m))
      else if pm_safety m = NEVER_DEFAULT then Inr (r\<lparr>mr_gated := mr_gated r @ [(pm_name m, m)]\<rparr>)
      else Inr (r\<lparr>mr_modules := mr_modules r @ [(pm_name m, m)]\<rparr>))"

definition get_module :: "module_registry \<Rightarrow> string \<Rightarrow> pa_error + protocol_module" where
  "get_module r name = (case map_of (mr_modules r) name of Some m \<Rightarrow> Inr m
     | None \<Rightarrow> (case map_of (mr_gated r) name of Some m \<Rightarrow> Inr m
         | None \<Rightarrow> Inl (PA_LookupError (''Unknown protocol module: '' @ name))))"

definition default_names :: "module_registry \<Rightarrow> string list" where
  "default_names r = sort (map fst (mr_modules r))"

definition default_modules :: "module_registry \<Rightarrow> protocol_module list" where
  "default_modules r = map (\<lambda>n. the (map_of (mr_modules r) n)) (default_names r)"

definition GATED_MODULE_NAMES :: "string list" where
  "GATED_MODULE_NAMES = [''testssl'', ''nikto'', ''nuclei'']"

definition is_gated :: "module_registry \<Rightarrow> string \<Rightarrow> bool" where
  "is_gated r name \<longleftrightarrow> name \<in> fst ` set (mr_gated r) \<or> name \<in> set GATED_MODULE_NAMES"

fun register_modules :: "protocol_module list \<Rightarrow> module_registry \<Rightarrow> pa_error + module_registry" where
  "register_modules [] r = Inr r"
| "register_modules (m # ms) r = rbind (register_module m r) (register_modules ms)"

definition default_registry :: "pa_error + module_registry" where
  "default_registry = register_modules
     [SshModule, TlsModule, HttpModule, DnsModule, SmbModule, SnmpModule, LdapModule, TestsslModule,
      NiktoModule, NucleiModule] \<lparr>mr_modules = [], mr_gated = []\<rparr>"

section \<open>Matching\<close>

record matched_work =
  mw_module :: string
  mw_target :: probe_target

definition service_work ::
  "protocol_module list \<Rightarrow> asset_record list \<Rightarrow> confirmed_scope \<Rightarrow> service_record \<Rightarrow> pa_error + matched_work list" where
  "service_work selected assets scope service =
     (if \<not> is_open_service service then Inr []
      else case map_of (rev (map (\<lambda>a. (as_id a, a)) assets)) (sr_asset_id service) of
          None \<Rightarrow> Inr []
        | Some asset \<Rightarrow> rbind (build_probe_target asset service scope) (\<lambda>t. case t of None \<Rightarrow> Inr []
            | Some target \<Rightarrow> Inr (map (\<lambda>m. \<lparr>mw_module = pm_name m, mw_target = target\<rparr>)
                (filter (\<lambda>m. pm_safety m \<noteq> NEVER_DEFAULT \<and> module_matches m service) selected))))"

fun services_work ::
  "protocol_module list \<Rightarrow> asset_record list \<Rightarrow> confirmed_scope \<Rightarrow> service_record list \<Rightarrow> pa_error + matched_work list" where
  "services_work selected assets scope [] = Inr []"
| "services_work selected assets scope (s # ss) =
     rbind (service_work selected assets scope s) (\<lambda>w. rbind (services_work selected assets scope ss) (\<lambda>ws.
       Inr (w @ ws)))"

definition match_work ::
  "module_registry \<Rightarrow> asset_record list \<Rightarrow> service_record list \<Rightarrow> confirmed_scope \<Rightarrow> string list option
     \<Rightarrow> pa_error + matched_work list" where
  "match_work registry assets services scope allowed =
     services_work (filter (\<lambda>m. case allowed of None \<Rightarrow> True | Some ns \<Rightarrow> pm_name m \<in> set ns)
       (default_modules registry)) assets scope services"

definition matching_modules :: "module_registry \<Rightarrow> service_record \<Rightarrow> protocol_module list" where
  "matching_modules registry service =
     filter (\<lambda>m. pm_safety m \<noteq> NEVER_DEFAULT \<and> module_matches m service) (default_modules registry)"

end
