(* ===== verification/Bounded_Data.thy ===== *)
theory Bounded_Data
  imports Py_Value
begin

text \<open>
  The bounding of JSON documents before they are stored: \<^verbatim>\<open>bound_observation_data\<close>, \<^verbatim>\<open>_truncate\<close> and
  \<^verbatim>\<open>_encode\<close> of \<^verbatim>\<open>protocol_audits/store.py\<close>; \<^verbatim>\<open>findings/store.py\<close> holds the same code. The limits
  are those of \<^verbatim>\<open>protocol_audits/models.py\<close> (both modules bound at 12288 bytes).
\<close>

definition MAX_OBSERVATION_DATA_BYTES :: nat where
  "MAX_OBSERVATION_DATA_BYTES = 12288"

definition MAX_STRING_VALUE :: nat where
  "MAX_STRING_VALUE = 2048"

definition MAX_LIST_ITEMS :: nat where
  "MAX_LIST_ITEMS = 64"

text \<open>The dict comprehension sets the keys from left to right; a repeated key keeps its first place
  and takes the last value.\<close>

fun truncate_value :: "json \<Rightarrow> json" where
  "truncate_value (JObj d) =
     JObj (dict_update [] (take MAX_LIST_ITEMS (map (\<lambda>p. (take 64 (fst p), truncate_value (snd p))) d)))"
| "truncate_value (JList xs) = JList (take MAX_LIST_ITEMS (map truncate_value xs))"
| "truncate_value (JStr s) = JStr (if length s > MAX_STRING_VALUE then take MAX_STRING_VALUE s else s)"
| "truncate_value JNull = JNull"
| "truncate_value (JBool b) = JBool b"
| "truncate_value (JInt i) = JInt i"
| "truncate_value (JFloat t) = JFloat t"

definition truncate_obj :: "json_obj \<Rightarrow> json_obj" where
  "truncate_obj d = (case truncate_value (JObj d) of JObj d' \<Rightarrow> d' | _ \<Rightarrow> [])"

definition encoded_bytes :: "json_obj \<Rightarrow> nat" where
  "encoded_bytes d = utf8_length (json_dumps (JObj d))"

definition bound_observation_data :: "json_obj \<Rightarrow> json_obj" where
  "bound_observation_data data =
     (let bounded = truncate_obj data; size = encoded_bytes bounded
      in if size \<le> MAX_OBSERVATION_DATA_BYTES then bounded
         else [(''truncated'', JBool True),
               (''keys'', JList (map JStr (take MAX_LIST_ITEMS (sort (map fst data))))),
               (''original_bytes'', JInt (int size))])"

section \<open>Bounds of a truncated value\<close>

fun bounded_value :: "json \<Rightarrow> bool" where
  "bounded_value (JObj d) \<longleftrightarrow> length d \<le> MAX_LIST_ITEMS \<and> distinct (map fst d)
     \<and> list_all (\<lambda>p. length (fst p) \<le> 64 \<and> bounded_value (snd p)) d"
| "bounded_value (JList xs) \<longleftrightarrow> length xs \<le> MAX_LIST_ITEMS \<and> list_all bounded_value xs"
| "bounded_value (JStr s) \<longleftrightarrow> length s \<le> MAX_STRING_VALUE"
| "bounded_value JNull \<longleftrightarrow> True"
| "bounded_value (JBool b) \<longleftrightarrow> True"
| "bounded_value (JInt i) \<longleftrightarrow> True"
| "bounded_value (JFloat t) \<longleftrightarrow> True"

lemma list_all_take: "list_all P xs \<Longrightarrow> list_all P (take n xs)"
  by (auto simp: list_all_iff dest: in_set_takeD)

lemma length_dict_set: "length (dict_set k v d) \<le> Suc (length d)"
  by (induction d) auto

lemma dict_set_all: "list_all P d \<Longrightarrow> P (k, v) \<Longrightarrow> list_all P (dict_set k v d)"
  by (induction d) auto

lemma dict_update_all: "list_all P d \<Longrightarrow> list_all P e \<Longrightarrow> list_all P (dict_update d e)"
  by (induction d e rule: dict_update.induct) (auto simp: dict_set_all)

lemma length_dict_update: "length (dict_update d e) \<le> length d + length e"
proof (induction d e rule: dict_update.induct)
  case (2 d k v e)
  then show ?case using length_dict_set [of k v d] by simp
qed simp

lemma distinct_dict_update: "distinct (map fst d) \<Longrightarrow> distinct (map fst (dict_update d e))"
  by (induction d e rule: dict_update.induct) simp_all

lemma dict_set_new: "k \<notin> fst ` set d \<Longrightarrow> dict_set k v d = d @ [(k, v)]"
  by (induction d) auto

lemma dict_update_new:
  "distinct (map fst e) \<Longrightarrow> fst ` set d \<inter> fst ` set e = {} \<Longrightarrow> dict_update d e = d @ e"
proof (induction d e rule: dict_update.induct)
  case (2 d k v e)
  have "dict_set k v d = d @ [(k, v)]" using 2(3) by (intro dict_set_new) auto
  moreover have "fst ` set (dict_set k v d) \<inter> fst ` set e = {}"
    using 2(2,3) by (auto simp: keys_dict_set)
  ultimately show ?case using 2 by simp
qed simp

lemma truncate_bounded: "bounded_value (truncate_value v)"
proof (induction v rule: truncate_value.induct)
  case (1 d)
  let ?e = "take MAX_LIST_ITEMS (map (\<lambda>p. (take 64 (fst p), truncate_value (snd p))) d)"
  have all: "list_all (\<lambda>p. length (fst p) \<le> 64 \<and> bounded_value (snd p)) ?e" using 1 by (intro list_all_take) (simp add: list_all_iff)
  have "length (dict_update [] ?e) \<le> MAX_LIST_ITEMS"
    using length_dict_update [of "[]" ?e] by (simp add: min.coboundedI1 min.coboundedI2 le_trans)
  then show ?case using dict_update_all [OF _ all, of "[]"] distinct_dict_update [of "[]" ?e] by simp
next
  case (2 xs)
  have "list_all bounded_value (take MAX_LIST_ITEMS (map truncate_value xs))"
    using 2 by (intro list_all_take) (simp add: list_all_iff)
  then show ?case by simp
qed auto

lemma bounded_truncate_id: "bounded_value v \<Longrightarrow> truncate_value v = v"
proof (induction v rule: truncate_value.induct)
  case (1 d)
  have "map (\<lambda>p. (take 64 (fst p), truncate_value (snd p))) d = d"
  proof (rule map_idI)
    fix p assume p: "p \<in> set d"
    then have "length (fst p) \<le> 64" "bounded_value (snd p)" using 1(2) by (auto simp: list_all_iff)
    moreover then have "truncate_value (snd p) = snd p" using 1(1) [of p] p by simp
    ultimately show "(take 64 (fst p), truncate_value (snd p)) = p" by simp
  qed
  moreover have "dict_update [] d = d" using 1(2) dict_update_new [of d "[]"] by simp
  ultimately show ?case using 1(2) by simp
next
  case (2 xs)
  have "map truncate_value xs = xs"
    using 2 by (intro map_idI) (simp add: list_all_iff)
  with 2(2) show ?case by simp
qed auto

lemma truncate_idem: "truncate_value (truncate_value v) = truncate_value v"
  by (rule bounded_truncate_id [OF truncate_bounded])

lemma truncate_obj_bounded: "bounded_value (JObj (truncate_obj d))"
  using truncate_bounded [of "JObj d"] by (simp add: truncate_obj_def)

lemma truncate_obj_idem: "truncate_obj (truncate_obj d) = truncate_obj d"
  using bounded_truncate_id [OF truncate_obj_bounded [of d]] by (simp add: truncate_obj_def)

lemma bound_data_idem:
  assumes "encoded_bytes (truncate_obj d) \<le> MAX_OBSERVATION_DATA_BYTES"
  shows "bound_observation_data (bound_observation_data d) = bound_observation_data d"
  using assms by (simp add: bound_observation_data_def Let_def truncate_obj_idem)

end
