(* ===== verification/Upsert.thy ===== *)
theory Upsert
  imports Prelude
begin

text \<open>
  Insert-or-update under a unique key, the pattern of every store of the program: look the row up by
  its identity, change the row that is there, or append a new one. The interface states what a client
  may rely on; the facts about a sequence of upserts are proved once here.
\<close>

definition upsert_row :: "('r \<Rightarrow> 'k) \<Rightarrow> 'k \<Rightarrow> 'r \<Rightarrow> ('r \<Rightarrow> 'r) \<Rightarrow> 'r list \<Rightarrow> 'r list" where
  "upsert_row key k new upd t = (case tbl_get key t k of
     None \<Rightarrow> t @ [new] | Some r \<Rightarrow> tbl_put key (upd r) t)"

locale upsert_table = keyed_table key get put
  for key :: "'r \<Rightarrow> 'k" and get :: "'r list \<Rightarrow> 'k \<Rightarrow> 'r option" and put :: "'r \<Rightarrow> 'r list \<Rightarrow> 'r list" +
  fixes upsert :: "'k \<Rightarrow> 'r \<Rightarrow> ('r \<Rightarrow> 'r) \<Rightarrow> 'r list \<Rightarrow> 'r list"
  assumes upsert_new: "get t k = None \<Longrightarrow> upsert k new upd t = t @ [new]"
    and upsert_old: "get t k = Some r \<Longrightarrow> upsert k new upd t = put (upd r) t"
begin

lemma upsert_keys:
  assumes "key new = k"
  shows "key ` set (upsert k new upd t) = insert k (key ` set t)"
proof (cases "get t k")
  case None
  then show ?thesis using assms by (auto simp: upsert_new)
next
  case (Some r)
  then have "k \<in> key ` set t" using get_None [of t k] by force
  then show ?thesis using upsert_old [OF Some] key_set_put by (simp add: insert_absorb)
qed

lemma upsert_distinct:
  assumes "distinct (map key t)" "key new = k"
  shows "distinct (map key (upsert k new upd t))"
proof (cases "get t k")
  case None
  then show ?thesis using assms get_None [of t k] by (simp add: upsert_new)
next
  case (Some r)
  then show ?thesis using assms(1) by (simp add: upsert_old distinct_put)
qed

lemma upsert_other:
  assumes "distinct (map key t)" "key new = k" "\<And>r. key (upd r) = key r" "k' \<noteq> k"
  shows "get (upsert k new upd t) k' = get t k'"
proof (cases "get t k")
  case None
  have d: "distinct (map key (t @ [new]))" using assms(1,2) None get_None [of t k] by simp
  show ?thesis
  proof (cases "get t k'")
    case None: None
    then have "k' \<notin> key ` set (t @ [new])" using get_None [of t k'] assms(2,4) by auto
    then show ?thesis using get_None [of "t @ [new]" k'] None \<open>get t k = None\<close> by (simp add: upsert_new)
  next
    case (Some x)
    then have "x \<in> set (t @ [new])" "key x = k'" using get_Some by auto
    then show ?thesis using get_unique [OF d, of x] Some \<open>get t k = None\<close> by (simp add: upsert_new)
  qed
next
  case (Some r)
  then have "key (upd r) = k" using get_key assms(3) by simp
  then show ?thesis using Some get_put_other [OF assms(1), of k' "upd r"] assms(4) by (simp add: upsert_old)
qed

lemma upsert_same:
  assumes "distinct (map key t)" "key new = k" "\<And>r. key (upd r) = key r"
  shows "get (upsert k new upd t) k = Some (case get t k of None \<Rightarrow> new | Some r \<Rightarrow> upd r)"
proof (cases "get t k")
  case None
  have "distinct (map key (t @ [new]))" using assms(1,2) None get_None [of t k] by simp
  from get_unique [OF this, of new] show ?thesis using None assms(2) by (simp add: upsert_new)
next
  case (Some r)
  then have "key (upd r) = k" using get_key assms(3) by simp
  then show ?thesis using Some get_put_same [OF assms(1), of "upd r"] by (simp add: upsert_old)
qed

lemma upsert_length:
  "length (upsert k new upd t) = (if get t k = None then Suc (length t) else length t)"
proof (cases "get t k")
  case (Some r)
  have "length (put (upd r) t) = length t" using arg_cong [OF keys_put, of length] by simp
  with Some show ?thesis by (simp add: upsert_old)
qed (simp add: upsert_new)

end

interpretation ups: upsert_table key "tbl_get key" "tbl_put key" "upsert_row key" for key :: "'r \<Rightarrow> 'k"
  by unfold_locales (simp_all add: upsert_row_def)

section \<open>Sequences of upserts\<close>

text \<open>
  What a sequence of upserts keeps of a table: the identities stay unique, the new identities are
  exactly \<open>K\<close>, the rows of other identities stay as they were, and a row that was there stays, with the
  columns \<open>origin\<close> compares.
\<close>

definition extends_on :: "('r \<Rightarrow> 'k) \<Rightarrow> ('r \<Rightarrow> 'r \<Rightarrow> bool) \<Rightarrow> 'k set \<Rightarrow> 'r list \<Rightarrow> 'r list \<Rightarrow> bool" where
  "extends_on key origin K t t' \<longleftrightarrow> distinct (map key t') \<and> key ` set t' = key ` set t \<union> K
     \<and> (\<forall>k. k \<notin> K \<longrightarrow> tbl_get key t' k = tbl_get key t k)
     \<and> (\<forall>k r. tbl_get key t k = Some r \<longrightarrow> (\<exists>r'. tbl_get key t' k = Some r' \<and> origin r r'))"

lemma extends_onD:
  assumes "extends_on key origin K t t'"
  shows "distinct (map key t')" "key ` set t' = key ` set t \<union> K"
    "\<And>k. k \<notin> K \<Longrightarrow> tbl_get key t' k = tbl_get key t k"
    "\<And>k r. tbl_get key t k = Some r \<Longrightarrow> \<exists>r'. tbl_get key t' k = Some r' \<and> origin r r'"
  using assms unfolding extends_on_def by blast+

locale row_origin =
  fixes key :: "'r \<Rightarrow> 'k" and origin :: "'r \<Rightarrow> 'r \<Rightarrow> bool"
  assumes origin_refl: "origin r r"
    and origin_trans: "origin r s \<Longrightarrow> origin s u \<Longrightarrow> origin r u"
begin

lemma extends_refl: "distinct (map key t) \<Longrightarrow> extends_on key origin {} t t"
  using origin_refl by (auto simp: extends_on_def)

lemma extends_trans:
  assumes "extends_on key origin K t u" "extends_on key origin L u v"
  shows "extends_on key origin (K \<union> L) t v"
  unfolding extends_on_def
proof (intro conjI allI impI)
  note a = extends_onD [OF assms(1)] and b = extends_onD [OF assms(2)]
  show "distinct (map key v)" by (rule b(1))
  show "key ` set v = key ` set t \<union> (K \<union> L)" using a(2) b(2) by (simp add: Un_assoc)
  show "tbl_get key v k = tbl_get key t k" if "k \<notin> K \<union> L" for k
    using that a(3) [of k] b(3) [of k] by simp
  fix k r assume "tbl_get key t k = Some r"
  from a(4) [OF this] obtain s where s: "tbl_get key u k = Some s" "origin r s" by blast
  from b(4) [OF s(1)] origin_trans [OF s(2)]
  show "\<exists>r'. tbl_get key v k = Some r' \<and> origin r r'" by blast
qed

lemma extends_upsert:
  assumes "distinct (map key t)" "key new = k" "\<And>r. key (upd r) = key r" "\<And>r. origin r (upd r)"
  shows "extends_on key origin {k} t (upsert_row key k new upd t)"
  unfolding extends_on_def
proof (intro conjI allI impI)
  let ?t = "upsert_row key k new upd t"
  show "distinct (map key ?t)" using assms(1,2) by (rule ups.upsert_distinct)
  show "key ` set ?t = key ` set t \<union> {k}" using ups.upsert_keys [of key new k upd t] assms(2) by simp
  show other: "tbl_get key ?t k' = tbl_get key t k'" if "k' \<notin> {k}" for k'
    using that assms(1-3) by (intro ups.upsert_other) simp_all
  fix k' r assume r: "tbl_get key t k' = Some r"
  show "\<exists>r'. tbl_get key ?t k' = Some r' \<and> origin r r'"
  proof (cases "k' = k")
    case True
    then have "tbl_get key ?t k = Some (upd r)" using r ups.upsert_same [of key t new k upd] assms(1-3) by simp
    with True assms(4) show ?thesis by blast
  next
    case False
    with other r origin_refl show ?thesis by simp
  qed
qed

end

end
