(* ===== verification/Protocol_Run.thy ===== *)
theory Protocol_Run
  imports Protocol_Targets Bounded_Data Upsert Job_Service
begin

text \<open>
  Running one protocol module and storing what it observed: \<^verbatim>\<open>protocol_audits/availability.py\<close>,
  \<^verbatim>\<open>status.py\<close>, \<^verbatim>\<open>execute.py\<close>, \<^verbatim>\<open>store.py\<close>, the shared part of \<^verbatim>\<open>modules/base.py\<close>, and the result
  classification of \<^verbatim>\<open>providers/tools.py\<close>.

  The process runner is the argument \<open>exec\<close>: the result of the n-th command the runner is given. The
  cancellation token is \<open>cancelled\<close>: its value at the n-th time it is read. \<open>locate\<close> is \<^verbatim>\<open>shutil.which\<close>,
  \<open>parse\<close> the output parser of a module, \<open>store_evidence\<close> the evidence store. Durations are whole
  microseconds.
\<close>

section \<open>Tool results\<close>

datatype tool_error_code = TE_MISSING_BINARY | TE_PERMISSION_DENIED | TE_TIMEOUT | TE_CANCELLED
  | TE_NON_ZERO_EXIT | TE_EXECUTION_ERROR | TE_OUTPUT_ERROR

fun tool_error_value :: "tool_error_code \<Rightarrow> string" where
  "tool_error_value TE_MISSING_BINARY = ''missing_binary''"
| "tool_error_value TE_PERMISSION_DENIED = ''permission_denied''"
| "tool_error_value TE_TIMEOUT = ''timeout''"
| "tool_error_value TE_CANCELLED = ''cancelled''"
| "tool_error_value TE_NON_ZERO_EXIT = ''non_zero_exit''"
| "tool_error_value TE_EXECUTION_ERROR = ''execution_error''"
| "tool_error_value TE_OUTPUT_ERROR = ''output_error''"

record tool_error =
  te_code :: tool_error_code
  te_message :: string
  te_retryable :: bool

record tool_result =
  tr_tool :: string
  tr_exit_code :: "int option"
  tr_stdout :: string
  tr_stderr :: string
  tr_duration :: int
  tr_timed_out :: bool
  tr_cancelled :: bool
  tr_success :: bool
  tr_error :: "tool_error option"

definition json_opt_int :: "int option \<Rightarrow> json" where
  "json_opt_int i = (case i of None \<Rightarrow> JNull | Some n \<Rightarrow> JInt n)"

definition opt_int_str :: "int option \<Rightarrow> string" where
  "opt_int_str i = (case i of None \<Rightarrow> ''None'' | Some n \<Rightarrow> int_str n)"

definition result_error :: "int option \<Rightarrow> string \<Rightarrow> bool \<Rightarrow> bool \<Rightarrow> tool_error option" where
  "result_error exit_code stderr timed_out cancelled =
     (if cancelled then Some \<lparr>te_code = TE_CANCELLED, te_message = ''Tool execution was cancelled'', te_retryable = False\<rparr>
      else if timed_out
      then Some \<lparr>te_code = TE_TIMEOUT, te_message = ''Tool execution exceeded its timeout'', te_retryable = True\<rparr>
      else if exit_code = Some 0 then None
      else if contains_str (lower stderr) ''permission denied'' \<or> contains_str (lower stderr) ''permission''
      then Some \<lparr>te_code = TE_PERMISSION_DENIED, te_message = ''Tool reported a permission error'', te_retryable = False\<rparr>
      else Some \<lparr>te_code = TE_NON_ZERO_EXIT,
             te_message = ''Tool exited with status '' @ opt_int_str exit_code, te_retryable = False\<rparr>)"

text \<open>What \<^verbatim>\<open>ToolRunner.run\<close> returns for a process that ended, and for one that did not start.\<close>

definition finished_result ::
  "tool_command \<Rightarrow> int option \<Rightarrow> string \<Rightarrow> string \<Rightarrow> int \<Rightarrow> bool \<Rightarrow> bool \<Rightarrow> tool_result" where
  "finished_result c exit_code out err duration timed_out cancelled =
     (let e = result_error exit_code err timed_out cancelled
      in \<lparr>tr_tool = tc_tool c, tr_exit_code = exit_code, tr_stdout = out, tr_stderr = err,
          tr_duration = max 0 duration, tr_timed_out = timed_out, tr_cancelled = cancelled,
          tr_success = (e = None), tr_error = e\<rparr>)"

definition failed_to_start :: "tool_command \<Rightarrow> int \<Rightarrow> tool_error_code \<Rightarrow> string \<Rightarrow> tool_result" where
  "failed_to_start c duration ecode message =
     \<lparr>tr_tool = tc_tool c, tr_exit_code = None, tr_stdout = [], tr_stderr = [],
      tr_duration = max 0 duration, tr_timed_out = False, tr_cancelled = False, tr_success = False,
      tr_error = Some \<lparr>te_code = ecode, te_message = message, te_retryable = False\<rparr>\<rparr>"

section \<open>Availability\<close>

fun digit_run :: "string \<Rightarrow> string \<times> string" where
  "digit_run [] = ([], [])"
| "digit_run (c # s) = (if is_ascii_digit c then (let (d, r) = digit_run s in (c # d, r)) else ([], c # s))"

text \<open>The pattern at the head of the text: two or three dotted numbers. A run of digits that fails
  to match fails from each of its later digits too, so the search goes on one character further.\<close>

definition version_here :: "string \<Rightarrow> nat list option" where
  "version_here s = (case digit_run s of (a, r) \<Rightarrow>
     if a = [] \<or> r = [] \<or> hd r \<noteq> CHR ''.'' then None
     else case digit_run (tl r) of (b, r') \<Rightarrow>
       if b = [] then None
       else if r' = [] \<or> hd r' \<noteq> CHR ''.'' then Some [from_base 10 a, from_base 10 b]
       else case digit_run (tl r') of (c, _) \<Rightarrow>
         if c = [] then Some [from_base 10 a, from_base 10 b]
         else Some [from_base 10 a, from_base 10 b, from_base 10 c])"

fun parse_version_tuple :: "string \<Rightarrow> nat list option" where
  "parse_version_tuple [] = None"
| "parse_version_tuple (c # s) = (case version_here (c # s) of Some v \<Rightarrow> Some v | None \<Rightarrow> parse_version_tuple s)"

text \<open>Comparison of tuples: the first difference decides, a proper prefix is smaller.\<close>

fun tuple_ge :: "nat list \<Rightarrow> nat list \<Rightarrow> bool" where
  "tuple_ge xs [] = True"
| "tuple_ge [] (y # ys) = False"
| "tuple_ge (x # xs) (y # ys) = (if x = y then tuple_ge xs ys else y < x)"

definition version_meets :: "string option \<Rightarrow> string option \<Rightarrow> bool" where
  "version_meets actual minimum =
     (if \<not> truthy minimum then True else if \<not> truthy actual then True
      else case (parse_version_tuple (the actual), parse_version_tuple (the minimum)) of
          (Some a, Some m) \<Rightarrow> tuple_ge a m | _ \<Rightarrow> True)"

record tool_availability =
  ta_tool :: string
  ta_available :: bool
  ta_version :: "string option"
  ta_binary_path :: "string option"
  ta_meets_minimum :: bool
  ta_message :: string

definition version_command :: "string \<Rightarrow> string list \<Rightarrow> tool_command" where
  "version_command tool args = \<lparr>tc_tool = tool, tc_args = args, tc_timeout = 5, tc_environment = []\<rparr>"

definition inspect_tool ::
  "(string \<Rightarrow> string option) \<Rightarrow> (tool_command \<Rightarrow> tool_result) \<Rightarrow> string \<Rightarrow> string list \<Rightarrow> string option
     \<Rightarrow> tool_availability" where
  "inspect_tool locate run tool version_args minimum =
     (case locate tool of
       None \<Rightarrow> \<lparr>ta_tool = tool, ta_available = False, ta_version = None, ta_binary_path = None,
                ta_meets_minimum = False, ta_message = ''Required tool is not installed: '' @ tool\<rparr>
     | Some path \<Rightarrow>
         let result = run (version_command tool version_args);
             version_text = join_on ''\<newline>'' (filter (\<lambda>p. p \<noteq> []) [tr_stdout result, tr_stderr result]);
             version = map_option (\<lambda>v. join_on ''.'' (map dec v)) (parse_version_tuple version_text);
             meets = version_meets version minimum
         in \<lparr>ta_tool = tool, ta_available = True, ta_version = version, ta_binary_path = Some path,
             ta_meets_minimum = meets,
             ta_message = (if meets then ''available''
               else tool @ '' '' @ (if truthy version then the version else ''unknown'')
                      @ '' is below minimum '' @ (case minimum of None \<Rightarrow> ''None'' | Some m \<Rightarrow> m))\<rparr>)"

definition module_availability ::
  "(string \<Rightarrow> string option) \<Rightarrow> (tool_command \<Rightarrow> tool_result) \<Rightarrow> protocol_settings \<Rightarrow> protocol_module
     \<Rightarrow> tool_availability" where
  "module_availability locate run s m =
     (if pm_safety m = NEVER_DEFAULT
      then \<lparr>ta_tool = pm_required_tool m, ta_available = False, ta_version = None, ta_binary_path = None,
            ta_meets_minimum = False,
            ta_message = pm_name m @ '' is gated off in Milestone 4 and is not a default protocol-audit module''\<rparr>
      else inspect_tool locate run (pm_tool_name m s) (pm_version_args m) (pm_min_version m))"

section \<open>Observations\<close>

record observation_draft =
  od_kind :: string
  od_data :: json_obj
  od_confidence :: confidence_level
  od_source :: string
  od_dedupe_key :: string

definition status_draft :: "string \<Rightarrow> json_obj \<Rightarrow> string \<Rightarrow> observation_draft" where
  "status_draft kind data source = \<lparr>od_kind = kind, od_data = data, od_confidence = CL_UNKNOWN,
     od_source = source, od_dedupe_key = []\<rparr>"

definition tool_status_observation :: "tool_result \<Rightarrow> string \<Rightarrow> bool \<Rightarrow> observation_draft option" where
  "tool_status_observation r source parse_on_nonzero_exit =
     (if tr_cancelled r then Some (status_draft ''cancelled'' [(''tool'', JStr (tr_tool r))] source)
      else if tr_timed_out r \<or> (case tr_error r of None \<Rightarrow> False | Some e \<Rightarrow> te_code e = TE_TIMEOUT)
      then Some (status_draft ''tool_timeout''
             [(''tool'', JStr (tr_tool r)), (''exit_code'', json_opt_int (tr_exit_code r))] source)
      else if (case tr_error r of None \<Rightarrow> False | Some e \<Rightarrow> te_code e = TE_MISSING_BINARY)
      then Some (status_draft ''tool_unavailable''
             [(''tool'', JStr (tr_tool r)), (''message'', JStr (te_message (the (tr_error r))))] source)
      else if tr_success r
      then (if tr_stdout r = [] \<and> tr_stderr r = []
            then Some (status_draft ''empty_output''
                   [(''tool'', JStr (tr_tool r)), (''exit_code'', json_opt_int (tr_exit_code r))] source)
            else None)
      else if parse_on_nonzero_exit \<and> (tr_stdout r \<noteq> [] \<or> tr_stderr r \<noteq> []) then None
      else Some (status_draft ''tool_failed''
             [(''tool'', JStr (tr_tool r)), (''exit_code'', json_opt_int (tr_exit_code r)),
              (''error_code'', case tr_error r of None \<Rightarrow> JNull | Some e \<Rightarrow> JStr (tool_error_value (te_code e)))]
             source))"

definition unavailable_observation :: "string \<Rightarrow> string \<Rightarrow> observation_draft" where
  "unavailable_observation tool message =
     status_draft ''tool_unavailable'' [(''tool'', JStr tool), (''message'', JStr message)] tool"

definition malformed_observation :: "string \<Rightarrow> string \<Rightarrow> observation_draft" where
  "malformed_observation source message = status_draft ''malformed_output'' [(''message'', JStr message)] source"

text \<open>The default \<^verbatim>\<open>parse_results\<close> collects the drafts of every result.\<close>

fun collect_drafts ::
  "(tool_result \<Rightarrow> pa_error + observation_draft list) \<Rightarrow> tool_result list \<Rightarrow> pa_error + observation_draft list" where
  "collect_drafts parse [] = Inr []"
| "collect_drafts parse (r # rs) = rbind (parse r) (\<lambda>ds. rbind (collect_drafts parse rs) (\<lambda>es. Inr (ds @ es)))"

text \<open>The DNS module folds the identities of its two queries into one draft.\<close>

definition dns_add ::
  "string list \<times> observation_draft list \<Rightarrow> observation_draft \<Rightarrow> string list \<times> observation_draft list" where
  "dns_add st d = (case st of (seen, combined) \<Rightarrow>
     let k = od_kind d @ '':'' @ od_dedupe_key d
     in if k \<in> set seen \<and> od_kind d \<noteq> ''dns_identity'' then st
        else if od_kind d = ''dns_identity'' \<and> (\<exists>x \<in> set combined. od_kind x = ''dns_identity'')
        then (seen, map_first (\<lambda>x. od_kind x = ''dns_identity'')
               (\<lambda>x. x\<lparr>od_data := dict_update (od_data x) (filter (\<lambda>p. json_truthy (snd p)) (od_data d))\<rparr>) combined)
        else (k # seen, combined @ [d]))"

definition dns_parse_results ::
  "(tool_result \<Rightarrow> pa_error + observation_draft list) \<Rightarrow> tool_result list \<Rightarrow> pa_error + observation_draft list" where
  "dns_parse_results parse rs =
     rbind (collect_drafts parse rs) (\<lambda>ds. Inr (snd (foldl dns_add ([], []) ds)))"

definition module_parse_results ::
  "(protocol_module \<Rightarrow> tool_result \<Rightarrow> pa_error + observation_draft list) \<Rightarrow> protocol_module \<Rightarrow> tool_result list
     \<Rightarrow> pa_error + observation_draft list" where
  "module_parse_results parse m rs =
     (if pm_name m = ''dns'' then dns_parse_results (parse m) rs else collect_drafts (parse m) rs)"

section \<open>The observation store\<close>

record observation_row =
  or_id :: string
  or_audit_id :: string
  or_asset_id :: string
  or_service_id :: string
  or_protocol :: string
  or_module :: string
  or_kind :: string
  or_dedupe_key :: string
  or_data :: json_obj
  or_confidence :: confidence_level
  or_source :: string
  or_evidence_artifact_id :: "string option"
  or_first_seen :: int
  or_last_seen :: int

type_synonym obs_identity = "string \<times> string \<times> string \<times> string \<times> string \<times> string"

definition obs_key :: "observation_row \<Rightarrow> obs_identity" where
  "obs_key r = (or_audit_id r, or_asset_id r, or_service_id r, or_module r, or_kind r, or_dedupe_key r)"

record obs_context =
  oc_audit_id :: string
  oc_asset_id :: string
  oc_service_id :: string
  oc_protocol :: string
  oc_module :: string
  oc_evidence :: "string option"

definition draft_key :: "obs_context \<Rightarrow> observation_draft \<Rightarrow> obs_identity" where
  "draft_key c d = (oc_audit_id c, oc_asset_id c, oc_service_id c, oc_module c, od_kind d, od_dedupe_key d)"

definition new_observation :: "obs_context \<Rightarrow> observation_draft \<Rightarrow> string \<Rightarrow> int \<Rightarrow> observation_row" where
  "new_observation c d i now = \<lparr>or_id = i, or_audit_id = oc_audit_id c, or_asset_id = oc_asset_id c,
     or_service_id = oc_service_id c, or_protocol = oc_protocol c, or_module = oc_module c, or_kind = od_kind d,
     or_dedupe_key = od_dedupe_key d, or_data = bound_observation_data (od_data d),
     or_confidence = od_confidence d, or_source = od_source d, or_evidence_artifact_id = oc_evidence c,
     or_first_seen = now, or_last_seen = now\<rparr>"

definition update_observation :: "obs_context \<Rightarrow> observation_draft \<Rightarrow> int \<Rightarrow> observation_row \<Rightarrow> observation_row" where
  "update_observation c d now r = r\<lparr>or_data := bound_observation_data (od_data d),
     or_confidence := od_confidence d, or_source := od_source d, or_evidence_artifact_id := oc_evidence c,
     or_last_seen := now, or_protocol := oc_protocol c\<rparr>"

text \<open>
  \<open>fresh n\<close> is the UUID and the clock reading for the n-th draft; \<open>parents\<close> tells whether the audit, asset
  and service rows the foreign keys name exist. An insert without them, or under a stored primary key,
  is an integrity error that rolls the whole call back.
\<close>

fun upsert_drafts ::
  "(nat \<Rightarrow> string \<times> int) \<Rightarrow> bool \<Rightarrow> obs_context \<Rightarrow> nat \<Rightarrow> observation_draft list \<Rightarrow> observation_row list
     \<Rightarrow> pa_error + observation_row list \<times> observation_row list" where
  "upsert_drafts fresh parents c n [] t = Inr (t, [])"
| "upsert_drafts fresh parents c n (d # ds) t =
     (let k = draft_key c d; i = fst (fresh n); now = snd (fresh n); new = new_observation c d i now;
          t' = upsert_row obs_key k new (update_observation c d now) t
      in if tbl_get obs_key t k = None \<and> (\<not> parents \<or> i \<in> or_id ` set t) then Inl PA_IntegrityError
         else rbind (upsert_drafts fresh parents c (Suc n) ds t') (\<lambda>(t'', ps).
           Inr (t'', (case tbl_get obs_key t k of None \<Rightarrow> new | Some r \<Rightarrow> update_observation c d now r) # ps)))"

definition upsert_many ::
  "(nat \<Rightarrow> string \<times> int) \<Rightarrow> bool \<Rightarrow> obs_context \<Rightarrow> observation_draft list \<Rightarrow> observation_row list
     \<Rightarrow> observation_row list \<times> (pa_error + observation_row list)" where
  "upsert_many fresh parents c drafts t = (case upsert_drafts fresh parents c 0 drafts t of
     Inl e \<Rightarrow> (t, Inl e) | Inr (t', ps) \<Rightarrow> (t', Inr ps))"

definition list_observations ::
  "string \<Rightarrow> nat \<Rightarrow> nat \<Rightarrow> string option \<Rightarrow> string option \<Rightarrow> string option \<Rightarrow> string option \<Rightarrow> string option
     \<Rightarrow> observation_row list \<Rightarrow> observation_row page" where
  "list_observations audit limit offset asset protocol mdl kind service t =
     page_of limit offset (sort_key (\<lambda>r. (or_module r, or_kind r, or_id r)) (filter (\<lambda>r.
       or_audit_id r = audit
       \<and> (truthy asset \<longrightarrow> or_asset_id r = the asset)
       \<and> (truthy protocol \<longrightarrow> or_protocol r = lower (the protocol))
       \<and> (truthy mdl \<longrightarrow> or_module r = lower (the mdl))
       \<and> (truthy kind \<longrightarrow> or_kind r = the kind)
       \<and> (truthy service \<longrightarrow> or_service_id r = the service)) t))"

definition all_for_audit :: "string \<Rightarrow> observation_row list \<Rightarrow> observation_row list" where
  "all_for_audit audit t =
     sort_key (\<lambda>r. (or_module r, or_kind r, or_id r)) (filter (\<lambda>r. or_audit_id r = audit) t)"

definition count_observations :: "string \<Rightarrow> observation_row list \<Rightarrow> nat" where
  "count_observations audit t = length (filter (\<lambda>r. or_audit_id r = audit) t)"

section \<open>One module run\<close>

record module_run =
  mr_module :: string
  mr_protocol :: string
  mr_tool :: string
  mr_available :: bool
  mr_skipped :: bool
  mr_skip_reason :: "string option"
  mr_observation_count :: nat
  mr_exit_code :: "int option"
  mr_timed_out :: bool
  mr_duration :: int
  mr_evidence_artifact_id :: "string option"
  mr_command_metadata :: json_obj

text \<open>A timeout is a float with no fraction.\<close>

definition command_metadata :: "protocol_module \<Rightarrow> tool_command list \<Rightarrow> json_obj" where
  "command_metadata m cs =
     [(''tool'', JStr (pm_required_tool m)), (''command_count'', JInt (int (length cs))),
      (''arg_counts'', JList (map (\<lambda>c. JInt (int (length (tc_tool c # tc_args c)))) cs)),
      (''timeout_seconds'', JList (map (\<lambda>c. JFloat (int_str (tc_timeout c) @ ''.0'')) cs))]"

definition without_cancelled :: "observation_draft list \<Rightarrow> observation_draft list" where
  "without_cancelled ds = filter (\<lambda>d. od_kind d \<noteq> ''cancelled'') ds"

definition job_cancelled :: pa_error where
  "job_cancelled = PA_JobCancelled ''Protocol audit was cancelled''"

fun run_commands ::
  "(nat \<Rightarrow> tool_command \<Rightarrow> tool_result) \<Rightarrow> (nat \<Rightarrow> bool) \<Rightarrow> nat \<Rightarrow> tool_command list
     \<Rightarrow> pa_error + tool_result list" where
  "run_commands exec cancelled n [] = Inr []"
| "run_commands exec cancelled n (c # cs) =
     (if cancelled n then Inl job_cancelled
      else let r = exec n c in if tr_cancelled r then Inl job_cancelled
      else rbind (run_commands exec cancelled (Suc n) cs) (\<lambda>rs. Inr (r # rs)))"

definition work_context :: "string \<Rightarrow> protocol_module \<Rightarrow> probe_target \<Rightarrow> string option \<Rightarrow> obs_context" where
  "work_context audit_id m target evidence = \<lparr>oc_audit_id = audit_id, oc_asset_id = as_id (pt_asset target),
     oc_service_id = sr_id (pt_service target), oc_protocol = pm_protocol m, oc_module = pm_name m,
     oc_evidence = evidence\<rparr>"

text \<open>The outside world of one run.\<close>

record run_world =
  rw_locate :: "string \<Rightarrow> string option"
  rw_exec :: "nat \<Rightarrow> tool_command \<Rightarrow> tool_result"
  rw_cancelled :: "nat \<Rightarrow> bool"
  rw_parse :: "protocol_module \<Rightarrow> tool_result \<Rightarrow> pa_error + observation_draft list"
  rw_store_evidence :: "tool_command list \<Rightarrow> tool_result list \<Rightarrow> string option \<Rightarrow> pa_error + string"
  rw_fresh :: "nat \<Rightarrow> string \<times> int"
  rw_parents :: bool

text \<open>The version query is command 0 of the runner, the probes are the commands from 1 on.\<close>

definition skip_report :: "protocol_module \<Rightarrow> tool_availability \<Rightarrow> nat \<Rightarrow> module_run" where
  "skip_report m a n = \<lparr>mr_module = pm_name m, mr_protocol = pm_protocol m, mr_tool = ta_tool a,
     mr_available = False, mr_skipped = True, mr_skip_reason = Some (ta_message a),
     mr_observation_count = n, mr_exit_code = None, mr_timed_out = False, mr_duration = 0,
     mr_evidence_artifact_id = None, mr_command_metadata = []\<rparr>"

definition skip_run ::
  "run_world \<Rightarrow> string \<Rightarrow> protocol_module \<Rightarrow> probe_target \<Rightarrow> tool_availability \<Rightarrow> observation_row list
     \<Rightarrow> observation_row list \<times> (pa_error + module_run)" where
  "skip_run w audit_id m target a t =
     (case upsert_many (rw_fresh w) (rw_parents w) (work_context audit_id m target None)
             [unavailable_observation (ta_tool a) (ta_message a)] t of
       (t', Inl e) \<Rightarrow> (t', Inl e)
     | (t', Inr ps) \<Rightarrow> (t', Inr (skip_report m a (length ps))))"

definition probe_results ::
  "run_world \<Rightarrow> protocol_settings \<Rightarrow> protocol_module \<Rightarrow> probe_target \<Rightarrow> tool_availability
     \<Rightarrow> pa_error + tool_command list \<times> tool_result list \<times> observation_draft list \<times> string" where
  "probe_results w s m target a =
     rbind (pm_build_commands m target s) (\<lambda>cs. rbind (run_commands (rw_exec w) (rw_cancelled w) 1 cs) (\<lambda>rs.
       rbind (module_parse_results (rw_parse w) m rs) (\<lambda>ds. rbind (rw_store_evidence w cs rs (ta_version a)) (\<lambda>art.
         Inr (cs, rs, ds, art)))))"

definition probe_report ::
  "protocol_module \<Rightarrow> tool_availability \<Rightarrow> tool_command list \<Rightarrow> tool_result list \<Rightarrow> string \<Rightarrow> nat \<Rightarrow> module_run" where
  "probe_report m a cs rs art n = \<lparr>mr_module = pm_name m, mr_protocol = pm_protocol m, mr_tool = ta_tool a,
     mr_available = True, mr_skipped = False, mr_skip_reason = None, mr_observation_count = n,
     mr_exit_code = (if rs = [] then None else tr_exit_code (last rs)),
     mr_timed_out = list_ex tr_timed_out rs, mr_duration = sum_list (map tr_duration rs),
     mr_evidence_artifact_id = Some art, mr_command_metadata = command_metadata m cs\<rparr>"

definition run_module ::
  "run_world \<Rightarrow> protocol_settings \<Rightarrow> string \<Rightarrow> protocol_module \<Rightarrow> probe_target \<Rightarrow> observation_row list
     \<Rightarrow> observation_row list \<times> (pa_error + module_run)" where
  "run_module w s audit_id m target t =
     (if rw_cancelled w 0 then (t, Inl job_cancelled)
      else let a = module_availability (rw_locate w) (rw_exec w 0) s m
      in if \<not> ta_available a \<or> \<not> ta_meets_minimum a then skip_run w audit_id m target a t
      else case probe_results w s m target a of
        Inl e \<Rightarrow> (t, Inl e)
      | Inr (cs, rs, ds, art) \<Rightarrow>
          (case upsert_many (rw_fresh w) (rw_parents w) (work_context audit_id m target (Some art))
                  (without_cancelled ds) t of
             (t', Inl e) \<Rightarrow> (t', Inl e)
           | (t', Inr ps) \<Rightarrow> (t', Inr (probe_report m a cs rs art (length ps)))))"

end
