(* ===== verification/Finding_Base.thy ===== *)
theory Finding_Base
  imports Protocol_Run
begin

text \<open>
  The contracts of \<^verbatim>\<open>findings/models.py\<close> and the shared helpers of \<^verbatim>\<open>findings/rules/base.py\<close>.

  The operator-facing texts of \<^verbatim>\<open>findings/copy.py\<close> are an argument \<open>re_copy\<close>, the text of a key and its
  arguments: they are Russian, and the strings of the model are code points below 256. The other
  fields of \<open>rule_env\<close> are Python's date parsing and printing and \<^verbatim>\<open>int\<close> of a float, given by its text.
\<close>

section \<open>Contracts\<close>

datatype severity = SEV_CRITICAL | SEV_HIGH | SEV_MEDIUM | SEV_LOW | SEV_INFO

fun SEVERITY_RANK :: "severity \<Rightarrow> nat" where
  "SEVERITY_RANK SEV_CRITICAL = 0"
| "SEVERITY_RANK SEV_HIGH = 1"
| "SEVERITY_RANK SEV_MEDIUM = 2"
| "SEVERITY_RANK SEV_LOW = 3"
| "SEVERITY_RANK SEV_INFO = 4"

fun CONFIDENCE_RANK :: "confidence_level \<Rightarrow> nat" where
  "CONFIDENCE_RANK CL_CONFIRMED = 0"
| "CONFIDENCE_RANK CL_HIGH = 1"
| "CONFIDENCE_RANK CL_MEDIUM = 2"
| "CONFIDENCE_RANK CL_LOW = 3"
| "CONFIDENCE_RANK CL_HINT = 4"
| "CONFIDENCE_RANK CL_UNKNOWN = 5"

datatype finding_status = FS_OPEN | FS_SUPPRESSED | FS_ACCEPTED_RISK

datatype f_error = FE_ValidationError | FE_AttributeError | FE_TypeError | FE_ValueError string
  | FE_LookupError string | FE_FindingNotFound string | FE_InvalidFindingState finding_status finding_status
  | FE_IntegrityError

record finding_draft =
  fd_rule_id :: string
  fd_rule_version :: string
  fd_family :: string
  fd_title :: string
  fd_severity :: severity
  fd_confidence :: confidence_level
  fd_asset_id :: "string option"
  fd_service_id :: "string option"
  fd_description :: string
  fd_rationale :: string
  fd_recommendation :: string
  fd_data :: json_obj
  fd_observation_ids :: "string list"
  fd_evidence_artifact_ids :: "string list"
  fd_dedupe_key :: string

record evaluation_context =
  ec_audit_id :: string
  ec_observations :: "observation_row list"
  ec_services :: "service_record list"
  ec_assets :: "asset_record list"
  ec_passive_result :: "json_obj option"
  ec_passive_artifact_id :: "string option"
  ec_evaluated_at :: int

record rule_env =
  re_copy :: "string \<Rightarrow> json list \<Rightarrow> string"
  re_parse_time :: "string \<Rightarrow> int option"
  re_iso :: "int \<Rightarrow> string"
  re_float_int :: "string \<Rightarrow> int"

definition NON_EVIDENCE_KINDS :: "string list" where
  "NON_EVIDENCE_KINDS = [''cancelled'', ''tool_timeout'', ''tool_unavailable'', ''empty_output'', ''tool_failed'',
     ''malformed_output'', ''dns_unreachable'']"

definition MAX_OBSERVATION_LINKS :: nat where
  "MAX_OBSERVATION_LINKS = 64"

section \<open>Helpers of the rules\<close>

definition usable_observations :: "evaluation_context \<Rightarrow> string list option \<Rightarrow> observation_row list" where
  "usable_observations ctx kinds = filter (\<lambda>r. or_kind r \<notin> set NON_EVIDENCE_KINDS
     \<and> (case kinds of None \<Rightarrow> True | Some ks \<Rightarrow> or_kind r \<in> set ks)) (ec_observations ctx)"

definition service_map :: "evaluation_context \<Rightarrow> (string \<times> service_record) list" where
  "service_map ctx = dict_update [] (map (\<lambda>s. (sr_id s, s)) (ec_services ctx))"

text \<open>Both link lists are collected without repetition until 64 are there.\<close>

fun collect_links :: "(observation_row \<Rightarrow> string option) \<Rightarrow> string list \<Rightarrow> observation_row list \<Rightarrow> string list" where
  "collect_links link ordered [] = ordered"
| "collect_links link ordered (r # rs) =
     (let ordered' = (case link r of None \<Rightarrow> ordered
            | Some v \<Rightarrow> if v \<notin> set ordered then ordered @ [v] else ordered)
      in if MAX_OBSERVATION_LINKS \<le> length ordered' then ordered' else collect_links link ordered' rs)"

definition observation_evidence :: "observation_row list \<Rightarrow> string list" where
  "observation_evidence rs = collect_links
     (\<lambda>r. if truthy (or_evidence_artifact_id r) then or_evidence_artifact_id r else None) [] rs"

definition observation_ids :: "observation_row list \<Rightarrow> string list" where
  "observation_ids rs = collect_links (\<lambda>r. Some (or_id r)) [] rs"

definition service_dedupe_key :: "observation_row \<Rightarrow> string" where
  "service_dedupe_key r = or_asset_id r @ '':'' @ or_service_id r"

definition inventory_dedupe_key :: "service_record \<Rightarrow> string" where
  "inventory_dedupe_key s = sr_asset_id s @ '':'' @ sr_id s"

definition group_add ::
  "((string \<times> string) \<times> observation_row list) list \<Rightarrow> observation_row
     \<Rightarrow> ((string \<times> string) \<times> observation_row list) list" where
  "group_add gs r = (let k = (or_asset_id r, or_service_id r)
     in dict_set k ((case map_of gs k of None \<Rightarrow> [] | Some xs \<Rightarrow> xs) @ [r]) gs)"

definition grouped_by_service :: "observation_row list \<Rightarrow> ((string \<times> string) \<times> observation_row list) list" where
  "grouped_by_service rs = foldl group_add [] rs"

definition as_string_list :: "json \<Rightarrow> string list" where
  "as_string_list v = (case v of JNull \<Rightarrow> []
     | JStr s \<Rightarrow> if s \<noteq> [] then [s] else []
     | JList xs \<Rightarrow> map py_str (filter (\<lambda>x. x \<noteq> JNull \<and> py_str x \<noteq> []) xs)
     | _ \<Rightarrow> [py_str v])"

definition valid_draft :: "finding_draft \<Rightarrow> bool" where
  "valid_draft d \<longleftrightarrow> 1 \<le> length (fd_rule_id d) \<and> length (fd_rule_id d) \<le> 64
     \<and> 1 \<le> length (fd_rule_version d) \<and> length (fd_rule_version d) \<le> 16
     \<and> 1 \<le> length (fd_family d) \<and> length (fd_family d) \<le> 32
     \<and> 1 \<le> length (fd_title d) \<and> length (fd_title d) \<le> 256
     \<and> 1 \<le> length (fd_description d) \<and> length (fd_description d) \<le> 4096
     \<and> 1 \<le> length (fd_rationale d) \<and> length (fd_rationale d) \<le> 4096
     \<and> 1 \<le> length (fd_recommendation d) \<and> length (fd_recommendation d) \<le> 4096
     \<and> 1 \<le> length (fd_dedupe_key d) \<and> length (fd_dedupe_key d) \<le> 128"

text \<open>Append the elements that are not there yet, one after the other.\<close>

fun add_new :: "'a list \<Rightarrow> 'a list \<Rightarrow> 'a list" where
  "add_new xs [] = xs"
| "add_new xs (y # ys) = add_new (if y \<in> set xs then xs else xs @ [y]) ys"

text \<open>\<^verbatim>\<open>draft\<close>: \<open>texts\<close> are title, description, rationale and recommendation.\<close>

definition draft ::
  "string \<Rightarrow> string \<Rightarrow> string \<Rightarrow> string \<times> string \<times> string \<times> string \<Rightarrow> severity \<Rightarrow> confidence_level
     \<Rightarrow> string option \<Rightarrow> string option \<Rightarrow> json_obj \<Rightarrow> observation_row list \<Rightarrow> string list \<Rightarrow> string
     \<Rightarrow> f_error + finding_draft" where
  "draft rule_id version family texts sev conf asset service data linked evidence_ids dedupe =
     (case texts of (title, description, rationale, recommendation) \<Rightarrow>
      let d = \<lparr>fd_rule_id = rule_id, fd_rule_version = version, fd_family = family, fd_title = title,
            fd_severity = sev, fd_confidence = conf, fd_asset_id = asset, fd_service_id = service,
            fd_description = description, fd_rationale = rationale, fd_recommendation = recommendation,
            fd_data = data, fd_observation_ids = observation_ids linked,
            fd_evidence_artifact_ids =
              take MAX_OBSERVATION_LINKS (add_new evidence_ids (observation_evidence linked)),
            fd_dedupe_key = dedupe\<rparr>
      in if valid_draft d then Inr d else Inl FE_ValidationError)"

text \<open>The loop of a rule: skip what gives nothing, stop at the first raise.\<close>

fun collect_results :: "(f_error + 'a) option list \<Rightarrow> f_error + 'a list" where
  "collect_results [] = Inr []"
| "collect_results (None # xs) = collect_results xs"
| "collect_results (Some r # xs) = rbind r (\<lambda>x. rbind (collect_results xs) (\<lambda>ys. Inr (x # ys)))"

definition per_service ::
  "string list \<Rightarrow> (observation_row list \<Rightarrow> (f_error + finding_draft) option) \<Rightarrow> evaluation_context
     \<Rightarrow> f_error + finding_draft list" where
  "per_service kinds f ctx =
     collect_results (map (\<lambda>g. f (snd g)) (grouped_by_service (usable_observations ctx (Some kinds))))"

text \<open>The texts of a catalogue entry with its rationale.\<close>

definition copy_texts :: "rule_env \<Rightarrow> string \<Rightarrow> string \<Rightarrow> json list \<Rightarrow> string \<times> string \<times> string \<times> string" where
  "copy_texts env entry rationale args =
     (re_copy env (entry @ ''.title'') [], re_copy env (entry @ ''.description'') [],
      re_copy env rationale args, re_copy env (entry @ ''.recommendation'') [])"

definition service_draft ::
  "string \<Rightarrow> string \<Rightarrow> string \<times> string \<times> string \<times> string \<Rightarrow> severity \<Rightarrow> confidence_level \<Rightarrow> json_obj
     \<Rightarrow> observation_row \<Rightarrow> observation_row list \<Rightarrow> f_error + finding_draft" where
  "service_draft rule_id family texts sev conf data sample linked =
     draft rule_id ''1'' family texts sev conf (Some (or_asset_id sample)) (Some (or_service_id sample)) data
       linked [] (service_dedupe_key sample)"

record finding_rule =
  fr_id :: string
  fr_version :: string
  fr_family :: string
  fr_evaluate :: "rule_env \<Rightarrow> evaluation_context \<Rightarrow> f_error + finding_draft list"

end
