(* ===== verification/Finding_Rules.thy ===== *)
theory Finding_Rules
  imports Finding_Base
begin

text \<open>
  The nineteen rules of \<^verbatim>\<open>findings/rules/\<close> with the catalogues of \<^verbatim>\<open>findings/catalog.py\<close>, and the rule
  registry of \<^verbatim>\<open>findings/registry.py\<close>. A rule reads the observations, services and the passive document of
  its context and returns drafts or raises.
\<close>

section \<open>String helpers\<close>

definition upper_char :: "char \<Rightarrow> string" where
  "upper_char c = (if 97 \<le> code c \<and> code c \<le> 122 \<or> 224 \<le> code c \<and> code c \<le> 254 \<and> code c \<noteq> 247
     then [char_of (code c - 32)] else if code c = 223 then ''SS'' else [c])"

definition upper :: "string \<Rightarrow> string" where
  "upper s = concat (map upper_char s)"

definition py_int :: "rule_env \<Rightarrow> json \<Rightarrow> f_error + int" where
  "py_int env v = (case v of JInt i \<Rightarrow> Inr i
     | JBool b \<Rightarrow> Inr (if b then 1 else 0)
     | JFloat t \<Rightarrow> Inr (re_float_int env t)
     | JStr s \<Rightarrow> (case py_int_of_str s of Some i \<Rightarrow> Inr i | None \<Rightarrow> Inl (FE_ValueError s))
     | _ \<Rightarrow> Inl FE_TypeError)"

section \<open>SSH\<close>

definition WEAK_SSH_KEX :: "string list" where
  "WEAK_SSH_KEX = [''diffie-hellman-group1-sha1'', ''diffie-hellman-group14-sha1'',
     ''diffie-hellman-grp-exchange-sha1'', ''ecdsa-sha2-nistp256-sha1'']"

definition WEAK_SSH_HOST_KEY :: "string list" where
  "WEAK_SSH_HOST_KEY = [''ssh-dss'', ''ssh-dsa'', ''ssh-rsa'', ''ecdsa-sha2-nistp256'', ''ecdsa-sha2-nistp384'',
     ''ecdsa-sha2-nistp521'']"

definition WEAK_SSH_ENCRYPTION :: "string list" where
  "WEAK_SSH_ENCRYPTION = [''3des-cbc'', ''aes128-cbc'', ''aes192-cbc'', ''aes256-cbc'', ''arcfour'', ''arcfour128'',
     ''arcfour256'', ''blowfish-cbc'', ''cast128-cbc'', ''des-cbc'', ''rijndael-cbc@lysator.liu.se'']"

definition WEAK_SSH_MAC :: "string list" where
  "WEAK_SSH_MAC = [''hmac-md5'', ''hmac-md5-96'', ''hmac-sha1'', ''hmac-sha1-96'', ''hmac-sha1-etm@openssh.com'',
     ''hmac-md5-etm@openssh.com'', ''umac-64@openssh.com'', ''umac-64-etm@openssh.com'']"

definition WEAK_SSH_BY_FAMILY :: "(string \<times> string list) list" where
  "WEAK_SSH_BY_FAMILY = [(''kex'', WEAK_SSH_KEX), (''host_key'', WEAK_SSH_HOST_KEY),
     (''encryption'', WEAK_SSH_ENCRYPTION), (''mac'', WEAK_SSH_MAC)]"

text \<open>One observation and one family of the double loop.\<close>

definition ssh_add_family ::
  "observation_row \<Rightarrow> (string \<times> string list) list \<Rightarrow> string \<times> string list \<Rightarrow> (string \<times> string list) list" where
  "ssh_add_family r weak fc = (case fc of (family, catalog) \<Rightarrow>
     let matched = filter (\<lambda>n. lower n \<in> set catalog) (as_string_list (jget (or_data r) family))
     in if matched = [] then weak
        else dict_set family (add_new (case map_of weak family of None \<Rightarrow> [] | Some ns \<Rightarrow> ns) matched) weak)"

definition ssh_weak :: "observation_row list \<Rightarrow> (string \<times> string list) list" where
  "ssh_weak grp = foldl (\<lambda>weak r. foldl (ssh_add_family r) weak WEAK_SSH_BY_FAMILY) [] grp"

definition ssh_high_tokens :: "string list" where
  "ssh_high_tokens = [''diffie-hellman-group1-sha1'', ''ssh-dss'', ''ssh-dsa'', ''arcfour'', ''arcfour128'',
     ''arcfour256'', ''3des-cbc'', ''des-cbc'', ''hmac-md5'', ''hmac-md5-96'']"

definition ssh_severity :: "(string \<times> string list) list \<Rightarrow> severity" where
  "ssh_severity weak =
     (if list_ex (\<lambda>p. list_ex (\<lambda>n. lower n \<in> set ssh_high_tokens) (snd p)) weak then SEV_HIGH
      else if (case map_of weak ''encryption'' of None \<Rightarrow> False | Some ns \<Rightarrow> ns \<noteq> [])
           \<or> (case map_of weak ''kex'' of None \<Rightarrow> False | Some ns \<Rightarrow> ns \<noteq> []) then SEV_MEDIUM
      else SEV_LOW)"

definition weak_ssh_evaluate :: "rule_env \<Rightarrow> evaluation_context \<Rightarrow> f_error + finding_draft list" where
  "weak_ssh_evaluate env = per_service [''ssh_algorithms''] (\<lambda>grp.
     let weak = ssh_weak grp; fams = sort (map fst weak)
     in if weak = [] then None
        else Some (service_draft ''WS-SSH-WEAK-ALGORITHMS'' ''ssh''
          (copy_texts env ''SSH_WEAK'' ''ssh_rationale'' [JStr (join_on '', '' fams)]) (ssh_severity weak) CL_HIGH
          [(''weak_algorithms'', JObj (map (\<lambda>p. (fst p, JList (map JStr (snd p)))) weak)),
           (''families'', JList (map JStr fams))] (hd grp) grp))"

section \<open>TLS\<close>

definition LEGACY_TLS_PROTOCOLS :: "string list" where
  "LEGACY_TLS_PROTOCOLS = [''ssl'', ''sslv2'', ''sslv3'', ''ssl2'', ''ssl3'', ''tlsv1'', ''tlsv1.0'', ''tls1'', ''tls1.0'',
     ''tlsv1.1'', ''tls1.1'']"

definition TLS1_0_TOKENS :: "string list" where
  "TLS1_0_TOKENS = [''tlsv1'', ''tlsv1.0'', ''tls1'', ''tls1.0'']"

definition SSL_TOKENS :: "string list" where
  "SSL_TOKENS = [''ssl'', ''sslv2'', ''sslv3'', ''ssl2'', ''ssl3'']"

definition WEAK_TLS_CIPHER_TOKENS :: "string list" where
  "WEAK_TLS_CIPHER_TOKENS = [''RC4'', ''DES'', ''3DES'', ''NULL'', ''EXPORT'', ''EXP'', ''MD5'', ''ADH'', ''AECDH'',
     ''PSK-NULL'', ''IDEA'']"

definition normalize_protocol :: "string \<Rightarrow> string" where
  "normalize_protocol v = filter (\<lambda>c. c \<noteq> CHR '' '' \<and> c \<noteq> CHR ''_'') (lower (strip v))"

definition protocol_severity :: "string list \<Rightarrow> severity" where
  "protocol_severity ps =
     (if list_ex (\<lambda>p. normalize_protocol p \<in> set SSL_TOKENS) ps then SEV_CRITICAL
      else if list_ex (\<lambda>p. normalize_protocol p \<in> set TLS1_0_TOKENS) ps then SEV_HIGH else SEV_MEDIUM)"

definition legacy_tls_evaluate :: "rule_env \<Rightarrow> evaluation_context \<Rightarrow> f_error + finding_draft list" where
  "legacy_tls_evaluate env = per_service [''tls_session''] (\<lambda>grp.
     let protocols = map (\<lambda>r. py_str (jget (or_data r) ''protocol''))
           (filter (\<lambda>r. json_truthy (jget (or_data r) ''protocol'')) grp);
         legacy = filter (\<lambda>p. normalize_protocol p \<in> set LEGACY_TLS_PROTOCOLS) protocols
     in if legacy = [] then None
        else Some (service_draft ''WS-TLS-LEGACY-PROTOCOL'' ''tls''
          (copy_texts env ''TLS_LEGACY'' ''tls_legacy_rationale'' [JStr (hd legacy)]) (protocol_severity legacy) CL_HIGH
          [(''protocols'', JList (map JStr legacy))] (hd grp) grp))"

definition weak_cipher :: "string \<Rightarrow> bool" where
  "weak_cipher c \<longleftrightarrow> list_ex (\<lambda>t. contains_str (upper c) t) WEAK_TLS_CIPHER_TOKENS"

definition weak_cipher_evaluate :: "rule_env \<Rightarrow> evaluation_context \<Rightarrow> f_error + finding_draft list" where
  "weak_cipher_evaluate env = per_service [''tls_session''] (\<lambda>grp.
     let weak = map (\<lambda>r. py_str (jget (or_data r) ''cipher''))
           (filter (\<lambda>r. json_truthy (jget (or_data r) ''cipher'') \<and> weak_cipher (py_str (jget (or_data r) ''cipher''))) grp)
     in if weak = [] then None
        else Some (service_draft ''WS-TLS-WEAK-CIPHER'' ''tls''
          (copy_texts env ''TLS_WEAK_CIPHER'' ''tls_cipher_rationale'' [JStr (hd weak)]) SEV_HIGH CL_HIGH
          [(''ciphers'', JList (map JStr weak))] (hd grp) grp))"

definition cert_time :: "rule_env \<Rightarrow> json \<Rightarrow> int option" where
  "cert_time env v = (case v of JStr s \<Rightarrow> if strip s = [] then None
     else re_parse_time env (join_on '' '' (words_of [] (strip s))) | _ \<Rightarrow> None)"

definition cert_expired :: "rule_env \<Rightarrow> json \<Rightarrow> int \<Rightarrow> bool" where
  "cert_expired env not_after evaluated_at =
     (case cert_time env not_after of None \<Rightarrow> False | Some t \<Rightarrow> t < evaluated_at)"

definition cert_expired_evaluate :: "rule_env \<Rightarrow> evaluation_context \<Rightarrow> f_error + finding_draft list" where
  "cert_expired_evaluate env ctx = per_service [''tls_certificate''] (\<lambda>grp.
     let expired = filter (\<lambda>r. cert_expired env (jget (or_data r) ''not_after'') (ec_evaluated_at ctx)) grp;
         sample = hd expired
     in if expired = [] then None
        else Some (service_draft ''WS-TLS-CERT-EXPIRED'' ''tls''
          (copy_texts env ''TLS_CERT_EXPIRED'' ''tls_expired_rationale''
             [jget (or_data sample) ''not_after'', JStr (re_iso env (ec_evaluated_at ctx))]) SEV_HIGH CL_HIGH
          [(''not_after'', jget (or_data sample) ''not_after''), (''subject'', jget (or_data sample) ''subject'')]
          sample expired)) ctx"

definition cert_untrusted :: "rule_env \<Rightarrow> observation_row \<Rightarrow> bool" where
  "cert_untrusted env r = (let v = jget (or_data r) ''verify_code'' in
     if v = JNull then False else case py_int env v of Inl _ \<Rightarrow> False | Inr i \<Rightarrow> i \<noteq> 0)"

definition cert_untrusted_evaluate :: "rule_env \<Rightarrow> evaluation_context \<Rightarrow> f_error + finding_draft list" where
  "cert_untrusted_evaluate env = per_service [''tls_certificate''] (\<lambda>grp.
     let untrusted = filter (cert_untrusted env) grp; sample = hd untrusted
     in if untrusted = [] then None
        else Some (service_draft ''WS-TLS-CERT-UNTRUSTED'' ''tls''
          (copy_texts env ''TLS_CERT_UNTRUSTED'' ''tls_untrusted_rationale''
             [jget (or_data sample) ''verify_code'', jget (or_data sample) ''verify_message'']) SEV_MEDIUM CL_HIGH
          (map (\<lambda>k. (k, jget (or_data sample) k)) [''verify_code'', ''verify_message'', ''subject'', ''issuer''])
          sample untrusted))"

section \<open>HTTP\<close>

definition HTTPS_PORTS :: "int list" where
  "HTTPS_PORTS = [443, 8443, 9443]"

definition HTTPS_NAMES :: "string list" where
  "HTTPS_NAMES = [''https'', ''https-alt'', ''ssl/http'', ''http-alt'']"

definition is_https :: "service_record \<Rightarrow> bool" where
  "is_https s = (lower (or_str (sr_tunnel s)) = ''ssl'' \<or> lower (or_str (sr_service_name s)) \<in> set HTTPS_NAMES
     \<or> sr_port s \<in> set HTTPS_PORTS)"

definition headers_of :: "observation_row \<Rightarrow> (string \<times> string) list" where
  "headers_of r = (case jor (jget (or_data r) ''headers'') (JObj []) of
     JObj d \<Rightarrow> dict_update [] (map (\<lambda>p. (lower (fst p), py_str (snd p))) (filter (\<lambda>p. json_truthy (snd p)) d))
   | _ \<Rightarrow> [])"

definition header_of :: "observation_row \<Rightarrow> string \<Rightarrow> string option" where
  "header_of r name = (let v = map_of (headers_of r) (lower name) in if truthy v then v else None)"

definition headers_json :: "(string \<times> string) list \<Rightarrow> json" where
  "headers_json hs = JObj (map (\<lambda>p. (fst p, JStr (snd p))) hs)"

definition missing_hsts_evaluate :: "rule_env \<Rightarrow> evaluation_context \<Rightarrow> f_error + finding_draft list" where
  "missing_hsts_evaluate env ctx = per_service [''http_response''] (\<lambda>grp.
     let sample = hd grp
     in case map_of (service_map ctx) (or_service_id sample) of None \<Rightarrow> None
        | Some service \<Rightarrow>
            if \<not> is_https service then None
            else if list_ex (\<lambda>r. header_of r ''strict-transport-security'' \<noteq> None) grp then None
            else Some (service_draft ''WS-HTTP-MISSING-HSTS'' ''http''
              (copy_texts env ''HTTP_MISSING_HSTS'' ''http_hsts_rationale'' []) SEV_MEDIUM CL_HIGH
              [(''headers'', headers_json (headers_of sample))] sample grp)) ctx"

definition missing_headers :: "observation_row list \<Rightarrow> string list" where
  "missing_headers grp =
     (if \<not> list_ex (\<lambda>r. header_of r ''x-frame-options'' \<noteq> None) grp
       \<and> \<not> list_ex (\<lambda>r. contains_str (or_str (header_of r ''content-security-policy'')) ''frame-ancestors'') grp
      then [''x-frame-options''] else [])
     @ (if \<not> list_ex (\<lambda>r. header_of r ''content-security-policy'' \<noteq> None) grp
        then [''content-security-policy''] else [])"

definition missing_security_headers_evaluate ::
  "rule_env \<Rightarrow> evaluation_context \<Rightarrow> f_error + finding_draft list" where
  "missing_security_headers_evaluate env = per_service [''http_response''] (\<lambda>grp.
     let missing = missing_headers grp
     in if missing = [] then None
        else Some (service_draft ''WS-HTTP-MISSING-SECURITY-HEADERS'' ''http''
          (copy_texts env ''HTTP_MISSING_HEADERS'' ''http_headers_rationale'' [JStr (join_on '', '' missing)])
          SEV_LOW CL_MEDIUM
          [(''missing_headers'', JList (map JStr missing)), (''headers'', headers_json (headers_of (hd grp)))]
          (hd grp) grp))"

definition disclosed_headers :: "observation_row list \<Rightarrow> (string \<times> string) list" where
  "disclosed_headers grp = foldl (\<lambda>d r. foldl (\<lambda>d name.
       case map_of (headers_of r) name of None \<Rightarrow> d | Some v \<Rightarrow> if v \<noteq> [] then dict_set name v d else d)
     d [''server'', ''x-powered-by'']) [] grp"

definition server_disclosure_evaluate :: "rule_env \<Rightarrow> evaluation_context \<Rightarrow> f_error + finding_draft list" where
  "server_disclosure_evaluate env = per_service [''http_response''] (\<lambda>grp.
     let disclosed = disclosed_headers grp
     in if disclosed = [] then None
        else Some (service_draft ''WS-HTTP-SERVER-DISCLOSURE'' ''http''
          (copy_texts env ''HTTP_SERVER_DISCLOSURE'' ''http_disclosure_rationale''
             [JStr (join_on '', '' (map (\<lambda>p. fst p @ ''='' @ snd p) disclosed))]) SEV_INFO CL_HIGH
          [(''headers'', headers_json disclosed)] (hd grp) grp))"

section \<open>SMB\<close>

definition LEGACY_SMB_DIALECTS :: "string list" where
  "LEGACY_SMB_DIALECTS = [''smb1'', ''smb 1'', ''smb1.0'', ''nt lm 0.12'', ''ntlm 0.12'', ''lanman'', ''lanman1.0'',
     ''lanman2.1'']"

definition SMB_SIGNING_DISABLED :: "string list" where
  "SMB_SIGNING_DISABLED = [''disabled'', ''not required'', ''not-required'', ''false'', ''off'', ''no'', ''unsigned'']"

definition null_session_evaluate :: "rule_env \<Rightarrow> evaluation_context \<Rightarrow> f_error + finding_draft list" where
  "null_session_evaluate env = per_service [''smb_null_session''] (\<lambda>grp.
     let accepted = filter (\<lambda>r. jget (or_data r) ''accepted'' = JBool True) grp; sample = hd accepted
     in if accepted = [] then None
        else Some (service_draft ''WS-SMB-NULL-SESSION'' ''smb''
          (copy_texts env ''SMB_NULL_SESSION'' ''smb_null_rationale'' [jget (or_data sample) ''share_count'']) SEV_HIGH CL_HIGH
          [(''accepted'', JBool True), (''share_count'', jget (or_data sample) ''share_count''),
           (''shares'', jor (jget (or_data sample) ''shares'') (JList []))] sample accepted))"

definition signing_value :: "json_obj \<Rightarrow> json" where
  "signing_value d = jor (jget d ''signing'') (jget d ''smb_signing'')"

definition signing_disabled :: "json_obj \<Rightarrow> bool" where
  "signing_disabled d = (case signing_value d of JBool b \<Rightarrow> \<not> b | JNull \<Rightarrow> False
     | v \<Rightarrow> lower (strip (py_str v)) \<in> set SMB_SIGNING_DISABLED)"

definition signing_disabled_evaluate :: "rule_env \<Rightarrow> evaluation_context \<Rightarrow> f_error + finding_draft list" where
  "signing_disabled_evaluate env = per_service [''smb_null_session'', ''smb_probe_result''] (\<lambda>grp.
     let disabled = filter (\<lambda>r. signing_disabled (or_data r)) grp; sample = hd disabled
     in if disabled = [] then None
        else Some (service_draft ''WS-SMB-SIGNING-DISABLED'' ''smb''
          (copy_texts env ''SMB_SIGNING'' ''smb_signing_rationale'' []) SEV_MEDIUM CL_MEDIUM
          [(''signing'', signing_value (or_data sample))] sample disabled))"

definition dialect_value :: "json_obj \<Rightarrow> string option" where
  "dialect_value d = (let v = jor (jget d ''dialect'') (jget d ''smb_dialect'')
     in if json_truthy v then Some (py_str v) else None)"

definition legacy_dialect :: "json_obj \<Rightarrow> bool" where
  "legacy_dialect d = (case dialect_value d of None \<Rightarrow> False
     | Some s \<Rightarrow> s \<noteq> [] \<and> lower (strip s) \<in> set LEGACY_SMB_DIALECTS)"

definition json_opt_str :: "string option \<Rightarrow> json" where
  "json_opt_str s = (case s of None \<Rightarrow> JNull | Some v \<Rightarrow> JStr v)"

definition legacy_dialect_evaluate :: "rule_env \<Rightarrow> evaluation_context \<Rightarrow> f_error + finding_draft list" where
  "legacy_dialect_evaluate env = per_service [''smb_null_session'', ''smb_probe_result''] (\<lambda>grp.
     let legacy = filter (\<lambda>r. legacy_dialect (or_data r)) grp; sample = hd legacy;
         dialect = json_opt_str (dialect_value (or_data sample))
     in if legacy = [] then None
        else Some (service_draft ''WS-SMB-LEGACY-DIALECT'' ''smb''
          (copy_texts env ''SMB_LEGACY'' ''smb_dialect_rationale'' [dialect]) SEV_HIGH CL_MEDIUM
          [(''dialect'', dialect)] sample legacy))"

section \<open>DNS, SNMP and LDAP\<close>

definition dns_recursion_evaluate :: "rule_env \<Rightarrow> evaluation_context \<Rightarrow> f_error + finding_draft list" where
  "dns_recursion_evaluate env = per_service [''dns_flags''] (\<lambda>grp.
     let recursive = filter (\<lambda>r. jget (or_data r) ''recursion_available'' = JBool True) grp; sample = hd recursive
     in if recursive = [] then None
        else Some (service_draft ''WS-DNS-RECURSION'' ''dns''
          (copy_texts env ''DNS_RECURSION'' ''dns_recursion_rationale'' [jget (or_data sample) ''flags'']) SEV_MEDIUM CL_HIGH
          [(''flags'', jor (jget (or_data sample) ''flags'') (JList [])), (''recursion_available'', JBool True),
           (''rcode'', jget (or_data sample) ''rcode'')] sample recursive))"

definition dns_version_evaluate :: "rule_env \<Rightarrow> evaluation_context \<Rightarrow> f_error + finding_draft list" where
  "dns_version_evaluate env = per_service [''dns_identity''] (\<lambda>grp.
     let disclosed = filter (\<lambda>r. json_truthy (jget (or_data r) ''version'') \<or> json_truthy (jget (or_data r) ''hostname'')) grp;
         sample = hd disclosed; version = jget (or_data sample) ''version''; hostname = jget (or_data sample) ''hostname''
     in if disclosed = [] then None
        else Some (service_draft ''WS-DNS-VERSION-DISCLOSED'' ''dns''
          (copy_texts env ''DNS_VERSION'' ''dns_identity_rationale'' [version, hostname]) SEV_LOW CL_HIGH
          [(''version'', version), (''hostname'', hostname)] sample disclosed))"

definition snmp_unauthenticated_evaluate :: "rule_env \<Rightarrow> evaluation_context \<Rightarrow> f_error + finding_draft list" where
  "snmp_unauthenticated_evaluate env = per_service [''snmp_unauthenticated''] (\<lambda>grp.
     let responded = filter (\<lambda>r. jget (or_data r) ''responded'' = JBool True) grp; sample = hd responded
     in if responded = [] then None
        else Some (service_draft ''WS-SNMP-UNAUTHENTICATED'' ''snmp''
          (copy_texts env ''SNMP_UNAUTH'' ''snmp_rationale'' [jget (or_data sample) ''usm_indicator'']) SEV_HIGH CL_HIGH
          ((''responded'', JBool True)
            # map (\<lambda>k. (k, jget (or_data sample) k)) [''auth'', ''version'', ''usm_indicator'', ''sys_descr''])
          sample responded))"

definition ldap_anonymous_evaluate :: "rule_env \<Rightarrow> evaluation_context \<Rightarrow> f_error + finding_draft list" where
  "ldap_anonymous_evaluate env = per_service [''ldap_rootdse'', ''ldap_anonymous_bind''] (\<lambda>grp.
     let accepted = filter (\<lambda>r. jget (or_data r) ''anonymous_bind'' = JBool True) grp; sample = hd accepted
     in if accepted = [] then None
        else Some (service_draft ''WS-LDAP-ANONYMOUS-BIND'' ''ldap''
          (copy_texts env ''LDAP_ANON'' ''ldap_rationale'' []) SEV_MEDIUM CL_HIGH
          [(''anonymous_bind'', JBool True), (''attributes'', jor (jget (or_data sample) ''attributes'') (JObj []))]
          sample accepted))"

section \<open>Management protocols\<close>

definition INSECURE_MANAGEMENT_NAMES :: "string list" where
  "INSECURE_MANAGEMENT_NAMES = [''telnet'', ''ftp'', ''tftp'', ''rsh'', ''rlogin'', ''rexec'', ''finger'', ''exec'', ''login'',
     ''shell'', ''chargen'', ''discard'', ''echo'']"

definition INSECURE_MANAGEMENT_PORTS :: "((int \<times> string) \<times> (string \<times> severity)) list" where
  "INSECURE_MANAGEMENT_PORTS = [((21, ''tcp''), (''ftp'', SEV_HIGH)), ((23, ''tcp''), (''telnet'', SEV_HIGH)),
     ((69, ''udp''), (''tftp'', SEV_MEDIUM)), ((69, ''tcp''), (''tftp'', SEV_MEDIUM)),
     ((512, ''tcp''), (''rexec'', SEV_HIGH)), ((513, ''tcp''), (''rlogin'', SEV_HIGH)),
     ((514, ''tcp''), (''rsh'', SEV_HIGH)), ((79, ''tcp''), (''finger'', SEV_LOW))]"

definition NAME_SEVERITY :: "(string \<times> severity) list" where
  "NAME_SEVERITY = [(''telnet'', SEV_HIGH), (''ftp'', SEV_HIGH), (''tftp'', SEV_MEDIUM), (''rsh'', SEV_HIGH),
     (''rlogin'', SEV_HIGH), (''rexec'', SEV_HIGH), (''finger'', SEV_LOW), (''exec'', SEV_HIGH), (''login'', SEV_HIGH),
     (''shell'', SEV_HIGH), (''chargen'', SEV_MEDIUM), (''discard'', SEV_LOW), (''echo'', SEV_LOW)]"

definition management_match :: "service_record \<Rightarrow> (string \<times> severity) option" where
  "management_match s =
     (let name = strip (lower (or_str (sr_service_name s)))
      in if sr_state s \<noteq> ''open'' then None
         else if name \<in> set INSECURE_MANAGEMENT_NAMES
         then Some (name, case map_of NAME_SEVERITY name of None \<Rightarrow> SEV_MEDIUM | Some sev \<Rightarrow> sev)
         else case map_of INSECURE_MANAGEMENT_PORTS (sr_port s, lower (sr_protocol s)) of
             None \<Rightarrow> None
           | Some (n, sev) \<Rightarrow>
               if name \<noteq> [] \<and> name \<notin> set INSECURE_MANAGEMENT_NAMES \<and> name \<notin> {n, ''unknown'', []} then None
               else Some (n, sev))"

definition insecure_management_evaluate :: "rule_env \<Rightarrow> evaluation_context \<Rightarrow> f_error + finding_draft list" where
  "insecure_management_evaluate env ctx = collect_results (map (\<lambda>s. case management_match s of None \<Rightarrow> None
     | Some (name, sev) \<Rightarrow>
         let place = [JStr (sr_protocol s), JInt (sr_port s)];
             shown = (if truthy (sr_service_name s) then the (sr_service_name s) else name)
         in Some (draft ''WS-MGMT-INSECURE-PROTOCOL'' ''1'' ''management''
           (re_copy env ''management_title'' [JStr name], re_copy env ''management_description'' (JStr name # place),
            re_copy env ''management_rationale'' (JStr shown # place),
            re_copy env ''management_recommendation'' [JStr name])
           sev CL_HIGH (Some (sr_asset_id s)) (Some (sr_id s))
           [(''protocol'', JStr (sr_protocol s)), (''port'', JInt (sr_port s)),
            (''service_name'', json_opt_str (sr_service_name s)), (''product'', json_opt_str (sr_product s)),
            (''matched_as'', JStr name), (''source'', JStr ''inventory_service'')] [] []
           (inventory_dedupe_key s))) (ec_services ctx))"

section \<open>Infrastructure\<close>

definition passive_sensor :: "json_obj \<Rightarrow> string \<Rightarrow> f_error + json_obj option" where
  "passive_sensor document name =
     rbind (case map_of document ''result'' of None \<Rightarrow> Inr [] | Some (JObj d) \<Rightarrow> Inr d | Some _ \<Rightarrow> Inl FE_AttributeError)
       (\<lambda>result. Inr (case jor (jget result ''sensors'') (jget document ''sensors'') of
          JObj sensors \<Rightarrow> (case jget sensors name of JObj d \<Rightarrow> Some d | _ \<Rightarrow> None)
        | _ \<Rightarrow> None))"

definition passive_evidence :: "evaluation_context \<Rightarrow> string list" where
  "passive_evidence ctx = (if truthy (ec_passive_artifact_id ctx) then [the (ec_passive_artifact_id ctx)] else [])"

definition sensor_presence ::
  "rule_env \<Rightarrow> string \<Rightarrow> string \<Rightarrow> string \<Rightarrow> severity \<Rightarrow> evaluation_context \<Rightarrow> f_error + finding_draft list" where
  "sensor_presence env rule_id sensor entry sev ctx = (case ec_passive_result ctx of None \<Rightarrow> Inr []
     | Some document \<Rightarrow> rbind (passive_sensor document sensor) (\<lambda>found. case found of None \<Rightarrow> Inr []
       | Some result \<Rightarrow>
           let status = py_str (jor (jget result ''status'') (JStr []))
           in rbind (py_int env (jor (jget result ''hits'') (JInt 0))) (\<lambda>hits.
             if status \<notin> {''detected'', ''partial''} \<or> hits < 1 then Inr []
             else rbind (draft rule_id ''1'' ''infrastructure''
               (copy_texts env entry ''infra_rationale'' [JStr sensor, JStr status, JInt hits]) sev
               (if status = ''detected'' then CL_HIGH else CL_MEDIUM) None None
               [(''sensor'', JStr sensor), (''status'', JStr status), (''hits'', JInt hits),
                (''source'', JStr ''passive_assessment'')] [] (passive_evidence ctx) ''audit'') (\<lambda>d. Inr [d]))))"

definition llmnr_evaluate :: "rule_env \<Rightarrow> evaluation_context \<Rightarrow> f_error + finding_draft list" where
  "llmnr_evaluate env = sensor_presence env ''WS-INFRA-LLMNR'' ''llmnr'' ''LLMNR'' SEV_MEDIUM"

definition nbns_evaluate :: "rule_env \<Rightarrow> evaluation_context \<Rightarrow> f_error + finding_draft list" where
  "nbns_evaluate env = sensor_presence env ''WS-INFRA-NBNS'' ''nbns'' ''NBNS'' SEV_MEDIUM"

definition dhcp_servers :: "json_obj \<Rightarrow> f_error + string list" where
  "dhcp_servers document = rbind (passive_sensor document ''dhcpv4'') (\<lambda>found.
     let dhcp = (case found of None \<Rightarrow> [] | Some d \<Rightarrow> d);
         summary = (case jget dhcp ''summary'' of JObj d \<Rightarrow> d | _ \<Rightarrow> []);
         value = (\<lambda>x. case x of JObj d \<Rightarrow> jor (jget d ''server_id'') (jget d ''address'') | _ \<Rightarrow> x)
     in Inr (case jor (jget summary ''servers'') (JList []) of
          JList servers \<Rightarrow> add_new [] (map py_str (filter json_truthy (map value servers)))
        | _ \<Rightarrow> []))"

definition multiple_dhcp_evaluate :: "rule_env \<Rightarrow> evaluation_context \<Rightarrow> f_error + finding_draft list" where
  "multiple_dhcp_evaluate env ctx = (case ec_passive_result ctx of None \<Rightarrow> Inr []
     | Some document \<Rightarrow> rbind (dhcp_servers document) (\<lambda>servers.
         if length servers < 2 then Inr []
         else rbind (draft ''WS-INFRA-MULTIPLE-DHCP'' ''1'' ''infrastructure''
           (copy_texts env ''MULTIPLE_DHCP'' ''dhcp_rationale'' [JInt (int (length servers))]) SEV_MEDIUM CL_HIGH None None
           [(''servers'', JList (map JStr servers)), (''source'', JStr ''passive_assessment'')] []
           (passive_evidence ctx) ''audit'') (\<lambda>d. Inr [d])))"

section \<open>The registry\<close>

definition mk_rule ::
  "string \<Rightarrow> string \<Rightarrow> (rule_env \<Rightarrow> evaluation_context \<Rightarrow> f_error + finding_draft list) \<Rightarrow> finding_rule" where
  "mk_rule i family ev = \<lparr>fr_id = i, fr_version = ''1'', fr_family = family, fr_evaluate = ev\<rparr>"

type_synonym rule_registry = "(string \<times> finding_rule) list"

definition register_rule :: "finding_rule \<Rightarrow> rule_registry \<Rightarrow> f_error + rule_registry" where
  "register_rule r reg = (if fr_id r \<in> fst ` set reg
     then Inl (FE_ValueError (''Finding rule already registered: '' @ fr_id r))
     else Inr (reg @ [(fr_id r, r)]))"

definition get_rule :: "rule_registry \<Rightarrow> string \<Rightarrow> f_error + finding_rule" where
  "get_rule reg i = (case map_of reg i of None \<Rightarrow> Inl (FE_LookupError (''Unknown finding rule: '' @ i)) | Some r \<Rightarrow> Inr r)"

definition rule_ids :: "rule_registry \<Rightarrow> string list" where
  "rule_ids reg = sort (map fst reg)"

definition registry_rules :: "rule_registry \<Rightarrow> finding_rule list" where
  "registry_rules reg = map (\<lambda>i. the (map_of reg i)) (rule_ids reg)"

fun register_rules :: "finding_rule list \<Rightarrow> rule_registry \<Rightarrow> f_error + rule_registry" where
  "register_rules [] reg = Inr reg"
| "register_rules (r # rs) reg = rbind (register_rule r reg) (register_rules rs)"

definition all_rules :: "finding_rule list" where
  "all_rules =
     [mk_rule ''WS-SSH-WEAK-ALGORITHMS'' ''ssh'' weak_ssh_evaluate,
      mk_rule ''WS-TLS-LEGACY-PROTOCOL'' ''tls'' legacy_tls_evaluate,
      mk_rule ''WS-TLS-WEAK-CIPHER'' ''tls'' weak_cipher_evaluate,
      mk_rule ''WS-TLS-CERT-EXPIRED'' ''tls'' cert_expired_evaluate,
      mk_rule ''WS-TLS-CERT-UNTRUSTED'' ''tls'' cert_untrusted_evaluate,
      mk_rule ''WS-HTTP-MISSING-HSTS'' ''http'' missing_hsts_evaluate,
      mk_rule ''WS-HTTP-MISSING-SECURITY-HEADERS'' ''http'' missing_security_headers_evaluate,
      mk_rule ''WS-HTTP-SERVER-DISCLOSURE'' ''http'' server_disclosure_evaluate,
      mk_rule ''WS-SMB-NULL-SESSION'' ''smb'' null_session_evaluate,
      mk_rule ''WS-SMB-SIGNING-DISABLED'' ''smb'' signing_disabled_evaluate,
      mk_rule ''WS-SMB-LEGACY-DIALECT'' ''smb'' legacy_dialect_evaluate,
      mk_rule ''WS-DNS-RECURSION'' ''dns'' dns_recursion_evaluate,
      mk_rule ''WS-DNS-VERSION-DISCLOSED'' ''dns'' dns_version_evaluate,
      mk_rule ''WS-SNMP-UNAUTHENTICATED'' ''snmp'' snmp_unauthenticated_evaluate,
      mk_rule ''WS-LDAP-ANONYMOUS-BIND'' ''ldap'' ldap_anonymous_evaluate,
      mk_rule ''WS-MGMT-INSECURE-PROTOCOL'' ''management'' insecure_management_evaluate,
      mk_rule ''WS-INFRA-LLMNR'' ''infrastructure'' llmnr_evaluate,
      mk_rule ''WS-INFRA-NBNS'' ''infrastructure'' nbns_evaluate,
      mk_rule ''WS-INFRA-MULTIPLE-DHCP'' ''infrastructure'' multiple_dhcp_evaluate]"

definition default_rule_registry :: "f_error + rule_registry" where
  "default_rule_registry = register_rules all_rules []"

end
