(* ===== verification/Finding_Store.thy ===== *)
theory Finding_Store
  imports Finding_Rules
begin

text \<open>
  \<^verbatim>\<open>findings/engine.py\<close>: evaluation of the rules and merging of their drafts; \<^verbatim>\<open>findings/store.py\<close>: the
  finding rows, the operator's status decisions and their trail. Both tables are in insertion order, the
  events in the order of their ids.
\<close>

section \<open>The engine\<close>

definition merge_drafts :: "finding_draft \<Rightarrow> finding_draft \<Rightarrow> finding_draft" where
  "merge_drafts l r =
     (let obs = add_new (fd_observation_ids l) (fd_observation_ids r);
          data = dict_update (fd_data l) (fd_data r)
      in l\<lparr>fd_severity := (if SEVERITY_RANK (fd_severity l) \<le> SEVERITY_RANK (fd_severity r)
              then fd_severity l else fd_severity r),
           fd_confidence := (if CONFIDENCE_RANK (fd_confidence l) \<le> CONFIDENCE_RANK (fd_confidence r)
              then fd_confidence l else fd_confidence r),
           fd_observation_ids := obs,
           fd_evidence_artifact_ids := add_new (fd_evidence_artifact_ids l) (fd_evidence_artifact_ids r),
           fd_data := (if fd_observation_ids l \<noteq> [] \<or> fd_observation_ids r \<noteq> []
              then dict_set ''correlated_observation_count'' (JInt (int (length obs))) data else data),
           fd_rationale := (if fd_rationale l = fd_rationale r then fd_rationale l
              else fd_rationale l @ '' '' @ fd_rationale r)\<rparr>)"

definition merge_key :: "finding_draft \<Rightarrow> string \<times> string" where
  "merge_key d = (fd_rule_id d, fd_dedupe_key d)"

definition merge_in ::
  "((string \<times> string) \<times> finding_draft) list \<Rightarrow> finding_draft \<Rightarrow> ((string \<times> string) \<times> finding_draft) list" where
  "merge_in merged d = (case map_of merged (merge_key d) of
     None \<Rightarrow> dict_set (merge_key d) d merged
   | Some x \<Rightarrow> dict_set (merge_key d) (merge_drafts x d) merged)"

definition draft_order :: "finding_draft \<Rightarrow> nat \<times> string \<times> string" where
  "draft_order d = (SEVERITY_RANK (fd_severity d), fd_rule_id d, fd_dedupe_key d)"

definition deduplicate_drafts :: "finding_draft list \<Rightarrow> finding_draft list" where
  "deduplicate_drafts ds = sort_key draft_order (map snd (foldl merge_in [] ds))"

fun run_rules :: "rule_env \<Rightarrow> evaluation_context \<Rightarrow> finding_rule list \<Rightarrow> f_error + finding_draft list" where
  "run_rules env ctx [] = Inr []"
| "run_rules env ctx (r # rs) =
     rbind (fr_evaluate r env ctx) (\<lambda>ds. rbind (run_rules env ctx rs) (\<lambda>es. Inr (ds @ es)))"

definition evaluate_findings :: "rule_env \<Rightarrow> rule_registry \<Rightarrow> evaluation_context \<Rightarrow> f_error + finding_draft list" where
  "evaluate_findings env reg ctx =
     rbind (run_rules env ctx (registry_rules reg)) (\<lambda>ds. Inr (deduplicate_drafts ds))"

section \<open>Rows\<close>

record finding_row =
  fi_id :: string
  fi_audit_id :: string
  fi_asset_id :: "string option"
  fi_service_id :: "string option"
  fi_rule_id :: string
  fi_rule_version :: string
  fi_schema_version :: int
  fi_family :: string
  fi_title :: string
  fi_severity :: severity
  fi_confidence :: confidence_level
  fi_status :: finding_status
  fi_description :: string
  fi_rationale :: string
  fi_recommendation :: string
  fi_data :: json_obj
  fi_observation_ids :: "string list"
  fi_evidence_artifact_ids :: "string list"
  fi_dedupe_key :: string
  fi_first_seen :: int
  fi_last_seen :: int
  fi_created_at :: int
  fi_updated_at :: int

record state_event =
  se_finding_id :: string
  se_audit_id :: string
  se_created_at :: int
  se_actor :: string
  se_from_status :: finding_status
  se_to_status :: finding_status
  se_reason :: string
  se_details :: json_obj

record finding_db =
  db_findings :: "finding_row list"
  db_state_events :: "state_event list"

definition FINDING_SCHEMA_VERSION :: int where
  "FINDING_SCHEMA_VERSION = 1"

type_synonym finding_identity = "string \<times> string \<times> string"

definition finding_key :: "finding_row \<Rightarrow> finding_identity" where
  "finding_key r = (fi_audit_id r, fi_rule_id r, fi_dedupe_key r)"

section \<open>Storing an evaluation\<close>

definition update_finding :: "int \<Rightarrow> finding_draft \<Rightarrow> finding_row \<Rightarrow> finding_row" where
  "update_finding now d r = r\<lparr>fi_asset_id := fd_asset_id d, fi_service_id := fd_service_id d,
     fi_rule_version := fd_rule_version d, fi_schema_version := FINDING_SCHEMA_VERSION, fi_family := fd_family d,
     fi_title := fd_title d, fi_severity := fd_severity d, fi_confidence := fd_confidence d,
     fi_description := fd_description d, fi_rationale := fd_rationale d, fi_recommendation := fd_recommendation d,
     fi_data := bound_observation_data (fd_data d),
     fi_observation_ids := take MAX_OBSERVATION_LINKS (fd_observation_ids d),
     fi_evidence_artifact_ids := take MAX_OBSERVATION_LINKS (fd_evidence_artifact_ids d),
     fi_last_seen := now, fi_updated_at := now\<rparr>"

definition new_finding :: "string \<Rightarrow> int \<Rightarrow> string \<Rightarrow> finding_draft \<Rightarrow> finding_row" where
  "new_finding audit now i d = \<lparr>fi_id = i, fi_audit_id = audit, fi_asset_id = fd_asset_id d,
     fi_service_id = fd_service_id d, fi_rule_id = fd_rule_id d, fi_rule_version = fd_rule_version d,
     fi_schema_version = FINDING_SCHEMA_VERSION, fi_family = fd_family d, fi_title = fd_title d,
     fi_severity = fd_severity d, fi_confidence = fd_confidence d, fi_status = FS_OPEN,
     fi_description = fd_description d, fi_rationale = fd_rationale d, fi_recommendation = fd_recommendation d,
     fi_data = bound_observation_data (fd_data d),
     fi_observation_ids = take MAX_OBSERVATION_LINKS (fd_observation_ids d),
     fi_evidence_artifact_ids = take MAX_OBSERVATION_LINKS (fd_evidence_artifact_ids d),
     fi_dedupe_key = fd_dedupe_key d, fi_first_seen = now, fi_last_seen = now, fi_created_at = now,
     fi_updated_at = now\<rparr>"

definition finding_draft_key :: "string \<Rightarrow> finding_draft \<Rightarrow> finding_identity" where
  "finding_draft_key audit d = (audit, fd_rule_id d, fd_dedupe_key d)"

text \<open>
  \<open>fresh n\<close> is the UUID for the n-th draft, \<open>parents\<close> tells whether the audit, asset and service a draft
  names exist; both an insert and an update write these foreign keys.
\<close>

fun upsert_findings ::
  "(nat \<Rightarrow> string) \<Rightarrow> (finding_draft \<Rightarrow> bool) \<Rightarrow> string \<Rightarrow> int \<Rightarrow> nat \<Rightarrow> finding_draft list \<Rightarrow> finding_row list
     \<Rightarrow> f_error + finding_row list \<times> finding_row list" where
  "upsert_findings fresh parents audit now n [] t = Inr (t, [])"
| "upsert_findings fresh parents audit now n (d # ds) t =
     (let k = finding_draft_key audit d; new = new_finding audit now (fresh n) d;
          t' = upsert_row finding_key k new (update_finding now d) t
      in if \<not> parents d \<or> (tbl_get finding_key t k = None \<and> fresh n \<in> fi_id ` set t) then Inl FE_IntegrityError
         else rbind (upsert_findings fresh parents audit now (Suc n) ds t') (\<lambda>(t'', ps).
           Inr (t'', (case tbl_get finding_key t k of None \<Rightarrow> new | Some r \<Rightarrow> update_finding now d r) # ps)))"

definition upsert_evaluation ::
  "(nat \<Rightarrow> string) \<Rightarrow> (finding_draft \<Rightarrow> bool) \<Rightarrow> int \<Rightarrow> string \<Rightarrow> finding_draft list \<Rightarrow> finding_db
     \<Rightarrow> finding_db \<times> (f_error + finding_row list)" where
  "upsert_evaluation fresh parents now audit drafts s =
     (case upsert_findings fresh parents audit now 0 drafts (db_findings s) of
        Inl e \<Rightarrow> (s, Inl e) | Inr (t, ps) \<Rightarrow> (s\<lparr>db_findings := t\<rparr>, Inr ps))"

section \<open>Reading\<close>

definition list_findings ::
  "string \<Rightarrow> nat \<Rightarrow> nat \<Rightarrow> severity option \<Rightarrow> finding_status option \<Rightarrow> string option \<Rightarrow> string option
     \<Rightarrow> string option \<Rightarrow> string option \<Rightarrow> finding_db \<Rightarrow> finding_row page" where
  "list_findings audit limit offset sev status asset service rule family s =
     page_of limit offset (sort_key (\<lambda>r. (SEVERITY_RANK (fi_severity r), fi_rule_id r, fi_id r)) (filter (\<lambda>r.
       fi_audit_id r = audit
       \<and> (case sev of None \<Rightarrow> True | Some v \<Rightarrow> fi_severity r = v)
       \<and> (case status of None \<Rightarrow> True | Some v \<Rightarrow> fi_status r = v)
       \<and> (truthy asset \<longrightarrow> fi_asset_id r = asset)
       \<and> (truthy service \<longrightarrow> fi_service_id r = service)
       \<and> (truthy rule \<longrightarrow> fi_rule_id r = the rule)
       \<and> (truthy family \<longrightarrow> fi_family r = the family)) (db_findings s)))"

definition events_of :: "string \<Rightarrow> finding_db \<Rightarrow> state_event list" where
  "events_of i s = filter (\<lambda>e. se_finding_id e = i) (db_state_events s)"

definition get_finding :: "string \<Rightarrow> string \<Rightarrow> bool \<Rightarrow> finding_db \<Rightarrow> f_error + finding_row \<times> state_event list" where
  "get_finding audit i include_events s = (case tbl_get fi_id (db_findings s) i of
     None \<Rightarrow> Inl (FE_FindingNotFound i)
   | Some r \<Rightarrow> if fi_audit_id r \<noteq> audit then Inl (FE_FindingNotFound i)
       else Inr (r, if include_events then events_of i s else []))"

definition count_findings :: "string \<Rightarrow> finding_db \<Rightarrow> nat" where
  "count_findings audit s = length (filter (\<lambda>r. fi_audit_id r = audit) (db_findings s))"

definition counts_by_severity :: "string \<Rightarrow> finding_db \<Rightarrow> (severity \<times> nat) list" where
  "counts_by_severity audit s = map (\<lambda>v. (v, length (filter (\<lambda>r. fi_audit_id r = audit \<and> fi_severity r = v)
     (db_findings s)))) [SEV_CRITICAL, SEV_HIGH, SEV_MEDIUM, SEV_LOW, SEV_INFO]"

section \<open>Status decisions\<close>

fun ALLOWED_TRANSITIONS :: "finding_status \<Rightarrow> finding_status list" where
  "ALLOWED_TRANSITIONS FS_OPEN = [FS_SUPPRESSED, FS_ACCEPTED_RISK]"
| "ALLOWED_TRANSITIONS FS_SUPPRESSED = [FS_OPEN, FS_ACCEPTED_RISK]"
| "ALLOWED_TRANSITIONS FS_ACCEPTED_RISK = [FS_OPEN, FS_SUPPRESSED]"

definition change_status ::
  "int \<Rightarrow> string \<Rightarrow> string \<Rightarrow> finding_status \<Rightarrow> string \<Rightarrow> string \<Rightarrow> json_obj \<Rightarrow> finding_db
     \<Rightarrow> finding_db \<times> (f_error + finding_row \<times> state_event list)" where
  "change_status now audit i to actor reason details s = (case tbl_get fi_id (db_findings s) i of
     None \<Rightarrow> (s, Inl (FE_FindingNotFound i))
   | Some r \<Rightarrow>
       if fi_audit_id r \<noteq> audit then (s, Inl (FE_FindingNotFound i))
       else if to \<notin> set (ALLOWED_TRANSITIONS (fi_status r)) then (s, Inl (FE_InvalidFindingState (fi_status r) to))
       else let e = \<lparr>se_finding_id = fi_id r, se_audit_id = audit, se_created_at = now, se_actor = actor,
                     se_from_status = fi_status r, se_to_status = to, se_reason = reason, se_details = details\<rparr>;
                s' = s\<lparr>db_findings := tbl_put fi_id (r\<lparr>fi_status := to, fi_updated_at := now\<rparr>) (db_findings s),
                       db_state_events := db_state_events s @ [e]\<rparr>
            in (s', get_finding audit i True s'))"

end
