(* ===== verification/Finding_Merge.thy ===== *)
theory Finding_Merge
  imports Finding_Store "HOL-Library.Multiset"
begin

text \<open>Merging of drafts: one draft per identity, with the worst severity and all the links.\<close>

section \<open>Appending what is new\<close>

lemma set_add_new [simp]: "set (add_new xs ys) = set xs \<union> set ys"
  by (induction xs ys rule: add_new.induct) auto

lemma distinct_add_new: "distinct xs \<Longrightarrow> distinct (add_new xs ys)"
  by (induction xs ys rule: add_new.induct) auto

section \<open>The merged dictionary\<close>

text \<open>What the dictionary holds for the drafts read so far.\<close>

definition summarises :: "finding_draft list \<Rightarrow> finding_draft \<Rightarrow> bool" where
  "summarises ds x \<longleftrightarrow> (let g = filter (\<lambda>d. merge_key d = merge_key x) ds in
     g \<noteq> [] \<and> fd_title x = fd_title (hd g) \<and> fd_asset_id x = fd_asset_id (hd g) \<and> fd_service_id x = fd_service_id (hd g)
     \<and> SEVERITY_RANK (fd_severity x) = Min ((\<lambda>d. SEVERITY_RANK (fd_severity d)) ` set g)
     \<and> CONFIDENCE_RANK (fd_confidence x) = Min ((\<lambda>d. CONFIDENCE_RANK (fd_confidence d)) ` set g)
     \<and> set (fd_observation_ids x) = (\<Union>d \<in> set g. set (fd_observation_ids d))
     \<and> set (fd_evidence_artifact_ids x) = (\<Union>d \<in> set g. set (fd_evidence_artifact_ids d)))"

definition merged_ok :: "finding_draft list \<Rightarrow> ((string \<times> string) \<times> finding_draft) list \<Rightarrow> bool" where
  "merged_ok ds m \<longleftrightarrow> distinct (map fst m) \<and> fst ` set m = merge_key ` set ds
     \<and> (\<forall>k x. map_of m k = Some x \<longrightarrow> merge_key x = k \<and> summarises ds x)"

lemma merge_key_merge [simp]: "merge_key (merge_drafts l r) = merge_key l"
  by (simp add: merge_key_def merge_drafts_def Let_def)

lemma merge_ranks:
  "SEVERITY_RANK (fd_severity (merge_drafts l r)) = min (SEVERITY_RANK (fd_severity l)) (SEVERITY_RANK (fd_severity r))"
  "CONFIDENCE_RANK (fd_confidence (merge_drafts l r))
     = min (CONFIDENCE_RANK (fd_confidence l)) (CONFIDENCE_RANK (fd_confidence r))"
  by (simp_all add: merge_drafts_def Let_def min_def)

lemma merge_fields:
  "fd_title (merge_drafts l r) = fd_title l" "fd_asset_id (merge_drafts l r) = fd_asset_id l"
  "fd_service_id (merge_drafts l r) = fd_service_id l"
  "set (fd_observation_ids (merge_drafts l r)) = set (fd_observation_ids l) \<union> set (fd_observation_ids r)"
  "set (fd_evidence_artifact_ids (merge_drafts l r)) = set (fd_evidence_artifact_ids l) \<union> set (fd_evidence_artifact_ids r)"
  by (simp_all add: merge_drafts_def Let_def)

lemma summarises_merge:
  assumes "summarises ds x" "merge_key d = merge_key x"
  shows "summarises (ds @ [d]) (merge_drafts x d)"
proof -
  define g where "g = filter (\<lambda>e. merge_key e = merge_key x) ds"
  have g: "filter (\<lambda>e. merge_key e = merge_key (merge_drafts x d)) (ds @ [d]) = g @ [d]"
    using assms(2) by (simp add: g_def)
  have x: "g \<noteq> []" "fd_title x = fd_title (hd g)" "fd_asset_id x = fd_asset_id (hd g)"
    "fd_service_id x = fd_service_id (hd g)"
    "SEVERITY_RANK (fd_severity x) = Min ((\<lambda>d. SEVERITY_RANK (fd_severity d)) ` set g)"
    "CONFIDENCE_RANK (fd_confidence x) = Min ((\<lambda>d. CONFIDENCE_RANK (fd_confidence d)) ` set g)"
    "set (fd_observation_ids x) = (\<Union>d \<in> set g. set (fd_observation_ids d))"
    "set (fd_evidence_artifact_ids x) = (\<Union>d \<in> set g. set (fd_evidence_artifact_ids d))"
    using assms(1) by (simp_all add: summarises_def Let_def g_def)
  show ?thesis unfolding summarises_def g Let_def using x
    by (simp add: merge_ranks merge_fields min.commute Un_commute)
qed

lemma summarises_other: "summarises ds x \<Longrightarrow> merge_key d \<noteq> merge_key x \<Longrightarrow> summarises (ds @ [d]) x"
  by (simp add: summarises_def Let_def)

lemma summarises_new: "merge_key d \<notin> merge_key ` set ds \<Longrightarrow> summarises (ds @ [d]) d"
proof -
  assume "merge_key d \<notin> merge_key ` set ds"
  then have "filter (\<lambda>e. merge_key e = merge_key d) ds = []" by (metis (mono_tags, lifting) filter_False image_eqI)
  then show ?thesis by (simp add: summarises_def Let_def)
qed

lemma merged_ok_step:
  assumes "merged_ok ds m"
  shows "merged_ok (ds @ [d]) (merge_in m d)"
proof -
  let ?k = "merge_key d"
  have keys: "fst ` set m = merge_key ` set ds" and dist: "distinct (map fst m)"
    and vals: "\<And>k x. map_of m k = Some x \<Longrightarrow> merge_key x = k \<and> summarises ds x"
    using assms by (auto simp: merged_ok_def)
  define v where "v = (case map_of m ?k of None \<Rightarrow> d | Some x \<Rightarrow> merge_drafts x d)"
  have m: "merge_in m d = dict_set ?k v m" by (simp add: merge_in_def v_def split: option.splits)
  have v: "merge_key v = ?k" "summarises (ds @ [d]) v"
  proof -
    show "merge_key v = ?k" using vals [of ?k] by (auto simp: v_def split: option.splits)
    show "summarises (ds @ [d]) v"
    proof (cases "map_of m ?k")
      case None
      then have "?k \<notin> merge_key ` set ds" using keys by (simp add: map_of_eq_None_iff)
      with None summarises_new show ?thesis by (simp add: v_def)
    next
      case (Some x)
      with vals [OF Some] summarises_merge [of ds x d] show ?thesis by (simp add: v_def)
    qed
  qed
  have "merge_key x = k \<and> summarises (ds @ [d]) x" if "map_of (merge_in m d) k = Some x" for k x
  proof (cases "k = ?k")
    case True
    with that m v show ?thesis by simp
  next
    case False
    then have "map_of m k = Some x" using that m by simp
    from vals [OF this] False summarises_other [of ds x d] show ?thesis by auto
  qed
  moreover have "distinct (map fst (merge_in m d))" using dist m by simp
  moreover have "fst ` set (merge_in m d) = merge_key ` set (ds @ [d])" using keys by (simp add: m keys_dict_set)
  ultimately show ?thesis unfolding merged_ok_def by blast
qed

lemma merged_ok_foldl: "merged_ok es m \<Longrightarrow> merged_ok (es @ ds) (foldl merge_in m ds)"
proof (induction ds arbitrary: es m)
  case (Cons d ds)
  from Cons.IH [OF merged_ok_step [OF Cons.prems, of d]] show ?case by simp
qed simp

lemma merged_ok_all: "merged_ok ds (foldl merge_in [] ds)"
  using merged_ok_foldl [of "[]" "[]" ds] by (simp add: merged_ok_def)

section \<open>The result\<close>

lemma merged_values:
  assumes "merged_ok ds m"
  shows "map merge_key (map snd m) = map fst m" "x \<in> set (map snd m) \<Longrightarrow> summarises ds x"
proof -
  have m: "map_of m (fst p) = Some (snd p)" if "p \<in> set m" for p
    using that assms by (simp add: merged_ok_def)
  have "merge_key (snd p) = fst p" if "p \<in> set m" for p
    using m [OF that] assms unfolding merged_ok_def by blast
  then show "map merge_key (map snd m) = map fst m" by simp
  show "summarises ds x" if "x \<in> set (map snd m)" using that m assms unfolding merged_ok_def by fastforce
qed

lemma deduplicate_keys:
  "distinct (map merge_key (deduplicate_drafts ds))"
  "merge_key ` set (deduplicate_drafts ds) = merge_key ` set ds"
proof -
  let ?m = "foldl merge_in [] ds"
  note ok = merged_ok_all [of ds]
  have keys: "map merge_key (map snd ?m) = map fst ?m" by (rule merged_values(1) [OF ok])
  have "distinct (map merge_key (map snd ?m))" unfolding keys using ok by (simp add: merged_ok_def)
  moreover have "mset (map merge_key (deduplicate_drafts ds)) = mset (map merge_key (map snd ?m))"
    by (simp add: deduplicate_drafts_def multiset.map_comp)
  ultimately show "distinct (map merge_key (deduplicate_drafts ds))" by (metis mset_eq_imp_distinct_iff)
  have "merge_key ` set (deduplicate_drafts ds) = set (map merge_key (map snd ?m))"
    by (simp add: deduplicate_drafts_def image_image)
  also have "\<dots> = merge_key ` set ds" unfolding keys using ok by (simp add: merged_ok_def)
  finally show "merge_key ` set (deduplicate_drafts ds) = merge_key ` set ds" .
qed

lemma deduplicate_summarises: "x \<in> set (deduplicate_drafts ds) \<Longrightarrow> summarises ds x"
  using merged_values(2) [OF merged_ok_all [of ds]] by (simp add: deduplicate_drafts_def)

lemma foldl_merge_distinct:
  assumes "distinct (map merge_key ds)" "fst ` set m \<inter> merge_key ` set ds = {}"
  shows "foldl merge_in m ds = m @ map (\<lambda>d. (merge_key d, d)) ds"
  using assms
proof (induction ds arbitrary: m)
  case (Cons d ds)
  have "map_of m (merge_key d) = None" using Cons.prems(2) by (auto simp: map_of_eq_None_iff)
  moreover have "dict_set (merge_key d) d m = m @ [(merge_key d, d)]"
    using Cons.prems(2) by (intro dict_set_new) auto
  ultimately have "merge_in m d = m @ [(merge_key d, d)]" by (simp add: merge_in_def)
  moreover have "fst ` set (m @ [(merge_key d, d)]) \<inter> merge_key ` set ds = {}" using Cons.prems by auto
  ultimately show ?case using Cons.IH [of "m @ [(merge_key d, d)]"] Cons.prems(1) by simp
qed simp

lemma deduplicate_idem: "deduplicate_drafts (deduplicate_drafts ds) = deduplicate_drafts ds"
proof -
  let ?out = "deduplicate_drafts ds"
  have "foldl merge_in [] ?out = map (\<lambda>d. (merge_key d, d)) ?out"
    using foldl_merge_distinct [OF deduplicate_keys(1)] by simp
  then have "deduplicate_drafts ?out = sort_key draft_order ?out"
    unfolding deduplicate_drafts_def [of ?out] by (simp add: comp_def)
  also have "\<dots> = ?out" by (intro sort_key_id_if_sorted) (simp add: deduplicate_drafts_def)
  finally show ?thesis .
qed

end
