(* ===== verification/Finding_Trail.thy ===== *)
theory Finding_Trail
  imports Finding_Store
begin

text \<open>
  The finding store as a step system: evaluations and status decisions, in any order. The invariant
  says that identities and ids are unique and that the events of a finding are a path of allowed
  transitions from \<^verbatim>\<open>open\<close> to its status.
\<close>

section \<open>What an evaluation keeps\<close>

definition same_decision :: "finding_row \<Rightarrow> finding_row \<Rightarrow> bool" where
  "same_decision r r' \<longleftrightarrow> fi_id r' = fi_id r \<and> fi_status r' = fi_status r \<and> fi_first_seen r' = fi_first_seen r
     \<and> fi_created_at r' = fi_created_at r"

interpretation fnd: row_origin finding_key same_decision
  by unfold_locales (simp_all add: same_decision_def)

lemma finding_key_simps [simp]:
  "finding_key (new_finding audit now i d) = finding_draft_key audit d"
  "finding_key (update_finding now d r) = finding_key r" "fi_id (new_finding audit now i d) = i"
  "fi_status (new_finding audit now i d) = FS_OPEN" "fi_id (update_finding now d r) = fi_id r"
  "fi_status (update_finding now d r) = fi_status r" "same_decision r (update_finding now d r)"
  by (simp_all add: finding_key_def new_finding_def update_finding_def finding_draft_key_def same_decision_def)

lemma upsert_findings_extends:
  assumes "upsert_findings fresh parents audit now n ds t = Inr (t', ps)" "distinct (map finding_key t)"
  shows "extends_on finding_key same_decision (finding_draft_key audit ` set ds) t t' \<and> length ps = length ds"
  using assms
proof (induction ds arbitrary: n t ps)
  case Nil
  then show ?case by (simp add: fnd.extends_refl)
next
  case (Cons d ds)
  let ?t = "upsert_row finding_key (finding_draft_key audit d) (new_finding audit now (fresh n) d) (update_finding now d) t"
  obtain qs where q: "upsert_findings fresh parents audit now (Suc n) ds ?t = Inr (t', qs)" "length ps = Suc (length qs)"
    using Cons.prems(1) by (auto simp: Let_def split: if_splits)
  have e: "extends_on finding_key same_decision {finding_draft_key audit d} t ?t"
    using Cons.prems(2) by (intro fnd.extends_upsert) simp_all
  from Cons.IH [OF q(1) extends_onD(1) [OF e]] fnd.extends_trans [OF e] q(2) show ?case by auto
qed

section \<open>The trail\<close>

fun trail :: "finding_status \<Rightarrow> state_event list \<Rightarrow> finding_status option" where
  "trail s [] = Some s"
| "trail s (e # es) = (if se_from_status e = s \<and> se_to_status e \<in> set (ALLOWED_TRANSITIONS s)
     then trail (se_to_status e) es else None)"

lemma trail_snoc:
  "trail s (es @ [e]) = (case trail s es of None \<Rightarrow> None
     | Some t \<Rightarrow> if se_from_status e = t \<and> se_to_status e \<in> set (ALLOWED_TRANSITIONS t) then Some (se_to_status e) else None)"
  by (induction s es rule: trail.induct) auto

definition rows_ok :: "state_event list \<Rightarrow> finding_row list \<Rightarrow> bool" where
  "rows_ok es t \<longleftrightarrow> distinct (map finding_key t) \<and> distinct (map fi_id t) \<and> se_finding_id ` set es \<subseteq> fi_id ` set t
     \<and> (\<forall>r \<in> set t. trail FS_OPEN (filter (\<lambda>e. se_finding_id e = fi_id r) es) = Some (fi_status r))"

definition finding_inv :: "finding_db \<Rightarrow> bool" where
  "finding_inv s \<longleftrightarrow> rows_ok (db_state_events s) (db_findings s)"

lemma rows_ok_insert:
  assumes "rows_ok es t" "finding_key r \<notin> finding_key ` set t" "fi_id r \<notin> fi_id ` set t" "fi_status r = FS_OPEN"
  shows "rows_ok es (t @ [r])"
proof -
  have "filter (\<lambda>e. se_finding_id e = fi_id r) es = []"
    using assms(1,3) unfolding rows_ok_def filter_empty_conv by (metis image_eqI subsetD)
  then show ?thesis using assms by (auto simp: rows_ok_def)
qed

lemma put_ids:
  assumes "distinct (map finding_key t)" "tbl_get finding_key t k = Some r" "fi_id r' = fi_id r" "finding_key r' = k"
  shows "map fi_id (tbl_put finding_key r' t) = map fi_id t"
proof -
  have "r \<in> set t" "finding_key r = k" using tbl.get_Some [OF assms(2)] by auto
  then have "x = r" if "x \<in> set t" "finding_key x = k" for x
    using that assms(1) by (auto simp: distinct_map inj_on_def)
  then show ?thesis using assms(3,4) by (auto simp: tbl_put_def)
qed

lemma rows_ok_update:
  assumes "rows_ok es t" "tbl_get finding_key t k = Some r" "finding_key r' = k" "fi_id r' = fi_id r"
    "fi_status r' = fi_status r"
  shows "rows_ok es (tbl_put finding_key r' t)"
proof -
  have d: "distinct (map finding_key t)" using assms(1) by (simp add: rows_ok_def)
  have ids: "map fi_id (tbl_put finding_key r' t) = map fi_id t" by (rule put_ids [OF d assms(2,4,3)])
  have "r \<in> set t" using tbl.get_mem [OF assms(2)] .
  then have tr: "trail FS_OPEN (filter (\<lambda>e. se_finding_id e = fi_id r') es) = Some (fi_status r')"
    using assms(1,4,5) by (simp add: rows_ok_def)
  have "trail FS_OPEN (filter (\<lambda>e. se_finding_id e = fi_id x) es) = Some (fi_status x)"
    if "x \<in> set (tbl_put finding_key r' t)" for x
    using tbl.mem_put [OF that] tr assms(1) by (auto simp: rows_ok_def)
  moreover have "fi_id ` set (tbl_put finding_key r' t) = fi_id ` set t" using arg_cong [OF ids, of set] by simp
  ultimately show ?thesis
    using ids d tbl.distinct_put [OF d, of r'] assms(1) unfolding rows_ok_def by simp
qed

lemma rows_ok_upsert:
  "upsert_findings fresh parents audit now n ds t = Inr (t', ps) \<Longrightarrow> rows_ok es t \<Longrightarrow> rows_ok es t'"
proof (induction ds arbitrary: n t ps)
  case (Cons d ds)
  let ?k = "finding_draft_key audit d"
  let ?t = "upsert_row finding_key ?k (new_finding audit now (fresh n) d) (update_finding now d) t"
  obtain qs where q: "upsert_findings fresh parents audit now (Suc n) ds ?t = Inr (t', qs)"
    "tbl_get finding_key t ?k = None \<Longrightarrow> fresh n \<notin> fi_id ` set t"
    using Cons.prems(1) by (auto simp: Let_def split: if_splits)
  have "rows_ok es ?t"
  proof (cases "tbl_get finding_key t ?k")
    case None
    then have "?k \<notin> finding_key ` set t" using tbl.get_None [of finding_key t ?k] by simp
    with None q(2) rows_ok_insert [OF Cons.prems(2), of "new_finding audit now (fresh n) d"]
    show ?thesis by (simp add: upsert_row_def)
  next
    case (Some r)
    with rows_ok_update [OF Cons.prems(2) Some, of "update_finding now d r"] tbl.get_key [OF Some]
    show ?thesis by (simp add: upsert_row_def)
  qed
  with Cons.IH [OF q(1)] show ?case by blast
qed simp

lemma rows_ok_status:
  assumes "rows_ok es t" "tbl_get fi_id t i = Some r" "finding_key r' = finding_key r" "fi_id r' = fi_id r"
    "se_finding_id e = i" "se_from_status e = fi_status r" "se_to_status e = fi_status r'"
    "fi_status r' \<in> set (ALLOWED_TRANSITIONS (fi_status r))"
  shows "rows_ok (es @ [e]) (tbl_put fi_id r' t)"
proof -
  have r: "r \<in> set t" "fi_id r = i" using tbl.get_Some [OF assms(2)] by auto
  have d: "distinct (map fi_id t)" "distinct (map finding_key t)" using assms(1) by (auto simp: rows_ok_def)
  have "x = r" if "x \<in> set t" "fi_id x = i" for x using that r d(1) by (auto simp: distinct_map inj_on_def)
  then have keys: "map finding_key (tbl_put fi_id r' t) = map finding_key t"
    using assms(3,4) r(2) by (auto simp: tbl_put_def)
  have tr: "trail FS_OPEN (filter (\<lambda>e. se_finding_id e = i) (es @ [e])) = Some (fi_status r')"
    using assms(1,5-8) r by (auto simp: rows_ok_def trail_snoc)
  have "trail FS_OPEN (filter (\<lambda>e. se_finding_id e = fi_id x) (es @ [e])) = Some (fi_status x)"
    if x: "x \<in> set (tbl_put fi_id r' t)" for x
  proof -
    have "fi_id r' \<in> fi_id ` set t" using r assms(4) by auto
    then consider "x = r'" | "x \<in> set t" "fi_id x \<noteq> i" using tbl.mem_put [OF x] assms(4) r(2) by auto
    then show ?thesis
    proof cases
      case 1
      with tr assms(4) r(2) show ?thesis by simp
    next
      case 2
      with assms(1,5) show ?thesis by (simp add: rows_ok_def)
    qed
  qed
  moreover have "se_finding_id ` set (es @ [e]) \<subseteq> fi_id ` set (tbl_put fi_id r' t)"
  proof -
    have "i \<in> fi_id ` set t" using r by blast
    then show ?thesis using assms(1,5) tbl.key_set_put [of fi_id r' t] by (simp add: rows_ok_def)
  qed
  ultimately show ?thesis using d keys tbl.distinct_put [OF d(1), of r'] by (simp add: rows_ok_def)
qed

section \<open>Steps\<close>

inductive finding_step :: "finding_db \<Rightarrow> finding_db \<Rightarrow> bool" where
  evaluate: "upsert_evaluation fresh parents now audit drafts s = (s', res) \<Longrightarrow> finding_step s s'"
| decide: "change_status now audit i to actor reason details s = (s', res) \<Longrightarrow> finding_step s s'"

inductive_cases finding_stepE: "finding_step s s'"

definition empty_finding_db :: finding_db where
  "empty_finding_db = \<lparr>db_findings = [], db_state_events = []\<rparr>"

lemma finding_inv_evaluate:
  assumes "finding_inv s" "upsert_evaluation fresh parents now audit drafts s = (s', res)"
  shows "finding_inv s'"
proof (cases "upsert_findings fresh parents audit now 0 drafts (db_findings s)")
  case (Inl e)
  then show ?thesis using assms by (simp add: upsert_evaluation_def)
next
  case (Inr p)
  obtain t ps where p: "p = (t, ps)" by (cases p)
  from rows_ok_upsert [of fresh parents audit now 0 drafts "db_findings s" t ps "db_state_events s"] Inr p assms
  show ?thesis by (auto simp: upsert_evaluation_def finding_inv_def)
qed

lemma finding_inv_decide:
  assumes "finding_inv s" "change_status now audit i to actor reason details s = (s', res)"
  shows "finding_inv s'"
proof (cases "tbl_get fi_id (db_findings s) i")
  case None
  then show ?thesis using assms by (simp add: change_status_def)
next
  case (Some r)
  have "rows_ok (db_state_events s @ [\<lparr>se_finding_id = fi_id r, se_audit_id = audit, se_created_at = now,
      se_actor = actor, se_from_status = fi_status r, se_to_status = to, se_reason = reason, se_details = details\<rparr>])
      (tbl_put fi_id (r\<lparr>fi_status := to, fi_updated_at := now\<rparr>) (db_findings s))"
    if "to \<in> set (ALLOWED_TRANSITIONS (fi_status r))"
    using assms(1) Some that tbl.get_key [OF Some]
    by (intro rows_ok_status) (simp_all add: finding_inv_def finding_key_def)
  then show ?thesis using assms Some
    by (cases "fi_audit_id r = audit"; cases "to \<in> set (ALLOWED_TRANSITIONS (fi_status r))")
      (auto simp: change_status_def Let_def finding_inv_def)
qed

interpretation fsys: step_system "\<lambda>s. s = empty_finding_db" finding_step finding_inv
proof
  show "finding_inv s" if "s = empty_finding_db" for s
    using that by (simp add: finding_inv_def rows_ok_def empty_finding_db_def)
  show "finding_inv t" if "finding_inv s" "finding_step s t" for s t
    using that(2,1) by (cases rule: finding_step.cases) (auto intro: finding_inv_evaluate finding_inv_decide)
qed

end
