(* ===== verification/Scope_Facts.thy ===== *)
theory Scope_Facts
  imports Scope
begin

text \<open>
  Facts about validated scopes: parsed targets are well-formed networks, aligned networks are nested
  or disjoint, the canonical list covers exactly the requested addresses without overlap, and it is
  a fixed point of validation.
\<close>

section \<open>Targets\<close>

lemma checked_network_Inr: "checked_network raw x = Inr n \<longleftrightarrow> x = Some n \<and> \<not> prohibited n"
  by (auto simp: checked_network_def scope_raise_def split: option.splits)

lemma single_network_valid: "single_network v = Some n \<Longrightarrow> valid_net n"
  by (auto simp: single_network_def dest: ip_network_valid split: option.splits)

lemma parse_target_valid: "parse_target t = Inr n \<Longrightarrow> valid_net n \<and> \<not> prohibited n"
  using single_network_valid ip_network_valid
  by (auto simp: parse_target_def Let_def checked_network_Inr split: if_splits)

lemma parse_targets_Inr:
  "parse_targets ts = Inr ns \<longleftrightarrow> list_all2 (\<lambda>t n. parse_target t = Inr n) ts ns"
proof (induction ts arbitrary: ns)
  case (Cons t ts)
  then show ?case by (cases ns) auto
qed auto

lemma parse_targets_valid:
  assumes "parse_targets ts = Inr ns" "n \<in> set ns"
  shows "valid_net n \<and> \<not> prohibited n"
proof -
  have "list_all2 (\<lambda>t n. parse_target t = Inr n) ts ns" using assms(1) by (simp add: parse_targets_Inr)
  moreover obtain k where "k < length ns" "ns ! k = n" using assms(2) by (auto simp: in_set_conv_nth)
  ultimately have "parse_target (ts ! k) = Inr n" by (auto dest: list_all2_nthD2)
  then show ?thesis by (rule parse_target_valid)
qed

text \<open>The network of a single address is the address with the full prefix.\<close>

lemma single_network_str:
  assumes "valid_addr a"
  shows "single_network (ip_str a) = Some \<lparr>net_address = a, net_prefixlen = max_prefixlen (ip_version a)\<rparr>"
proof -
  let ?n = "\<lparr>net_address = a, net_prefixlen = max_prefixlen (ip_version a)\<rparr>"
  have "valid_net ?n" using assms by (simp add: valid_net_def host_part_def)
  from ip_network_str [OF this, of True] show ?thesis
    using ip_address_str [OF assms] by (simp add: single_network_def net_str_def)
qed

lemma ascii_digit_not_space: "is_ascii_digit c \<Longrightarrow> \<not> is_space c"
  by (auto simp: is_ascii_digit_def is_space_def)

lemma hex_not_space: "digit_val c \<noteq> None \<Longrightarrow> \<not> is_space c"
  by (auto simp: digit_val_def is_space_def split: if_splits)

lemma colon_not_space: "\<not> is_space CHR '':''" "\<not> is_space CHR ''.''" "\<not> is_space CHR ''/''"
  by (simp_all add: is_space_def code_def)

lemma ip_str_not_space:
  assumes "ip_scope a = None" "c \<in> set (ip_str a)"
  shows "\<not> is_space c"
proof (cases "ip_version a = 4")
  case True
  then have "c = CHR ''.'' \<or> is_ascii_digit c"
    using assms(2) ipv4_str_chars [of c "ip_int a"] by (simp add: ip_str_def)
  then show ?thesis using ascii_digit_not_space colon_not_space(2) by blast
next
  case False
  then have "c = CHR '':'' \<or> digit_val c \<noteq> None"
    using assms ipv6_str_chars [of c "ip_int a"] by (simp add: ip_str_def)
  then show ?thesis using hex_not_space colon_not_space(1) by blast
qed

lemma strip_no_space: "(\<And>c. c \<in> set s \<Longrightarrow> \<not> is_space c) \<Longrightarrow> strip s = s"
  by (rule strip_id) (cases s; auto)

lemma strip_display:
  assumes "ip_scope (net_address n) = None"
  shows "strip (display_value n) = display_value n"
proof (rule strip_no_space)
  fix c assume "c \<in> set (display_value n)"
  then have "c \<in> set (ip_str (net_address n)) \<or> c = CHR ''/'' \<or> c \<in> set (dec (net_prefixlen n))"
    by (auto simp: display_value_def net_str_def split: if_splits)
  then show "\<not> is_space c"
    using ip_str_not_space [OF assms] dec_digit ascii_digit_not_space colon_not_space(3) by blast
qed

lemma parse_display:
  assumes "valid_net n" "ip_scope (net_address n) = None" "\<not> prohibited n"
  shows "parse_target (display_value n) = Inr n"
proof (cases "net_prefixlen n = max_prefixlen (net_version n)")
  case True
  then have d: "display_value n = ip_str (net_address n)" by (simp add: display_value_def)
  have a: "valid_addr (net_address n)" using assms(1) by (simp add: valid_net_def)
  have "\<lparr>net_address = net_address n, net_prefixlen = max_prefixlen (net_version n)\<rparr> = n"
    using True by (cases n) simp
  with single_network_str [OF a] have "single_network (display_value n) = Some n" by (simp add: d)
  then show ?thesis
    using ip_str_no_slash [OF a] strip_display [OF assms(2)] assms(3) d
    by (simp add: parse_target_def checked_network_Inr)
next
  case False
  then have d: "display_value n = net_str n" by (simp add: display_value_def)
  moreover have "CHR ''/'' \<in> set (net_str n)" by (simp add: net_str_def)
  ultimately show ?thesis
    using ip_network_str [OF assms(1), of True] strip_display [OF assms(2)] assms(3)
    by (simp add: parse_target_def checked_network_Inr)
qed

section \<open>Aligned networks\<close>

lemma aligned_nested:
  fixes i s t :: nat
  assumes "s dvd t" "0 < t"
  shows "i - i mod t \<le> i - i mod s" "i - i mod s + s \<le> i - i mod t + t"
proof -
  have m: "i mod s = i mod t mod s" using assms(1) by (simp add: mod_mod_cancel)
  then show "i - i mod t \<le> i - i mod s" by (simp add: diff_le_mono2)
  have "i mod t - i mod t mod s + s \<le> t"
  proof -
    obtain k where k: "t = s * k" using assms(1) by (auto elim: dvdE)
    have q: "i mod t - i mod t mod s = s * (i mod t div s)" by (simp add: minus_mod_eq_mult_div)
    have "i mod t div s < k" using assms(2) k by (metis less_mult_imp_div_less mod_less_divisor mult.commute)
    then have "s * (i mod t div s) + s \<le> s * k" by (metis Suc_leI add.commute mult_Suc_right mult_le_mono2)
    then show ?thesis using q k by simp
  qed
  moreover have "i mod s \<le> i mod t" "i mod t \<le> i" unfolding m by simp_all
  ultimately show "i - i mod s + s \<le> i - i mod t + t" using m by linarith
qed

lemma net_base:
  assumes "valid_net n" "i \<in> net_ints n"
  shows "i - i mod num_addresses n = first_int n"
proof -
  have "in_network \<lparr>ip_version = net_version n, ip_int = i, ip_scope = None\<rparr> n"
    using in_network_iff [OF assms(1)] assms(2) by simp
  then show ?thesis by (simp add: in_network_def)
qed

lemma net_nested:
  assumes "valid_net a" "valid_net b" "net_version a = net_version b"
    and i: "i \<in> net_ints a" "i \<in> net_ints b" and le: "net_prefixlen b \<le> net_prefixlen a"
  shows "first_int b \<le> first_int a" "broadcast_int a \<le> broadcast_int b"
proof -
  have "num_addresses a dvd num_addresses b"
    using le assms(3) unfolding num_addresses_def by (simp add: le_imp_power_dvd)
  note al = aligned_nested [OF this valid_net_dvd(2) [OF assms(2)], of i]
  show "first_int b \<le> first_int a" "broadcast_int a \<le> broadcast_int b"
    using al net_base [OF assms(1) i(1)] net_base [OF assms(2) i(2)] valid_net_dvd(2) [OF assms(1)]
    by (simp_all add: broadcast_int_def)
qed

definition unscoped :: "ipnet \<Rightarrow> bool" where
  "unscoped n \<longleftrightarrow> ip_scope (net_address n) = None"

lemma unscoped_address_eq:
  "unscoped a \<Longrightarrow> unscoped b \<Longrightarrow> net_version a = net_version b \<Longrightarrow> first_int a = first_int b
     \<Longrightarrow> net_address a = net_address b"
  by (simp add: unscoped_def first_int_def)

text \<open>In canonical order, a network that overlaps an earlier one is covered by it.\<close>

lemma overlap_covered:
  assumes v: "valid_net a" "valid_net b" "unscoped a" "unscoped b" "net_version a = net_version b"
    and key: "net_key a \<le> net_key b" and i: "i \<in> net_ints a" "i \<in> net_ints b"
  shows "subnet_of b a"
proof -
  have k: "first_int a < first_int b \<or> first_int a = first_int b \<and> net_prefixlen a \<le> net_prefixlen b"
    using key v(5) by (auto simp: net_key_def)
  show ?thesis
  proof (cases "net_prefixlen a \<le> net_prefixlen b")
    case True
    note n = net_nested [OF v(2,1) v(5) [symmetric] i(2,1) True]
    moreover have "first_int a < first_int b \<or> net_address a = net_address b"
      using n(1) unscoped_address_eq [OF v(3,4,5)] by (cases "first_int a = first_int b") auto
    ultimately show ?thesis by (simp add: subnet_of_def)
  next
    case False
    then have "first_int b \<le> first_int a" using net_nested(1) [OF v(1,2,5) i] by simp
    with k False show ?thesis by auto
  qed
qed

section \<open>Removing covered networks\<close>

lemma set_py_set [simp]: "set (py_set xs) = set xs"
  and distinct_py_set [simp]: "distinct (py_set xs)"
  by (simp_all add: py_set_def)

lemma drop_covered_subset: "set (drop_covered r ns) \<subseteq> set r \<union> set ns"
  by (induction r ns rule: drop_covered.induct) auto

lemma drop_covered_prefix: "set r \<subseteq> set (drop_covered r ns)"
  by (induction r ns rule: drop_covered.induct) auto

lemma drop_covered_covers:
  "n \<in> set ns \<Longrightarrow> \<exists>e \<in> set (drop_covered r ns). e = n \<or> net_version n = net_version e \<and> subnet_of n e"
proof (induction r ns rule: drop_covered.induct)
  case (2 r m ns)
  show ?case
  proof (cases "\<exists>e \<in> set r. net_version m = net_version e \<and> subnet_of m e")
    case True
    then obtain e where e: "e \<in> set r" "net_version m = net_version e" "subnet_of m e" by blast
    then have "e \<in> set (drop_covered r ns)" using drop_covered_prefix by blast
    with e 2 True show ?thesis by auto
  next
    case False
    have "m \<in> set (drop_covered (r @ [m]) ns)" using drop_covered_prefix [of "r @ [m]" ns] by auto
    with 2 False show ?thesis by auto
  qed
qed simp

text \<open>No kept network is covered by an earlier kept one, and the kept list is in canonical order.\<close>

definition irredundant :: "ipnet list \<Rightarrow> bool" where
  "irredundant ns \<longleftrightarrow> sorted (map net_key ns) \<and>
     (\<forall>i j. i < j \<longrightarrow> j < length ns \<longrightarrow> net_version (ns ! j) = net_version (ns ! i) \<longrightarrow> \<not> subnet_of (ns ! j) (ns ! i))"

lemma irredundant_snoc:
  assumes "irredundant r" "\<not> (\<exists>e \<in> set r. net_version n = net_version e \<and> subnet_of n e)"
    and "\<And>e. e \<in> set r \<Longrightarrow> net_key e \<le> net_key n"
  shows "irredundant (r @ [n])"
  using assms unfolding irredundant_def
  by (auto simp: sorted_append nth_append less_Suc_eq)

lemma drop_covered_irredundant:
  assumes "irredundant r" "sorted (map net_key ns)" "\<And>e n. e \<in> set r \<Longrightarrow> n \<in> set ns \<Longrightarrow> net_key e \<le> net_key n"
  shows "irredundant (drop_covered r ns)"
  using assms
proof (induction r ns rule: drop_covered.induct)
  case (2 r n ns)
  show ?case
  proof (cases "\<exists>e \<in> set r. net_version n = net_version e \<and> subnet_of n e")
    case True
    with 2 show ?thesis by simp
  next
    case False
    have "irredundant (r @ [n])" using irredundant_snoc [OF 2(3) False] 2(5) by simp
    then have "irredundant (drop_covered (r @ [n]) ns)" using 2(2) [OF False] 2(4,5) by auto
    with False show ?thesis by (simp only: drop_covered.simps if_False)
  qed
qed simp

lemma remove_covered_irredundant: "irredundant (remove_duplicates_and_covered ns)"
  unfolding remove_duplicates_and_covered_def
  by (rule drop_covered_irredundant) (auto simp: irredundant_def)

lemma remove_covered_subset: "set (remove_duplicates_and_covered ns) \<subseteq> set ns"
  using drop_covered_subset [of "[]" "sort_key net_key (py_set ns)"]
  by (simp add: remove_duplicates_and_covered_def)

text \<open>An irredundant list is left as it is.\<close>

lemma drop_covered_id: "irredundant (r @ ns) \<Longrightarrow> drop_covered r ns = r @ ns"
proof (induction r ns rule: drop_covered.induct)
  case (2 r n ns)
  have "\<not> (\<exists>e \<in> set r. net_version n = net_version e \<and> subnet_of n e)"
  proof
    assume "\<exists>e \<in> set r. net_version n = net_version e \<and> subnet_of n e"
    then obtain i where "i < length r" "net_version n = net_version (r ! i)" "subnet_of n (r ! i)"
      by (metis in_set_conv_nth)
    moreover have "(r @ n # ns) ! length r = n" "(r @ n # ns) ! i = r ! i" using \<open>i < length r\<close> by (auto simp: nth_append)
    ultimately show False using 2(3) unfolding irredundant_def by (metis add_strict_increasing length_Cons length_append less_add_same_cancel1 zero_less_Suc le_refl)
  qed
  with 2 show ?case by (simp only: drop_covered.simps if_False) simp
qed simp

text \<open>The canonical text of a target network, read again as a network.\<close>

lemma ip_network_display:
  assumes "valid_net n"
  shows "ip_network False (display_value n) = Some n"
proof (cases "net_prefixlen n = max_prefixlen (net_version n)")
  case False
  then show ?thesis using ip_network_str [OF assms] by (simp add: display_value_def)
next
  case True
  let ?a = "net_address n"
  have a: "valid_addr ?a" and h: "host_part ?a (net_prefixlen n) = 0" using assms by (simp_all add: valid_net_def)
  have n: "\<lparr>net_address = ?a, net_prefixlen = net_prefixlen n\<rparr> = n" by simp
  have d: "display_value n = ip_str ?a" using True by (simp add: display_value_def)
  have s: "split_mask (ip_str ?a) = Some (ip_str ?a, None)"
    using split_on_word [OF ip_str_no_slash [OF a]] by (simp add: split_mask_def)
  show ?thesis
  proof (cases "ip_version ?a = 4")
    case v: True
    then have "ipv4_address (ip_str ?a) = Some ?a"
      using a ipv4_address_str [of "ip_int ?a"] by (cases ?a) (auto simp: ip_str_def valid_addr_def v4_def)
    then show ?thesis using s h n d True v by (simp add: ip_network_def ipv4_network_def network_from_def max_prefixlen_def)
  next
    case v: False
    then have six: "ip_version ?a = 6" using a by (auto simp: valid_addr_def)
    have "ipv4_network False (ip_str ?a) = Inl AddressValueError"
      using s ipv4_address_v6 [OF v] by (simp add: ipv4_network_def network_from_def)
    then show ?thesis
      using s h n d True six ipv6_address_str [OF a six]
      by (simp add: ip_network_def ipv6_network_def network_from_def max_prefixlen_def)
  qed
qed

end
