(* ===== verification/Scope_Properties.thy ===== *)
theory Scope_Properties
  imports Scope_Facts
begin

text \<open>
  The properties of active scopes: the canonical targets denote exactly the requested addresses, are
  counted without overlap, stay within the limits of the profile, exclude multicast, and are stable
  under validation; what a proposal or an expansion may contain.
\<close>

section \<open>The addresses of a scope\<close>

definition scope_addresses :: "ipnet list \<Rightarrow> (nat \<times> nat) set" where
  "scope_addresses ns = {(v, i). \<exists>n \<in> set ns. net_version n = v \<and> i \<in> net_ints n}"

lemma subnet_ints: "valid_net a \<Longrightarrow> subnet_of a b \<Longrightarrow> net_ints a \<subseteq> net_ints b"
  by (auto simp: subnet_of_def net_ints_def first_int_def)

lemma remove_covered_addresses:
  assumes "\<And>n. n \<in> set ns \<Longrightarrow> valid_net n"
  shows "scope_addresses (remove_duplicates_and_covered ns) = scope_addresses ns"
proof
  show "scope_addresses (remove_duplicates_and_covered ns) \<subseteq> scope_addresses ns"
    using remove_covered_subset [of ns] by (auto simp: scope_addresses_def)
  show "scope_addresses ns \<subseteq> scope_addresses (remove_duplicates_and_covered ns)"
  proof
    fix x assume "x \<in> scope_addresses ns"
    then obtain n where n: "n \<in> set ns" "net_version n = fst x" "snd x \<in> net_ints n"
      by (auto simp: scope_addresses_def)
    obtain e where "e \<in> set (remove_duplicates_and_covered ns)"
      "e = n \<or> net_version n = net_version e \<and> subnet_of n e"
      using drop_covered_covers [of n "sort_key net_key (py_set ns)" "[]"] n(1)
      by (auto simp: remove_duplicates_and_covered_def)
    then have "e \<in> set (remove_duplicates_and_covered ns)" "net_version e = fst x" "snd x \<in> net_ints e"
      using n subnet_ints [OF assms [OF n(1)], of e] by auto
    then show "x \<in> scope_addresses (remove_duplicates_and_covered ns)"
      by (cases x) (auto simp: scope_addresses_def)
  qed
qed

lemma validate_Inr:
  assumes "validate s ts p = Inr vs"
  obtains ns where "parse_targets ts = Inr ns" "ts \<noteq> []" "length ts \<le> 256"
    "scope_of s p (remove_duplicates_and_covered ns) = Inr vs"
  using assms by (auto simp: validate_def scope_raise_def split: if_splits)

lemma scope_of_Inr:
  assumes "scope_of s p ns = Inr vs"
  shows "vs_canonical_targets vs = map display_value ns"
    "vs_address_count vs = family_count 4 ns + family_count 6 ns"
    "\<not> active_allow_large_scopes s \<Longrightarrow> family_count 4 ns \<le> profile_limit s p"
    "\<not> active_allow_large_scopes s \<Longrightarrow>
       family_count 6 ns \<le> min (profile_limit s p) (active_ipv6_max_targets s)"
  using assms by (auto simp: scope_of_def Let_def normalized_target_def safety_limits_def split: if_splits)

lemma parse_canonical:
  assumes "\<And>n. n \<in> set ns \<Longrightarrow> valid_net n \<and> unscoped n \<and> \<not> prohibited n"
  shows "parse_targets (map display_value ns) = Inr ns"
  using assms by (induction ns) (simp_all add: parse_display unscoped_def)

section \<open>Exactness\<close>


definition demo_settings :: scope_settings where
  "demo_settings = \<lparr>active_discovery_max_targets = 4096, active_standard_max_targets = 1024,
     active_deep_max_targets = 256, active_ipv6_max_targets = 256, active_allow_large_scopes = False\<rparr>"

definition demo_targets :: "string list" where
  "demo_targets = ['' 10.0.1.0/25'', ''10.0.1.7'', ''10.0.0.0/24'']"

definition demo_networks :: "ipnet list" where
  "demo_networks = (case parse_targets demo_targets of Inr ns \<Rightarrow> ns | Inl _ \<Rightarrow> [])"

lemma demo_small: "validate demo_settings demo_targets STANDARD =
    Inr \<lparr>vs_profile = STANDARD,
      vs_targets = [\<lparr>tg_value = ''10.0.0.0/24'', tg_family = 4, tg_kind = ''cidr'', tg_address_count = 256\<rparr>,
        \<lparr>tg_value = ''10.0.1.0/25'', tg_family = 4, tg_kind = ''cidr'', tg_address_count = 128\<rparr>],
      vs_canonical_targets = [''10.0.0.0/24'', ''10.0.1.0/25''],
      vs_address_families = [4], vs_address_count = 384, vs_safety_limits = (1024, 256)\<rparr>"
  by code_simp

lemma demo_parsed: "parse_targets demo_targets = Inr demo_networks" "list_all unscoped demo_networks"
  by code_simp+

lemma demo_unscoped: "\<forall>n \<in> set demo_networks. unscoped n"
  using demo_parsed(2) by (simp add: list_all_iff)


text \<open>
  Printing a network and parsing the text as a target gives the network back, for every IPv4 and
  IPv6 network that may be a target (aligned, unscoped, neither default, unspecified nor multicast),
  IPv6 zero compression included.
\<close>

lemma display_roundtrip:
  assumes "valid_net n" "unscoped n" "\<not> prohibited n"
  shows "parse_target (display_value n) = Inr n"
  using parse_display assms by (simp add: unscoped_def)

definition demo_net :: ipnet where
  "demo_net = \<lparr>net_address = v6 (0x2001 * 2 ^ 112 + 1) None, net_prefixlen = 128\<rparr>"

lemma demo_net_facts: "valid_net demo_net" "unscoped demo_net" "\<not> prohibited demo_net"
  by (simp_all add: demo_net_def valid_net_def valid_addr_def v6_def valid_scope_def max_prefixlen_def
      host_part_def unscoped_def prohibited_def is_unspecified_def is_multicast_def net_all_def
      addr_is_multicast_def in_prefix_def first_int_def broadcast_int_def num_addresses_def)

lemma display_roundtrip_example: "parse_target (display_value demo_net) = Inr demo_net"
  by (rule display_roundtrip [OF demo_net_facts])

section \<open>Counting and limits\<close>


lemma finite_net_ints [simp]: "finite (net_ints n)"
  by (simp add: net_ints_def)



lemma irredundant_disjoint:
  assumes "irredundant ns" "\<And>n. n \<in> set ns \<Longrightarrow> valid_net n \<and> unscoped n"
    and "i < j" "j < length ns" "net_version (ns ! i) = net_version (ns ! j)"
  shows "net_ints (ns ! i) \<inter> net_ints (ns ! j) = {}"
proof (rule ccontr)
  assume "net_ints (ns ! i) \<inter> net_ints (ns ! j) \<noteq> {}"
  then obtain a where a: "a \<in> net_ints (ns ! i)" "a \<in> net_ints (ns ! j)" by blast
  have m: "ns ! i \<in> set ns" "ns ! j \<in> set ns" using assms(3,4) by auto
  have "net_key (ns ! i) \<le> net_key (ns ! j)"
    using assms(1,3,4) by (simp add: irredundant_def sorted_iff_nth_mono)
  then have "subnet_of (ns ! j) (ns ! i)"
    using overlap_covered [OF _ _ _ _ assms(5) _ a] assms(2) m by blast
  with assms(1,3,4,5) show False by (simp add: irredundant_def)
qed

lemma irredundant_pairwise:
  assumes "irredundant ns" "\<And>n. n \<in> set ns \<Longrightarrow> valid_net n \<and> unscoped n"
  shows "distinct ns" "\<And>x y. x \<in> set ns \<Longrightarrow> y \<in> set ns \<Longrightarrow> x \<noteq> y \<Longrightarrow> net_version x = net_version y
    \<Longrightarrow> net_ints x \<inter> net_ints y = {}"
proof -
  show "distinct ns"
    unfolding distinct_conv_nth
  proof (intro allI impI)
    fix i j assume ij: "i < length ns" "j < length ns" "i \<noteq> j"
    show "ns ! i \<noteq> ns ! j"
    proof
      assume eq: "ns ! i = ns ! j"
      have "first_int (ns ! i) \<in> net_ints (ns ! i)"
        using valid_net_dvd(2) [of "ns ! i"] assms(2) [of "ns ! i"] ij(1)
        by (simp add: net_ints_def broadcast_int_def)
      moreover have "net_ints (ns ! min i j) \<inter> net_ints (ns ! max i j) = {}"
        using ij eq by (intro irredundant_disjoint [OF assms]) (auto simp: min_def max_def)
      ultimately show False using eq by (auto simp: min_def max_def split: if_splits)
    qed
  qed
  fix x y assume "x \<in> set ns" "y \<in> set ns" "x \<noteq> y" "net_version x = net_version y"
  then obtain i j where "i < length ns" "j < length ns" "x = ns ! i" "y = ns ! j" "i \<noteq> j"
    by (auto simp: in_set_conv_nth)
  with \<open>net_version x = net_version y\<close> irredundant_disjoint [OF assms, of i j]
    irredundant_disjoint [OF assms, of j i]
  show "net_ints x \<inter> net_ints y = {}" by (cases "i < j") auto
qed




text \<open>
  Validating the canonical targets again, with the same settings and profile, gives the same
  scope: the stored form is a fixed point.
\<close>

lemma remove_covered_id:
  assumes "irredundant ns" "distinct ns"
  shows "remove_duplicates_and_covered ns = ns"
proof -
  have "py_set ns = ns" using assms(2) by (simp add: py_set_def distinct_remdups_id)
  moreover have "sort_key net_key ns = ns"
    using assms(1) by (intro sort_key_id_if_sorted) (simp add: irredundant_def)
  ultimately show ?thesis using drop_covered_id [of "[]" ns] assms(1) by (simp add: remove_duplicates_and_covered_def)
qed

lemma drop_covered_length: "length (drop_covered r ns) \<le> length r + length ns"
proof (induction r ns rule: drop_covered.induct)
  case (2 r n ns)
  then show ?case by (cases "\<exists>e \<in> set r. net_version n = net_version e \<and> subnet_of n e") auto
qed simp

lemma remove_covered_length: "length (remove_duplicates_and_covered ns) \<le> length ns"
proof -
  have "length (py_set ns) \<le> length ns" using length_remdups_leq [of "rev ns"] by (simp add: py_set_def)
  then show ?thesis
    using drop_covered_length [of "[]" "sort_key net_key (py_set ns)"]
    by (simp add: remove_duplicates_and_covered_def)
qed

lemma remove_covered_neq: "ns \<noteq> [] \<Longrightarrow> remove_duplicates_and_covered ns \<noteq> []"
  using drop_covered_covers [of "hd ns" "sort_key net_key (py_set ns)" "[]"]
  by (auto simp: remove_duplicates_and_covered_def)

theorem validate_fixed_point:
  assumes "validate s ts p = Inr vs" "parse_targets ts = Inr ns" "\<forall>n \<in> set ns. unscoped n"
  shows "validate s (vs_canonical_targets vs) p = Inr vs"
proof -
  let ?ms = "remove_duplicates_and_covered ns"
  have so: "scope_of s p ?ms = Inr vs" and len: "ts \<noteq> []" "length ts \<le> 256"
    using assms(1,2) by (auto elim!: validate_Inr)
  have v: "valid_net n \<and> unscoped n \<and> \<not> prohibited n" if "n \<in> set ?ms" for n
    using parse_targets_valid [OF assms(2)] assms(3) remove_covered_subset that by blast
  have pc: "parse_targets (map display_value ?ms) = Inr ?ms" using v by (intro parse_canonical) blast
  have "distinct ?ms" using irredundant_pairwise(1) [OF remove_covered_irredundant] v by blast
  then have id: "remove_duplicates_and_covered ?ms = ?ms" by (rule remove_covered_id [OF remove_covered_irredundant])
  have "length ns = length ts" using assms(2) by (auto simp: parse_targets_Inr dest: list_all2_lengthD)
  then have "ns \<noteq> []" "length ns \<le> 256" using len by auto
  then have "?ms \<noteq> []" "length ?ms \<le> 256"
    using remove_covered_neq [of ns] remove_covered_length [of ns] by auto
  then show ?thesis using scope_of_Inr(1) [OF so] pc id so by (simp add: validate_def)
qed

theorem validate_fixed_point_witness:
  "validate demo_settings [''10.0.0.0/24'', ''10.0.1.0/25''] STANDARD = validate demo_settings demo_targets STANDARD"
  using validate_fixed_point [OF demo_small demo_parsed(1) demo_unscoped] demo_small by simp

section \<open>No multicast\<close>

lemma same_block:
  assumes "valid_net n" "i \<in> net_ints n" "j \<in> net_ints n" "num_addresses n dvd m" "0 < m"
  shows "i div m = j div m"
proof -
  have b: "i - i mod m \<le> first_int n" "first_int n + num_addresses n \<le> i - i mod m + m"
    using aligned_nested [OF assms(4,5), of i] net_base [OF assms(1,2)] by simp_all
  have j: "first_int n \<le> j" "j < first_int n + num_addresses n"
    using assms(3) valid_net_dvd(2) [OF assms(1)] by (auto simp: net_ints_def broadcast_int_def)
  have "i - i mod m = m * (i div m)" by (simp add: minus_mod_eq_mult_div)
  then have "m * (i div m) \<le> j" "j < m * Suc (i div m)" using b j by simp_all
  then show ?thesis by (metis div_nat_eqI)
qed

lemma small_not_multicast:
  assumes n: "valid_net n" "\<not> prohibited n" and small: "num_addresses n < 2 ^ 28"
    and i: "i \<in> net_ints n"
  shows "\<not> addr_is_multicast (net_version n) i"
proof -
  define m where "m = (if net_version n = 4 then 2 ^ 28 else 2 ^ 120 :: nat)"
  have "num_addresses n dvd 2 ^ 28"
  proof -
    have "max_prefixlen (net_version n) - net_prefixlen n < 28"
      using small unfolding num_addresses_def by (rule power_less_imp_less_exp [rotated]) simp
    then show ?thesis unfolding num_addresses_def by (intro le_imp_power_dvd) simp
  qed
  moreover have "(2::nat) ^ 28 dvd m" by (simp add: m_def le_imp_power_dvd)
  ultimately have dvd: "num_addresses n dvd m" by (rule dvd_trans)
  have m: "0 < m" by (simp add: m_def)
  have ends: "first_int n \<in> net_ints n" "broadcast_int n \<in> net_ints n"
    using valid_net_dvd(2) [OF n(1)] by (auto simp: net_ints_def broadcast_int_def)
  have mc: "addr_is_multicast (net_version n) k = (k div m = (if net_version n = 4 then 14 else 255))" for k
    by (simp add: addr_is_multicast_def in_prefix_def m_def)
  show ?thesis
    using n(2) same_block [OF n(1) i ends(1) dvd m] same_block [OF n(1) i ends(2) dvd m]
    by (auto simp: prohibited_def is_multicast_def net_all_def mc)
qed

text \<open>
  Unless large scopes are allowed, with a profile limit below 2 to the 28, no address of a
  validated scope is a multicast address, neither IPv4 nor IPv6.
\<close>

lemma scope_excludes_multicast:
  assumes "validate s ts p = Inr vs" "parse_targets ts = Inr ns" "\<forall>n \<in> set ns. unscoped n"
    and "\<not> active_allow_large_scopes s" "profile_limit s p < 2 ^ 28" "(v, i) \<in> scope_addresses ns"
  shows "\<not> addr_is_multicast v i"
proof -
  let ?ms = "remove_duplicates_and_covered ns"
  have so: "scope_of s p ?ms = Inr vs" using assms(1,2) by (auto elim!: validate_Inr)
  have val: "valid_net n \<and> \<not> prohibited n" if "n \<in> set ns" for n
    using parse_targets_valid [OF assms(2) that] .
  have "(v, i) \<in> scope_addresses ?ms" using remove_covered_addresses [of ns] val assms(6) by simp
  then obtain n where n: "n \<in> set ?ms" "net_version n = v" "i \<in> net_ints n" by (auto simp: scope_addresses_def)
  have nv: "valid_net n" "\<not> prohibited n" using val remove_covered_subset n(1) by blast+
  have v: "v = 4 \<or> v = 6" using nv(1) n(2) by (auto simp: valid_net_def valid_addr_def)
  have "int (num_addresses n) \<le> family_count v ?ms"
    unfolding family_count_def
    by (rule member_le_sum_list) (use n(1,2) in auto)
  also have "\<dots> \<le> profile_limit s p" using scope_of_Inr(3,4) [OF so assms(4)] v by auto
  finally have "num_addresses n < 2 ^ 28" using assms(5) by simp
  then show ?thesis using small_not_multicast [OF nv _ n(3)] n(2) by simp
qed

lemma demo_address: "(4, first_int (hd demo_networks)) \<in> scope_addresses demo_networks"
proof -
  have h: "hd demo_networks \<in> set demo_networks" "net_version (hd demo_networks) = 4" by code_simp+
  then have "valid_net (hd demo_networks)" using parse_targets_valid [OF demo_parsed(1)] by blast
  then have "first_int (hd demo_networks) \<in> net_ints (hd demo_networks)"
    using valid_net_dvd(2) [of "hd demo_networks"] by (simp add: net_ints_def broadcast_int_def)
  with h show ?thesis by (auto simp: scope_addresses_def)
qed

lemma scope_excludes_multicast_example: "\<not> addr_is_multicast 4 (first_int (hd demo_networks))"
  by (rule scope_excludes_multicast [OF demo_small demo_parsed(1) demo_unscoped _ _ demo_address])
    (simp_all add: demo_settings_def)

section \<open>Proposals\<close>

text \<open>What a proposed network may be.\<close>

definition proposable :: "scope_settings \<Rightarrow> ipnet \<Rightarrow> bool" where
  "proposable s n \<longleftrightarrow> valid_net n \<and> \<not> prohibited n \<and> \<not> is_loopback n \<and> \<not> is_link_local n
     \<and> (active_allow_large_scopes s \<or> int (num_addresses n) \<le> proposal_limit s (net_version n))"

definition proposed_ok :: "scope_settings \<Rightarrow> proposed_network \<Rightarrow> bool" where
  "proposed_ok s x \<longleftrightarrow> (\<exists>n. proposable s n \<and> pn_cidr x = display_value n)"

lemma assigned_network_valid: "assigned_network v = Inr n \<Longrightarrow> valid_net n \<and> \<not> prohibited n"
  using single_network_valid ip_network_valid
  by (auto simp: assigned_network_def Let_def checked_network_Inr ip_interface_network_def split: if_splits)

lemma eligible_value_ok: "eligible_value s origin ifc vlan v = Inr x \<Longrightarrow> proposed_ok s x"
  using assigned_network_valid [of v]
  by (auto simp: eligible_value_def proposed_ok_def proposable_def split: sum.splits if_splits)

lemma eligible_networks_ok:
  "eligible_networks s origin ifc vlan raws rej = (found, rej') \<Longrightarrow> x \<in> set found \<Longrightarrow> proposed_ok s x"
proof (induction raws arbitrary: rej found rej')
  case (Cons r raws)
  show ?case
  proof (cases "strip r = []")
    case True
    then show ?thesis using Cons.IH [of rej found] Cons.prems by simp
  next
    case False
    show ?thesis
    proof (cases "eligible_value s origin ifc vlan (strip r)")
      case (Inl e)
      then show ?thesis using Cons.IH [of "rej @ [e]" found] Cons.prems False by simp
    next
      case (Inr n)
      obtain f r' where e: "eligible_networks s origin ifc vlan raws rej = (f, r')" by force
      then have "found = n # f" using Cons.prems(1) False Inr by simp
      then show ?thesis using Cons.IH [OF e] Cons.prems(2) eligible_value_ok [OF Inr] by auto
    qed
  qed
qed simp

lemma dict_extend_values:
  assumes "(k, vs) \<in> set (dict_extend k' ws d)" "v \<in> set vs"
  shows "v \<in> set ws \<or> (\<exists>us. (k, us) \<in> set d \<and> v \<in> set us) \<or> (\<exists>us. (k', us) \<in> set d \<and> v \<in> set us)"
proof -
  have "(k, vs) \<in> set (dict_set k' xs d) \<Longrightarrow> (k, vs) \<in> set d \<or> k = k' \<and> vs = xs" for xs
    by (induction d) (auto split: if_splits)
  then show ?thesis using assms by (fastforce simp: dict_extend_def dest: map_of_SomeD split: option.splits)
qed

lemma vlan_networks_ok:
  assumes "vlan_networks s ifc ps found rej = Inr (found', rej')"
    and "\<And>k vs v. (k, vs) \<in> set found \<Longrightarrow> v \<in> set vs \<Longrightarrow> proposed_ok s v"
    and "(k, vs) \<in> set found'" "v \<in> set vs"
  shows "proposed_ok s v"
  using assms
proof (induction ps arbitrary: found rej)
  case (Cons p ps)
  let ?name = "or_empty (peer_name p)"
  from Cons.prems(1) obtain vl where vl: "vlan_id_for ifc ?name = Inr vl" by (auto simp: Let_def)
  show ?case
  proof (cases vl)
    case None
    then show ?thesis using Cons.IH [of found rej] Cons.prems vl by (simp add: Let_def)
  next
    case (Some w)
    obtain ns r where e: "eligible_networks s ''vlan'' ?name (Some w)
        (or_empty (peer_ipv4 p) @ or_empty (peer_ipv6 p)) rej = (ns, r)" by force
    let ?f = "if ns \<noteq> [] then dict_extend ?name ns found else found"
    have rec: "vlan_networks s ifc ps ?f r = Inr (found', rej')"
      using Cons.prems(1) vl Some e by (simp add: Let_def split: if_splits)
    have ok: "proposed_ok s v" if "(k, vs) \<in> set ?f" "v \<in> set vs" for k vs v
    proof (cases "ns = []")
      case True
      then show ?thesis using that Cons.prems(2) by simp
    next
      case False
      then have "(k, vs) \<in> set (dict_extend ?name ns found)" using that(1) by simp
      from dict_extend_values [OF this that(2)] show ?thesis
        using Cons.prems(2) eligible_networks_ok [OF e] by blast
    qed
    show ?thesis by (rule Cons.IH [OF rec ok Cons.prems(3,4)])
  qed
qed simp

lemma route_networks_ok:
  "route_networks s ifc rs rej = (found, rej') \<Longrightarrow> x \<in> set found \<Longrightarrow> proposed_ok s x"
proof (induction rs arbitrary: rej found rej')
  case (Cons r rs)
  show ?case
  proof (cases "or_empty (rt_dev r) \<noteq> ifc \<or> truthy (rt_gateway r) \<or> route_destination r = None")
    case True
    then have "route_networks s ifc rs rej = (found, rej')" using Cons.prems(1) by (auto split: if_splits)
    then show ?thesis by (rule Cons.IH [OF _ Cons.prems(2)])
  next
    case False
    then obtain d where d: "route_destination r = Some d" by auto
    obtain ns r1 where e: "eligible_networks s ''route'' ifc None [d] rej = (ns, r1)" by force
    obtain ms r2 where m: "route_networks s ifc rs r1 = (ms, r2)" by force
    have "route_networks s ifc (r # rs) rej = (ns @ ms, r2)"
      using False d e m by (simp only: route_networks.simps prod.case option.case) simp
    then have "found = ns @ ms" using Cons.prems(1) by simp
    then show ?thesis using Cons.prems(2) eligible_networks_ok [OF e] Cons.IH [OF m] by auto
  qed
qed simp

lemma unique_cidrs_set: "set (unique_cidrs seen ns) \<subseteq> set ns"
  by (induction seen ns rule: unique_cidrs.induct) auto

lemma unique_cidrs_distinct:
  "distinct (map pn_cidr (unique_cidrs seen ns)) \<and> (\<forall>x \<in> set (unique_cidrs seen ns). pn_cidr x \<notin> set seen)"
proof (induction seen ns rule: unique_cidrs.induct)
  case (2 seen n ns)
  show ?case
  proof (cases "pn_cidr n \<in> set seen")
    case True
    then show ?thesis using 2(1) by simp
  next
    case False
    note IH = 2(2) [OF False]
    have "pn_cidr n \<notin> pn_cidr ` set (unique_cidrs (pn_cidr n # seen) ns)" using IH by auto
    then show ?thesis using IH False by simp
  qed
qed simp

lemma proposal_ok:
  assumes "\<And>x. x \<in> set ns \<Longrightarrow> proposed_ok s x"
  shows "(\<forall>x \<in> set (sp_networks (proposal ifc src ns rej)). proposed_ok s x)
    \<and> distinct (sp_canonical_targets (proposal ifc src ns rej))"
  using assms unique_cidrs_set [of "[]" ns] unique_cidrs_distinct [of "[]" ns]
  by (auto simp: proposal_def Let_def)

text \<open>
  A proposed scope only holds networks that are valid targets, neither default, unspecified,
  multicast, loopback nor link-local, and (unless large scopes are allowed) within the largest profile
  limit of their family; no target occurs twice.
\<close>

theorem proposal_sound:
  assumes "propose s ifc assigned peers routes = Inr pr"
  shows "(\<forall>x \<in> set (sp_networks pr). proposed_ok s x) \<and> distinct (sp_canonical_targets pr)"
proof -
  obtain sel rej where sel: "eligible_networks s ''assigned'' ifc None assigned [] = (sel, rej)" by force
  show ?thesis
  proof (cases "sel = []")
    case False
    then have "pr = proposal ifc PS_INTERFACE_PREFIX sel rej" using assms sel by (simp add: propose_def)
    with proposal_ok [OF eligible_networks_ok [OF sel]] show ?thesis by simp
  next
    case True
    then obtain found rej1 where v: "vlan_networks s ifc peers [] rej = Inr (found, rej1)"
      using assms sel by (auto simp: propose_def)
    note vok = vlan_networks_ok [OF v]
    obtain rs rej2 where r: "route_networks s ifc routes rej1 = (rs, rej2)" by force
    show ?thesis
    proof (cases found)
      case (Cons c cs)
      obtain k ns where c: "c = (k, ns)" by force
      then have pr: "pr = proposal k PS_VLAN_HINTS ns rej1" using assms sel True v Cons by (simp add: propose_def)
      have "proposed_ok s x" if "x \<in> set ns" for x using vok [of k ns x] Cons c that by simp
      with pr proposal_ok [of ns s] show ?thesis by blast
    next
      case Nil
      then have pr: "pr = proposal ifc (if rs = [] then PS_EMPTY else PS_ROUTE_HINTS) rs rej2"
        using assms sel True v r by (cases "rs = []") (simp_all add: propose_def eq_commute)
      have "proposed_ok s x" if "x \<in> set rs" for x using route_networks_ok [OF r that] .
      with pr proposal_ok [of rs s] show ?thesis by blast
    qed
  qed
qed

definition demo_proposal :: scope_proposal where
  "demo_proposal = \<lparr>sp_interface = ''eth0'', sp_source = PS_INTERFACE_PREFIX,
     sp_networks = [\<lparr>pn_cidr = ''10.0.5.0/24'', pn_origin = ''assigned'', pn_assigned = Some ''10.0.5.7/24'',
       pn_vlan_id = None, pn_interface = Some ''eth0''\<rparr>],
     sp_canonical_targets = [''10.0.5.0/24''], sp_assigned_addresses = [''10.0.5.7/24''], sp_vlan_ids = [],
     sp_rejected = [\<lparr>rc_value = ''127.0.0.1/8'', rc_code = ''not_global_unicast''\<rparr>]\<rparr>"

lemma demo_propose: "propose demo_settings ''eth0'' [''127.0.0.1/8'', ''10.0.5.7/24''] [] [] = Inr demo_proposal"
  by code_simp

theorem proposal_sound_witness: "list_all (proposed_ok demo_settings) (sp_networks demo_proposal)"
  using proposal_sound [OF demo_propose] by (simp add: list_all_iff)

text \<open>
  Expanding the operator's targets drops blank ones, keeps every other one in order, and replaces
  a plain address only by a connected network that has this address as its network address, so that
  the typed address is inside what is scanned.
\<close>

definition expansion_of :: "string list \<Rightarrow> string \<Rightarrow> string \<Rightarrow> bool" where
  "expansion_of assigned value out \<longleftrightarrow> out = value \<or> (CHR ''/'' \<notin> set value
     \<and> (\<exists>a n c. ip_address value = Some a \<and> c \<in> set assigned \<and> ip_interface_network c = Some n
          \<and> out = net_str n \<and> net_address n = a \<and> in_network a n))"

lemma network_address_inside: "valid_net n \<Longrightarrow> in_network (net_address n) n"
  using in_network_iff [of n "net_address n"] valid_net_dvd(2) [of n]
  by (simp add: net_ints_def broadcast_int_def first_int_def)

lemma map_filter_all2:
  assumes "\<And>x y. x \<in> set xs \<Longrightarrow> f x = Some y \<Longrightarrow> R (g x) y" "\<And>x. x \<in> set xs \<Longrightarrow> f x = None \<longleftrightarrow> g x = []"
  shows "list_all2 R (filter (\<lambda>v. v \<noteq> []) (map g xs)) (List.map_filter f xs)"
  using assms
proof (induction xs)
  case (Cons x xs)
  have "list_all2 R (filter (\<lambda>v. v \<noteq> []) (map g xs)) (List.map_filter f xs)" using Cons by simp
  then show ?case using Cons.prems(1) [of x] Cons.prems(2) [of x] by (cases "f x") auto
qed simp

theorem expansion_sound:
  "list_all2 (expansion_of assigned) (filter (\<lambda>v. v \<noteq> []) (map strip targets))
     (expand_connected_network_targets targets assigned)"
  unfolding expand_connected_network_targets_def Let_def
proof (rule map_filter_all2)
  let ?nets = "List.map_filter ip_interface_network assigned"
  fix raw out
  assume r: "(if strip raw = [] then None else if CHR ''/'' \<in> set (strip raw) then Some (strip raw)
      else case ip_address (strip raw) of None \<Rightarrow> Some (strip raw)
        | Some a \<Rightarrow> (case find (\<lambda>n. net_address n = a) ?nets of None \<Rightarrow> Some (strip raw)
            | Some n \<Rightarrow> Some (net_str n))) = Some out"
  show "expansion_of assigned (strip raw) out"
  proof (cases "out = strip raw")
    case False
    then obtain a n where a: "CHR ''/'' \<notin> set (strip raw)" "ip_address (strip raw) = Some a"
      "find (\<lambda>n. net_address n = a) ?nets = Some n" "out = net_str n"
      using r by (auto split: if_splits option.splits)
    then have "n \<in> set ?nets" "net_address n = a" by (auto simp: find_Some_iff)
    then obtain c where c: "c \<in> set assigned" "ip_interface_network c = Some n"
      by (auto simp: List.map_filter_def)
    then have "valid_net n" using ip_network_valid by (auto simp: ip_interface_network_def)
    with a c \<open>net_address n = a\<close> network_address_inside show ?thesis by (auto simp: expansion_of_def)
  qed (simp add: expansion_of_def)
qed (auto split: option.splits)

end
