(* ===== verification/Protocol_Properties.thy ===== *)
theory Protocol_Properties
  imports Protocol_Facts
begin

text \<open>The properties of the protocol-audit planner.\<close>

lemmas module_defs = SshModule_def TlsModule_def HttpModule_def DnsModule_def SmbModule_def SnmpModule_def
  LdapModule_def TestsslModule_def NiktoModule_def NucleiModule_def GatedModule_def

section \<open>Matched work\<close>

lemma services_work_mem:
  "services_work sel assets scope ss = Inr ws \<Longrightarrow> w \<in> set ws \<Longrightarrow>
     \<exists>s \<in> set ss. \<exists>vs. service_work sel assets scope s = Inr vs \<and> w \<in> set vs"
  by (induction ss arbitrary: ws) auto

lemma service_work_mem:
  assumes "service_work sel assets scope s = Inr vs" "w \<in> set vs"
  obtains a m where "a \<in> set assets" "as_id a = sr_asset_id s" "is_open_service s"
    "build_probe_target a s scope = Inr (Some (mw_target w))" "m \<in> set sel" "mw_module w = pm_name m"
    "pm_safety m \<noteq> NEVER_DEFAULT" "module_matches m s"
proof -
  have o: "is_open_service s" using assms by (cases "is_open_service s") (simp_all add: service_work_def)
  obtain a where a: "map_of (rev (map (\<lambda>a. (as_id a, a)) assets)) (sr_asset_id s) = Some a"
    using assms o
    by (cases "map_of (rev (map (\<lambda>a. (as_id a, a)) assets)) (sr_asset_id s)") (simp_all add: service_work_def)
  have am: "a \<in> set assets" "as_id a = sr_asset_id s" using map_of_SomeD [OF a] by auto
  obtain x where x: "build_probe_target a s scope = Inr x"
    using assms(1) o a by (cases "build_probe_target a s scope") (simp_all add: service_work_def)
  obtain t where t: "x = Some t" using assms o a x by (cases x) (simp_all add: service_work_def)
  have "w \<in> set (map (\<lambda>m. \<lparr>mw_module = pm_name m, mw_target = t\<rparr>)
      (filter (\<lambda>m. pm_safety m \<noteq> NEVER_DEFAULT \<and> module_matches m s) sel))"
    using assms o a x t by (simp add: service_work_def)
  then obtain m where "m \<in> set sel" "pm_safety m \<noteq> NEVER_DEFAULT" "module_matches m s"
    "w = \<lparr>mw_module = pm_name m, mw_target = t\<rparr>" by auto
  with that [of a m] am o x t show thesis by simp
qed

text \<open>
  Every probe the matcher plans goes to an address inside the confirmed scope, which is an address
  of the service's own asset, on the port of an open service; it is planned by a default module that
  matches the service, is in the allowed list when there is one, and is never a gated scanner.
\<close>

lemma match_work_inside_scope:
  assumes "match_work reg assets services scope allowed = Inr ws" "w \<in> set ws"
  shows "inside_scope (pt_address (mw_target w)) scope
    \<and> pt_service (mw_target w) \<in> set services \<and> is_open_service (pt_service (mw_target w))
    \<and> pt_port (mw_target w) = sr_port (pt_service (mw_target w))
    \<and> pt_asset (mw_target w) \<in> set assets
    \<and> as_id (pt_asset (mw_target w)) = sr_asset_id (pt_service (mw_target w))
    \<and> (\<exists>r \<in> set (as_addresses (pt_asset (mw_target w))). canonical_host (ar_address r) = Inr (pt_address (mw_target w)))
    \<and> (\<exists>m \<in> set (default_modules reg). pm_name m = mw_module w \<and> pm_safety m \<noteq> NEVER_DEFAULT
         \<and> module_matches m (pt_service (mw_target w))
         \<and> (case allowed of None \<Rightarrow> True | Some ns \<Rightarrow> mw_module w \<in> set ns))"
proof -
  let ?sel = "filter (\<lambda>m. case allowed of None \<Rightarrow> True | Some ns \<Rightarrow> pm_name m \<in> set ns) (default_modules reg)"
  obtain s vs where s: "s \<in> set services" "service_work ?sel assets scope s = Inr vs" "w \<in> set vs"
    using services_work_mem assms unfolding match_work_def by blast
  obtain a m where a: "a \<in> set assets" "as_id a = sr_asset_id s" "is_open_service s"
    "build_probe_target a s scope = Inr (Some (mw_target w))" "m \<in> set ?sel" "mw_module w = pm_name m"
    "pm_safety m \<noteq> NEVER_DEFAULT" "module_matches m s" by (rule service_work_mem [OF s(2,3)])
  note t = build_probe_target_Some [OF a(4)]
  have m: "m \<in> set (default_modules reg)" "case allowed of None \<Rightarrow> True | Some ns \<Rightarrow> pm_name m \<in> set ns"
    using a(5) by auto
  have p: "\<exists>m \<in> set (default_modules reg). pm_name m = mw_module w \<and> pm_safety m \<noteq> NEVER_DEFAULT
      \<and> module_matches m s \<and> (case allowed of None \<Rightarrow> True | Some ns \<Rightarrow> mw_module w \<in> set ns)"
    using a(6-8) m(2) by (intro bexI [of _ m] m(1)) (simp split: option.splits)
  show ?thesis
    using select_probe_address_inside [OF t(5)] s(1) a(1-3) t(2-4) p by simp
qed

definition demo_service :: service_record where
  "demo_service = \<lparr>sr_id = ''s1'', sr_audit_id = ''a1'', sr_asset_id = ''h1'', sr_protocol = ''tcp'', sr_port = 22,
     sr_state = ''open'', sr_reason = None, sr_service_name = Some ''ssh'', sr_product = None, sr_version = None,
     sr_extra_info = None, sr_tunnel = None, sr_cpe = [], sr_banner = None, sr_method = None,
     sr_confidence = CL_HIGH, sr_source = ''nmap'', sr_first_seen = 0, sr_last_seen = 0\<rparr>"

definition demo_asset :: asset_record where
  "demo_asset = \<lparr>as_id = ''h1'', as_audit_id = ''a1'', as_state = AST_RESPONSIVE, as_mac = None, as_vendor = None,
     as_vendor_source = None, as_vendor_database_version = None, as_device_class_hint = DC_SERVER,
     as_device_class_confidence = CL_LOW, as_os_family = None, as_os_name = None, as_os_generation = None,
     as_os_accuracy = None, as_first_seen = 0, as_last_seen = 0, as_metadata = [],
     as_addresses = [\<lparr>ar_id = ''x1'', ar_asset_id = ''h1'', ar_address = ''10.0.9.1'', ar_family = 4,
         ar_is_primary = True, ar_first_seen = 0, ar_last_seen = 0, ar_source = ''nmap'', ar_confidence = CL_HIGH\<rparr>,
       \<lparr>ar_id = ''x2'', ar_asset_id = ''h1'', ar_address = ''10.0.1.7'', ar_family = 4,
         ar_is_primary = False, ar_first_seen = 0, ar_last_seen = 0, ar_source = ''nmap'', ar_confidence = CL_HIGH\<rparr>],
     as_names = [], as_services = []\<rparr>"

definition demo_confirmed :: confirmed_scope where
  "demo_confirmed = \<lparr>cs_id = ''c1'', cs_audit_id = ''a1'', cs_created_at = 0, cs_activated_at = Some 1,
     cs_profile = STANDARD, cs_interface = ''eth0'', cs_targets = [''10.0.0.0/24'', ''10.0.1.0/25''],
     cs_address_families = [4], cs_address_count = 384, cs_route_context = [], cs_timing_policy = ''T3'',
     cs_actor = None, cs_snapshot_hash = ''00''\<rparr>"

definition demo_registry :: module_registry where
  "demo_registry = (case default_registry of Inr r \<Rightarrow> r | Inl _ \<Rightarrow> \<lparr>mr_modules = [], mr_gated = []\<rparr>)"

definition demo_work :: matched_work where
  "demo_work = \<lparr>mw_module = ''ssh'', mw_target = \<lparr>pt_asset = demo_asset, pt_service = demo_service,
     pt_address = ''10.0.1.7'', pt_port = 22, pt_hostname = None, pt_scheme_hint = None\<rparr>\<rparr>"

lemma demo_match: "match_work demo_registry [demo_asset] [demo_service] demo_confirmed None = Inr [demo_work]"
  by code_simp

lemma match_work_inside_scope_example: "inside_scope ''10.0.1.7'' demo_confirmed"
  using match_work_inside_scope [OF demo_match, of demo_work] by (simp add: demo_work_def)

section \<open>Commands\<close>

lemma bracket_host_canonical:
  assumes "canonical_host s = Inr h"
  shows "\<exists>b. bracket_host s = Inr b \<and> (b = h \<or> b = ''['' @ h @ '']'')"
proof -
  obtain a where a: "ip_address (strip s) = Some a" "h = ip_str a" using assms by (auto simp: canonical_host_Inr)
  have "ip_address h = Some a" using ip_address_str [OF ip_address_valid [OF a(1)]] a(2) by simp
  then show ?thesis using assms a(2) by (auto simp: bracket_host_def parsed_address_def)
qed

text \<open>
  For a probe target with a canonical address and a port in range, each of the seven default
  modules builds its commands without an error; there is at least one, and each carries the probed
  address as (part of) one of its arguments.
\<close>

definition mentions :: "string \<Rightarrow> tool_command \<Rightarrow> bool" where
  "mentions host c \<longleftrightarrow> (\<exists>arg \<in> set (tc_args c). \<exists>p q. arg = p @ host @ q)"

lemma mentions_arg: "p @ host @ q \<in> set (tc_args c) \<Longrightarrow> mentions host c"
  by (auto simp: mentions_def)

lemma lc_command_simps [simp]: "tc_args (lc_command t as n) = as"
  by (simp add: lc_command_def)

lemma mentions_bracket:
  "b = h \<or> b = ''['' @ h @ '']'' \<Longrightarrow> p @ b @ q \<in> set (tc_args c) \<Longrightarrow> mentions h c"
  using mentions_arg [of p h q c] mentions_arg [of "p @ ''[''" h "'']'' @ q" c] by auto

theorem default_commands_total:
  assumes "canonical_host (pt_address t) = Inr (pt_address t)" "0 \<le> pt_port t" "pt_port t \<le> 65535"
    and "m \<in> {SshModule, TlsModule, HttpModule, DnsModule, SmbModule, SnmpModule, LdapModule}"
  shows "\<exists>cs. pm_build_commands m t s = Inr cs \<and> cs \<noteq> [] \<and> (\<forall>c \<in> set cs. mentions (pt_address t) c)"
proof -
  let ?h = "pt_address t"
  obtain b where b: "bracket_host ?h = Inr b" "b = ?h \<or> b = ''['' @ ?h @ '']''"
    using bracket_host_canonical [OF assms(1)] by blast
  have e: "connect_endpoint ?h (pt_port t) = Inr (b @ '':'' @ int_str (pt_port t))"
    using b(1) assms(2,3) by (simp add: connect_endpoint_def)
  have "\<exists>cs. ssh_commands t s = Inr cs \<and> cs \<noteq> [] \<and> (\<forall>c \<in> set cs. mentions ?h c)"
    using mentions_arg [of "[]" ?h "[]"] by (simp add: ssh_commands_def assms(1))
  moreover have "\<exists>cs. snmp_commands t s = Inr cs \<and> cs \<noteq> [] \<and> (\<forall>c \<in> set cs. mentions ?h c)"
    using mentions_arg [of "[]" ?h "[]"] by (simp add: snmp_commands_def assms(1))
  moreover have "\<exists>cs. dns_commands t s = Inr cs \<and> cs \<noteq> [] \<and> (\<forall>c \<in> set cs. mentions ?h c)"
    using mentions_arg [of "''@''" ?h "[]"] by (simp add: dns_commands_def assms(1) Let_def)
  moreover have "\<exists>cs. smb_commands t s = Inr cs \<and> cs \<noteq> [] \<and> (\<forall>c \<in> set cs. mentions ?h c)"
    using mentions_bracket [OF b(2), of "''//''" "[]"] b(1) by (simp add: smb_commands_def assms(1))
  moreover have "\<exists>cs. http_commands t s = Inr cs \<and> cs \<noteq> [] \<and> (\<forall>c \<in> set cs. mentions ?h c)"
    using mentions_bracket [OF b(2), of "(if http_uses_tls t then ''https'' else ''http'') @ ''://''"
        "'':'' @ int_str (pt_port t) @ ''/''"] b(1) by (simp add: http_commands_def Let_def)
  moreover have "\<exists>cs. ldap_commands t s = Inr cs \<and> cs \<noteq> [] \<and> (\<forall>c \<in> set cs. mentions ?h c)"
    using mentions_bracket [OF b(2), of "(if ldap_uses_tls t then ''ldaps'' else ''ldap'') @ ''://''"
        "'':'' @ int_str (pt_port t)"] b(1) by (simp add: ldap_commands_def Let_def)
  moreover have "\<exists>cs. tls_commands t s = Inr cs \<and> cs \<noteq> [] \<and> (\<forall>c \<in> set cs. mentions ?h c)"
    using mentions_bracket [OF b(2), of "[]" "'':'' @ int_str (pt_port t)"] e
    by (simp add: tls_commands_def assms(1) split: option.splits)
  ultimately show ?thesis
    using assms(4) by (auto simp: SshModule_def TlsModule_def HttpModule_def DnsModule_def SmbModule_def
        SnmpModule_def LdapModule_def)
qed

definition demo_tools :: protocol_settings where
  "demo_tools = \<lparr>ps_timeout = 0, ps_ssh_audit_binary = ''ssh-audit'', ps_openssl_binary = ''openssl'',
     ps_curl_binary = ''curl'', ps_dig_binary = ''dig'', ps_smbclient_binary = ''smbclient'',
     ps_snmpget_binary = ''snmpget'', ps_ldapsearch_binary = ''ldapsearch''\<rparr>"

lemma demo_target:
  "canonical_host (pt_address (mw_target demo_work)) = Inr (pt_address (mw_target demo_work))"
  "0 \<le> pt_port (mw_target demo_work)" "pt_port (mw_target demo_work) \<le> 65535"
  by code_simp+

theorem default_commands_total_witness:
  "\<exists>cs. pm_build_commands SshModule (mw_target demo_work) demo_tools = Inr cs \<and> cs \<noteq> []
     \<and> list_all (mentions (pt_address (mw_target demo_work))) cs"
  using default_commands_total [OF demo_target, of SshModule demo_tools] by (auto simp: list_all_iff)

section \<open>Host name tokens\<close>

lemma hd_map_filter: "List.map_filter f xs = y # ys \<Longrightarrow> \<exists>x \<in> set xs. f x = Some y"
  by (induction xs) (auto simp: List.map_filter_simps split: option.splits)

text \<open>
  A host name taken from the inventory reaches a tool only as a token that cannot be read as an
  option or as anything but a name: it is nonempty, at most 253 characters of letters, digits, hyphens
  and dots, and begins with a letter or a digit. The name a probe target carries is such a token.
\<close>

theorem target_hostname_token:
  assumes "build_probe_target asset service scope = Inr (Some t)" "pt_hostname t = Some h"
  shows "h \<noteq> [] \<and> length h \<le> 253 \<and> list_all hostname_char h \<and> is_alnum (hd h)
    \<and> (\<exists>r \<in> set (as_names asset). safe_hostname (Some (nr_name r)) = Some h)"
proof -
  have "select_hostname asset = Some h" using build_probe_target_Some(6) [OF assms(1)] assms(2) by simp
  then obtain r where r: "r \<in> set (as_names asset)" "safe_hostname (Some (nr_name r)) = Some h"
    unfolding select_hostname_def Let_def by (auto split: list.splits dest!: hd_map_filter)
  with safe_hostname_token [OF r(2)] show ?thesis by blast
qed

definition demo_named_asset :: asset_record where
  "demo_named_asset = demo_asset\<lparr>as_names := [
     \<lparr>nr_id = ''n1'', nr_asset_id = ''h1'', nr_name = ''--proxy=evil'', nr_name_type = ''ptr'',
       nr_source = ''dns'', nr_confidence = CL_LOW, nr_first_seen = 0, nr_last_seen = 0\<rparr>,
     \<lparr>nr_id = ''n2'', nr_asset_id = ''h1'', nr_name = ''gw.example.'', nr_name_type = ''mdns'',
       nr_source = ''mdns'', nr_confidence = CL_LOW, nr_first_seen = 0, nr_last_seen = 0\<rparr>]\<rparr>"

definition demo_named_target :: probe_target where
  "demo_named_target = \<lparr>pt_asset = demo_named_asset, pt_service = demo_service, pt_address = ''10.0.1.7'',
     pt_port = 22, pt_hostname = Some ''gw.example'', pt_scheme_hint = None\<rparr>"

theorem target_hostname_token_witness: "list_all hostname_char ''gw.example''"
proof -
  have "build_probe_target demo_named_asset demo_service demo_confirmed = Inr (Some demo_named_target)"
    "pt_hostname demo_named_target = Some ''gw.example''" by code_simp+
  from target_hostname_token [OF this] show ?thesis by simp
qed

section \<open>The default registry\<close>

text \<open>
  The default registry builds without an error; its default modules are exactly the seven safe
  ones, each under its own name and in the order of the names, every gated scanner is registered apart
  and is never among them, and no gated module can build a command.
\<close>

theorem default_registry_safe:
  "\<exists>r. default_registry = Inr r
     \<and> default_modules r = [DnsModule, HttpModule, LdapModule, SmbModule, SnmpModule, SshModule, TlsModule]
     \<and> list_all (\<lambda>m. pm_safety m = SAFE \<and> \<not> is_gated r (pm_name m)
          \<and> get_module r (pm_name m) = Inr m) (default_modules r)
     \<and> list_all (\<lambda>n. is_gated r n \<and> (\<exists>m. get_module r n = Inr m
          \<and> pm_safety m = NEVER_DEFAULT \<and> (\<forall>t s. \<exists>e. pm_build_commands m t s = Inl e))) GATED_MODULE_NAMES"
proof -
  have sorted: "sort [''ssh'', ''tls'', ''http'', ''dns'', ''smb'', ''snmp'', ''ldap'']
      = [''dns'', ''http'', ''ldap'', ''smb'', ''snmp'', ''ssh'', ''tls'']" by code_simp
  show ?thesis
    by (simp add: default_registry_def register_module_def default_modules_def default_names_def is_gated_def
        get_module_def GATED_MODULE_NAMES_def module_defs sorted)
qed

end
