(* ===== verification/Protocol_Run_Properties.thy ===== *)
theory Protocol_Run_Properties
  imports Protocol_Run Protocol_Properties
begin

text \<open>The properties of a module run and of the observation store.\<close>

section \<open>Upserts of drafts\<close>

lemma draft_key_new [simp]: "obs_key (new_observation c d i now) = draft_key c d"
  by (simp add: obs_key_def new_observation_def draft_key_def)

lemma obs_key_update [simp]: "obs_key (update_observation c d now r) = obs_key r"
  by (simp add: obs_key_def update_observation_def)

definition same_origin :: "observation_row \<Rightarrow> observation_row \<Rightarrow> bool" where
  "same_origin r r' \<longleftrightarrow> or_id r' = or_id r \<and> or_first_seen r' = or_first_seen r"

interpretation obs: row_origin obs_key same_origin
  by unfold_locales (simp_all add: same_origin_def)

lemma same_origin_update [simp]: "same_origin r (update_observation c d now r)"
  by (simp add: same_origin_def update_observation_def)

abbreviation obs_extends :: "obs_identity set \<Rightarrow> observation_row list \<Rightarrow> observation_row list \<Rightarrow> bool" where
  "obs_extends \<equiv> extends_on obs_key same_origin"

lemma upsert_drafts_extends:
  assumes "upsert_drafts fresh parents c n ds t = Inr (t', ps)" "distinct (map obs_key t)"
  shows "obs_extends (draft_key c ` set ds) t t' \<and> length ps = length ds"
  using assms
proof (induction ds arbitrary: n t ps)
  case Nil
  then show ?case by (simp add: obs.extends_refl)
next
  case (Cons d ds)
  let ?t = "upsert_row obs_key (draft_key c d) (new_observation c d (fst (fresh n)) (snd (fresh n)))
      (update_observation c d (snd (fresh n))) t"
  obtain qs where q: "upsert_drafts fresh parents c (Suc n) ds ?t = Inr (t', qs)" "length ps = Suc (length qs)"
    using Cons.prems(1) by (auto simp: Let_def split: if_splits)
  have e: "obs_extends {draft_key c d} t ?t" using Cons.prems(2) by (intro obs.extends_upsert) simp_all
  then have "distinct (map obs_key ?t)" by (rule extends_onD(1))
  from Cons.IH [OF q(1) this] have "obs_extends (draft_key c ` set ds) ?t t'" "length qs = length ds" by auto
  with obs.extends_trans [OF e, of "draft_key c ` set ds" t'] q(2) show ?case by simp
qed

lemma upsert_drafts_repeat:
  assumes "draft_key c ` set ds \<subseteq> obs_key ` set t" "distinct (map obs_key t)"
  shows "\<exists>t' ps. upsert_drafts fresh parents c n ds t = Inr (t', ps) \<and> map obs_key t' = map obs_key t"
  using assms
proof (induction ds arbitrary: n t)
  case (Cons d ds)
  let ?t = "upsert_row obs_key (draft_key c d) (new_observation c d (fst (fresh n)) (snd (fresh n)))
      (update_observation c d (snd (fresh n))) t"
  obtain r where r: "tbl_get obs_key t (draft_key c d) = Some r"
    using Cons.prems(1) tbl.get_None [of obs_key t "draft_key c d"] by (cases "tbl_get obs_key t (draft_key c d)") auto
  then have keys: "map obs_key ?t = map obs_key t" by (simp add: upsert_row_def tbl.keys_put)
  then have "draft_key c ` set ds \<subseteq> obs_key ` set ?t" using Cons.prems(1) by (metis image_subset_iff list.set_intros(2) list.set_map)
  from Cons.IH [OF this, of "Suc n"] obtain t' ps where
    "upsert_drafts fresh parents c (Suc n) ds ?t = Inr (t', ps)" "map obs_key t' = map obs_key ?t"
    using keys Cons.prems(2) by auto
  with r keys show ?case by (simp add: Let_def)
qed simp

lemma upsert_many_error: "upsert_many fresh parents c ds t = (t', Inl e) \<Longrightarrow> t' = t"
  by (auto simp: upsert_many_def split: sum.splits)

lemma upsert_many_ok:
  "upsert_many fresh parents c ds t = (t', Inr ps) \<longleftrightarrow> upsert_drafts fresh parents c 0 ds t = Inr (t', ps)"
  by (auto simp: upsert_many_def split: sum.splits)

text \<open>
  Storing the observations of a run keeps the identity of a row unique, adds a row exactly for
  each new identity among the drafts, leaves every row of another identity as it was, keeps the id and
  the first-seen time of a row that was there, and reports one stored row per draft. Storing the same
  drafts again succeeds and adds no row.
\<close>

lemma upsert_many_idempotent:
  assumes "distinct (map obs_key t)" "upsert_many fresh parents c drafts t = (t', Inr ps)"
  shows "obs_extends (draft_key c ` set drafts) t t' \<and> length ps = length drafts
    \<and> (\<exists>t'' ps'. upsert_many fresh' False c drafts t' = (t'', Inr ps') \<and> map obs_key t'' = map obs_key t')"
proof -
  have e: "obs_extends (draft_key c ` set drafts) t t'" "length ps = length drafts"
    using upsert_drafts_extends assms by (auto simp: upsert_many_ok)
  then have "draft_key c ` set drafts \<subseteq> obs_key ` set t'" "distinct (map obs_key t')"
    using extends_onD(1,2) [OF e(1)] by simp_all
  from upsert_drafts_repeat [OF this, of fresh' False 0] e show ?thesis by (auto simp: upsert_many_ok)
qed

definition demo_draft :: observation_draft where
  "demo_draft = \<lparr>od_kind = ''ssh_banner'', od_data = [(''software'', JStr ''OpenSSH_9.7'')], od_confidence = CL_HIGH,
     od_source = ''ssh-audit'', od_dedupe_key = []\<rparr>"

definition demo_obs_context :: obs_context where
  "demo_obs_context = work_context ''a1'' SshModule (mw_target demo_work) (Some ''e1'')"

definition demo_row :: observation_row where
  "demo_row = new_observation demo_obs_context demo_draft ''o1'' 7"

lemma demo_upsert: "upsert_many (\<lambda>n. (''o1'', 7)) True demo_obs_context [demo_draft] [] = ([demo_row], Inr [demo_row])"
  by code_simp

lemma upsert_many_idempotent_example:
  "\<exists>t'' ps'. upsert_many (\<lambda>n. (''o2'', 9)) False demo_obs_context [demo_draft] [demo_row] = (t'', Inr ps')
     \<and> map obs_key t'' = map obs_key [demo_row]"
  using upsert_many_idempotent [OF _ demo_upsert, of "\<lambda>n. (''o2'', 9)"] by simp

section \<open>Module runs\<close>

lemma run_commands_Inr:
  assumes "run_commands exec cancelled n cs = Inr rs"
  shows "length rs = length cs \<and> (\<forall>i < length cs. rs ! i = exec (n + i) (cs ! i)
    \<and> \<not> tr_cancelled (exec (n + i) (cs ! i))
    \<and> \<not> cancelled (n + i))"
  using assms
proof (induction cs arbitrary: n rs)
  case (Cons c cs)
  then obtain rs' where r: "\<not> cancelled n" "\<not> tr_cancelled (exec n c)" "rs = exec n c # rs'"
    "run_commands exec cancelled (Suc n) cs = Inr rs'" by (auto simp: Let_def split: if_splits)
  from Cons.IH [OF r(4)] r(1-3) show ?case by (auto simp: nth_Cons split: nat.splits)
qed simp

text \<open>What a run that was not skipped did: all the probes of the module, in order, without a
  cancellation, and the parsed observations stored, those of kind \<^verbatim>\<open>cancelled\<close> left out.\<close>

definition probed ::
  "run_world \<Rightarrow> protocol_settings \<Rightarrow> string \<Rightarrow> protocol_module \<Rightarrow> probe_target \<Rightarrow> module_run
     \<Rightarrow> observation_row list \<Rightarrow> observation_row list \<Rightarrow> bool" where
  "probed w s audit_id m target mr t t' \<longleftrightarrow> (\<exists>cs rs ds art. pm_build_commands m target s = Inr cs
     \<and> length rs = length cs \<and> \<not> rw_cancelled w 0
     \<and> (\<forall>i < length cs. rs ! i = rw_exec w (Suc i) (cs ! i) \<and> \<not> tr_cancelled (rw_exec w (Suc i) (cs ! i))
         \<and> \<not> rw_cancelled w (Suc i))
     \<and> module_parse_results (rw_parse w) m rs = Inr ds \<and> mr_evidence_artifact_id mr = Some art
     \<and> mr_observation_count mr = length (without_cancelled ds)
     \<and> obs_extends (draft_key (work_context audit_id m target (Some art)) ` set (without_cancelled ds)) t t')"

definition skipped_run ::
  "run_world \<Rightarrow> protocol_settings \<Rightarrow> string \<Rightarrow> protocol_module \<Rightarrow> probe_target \<Rightarrow> module_run
     \<Rightarrow> observation_row list \<Rightarrow> observation_row list \<Rightarrow> bool" where
  "skipped_run w s audit_id m target mr t t' \<longleftrightarrow> (\<exists>a. a = module_availability (rw_locate w) (rw_exec w 0) s m
     \<and> \<not> (ta_available a \<and> ta_meets_minimum a) \<and> mr_observation_count mr = 1
     \<and> obs_extends {draft_key (work_context audit_id m target None)
          (unavailable_observation (ta_tool a) (ta_message a))} t t')"

lemma skip_run_outcome:
  assumes "distinct (map obs_key t)" "skip_run w audit_id m target a t = (t', res)"
    and "a = module_availability (rw_locate w) (rw_exec w 0) s m" "\<not> (ta_available a \<and> ta_meets_minimum a)"
  shows "case res of Inl e \<Rightarrow> t' = t | Inr mr \<Rightarrow> mr_skipped mr \<and> skipped_run w s audit_id m target mr t t'"
proof -
  let ?c = "work_context audit_id m target None" and ?d = "unavailable_observation (ta_tool a) (ta_message a)"
  obtain u x where u: "upsert_many (rw_fresh w) (rw_parents w) ?c [?d] t = (u, x)" by force
  show ?thesis
  proof (cases x)
    case (Inl e)
    have "u = t" by (rule upsert_many_error [OF u [unfolded Inl]])
    then show ?thesis using assms(2) u Inl by (auto simp: skip_run_def)
  next
    case (Inr ps)
    have mr: "res = Inr (skip_report m a (length ps))" "t' = u" using assms(2) u Inr by (simp_all add: skip_run_def)
    have "obs_extends {draft_key ?c ?d} t u" "length ps = 1"
      using upsert_drafts_extends [of "rw_fresh w" "rw_parents w" ?c 0 "[?d]" t u ps] u Inr assms(1)
      by (auto simp: upsert_many_ok)
    then show ?thesis using mr assms(3,4) by (simp add: skipped_run_def skip_report_def)
  qed
qed

lemma probe_run_outcome:
  assumes "distinct (map obs_key t)" "\<not> rw_cancelled w 0"
    and "probe_results w s m target a = Inr (cs, rs, ds, art)"
    and "upsert_many (rw_fresh w) (rw_parents w) (work_context audit_id m target (Some art)) (without_cancelled ds) t
      = (t', Inr ps)"
    and "mr_evidence_artifact_id mr = Some art" "mr_observation_count mr = length ps"
  shows "probed w s audit_id m target mr t t'"
proof -
  let ?c = "work_context audit_id m target (Some art)"
  have b: "pm_build_commands m target s = Inr cs" "module_parse_results (rw_parse w) m rs = Inr ds"
    "run_commands (rw_exec w) (rw_cancelled w) 1 cs = Inr rs"
    using assms(3) by (auto simp: probe_results_def)
  have e: "obs_extends (draft_key ?c ` set (without_cancelled ds)) t t'" "length ps = length (without_cancelled ds)"
    using upsert_drafts_extends [of "rw_fresh w" "rw_parents w" ?c 0 "without_cancelled ds" t t' ps] assms(1,4)
    by (auto simp: upsert_many_ok)
  show ?thesis
    unfolding probed_def using b(1,2) run_commands_Inr [OF b(3)] e assms(2,5,6)
    by (intro exI [of _ cs] exI [of _ rs] exI [of _ ds] exI [of _ art]) simp
qed

text \<open>
  A module run either raises, and then nothing is stored; or finds the tool missing or too old,
  and then stores the one observation that says so and runs no probe; or runs every command the module
  built, in order, with the token unset before each and no result cancelled, and stores exactly what
  the parser made of the results. A run whose token is set before it raises the cancellation.
\<close>

lemma module_run_outcome:
  assumes "distinct (map obs_key t)" "run_module w s audit_id m target t = (t', res)"
  shows "(case res of Inl e \<Rightarrow> t' = t
    | Inr mr \<Rightarrow> if mr_skipped mr then skipped_run w s audit_id m target mr t t'
        else probed w s audit_id m target mr t t')
    \<and> (rw_cancelled w 0 \<longrightarrow> res = Inl job_cancelled)"
proof (cases "rw_cancelled w 0")
  case True
  then show ?thesis using assms(2) by (auto simp: run_module_def)
next
  case live: False
  define a where "a = module_availability (rw_locate w) (rw_exec w 0) s m"
  consider (skip) "\<not> (ta_available a \<and> ta_meets_minimum a)"
    | (error) e where "ta_available a \<and> ta_meets_minimum a" "probe_results w s m target a = Inl e"
    | (probe) cs rs ds art where "ta_available a \<and> ta_meets_minimum a"
        "probe_results w s m target a = Inr (cs, rs, ds, art)"
    by (cases "probe_results w s m target a") auto
  then show ?thesis
  proof cases
    case skip
    then have "skip_run w audit_id m target a t = (t', res)"
      using assms(2) live by (auto simp: run_module_def a_def Let_def)
    from skip_run_outcome [OF assms(1) this a_def skip] live show ?thesis by (auto split: sum.splits)
  next
    case error
    then show ?thesis using assms(2) live by (auto simp: run_module_def a_def Let_def)
  next
    case probe
    let ?c = "work_context audit_id m target (Some art)"
    obtain u x where u: "upsert_many (rw_fresh w) (rw_parents w) ?c (without_cancelled ds) t = (u, x)" by force
    show ?thesis
    proof (cases x)
      case (Inl e)
      have "u = t" by (rule upsert_many_error [OF u [unfolded Inl]])
      then show ?thesis using assms(2) probe u Inl live by (auto simp: run_module_def a_def Let_def)
    next
      case (Inr ps)
      let ?mr = "probe_report m a cs rs art (length ps)"
      have mr: "res = Inr ?mr" "t' = u"
        using assms(2) probe u Inr live by (simp_all add: run_module_def a_def Let_def)
      have "probed w s audit_id m target ?mr t u"
        by (rule probe_run_outcome [OF assms(1) live probe(2) u [unfolded Inr]]) (simp_all add: probe_report_def)
      then show ?thesis using mr live by (simp add: probe_report_def)
    qed
  qed
qed

definition demo_result :: tool_result where
  "demo_result = \<lparr>tr_tool = ''ssh-audit'', tr_exit_code = Some 0, tr_stdout = ''ssh-audit 2.5.0'', tr_stderr = [],
     tr_duration = 5, tr_timed_out = False, tr_cancelled = False, tr_success = True, tr_error = None\<rparr>"

definition demo_world :: run_world where
  "demo_world = \<lparr>rw_locate = (\<lambda>tool. Some (''/usr/bin/'' @ tool)), rw_exec = (\<lambda>_ _. demo_result),
     rw_cancelled = (\<lambda>_. False), rw_parse = (\<lambda>_ _. Inr [demo_draft]),
     rw_store_evidence = (\<lambda>_ _ _. Inr ''e1''), rw_fresh = (\<lambda>_. (''o1'', 7)), rw_parents = True\<rparr>"

definition demo_run :: module_run where
  "demo_run = \<lparr>mr_module = ''ssh'', mr_protocol = ''ssh'', mr_tool = ''ssh-audit'', mr_available = True,
     mr_skipped = False, mr_skip_reason = None, mr_observation_count = 1, mr_exit_code = Some 0,
     mr_timed_out = False, mr_duration = 5, mr_evidence_artifact_id = Some ''e1'',
     mr_command_metadata = [(''tool'', JStr ''ssh-audit''), (''command_count'', JInt 1), (''arg_counts'', JList [JInt 5]),
       (''timeout_seconds'', JList [JFloat ''20.0''])]\<rparr>"

lemma demo_run_module:
  "run_module demo_world demo_tools ''a1'' SshModule (mw_target demo_work) [] = ([demo_row], Inr demo_run)"
  by code_simp

lemma module_run_outcome_example:
  "probed demo_world demo_tools ''a1'' SshModule (mw_target demo_work) demo_run [] [demo_row]"
  using module_run_outcome [OF _ demo_run_module] by (simp add: demo_run_def)

section \<open>Bounded documents\<close>

lemma length_join_sum: "sum_list (map length ws) \<le> length (join_on sep ws)"
  by (induction sep ws rule: join_on.induct) auto

definition wide_data :: json_obj where
  "wide_data = [(replicate 20000 CHR ''k'', JNull),
     (''v'', JList (replicate 7 (JStr (replicate 2048 CHR ''a''))))]"

lemma wide_truncated: "truncate_obj wide_data = [(replicate 64 CHR ''k'', JNull),
    (''v'', JList (replicate 7 (JStr (replicate 2048 CHR ''a''))))]"
proof -
  have "length (replicate 64 CHR ''k'') \<noteq> length ''v''" by simp
  then have k: "''v'' \<noteq> replicate 64 CHR ''k''" by metis
  show ?thesis by (simp add: truncate_obj_def wide_data_def MAX_LIST_ITEMS_def MAX_STRING_VALUE_def k)
qed

lemma wide_encoded: "MAX_OBSERVATION_DATA_BYTES < encoded_bytes (truncate_obj wide_data)"
proof -
  let ?s = "JStr (replicate 2048 CHR ''a'')"
  have s: "2048 \<le> length (json_dumps ?s)" using json_quote_ge [of "replicate 2048 CHR ''a''"] by simp
  have "7 * 2048 \<le> sum_list (map length (map json_dumps (replicate 7 ?s)))"
    using s by (simp add: sum_list_replicate)
  also have "\<dots> \<le> length (json_dumps (JList (replicate 7 ?s)))"
    using length_join_sum [of "map json_dumps (replicate 7 ?s)" "'',''"] by simp
  also have "\<dots> \<le> length (json_dumps (JObj (truncate_obj wide_data)))"
    using json_dumps_obj_ge [of "(''v'', JList (replicate 7 ?s))" "truncate_obj wide_data"]
    by (simp add: wide_truncated del: json_dumps.simps)
  also have "\<dots> \<le> encoded_bytes (truncate_obj wide_data)" unfolding encoded_bytes_def by (rule utf8_length_ge)
  finally show ?thesis by (simp add: MAX_OBSERVATION_DATA_BYTES_def)
qed

lemma wide_bound: "MAX_OBSERVATION_DATA_BYTES < encoded_bytes (bound_observation_data wide_data)"
proof -
  let ?k = "replicate 20000 CHR ''k''"
  let ?ks = "take MAX_LIST_ITEMS (sort (map fst wide_data))"
  have b: "bound_observation_data wide_data = [(''truncated'', JBool True), (''keys'', JList (map JStr ?ks)),
      (''original_bytes'', JInt (int (encoded_bytes (truncate_obj wide_data))))]"
    using wide_encoded by (simp add: bound_observation_data_def Let_def)
  have "?ks = sort (map fst wide_data)" by (simp add: wide_data_def MAX_LIST_ITEMS_def)
  then have "?k \<in> set ?ks" by (simp add: wide_data_def)
  then have "length (json_dumps (JStr ?k)) \<le> length (json_dumps (JList (map JStr ?ks)))"
    using json_dumps_list_ge [of "JStr ?k" "map JStr ?ks"] by simp
  also have "\<dots> \<le> length (json_dumps (JObj (bound_observation_data wide_data)))"
    using json_dumps_obj_ge [of "(''keys'', JList (map JStr ?ks))" "bound_observation_data wide_data"]
    by (simp add: b del: json_dumps.simps)
  also have "\<dots> \<le> encoded_bytes (bound_observation_data wide_data)" unfolding encoded_bytes_def by (rule utf8_length_ge)
  finally show ?thesis using json_quote_ge [of ?k] by (simp add: MAX_OBSERVATION_DATA_BYTES_def)
qed

text \<open>
  C23: what is stored of a document either is the truncated document, encoded in at most 12288 bytes,
  with at most 64 entries at every level, keys of at most 64 and strings of at most 2048 characters, and
  bounding it again changes nothing; or, when the truncated document is larger, a summary that names at
  most 64 keys. The summary takes the keys as they came, so that it can itself exceed the limit.
\<close>

theorem bound_data_limits:
  "((encoded_bytes (bound_observation_data d) \<le> MAX_OBSERVATION_DATA_BYTES
       \<and> bounded_value (JObj (bound_observation_data d))
       \<and> bound_observation_data (bound_observation_data d) = bound_observation_data d)
    \<or> (MAX_OBSERVATION_DATA_BYTES < encoded_bytes (truncate_obj d)
       \<and> (\<exists>ks. bound_observation_data d = [(''truncated'', JBool True), (''keys'', JList (map JStr ks)),
              (''original_bytes'', JInt (int (encoded_bytes (truncate_obj d))))]
            \<and> length ks \<le> 64 \<and> set ks \<subseteq> fst ` set d)))
   \<and> (\<exists>d. MAX_OBSERVATION_DATA_BYTES < encoded_bytes (bound_observation_data d))"
proof (intro conjI)
  show "\<exists>d. MAX_OBSERVATION_DATA_BYTES < encoded_bytes (bound_observation_data d)" using wide_bound by blast
next
  let ?ks = "take MAX_LIST_ITEMS (sort (map fst d))"
  have "set ?ks \<subseteq> fst ` set d" "length ?ks \<le> 64"
    using set_take_subset [of MAX_LIST_ITEMS "sort (map fst d)"] by (auto simp: MAX_LIST_ITEMS_def)
  moreover have "bounded_value (JObj (truncate_obj d))" by (rule truncate_obj_bounded)
  ultimately show "(encoded_bytes (bound_observation_data d) \<le> MAX_OBSERVATION_DATA_BYTES
       \<and> bounded_value (JObj (bound_observation_data d))
       \<and> bound_observation_data (bound_observation_data d) = bound_observation_data d)
    \<or> (MAX_OBSERVATION_DATA_BYTES < encoded_bytes (truncate_obj d)
       \<and> (\<exists>ks. bound_observation_data d = [(''truncated'', JBool True), (''keys'', JList (map JStr ks)),
              (''original_bytes'', JInt (int (encoded_bytes (truncate_obj d))))]
            \<and> length ks \<le> 64 \<and> set ks \<subseteq> fst ` set d))"
    using bound_data_idem [of d]
    by (cases "encoded_bytes (truncate_obj d) \<le> MAX_OBSERVATION_DATA_BYTES")
      (auto simp: bound_observation_data_def Let_def simp del: bounded_value.simps)
qed

end
