(* ===== verification/Finding_Properties.thy ===== *)
theory Finding_Properties
  imports Finding_Merge Finding_Trail Protocol_Run_Properties
begin

text \<open>The properties of the findings engine and of the finding store.\<close>

section \<open>Merged findings\<close>

text \<open>
  C24: the drafts of an evaluation are merged to one per rule and dedupe key, for exactly the keys the
  rules produced, in the order of severity, rule and key; each merged draft has the worst severity and
  the best confidence of its group, the title, asset and service of the first, and all the observation
  and evidence links. Merging the result again changes nothing.
\<close>

theorem deduplicate_correct:
  "distinct (map merge_key (deduplicate_drafts ds))
   \<and> merge_key ` set (deduplicate_drafts ds) = merge_key ` set ds
   \<and> sorted (map draft_order (deduplicate_drafts ds))
   \<and> list_all (summarises ds) (deduplicate_drafts ds)
   \<and> deduplicate_drafts (deduplicate_drafts ds) = deduplicate_drafts ds"
  using deduplicate_keys [of ds] deduplicate_summarises [of _ ds] deduplicate_idem [of ds]
  by (simp add: list_all_iff) (simp add: deduplicate_drafts_def)

section \<open>Grounding\<close>





















text \<open>The registry holds exactly the rules it was given, in the order of their ids.\<close>

lemma register_rules_ok:
  assumes "distinct (map fr_id rs)" "fst ` set reg \<inter> fr_id ` set rs = {}"
  shows "register_rules rs reg = Inr (reg @ map (\<lambda>r. (fr_id r, r)) rs)"
  using assms
proof (induction rs arbitrary: reg)
  case (Cons r rs)
  have "register_rule r reg = Inr (reg @ [(fr_id r, r)])" using Cons.prems(2) by (auto simp: register_rule_def)
  moreover have "fst ` set (reg @ [(fr_id r, r)]) \<inter> fr_id ` set rs = {}" using Cons.prems by auto
  ultimately show ?case using Cons.IH [of "reg @ [(fr_id r, r)]"] Cons.prems(1) by simp
qed simp

lemma default_rules: "default_rule_registry = Inr (map (\<lambda>r. (fr_id r, r)) all_rules)"
proof -
  have "distinct (map fr_id all_rules)" by (simp add: all_rules_def mk_rule_def)
  then show ?thesis unfolding default_rule_registry_def by (subst register_rules_ok) simp_all
qed



definition demo_env :: rule_env where
  "demo_env = \<lparr>re_copy = (\<lambda>key args. key @ concat (map py_str args)), re_parse_time = (\<lambda>_. None), re_iso = (\<lambda>_. ''now''),
     re_float_int = (\<lambda>_. 0)\<rparr>"

definition demo_observation :: observation_row where
  "demo_observation = demo_row\<lparr>or_kind := ''ssh_algorithms'',
     or_data := [(''kex'', JList [JStr ''diffie-hellman-group1-sha1'', JStr ''curve25519-sha256''])]\<rparr>"

definition demo_context :: evaluation_context where
  "demo_context = \<lparr>ec_audit_id = ''a1'', ec_observations = [demo_observation], ec_services = [demo_service],
     ec_assets = [demo_asset], ec_passive_result = None, ec_passive_artifact_id = None, ec_evaluated_at = 9\<rparr>"

definition demo_finding :: finding_draft where
  "demo_finding = \<lparr>fd_rule_id = ''WS-SSH-WEAK-ALGORITHMS'', fd_rule_version = ''1'', fd_family = ''ssh'',
     fd_title = ''SSH_WEAK.title'', fd_severity = SEV_HIGH, fd_confidence = CL_HIGH, fd_asset_id = Some ''h1'',
     fd_service_id = Some ''s1'', fd_description = ''SSH_WEAK.description'', fd_rationale = ''ssh_rationalekex'',
     fd_recommendation = ''SSH_WEAK.recommendation'',
     fd_data = [(''weak_algorithms'', JObj [(''kex'', JList [JStr ''diffie-hellman-group1-sha1''])]),
       (''families'', JList [JStr ''kex''])], fd_observation_ids = [''o1''], fd_evidence_artifact_ids = [''e1''],
     fd_dedupe_key = ''h1:s1''\<rparr>"



section \<open>The store\<close>

text \<open>
  C26: storing an evaluation never touches the trail of decisions; it raises and changes nothing, or
  keeps the identity of every finding unique, adds a finding for each new rule and dedupe key of the
  audit, leaves the other findings as they were, and keeps the id, the operator's status and the first
  times of a finding that was there.
\<close>

theorem evaluation_keeps_decisions:
  assumes "distinct (map finding_key (db_findings s))"
    and "upsert_evaluation fresh parents now audit drafts s = (s', res)"
  shows "db_state_events s' = db_state_events s
    \<and> (case res of Inl e \<Rightarrow> s' = s
        | Inr ps \<Rightarrow> length ps = length drafts
            \<and> extends_on finding_key same_decision (finding_draft_key audit ` set drafts) (db_findings s) (db_findings s'))"
proof (cases "upsert_findings fresh parents audit now 0 drafts (db_findings s)")
  case (Inl e)
  then show ?thesis using assms(2) by (auto simp: upsert_evaluation_def)
next
  case (Inr p)
  obtain t ps where p: "p = (t, ps)" by (cases p)
  have s': "s' = s\<lparr>db_findings := t\<rparr>" "res = Inr ps" using assms(2) Inr p by (auto simp: upsert_evaluation_def)
  from upsert_findings_extends [OF Inr [unfolded p] assms(1)] s' show ?thesis by simp
qed

definition demo_stored :: finding_row where
  "demo_stored = new_finding ''a1'' 10 ''f1'' demo_finding"

definition demo_decided :: finding_db where
  "demo_decided = \<lparr>db_findings = [demo_stored\<lparr>fi_status := FS_ACCEPTED_RISK, fi_updated_at := 11\<rparr>],
     db_state_events = [\<lparr>se_finding_id = ''f1'', se_audit_id = ''a1'', se_created_at = 11, se_actor = ''op'',
       se_from_status = FS_OPEN, se_to_status = FS_ACCEPTED_RISK, se_reason = ''lab'', se_details = []\<rparr>]\<rparr>"

definition demo_reevaluated :: finding_row where
  "demo_reevaluated = demo_stored\<lparr>fi_status := FS_ACCEPTED_RISK, fi_last_seen := 12, fi_updated_at := 12\<rparr>"

lemma demo_store:
  "upsert_evaluation (\<lambda>_. ''f1'') (\<lambda>_. True) 10 ''a1'' [demo_finding] empty_finding_db
     = (\<lparr>db_findings = [demo_stored], db_state_events = []\<rparr>, Inr [demo_stored])"
  "fst (change_status 11 ''a1'' ''f1'' FS_ACCEPTED_RISK ''op'' ''lab'' [] \<lparr>db_findings = [demo_stored], db_state_events = []\<rparr>)
     = demo_decided"
  "upsert_evaluation (\<lambda>_. ''f2'') (\<lambda>_. True) 12 ''a1'' [demo_finding] demo_decided
     = (demo_decided\<lparr>db_findings := [demo_reevaluated]\<rparr>, Inr [demo_reevaluated])"
  "distinct (map finding_key (db_findings demo_decided))"
  by code_simp+

theorem evaluation_keeps_decisions_witness:
  "extends_on finding_key same_decision {(''a1'', ''WS-SSH-WEAK-ALGORITHMS'', ''h1:s1'')} (db_findings demo_decided) [demo_reevaluated]"
  using evaluation_keeps_decisions [OF demo_store(4,3)]
  by (simp add: finding_draft_key_def demo_finding_def)

text \<open>
  C27: after any sequence of evaluations and status decisions from an empty store, the identity and the
  id of a finding are unique, and the recorded decisions of a finding, in order, are a path of allowed
  transitions that starts at open and ends at its status.
\<close>

theorem status_trail:
  assumes "finding_step\<^sup>*\<^sup>* empty_finding_db s"
  shows "distinct (map finding_key (db_findings s)) \<and> distinct (map fi_id (db_findings s))
    \<and> list_all (\<lambda>r. trail FS_OPEN (events_of (fi_id r) s) = Some (fi_status r)) (db_findings s)"
  using fsys.inv_reachable [OF refl assms] by (simp add: finding_inv_def rows_ok_def events_of_def list_all_iff)

theorem status_trail_witness:
  "list_all (\<lambda>r. trail FS_OPEN (events_of (fi_id r) demo_decided) = Some (fi_status r)) (db_findings demo_decided)"
proof -
  obtain x where x: "change_status 11 ''a1'' ''f1'' FS_ACCEPTED_RISK ''op'' ''lab'' []
      \<lparr>db_findings = [demo_stored], db_state_events = []\<rparr> = (demo_decided, x)"
    using demo_store(2) by (metis prod.collapse)
  have "finding_step\<^sup>*\<^sup>* empty_finding_db demo_decided"
    using finding_step.evaluate [OF demo_store(1)] finding_step.decide [OF x] by (meson converse_rtranclp_into_rtranclp rtranclp.rtrancl_refl)
  from status_trail [OF this] show ?thesis by blast
qed

section \<open>Two flaws of the rules\<close>

text \<open>
  An SMB observation whose \<^verbatim>\<open>signing\<close> field is the boolean false, and which has no \<^verbatim>\<open>smb_signing\<close> field,
  is not taken as signing disabled, although the same value under \<^verbatim>\<open>smb_signing\<close> and the text "false" are:
  \<^verbatim>\<open>data.get("signing") or ...\<close> drops the false value before it is looked at.
\<close>

theorem signing_false_unreported:
  assumes "map_of d ''signing'' = Some (JBool False)" "map_of d ''smb_signing'' = None"
  shows "\<not> signing_disabled d \<and> signing_disabled [(''smb_signing'', JBool False)]
    \<and> signing_disabled [(''signing'', JStr ''false'')]"
proof -
  have "signing_disabled [(''signing'', JStr ''false'')]" by code_simp
  then show ?thesis using assms by (simp add: signing_disabled_def signing_value_def jor_def jget_def)
qed

theorem signing_false_unreported_witness: "\<not> signing_disabled [(''signing'', JBool False)]"
  using signing_false_unreported [of "[(''signing'', JBool False)]"] by simp

lemma run_rules_error:
  "r \<in> set rs \<Longrightarrow> fr_evaluate r env ctx = Inl e \<Longrightarrow> \<exists>e. run_rules env ctx rs = Inl e"
proof (induction rs)
  case (Cons x rs)
  then show ?case by (cases "fr_evaluate x env ctx"; cases "run_rules env ctx rs") auto
qed simp

lemma registry_rules_complete:
  assumes "distinct (map fr_id rs)" "r \<in> set rs"
  shows "r \<in> set (registry_rules (map (\<lambda>r. (fr_id r, r)) rs))"
proof -
  have "map_of (map (\<lambda>r. (fr_id r, r)) rs) (fr_id r) = Some r"
    using assms by (intro map_of_is_SomeI) (auto simp: comp_def)
  then show ?thesis using assms(2) by (force simp: registry_rules_def rule_ids_def comp_def)
qed

lemma disclosure_raises:
  assumes "usable_observations ctx (Some [''http_response'']) = [r]"
    and "map_of (headers_of r) ''server'' = Some a" "map_of (headers_of r) ''x-powered-by'' = Some b"
    and "a \<noteq> []" "b \<noteq> []" "4096 < length a + length b + 22"
    and "\<And>t. length t \<le> length (re_copy env ''http_disclosure_rationale'' [JStr t])"
  shows "server_disclosure_evaluate env ctx = Inl FE_ValidationError"
proof -
  let ?t = "join_on '', '' [''server='' @ a, ''x-powered-by='' @ b]"
  have d: "disclosed_headers [r] = [(''server'', a), (''x-powered-by'', b)]"
    using assms(2-5) by (simp add: disclosed_headers_def)
  have "4096 < length (re_copy env ''http_disclosure_rationale'' [JStr ?t])"
    using assms(6) assms(7) [of ?t] by simp
  then have "service_draft ''WS-HTTP-SERVER-DISCLOSURE'' ''http''
      (copy_texts env ''HTTP_SERVER_DISCLOSURE'' ''http_disclosure_rationale'' [JStr ?t]) SEV_INFO CL_HIGH data r [r]
      = Inl FE_ValidationError" for data
    by (simp add: service_draft_def draft_def copy_texts_def valid_draft_def Let_def)
  then show ?thesis
    using assms(1) d by (simp add: server_disclosure_evaluate_def per_service_def grouped_by_service_def group_add_def Let_def)
qed

text \<open>
  C28: one HTTP service can make every evaluation of its audit raise. When the \<^verbatim>\<open>Server\<close> and
  \<^verbatim>\<open>X-Powered-By\<close> headers of its response are together longer than 4074 characters (each may be up to
  2048 in a stored observation), the rationale that quotes both exceeds the 4096 characters a draft may
  have, the draft is refused, and no finding of the audit is returned.
\<close>

theorem long_headers_stop_evaluation:
  assumes "default_rule_registry = Inr reg" "usable_observations ctx (Some [''http_response'']) = [r]"
    and "map_of (headers_of r) ''server'' = Some a" "map_of (headers_of r) ''x-powered-by'' = Some b"
    and "a \<noteq> []" "b \<noteq> []" "4096 < length a + length b + 22"
    and "\<And>t. length t \<le> length (re_copy env ''http_disclosure_rationale'' [JStr t])"
  shows "\<exists>e. evaluate_findings env reg ctx = Inl e"
proof -
  have reg: "reg = map (\<lambda>r. (fr_id r, r)) all_rules" using assms(1) unfolding default_rules by simp
  let ?r = "mk_rule ''WS-HTTP-SERVER-DISCLOSURE'' ''http'' server_disclosure_evaluate"
  have "?r \<in> set all_rules" "distinct (map fr_id all_rules)" by (simp_all add: all_rules_def mk_rule_def)
  then have "?r \<in> set (registry_rules reg)" unfolding reg by (intro registry_rules_complete)
  moreover have "fr_evaluate ?r env ctx = Inl FE_ValidationError"
    using disclosure_raises [OF assms(2-8)] by (simp add: mk_rule_def)
  ultimately obtain e where "run_rules env ctx (registry_rules reg) = Inl e" using run_rules_error by blast
  then show ?thesis by (simp add: evaluate_findings_def)
qed

definition long_headers_row :: observation_row where
  "long_headers_row = demo_row\<lparr>or_kind := ''http_response'', or_data := [(''headers'',
     JObj [(''server'', JStr (replicate 2048 CHR ''a'')), (''x-powered-by'', JStr (replicate 2048 CHR ''b''))])]\<rparr>"

definition long_headers_context :: evaluation_context where
  "long_headers_context = demo_context\<lparr>ec_observations := [long_headers_row]\<rparr>"

theorem long_headers_stop_evaluation_witness:
  "\<exists>e. evaluate_findings demo_env (map (\<lambda>r. (fr_id r, r)) all_rules) long_headers_context = Inl e"
proof (rule long_headers_stop_evaluation [OF default_rules, of _ long_headers_row])
  have l: "lower ''server'' = ''server''" "lower ''x-powered-by'' = ''x-powered-by''" by code_simp+
  show "usable_observations long_headers_context (Some [''http_response'']) = [long_headers_row]"
    by (simp add: usable_observations_def long_headers_context_def long_headers_row_def NON_EVIDENCE_KINDS_def)
  show "map_of (headers_of long_headers_row) ''server'' = Some (replicate 2048 CHR ''a'')"
    "map_of (headers_of long_headers_row) ''x-powered-by'' = Some (replicate 2048 CHR ''b'')"
    by (simp_all add: headers_of_def long_headers_row_def jget_def jor_def l py_str_def)
  show "length t \<le> length (re_copy demo_env ''http_disclosure_rationale'' [JStr t])" for t
    by (simp add: demo_env_def py_str_def)
qed simp_all

end
