(* ===== verification/Auth.thy ===== *)
theory Auth
  imports Py_Value Upsert
begin

text \<open>
  Local users, password hashes, sessions and the request guard: \<^verbatim>\<open>auth/service.py\<close>, \<^verbatim>\<open>auth/passwords.py\<close>,
  \<^verbatim>\<open>auth/models.py\<close> and \<^verbatim>\<open>backend/security.py\<close>.

  The cryptographic functions are the fields of \<open>crypto\<close>: \<open>cr_kdf\<close> is PBKDF2-HMAC-SHA256 on a password,
  salt, iteration count and length (\<open>None\<close> where \<^verbatim>\<open>hashlib\<close> raises, as for an empty key), \<open>cr_digest\<close> the
  hexadecimal SHA-256 of a token. Bytes are characters, methods of requests are ASCII.
  The clock, the salts, tokens and UUIDs an operation draws are its arguments.
\<close>

section \<open>Passwords\<close>

record crypto =
  cr_kdf :: "string \<Rightarrow> string \<Rightarrow> nat \<Rightarrow> nat \<Rightarrow> string option"
  cr_digest :: "string \<Rightarrow> string"

definition SCHEME :: string where
  "SCHEME = ''pbkdf2_sha256''"

definition ITERATIONS :: nat where
  "ITERATIONS = 210000"

definition SALT_BYTES :: nat where
  "SALT_BYTES = 16"

definition DIGEST_BYTES :: nat where
  "DIGEST_BYTES = 32"

definition bytes_hex :: "string \<Rightarrow> string" where
  "bytes_hex b = concat (map (\<lambda>c. hex2 (code c)) b)"

text \<open>\<^verbatim>\<open>bytes.fromhex\<close>: pairs of hexadecimal digits, with ASCII blanks allowed between the pairs.\<close>

definition ascii_blank :: "char \<Rightarrow> bool" where
  "ascii_blank c \<longleftrightarrow> code c \<in> {9, 10, 11, 12, 13, 32}"

fun bytes_fromhex :: "string \<Rightarrow> string option" where
  "bytes_fromhex [] = Some []"
| "bytes_fromhex [c] = (if ascii_blank c then Some [] else None)"
| "bytes_fromhex (c # d # s) =
     (if ascii_blank c then bytes_fromhex (d # s)
      else case (digit_val c, digit_val d) of
          (Some x, Some y) \<Rightarrow> map_option (\<lambda>r. char_of (16 * x + y) # r) (bytes_fromhex s)
        | _ \<Rightarrow> None)"

text \<open>\<open>None\<close>: an empty password, or a derivation that raises.\<close>

definition hash_password :: "crypto \<Rightarrow> string \<Rightarrow> string \<Rightarrow> string option" where
  "hash_password c password salt =
     (if password = [] then None
      else case cr_kdf c password salt ITERATIONS DIGEST_BYTES of None \<Rightarrow> None
        | Some digest \<Rightarrow> Some (join_on ''$'' [SCHEME, dec ITERATIONS, bytes_hex salt, bytes_hex digest]))"

text \<open>\<^verbatim>\<open>stored.split("$", 3)\<close>: at most three cuts.\<close>

definition split4 :: "string \<Rightarrow> (string \<times> string \<times> string \<times> string) option" where
  "split4 s = (case split_on CHR ''$'' s of
     a # b # c # d # ds \<Rightarrow> Some (a, b, c, join_on ''$'' (d # ds)) | _ \<Rightarrow> None)"

text \<open>The derivation stands outside the \<^verbatim>\<open>try\<close>: where it raises, the result is \<open>None\<close>.\<close>

definition verify_password :: "crypto \<Rightarrow> string \<Rightarrow> string \<Rightarrow> bool option" where
  "verify_password c password stored = (case split4 stored of None \<Rightarrow> Some False
     | Some (scheme, iteration_text, salt_hex, digest_hex) \<Rightarrow>
         (case (py_int_of_str iteration_text, bytes_fromhex salt_hex, bytes_fromhex digest_hex) of
            (Some iterations, Some salt, Some expected) \<Rightarrow>
              if scheme \<noteq> SCHEME \<or> iterations < 1 then Some False
              else map_option (\<lambda>candidate. candidate = expected) (cr_kdf c password salt (nat iterations) (length expected))
          | _ \<Rightarrow> Some False))"

definition dummy_hash :: "crypto \<Rightarrow> string option" where
  "dummy_hash c = hash_password c ''wirescope-invalid-login'' (replicate SALT_BYTES (char_of (0 :: nat)))"

section \<open>The failure window\<close>

record throttle =
  th_max_failures :: nat
  th_window :: int
  th_failures :: "(string \<times> int list) list"

definition dict_pop :: "'k \<Rightarrow> ('k \<times> 'v) list \<Rightarrow> ('k \<times> 'v) list" where
  "dict_pop k d = filter (\<lambda>p. fst p \<noteq> k) d"

definition stamps_of :: "throttle \<Rightarrow> string \<Rightarrow> int list" where
  "stamps_of t k = (case map_of (th_failures t) k of None \<Rightarrow> [] | Some s \<Rightarrow> s)"

definition prune :: "string \<Rightarrow> int \<Rightarrow> throttle \<Rightarrow> throttle \<times> int list" where
  "prune k now t = (let stamps = filter (\<lambda>s. now - s < th_window t) (stamps_of t k)
     in (t\<lparr>th_failures := (if stamps \<noteq> [] then dict_set k stamps (th_failures t) else dict_pop k (th_failures t))\<rparr>, stamps))"

definition throttle_blocked :: "string \<Rightarrow> int \<Rightarrow> throttle \<Rightarrow> throttle \<times> bool" where
  "throttle_blocked k now t = (case prune k now t of (t', stamps) \<Rightarrow> (t', th_max_failures t \<le> length stamps))"

definition record_failure :: "string \<Rightarrow> int \<Rightarrow> throttle \<Rightarrow> throttle" where
  "record_failure k now t = (case prune k now t of (t', stamps) \<Rightarrow>
     t'\<lparr>th_failures := dict_set k (stamps @ [now]) (th_failures t')\<rparr>)"

definition throttle_clear :: "string \<Rightarrow> throttle \<Rightarrow> throttle" where
  "throttle_clear k t = t\<lparr>th_failures := dict_pop k (th_failures t)\<rparr>"

definition new_throttle :: throttle where
  "new_throttle = \<lparr>th_max_failures = 8, th_window = 900000000, th_failures = []\<rparr>"

section \<open>Users and sessions\<close>

datatype role = ROLE_AUDITOR | ROLE_VIEWER

text \<open>\<open>DerivationError\<close>: an exception of \<^verbatim>\<open>hashlib\<close> that is not an \<^verbatim>\<open>AuthError\<close>.\<close>

datatype auth_error = AuthError string | AuthIntegrityError | DerivationError

record user_row =
  u_id :: string
  u_username :: string
  u_password_hash :: string
  u_role :: role
  u_disabled :: bool
  u_created_at :: int

record session_row =
  ss_id :: string
  ss_user_id :: string
  ss_created_at :: int
  ss_expires_at :: int
  ss_last_seen_at :: int

record session_user =
  su_id :: string
  su_username :: string
  su_role :: role
  su_created_at :: int

record auth_state =
  st_users :: "user_row list"
  st_sessions :: "session_row list"
  st_throttle :: throttle

definition user_record :: "user_row \<Rightarrow> session_user" where
  "user_record u = \<lparr>su_id = u_id u, su_username = u_username u, su_role = u_role u, su_created_at = u_created_at u\<rparr>"

definition alnum_char :: "char \<Rightarrow> bool" where
  "alnum_char c \<longleftrightarrow> is_ascii_digit c \<or> 65 \<le> code c \<and> code c \<le> 90 \<or> 97 \<le> code c \<and> code c \<le> 122"

definition username_matches :: "string \<Rightarrow> bool" where
  "username_matches s \<longleftrightarrow> 3 \<le> length s \<and> length s \<le> 64 \<and> alnum_char (hd s) \<and> alnum_char (last s)
     \<and> list_all (\<lambda>c. alnum_char c \<or> c \<in> {CHR ''.'', CHR ''_'', CHR ''-''}) s"

definition MIN_PASSWORD_LENGTH :: nat where
  "MIN_PASSWORD_LENGTH = 8"

definition create_user ::
  "crypto \<Rightarrow> string \<Rightarrow> string \<Rightarrow> int \<Rightarrow> string \<Rightarrow> string \<Rightarrow> role \<Rightarrow> auth_state \<Rightarrow> auth_state \<times> (auth_error + session_user)" where
  "create_user c i salt now username password role s =
     (let name = strip username
      in if \<not> username_matches name then (s, Inl (AuthError ''invalid_username''))
         else if length password < MIN_PASSWORD_LENGTH then (s, Inl (AuthError ''invalid_password''))
         else case hash_password c password salt of None \<Rightarrow> (s, Inl DerivationError) | Some h \<Rightarrow>
           (let u = \<lparr>u_id = i, u_username = name, u_password_hash = h, u_role = role,
                      u_disabled = False, u_created_at = now\<rparr>
            in if i \<in> u_id ` set (st_users s) \<or> name \<in> u_username ` set (st_users s)
               then (s, Inl (AuthError ''username_taken''))
               else (s\<lparr>st_users := st_users s @ [u]\<rparr>, Inr (user_record u))))"

definition find_user :: "string \<Rightarrow> auth_state \<Rightarrow> user_row option" where
  "find_user name s = find (\<lambda>u. u_username u = name) (st_users s)"

definition authenticate :: "crypto \<Rightarrow> string \<Rightarrow> string \<Rightarrow> auth_state \<Rightarrow> auth_error + session_user" where
  "authenticate c username password s =
     (let model = find_user (strip username) s;
          stored = (case model of Some u \<Rightarrow> Some (u_password_hash u) | None \<Rightarrow> dummy_hash c)
      in case stored of None \<Rightarrow> Inl DerivationError | Some h \<Rightarrow>
        (case verify_password c password h of None \<Rightarrow> Inl DerivationError
         | Some valid \<Rightarrow> (case model of None \<Rightarrow> Inl (AuthError ''invalid_credentials'')
             | Some u \<Rightarrow> if \<not> valid \<or> u_disabled u then Inl (AuthError ''invalid_credentials'') else Inr (user_record u))))"

definition set_password ::
  "crypto \<Rightarrow> string \<Rightarrow> string \<Rightarrow> string \<Rightarrow> string option \<Rightarrow> auth_state \<Rightarrow> auth_state \<times> (auth_error + session_user)" where
  "set_password c salt username password keep_token s =
     (let name = strip username;
          keep = (if truthy keep_token then Some (cr_digest c (the keep_token)) else None)
      in if length password < MIN_PASSWORD_LENGTH then (s, Inl (AuthError ''invalid_password''))
         else case find_user name s of
             None \<Rightarrow> (s, Inl (AuthError ''unknown_user''))
           | Some u \<Rightarrow>
               if u_disabled u then (s, Inl (AuthError ''user_disabled''))
               else case hash_password c password salt of None \<Rightarrow> (s, Inl DerivationError) | Some h \<Rightarrow>
                 let u' = u\<lparr>u_password_hash := h\<rparr>
                 in (s\<lparr>st_users := tbl_put u_id u' (st_users s),
                       st_sessions := filter (\<lambda>x. \<not> (ss_user_id x = u_id u
                         \<and> (case keep of None \<Rightarrow> True | Some k \<Rightarrow> k = [] \<or> ss_id x \<noteq> k))) (st_sessions s)\<rparr>,
                     Inr (user_record u')))"

text \<open>\<open>clock\<close> and \<open>clock'\<close> are the two readings of the monotonic clock.\<close>

definition change_password ::
  "crypto \<Rightarrow> int \<Rightarrow> int \<Rightarrow> string \<Rightarrow> session_user \<Rightarrow> string \<Rightarrow> string \<Rightarrow> string option \<Rightarrow> auth_state
     \<Rightarrow> auth_state \<times> (auth_error + session_user)" where
  "change_password c clock clock' salt user current new keep_token s =
     (case throttle_blocked (su_id user) clock (st_throttle s) of (t, blocked) \<Rightarrow>
      let s1 = s\<lparr>st_throttle := t\<rparr>; failed = s1\<lparr>st_throttle := record_failure (su_id user) clock' t\<rparr>
      in if blocked then (s1, Inl (AuthError ''invalid_credentials''))
         else case authenticate c (su_username user) current s1 of
             Inl (AuthError _) \<Rightarrow> (failed, Inl (AuthError ''invalid_credentials''))
           | Inl e \<Rightarrow> (s1, Inl e)
           | Inr a \<Rightarrow>
               if su_id a \<noteq> su_id user then (failed, Inl (AuthError ''invalid_credentials''))
               else case set_password c salt (su_username user) new keep_token s1 of
                   (s2, Inl e) \<Rightarrow> (s2, Inl e)
                 | (s2, Inr r) \<Rightarrow> (s2\<lparr>st_throttle := throttle_clear (su_id user) (st_throttle s2)\<rparr>, Inr r))"

definition create_session ::
  "crypto \<Rightarrow> int \<Rightarrow> string \<Rightarrow> int \<Rightarrow> session_user \<Rightarrow> auth_state \<Rightarrow> auth_state \<times> (auth_error + string)" where
  "create_session c ttl token now user s =
     (if cr_digest c token \<in> ss_id ` set (st_sessions s) \<or> su_id user \<notin> u_id ` set (st_users s)
      then (s, Inl AuthIntegrityError)
      else (s\<lparr>st_sessions := st_sessions s @ [\<lparr>ss_id = cr_digest c token, ss_user_id = su_id user, ss_created_at = now,
              ss_expires_at = now + ttl * 1000000, ss_last_seen_at = now\<rparr>]\<rparr>, Inr token))"

definition drop_session :: "string \<Rightarrow> auth_state \<Rightarrow> auth_state" where
  "drop_session i s = s\<lparr>st_sessions := filter (\<lambda>x. ss_id x \<noteq> i) (st_sessions s)\<rparr>"

definition resolve_token :: "crypto \<Rightarrow> int \<Rightarrow> string option \<Rightarrow> auth_state \<Rightarrow> auth_state \<times> session_user option" where
  "resolve_token c now token s =
     (if \<not> truthy token then (s, None)
      else let d = cr_digest c (the token) in case tbl_get ss_id (st_sessions s) d of
          None \<Rightarrow> (s, None)
        | Some x \<Rightarrow>
            if ss_expires_at x \<le> now then (drop_session d s, None)
            else case tbl_get u_id (st_users s) (ss_user_id x) of
                None \<Rightarrow> (drop_session d s, None)
              | Some u \<Rightarrow> if u_disabled u then (drop_session d s, None)
                  else (s\<lparr>st_sessions := tbl_put ss_id (x\<lparr>ss_last_seen_at := now\<rparr>) (st_sessions s)\<rparr>,
                        Some (user_record u)))"

definition revoke_token :: "crypto \<Rightarrow> string option \<Rightarrow> auth_state \<Rightarrow> auth_state" where
  "revoke_token c token s = (if \<not> truthy token then s else drop_session (cr_digest c (the token)) s)"

definition purge_expired :: "int \<Rightarrow> auth_state \<Rightarrow> auth_state \<times> nat" where
  "purge_expired now s = (s\<lparr>st_sessions := filter (\<lambda>x. \<not> ss_expires_at x \<le> now) (st_sessions s)\<rparr>,
     length (filter (\<lambda>x. ss_expires_at x \<le> now) (st_sessions s)))"

record bootstrap_settings =
  bs_auditor_username :: string
  bs_auditor_password :: string
  bs_viewer_username :: string
  bs_viewer_password :: string

fun create_pairs ::
  "crypto \<Rightarrow> (nat \<Rightarrow> string \<times> string \<times> int) \<Rightarrow> nat \<Rightarrow> (string \<times> string \<times> role) list \<Rightarrow> auth_state
     \<Rightarrow> auth_state \<times> (auth_error + session_user list)" where
  "create_pairs c fresh n [] s = (s, Inr [])"
| "create_pairs c fresh n ((username, password, role) # ps) s =
     (if username = [] \<and> password = [] then create_pairs c fresh (Suc n) ps s
      else case fresh n of (i, salt, now) \<Rightarrow> (case create_user c i salt now username password role s of
          (s', Inl e) \<Rightarrow> (s', Inl e)
        | (s', Inr u) \<Rightarrow> (case create_pairs c fresh (Suc n) ps s' of
              (s'', Inl e) \<Rightarrow> (s'', Inl e) | (s'', Inr us) \<Rightarrow> (s'', Inr (u # us)))))"

text \<open>\<open>ready\<close>: the users table exists and can be read.\<close>

definition bootstrap ::
  "crypto \<Rightarrow> (nat \<Rightarrow> string \<times> string \<times> int) \<Rightarrow> bool \<Rightarrow> bootstrap_settings \<Rightarrow> auth_state
     \<Rightarrow> auth_state \<times> (auth_error + session_user list)" where
  "bootstrap c fresh ready b s =
     (if \<not> ready \<or> st_users s \<noteq> [] then (s, Inr [])
      else create_pairs c fresh 0 [(bs_auditor_username b, bs_auditor_password b, ROLE_AUDITOR),
        (bs_viewer_username b, bs_viewer_password b, ROLE_VIEWER)] s)"

section \<open>The request guard\<close>

record request =
  rq_path :: string
  rq_method :: string
  rq_token :: "string option"

definition ascii_upper :: "string \<Rightarrow> string" where
  "ascii_upper s = map (\<lambda>c. if 97 \<le> code c \<and> code c \<le> 122 then char_of (code c - 32) else c) s"

definition normalized_api_path :: "string \<Rightarrow> string" where
  "normalized_api_path path =
     (if path = ''/api/v1'' then ''/api''
      else if starts_with path ''/api/v1/'' then ''/api/'' @ drop 8 path else path)"

definition is_public_request :: "request \<Rightarrow> bool" where
  "is_public_request r = (let path = normalized_api_path (rq_path r); mthd = ascii_upper (rq_method r)
     in mthd = ''OPTIONS'' \<or> path = ''/'' \<or> starts_with path ''/static/''
        \<or> path \<in> {''/docs'', ''/redoc'', ''/openapi.json''}
        \<or> (mthd = ''GET'' \<and> path \<in> {''/api/health'', ''/api/status'', ''/api/ready''})
        \<or> (mthd = ''POST'' \<and> path \<in> {''/api/auth/login'', ''/api/auth/logout''}))"

definition requires_auditor :: "request \<Rightarrow> bool" where
  "requires_auditor r = (let path = normalized_api_path (rq_path r)
     in if path = ''/api/auth/password'' then False
        else if path = ''/api/network'' \<or> starts_with path ''/api/network/'' then True
        else ascii_upper (rq_method r) \<notin> {''GET'', ''HEAD'', ''OPTIONS''})"

datatype guard_result = Allowed "session_user option" | Unauthenticated | Forbidden_role

definition auth_guard :: "crypto \<Rightarrow> int \<Rightarrow> request \<Rightarrow> auth_state \<Rightarrow> auth_state \<times> guard_result" where
  "auth_guard c now r s =
     (if is_public_request r then (s, Allowed None)
      else case resolve_token c now (rq_token r) s of
          (s', None) \<Rightarrow> (s', Unauthenticated)
        | (s', Some u) \<Rightarrow> (s', if requires_auditor r \<and> su_role u \<noteq> ROLE_AUDITOR then Forbidden_role else Allowed (Some u)))"

end
