(* ===== verification/Auth_Facts.thy ===== *)
theory Auth_Facts
  imports Auth
begin

text \<open>
  Facts about users and sessions: what a stored password hash verifies, what a token that resolves
  says about the stored rows, the operations as steps of one system, and the invariant they keep.
\<close>

section \<open>Hexadecimal and the stored hash\<close>

lemma digit_char_plain: "d < 16 \<Longrightarrow> \<not> ascii_blank (digit_char d)"
  by (auto simp: ascii_blank_def digit_char_def code_def)

lemma bytes_fromhex_hex [simp]: "bytes_fromhex (bytes_hex b) = Some b"
proof (induction b)
  case Nil
  show ?case by (simp add: bytes_hex_def)
next
  case (Cons c b)
  have n: "code c < 256" by (simp add: code_def of_char_def)
  then have d: "code c div 16 < 16" "code c mod 16 < 16" by simp_all
  have "char_of (16 * (code c div 16) + code c mod 16) = c" by (simp add: code_def)
  with Cons show ?case
    by (simp add: bytes_hex_def hex_pair [OF n] digit_val_char [OF d(1)] digit_val_char [OF d(2)] digit_char_plain [OF d(1)])
qed

lemma bytes_hex_digits: "x \<in> set (bytes_hex b) \<Longrightarrow> digit_val x \<noteq> None"
proof -
  assume "x \<in> set (bytes_hex b)"
  then obtain c where "x \<in> set (hex2 (code c))" by (auto simp: bytes_hex_def)
  moreover have n: "code c < 256" by (simp add: code_def of_char_def)
  moreover have "code c div 16 < 16" using n by simp
  ultimately show ?thesis using digit_val_char by (auto simp: hex_pair)
qed

lemma bytes_hex_no_dollar: "CHR ''$'' \<notin> set (bytes_hex b)"
  using bytes_hex_digits [of "CHR ''$''" b] by (auto simp: digit_val_def code_def)

lemma iterations_read [simp]: "py_int_of_str (dec ITERATIONS) = Some 210000"
  by code_simp

lemma iterations_no_dollar: "CHR ''$'' \<notin> set (dec ITERATIONS)"
  using dec_digit [of "CHR ''$''" ITERATIONS] by (auto simp: is_ascii_digit_def code_def)

lemma split4_record:
  "split4 (join_on ''$'' [SCHEME, dec ITERATIONS, bytes_hex salt, bytes_hex d]) =
     Some (SCHEME, dec ITERATIONS, bytes_hex salt, bytes_hex d)"
proof -
  have "CHR ''$'' \<notin> set w" if "w \<in> set [SCHEME, dec ITERATIONS, bytes_hex salt, bytes_hex d]" for w
    using that bytes_hex_no_dollar iterations_no_dollar by (auto simp: SCHEME_def)
  then have "split_on CHR ''$'' (join_on ''$'' [SCHEME, dec ITERATIONS, bytes_hex salt, bytes_hex d]) =
      [SCHEME, dec ITERATIONS, bytes_hex salt, bytes_hex d]" by (intro split_join) simp_all
  then show ?thesis by (simp add: split4_def del: join_on.simps(3))
qed

text \<open>What a stored hash verifies: exactly the passwords that derive the same key.\<close>

lemma verify_hash:
  assumes "hash_password c pw salt = Some h" "cr_kdf c pw salt ITERATIONS DIGEST_BYTES = Some d" "length d = DIGEST_BYTES"
  shows "verify_password c pw' h = map_option (\<lambda>x. x = d) (cr_kdf c pw' salt ITERATIONS DIGEST_BYTES)"
proof -
  have "h = join_on ''$'' [SCHEME, dec ITERATIONS, bytes_hex salt, bytes_hex d]"
    using assms(1,2) by (simp add: hash_password_def del: join_on.simps split: if_splits)
  then show ?thesis
    using assms(3) by (simp add: verify_password_def split4_record ITERATIONS_def [symmetric] del: join_on.simps)
qed

lemma hash_password_Some: "hash_password c pw salt = Some h \<Longrightarrow> \<exists>d. cr_kdf c pw salt ITERATIONS DIGEST_BYTES = Some d"
  by (auto simp: hash_password_def split: if_splits option.splits)

section \<open>Tokens\<close>

text \<open>A token resolves exactly when its digest is a stored, unexpired session of an enabled user.\<close>

lemma resolve_token_Some:
  assumes "resolve_token c now token s = (s', Some v)"
  shows "\<exists>x u. truthy token \<and> x \<in> set (st_sessions s) \<and> ss_id x = cr_digest c (the token) \<and> now < ss_expires_at x
     \<and> u \<in> set (st_users s) \<and> u_id u = ss_user_id x \<and> \<not> u_disabled u \<and> v = user_record u"
  using assms by (auto simp: resolve_token_def Let_def not_le split: if_splits option.splits dest!: tbl.get_Some)

lemma resolve_token_None:
  "cr_digest c (the token) \<notin> ss_id ` set (st_sessions s) \<Longrightarrow> resolve_token c now token s = (s, None)"
  using tbl.get_None [of ss_id "st_sessions s" "cr_digest c (the token)"] by (simp add: resolve_token_def Let_def)

section \<open>The operations as steps\<close>

inductive auth_step :: "crypto \<Rightarrow> auth_state \<Rightarrow> auth_state \<Rightarrow> bool" for c :: crypto where
  Bootstrap: "bootstrap c fresh ready b s = (s', res) \<Longrightarrow> auth_step c s s'"
| Create_user: "create_user c i salt now username password role s = (s', r) \<Longrightarrow> auth_step c s s'"
| Set_password: "set_password c salt username password keep s = (s', r) \<Longrightarrow> auth_step c s s'"
| Change_password: "change_password c clock clock' salt user current new keep s = (s', r) \<Longrightarrow> auth_step c s s'"
| Create_session: "create_session c ttl token now user s = (s', t) \<Longrightarrow> auth_step c s s'"
| Resolve_token: "resolve_token c now token s = (s', v) \<Longrightarrow> auth_step c s s'"
| Revoke_token: "auth_step c s (revoke_token c token s)"
| Purge_expired: "purge_expired now s = (s', n) \<Longrightarrow> auth_step c s s'"

definition empty_auth :: auth_state where
  "empty_auth = \<lparr>st_users = [], st_sessions = [], st_throttle = new_throttle\<rparr>"

section \<open>The failure window stays within its limit\<close>

definition throttle_ok :: "throttle \<Rightarrow> bool" where
  "throttle_ok t \<longleftrightarrow> th_max_failures t = 8 \<and> th_window t = 900000000 \<and> (\<forall>k. length (stamps_of t k) \<le> 8)"

lemma map_of_dict_pop: "map_of (dict_pop k d) = (map_of d)(k := None)"
  by (induction d) (auto simp: dict_pop_def fun_eq_iff)

lemma stamps_of_pop: "stamps_of (t\<lparr>th_failures := dict_pop k (th_failures t)\<rparr>) k' = (if k' = k then [] else stamps_of t k')"
  by (simp add: stamps_of_def map_of_dict_pop)

lemma stamps_of_set: "stamps_of (t\<lparr>th_failures := dict_set k v d\<rparr>) k' =
    (if k' = k then v else stamps_of (t\<lparr>th_failures := d\<rparr>) k')"
  by (simp add: stamps_of_def)

lemma stamps_of_prune:
  "prune k now t = (t', stamps) \<Longrightarrow> stamps_of t' k' = (if k' = k then stamps else stamps_of t k')"
  "prune k now t = (t', stamps) \<Longrightarrow> stamps = filter (\<lambda>s. now - s < th_window t) (stamps_of t k)"
  "prune k now t = (t', stamps) \<Longrightarrow> th_max_failures t' = th_max_failures t \<and> th_window t' = th_window t"
  by (auto simp: prune_def Let_def stamps_of_pop stamps_of_set stamps_of_def [of t] split: if_splits)

lemma throttle_ok_prune: "throttle_ok t \<Longrightarrow> prune k now t = (t', stamps) \<Longrightarrow> throttle_ok t'"
  using stamps_of_prune [of k now t t' stamps] le_trans [OF length_filter_le [of "\<lambda>s. now - s < th_window t" "stamps_of t k"]]
  by (simp add: throttle_ok_def)

lemma throttle_ok_blocked: "throttle_ok t \<Longrightarrow> throttle_blocked k now t = (t', b) \<Longrightarrow> throttle_ok t'"
  using throttle_ok_prune by (auto simp: throttle_blocked_def split: prod.splits)

lemma not_blocked_length:
  assumes "throttle_ok t" "throttle_blocked k now t = (t', False)"
  shows "length (stamps_of t' k) < 8"
proof -
  obtain st where p: "prune k now t = (t', st)" "\<not> th_max_failures t \<le> length st"
    using assms(2) by (auto simp: throttle_blocked_def split: prod.splits)
  then show ?thesis using stamps_of_prune(1) [OF p(1), of k] assms(1) by (simp add: throttle_ok_def)
qed

lemma throttle_ok_record:
  assumes "throttle_ok t" "length (stamps_of t k) < 8"
  shows "throttle_ok (record_failure k now t)"
proof -
  obtain t' st where p: "prune k now t = (t', st)" by fastforce
  have "length st < 8"
    using stamps_of_prune(2) [OF p] le_less_trans [OF length_filter_le assms(2)] by simp
  moreover have "throttle_ok t'" using throttle_ok_prune [OF assms(1) p] .
  ultimately show ?thesis by (simp add: throttle_ok_def record_failure_def p stamps_of_set)
qed

lemma throttle_ok_clear: "throttle_ok t \<Longrightarrow> throttle_ok (throttle_clear k t)"
  by (simp add: throttle_ok_def throttle_clear_def stamps_of_pop)

section \<open>The invariant\<close>

definition users_ok :: "user_row list \<Rightarrow> bool" where
  "users_ok us \<longleftrightarrow> distinct (map u_id us) \<and> distinct (map u_username us) \<and> list_all username_matches (map u_username us)"

definition sessions_ok :: "user_row list \<Rightarrow> session_row list \<Rightarrow> bool" where
  "sessions_ok us xs \<longleftrightarrow> distinct (map ss_id xs) \<and> list_all (\<lambda>x. ss_user_id x \<in> u_id ` set us) xs"

definition auth_inv :: "auth_state \<Rightarrow> bool" where
  "auth_inv s \<longleftrightarrow> users_ok (st_users s) \<and> sessions_ok (st_users s) (st_sessions s) \<and> throttle_ok (st_throttle s)"

lemma map_put_column:
  assumes "distinct (map key t)" "x \<in> set t" "key x = key r" "f x = f r"
  shows "map f (tbl_put key r t) = map f t"
proof -
  have "f r = f y" if "y \<in> set t" "key y = key r" for y
    using that assms tbl.get_unique [of key t y] tbl.get_unique [of key t x] by simp
  then show ?thesis by (simp add: tbl_put_def)
qed

lemma sessions_ok_filter: "sessions_ok us xs \<Longrightarrow> sessions_ok us (filter P xs)"
  by (simp add: sessions_ok_def list_all_iff distinct_map_filter)

lemma users_ok_put:
  assumes "users_ok us" "u \<in> set us" "u_id u' = u_id u" "u_username u' = u_username u"
  shows "users_ok (tbl_put u_id u' us)" "u_id ` set (tbl_put u_id u' us) = u_id ` set us"
proof -
  have d: "distinct (map u_id us)" using assms(1) by (simp add: users_ok_def)
  have "map u_username (tbl_put u_id u' us) = map u_username us"
    using map_put_column [OF d assms(2), of u' u_username] assms(3,4) by simp
  moreover have "map u_id (tbl_put u_id u' us) = map u_id us" by (rule tbl.keys_put)
  ultimately show "users_ok (tbl_put u_id u' us)" using assms(1) by (simp only: users_ok_def)
  show "u_id ` set (tbl_put u_id u' us) = u_id ` set us" by (rule tbl.key_set_put)
qed

lemma find_user_mem: "find_user name s = Some u \<Longrightarrow> u \<in> set (st_users s) \<and> u_username u = name"
  by (auto simp: find_user_def find_Some_iff)

lemma auth_inv_drop: "auth_inv s \<Longrightarrow> auth_inv (drop_session i s)"
  by (simp add: auth_inv_def drop_session_def sessions_ok_filter)

lemma auth_inv_create_user:
  assumes "auth_inv s" "create_user c i salt now username password role s = (s', r)"
  shows "auth_inv s'"
  using assms(2,1)
  by (auto simp: create_user_def Let_def auth_inv_def users_ok_def sessions_ok_def list_all_iff split: if_splits option.splits)

lemma auth_inv_set_password:
  assumes "auth_inv s" "set_password c salt username password keep s = (s', r)"
  shows "auth_inv s'" "st_throttle s' = st_throttle s"
proof -
  show "st_throttle s' = st_throttle s"
    using assms(2) by (auto simp: set_password_def Let_def split: if_splits option.splits)
  consider "s' = s" | P u h where "s' = s\<lparr>st_users := tbl_put u_id (u\<lparr>u_password_hash := h\<rparr>) (st_users s),
      st_sessions := filter P (st_sessions s)\<rparr>" "u \<in> set (st_users s)"
    using assms(2) find_user_mem
    by (simp add: set_password_def Let_def split: if_splits option.splits) blast+
  then show "auth_inv s'"
  proof cases
    case 1
    then show ?thesis using assms(1) by simp
  next
    case 2
    then show ?thesis
      using assms(1) users_ok_put [of "st_users s" u "u\<lparr>u_password_hash := h\<rparr>"]
        sessions_ok_filter [of "st_users s" "st_sessions s" P]
      by (simp add: auth_inv_def sessions_ok_def)
  qed
qed

lemma auth_inv_throttle: "auth_inv s \<Longrightarrow> throttle_ok t \<Longrightarrow> auth_inv (s\<lparr>st_throttle := t\<rparr>)"
  by (simp add: auth_inv_def)

lemma auth_inv_change_password:
  assumes "auth_inv s" "change_password c clock clock' salt user current new keep s = (s', r)"
  shows "auth_inv s'"
proof -
  obtain t b where t: "throttle_blocked (su_id user) clock (st_throttle s) = (t, b)" by fastforce
  have ok: "throttle_ok (st_throttle s)" using assms(1) by (simp add: auth_inv_def)
  have okt: "throttle_ok t" using throttle_ok_blocked [OF ok t] .
  let ?s1 = "s\<lparr>st_throttle := t\<rparr>"
  let ?failed = "?s1\<lparr>st_throttle := record_failure (su_id user) clock' t\<rparr>"
  have inv1: "auth_inv ?s1" using assms(1) okt by (rule auth_inv_throttle)
  have failed: "auth_inv ?failed" if "\<not> b"
  proof -
    have "throttle_ok (record_failure (su_id user) clock' t)"
      using not_blocked_length [OF ok] t that okt by (intro throttle_ok_record) auto
    with inv1 show ?thesis by (rule auth_inv_throttle)
  qed
  obtain s2 q where s2: "set_password c salt (su_username user) new keep ?s1 = (s2, q)" by fastforce
  have inv2: "auth_inv s2" "throttle_ok (st_throttle s2)"
    using auth_inv_set_password [OF inv1 s2] okt by simp_all
  have cleared: "auth_inv (s2\<lparr>st_throttle := throttle_clear (su_id user) (st_throttle s2)\<rparr>)"
    using auth_inv_throttle [OF inv2(1) throttle_ok_clear [OF inv2(2)]] .
  have "s' = ?s1 \<or> \<not> b \<and> (s' = ?failed \<or> s' = s2 \<or> s' = s2\<lparr>st_throttle := throttle_clear (su_id user) (st_throttle s2)\<rparr>)"
    using assms(2) t s2 by (auto simp: change_password_def Let_def split: if_splits sum.splits auth_error.splits)
  then show ?thesis using inv1 failed inv2(1) cleared by blast
qed

lemma auth_inv_create_session:
  "auth_inv s \<Longrightarrow> create_session c ttl token now user s = (s', t) \<Longrightarrow> auth_inv s'"
  by (auto simp: create_session_def auth_inv_def sessions_ok_def split: if_splits)

lemma auth_inv_resolve_token:
  assumes "auth_inv s" "resolve_token c now token s = (s', v)"
  shows "auth_inv s'"
proof -
  consider "s' = s" | i where "s' = drop_session i s"
    | x where "s' = s\<lparr>st_sessions := tbl_put ss_id (x\<lparr>ss_last_seen_at := now\<rparr>) (st_sessions s)\<rparr>" "x \<in> set (st_sessions s)"
    using assms(2) tbl.get_Some [of ss_id "st_sessions s" "cr_digest c (the token)"]
    by (simp add: resolve_token_def Let_def split: if_splits option.splits) blast+
  then show ?thesis
  proof cases
    case 3
    let ?xs = "tbl_put ss_id (x\<lparr>ss_last_seen_at := now\<rparr>) (st_sessions s)"
    have ok: "sessions_ok (st_users s) (st_sessions s)" using assms(1) by (simp add: auth_inv_def)
    have "map ss_id ?xs = map ss_id (st_sessions s)" by (rule tbl.keys_put)
    moreover have "set ?xs \<subseteq> insert (x\<lparr>ss_last_seen_at := now\<rparr>) (set (st_sessions s))" by (auto simp: tbl_put_def)
    ultimately have "sessions_ok (st_users s) ?xs"
      using ok 3(2) unfolding sessions_ok_def list_all_iff by fastforce
    then show ?thesis using assms(1) 3(1) by (simp add: auth_inv_def)
  qed (use assms(1) auth_inv_drop in auto)
qed

lemma auth_inv_create_pairs:
  "create_pairs c fresh n ps s = (s', r) \<Longrightarrow> auth_inv s \<Longrightarrow> auth_inv s'"
proof (induction c fresh n ps s arbitrary: s' r rule: create_pairs.induct)
  case (2 c fresh n username password role ps s)
  obtain i salt now where f: "fresh n = (i, salt, now)" by (cases "fresh n")
  obtain s1 q where u: "create_user c i salt now username password role s = (s1, q)" by fastforce
  have inv1: "auth_inv s1" using auth_inv_create_user [OF "2.prems"(2) u] .
  show ?case
  proof (cases "username = [] \<and> password = []")
    case True
    then show ?thesis using "2.IH"(1) "2.prems" by simp
  next
    case False
    obtain s2 q2 where p: "create_pairs c fresh (Suc n) ps s1 = (s2, q2)" by fastforce
    have "s' = s1 \<or> s' = s2 \<and> \<not> isl q"
      using "2.prems"(1) False f u p by (auto split: sum.splits)
    moreover have "auth_inv s2" if isr: "\<not> isl q"
    proof -
      obtain v where v: "q = Inr v" using isr by (cases q) simp_all
      show ?thesis by (rule "2.IH"(2) [OF False f [symmetric] refl u [symmetric] v p inv1])
    qed
    ultimately show ?thesis using inv1 by blast
  qed
qed simp

interpretation asys: step_system "\<lambda>s. s = empty_auth" "auth_step c" auth_inv for c
proof
  show "auth_inv s" if "s = empty_auth" for s
    using that by (simp add: empty_auth_def new_throttle_def auth_inv_def users_ok_def sessions_ok_def
      throttle_ok_def stamps_of_def)
  show "auth_inv t" if "auth_inv s" "auth_step c s t" for s t
    using that(2,1)
  proof (cases rule: auth_step.cases)
    case (Bootstrap fresh ready b res)
    then show ?thesis using that(1) auth_inv_create_pairs by (auto simp: bootstrap_def simp del: create_pairs.simps split: if_splits)
  next
    case (Revoke_token token)
    then show ?thesis using that(1) auth_inv_drop by (simp add: revoke_token_def)
  next
    case (Purge_expired now n)
    then show ?thesis using that(1) sessions_ok_filter by (auto simp: purge_expired_def auth_inv_def)
  next
    case Create_user
    from auth_inv_create_user [OF that(1) this] show ?thesis .
  next
    case Set_password
    from auth_inv_set_password(1) [OF that(1) this] show ?thesis .
  next
    case Change_password
    from auth_inv_change_password [OF that(1) this] show ?thesis .
  next
    case Create_session
    from auth_inv_create_session [OF that(1) this] show ?thesis .
  next
    case Resolve_token
    from auth_inv_resolve_token [OF that(1) this] show ?thesis .
  qed
qed

end
