(* ===== verification/Auth_Properties.thy ===== *)
theory Auth_Properties
  imports Auth_Facts
begin

text \<open>
  The properties of users, sessions and the request guard.
\<close>

lemma find_user_put:
  assumes "find_user name s = Some u" "u_id u' = u_id u" "u_username u' = u_username u"
  shows "find_user name (s\<lparr>st_users := tbl_put u_id u' (st_users s), st_sessions := xs\<rparr>) = Some u'"
proof -
  have "find (\<lambda>u. u_username u = name) (tbl_put u_id u' us) = Some u'"
    if "find (\<lambda>u. u_username u = name) us = Some u" for us
    using that
  proof (induction us)
    case (Cons v us)
    show ?case
    proof (cases "u_id v = u_id u")
      case True
      have "u_username u = name" using find_user_mem [OF assms(1)] by simp
      with True show ?thesis using assms(2,3) by (simp add: tbl_put_def)
    next
      case False
      then show ?thesis using Cons assms(2) by (auto simp: tbl_put_def split: if_splits)
    qed
  qed simp
  then show ?thesis using assms(1) by (simp add: find_user_def)
qed

lemma set_password_Inr:
  assumes "set_password c salt username password keep s = (s', Inr r)"
  shows "\<exists>u h. find_user (strip username) s = Some u \<and> \<not> u_disabled u \<and> hash_password c password salt = Some h
     \<and> r = user_record (u\<lparr>u_password_hash := h\<rparr>)
     \<and> s' = s\<lparr>st_users := tbl_put u_id (u\<lparr>u_password_hash := h\<rparr>) (st_users s),
         st_sessions := filter (\<lambda>x. \<not> (ss_user_id x = u_id u
           \<and> (case (if truthy keep then Some (cr_digest c (the keep)) else None) of None \<Rightarrow> True
              | Some k \<Rightarrow> k = [] \<or> ss_id x \<noteq> k))) (st_sessions s)\<rparr>"
  using assms by (simp add: set_password_def Let_def split: if_splits option.splits)

lemma change_password_Inr:
  assumes "change_password c clock clock' salt user current new keep s = (s', Inr r)"
  shows "\<exists>t a s2. authenticate c (su_username user) current (s\<lparr>st_throttle := t\<rparr>) = Inr a \<and> su_id a = su_id user
     \<and> set_password c salt (su_username user) new keep (s\<lparr>st_throttle := t\<rparr>) = (s2, Inr r)
     \<and> s' = s2\<lparr>st_throttle := throttle_clear (su_id user) (st_throttle s2)\<rparr>"
  using assms by (auto simp: change_password_def Let_def split: prod.splits if_splits sum.splits auth_error.splits)

lemma find_user_throttle [simp]: "find_user name (s\<lparr>st_throttle := t\<rparr>) = find_user name s"
  by (simp add: find_user_def)

lemma authenticate_Inr:
  "authenticate c username pw s = Inr a \<longleftrightarrow>
     (\<exists>u. find_user (strip username) s = Some u \<and> verify_password c pw (u_password_hash u) = Some True
        \<and> \<not> u_disabled u \<and> a = user_record u)"
  by (auto simp: authenticate_def Let_def split: option.splits)

text \<open>
  C29. A successful password change: the operator's name with the new password signs in as the same user;
  any other password that signs in derives the same key; no session of that user is left but the one whose
  token was kept, and the sessions of the other users are untouched. The hypothesis is the documented length
  of a derived key.
\<close>

theorem password_change_effect:
  assumes kdf: "\<And>p sa n l d. cr_kdf c p sa n l = Some d \<Longrightarrow> length d = l"
    and change: "change_password c clock clock' salt user current new keep s = (s', Inr r)"
  shows "authenticate c (su_username user) new s' = Inr r \<and> su_id r = su_id user
    \<and> (authenticate c (su_username user) pw s' = Inr r' \<longrightarrow>
         cr_kdf c pw salt ITERATIONS DIGEST_BYTES = cr_kdf c new salt ITERATIONS DIGEST_BYTES)
    \<and> list_all (\<lambda>x. ss_user_id x = su_id user \<longrightarrow> truthy keep \<and> ss_id x = cr_digest c (the keep)) (st_sessions s')
    \<and> filter (\<lambda>x. ss_user_id x \<noteq> su_id user) (st_sessions s') = filter (\<lambda>x. ss_user_id x \<noteq> su_id user) (st_sessions s)"
proof -
  obtain t a s2 where au: "authenticate c (su_username user) current (s\<lparr>st_throttle := t\<rparr>) = Inr a" "su_id a = su_id user"
    and set: "set_password c salt (su_username user) new keep (s\<lparr>st_throttle := t\<rparr>) = (s2, Inr r)"
    and s': "s' = s2\<lparr>st_throttle := throttle_clear (su_id user) (st_throttle s2)\<rparr>"
    using change_password_Inr [OF change] by blast
  obtain u h where u: "find_user (strip (su_username user)) s = Some u" "\<not> u_disabled u"
    and h: "hash_password c new salt = Some h" and r: "r = user_record (u\<lparr>u_password_hash := h\<rparr>)"
    and s2: "s2 = s\<lparr>st_throttle := t, st_users := tbl_put u_id (u\<lparr>u_password_hash := h\<rparr>) (st_users s),
         st_sessions := filter (\<lambda>x. \<not> (ss_user_id x = u_id u
           \<and> (case (if truthy keep then Some (cr_digest c (the keep)) else None) of None \<Rightarrow> True
              | Some k \<Rightarrow> k = [] \<or> ss_id x \<noteq> k))) (st_sessions s)\<rparr>"
    using set_password_Inr [OF set] by auto
  have uid: "u_id u = su_id user" using au u(1) by (auto simp: authenticate_Inr user_record_def)
  obtain d where d: "cr_kdf c new salt ITERATIONS DIGEST_BYTES = Some d" using hash_password_Some [OF h] by blast
  note verify = verify_hash [OF h d kdf [OF d]]
  have found: "find_user (strip (su_username user)) s' = Some (u\<lparr>u_password_hash := h\<rparr>)"
    using find_user_put [OF u(1), of "u\<lparr>u_password_hash := h\<rparr>"] by (simp add: s' s2 find_user_def)
  have "authenticate c (su_username user) new s' = Inr r"
    using found u(2) r d by (simp add: authenticate_Inr verify)
  moreover have "cr_kdf c pw salt ITERATIONS DIGEST_BYTES = Some d" if "authenticate c (su_username user) pw s' = Inr r'"
    using that found by (auto simp: authenticate_Inr verify)
  moreover have "list_all (\<lambda>x. ss_user_id x = su_id user \<longrightarrow> truthy keep \<and> ss_id x = cr_digest c (the keep)) (st_sessions s')"
    using uid by (auto simp: s' s2 list_all_iff split: if_splits)
  moreover have "filter (\<lambda>x. ss_user_id x \<noteq> su_id user) (st_sessions s') = filter (\<lambda>x. ss_user_id x \<noteq> su_id user) (st_sessions s)"
    using uid by (auto simp: s' s2 intro!: filter_cong)
  ultimately show ?thesis using uid r d by (simp add: user_record_def)
qed

text \<open>A derivation that is not PBKDF2 but has its interface, for the concrete runs.\<close>

definition demo_crypto :: crypto where
  "demo_crypto = \<lparr>cr_kdf = (\<lambda>p salt n l. if l = 0 \<or> n = 0 then None else Some (take l (p @ salt @ replicate l CHR ''#''))),
     cr_digest = (\<lambda>t. CHR ''d'' # t)\<rparr>"

lemma demo_crypto_length: "cr_kdf demo_crypto p sa n l = Some d \<Longrightarrow> length d = l"
  by (auto simp: demo_crypto_def split: if_splits)

definition demo_auth :: auth_state where
  "demo_auth = \<lparr>st_users = [\<lparr>u_id = ''1'', u_username = ''auditor'', u_password_hash =
        (case hash_password demo_crypto ''first-secret'' ''salt'' of Some h \<Rightarrow> h | None \<Rightarrow> []), u_role = ROLE_AUDITOR,
        u_disabled = False, u_created_at = 0\<rparr>],
     st_sessions = map (\<lambda>i. \<lparr>ss_id = CHR ''d'' # i, ss_user_id = ''1'', ss_created_at = 0, ss_expires_at = 900,
        ss_last_seen_at = 0\<rparr>) [''a'', ''b''],
     st_throttle = new_throttle\<rparr>"

definition demo_operator :: session_user where
  "demo_operator = \<lparr>su_id = ''1'', su_username = ''auditor'', su_role = ROLE_AUDITOR, su_created_at = 0\<rparr>"

theorem password_change_effect_witness:
  "\<exists>s'. change_password demo_crypto 5 6 ''pepper'' demo_operator ''first-secret'' ''second-secret'' (Some ''a'') demo_auth =
       (s', Inr demo_operator)
     \<and> authenticate demo_crypto ''auditor'' ''second-secret'' s' = Inr demo_operator
     \<and> list_all (\<lambda>x. ss_id x = ''da'' \<or> ss_user_id x \<noteq> ''1'') (st_sessions s')"
proof -
  let ?run = "change_password demo_crypto 5 6 ''pepper'' demo_operator ''first-secret'' ''second-secret'' (Some ''a'') demo_auth"
  have "snd ?run = Inr demo_operator" by code_simp
  then have run: "?run = (fst ?run, Inr demo_operator)" by (simp add: prod_eq_iff)
  from password_change_effect [OF demo_crypto_length run, where pw = "[]" and r' = demo_operator]
  have "authenticate demo_crypto ''auditor'' ''second-secret'' (fst ?run) = Inr demo_operator"
    "list_all (\<lambda>x. ss_id x = ''da'' \<or> ss_user_id x \<noteq> ''1'') (st_sessions (fst ?run))"
    by (auto simp: demo_operator_def demo_crypto_def list_all_iff)
  with run show ?thesis by blast
qed

lemma change_password_blocked:
  assumes "th_max_failures (st_throttle s) \<le>
      length (filter (\<lambda>t. clock - t < th_window (st_throttle s)) (stamps_of (st_throttle s) (su_id user)))"
  shows "\<exists>t. change_password c clock clock' salt user current new keep s =
      (s\<lparr>st_throttle := t\<rparr>, Inl (AuthError ''invalid_credentials''))"
proof -
  obtain t st where p: "prune (su_id user) clock (st_throttle s) = (t, st)" by fastforce
  have "th_max_failures (st_throttle s) \<le> length st" using assms stamps_of_prune(2) [OF p] by simp
  then have "change_password c clock clock' salt user current new keep s =
      (s\<lparr>st_throttle := t\<rparr>, Inl (AuthError ''invalid_credentials''))"
    by (simp add: change_password_def throttle_blocked_def p)
  then show ?thesis by blast
qed

text \<open>
  C30. In every state the operations reach from the empty database: user ids, user names and session
  digests are unique, user names have the published form, every session belongs to a stored user, and
  no more than eight failures of one user are remembered. Eight of them within the window of 900 seconds
  refuse a password change whatever password it carries, and leave users and sessions as they are.
\<close>

theorem auth_reachable_invariant:
  assumes "(auth_step c)\<^sup>*\<^sup>* empty_auth s"
  shows "distinct (map u_id (st_users s)) \<and> distinct (map u_username (st_users s))
    \<and> list_all username_matches (map u_username (st_users s)) \<and> distinct (map ss_id (st_sessions s))
    \<and> list_all (\<lambda>x. ss_user_id x \<in> u_id ` set (st_users s)) (st_sessions s)
    \<and> length (stamps_of (st_throttle s) k) \<le> 8
    \<and> (8 \<le> length (filter (\<lambda>t. clock - t < 900000000) (stamps_of (st_throttle s) (su_id user))) \<longrightarrow>
        (\<exists>t. change_password c clock clock' salt user current new keep s =
           (s\<lparr>st_throttle := t\<rparr>, Inl (AuthError ''invalid_credentials''))))"
proof -
  have inv: "auth_inv s" by (rule asys.inv_reachable [OF refl assms])
  then have t: "throttle_ok (st_throttle s)" by (simp add: auth_inv_def)
  have "\<exists>t. change_password c clock clock' salt user current new keep s =
           (s\<lparr>st_throttle := t\<rparr>, Inl (AuthError ''invalid_credentials''))"
    if "8 \<le> length (filter (\<lambda>t. clock - t < 900000000) (stamps_of (st_throttle s) (su_id user)))"
    using t that by (intro change_password_blocked) (simp add: throttle_ok_def)
  moreover have "length (stamps_of (st_throttle s) k) \<le> 8" using t by (simp add: throttle_ok_def)
  ultimately show ?thesis using inv unfolding auth_inv_def users_ok_def sessions_ok_def by blast
qed

definition demo_bootstrap :: bootstrap_settings where
  "demo_bootstrap = \<lparr>bs_auditor_username = ''auditor'', bs_auditor_password = ''first-secret'',
     bs_viewer_username = [], bs_viewer_password = []\<rparr>"

definition demo_booted :: auth_state where
  "demo_booted = fst (bootstrap demo_crypto (\<lambda>n. (''1'', ''salt'', 0)) True demo_bootstrap empty_auth)"

lemma demo_booted_reachable: "(auth_step demo_crypto)\<^sup>*\<^sup>* empty_auth demo_booted"
  by (rule r_into_rtranclp, rule auth_step.Bootstrap) (simp add: demo_booted_def prod_eq_iff)

text \<open>Eight wrong passwords in a row, one second apart.\<close>

definition demo_locked :: auth_state where
  "demo_locked = foldl (\<lambda>s i. fst (change_password demo_crypto (1000000 * i) (1000000 * i) ''x'' demo_operator ''guess''
      ''other-secret'' None s)) demo_booted [0, 1, 2, 3, 4, 5, 6, 7]"

lemma change_steps:
  "(auth_step c)\<^sup>*\<^sup>* s0 s \<Longrightarrow>
     (auth_step c)\<^sup>*\<^sup>* s0 (foldl (\<lambda>s i. fst (change_password c (f i) (f i) salt user current new keep s)) s is)"
proof (induction "is" arbitrary: s)
  case (Cons i "is")
  have "auth_step c s (fst (change_password c (f i) (f i) salt user current new keep s))"
    by (rule auth_step.Change_password) (simp add: prod_eq_iff)
  with Cons.prems have "(auth_step c)\<^sup>*\<^sup>* s0 (fst (change_password c (f i) (f i) salt user current new keep s))"
    by (rule rtranclp.rtrancl_into_rtrancl)
  then show ?case by (simp add: Cons.IH)
qed simp

theorem auth_reachable_invariant_witness:
  "(auth_step demo_crypto)\<^sup>*\<^sup>* empty_auth demo_locked
   \<and> length (stamps_of (st_throttle demo_locked) ''1'') = 8
   \<and> (\<exists>t. change_password demo_crypto 8000000 8000000 ''y'' demo_operator ''first-secret'' ''second-secret'' None demo_locked =
        (demo_locked\<lparr>st_throttle := t\<rparr>, Inl (AuthError ''invalid_credentials'')))"
proof -
  have reach: "(auth_step demo_crypto)\<^sup>*\<^sup>* empty_auth demo_locked"
    unfolding demo_locked_def by (rule change_steps [OF demo_booted_reachable])
  have stamps: "stamps_of (st_throttle demo_locked) ''1'' = map (\<lambda>i. 1000000 * i) [0, 1, 2, 3, 4, 5, 6, 7]"
    by code_simp
  then have "8 \<le> length (filter (\<lambda>t. 8000000 - t < 900000000) (stamps_of (st_throttle demo_locked) (su_id demo_operator)))"
    by (simp add: demo_operator_def)
  with auth_reachable_invariant [OF reach] stamps reach show ?thesis by simp
qed

section \<open>The guard\<close>

lemma resolve_token_iff:
  assumes "distinct (map ss_id (st_sessions s))" "distinct (map u_id (st_users s))"
  shows "snd (resolve_token c now token s) = Some v \<longleftrightarrow>
    (\<exists>x u. truthy token \<and> x \<in> set (st_sessions s) \<and> ss_id x = cr_digest c (the token) \<and> now < ss_expires_at x
       \<and> u \<in> set (st_users s) \<and> u_id u = ss_user_id x \<and> \<not> u_disabled u \<and> v = user_record u)" (is "?L \<longleftrightarrow> ?R")
proof
  assume ?L
  then have "resolve_token c now token s = (fst (resolve_token c now token s), Some v)" by (simp add: prod_eq_iff)
  then show ?R by (rule resolve_token_Some)
next
  assume ?R
  then obtain x u where x: "truthy token" "x \<in> set (st_sessions s)" "ss_id x = cr_digest c (the token)" "now < ss_expires_at x"
    and u: "u \<in> set (st_users s)" "u_id u = ss_user_id x" "\<not> u_disabled u" "v = user_record u" by blast
  have "tbl_get ss_id (st_sessions s) (cr_digest c (the token)) = Some x"
    using tbl.get_unique [OF assms(1) x(2)] x(3) by simp
  moreover have "tbl_get u_id (st_users s) (ss_user_id x) = Some u"
    using tbl.get_unique [OF assms(2) u(1)] u(2) by simp
  ultimately show ?L using x(1,4) u(3,4) by (simp add: resolve_token_def Let_def)
qed

lemma resolve_token_users: "st_users (fst (resolve_token c now token s)) = st_users s"
  by (simp add: resolve_token_def Let_def drop_session_def split: option.splits)

lemma user_record_role: "su_role (user_record u) = u_role u"
  by (simp add: user_record_def)

lemma viewer_requests:
  assumes "\<not> requires_auditor r" "\<not> is_public_request r"
  shows "normalized_api_path (rq_path r) = ''/api/auth/password'' \<or>
    ascii_upper (rq_method r) \<in> {''GET'', ''HEAD''} \<and> normalized_api_path (rq_path r) \<noteq> ''/api/network''
      \<and> \<not> starts_with (normalized_api_path (rq_path r)) ''/api/network/''"
  using assms by (auto simp: requires_auditor_def is_public_request_def Let_def split: if_splits)

text \<open>
  C31. The guard, in every reachable state, on a request that is not public: it admits the request for a user
  exactly when the cookie's digest is a stored session that has not expired, of a stored user who is not
  disabled and, where the request needs an auditor, is one; it admits nothing without a user and changes no
  user. A viewer it admits changes the own password, or reads outside the network settings.
\<close>

theorem auth_guard_exact:
  assumes "(auth_step c)\<^sup>*\<^sup>* empty_auth s" "\<not> is_public_request r"
  shows "(snd (auth_guard c now r s) = Allowed (Some v) \<longleftrightarrow>
      (\<exists>x u. truthy (rq_token r) \<and> x \<in> set (st_sessions s) \<and> ss_id x = cr_digest c (the (rq_token r))
         \<and> now < ss_expires_at x \<and> u \<in> set (st_users s) \<and> u_id u = ss_user_id x \<and> \<not> u_disabled u
         \<and> v = user_record u \<and> (requires_auditor r \<longrightarrow> u_role u = ROLE_AUDITOR)))
    \<and> snd (auth_guard c now r s) \<noteq> Allowed None \<and> st_users (fst (auth_guard c now r s)) = st_users s
    \<and> (snd (auth_guard c now r s) = Allowed (Some v) \<and> su_role v = ROLE_VIEWER \<longrightarrow>
        normalized_api_path (rq_path r) = ''/api/auth/password'' \<or>
        ascii_upper (rq_method r) \<in> {''GET'', ''HEAD''} \<and> normalized_api_path (rq_path r) \<noteq> ''/api/network''
          \<and> \<not> starts_with (normalized_api_path (rq_path r)) ''/api/network/'')"
proof -
  have "auth_inv s" by (rule asys.inv_reachable [OF refl assms(1)])
  then have d: "distinct (map ss_id (st_sessions s))" "distinct (map u_id (st_users s))"
    by (simp_all add: auth_inv_def sessions_ok_def users_ok_def)
  note found = resolve_token_iff [OF d, of c now "rq_token r" v]
  have guard: "snd (auth_guard c now r s) = Allowed (Some v) \<longleftrightarrow>
      snd (resolve_token c now (rq_token r) s) = Some v \<and> (requires_auditor r \<longrightarrow> su_role v = ROLE_AUDITOR)"
    using assms(2) by (auto simp: auth_guard_def split: prod.splits option.splits)
  have "snd (auth_guard c now r s) \<noteq> Allowed None \<and> st_users (fst (auth_guard c now r s)) = st_users s"
    using assms(2) resolve_token_users [of c now "rq_token r" s]
    by (auto simp: auth_guard_def split: prod.splits option.splits)
  moreover have "\<not> requires_auditor r" if "snd (auth_guard c now r s) = Allowed (Some v)" "su_role v = ROLE_VIEWER"
    using guard that by auto
  moreover have "snd (auth_guard c now r s) = Allowed (Some v) \<longleftrightarrow>
      (\<exists>x u. truthy (rq_token r) \<and> x \<in> set (st_sessions s) \<and> ss_id x = cr_digest c (the (rq_token r))
         \<and> now < ss_expires_at x \<and> u \<in> set (st_users s) \<and> u_id u = ss_user_id x \<and> \<not> u_disabled u
         \<and> v = user_record u \<and> (requires_auditor r \<longrightarrow> u_role u = ROLE_AUDITOR))"
    unfolding guard found using user_record_role by fastforce
  ultimately show ?thesis using viewer_requests [OF _ assms(2)] by blast
qed

text \<open>The auditor signs in after the first start and reads the audits through the versioned path.\<close>

definition demo_signed_in :: auth_state where
  "demo_signed_in = fst (create_session demo_crypto 600 ''tok'' 0 demo_operator demo_booted)"

definition demo_request :: request where
  "demo_request = \<lparr>rq_path = ''/api/v1/audits'', rq_method = ''post'', rq_token = Some ''tok''\<rparr>"

theorem auth_guard_exact_witness:
  "(auth_step demo_crypto)\<^sup>*\<^sup>* empty_auth demo_signed_in \<and> \<not> is_public_request demo_request \<and> requires_auditor demo_request
   \<and> snd (auth_guard demo_crypto 1000 demo_request demo_signed_in) = Allowed (Some demo_operator)
   \<and> (\<exists>x. x \<in> set (st_sessions demo_signed_in) \<and> ss_id x = ''dtok'' \<and> 1000 < ss_expires_at x)"
proof -
  have "auth_step demo_crypto demo_booted demo_signed_in"
    by (rule auth_step.Create_session) (simp add: demo_signed_in_def prod_eq_iff)
  with demo_booted_reachable have reach: "(auth_step demo_crypto)\<^sup>*\<^sup>* empty_auth demo_signed_in"
    by (rule rtranclp.rtrancl_into_rtrancl)
  have req: "\<not> is_public_request demo_request" "requires_auditor demo_request" by code_simp+
  have "snd (auth_guard demo_crypto 1000 demo_request demo_signed_in) = Allowed (Some demo_operator)" by code_simp
  with auth_guard_exact [OF reach req(1), of 1000 demo_operator] reach req show ?thesis
    by (auto simp: demo_request_def demo_crypto_def)
qed

end
