(* ===== verification/Inventory_Base.thy ===== *)
theory Inventory_Base
  imports Inventory_Models Py_Value Ip_Address
begin

text \<open>
  The pure parts of the inventory: canonical identities and LIKE patterns (\<^verbatim>\<open>inventory/normalize.py\<close>), the
  vendor table (\<^verbatim>\<open>inventory/vendor.py\<close>), the device classes (\<^verbatim>\<open>inventory/classify.py\<close>) and the confidence
  functions of \<^verbatim>\<open>inventory/service.py\<close>. Reading the vendor files is a parameter: a file is its text, if it can be read.
\<close>

section \<open>Canonical identities\<close>

definition is_hex :: "char \<Rightarrow> bool" where
  "is_hex c \<longleftrightarrow> digit_val c \<noteq> None"

definition upper_hex :: "char \<Rightarrow> char" where
  "upper_hex c = (if 97 \<le> code c \<and> code c \<le> 102 then char_of (code c - 32) else c)"

fun pairs_of :: "string \<Rightarrow> string list" where
  "pairs_of (a # b # s) = [a, b] # pairs_of s"
| "pairs_of _ = []"

definition canonical_mac :: "string option \<Rightarrow> string option" where
  "canonical_mac value = (case value of None \<Rightarrow> None | Some v \<Rightarrow>
     let hex_chars = filter is_hex v
     in if length hex_chars \<noteq> 12 then None else Some (join_on '':'' (pairs_of (map upper_hex hex_chars))))"

definition canonical_ip :: "string \<Rightarrow> (string \<times> nat) option" where
  "canonical_ip value = map_option (\<lambda>a. (ip_str a, ip_version a)) (ip_address (strip value))"

section \<open>Patterns\<close>

definition replace_char :: "char \<Rightarrow> string \<Rightarrow> string \<Rightarrow> string" where
  "replace_char c r s = concat (map (\<lambda>x. if x = c then r else [x]) s)"

definition BACKSLASH :: char where
  "BACKSLASH = char_of (92 :: nat)"

definition escape_like :: "string \<Rightarrow> string" where
  "escape_like value = replace_char CHR ''_'' [BACKSLASH, CHR ''_''] (replace_char CHR ''%'' [BACKSLASH, CHR ''%'']
     (replace_char BACKSLASH [BACKSLASH, BACKSLASH] value))"

text \<open>SQLite's \<^verbatim>\<open>LIKE ... ESCAPE '\'\<close>: \<^verbatim>\<open>%\<close> is any text, \<^verbatim>\<open>_\<close> any character, an escaped character itself.\<close>

fun like :: "string \<Rightarrow> string \<Rightarrow> bool" where
  "like [] s = (s = [])"
| "like (c # p) [] = (c = CHR ''%'' \<and> like p [])"
| "like (c # p) (d # s) =
     (if c = CHR ''%'' then like p (d # s) \<or> like (c # p) s
      else if c = CHR ''_'' then like p s
      else if c = BACKSLASH then (case p of [] \<Rightarrow> False | e # q \<Rightarrow> d = e \<and> like q s)
      else d = c \<and> like p s)"

declare like.simps [simp del]

definition ascii_lower :: "string \<Rightarrow> string" where
  "ascii_lower s = map (\<lambda>c. if 65 \<le> code c \<and> code c \<le> 90 then char_of (code c + 32) else c) s"

text \<open>\<^verbatim>\<open>column.ilike(f"%{escape_like(v)}%", escape="\\")\<close>, \<^verbatim>\<open>lower(x) LIKE lower(y)\<close> in SQLite; \<^verbatim>\<open>NULL\<close> never matches.\<close>

definition ilike_contains :: "string option \<Rightarrow> string \<Rightarrow> bool" where
  "ilike_contains column value = (case column of None \<Rightarrow> False
     | Some s \<Rightarrow> like (ascii_lower (''%'' @ escape_like value @ ''%'')) (ascii_lower s))"

section \<open>Vendors\<close>

record vendor_resolution =
  vr_vendor :: "string option"
  vr_source :: "string option"
  vr_database_version :: "string option"

record oui_resolver =
  oui_table :: "(string \<times> string) list"
  oui_source :: string
  oui_version :: "string option"

definition oui_prefix :: "string option \<Rightarrow> string option" where
  "oui_prefix mac = (case mac of None \<Rightarrow> None | Some m \<Rightarrow>
     let hex_chars = filter is_hex m
     in if length hex_chars < 6 then None else Some (join_on '':'' (pairs_of (map upper_hex (take 6 hex_chars)))))"

definition vendor_lookup :: "oui_resolver \<Rightarrow> string option \<Rightarrow> vendor_resolution" where
  "vendor_lookup r mac = (case oui_prefix mac of
     None \<Rightarrow> \<lparr>vr_vendor = None, vr_source = None, vr_database_version = None\<rparr>
   | Some p \<Rightarrow> \<lparr>vr_vendor = map_of (oui_table r) p, vr_source = Some (oui_source r), vr_database_version = oui_version r\<rparr>)"

text \<open>The match of \<^verbatim>\<open>OUI_LINE\<close> on a stripped line: the prefix and the vendor.\<close>

definition oui_line :: "string \<Rightarrow> (string \<times> string) option" where
  "oui_line line =
     (let p = take 8 line; rest = drop 8 line; blank = takeWhile is_space rest; body = dropWhile is_space rest;
          tail = drop 5 body
      in if length p = 8 \<and> list_all is_hex [p ! 0, p ! 1, p ! 3, p ! 4, p ! 6, p ! 7]
            \<and> p ! 2 \<in> {CHR ''-'', CHR '':''} \<and> p ! 5 \<in> {CHR ''-'', CHR '':''}
            \<and> blank \<noteq> [] \<and> lower (take 5 body) = ''(hex)'' \<and> takeWhile is_space tail \<noteq> [] \<and> dropWhile is_space tail \<noteq> []
         then Some (map (\<lambda>c. if c = CHR ''-'' then CHR '':'' else upper_hex c) p, strip (dropWhile is_space tail)) else None)"

definition scan_oui_line :: "string \<Rightarrow> (string \<times> string) list \<times> string option \<Rightarrow> (string \<times> string) list \<times> string option" where
  "scan_oui_line line st =
     (let generated = (if contains_str (lower line) ''generated:'' \<or> contains_str (lower line) ''last updated''
          then Some (strip line) else snd st)
      in case oui_line (strip line) of None \<Rightarrow> (fst st, generated)
         | Some (p, v) \<Rightarrow> (dict_set p v (fst st), generated))"

text \<open>A candidate file: its name, whether it is the preferred one, and its text when it is a readable file.\<close>

fun load_oui_table :: "(string \<times> bool \<times> string option) list \<Rightarrow> oui_resolver" where
  "load_oui_table [] = \<lparr>oui_table = [], oui_source = ''unavailable'', oui_version = None\<rparr>"
| "load_oui_table ((name, preferred, content) # files) = (case content of
     None \<Rightarrow> load_oui_table files
   | Some s \<Rightarrow> (case fold scan_oui_line (splitlines [] s) ([], None) of (table, generated) \<Rightarrow>
       if table \<noteq> [] then \<lparr>oui_table = table, oui_source = (if preferred then ''ieee-data'' else ''bundled-oui''),
           oui_version = Some (if truthy generated then the generated else ''file:'' @ name)\<rparr>
       else load_oui_table files))"

section \<open>Device classes\<close>

definition PRINTER_PORTS :: "int list" where
  "PRINTER_PORTS = [515, 631, 9100]"

definition PRINTER_VENDORS :: "string list" where
  "PRINTER_VENDORS = [''hewlett packard'', ''hp inc'', ''xerox'', ''brother'', ''canon'', ''epson'', ''lexmark'',
     ''kyocera'', ''ricoh'']"

definition NETWORK_VENDORS :: "string list" where
  "NETWORK_VENDORS = [''cisco'', ''juniper'', ''mikrotik'', ''aruba'', ''ubiquiti'', ''fortinet'', ''palo alto'',
     ''netgear'', ''tp-link'', ''huawei'', ''zyxel'', ''extreme networks'', ''arista'']"

definition IOT_VENDORS :: "string list" where
  "IOT_VENDORS = [''espressif'', ''tuya'', ''sonoff'', ''shelly'', ''hikvision'', ''dahua'', ''axis communications'',
     ''ring'', ''nest'']"

definition WINDOWS_PORTS :: "int list" where
  "WINDOWS_PORTS = [135, 139, 445, 3389, 5355, 5357]"

definition SERVER_PORTS :: "int list" where
  "SERVER_PORTS = [22, 25, 80, 443, 3306, 5432, 6379, 8080, 8443]"

definition NETWORK_HINT_PORTS :: "int list" where
  "NETWORK_HINT_PORTS = [22, 23, 80, 161, 443, 8291]"

definition class_confidence :: "string list \<Rightarrow> bool \<Rightarrow> confidence_level" where
  "class_confidence sources strong =
     (let unique = length (remdups sources)
      in if strong \<and> 2 \<le> unique then CL_HIGH
         else if 2 \<le> unique then CL_MEDIUM
         else if unique = 1 then (if strong then CL_MEDIUM else CL_LOW)
         else CL_UNKNOWN)"

definition chosen :: "(bool \<times> string) list \<Rightarrow> string list" where
  "chosen xs = map snd (filter fst xs)"

text \<open>Sets of open ports are lists; \<open>common\<close> counts the members of the intersection with a list of constants.\<close>

definition common :: "int list \<Rightarrow> int list \<Rightarrow> nat" where
  "common ports known = length (filter (\<lambda>p. p \<in> set ports) known)"

definition classify_device ::
  "string option \<Rightarrow> string option \<Rightarrow> string option \<Rightarrow> (string \<times> int) list \<Rightarrow> string list \<Rightarrow> bool
     \<Rightarrow> device_class_hint \<times> confidence_level \<times> string list" where
  "classify_device os_family os_name vendor open_ports name_sources passive_neighbors =
     (let vendor_l = lower (or_str vendor);
          os_blob = join_on '' '' (map (\<lambda>x. lower (the x)) (filter truthy [os_family, os_name]));
          tcp_ports = map snd (filter (\<lambda>p. fst p = ''tcp'') open_ports);
          udp_ports = map snd (filter (\<lambda>p. fst p = ''udp'') open_ports);
          printer_vendor = list_ex (contains_str vendor_l) PRINTER_VENDORS;
          printer_port = (0 < common tcp_ports PRINTER_PORTS);
          printer_os = contains_str os_blob ''printer'';
          network_vendor = list_ex (contains_str vendor_l) NETWORK_VENDORS;
          network_os = list_ex (contains_str os_blob) [''router'', ''switch'', ''ios'', ''routeros'', ''junos''];
          network_ports = (161 \<in> set udp_ports \<and> 0 < common tcp_ports NETWORK_HINT_PORTS);
          windows_os = contains_str os_blob ''windows'';
          windows_ports = (2 \<le> common tcp_ports WINDOWS_PORTS);
          windows_names = (''llmnr'' \<in> set name_sources \<or> ''nbns'' \<in> set name_sources);
          server_port_count = common tcp_ports SERVER_PORTS;
          linux_os = (contains_str os_blob ''linux'' \<or> contains_str os_blob ''unix'');
          iot_vendor = list_ex (contains_str vendor_l) IOT_VENDORS;
          mdns_limited = (''mdns'' \<in> set name_sources \<and> length (remdups tcp_ports) \<le> 3
            \<and> common tcp_ports (filter (\<lambda>p. p \<noteq> 80 \<and> p \<noteq> 443) SERVER_PORTS) = 0)
      in if printer_vendor \<or> printer_port \<or> printer_os then
           (let sources = chosen [(printer_vendor, ''mac-vendor''), (printer_port, ''printer-port''), (printer_os, ''os-hint'')]
            in (DC_PRINTER, class_confidence sources True, sources))
         else if passive_neighbors \<or> network_vendor \<or> network_os \<or> network_ports then
           (let sources = chosen [(passive_neighbors, ''lldp-or-cdp''), (network_vendor, ''mac-vendor''),
                (network_os, ''os-hint''), (network_ports, ''network-management-ports'')]
            in (DC_NETWORK_DEVICE, class_confidence sources True, sources))
         else if windows_os \<or> windows_ports then
           (let sources = chosen [(windows_os, ''os-hint''), (windows_ports, ''windows-ports''), (windows_names, ''llmnr-or-nbns'')]
            in (DC_WORKSTATION, class_confidence sources windows_os, sources))
         else if 2 \<le> server_port_count \<or> linux_os then
           (let sources = chosen [(linux_os, ''os-hint''), (2 \<le> server_port_count, ''server-ports'')]
            in (DC_SERVER, class_confidence sources (3 \<le> server_port_count), sources))
         else if iot_vendor \<or> mdns_limited then
           (let sources = chosen [(iot_vendor, ''mac-vendor''), (mdns_limited, ''mdns-limited-ports'')]
            in (DC_IOT, class_confidence sources (iot_vendor \<and> mdns_limited), sources))
         else (DC_UNKNOWN, CL_UNKNOWN, []))"

fun hint_value :: "device_class_hint \<Rightarrow> string" where
  "hint_value DC_SERVER = ''server-like''"
| "hint_value DC_WORKSTATION = ''workstation-like''"
| "hint_value DC_NETWORK_DEVICE = ''network-device-like''"
| "hint_value DC_PRINTER = ''printer-like''"
| "hint_value DC_IOT = ''iot-like''"
| "hint_value DC_UNKNOWN = ''unknown''"

section \<open>Confidence and state\<close>

record nmap_service =
  ns_name :: "string option"
  ns_product :: "string option"
  ns_version :: "string option"
  ns_extra_info :: "string option"
  ns_tunnel :: "string option"
  ns_method :: "string option"
  ns_confidence :: "int option"
  ns_cpe :: "string list"
  ns_banner :: "string option"

definition SOURCE_CONFIDENCE :: "string \<Rightarrow> confidence_level option" where
  "SOURCE_CONFIDENCE = map_of [(''arp'', CL_HIGH), (''dhcp'', CL_HIGH), (''ethernet'', CL_MEDIUM), (''mdns'', CL_MEDIUM),
     (''llmnr'', CL_MEDIUM), (''nbns'', CL_MEDIUM), (''nmap'', CL_HIGH), (''ptr'', CL_MEDIUM)]"

definition source_confidence :: "string \<Rightarrow> confidence_level" where
  "source_confidence source = (case SOURCE_CONFIDENCE source of Some c \<Rightarrow> c | None \<Rightarrow> CL_MEDIUM)"

definition host_state :: "string \<Rightarrow> asset_state" where
  "host_state status = (if status = ''up'' then AST_RESPONSIVE else if status = ''down'' then AST_UNRESPONSIVE else AST_UNKNOWN)"

definition os_confidence :: "int \<Rightarrow> confidence_level" where
  "os_confidence accuracy = (if 95 \<le> accuracy then CL_HIGH else if 85 \<le> accuracy then CL_MEDIUM
     else if 70 \<le> accuracy then CL_LOW else CL_HINT)"

definition service_confidence :: "nmap_service option \<Rightarrow> confidence_level" where
  "service_confidence service = (case service of None \<Rightarrow> CL_LOW
     | Some s \<Rightarrow> (case ns_confidence s of
         Some n \<Rightarrow> (if 10 \<le> n then CL_HIGH else if 7 \<le> n then CL_MEDIUM else if 4 \<le> n then CL_LOW else CL_HINT)
       | None \<Rightarrow> if ns_method s = Some ''probed'' then CL_MEDIUM else CL_LOW))"

fun confidence_rank :: "confidence_level \<Rightarrow> nat" where
  "confidence_rank CL_UNKNOWN = 0"
| "confidence_rank CL_HINT = 1"
| "confidence_rank CL_LOW = 2"
| "confidence_rank CL_MEDIUM = 3"
| "confidence_rank CL_HIGH = 4"
| "confidence_rank CL_CONFIRMED = 5"

fun state_rank :: "asset_state \<Rightarrow> nat" where
  "state_rank AST_UNKNOWN = 0"
| "state_rank AST_UNRESPONSIVE = 1"
| "state_rank AST_OBSERVED = 2"
| "state_rank AST_RESPONSIVE = 3"

definition merge_state :: "asset_state \<Rightarrow> asset_state \<Rightarrow> asset_state" where
  "merge_state current observed =
     (if observed = AST_UNRESPONSIVE \<and> current = AST_RESPONSIVE then observed
      else if state_rank current \<le> state_rank observed then observed else current)"

end
