(* ===== verification/Inventory_Store.thy ===== *)
theory Inventory_Store
  imports Inventory_Base
begin

text \<open>
  The tables of the inventory (\<^verbatim>\<open>AssetModel\<close>, \<^verbatim>\<open>AssetAddressModel\<close>, \<^verbatim>\<open>AssetNameModel\<close>, \<^verbatim>\<open>ServiceModel\<close>,
  \<^verbatim>\<open>AssetObservationModel\<close>, \<^verbatim>\<open>ConfirmedScopeModel\<close>) with their unique and foreign keys, and the row operations the
  inventory service is made of. A session flushes before every query, so each statement sees the rows before it;
  a violated constraint ends the transaction, which is then rolled back.

  \<open>ie_uuid\<close> and \<open>ie_now\<close> give the n-th drawn UUID and the n-th reading of the clock; \<open>iv_draws\<close> counts both.
\<close>

section \<open>Rows and state\<close>

record asset_row =
  at_id :: string
  at_audit_id :: string
  at_state :: asset_state
  at_mac :: "string option"
  at_vendor :: "string option"
  at_vendor_source :: "string option"
  at_vendor_database_version :: "string option"
  at_device_class_hint :: device_class_hint
  at_device_class_confidence :: confidence_level
  at_os_family :: "string option"
  at_os_name :: "string option"
  at_os_generation :: "string option"
  at_os_accuracy :: "int option"
  at_first_seen :: int
  at_last_seen :: int
  at_metadata :: json_obj

record address_row = address_record +
  aa_audit_id :: string

record name_row = name_record +
  an_audit_id :: string

record asset_observation =
  ao_id :: string
  ao_audit_id :: string
  ao_asset_id :: "string option"
  ao_job_id :: "string option"
  ao_type :: string
  ao_source :: string
  ao_evidence :: "string option"
  ao_data :: json_obj
  ao_created_at :: int

record inv_db =
  iv_audits :: "string list"
  iv_jobs :: "string list"
  iv_assets :: "asset_row list"
  iv_addresses :: "address_row list"
  iv_names :: "name_row list"
  iv_services :: "service_record list"
  iv_observations :: "asset_observation list"
  iv_scopes :: "confirmed_scope list"
  iv_draws :: nat

record inv_env =
  ie_uuid :: "nat \<Rightarrow> string"
  ie_now :: "nat \<Rightarrow> int"
  ie_vendors :: oui_resolver
  ie_digest :: "string \<Rightarrow> string"

datatype inv_error = IV_IntegrityError | IV_AttributeError | IV_TypeError | IV_LookupError string | IV_JobExecutionError string

fun fold_res :: "('x \<Rightarrow> 's \<Rightarrow> 'e + 's) \<Rightarrow> 'x list \<Rightarrow> 's \<Rightarrow> 'e + 's" where
  "fold_res f [] s = Inr s"
| "fold_res f (x # xs) s = rbind (f x s) (fold_res f xs)"

definition read_clock :: "inv_env \<Rightarrow> inv_db \<Rightarrow> int \<times> inv_db" where
  "read_clock env d = (ie_now env (iv_draws d), d\<lparr>iv_draws := Suc (iv_draws d)\<rparr>)"

definition fresh_id :: "inv_env \<Rightarrow> inv_db \<Rightarrow> string" where
  "fresh_id env d = ie_uuid env (iv_draws d)"

section \<open>Inserts and updates under the constraints\<close>

definition name_key :: "name_row \<Rightarrow> string \<times> string \<times> string \<times> string" where
  "name_key n = (nr_asset_id n, nr_name n, nr_name_type n, nr_source n)"

definition service_key :: "service_record \<Rightarrow> string \<times> string \<times> int" where
  "service_key s = (sr_asset_id s, sr_protocol s, sr_port s)"

definition address_key :: "address_row \<Rightarrow> string \<times> string" where
  "address_key a = (aa_audit_id a, ar_address a)"

definition mac_taken :: "string \<Rightarrow> string \<Rightarrow> string option \<Rightarrow> asset_row list \<Rightarrow> bool" where
  "mac_taken i audit mac as \<longleftrightarrow> mac \<noteq> None \<and> list_ex (\<lambda>a. at_id a \<noteq> i \<and> at_audit_id a = audit \<and> at_mac a = mac) as"

definition insert_asset :: "asset_row \<Rightarrow> inv_db \<Rightarrow> inv_error + inv_db" where
  "insert_asset a d =
     (if at_id a \<in> at_id ` set (iv_assets d) \<or> mac_taken (at_id a) (at_audit_id a) (at_mac a) (iv_assets d)
         \<or> at_audit_id a \<notin> set (iv_audits d)
      then Inl IV_IntegrityError
      else Inr (d\<lparr>iv_assets := iv_assets d @ [a], iv_draws := Suc (iv_draws d)\<rparr>))"

definition put_asset :: "asset_row \<Rightarrow> inv_db \<Rightarrow> inv_error + inv_db" where
  "put_asset a d =
     (if mac_taken (at_id a) (at_audit_id a) (at_mac a) (iv_assets d) then Inl IV_IntegrityError
      else Inr (d\<lparr>iv_assets := tbl_put at_id a (iv_assets d)\<rparr>))"

definition insert_address :: "address_row \<Rightarrow> inv_db \<Rightarrow> inv_error + inv_db" where
  "insert_address a d =
     (if ar_id a \<in> ar_id ` set (iv_addresses d) \<or> address_key a \<in> address_key ` set (iv_addresses d)
         \<or> aa_audit_id a \<notin> set (iv_audits d) \<or> ar_asset_id a \<notin> at_id ` set (iv_assets d)
      then Inl IV_IntegrityError
      else Inr (d\<lparr>iv_addresses := iv_addresses d @ [a], iv_draws := Suc (iv_draws d)\<rparr>))"

definition insert_name :: "name_row \<Rightarrow> inv_db \<Rightarrow> inv_error + inv_db" where
  "insert_name n d =
     (if nr_id n \<in> nr_id ` set (iv_names d) \<or> name_key n \<in> name_key ` set (iv_names d)
         \<or> an_audit_id n \<notin> set (iv_audits d) \<or> nr_asset_id n \<notin> at_id ` set (iv_assets d)
      then Inl IV_IntegrityError
      else Inr (d\<lparr>iv_names := iv_names d @ [n], iv_draws := Suc (iv_draws d)\<rparr>))"

definition insert_service :: "service_record \<Rightarrow> inv_db \<Rightarrow> inv_error + inv_db" where
  "insert_service s d =
     (if sr_id s \<in> sr_id ` set (iv_services d) \<or> service_key s \<in> service_key ` set (iv_services d)
         \<or> sr_audit_id s \<notin> set (iv_audits d) \<or> sr_asset_id s \<notin> at_id ` set (iv_assets d)
      then Inl IV_IntegrityError
      else Inr (d\<lparr>iv_services := iv_services d @ [s], iv_draws := Suc (iv_draws d)\<rparr>))"

definition insert_observation :: "asset_observation \<Rightarrow> inv_db \<Rightarrow> inv_error + inv_db" where
  "insert_observation x d =
     (if ao_id x \<in> ao_id ` set (iv_observations d) \<or> ao_audit_id x \<notin> set (iv_audits d)
         \<or> (case ao_asset_id x of None \<Rightarrow> False | Some i \<Rightarrow> i \<notin> at_id ` set (iv_assets d))
         \<or> (case ao_job_id x of None \<Rightarrow> False | Some j \<Rightarrow> j \<notin> set (iv_jobs d))
      then Inl IV_IntegrityError
      else Inr (d\<lparr>iv_observations := iv_observations d @ [x], iv_draws := Suc (iv_draws d)\<rparr>))"

section \<open>Lookups\<close>

definition asset_by_mac :: "inv_db \<Rightarrow> string \<Rightarrow> string option \<Rightarrow> asset_row option" where
  "asset_by_mac d audit mac =
     (if \<not> truthy mac then None else find (\<lambda>a. at_audit_id a = audit \<and> at_mac a = mac) (iv_assets d))"

definition asset_by_address :: "inv_db \<Rightarrow> string \<Rightarrow> string \<Rightarrow> asset_row option" where
  "asset_by_address d audit address = (case tbl_get address_key (iv_addresses d) (audit, address) of
     None \<Rightarrow> None | Some r \<Rightarrow> tbl_get at_id (iv_assets d) (ar_asset_id r))"

section \<open>Observations\<close>

definition opt_json :: "string option \<Rightarrow> json" where
  "opt_json s = (case s of None \<Rightarrow> JNull | Some v \<Rightarrow> JStr v)"

definition observe ::
  "inv_env \<Rightarrow> string \<Rightarrow> string \<Rightarrow> string option \<Rightarrow> string \<Rightarrow> string \<Rightarrow> string option \<Rightarrow> json_obj \<Rightarrow> inv_db \<Rightarrow> inv_error + inv_db" where
  "observe env audit asset job type source evidence data d =
     insert_observation \<lparr>ao_id = fresh_id env d, ao_audit_id = audit, ao_asset_id = Some asset, ao_job_id = job,
       ao_type = type, ao_source = source, ao_evidence = evidence, ao_data = data, ao_created_at = ie_now env (iv_draws d)\<rparr> d"

end
