(* ===== verification/Inventory_Service.thy ===== *)
theory Inventory_Service
  imports Inventory_Store
begin

text \<open>
  The inventory service (\<^verbatim>\<open>inventory/service.py\<close>): how scan hosts and passive observations become assets, addresses,
  names and services. An operation maps the state to an error, which rolls the transaction back, or to the new state;
  \<open>a\<close> is the asset object an operation holds, whose changes are put back into its row.
\<close>

section \<open>Correlation\<close>

datatype conflict =
    No_conflict
  | Mac_and_ip_disagree string "string list" "string list"
  | Addresses_map_to_multiple_assets "string list" "string list"

fun blocked_addresses :: "conflict \<Rightarrow> string list" where
  "blocked_addresses No_conflict = []"
| "blocked_addresses (Mac_and_ip_disagree i blocked ids) = blocked"
| "blocked_addresses (Addresses_map_to_multiple_assets ids blocked) = blocked"

fun conflict_data :: "conflict \<Rightarrow> json_obj" where
  "conflict_data No_conflict = []"
| "conflict_data (Mac_and_ip_disagree i blocked ids) = [(''reason'', JStr ''mac_and_ip_disagree''),
     (''mac_asset_id'', JStr i), (''blocked_addresses'', JList (map JStr blocked)), (''ip_asset_ids'', JList (map JStr ids))]"
| "conflict_data (Addresses_map_to_multiple_assets ids blocked) = [(''reason'', JStr ''addresses_map_to_multiple_assets''),
     (''asset_ids'', JList (map JStr ids)), (''blocked_addresses'', JList (map JStr blocked))]"

fun address_assets :: "inv_db \<Rightarrow> string \<Rightarrow> (string \<times> nat) list \<Rightarrow> (string \<times> asset_row) list \<Rightarrow> (string \<times> asset_row) list" where
  "address_assets d audit [] acc = acc"
| "address_assets d audit ((address, family) # rest) acc =
     address_assets d audit rest (case asset_by_address d audit address of None \<Rightarrow> acc | Some a \<Rightarrow> dict_set address a acc)"

text \<open>The dict of the assets by id: its values in the order the ids were first set.\<close>

definition assets_by_id :: "(string \<times> asset_row) list \<Rightarrow> (string \<times> asset_row) list" where
  "assets_by_id found = dict_update [] (map (\<lambda>p. (at_id (snd p), snd p)) found)"

definition others :: "string \<Rightarrow> (string \<times> asset_row) list \<Rightarrow> string list" where
  "others i found = map fst (filter (\<lambda>p. at_id (snd p) \<noteq> i) found)"

definition correlate ::
  "inv_db \<Rightarrow> string \<Rightarrow> string option \<Rightarrow> (string \<times> nat) list \<Rightarrow> asset_row option \<times> conflict" where
  "correlate d audit mac addresses =
     (let found = address_assets d audit addresses []; unique = assets_by_id found
      in case asset_by_mac d audit mac of
          Some m \<Rightarrow> (Some m, if others (at_id m) found = [] then No_conflict
             else Mac_and_ip_disagree (at_id m) (others (at_id m) found) (map (\<lambda>p. at_id (snd p)) unique))
        | None \<Rightarrow> (case unique of
            [] \<Rightarrow> (None, No_conflict)
          | [p] \<Rightarrow> (Some (snd p), No_conflict)
          | p # q # ps \<Rightarrow> (Some (snd p), Addresses_map_to_multiple_assets (map fst unique) (others (at_id (snd p)) found))))"

section \<open>Addresses and names\<close>

definition upsert_address ::
  "inv_env \<Rightarrow> string \<Rightarrow> string \<Rightarrow> string \<Rightarrow> nat \<Rightarrow> string \<Rightarrow> int \<Rightarrow> bool \<Rightarrow> inv_db \<Rightarrow> inv_error + inv_db" where
  "upsert_address env audit asset address family source now is_primary d =
     (case tbl_get address_key (iv_addresses d) (audit, address) of
        None \<Rightarrow> insert_address \<lparr>ar_id = fresh_id env d, ar_asset_id = asset, ar_address = address, ar_family = family,
            ar_is_primary = is_primary, ar_first_seen = now, ar_last_seen = now, ar_source = source,
            ar_confidence = source_confidence source, aa_audit_id = audit\<rparr> d
      | Some r \<Rightarrow>
          if ar_asset_id r \<noteq> asset then
            rbind (observe env audit asset None ''address_owned_by_other_asset'' source None
                [(''address'', JStr address), (''owner_asset_id'', JStr (ar_asset_id r))] d)
              (\<lambda>d'. Inr (d'\<lparr>iv_addresses := tbl_put address_key (r\<lparr>ar_last_seen := now\<rparr>) (iv_addresses d')\<rparr>))
          else Inr (d\<lparr>iv_addresses := tbl_put address_key
            (r\<lparr>ar_last_seen := now, ar_is_primary := (is_primary \<or> ar_is_primary r)\<rparr>) (iv_addresses d)\<rparr>))"

fun upsert_addresses ::
  "inv_env \<Rightarrow> string \<Rightarrow> string \<Rightarrow> string list \<Rightarrow> string \<Rightarrow> int \<Rightarrow> bool \<Rightarrow> (string \<times> nat) list \<Rightarrow> inv_db \<Rightarrow> inv_error + inv_db" where
  "upsert_addresses env audit asset blocked source now primary_set [] d = Inr d"
| "upsert_addresses env audit asset blocked source now primary_set ((address, family) # rest) d =
     (if address \<in> set blocked then upsert_addresses env audit asset blocked source now primary_set rest d
      else rbind (upsert_address env audit asset address family source now (\<not> primary_set) d)
        (upsert_addresses env audit asset blocked source now True rest))"

definition upsert_name ::
  "inv_env \<Rightarrow> string \<Rightarrow> string \<Rightarrow> int \<Rightarrow> string \<times> string \<times> string \<Rightarrow> inv_db \<Rightarrow> inv_error + inv_db" where
  "upsert_name env audit asset now item d = (case item of (name, name_type, source) \<Rightarrow>
     let cleaned = rstrip_dots (strip name)
     in if cleaned = [] then Inr d
        else case tbl_get name_key (iv_names d) (asset, cleaned, name_type, source) of
            None \<Rightarrow> insert_name \<lparr>nr_id = fresh_id env d, nr_asset_id = asset, nr_name = cleaned, nr_name_type = name_type,
                nr_source = source, nr_confidence = source_confidence source, nr_first_seen = now, nr_last_seen = now,
                an_audit_id = audit\<rparr> d
          | Some n \<Rightarrow> Inr (d\<lparr>iv_names := tbl_put name_key (n\<lparr>nr_last_seen := now\<rparr>) (iv_names d)\<rparr>))"

section \<open>Services\<close>

record nmap_port =
  np_protocol :: string
  np_port :: int
  np_state :: string
  np_reason :: "string option"
  np_service :: "nmap_service option"

definition new_service ::
  "inv_env \<Rightarrow> string \<Rightarrow> string \<Rightarrow> string \<Rightarrow> int \<Rightarrow> nmap_port \<Rightarrow> inv_db \<Rightarrow> service_record" where
  "new_service env audit asset source now p d =
     (let field = (\<lambda>f. case np_service p of None \<Rightarrow> None | Some s \<Rightarrow> f s)
      in \<lparr>sr_id = fresh_id env d, sr_audit_id = audit, sr_asset_id = asset, sr_protocol = np_protocol p, sr_port = np_port p,
          sr_state = np_state p, sr_reason = np_reason p, sr_service_name = field ns_name, sr_product = field ns_product,
          sr_version = field ns_version, sr_extra_info = field ns_extra_info, sr_tunnel = field ns_tunnel,
          sr_cpe = (case np_service p of None \<Rightarrow> [] | Some s \<Rightarrow> ns_cpe s), sr_banner = field ns_banner,
          sr_method = field ns_method, sr_confidence = service_confidence (np_service p), sr_source = source,
          sr_first_seen = now, sr_last_seen = now\<rparr>)"

text \<open>The fields that are compared, with the stored and the observed value.\<close>

definition compared_fields :: "service_record \<Rightarrow> service_record \<Rightarrow> (string \<times> json \<times> json) list" where
  "compared_fields old new =
     [(''service_name'', opt_json (sr_service_name old), opt_json (sr_service_name new)),
      (''product'', opt_json (sr_product old), opt_json (sr_product new)),
      (''version'', opt_json (sr_version old), opt_json (sr_version new)),
      (''extra_info'', opt_json (sr_extra_info old), opt_json (sr_extra_info new)),
      (''cpe'', JList (map JStr (sr_cpe old)), JList (map JStr (sr_cpe new))),
      (''banner'', opt_json (sr_banner old), opt_json (sr_banner new))]"

definition field_conflict :: "json \<Rightarrow> json \<Rightarrow> bool" where
  "field_conflict current value \<longleftrightarrow> json_truthy current \<and> json_truthy value \<and> current \<noteq> value"

definition merge_field :: "bool \<Rightarrow> json \<Rightarrow> json \<Rightarrow> 'a \<Rightarrow> 'a \<Rightarrow> 'a" where
  "merge_field keep current value old new = (if keep \<and> field_conflict current value then old else new)"

text \<open>\<^verbatim>\<open>list(value or [])\<close> of a JSON value.\<close>

definition json_items :: "json \<Rightarrow> inv_error + json list" where
  "json_items v = (if \<not> json_truthy v then Inr [] else case v of JList xs \<Rightarrow> Inr xs | JObj d \<Rightarrow> Inr (map (\<lambda>p. JStr (fst p)) d)
     | JStr s \<Rightarrow> Inr (map (\<lambda>c. JStr [c]) s) | _ \<Rightarrow> Inl IV_TypeError)"

definition last_n :: "nat \<Rightarrow> 'a list \<Rightarrow> 'a list" where
  "last_n n xs = drop (length xs - n) xs"

definition add_conflict ::
  "string \<Rightarrow> int \<Rightarrow> string \<times> json \<times> json \<Rightarrow> json_obj \<Rightarrow> inv_error + json_obj" where
  "add_conflict protocol port item m = (case item of (key, current, value) \<Rightarrow>
     if \<not> field_conflict current value then Inr m
     else rbind (json_items (jget m ''service_conflicts'')) (\<lambda>cs. Inr (dict_set ''service_conflicts'' (JList (last_n 20 (cs @
       [JObj [(''protocol'', JStr protocol), (''port'', JInt port), (''field'', JStr key), (''existing'', current),
         (''observed'', value)]]))) m)))"

definition merged_service :: "service_record \<Rightarrow> service_record \<Rightarrow> service_record" where
  "merged_service old new =
     (let keep = (confidence_rank (sr_confidence new) \<le> confidence_rank (sr_confidence old));
          pick = (\<lambda>f. merge_field keep (opt_json (f old)) (opt_json (f new)) (f old) (f new))
      in new\<lparr>sr_id := sr_id old, sr_audit_id := sr_audit_id old, sr_first_seen := sr_first_seen old,
          sr_service_name := pick sr_service_name, sr_product := pick sr_product, sr_version := pick sr_version,
          sr_extra_info := pick sr_extra_info, sr_banner := pick sr_banner,
          sr_cpe := merge_field keep (JList (map JStr (sr_cpe old))) (JList (map JStr (sr_cpe new))) (sr_cpe old) (sr_cpe new)\<rparr>)"

definition upsert_service ::
  "inv_env \<Rightarrow> string \<Rightarrow> string \<Rightarrow> int \<Rightarrow> nmap_port \<Rightarrow> asset_row \<times> inv_db \<Rightarrow> inv_error + asset_row \<times> inv_db" where
  "upsert_service env audit source now p st = (case st of (a, d) \<Rightarrow>
     let new = new_service env audit (at_id a) source now p d
     in case tbl_get service_key (iv_services d) (service_key new) of
          None \<Rightarrow> rbind (insert_service new d) (\<lambda>d'. Inr (a, d'))
        | Some old \<Rightarrow>
            rbind (fold_res (add_conflict (np_protocol p) (np_port p)) (compared_fields old new) (at_metadata a)) (\<lambda>m.
            rbind (put_asset (a\<lparr>at_metadata := m\<rparr>) d) (\<lambda>d'.
              Inr (a\<lparr>at_metadata := m\<rparr>,
                d'\<lparr>iv_services := tbl_put service_key (merged_service old new) (iv_services d')\<rparr>))))"

section \<open>Operating system and device class\<close>

record nmap_os_match =
  om_name :: string
  om_accuracy :: int
  om_family :: "string option"
  om_generation :: "string option"
  om_vendor :: "string option"
  om_cpe :: "string list"

record nmap_address =
  na_address :: string
  na_family :: string
  na_vendor :: "string option"

record nmap_host =
  nh_status :: string
  nh_status_reason :: "string option"
  nh_addresses :: "nmap_address list"
  nh_hostnames :: "(string \<times> string) list"
  nh_ports :: "nmap_port list"
  nh_os_matches :: "nmap_os_match list"
  nh_uptime_seconds :: "int option"
  nh_network_distance :: "int option"

definition host_mac :: "nmap_host \<Rightarrow> string option" where
  "host_mac h = map_option na_address (find (\<lambda>x. na_family x = ''mac'') (nh_addresses h))"

definition host_mac_vendor :: "nmap_host \<Rightarrow> string option" where
  "host_mac_vendor h = (case find (\<lambda>x. na_family x = ''mac'' \<and> truthy (na_vendor x)) (nh_addresses h) of
     None \<Rightarrow> None | Some x \<Rightarrow> na_vendor x)"

text \<open>\<^verbatim>\<open>max(..., key=accuracy)\<close>: the first of the best.\<close>

fun best_match :: "nmap_os_match \<Rightarrow> nmap_os_match list \<Rightarrow> nmap_os_match" where
  "best_match b [] = b"
| "best_match b (m # ms) = best_match (if om_accuracy b < om_accuracy m then m else b) ms"

definition opt_int_json :: "int option \<Rightarrow> json" where
  "opt_int_json i = (case i of None \<Rightarrow> JNull | Some n \<Rightarrow> JInt n)"

definition set_opt_int :: "string \<Rightarrow> int option \<Rightarrow> json_obj \<Rightarrow> json_obj" where
  "set_opt_int k v m = (case v of None \<Rightarrow> m | Some n \<Rightarrow> dict_set k (JInt n) m)"

definition with_os_hint :: "nmap_host \<Rightarrow> nmap_os_match \<Rightarrow> asset_row \<Rightarrow> asset_row" where
  "with_os_hint h best a = a\<lparr>at_os_family := om_family best, at_os_name := Some (om_name best),
     at_os_generation := om_generation best, at_os_accuracy := Some (om_accuracy best),
     at_metadata := set_opt_int ''network_distance'' (nh_network_distance h) (set_opt_int ''uptime_seconds'' (nh_uptime_seconds h)
       (dict_set ''os_hint'' (JObj [(''family'', opt_json (om_family best)), (''name'', JStr (om_name best)),
          (''generation'', opt_json (om_generation best)), (''accuracy'', JInt (om_accuracy best)), (''source'', JStr ''nmap''),
          (''confidence'', JStr (confidence_value (os_confidence (om_accuracy best))))]) (at_metadata a)))\<rparr>"

definition apply_os_hint ::
  "inv_env \<Rightarrow> nmap_host \<Rightarrow> string option \<Rightarrow> string option \<Rightarrow> asset_row \<times> inv_db \<Rightarrow> inv_error + asset_row \<times> inv_db" where
  "apply_os_hint env h job evidence st = (case st of (a, d) \<Rightarrow>
     (case nh_os_matches h of [] \<Rightarrow> Inr (a, d)
      | m # ms \<Rightarrow>
          let best = best_match m ms;
              differs = (truthy (at_os_name a) \<and> at_os_name a \<noteq> Some (om_name best));
              data = [(''existing'', JObj [(''name'', opt_json (at_os_name a)), (''family'', opt_json (at_os_family a)),
                        (''accuracy'', opt_int_json (at_os_accuracy a))]),
                      (''observed'', JObj [(''name'', JStr (om_name best)), (''family'', opt_json (om_family best)),
                        (''accuracy'', JInt (om_accuracy best))])]
          in rbind (if differs then observe env (at_audit_id a) (at_id a) job ''os_hint_conflict'' ''nmap'' evidence data d
                    else Inr d) (\<lambda>d'.
             if differs \<and> om_accuracy best \<le> (case at_os_accuracy a of None \<Rightarrow> 0 | Some n \<Rightarrow> n) then Inr (a, d')
             else rbind (put_asset (with_os_hint h best a) d') (\<lambda>d''. Inr (with_os_hint h best a, d'')))))"

definition services_of :: "inv_db \<Rightarrow> string \<Rightarrow> service_record list" where
  "services_of d i = filter (\<lambda>s. sr_asset_id s = i) (iv_services d)"

definition names_of :: "inv_db \<Rightarrow> string \<Rightarrow> name_row list" where
  "names_of d i = filter (\<lambda>n. nr_asset_id n = i) (iv_names d)"

definition classified :: "inv_db \<Rightarrow> asset_row \<Rightarrow> asset_row" where
  "classified d a =
     (case classify_device (at_os_family a) (at_os_name a) (at_vendor a)
        (map (\<lambda>s. (sr_protocol s, sr_port s)) (filter (\<lambda>s. sr_state s = ''open'') (services_of d (at_id a))))
        (map nr_source (names_of d (at_id a))) False of (hint, confidence, sources) \<Rightarrow>
      a\<lparr>at_device_class_hint := hint, at_device_class_confidence := confidence,
        at_metadata := dict_set ''device_class'' (JObj [(''hint'', JStr (hint_value hint)),
          (''confidence'', JStr (confidence_value confidence)), (''sources'', JList (map JStr sources))]) (at_metadata a)\<rparr>)"

definition classify_asset :: "asset_row \<Rightarrow> inv_db \<Rightarrow> inv_error + inv_db" where
  "classify_asset a d = put_asset (classified d a) d"

definition refresh_classifications :: "string \<Rightarrow> inv_db \<Rightarrow> inv_error + inv_db" where
  "refresh_classifications audit d =
     fold_res classify_asset (filter (\<lambda>a. at_audit_id a = audit) (iv_assets d)) d"

section \<open>Scan hosts\<close>

definition new_asset ::
  "inv_env \<Rightarrow> string \<Rightarrow> asset_state \<Rightarrow> string option \<Rightarrow> string option \<Rightarrow> int \<Rightarrow> inv_db \<Rightarrow> asset_row" where
  "new_asset env audit state mac vendor now d =
     (let v = vendor_lookup (ie_vendors env) mac
      in \<lparr>at_id = fresh_id env d, at_audit_id = audit, at_state = state, at_mac = mac,
          at_vendor = vendor,
          at_vendor_source = vr_source v, at_vendor_database_version = vr_database_version v,
          at_device_class_hint = DC_UNKNOWN, at_device_class_confidence = CL_UNKNOWN, at_os_family = None,
          at_os_name = None, at_os_generation = None, at_os_accuracy = None, at_first_seen = now, at_last_seen = now,
          at_metadata = []\<rparr>)"

text \<open>The branch for an asset that has no MAC address yet.\<close>

definition adopt_mac :: "inv_env \<Rightarrow> string \<Rightarrow> string option \<Rightarrow> asset_row \<Rightarrow> inv_db \<Rightarrow> asset_row" where
  "adopt_mac env audit mac a d =
     (if (case asset_by_mac d audit mac of None \<Rightarrow> True | Some x \<Rightarrow> at_id x = at_id a) then
        (let v = vendor_lookup (ie_vendors env) mac; a' = a\<lparr>at_mac := mac\<rparr>
         in if truthy (vr_vendor v) \<and> \<not> truthy (at_vendor a)
            then a'\<lparr>at_vendor := vr_vendor v, at_vendor_source := vr_source v, at_vendor_database_version := vr_database_version v\<rparr>
            else a')
      else a)"

definition touched :: "inv_env \<Rightarrow> string \<Rightarrow> asset_state \<Rightarrow> string option \<Rightarrow> int \<Rightarrow> asset_row \<Rightarrow> inv_db \<Rightarrow> asset_row" where
  "touched env audit state mac now a d =
     (let a' = a\<lparr>at_last_seen := now, at_state := merge_state (at_state a) state\<rparr>
      in if truthy mac \<and> at_mac a = None then adopt_mac env audit mac a' d else a')"

definition find_or_create ::
  "inv_env \<Rightarrow> string \<Rightarrow> asset_state \<Rightarrow> string option \<Rightarrow> string option \<Rightarrow> int \<Rightarrow> asset_row option \<Rightarrow> inv_db
     \<Rightarrow> inv_error + asset_row \<times> inv_db" where
  "find_or_create env audit state mac vendor now asset d = (case asset of
     None \<Rightarrow> (let a = new_asset env audit state mac vendor now d in rbind (insert_asset a d) (\<lambda>d'. Inr (a, d')))
   | Some a \<Rightarrow> (let a' = touched env audit state mac now a d in rbind (put_asset a' d) (\<lambda>d'. Inr (a', d'))))"

definition observe_conflict ::
  "inv_env \<Rightarrow> string \<Rightarrow> string \<Rightarrow> string option \<Rightarrow> string \<Rightarrow> string option \<Rightarrow> conflict \<Rightarrow> inv_db \<Rightarrow> inv_error + inv_db" where
  "observe_conflict env audit asset job source evidence c d =
     (if c = No_conflict then Inr d
      else observe env audit asset job ''identity_conflict'' source evidence (conflict_data c) d)"

definition host_addresses :: "nmap_host \<Rightarrow> (string \<times> nat) list" where
  "host_addresses h = List.map_filter (\<lambda>x. if na_family x \<in> {''ipv4'', ''ipv6''} then canonical_ip (na_address x) else None)
     (nh_addresses h)"

definition host_vendor :: "inv_env \<Rightarrow> nmap_host \<Rightarrow> string option \<Rightarrow> string option" where
  "host_vendor env h mac = (let v = vr_vendor (vendor_lookup (ie_vendors env) mac)
     in if truthy v then v else host_mac_vendor h)"

definition interesting :: "bool \<Rightarrow> nmap_host \<Rightarrow> bool" where
  "interesting persist h \<longleftrightarrow> nh_status h = ''up'' \<or> canonical_mac (host_mac h) \<noteq> None \<or> nh_hostnames h \<noteq> []
     \<or> nh_ports h \<noteq> [] \<or> (persist \<and> nh_status h = ''down'')"

definition mac_conflict ::
  "inv_env \<Rightarrow> string \<Rightarrow> string option \<Rightarrow> string \<Rightarrow> string option \<Rightarrow> string option \<Rightarrow> asset_row option \<Rightarrow> inv_db \<Rightarrow> inv_error + inv_db" where
  "mac_conflict env audit job source evidence mac found d = (case found of
     None \<Rightarrow> Inr d
   | Some a \<Rightarrow> if truthy mac \<and> truthy (at_mac a) \<and> at_mac a \<noteq> mac
       then observe env audit (at_id a) job ''mac_conflict'' source evidence
         [(''existing'', opt_json (at_mac a)), (''observed'', opt_json mac)] d
       else Inr d)"

text \<open>What a scan host brings to its asset \<open>a\<close>: first conflicts, addresses and names, then operating system, services and class.\<close>

definition identify_host ::
  "inv_env \<Rightarrow> string \<Rightarrow> string option \<Rightarrow> string \<Rightarrow> string option \<Rightarrow> nmap_host \<Rightarrow> int \<Rightarrow> asset_row option \<Rightarrow> conflict
     \<Rightarrow> asset_row \<Rightarrow> inv_db \<Rightarrow> inv_error + inv_db" where
  "identify_host env audit job source evidence h now found c a d =
     rbind (mac_conflict env audit job source evidence (canonical_mac (host_mac h)) found d) (\<lambda>d3.
     rbind (observe_conflict env audit (at_id a) job source evidence c d3) (\<lambda>d4.
     rbind (upsert_addresses env audit (at_id a) (blocked_addresses c) source now False (host_addresses h) d4) (\<lambda>d5.
     fold_res (upsert_name env audit (at_id a) now)
       (map (\<lambda>(name, name_type). (name, if name_type = [] then ''PTR'' else name_type, ''nmap'')) (nh_hostnames h)) d5)))"

definition describe_host ::
  "inv_env \<Rightarrow> string \<Rightarrow> string option \<Rightarrow> string \<Rightarrow> string option \<Rightarrow> nmap_host \<Rightarrow> int \<Rightarrow> asset_row \<Rightarrow> inv_db \<Rightarrow> inv_error + inv_db" where
  "describe_host env audit job source evidence h now a d =
     rbind (apply_os_hint env h job evidence (a, d)) (\<lambda>st7.
     rbind (fold_res (upsert_service env audit source now) (nh_ports h) st7) (\<lambda>(a8, d8).
     rbind (observe env audit (at_id a8) job ''nmap_host'' source evidence
         [(''status'', JStr (nh_status h)), (''reason'', opt_json (nh_status_reason h)),
          (''addresses'', JList (map (\<lambda>x. JStr (fst x)) (host_addresses h))),
          (''mac'', opt_json (canonical_mac (host_mac h)))] d8) (classify_asset a8)))"

definition upsert_nmap_host ::
  "inv_env \<Rightarrow> string \<Rightarrow> string option \<Rightarrow> string \<Rightarrow> string option \<Rightarrow> bool \<Rightarrow> nmap_host \<Rightarrow> inv_db \<Rightarrow> inv_error + inv_db \<times> bool" where
  "upsert_nmap_host env audit job source evidence persist h d =
     (let mac = canonical_mac (host_mac h); addresses = host_addresses h
      in if \<not> interesting persist h then Inr (d, False)
         else case correlate d audit mac addresses of (found, c) \<Rightarrow> (case read_clock env d of (now, d1) \<Rightarrow>
           rbind (find_or_create env audit (host_state (nh_status h)) mac (host_vendor env h mac) now found d1) (\<lambda>(a, d2).
           rbind (identify_host env audit job source evidence h now found c a d2) (\<lambda>d3.
           rbind (describe_host env audit job source evidence h now a d3) (\<lambda>d4. Inr (d4, True))))))"

fun ingest_hosts ::
  "inv_env \<Rightarrow> string \<Rightarrow> string option \<Rightarrow> string \<Rightarrow> string option \<Rightarrow> bool \<Rightarrow> nmap_host list \<Rightarrow> inv_db \<times> nat
     \<Rightarrow> inv_error + inv_db \<times> nat" where
  "ingest_hosts env audit job source evidence persist [] st = Inr st"
| "ingest_hosts env audit job source evidence persist (h # hs) st =
     rbind (upsert_nmap_host env audit job source evidence persist h (fst st)) (\<lambda>(d, stored).
       ingest_hosts env audit job source evidence persist hs (d, if stored then Suc (snd st) else snd st))"

definition ingest_nmap_document ::
  "inv_env \<Rightarrow> string \<Rightarrow> string option \<Rightarrow> string \<Rightarrow> string option \<Rightarrow> bool \<Rightarrow> nmap_host list \<Rightarrow> inv_db \<Rightarrow> inv_error + inv_db \<times> nat" where
  "ingest_nmap_document env audit job source evidence persist hosts d =
     ingest_hosts env audit job source evidence persist hosts (d, 0)"

section \<open>Passive observations\<close>

text \<open>Attribute access on JSON values: \<^verbatim>\<open>(x or {}).get\<close>, \<^verbatim>\<open>for y in x or []\<close>, and text arguments.\<close>

definition json_fields :: "json \<Rightarrow> inv_error + json_obj" where
  "json_fields v = (if \<not> json_truthy v then Inr [] else case v of JObj d \<Rightarrow> Inr d | _ \<Rightarrow> Inl IV_AttributeError)"

definition json_text :: "inv_error \<Rightarrow> json \<Rightarrow> inv_error + string option" where
  "json_text e v = (if \<not> json_truthy v then Inr None else case v of JStr s \<Rightarrow> Inr (Some s) | _ \<Rightarrow> Inl e)"

definition json_mac :: "json \<Rightarrow> inv_error + string option" where
  "json_mac v = rbind (json_text IV_TypeError v) (\<lambda>s. Inr (canonical_mac s))"

text \<open>A value handed to \<^verbatim>\<open>canonical_ip\<close>: \<^verbatim>\<open>None\<close> where it raises \<^verbatim>\<open>ValueError\<close>.\<close>

definition json_ip :: "json \<Rightarrow> inv_error + (string \<times> nat) option" where
  "json_ip v = (case v of JStr s \<Rightarrow> Inr (canonical_ip s) | _ \<Rightarrow> Inl IV_AttributeError)"

definition upsert_identity ::
  "inv_env \<Rightarrow> string \<Rightarrow> string option \<Rightarrow> string option \<Rightarrow> (string \<times> nat) list \<Rightarrow> (string \<times> string \<times> string) list \<Rightarrow> string
     \<Rightarrow> string option \<Rightarrow> asset_state \<Rightarrow> inv_db \<Rightarrow> inv_error + inv_db" where
  "upsert_identity env audit job mac addresses names source evidence state d =
     (case correlate d audit mac addresses of (found, c) \<Rightarrow> (case read_clock env d of (now, d1) \<Rightarrow>
        rbind (find_or_create env audit state mac (vr_vendor (vendor_lookup (ie_vendors env) mac)) now found d1) (\<lambda>(a, d2).
        rbind (observe_conflict env audit (at_id a) job source evidence c d2) (\<lambda>d3.
        rbind (upsert_addresses env audit (at_id a) (blocked_addresses c) source now
            (list_ex (\<lambda>r. ar_asset_id r = at_id a) (iv_addresses d3)) addresses d3) (\<lambda>d4.
        fold_res (upsert_name env audit (at_id a) now) names d4)))))"

type_synonym ingest_step = "json \<Rightarrow> inv_db \<times> nat \<Rightarrow> inv_error + inv_db \<times> nat"

definition counted :: "inv_db \<times> nat \<Rightarrow> inv_error + inv_db \<Rightarrow> inv_error + inv_db \<times> nat" where
  "counted st r = rbind r (\<lambda>d. Inr (d, Suc (snd st)))"

text \<open>The loop over a sensor's observations.\<close>

definition each_observation :: "json \<Rightarrow> ingest_step \<Rightarrow> inv_db \<times> nat \<Rightarrow> inv_error + inv_db \<times> nat" where
  "each_observation sensor f st =
     rbind (json_fields sensor) (\<lambda>s. rbind (json_items (jget s ''observations'')) (\<lambda>xs. fold_res f xs st))"

definition get_field :: "json \<Rightarrow> string \<Rightarrow> inv_error + json" where
  "get_field v k = (case v of JObj d \<Rightarrow> Inr (jget d k) | _ \<Rightarrow> Inl IV_AttributeError)"

definition observation_data :: "json \<Rightarrow> inv_error + json_obj" where
  "observation_data x = rbind (get_field x ''data'') json_fields"

definition first_octet :: "string \<Rightarrow> nat" where
  "first_octet mac = from_base 16 (take 2 mac)"

definition ethernet_step :: "inv_env \<Rightarrow> string \<Rightarrow> string option \<Rightarrow> string option \<Rightarrow> ingest_step" where
  "ethernet_step env audit job evidence x st =
     rbind (observation_data x) (\<lambda>data.
       if json_truthy (jget data ''multicast_source'') then Inr st
       else rbind (json_mac (jget data ''mac'')) (\<lambda>mac.
         if mac = None \<or> mac = Some ''00:00:00:00:00:00'' \<or> odd (first_octet (the mac)) then Inr st
         else counted st (upsert_identity env audit job mac [] [] ''ethernet'' evidence AST_OBSERVED (fst st))))"

definition opt_ip :: "json \<Rightarrow> inv_error + (string \<times> nat) list" where
  "opt_ip v = (if \<not> json_truthy v then Inr [] else rbind (json_ip v) (\<lambda>r. Inr (case r of None \<Rightarrow> [] | Some a \<Rightarrow> [a])))"

definition arp_step :: "inv_env \<Rightarrow> string \<Rightarrow> string option \<Rightarrow> string option \<Rightarrow> ingest_step" where
  "arp_step env audit job evidence x st =
     rbind (observation_data x) (\<lambda>data. rbind (json_mac (jget data ''sender_mac'')) (\<lambda>mac.
       rbind (opt_ip (jget data ''sender_ipv4'')) (\<lambda>addresses.
         if mac = None \<and> addresses = [] then Inr st
         else counted st (upsert_identity env audit job mac addresses [] ''arp'' evidence AST_OBSERVED (fst st)))))"

text \<open>The first of the two addresses that parses.\<close>

definition dhcp_addresses :: "json_obj \<Rightarrow> inv_error + (string \<times> nat) list" where
  "dhcp_addresses data = rbind (opt_ip (jget data ''offered_ip'')) (\<lambda>xs. if xs \<noteq> [] then Inr xs else opt_ip (jget data ''requested_ip''))"

text \<open>Names are text when they are cleaned; the cleaning of another value raises.\<close>

fun typed_names :: "(json \<times> string \<times> string) list \<Rightarrow> inv_error + (string \<times> string \<times> string) list" where
  "typed_names [] = Inr []"
| "typed_names ((v, t, s) # ns) = (case v of JStr n \<Rightarrow> rbind (typed_names ns) (\<lambda>r. Inr ((n, t, s) # r)) | _ \<Rightarrow> Inl IV_AttributeError)"

definition dhcp_step :: "inv_env \<Rightarrow> string \<Rightarrow> string option \<Rightarrow> string option \<Rightarrow> ingest_step" where
  "dhcp_step env audit job evidence x st =
     rbind (observation_data x) (\<lambda>data. rbind (json_mac (jget data ''client_mac'')) (\<lambda>mac.
       rbind (dhcp_addresses data) (\<lambda>addresses.
         let names = (if json_truthy (jget data ''hostname'') then [(jget data ''hostname'', ''DHCP'', ''dhcp'')] else [])
         in if mac = None \<and> addresses = [] \<and> names = [] then Inr st
            else rbind (typed_names names) (\<lambda>names.
              counted st (upsert_identity env audit job mac addresses names ''dhcp'' evidence AST_OBSERVED (fst st))))))"

fun parse_ips :: "json list \<Rightarrow> inv_error + (string \<times> nat) list" where
  "parse_ips [] = Inr []"
| "parse_ips (v # vs) = rbind (json_ip v) (\<lambda>r. rbind (parse_ips vs) (\<lambda>rs. Inr (case r of None \<Rightarrow> rs | Some a \<Rightarrow> a # rs)))"

definition name_type_of :: "string \<Rightarrow> string" where
  "name_type_of sensor = (if sensor = ''mdns'' then ''mDNS'' else if sensor = ''llmnr'' then ''LLMNR'' else ''NBNS'')"

definition naming_step :: "inv_env \<Rightarrow> string \<Rightarrow> string option \<Rightarrow> string \<Rightarrow> string option \<Rightarrow> ingest_step" where
  "naming_step env audit job sensor evidence x st =
     rbind (observation_data x) (\<lambda>data. rbind (json_items (jget data ''addresses'')) (\<lambda>vs. rbind (parse_ips vs) (\<lambda>ips.
     rbind (get_field x ''metadata'') (\<lambda>mv. rbind (json_fields mv) (\<lambda>metadata. rbind (opt_ip (jget metadata ''source_ip'')) (\<lambda>own.
     rbind (json_items (jget data ''response_names'')) (\<lambda>n1. rbind (json_items (jget data ''query_names'')) (\<lambda>n2.
     rbind (json_items (jget data ''names'')) (\<lambda>n3. rbind (json_mac (jget metadata ''source_mac'')) (\<lambda>mac.
       let addresses = ips @ own; names = map (\<lambda>n. (n, name_type_of sensor, sensor)) (n1 @ n2 @ n3)
       in if addresses = [] \<and> names = [] \<and> mac = None then Inr st
          else rbind (typed_names names) (\<lambda>names.
            counted st (upsert_identity env audit job mac addresses names sensor evidence AST_OBSERVED (fst st)))))))))))))"

definition ingest_passive_sensors ::
  "inv_env \<Rightarrow> string \<Rightarrow> string option \<Rightarrow> json \<Rightarrow> string option \<Rightarrow> inv_db \<Rightarrow> inv_error + inv_db \<times> nat" where
  "ingest_passive_sensors env audit job sensors evidence d =
     rbind (get_field sensors ''ethernet'') (\<lambda>ethernet.
     rbind (each_observation ethernet (ethernet_step env audit job evidence) (d, 0)) (\<lambda>st1.
     rbind (get_field sensors ''arp'') (\<lambda>arp.
     rbind (each_observation arp (arp_step env audit job evidence) st1) (\<lambda>st2.
     rbind (get_field sensors ''dhcpv4'') (\<lambda>v4. rbind (get_field sensors ''dhcp'') (\<lambda>v.
     rbind (each_observation (jor v4 v) (dhcp_step env audit job evidence) st2) (\<lambda>st3.
     rbind (fold_res (\<lambda>name st. rbind (get_field sensors name) (\<lambda>s.
         each_observation s (naming_step env audit job name evidence) st)) [''mdns'', ''llmnr'', ''nbns''] st3) (\<lambda>(d4, n).
     rbind (refresh_classifications audit d4) (\<lambda>d5. Inr (d5, n))))))))))"

text \<open>The newest stored passive result: its artifact id and what reading it gives.\<close>

type_synonym passive_artifact = "(string \<times> (inv_error + json)) option"

definition get_default :: "json \<Rightarrow> string \<Rightarrow> inv_error + json" where
  "get_default v k = (case v of JObj d \<Rightarrow> Inr (case map_of d k of None \<Rightarrow> JObj [] | Some x \<Rightarrow> x) | _ \<Rightarrow> Inl IV_AttributeError)"

definition ingest_passive_from_audit ::
  "inv_env \<Rightarrow> string \<Rightarrow> string option \<Rightarrow> passive_artifact \<Rightarrow> inv_db \<Rightarrow> inv_error + inv_db \<times> nat" where
  "ingest_passive_from_audit env audit job artifact d = (case artifact of None \<Rightarrow> Inr (d, 0)
     | Some (i, document) \<Rightarrow> rbind document (\<lambda>doc. rbind (get_default doc ''result'') (\<lambda>result.
         rbind (get_default result ''sensors'') (\<lambda>sensors. ingest_passive_sensors env audit job sensors (Some i) d))))"

definition ensure_passive_inventory ::
  "inv_env \<Rightarrow> string \<Rightarrow> string option \<Rightarrow> passive_artifact \<Rightarrow> inv_db \<Rightarrow> inv_error + inv_db \<times> nat" where
  "ensure_passive_inventory env audit job artifact d =
     (case ingest_passive_from_audit env audit job artifact d of
        Inl (IV_JobExecutionError e) \<Rightarrow> Inr (d, 0)
      | r \<Rightarrow> r)"

end
