(* ===== verification/Inventory_Queries.thy ===== *)
theory Inventory_Queries
  imports Inventory_Service Job_Service
begin

text \<open>
  Confirmed scopes and the read side of the inventory service. The lists and the summary first bring the passive
  results into the inventory (\<^verbatim>\<open>ensure_passive_inventory\<close>), so a read is a transaction that writes, followed by a query.
\<close>

section \<open>Confirmed scopes\<close>

text \<open>\<^verbatim>\<open>json.dumps\<close> with its default escapes: characters above 126 are written as \<^verbatim>\<open>\u00xx\<close>.\<close>

definition ascii_char :: "char \<Rightarrow> string" where
  "ascii_char c = (if 126 < code c then [BACKSLASH] @ ''u00'' @ hex2 (code c) else json_char c)"

definition ascii_quote :: "string \<Rightarrow> string" where
  "ascii_quote s = char_of (34 :: nat) # concat (map ascii_char s) @ [char_of (34 :: nat)]"

definition snapshot_payload :: "active_profile \<Rightarrow> string \<Rightarrow> string list \<Rightarrow> string" where
  "snapshot_payload profile interface targets =
     ''{'' @ ascii_quote ''interface'' @ '':'' @ ascii_quote interface @ '','' @ ascii_quote ''profile'' @ '':''
       @ ascii_quote (profile_value profile) @ '','' @ ascii_quote ''targets'' @ '':['' @ join_on '','' (map ascii_quote targets) @ '']}''"

definition scope_snapshot_hash :: "inv_env \<Rightarrow> active_profile \<Rightarrow> string \<Rightarrow> string list \<Rightarrow> string" where
  "scope_snapshot_hash env profile interface targets = ie_digest env (snapshot_payload profile interface targets)"

definition new_scope ::
  "inv_env \<Rightarrow> string \<Rightarrow> validated_scope \<Rightarrow> string \<Rightarrow> json_obj \<Rightarrow> string option \<Rightarrow> string \<Rightarrow> inv_db \<Rightarrow> confirmed_scope" where
  "new_scope env audit scope interface route_context actor timing_policy d =
     \<lparr>cs_id = fresh_id env d, cs_audit_id = audit, cs_created_at = ie_now env (iv_draws d), cs_activated_at = None,
      cs_profile = vs_profile scope, cs_interface = interface, cs_targets = vs_canonical_targets scope,
      cs_address_families = vs_address_families scope, cs_address_count = vs_address_count scope,
      cs_route_context = route_context, cs_timing_policy = timing_policy, cs_actor = actor,
      cs_snapshot_hash = scope_snapshot_hash env (vs_profile scope) interface (vs_canonical_targets scope)\<rparr>"

definition scope_key :: "confirmed_scope \<Rightarrow> string \<times> string" where
  "scope_key s = (cs_audit_id s, cs_snapshot_hash s)"

definition confirm_scope ::
  "inv_env \<Rightarrow> string \<Rightarrow> validated_scope \<Rightarrow> string \<Rightarrow> json_obj \<Rightarrow> string option \<Rightarrow> string \<Rightarrow> inv_db
     \<Rightarrow> inv_error + inv_db \<times> confirmed_scope" where
  "confirm_scope env audit scope interface route_context actor timing_policy d =
     (let new = new_scope env audit scope interface route_context actor timing_policy d
      in case tbl_get scope_key (iv_scopes d) (scope_key new) of
           Some s \<Rightarrow> Inr (d, s)
         | None \<Rightarrow> if cs_id new \<in> cs_id ` set (iv_scopes d) \<or> audit \<notin> set (iv_audits d) then Inl IV_IntegrityError
             else Inr (d\<lparr>iv_scopes := iv_scopes d @ [new], iv_draws := Suc (iv_draws d)\<rparr>, new))"

definition get_scope :: "string \<Rightarrow> inv_db \<Rightarrow> confirmed_scope option" where
  "get_scope i d = tbl_get cs_id (iv_scopes d) i"

definition latest_scope :: "string \<Rightarrow> inv_db \<Rightarrow> confirmed_scope option" where
  "latest_scope audit d = (case sort_key (\<lambda>s. - cs_created_at s) (filter (\<lambda>s. cs_audit_id s = audit) (iv_scopes d)) of
     [] \<Rightarrow> None | s # _ \<Rightarrow> Some s)"

definition activate_scope :: "inv_env \<Rightarrow> string \<Rightarrow> inv_db \<Rightarrow> inv_error + inv_db \<times> confirmed_scope" where
  "activate_scope env i d = (case tbl_get cs_id (iv_scopes d) i of
     None \<Rightarrow> Inl (IV_LookupError i)
   | Some s \<Rightarrow> (if cs_activated_at s \<noteq> None then Inr (d, s)
       else case read_clock env d of (now, d') \<Rightarrow> (let s' = s\<lparr>cs_activated_at := Some now\<rparr>
         in Inr (d'\<lparr>iv_scopes := tbl_put cs_id s' (iv_scopes d')\<rparr>, s'))))"

section \<open>Records\<close>

definition asset_record_of :: "bool \<Rightarrow> inv_db \<Rightarrow> asset_row \<Rightarrow> asset_record" where
  "asset_record_of include_services d a =
     \<lparr>as_id = at_id a, as_audit_id = at_audit_id a, as_state = at_state a, as_mac = at_mac a, as_vendor = at_vendor a,
      as_vendor_source = at_vendor_source a, as_vendor_database_version = at_vendor_database_version a,
      as_device_class_hint = at_device_class_hint a, as_device_class_confidence = at_device_class_confidence a,
      as_os_family = at_os_family a, as_os_name = at_os_name a, as_os_generation = at_os_generation a,
      as_os_accuracy = at_os_accuracy a, as_first_seen = at_first_seen a, as_last_seen = at_last_seen a,
      as_metadata = at_metadata a,
      as_addresses = map address_record.truncate (sort_key (\<lambda>r. (ar_family r, ar_address r))
        (filter (\<lambda>r. ar_asset_id r = at_id a) (iv_addresses d))),
      as_names = map name_record.truncate (sort_key (\<lambda>n. (nr_source n, nr_name n)) (names_of d (at_id a))),
      as_services = (if include_services then sort_key (\<lambda>s. (sr_protocol s, sr_port s)) (services_of d (at_id a)) else [])\<rparr>"

section \<open>Reads\<close>

record inventory_summary =
  is_assets :: nat
  is_services :: nat
  is_tcp_services :: nat
  is_udp_services :: nat
  is_ipv4_addresses :: nat
  is_ipv6_addresses :: nat
  is_device_classes :: "(string \<times> nat) list"

definition count_where :: "('a \<Rightarrow> bool) \<Rightarrow> 'a list \<Rightarrow> nat" where
  "count_where P xs = length (filter P xs)"

text \<open>\<^verbatim>\<open>GROUP BY\<close> over the device classes; a class without a row has no entry.\<close>

definition class_counts :: "asset_row list \<Rightarrow> (string \<times> nat) list" where
  "class_counts as = filter (\<lambda>p. snd p \<noteq> 0) (map (\<lambda>h. (hint_value h, count_where (\<lambda>a. at_device_class_hint a = h) as))
     [DC_IOT, DC_NETWORK_DEVICE, DC_PRINTER, DC_SERVER, DC_UNKNOWN, DC_WORKSTATION])"

definition summary_of :: "string \<Rightarrow> inv_db \<Rightarrow> inventory_summary" where
  "summary_of audit d =
     \<lparr>is_assets = count_where (\<lambda>a. at_audit_id a = audit) (iv_assets d),
      is_services = count_where (\<lambda>s. sr_audit_id s = audit) (iv_services d),
      is_tcp_services = count_where (\<lambda>s. sr_audit_id s = audit \<and> sr_protocol s = ''tcp'') (iv_services d),
      is_udp_services = count_where (\<lambda>s. sr_audit_id s = audit \<and> sr_protocol s = ''udp'') (iv_services d),
      is_ipv4_addresses = count_where (\<lambda>r. aa_audit_id r = audit \<and> ar_family r = 4) (iv_addresses d),
      is_ipv6_addresses = count_where (\<lambda>r. aa_audit_id r = audit \<and> ar_family r = 6) (iv_addresses d),
      is_device_classes = class_counts (filter (\<lambda>a. at_audit_id a = audit) (iv_assets d))\<rparr>"

definition summary ::
  "inv_env \<Rightarrow> passive_artifact \<Rightarrow> string \<Rightarrow> inv_db \<Rightarrow> inv_error + inv_db \<times> inventory_summary" where
  "summary env artifact audit d =
     rbind (ensure_passive_inventory env audit None artifact d) (\<lambda>(d', n). Inr (d', summary_of audit d'))"

record asset_query =
  aq_address :: "string option"
  aq_hostname :: "string option"
  aq_mac :: "string option"
  aq_vendor :: "string option"
  aq_state :: "asset_state option"
  aq_device_class :: "device_class_hint option"

definition asset_matches :: "asset_query \<Rightarrow> inv_db \<Rightarrow> asset_row \<Rightarrow> bool" where
  "asset_matches q d a \<longleftrightarrow>
     (case aq_state q of None \<Rightarrow> True | Some s \<Rightarrow> at_state a = s)
     \<and> (case aq_device_class q of None \<Rightarrow> True | Some h \<Rightarrow> at_device_class_hint a = h)
     \<and> (truthy (aq_vendor q) \<longrightarrow> ilike_contains (at_vendor a) (the (aq_vendor q)))
     \<and> (truthy (aq_mac q) \<longrightarrow> ilike_contains (at_mac a)
          (case canonical_mac (aq_mac q) of Some m \<Rightarrow> m | None \<Rightarrow> the (aq_mac q)))
     \<and> (truthy (aq_address q) \<longrightarrow> list_ex (\<lambda>r. ar_asset_id r = at_id a \<and> ilike_contains (Some (ar_address r)) (the (aq_address q)))
          (iv_addresses d))
     \<and> (truthy (aq_hostname q) \<longrightarrow> list_ex (\<lambda>n. nr_asset_id n = at_id a \<and> ilike_contains (Some (nr_name n)) (the (aq_hostname q)))
          (iv_names d))"

definition matching_assets :: "asset_query \<Rightarrow> string \<Rightarrow> inv_db \<Rightarrow> asset_row list" where
  "matching_assets q audit d =
     sort_key (\<lambda>a. (- at_last_seen a, at_id a)) (filter (\<lambda>a. at_audit_id a = audit \<and> asset_matches q d a) (iv_assets d))"

definition list_assets ::
  "inv_env \<Rightarrow> passive_artifact \<Rightarrow> string \<Rightarrow> nat \<Rightarrow> nat \<Rightarrow> asset_query \<Rightarrow> bool \<Rightarrow> inv_db \<Rightarrow> inv_error + inv_db \<times> asset_record page" where
  "list_assets env artifact audit limit offset q include_services d =
     rbind (ensure_passive_inventory env audit None artifact d) (\<lambda>(d', n).
       Inr (d', page_of limit offset (map (asset_record_of include_services d') (matching_assets q audit d'))))"

definition get_asset :: "string \<Rightarrow> string \<Rightarrow> inv_db \<Rightarrow> asset_record option" where
  "get_asset audit i d = map_option (asset_record_of True d) (find (\<lambda>a. at_audit_id a = audit \<and> at_id a = i) (iv_assets d))"

record service_query =
  sq_asset_id :: "string option"
  sq_protocol :: "string option"
  sq_port :: "int option"
  sq_state :: "string option"
  sq_service_name :: "string option"
  sq_product :: "string option"

definition service_matches :: "service_query \<Rightarrow> service_record \<Rightarrow> bool" where
  "service_matches q s \<longleftrightarrow>
     (truthy (sq_asset_id q) \<longrightarrow> sr_asset_id s = the (sq_asset_id q))
     \<and> (truthy (sq_protocol q) \<longrightarrow> sr_protocol s = lower (the (sq_protocol q)))
     \<and> (case sq_port q of None \<Rightarrow> True | Some p \<Rightarrow> sr_port s = p)
     \<and> (truthy (sq_state q) \<longrightarrow> sr_state s = the (sq_state q))
     \<and> (truthy (sq_service_name q) \<longrightarrow> ilike_contains (sr_service_name s) (the (sq_service_name q)))
     \<and> (truthy (sq_product q) \<longrightarrow> ilike_contains (sr_product s) (the (sq_product q)))"

definition list_services ::
  "inv_env \<Rightarrow> passive_artifact \<Rightarrow> string \<Rightarrow> nat \<Rightarrow> nat \<Rightarrow> service_query \<Rightarrow> inv_db \<Rightarrow> inv_error + inv_db \<times> service_record page" where
  "list_services env artifact audit limit offset q d =
     rbind (ensure_passive_inventory env audit None artifact d) (\<lambda>(d', n).
       Inr (d', page_of limit offset (sort_key (\<lambda>s. (sr_protocol s, sr_port s, sr_id s))
         (filter (\<lambda>s. sr_audit_id s = audit \<and> service_matches q s) (iv_services d')))))"

end
