(* ===== verification/Inventory_Facts.thy ===== *)
theory Inventory_Facts
  imports Inventory_Queries Upsert
begin

text \<open>
  The invariant of the inventory tables and what every operation keeps of the rows that were there. Each step of the
  service is shown to return (no constraint is ever violated), to keep the invariant and to let the tables grow: a row
  stays at its place with its identity, its owner and its first time; new rows come behind.
\<close>

section \<open>Returning computations\<close>

definition returns :: "'e + 'a \<Rightarrow> ('a \<Rightarrow> bool) \<Rightarrow> bool" where
  "returns r P \<longleftrightarrow> (\<exists>x. r = Inr x \<and> P x)"

lemma returns_Inr [simp]: "returns (Inr x) P \<longleftrightarrow> P x"
  by (simp add: returns_def)

lemma returns_rbind:
  assumes "returns m P" "\<And>x. P x \<Longrightarrow> returns (f x) Q"
  shows "returns (rbind m f) Q"
  using assms by (auto simp: returns_def)

lemma returns_mono: "returns m P \<Longrightarrow> (\<And>x. P x \<Longrightarrow> Q x) \<Longrightarrow> returns m Q"
  by (auto simp: returns_def)

locale state_relation =
  fixes ok :: "'s \<Rightarrow> bool" and rel :: "'s \<Rightarrow> 's \<Rightarrow> bool"
  assumes rel_refl: "rel s s"
    and rel_trans: "rel s t \<Longrightarrow> rel t u \<Longrightarrow> rel s u"
begin

lemma returns_fold:
  assumes "\<And>x s. x \<in> set xs \<Longrightarrow> ok s \<Longrightarrow> returns (f x s) (\<lambda>t. ok t \<and> rel s t)" "ok s"
  shows "returns (fold_res f xs s) (\<lambda>t. ok t \<and> rel s t)"
  using assms
proof (induction xs arbitrary: s)
  case Nil
  then show ?case by (simp add: rel_refl)
next
  case (Cons x xs)
  show ?case
    unfolding fold_res.simps
  proof (rule returns_rbind)
    show "returns (f x s) (\<lambda>t. ok t \<and> rel s t)" using Cons.prems by simp
    fix t assume t: "ok t \<and> rel s t"
    then have "returns (fold_res f xs t) (\<lambda>u. ok u \<and> rel t u)"
      using Cons.prems(1) by (intro Cons.IH) auto
    with t show "returns (fold_res f xs t) (\<lambda>u. ok u \<and> rel s u)" by (auto simp: returns_def intro: rel_trans)
  qed
qed

end

section \<open>Growing tables\<close>

text \<open>Every old row is still at its place, with what \<open>same\<close> compares; new rows come behind.\<close>

definition grows :: "('r \<Rightarrow> 'r \<Rightarrow> bool) \<Rightarrow> 'r list \<Rightarrow> 'r list \<Rightarrow> bool" where
  "grows same t t' \<longleftrightarrow> list_all2 same t (take (length t) t')"

lemma grows_length: "grows same t t' \<Longrightarrow> length t \<le> length t'"
  using list_all2_lengthD [of same t "take (length t) t'"] by (auto simp: grows_def)

lemma grows_mem:
  assumes "grows same t t'" "r \<in> set t"
  shows "\<exists>r' \<in> set t'. same r r'"
proof -
  obtain i where i: "i < length t" "r = t ! i" using assms(2) by (auto simp: in_set_conv_nth)
  then have "same r (t' ! i)" using assms(1) by (auto simp: grows_def list_all2_conv_all_nth)
  then show ?thesis using i(1) grows_length [OF assms(1)] by (intro bexI [of _ "t' ! i"]) auto
qed

context row_origin
begin

lemma grows_refl: "grows origin t t"
  using origin_refl by (simp add: grows_def list.rel_refl)

lemma grows_append: "grows origin t (t @ xs)"
  using origin_refl by (simp add: grows_def list.rel_refl)

lemma grows_trans:
  assumes "grows origin t u" "grows origin u v"
  shows "grows origin t v"
proof -
  have "origin (t ! i) (v ! i)" if "i < length t" for i
    using that assms grows_length [OF assms(1)] origin_trans [of "t ! i" "u ! i" "v ! i"]
    by (auto simp: grows_def list_all2_conv_all_nth)
  then show ?thesis
    using grows_length [OF assms(1)] grows_length [OF assms(2)] by (auto simp: grows_def list_all2_conv_all_nth)
qed

lemma grows_put:
  assumes "distinct (map key t)" "r0 \<in> set t" "key r0 = key r" "origin r0 r"
  shows "grows origin t (tbl_put key r t)"
proof -
  have "origin x r" if "x \<in> set t" "key x = key r" for x
    using that assms tbl.get_unique [of key t x] tbl.get_unique [of key t r0] by simp
  then have "list_all2 origin t (map (\<lambda>x. if key x = key r then r else x) t)"
    using origin_refl by (auto simp: list_all2_conv_all_nth)
  then show ?thesis by (simp add: grows_def tbl_put_def)
qed

end

section \<open>What a row keeps\<close>

definition same_asset :: "asset_row \<Rightarrow> asset_row \<Rightarrow> bool" where
  "same_asset a b \<longleftrightarrow> at_id a = at_id b \<and> at_audit_id a = at_audit_id b \<and> at_first_seen a = at_first_seen b
     \<and> (at_mac a \<noteq> None \<longrightarrow> at_mac b = at_mac a)"

definition same_address :: "address_row \<Rightarrow> address_row \<Rightarrow> bool" where
  "same_address r s \<longleftrightarrow> ar_id r = ar_id s \<and> address_key r = address_key s \<and> ar_asset_id r = ar_asset_id s
     \<and> ar_family r = ar_family s \<and> ar_first_seen r = ar_first_seen s \<and> ar_source r = ar_source s
     \<and> (ar_is_primary r \<longrightarrow> ar_is_primary s)"

definition same_name :: "name_row \<Rightarrow> name_row \<Rightarrow> bool" where
  "same_name r s \<longleftrightarrow> nr_id r = nr_id s \<and> name_key r = name_key s \<and> an_audit_id r = an_audit_id s
     \<and> nr_first_seen r = nr_first_seen s"

definition same_service :: "service_record \<Rightarrow> service_record \<Rightarrow> bool" where
  "same_service r s \<longleftrightarrow> sr_id r = sr_id s \<and> service_key r = service_key s \<and> sr_audit_id r = sr_audit_id s
     \<and> sr_first_seen r = sr_first_seen s"

interpretation ast: row_origin at_id same_asset
  by unfold_locales (auto simp: same_asset_def)

interpretation adr: row_origin address_key same_address
  by unfold_locales (auto simp: same_address_def)

interpretation nam: row_origin name_key same_name
  by unfold_locales (auto simp: same_name_def)

interpretation svc: row_origin service_key same_service
  by unfold_locales (auto simp: same_service_def)

interpretation obsv: row_origin ao_id "(=)"
  by unfold_locales auto

definition inv_ext :: "inv_db \<Rightarrow> inv_db \<Rightarrow> bool" where
  "inv_ext d d' \<longleftrightarrow> iv_audits d' = iv_audits d \<and> iv_jobs d' = iv_jobs d \<and> iv_scopes d' = iv_scopes d
     \<and> iv_draws d \<le> iv_draws d' \<and> grows same_asset (iv_assets d) (iv_assets d')
     \<and> grows same_address (iv_addresses d) (iv_addresses d') \<and> grows same_name (iv_names d) (iv_names d')
     \<and> grows same_service (iv_services d) (iv_services d') \<and> grows (=) (iv_observations d) (iv_observations d')"

lemmas grows_refls = ast.grows_refl adr.grows_refl nam.grows_refl svc.grows_refl obsv.grows_refl
lemmas grows_appends = ast.grows_append adr.grows_append nam.grows_append svc.grows_append obsv.grows_append

lemma inv_ext_refl [simp]: "inv_ext d d"
  by (simp add: inv_ext_def grows_refls)

lemma inv_ext_trans: "inv_ext d e \<Longrightarrow> inv_ext e f \<Longrightarrow> inv_ext d f"
  unfolding inv_ext_def
  using ast.grows_trans adr.grows_trans nam.grows_trans svc.grows_trans obsv.grows_trans by (metis le_trans)

section \<open>The invariant\<close>

definition drawn :: "inv_env \<Rightarrow> nat \<Rightarrow> string \<Rightarrow> bool" where
  "drawn env n i \<longleftrightarrow> (\<exists>k < n. i = ie_uuid env k)"

definition owned :: "asset_row list \<Rightarrow> string \<Rightarrow> string \<Rightarrow> bool" where
  "owned as i u \<longleftrightarrow> (\<exists>a \<in> set as. at_id a = i \<and> at_audit_id a = u)"

text \<open>A table of rows that belong to assets: unique ids and identities, drawn ids, and an owner in the same audit.\<close>

definition table_ok ::
  "(string \<Rightarrow> bool) \<Rightarrow> (string \<Rightarrow> string \<Rightarrow> bool) \<Rightarrow> ('r \<Rightarrow> string) \<Rightarrow> ('r \<Rightarrow> 'k) \<Rightarrow> ('r \<Rightarrow> string) \<Rightarrow> ('r \<Rightarrow> string) \<Rightarrow> 'r list \<Rightarrow> bool" where
  "table_ok D W idf key owner audit t \<longleftrightarrow> distinct (map idf t) \<and> distinct (map key t)
     \<and> list_all (\<lambda>r. D (idf r) \<and> W (owner r) (audit r)) t"

lemma table_ok_mono:
  assumes "table_ok D W idf key owner audit t" "\<And>i. D i \<Longrightarrow> D' i" "\<And>i u. W i u \<Longrightarrow> W' i u"
  shows "table_ok D' W' idf key owner audit t"
  using assms by (auto simp: table_ok_def list_all_iff)

lemma table_ok_append:
  assumes "table_ok D W idf key owner audit t" "idf r \<notin> idf ` set t" "key r \<notin> key ` set t"
    "D (idf r)" "W (owner r) (audit r)"
  shows "table_ok D W idf key owner audit (t @ [r])"
  using assms by (auto simp: table_ok_def)

lemma table_ok_put:
  assumes "table_ok D W idf key owner audit t" "r0 \<in> set t" "key r = key r0" "idf r = idf r0" "owner r = owner r0"
    "audit r = audit r0"
  shows "table_ok D W idf key owner audit (tbl_put key r t)"
proof -
  have d: "distinct (map key t)" using assms(1) by (simp add: table_ok_def)
  have same: "x = r0" if "x \<in> set t" "key x = key r" for x
    using that assms(2,3) tbl.get_unique [OF d] by (metis option.inject)
  have "map idf (tbl_put key r t) = map idf t" "map owner (tbl_put key r t) = map owner t"
    "map audit (tbl_put key r t) = map audit t"
    using same assms(4-6) by (auto simp: tbl_put_def)
  moreover have "map key (tbl_put key r t) = map key t" by (rule tbl.keys_put)
  moreover have "D (idf x) \<and> W (owner x) (audit x)" if "x \<in> set (tbl_put key r t)" for x
  proof -
    have ok: "D (idf y) \<and> W (owner y) (audit y)" if "y \<in> set t" for y
      using that assms(1) by (simp add: table_ok_def list_all_iff)
    have "x = r \<or> x \<in> set t" using that by (auto simp: tbl_put_def split: if_splits)
    then show ?thesis using ok [OF assms(2)] ok [of x] assms(4-6) by auto
  qed
  ultimately show ?thesis using assms(1) by (simp add: table_ok_def list_all_iff)
qed

definition meta_ok :: "json_obj \<Rightarrow> bool" where
  "meta_ok m \<longleftrightarrow> (case jget m ''service_conflicts'' of JNull \<Rightarrow> True | JList xs \<Rightarrow> True | _ \<Rightarrow> False)"

definition assets_ok :: "(string \<Rightarrow> bool) \<Rightarrow> string list \<Rightarrow> asset_row list \<Rightarrow> bool" where
  "assets_ok D us as \<longleftrightarrow> distinct (map at_id as)
     \<and> list_all (\<lambda>a. D (at_id a) \<and> at_audit_id a \<in> set us \<and> meta_ok (at_metadata a) \<and> at_mac a \<noteq> Some []
         \<and> \<not> mac_taken (at_id a) (at_audit_id a) (at_mac a) as) as"

abbreviation addresses_ok where
  "addresses_ok D W \<equiv> table_ok D W ar_id address_key ar_asset_id aa_audit_id"

abbreviation names_ok where
  "names_ok D W \<equiv> table_ok D W nr_id name_key nr_asset_id an_audit_id"

abbreviation services_ok where
  "services_ok D W \<equiv> table_ok D W sr_id service_key sr_asset_id sr_audit_id"

definition observations_ok :: "(string \<Rightarrow> bool) \<Rightarrow> asset_observation list \<Rightarrow> bool" where
  "observations_ok D xs \<longleftrightarrow> distinct (map ao_id xs) \<and> list_all (\<lambda>x. D (ao_id x)) xs"

definition inv_ok :: "inv_env \<Rightarrow> inv_db \<Rightarrow> bool" where
  "inv_ok env d \<longleftrightarrow> (let D = drawn env (iv_draws d); W = owned (iv_assets d) in
     assets_ok D (iv_audits d) (iv_assets d) \<and> addresses_ok D W (iv_addresses d) \<and> names_ok D W (iv_names d)
     \<and> services_ok D W (iv_services d) \<and> observations_ok D (iv_observations d))"

lemma drawn_mono: "drawn env n i \<Longrightarrow> n \<le> m \<Longrightarrow> drawn env m i"
  unfolding drawn_def using less_le_trans by blast

lemma not_drawn: "inj (ie_uuid env) \<Longrightarrow> \<not> drawn env n (ie_uuid env n)"
  by (auto simp: drawn_def inj_def)

lemma drawn_Suc [simp]: "drawn env (Suc n) (ie_uuid env n)"
  by (auto simp: drawn_def)

lemma fresh_not_in:
  assumes "inj (ie_uuid env)" "list_all (\<lambda>r. drawn env n (idf r)) t"
  shows "ie_uuid env n \<notin> idf ` set t"
proof
  assume "ie_uuid env n \<in> idf ` set t"
  then obtain r where "r \<in> set t" "idf r = ie_uuid env n" by auto
  then have "drawn env n (ie_uuid env n)" using assms(2) by (auto simp: list_all_iff)
  with not_drawn [OF assms(1)] show False by blast
qed

lemma table_ok_fresh:
  "table_ok (drawn env n) W idf key owner audit t \<Longrightarrow> inj (ie_uuid env) \<Longrightarrow> ie_uuid env n \<notin> idf ` set t"
  by (rule fresh_not_in) (auto simp: table_ok_def list_all_iff)

lemma table_ok_tick:
  "table_ok (drawn env n) W idf key owner audit t \<Longrightarrow> table_ok (drawn env (Suc n)) W idf key owner audit t"
  by (erule table_ok_mono) (auto intro: drawn_mono)

lemma assets_ok_tick: "assets_ok (drawn env n) us as \<Longrightarrow> assets_ok (drawn env (Suc n)) us as"
  by (auto simp: assets_ok_def list_all_iff intro: drawn_mono)

lemma observations_ok_tick: "observations_ok (drawn env n) xs \<Longrightarrow> observations_ok (drawn env (Suc n)) xs"
  by (auto simp: observations_ok_def list_all_iff intro: drawn_mono)

lemmas ticks = table_ok_tick assets_ok_tick observations_ok_tick

lemma inv_ok_clock: "inv_ok env d \<Longrightarrow> inv_ok env (d\<lparr>iv_draws := Suc (iv_draws d)\<rparr>)"
  by (simp add: inv_ok_def Let_def ticks)

lemma inv_ext_clock: "inv_ext d (d\<lparr>iv_draws := Suc (iv_draws d)\<rparr>)"
  by (simp add: inv_ext_def grows_refls)

section \<open>Steps\<close>

text \<open>\<open>good\<close>: the invariant, and everything that was there is kept.\<close>

definition good :: "inv_env \<Rightarrow> inv_db \<Rightarrow> inv_db \<Rightarrow> bool" where
  "good env d d' \<longleftrightarrow> inv_ok env d' \<and> inv_ext d d'"

definition kept_assets :: "inv_env \<Rightarrow> inv_db \<Rightarrow> inv_db \<Rightarrow> bool" where
  "kept_assets env d d' \<longleftrightarrow> good env d d' \<and> iv_assets d' = iv_assets d"

lemma good_trans: "good env d e \<Longrightarrow> good env e f \<Longrightarrow> good env d f"
  using inv_ext_trans by (auto simp: good_def)

lemma kept_assets_trans: "kept_assets env d e \<Longrightarrow> kept_assets env e f \<Longrightarrow> kept_assets env d f"
  using good_trans by (auto simp: kept_assets_def)

lemma observe_returns:
  assumes "inv_ok env d" "inj (ie_uuid env)" "audit \<in> set (iv_audits d)" "asset \<in> at_id ` set (iv_assets d)"
    "case job of None \<Rightarrow> True | Some j \<Rightarrow> j \<in> set (iv_jobs d)"
  shows "returns (observe env audit asset job type source evidence data d) (kept_assets env d)"
proof -
  have ok: "observations_ok (drawn env (iv_draws d)) (iv_observations d)" using assms(1) by (simp add: inv_ok_def Let_def)
  then have "fresh_id env d \<notin> ao_id ` set (iv_observations d)"
    unfolding fresh_id_def by (intro fresh_not_in [OF assms(2)]) (simp add: observations_ok_def)
  moreover from this have "observations_ok (drawn env (Suc (iv_draws d))) (iv_observations d @ [x])"
    if "ao_id x = fresh_id env d" for x
    using that observations_ok_tick [OF ok] by (auto simp: observations_ok_def fresh_id_def)
  ultimately show ?thesis
    using assms
    by (simp add: observe_def insert_observation_def kept_assets_def good_def inv_ok_def Let_def ticks inv_ext_def
        grows_refls grows_appends returns_def split: option.splits)
qed

text \<open>What an operation needs of its arguments: the audit is stored, and so is the job when there is one.\<close>

definition ready :: "inv_env \<Rightarrow> string \<Rightarrow> string option \<Rightarrow> inv_db \<Rightarrow> bool" where
  "ready env audit job d \<longleftrightarrow> inv_ok env d \<and> inj (ie_uuid env) \<and> audit \<in> set (iv_audits d)
     \<and> (case job of None \<Rightarrow> True | Some j \<Rightarrow> j \<in> set (iv_jobs d))"

lemma ready_good: "ready env audit job d \<Longrightarrow> good env d d' \<Longrightarrow> ready env audit job d'"
  by (auto simp: ready_def good_def inv_ext_def split: option.splits)

lemma ready_observe:
  "ready env audit job d \<Longrightarrow> a \<in> set (iv_assets d) \<Longrightarrow>
     returns (observe env audit (at_id a) job type source evidence data d) (kept_assets env d)"
  unfolding ready_def by (rule observe_returns) auto

lemma observe_only:
  "observe env audit i job type source evidence data d = Inr d' \<Longrightarrow>
     iv_addresses d' = iv_addresses d \<and> iv_names d' = iv_names d \<and> iv_services d' = iv_services d"
  by (auto simp: observe_def insert_observation_def split: if_splits)

lemma ready_no_job: "ready env audit job d \<Longrightarrow> ready env audit None d"
  by (simp add: ready_def)

lemma inv_okD:
  assumes "inv_ok env d"
  shows "assets_ok (drawn env (iv_draws d)) (iv_audits d) (iv_assets d)"
    "addresses_ok (drawn env (iv_draws d)) (owned (iv_assets d)) (iv_addresses d)"
    "names_ok (drawn env (iv_draws d)) (owned (iv_assets d)) (iv_names d)"
    "services_ok (drawn env (iv_draws d)) (owned (iv_assets d)) (iv_services d)"
    "observations_ok (drawn env (iv_draws d)) (iv_observations d)"
  using assms by (simp_all add: inv_ok_def Let_def)

lemma assets_okD:
  assumes "assets_ok D us as"
  shows "distinct (map at_id as)"
    "a \<in> set as \<Longrightarrow> D (at_id a) \<and> at_audit_id a \<in> set us \<and> meta_ok (at_metadata a) \<and> at_mac a \<noteq> Some []
       \<and> \<not> mac_taken (at_id a) (at_audit_id a) (at_mac a) as"
  using assms by (simp_all add: assets_ok_def list_all_iff)

lemma mac_taken_iff:
  "mac_taken i u m as \<longleftrightarrow> m \<noteq> None \<and> (\<exists>b \<in> set as. at_id b \<noteq> i \<and> at_audit_id b = u \<and> at_mac b = m)"
  by (simp add: mac_taken_def list_ex_iff)

lemma owned_mono: "owned as i u \<Longrightarrow> grows same_asset as bs \<Longrightarrow> owned bs i u"
  unfolding owned_def using grows_mem [of same_asset as bs] by (fastforce simp: same_asset_def)

lemma inv_ok_assets:
  assumes "inv_ok env d" "assets_ok (drawn env n) (iv_audits d) as" "grows same_asset (iv_assets d) as" "iv_draws d \<le> n"
  shows "inv_ok env (d\<lparr>iv_assets := as, iv_draws := n\<rparr>)"
proof -
  note ok = inv_okD [OF assms(1)]
  have D: "drawn env (iv_draws d) i \<Longrightarrow> drawn env n i" for i using drawn_mono assms(4) by blast
  have W: "owned (iv_assets d) i u \<Longrightarrow> owned as i u" for i u using owned_mono assms(3) by blast
  have "observations_ok (drawn env n) (iv_observations d)"
    using ok(5) D by (auto simp: observations_ok_def list_all_iff)
  then show ?thesis
    using assms(2) table_ok_mono [OF ok(2) D W] table_ok_mono [OF ok(3) D W] table_ok_mono [OF ok(4) D W]
    by (simp add: inv_ok_def Let_def)
qed

lemma insert_asset_returns:
  assumes "ready env audit job d" "at_id a = fresh_id env d" "at_audit_id a = audit" "meta_ok (at_metadata a)"
    "at_mac a \<noteq> Some []" "\<not> mac_taken (at_id a) audit (at_mac a) (iv_assets d)"
  shows "returns (insert_asset a d) (\<lambda>d'. good env d d' \<and> a \<in> set (iv_assets d'))"
proof -
  have ok: "inv_ok env d" "inj (ie_uuid env)" "audit \<in> set (iv_audits d)" using assms(1) by (simp_all add: ready_def)
  note aok = inv_okD(1) [OF ok(1)]
  have fresh: "at_id a \<notin> at_id ` set (iv_assets d)"
    unfolding assms(2) fresh_id_def by (rule fresh_not_in [OF ok(2)]) (use aok in \<open>simp add: assets_ok_def list_all_iff\<close>)
  have taken: "\<not> mac_taken (at_id b) (at_audit_id b) (at_mac b) (iv_assets d @ [a])" if "b \<in> set (iv_assets d)" for b
  proof -
    have "at_id b \<noteq> at_id a" using that fresh by (metis imageI)
    then show ?thesis using assets_okD(2) [OF aok that] assms(3,6) that by (auto simp: mac_taken_iff)
  qed
  have "\<not> mac_taken (at_id a) (at_audit_id a) (at_mac a) (iv_assets d @ [a])" using assms(3,6) by (auto simp: mac_taken_iff)
  then have "assets_ok (drawn env (Suc (iv_draws d))) (iv_audits d) (iv_assets d @ [a])"
    using aok fresh taken assms(2-5) ok(3) drawn_mono [of env "iv_draws d" _ "Suc (iv_draws d)"]
    by (auto simp: assets_ok_def list_all_iff fresh_id_def)
  from inv_ok_assets [OF ok(1) this ast.grows_append] show ?thesis
    using fresh assms(3,6) ok(3)
    by (simp add: insert_asset_def good_def inv_ext_def grows_refls grows_appends)
qed

lemma put_asset_returns:
  assumes "inv_ok env d" "a0 \<in> set (iv_assets d)" "same_asset a0 a" "meta_ok (at_metadata a)" "at_mac a \<noteq> Some []"
    "\<not> mac_taken (at_id a) (at_audit_id a) (at_mac a) (iv_assets d)"
  shows "returns (put_asset a d) (\<lambda>d'. good env d d' \<and> a \<in> set (iv_assets d'))"
proof -
  let ?as = "tbl_put at_id a (iv_assets d)"
  note aok = inv_okD(1) [OF assms(1)]
  have i: "at_id a0 = at_id a" "at_audit_id a0 = at_audit_id a" using assms(3) by (simp_all add: same_asset_def)
  have sub: "x = a \<or> x \<in> set (iv_assets d) \<and> at_id x \<noteq> at_id a" if "x \<in> set ?as" for x
    using that by (auto simp: tbl_put_def split: if_splits)
  have taken: "\<not> mac_taken (at_id x) (at_audit_id x) (at_mac x) ?as" if "x \<in> set ?as" for x
    using sub [OF that] sub assets_okD(2) [OF aok, of x] assms(6) unfolding mac_taken_iff by metis
  have "drawn env (iv_draws d) (at_id x) \<and> at_audit_id x \<in> set (iv_audits d) \<and> meta_ok (at_metadata x) \<and> at_mac x \<noteq> Some []"
    if "x \<in> set ?as" for x
    using sub [OF that] assets_okD(2) [OF aok, of x] assets_okD(2) [OF aok assms(2)] i assms(4,5) by auto
  with taken have "assets_ok (drawn env (iv_draws d)) (iv_audits d) ?as"
    using assets_okD(1) [OF aok] tbl.keys_put [of at_id a "iv_assets d"] by (simp add: assets_ok_def list_all_iff)
  moreover have g: "grows same_asset (iv_assets d) ?as"
    by (rule ast.grows_put [OF assets_okD(1) [OF aok] assms(2) i(1) assms(3)])
  ultimately have "inv_ok env (d\<lparr>iv_assets := ?as, iv_draws := iv_draws d\<rparr>)"
    by (intro inv_ok_assets [OF assms(1)]) auto
  moreover have "a \<in> set ?as" using assms(2) i(1) by (auto simp: tbl_put_def)
  ultimately show ?thesis
    using assms(6) g by (simp add: put_asset_def good_def inv_ext_def grows_refls)
qed

text \<open>A change that leaves identity and MAC alone.\<close>

lemma put_asset_same_mac:
  assumes "inv_ok env d" "a0 \<in> set (iv_assets d)" "same_asset a0 a" "at_mac a = at_mac a0" "meta_ok (at_metadata a)"
  shows "returns (put_asset a d) (\<lambda>d'. good env d d' \<and> a \<in> set (iv_assets d'))"
  using assets_okD(2) [OF inv_okD(1) [OF assms(1)] assms(2)] assms by (intro put_asset_returns) (auto simp: same_asset_def)

section \<open>Addresses and names\<close>

lemma owned_held: "a \<in> set as \<Longrightarrow> owned as (at_id a) (at_audit_id a)"
  by (auto simp: owned_def)

lemma inv_ok_addresses:
  assumes "inv_ok env d" "addresses_ok (drawn env n) (owned (iv_assets d)) t" "iv_draws d \<le> n" "n \<le> Suc (iv_draws d)"
  shows "inv_ok env (d\<lparr>iv_addresses := t, iv_draws := n\<rparr>)"
proof -
  have "n = iv_draws d \<or> n = Suc (iv_draws d)" using assms(3,4) by auto
  then show ?thesis using inv_okD [OF assms(1)] assms(2) by (auto simp: inv_ok_def Let_def ticks)
qed

lemma put_address:
  assumes "inv_ok env d" "r0 \<in> set (iv_addresses d)" "same_address r0 r"
  shows "kept_assets env d (d\<lparr>iv_addresses := tbl_put address_key r (iv_addresses d)\<rparr>)"
proof -
  note ok = inv_okD(2) [OF assms(1)]
  have s: "ar_id r = ar_id r0" "address_key r = address_key r0" "ar_asset_id r = ar_asset_id r0" "aa_audit_id r = aa_audit_id r0"
    using assms(3) by (simp_all add: same_address_def address_key_def)
  have "grows same_address (iv_addresses d) (tbl_put address_key r (iv_addresses d))"
    using ok assms(2,3) s by (intro adr.grows_put) (auto simp: table_ok_def)
  moreover have "addresses_ok (drawn env (iv_draws d)) (owned (iv_assets d)) (tbl_put address_key r (iv_addresses d))"
    by (rule table_ok_put [OF ok assms(2) s(2,1,3,4)])
  from inv_ok_addresses [OF assms(1) this] have "inv_ok env (d\<lparr>iv_addresses := tbl_put address_key r (iv_addresses d)\<rparr>)" by simp
  ultimately show ?thesis by (simp add: kept_assets_def good_def inv_ext_def grows_refls)
qed

lemma upsert_address_returns:
  assumes "ready env audit job d" "a \<in> set (iv_assets d)" "at_audit_id a = audit"
  shows "returns (upsert_address env audit (at_id a) address family source now primary d)
    (\<lambda>d'. kept_assets env d d' \<and> (audit, address) \<in> address_key ` set (iv_addresses d'))"
proof (cases "tbl_get address_key (iv_addresses d) (audit, address)")
  case None
  have ok: "inv_ok env d" "inj (ie_uuid env)" "audit \<in> set (iv_audits d)" using assms(1) by (simp_all add: ready_def)
  note rok = inv_okD(2) [OF ok(1)]
  have new: "(audit, address) \<notin> address_key ` set (iv_addresses d)" using None tbl.get_None [of address_key "iv_addresses d" "(audit, address)"] by simp
  have fresh: "fresh_id env d \<notin> ar_id ` set (iv_addresses d)"
    unfolding fresh_id_def by (rule table_ok_fresh [OF rok ok(2)])
  have "addresses_ok (drawn env (Suc (iv_draws d))) (owned (iv_assets d)) (iv_addresses d @ [r])"
    if "ar_id r = fresh_id env d" "address_key r = (audit, address)" "ar_asset_id r = at_id a" "aa_audit_id r = audit" for r
    using that new fresh owned_held [OF assms(2)] assms(3)
    by (intro table_ok_append table_ok_tick [OF rok]) (simp_all add: fresh_id_def)
  note ins = inv_ok_addresses [OF ok(1) this]
  show ?thesis
    using None new fresh ok(3) assms(2) ins
    by (simp add: upsert_address_def insert_address_def address_key_def kept_assets_def good_def inv_ext_def grows_refls
        grows_appends)
next
  case (Some r)
  have ok: "inv_ok env d" using assms(1) by (simp add: ready_def)
  have r: "r \<in> set (iv_addresses d)" "address_key r = (audit, address)" using tbl.get_Some [OF Some] by simp_all
  have mem: "(audit, address) \<in> address_key ` set (tbl_put address_key s (iv_addresses d))" if "address_key s = (audit, address)" for s
    unfolding tbl.key_set_put using r by force
  show ?thesis
  proof (cases "ar_asset_id r = at_id a")
    case True
    have "same_address r (r\<lparr>ar_last_seen := now, ar_is_primary := primary \<or> ar_is_primary r\<rparr>)"
      by (simp add: same_address_def address_key_def)
    from put_address [OF ok r(1) this] show ?thesis
      using Some True mem r(2) by (simp add: upsert_address_def address_key_def)
  next
    case False
    let ?obs = "observe env audit (at_id a) None ''address_owned_by_other_asset'' source None
        [(''address'', JStr address), (''owner_asset_id'', JStr (ar_asset_id r))] d"
    have "returns (rbind ?obs (\<lambda>d'. Inr (d'\<lparr>iv_addresses := tbl_put address_key (r\<lparr>ar_last_seen := now\<rparr>) (iv_addresses d')\<rparr>)))
        (\<lambda>d'. kept_assets env d d' \<and> (audit, address) \<in> address_key ` set (iv_addresses d'))"
    proof (rule returns_rbind)
      show "returns ?obs (\<lambda>d'. kept_assets env d d' \<and> iv_addresses d' = iv_addresses d)"
        using ready_observe [OF ready_no_job [OF assms(1)] assms(2)] observe_only unfolding returns_def by blast
      fix d' assume d': "kept_assets env d d' \<and> iv_addresses d' = iv_addresses d"
      have "same_address r (r\<lparr>ar_last_seen := now\<rparr>)" by (simp add: same_address_def address_key_def)
      then have "kept_assets env d' (d'\<lparr>iv_addresses := tbl_put address_key (r\<lparr>ar_last_seen := now\<rparr>) (iv_addresses d')\<rparr>)"
        using d' r(1) by (intro put_address) (auto simp: kept_assets_def good_def)
      then show "returns (Inr (d'\<lparr>iv_addresses := tbl_put address_key (r\<lparr>ar_last_seen := now\<rparr>) (iv_addresses d')\<rparr>))
          (\<lambda>d'. kept_assets env d d' \<and> (audit, address) \<in> address_key ` set (iv_addresses d'))"
        using d' mem r(2) kept_assets_trans by (simp add: address_key_def) blast
    qed
    then show ?thesis using Some False by (simp add: upsert_address_def)
  qed
qed

lemma upsert_addresses_returns:
  assumes "ready env audit job d" "a \<in> set (iv_assets d)" "at_audit_id a = audit"
  shows "returns (upsert_addresses env audit (at_id a) blocked source now primary xs d)
    (\<lambda>d'. kept_assets env d d' \<and> (\<forall>x \<in> set xs. fst x \<in> set blocked \<or> (audit, fst x) \<in> address_key ` set (iv_addresses d')))"
  using assms
proof (induction xs arbitrary: d primary)
  case Nil
  then show ?case by (simp add: kept_assets_def good_def ready_def)
next
  case (Cons x xs)
  obtain address family where x: "x = (address, family)" by (cases x)
  show ?case
  proof (cases "address \<in> set blocked")
    case True
    then show ?thesis using Cons x by (simp add: returns_def)
  next
    case False
    have "returns (rbind (upsert_address env audit (at_id a) address family source now (\<not> primary) d)
        (upsert_addresses env audit (at_id a) blocked source now True xs))
      (\<lambda>d'. kept_assets env d d' \<and> (\<forall>x \<in> set ((address, family) # xs). fst x \<in> set blocked
         \<or> (audit, fst x) \<in> address_key ` set (iv_addresses d')))"
    proof (rule returns_rbind)
      show "returns (upsert_address env audit (at_id a) address family source now (\<not> primary) d)
          (\<lambda>d'. kept_assets env d d' \<and> (audit, address) \<in> address_key ` set (iv_addresses d'))"
        by (rule upsert_address_returns [OF Cons.prems])
      fix e assume e: "kept_assets env d e \<and> (audit, address) \<in> address_key ` set (iv_addresses e)"
      then have "ready env audit job e" "a \<in> set (iv_assets e)"
        using ready_good [OF Cons.prems(1)] Cons.prems(2) by (auto simp: kept_assets_def)
      note ih = Cons.IH [OF this Cons.prems(3), of True]
      have stays: "k \<in> address_key ` set (iv_addresses d')" if k: "k \<in> address_key ` set (iv_addresses e)" "kept_assets env e d'" for k d'
      proof -
        obtain r where r: "r \<in> set (iv_addresses e)" "k = address_key r" using k(1) by auto
        have "grows same_address (iv_addresses e) (iv_addresses d')"
          using k(2) by (simp add: kept_assets_def good_def inv_ext_def)
        from grows_mem [OF this r(1)] r(2) show ?thesis by (auto simp: same_address_def)
      qed
      from ih show "returns (upsert_addresses env audit (at_id a) blocked source now True xs e)
          (\<lambda>d'. kept_assets env d d' \<and> (\<forall>x \<in> set ((address, family) # xs). fst x \<in> set blocked
             \<or> (audit, fst x) \<in> address_key ` set (iv_addresses d')))"
        by (rule returns_mono) (use e kept_assets_trans stays in auto)
    qed
    then show ?thesis using x False by simp
  qed
qed

lemma inv_ok_names:
  assumes "inv_ok env d" "names_ok (drawn env n) (owned (iv_assets d)) t" "iv_draws d \<le> n" "n \<le> Suc (iv_draws d)"
  shows "inv_ok env (d\<lparr>iv_names := t, iv_draws := n\<rparr>)"
proof -
  have "n = iv_draws d \<or> n = Suc (iv_draws d)" using assms(3,4) by auto
  then show ?thesis using inv_okD [OF assms(1)] assms(2) by (auto simp: inv_ok_def Let_def ticks)
qed

lemma upsert_name_returns:
  assumes "ready env audit job d" "a \<in> set (iv_assets d)" "at_audit_id a = audit"
  shows "returns (upsert_name env audit (at_id a) now item d) (kept_assets env d)"
proof -
  obtain name name_type source where item: "item = (name, name_type, source)" by (cases item)
  let ?n = "rstrip_dots (strip name)"
  let ?k = "(at_id a, ?n, name_type, source)"
  have ok: "inv_ok env d" "inj (ie_uuid env)" "audit \<in> set (iv_audits d)" using assms(1) by (simp_all add: ready_def)
  note rok = inv_okD(3) [OF ok(1)]
  consider "?n = []" | "?n \<noteq> []" "tbl_get name_key (iv_names d) ?k = None"
    | r where "?n \<noteq> []" "tbl_get name_key (iv_names d) ?k = Some r" by fastforce
  then show ?thesis
  proof cases
    case 1
    then show ?thesis using ok(1) item by (simp add: upsert_name_def kept_assets_def good_def)
  next
    case 2
    have new: "?k \<notin> name_key ` set (iv_names d)" using 2(2) tbl.get_None [of name_key "iv_names d" ?k] by simp
    have fresh: "fresh_id env d \<notin> nr_id ` set (iv_names d)"
      unfolding fresh_id_def by (rule table_ok_fresh [OF rok ok(2)])
    have "names_ok (drawn env (Suc (iv_draws d))) (owned (iv_assets d)) (iv_names d @ [r])"
      if "nr_id r = fresh_id env d" "name_key r = ?k" "nr_asset_id r = at_id a" "an_audit_id r = audit" for r
      using that new fresh owned_held [OF assms(2)] assms(3)
      by (intro table_ok_append table_ok_tick [OF rok]) (simp_all add: fresh_id_def)
    note ins = inv_ok_names [OF ok(1) this]
    show ?thesis
      using 2 new fresh ok(3) assms(2) ins item
      by (simp add: upsert_name_def Let_def insert_name_def name_key_def kept_assets_def good_def inv_ext_def grows_refls
          grows_appends)
  next
    case (3 r)
    have r: "r \<in> set (iv_names d)" using tbl.get_Some [OF 3(2)] by simp
    let ?t = "tbl_put name_key (r\<lparr>nr_last_seen := now\<rparr>) (iv_names d)"
    have "names_ok (drawn env (iv_draws d)) (owned (iv_assets d)) ?t"
      by (rule table_ok_put [OF rok r]) (simp_all add: name_key_def)
    from inv_ok_names [OF ok(1) this] have "inv_ok env (d\<lparr>iv_names := ?t\<rparr>)" by simp
    moreover have "grows same_name (iv_names d) ?t"
      using rok r by (intro nam.grows_put) (auto simp: table_ok_def same_name_def name_key_def)
    ultimately show ?thesis
      using 3 item by (simp add: upsert_name_def Let_def kept_assets_def good_def inv_ext_def grows_refls)
  qed
qed

end
