(* ===== verification/Inventory_Steps.thy ===== *)
theory Inventory_Steps
  imports Inventory_Facts
begin

text \<open>
  The larger steps of the inventory service: services with their conflicts, operating system hints, device classes,
  the asset a host or an observation belongs to, and the two ingestions. Each returns and keeps the invariant.
\<close>

section \<open>Services\<close>

lemma meta_ok_other [simp]: "k \<noteq> ''service_conflicts'' \<Longrightarrow> meta_ok (dict_set k v m) \<longleftrightarrow> meta_ok m"
  by (simp add: meta_ok_def jget_def)

lemma meta_ok_items: "meta_ok m \<Longrightarrow> \<exists>xs. json_items (jget m ''service_conflicts'') = Inr xs"
  by (auto simp: meta_ok_def json_items_def split: json.splits)

lemma add_conflict_returns: "meta_ok m \<Longrightarrow> returns (add_conflict protocol port item m) meta_ok"
  using meta_ok_items [of m] by (auto simp: add_conflict_def meta_ok_def jget_def split: prod.splits)

interpretation metas: state_relation meta_ok "\<lambda>m m'. True"
  by unfold_locales simp_all

lemma conflicts_return: "meta_ok m \<Longrightarrow> returns (fold_res (add_conflict protocol port) xs m) meta_ok"
  using metas.returns_fold [where f = "add_conflict protocol port" and xs = xs and s = m] add_conflict_returns by simp

lemma inv_ok_services:
  assumes "inv_ok env d" "services_ok (drawn env n) (owned (iv_assets d)) t" "iv_draws d \<le> n" "n \<le> Suc (iv_draws d)"
  shows "inv_ok env (d\<lparr>iv_services := t, iv_draws := n\<rparr>)"
proof -
  have "n = iv_draws d \<or> n = Suc (iv_draws d)" using assms(3,4) by auto
  then show ?thesis using inv_okD [OF assms(1)] assms(2) by (auto simp: inv_ok_def Let_def ticks)
qed

lemma new_service_key [simp]:
  "service_key (new_service env audit i source now p d) = (i, np_protocol p, np_port p)"
  "sr_asset_id (new_service env audit i source now p d) = i" "sr_audit_id (new_service env audit i source now p d) = audit"
  "sr_id (new_service env audit i source now p d) = fresh_id env d"
  by (simp_all add: service_key_def new_service_def Let_def)

lemma merged_service_same:
  assumes "service_key old = service_key new"
  shows "same_service old (merged_service old new)" "sr_asset_id (merged_service old new) = sr_asset_id old"
  using assms by (simp_all add: same_service_def merged_service_def Let_def service_key_def)

text \<open>The result of a step that holds the asset object \<open>a\<close>: the object keeps its identity and MAC and is the stored row.\<close>

definition holds :: "inv_env \<Rightarrow> asset_row \<Rightarrow> inv_db \<Rightarrow> asset_row \<Rightarrow> inv_db \<Rightarrow> bool" where
  "holds env a d b e \<longleftrightarrow> good env d e \<and> b \<in> set (iv_assets e) \<and> same_asset a b \<and> at_mac b = at_mac a"

lemma holds_trans: "holds env a d b e \<Longrightarrow> holds env b e c f \<Longrightarrow> holds env a d c f"
  using good_trans ast.origin_trans unfolding holds_def by (metis (no_types))

lemma ready_holds:
  "ready env audit job d \<Longrightarrow> at_audit_id a = audit \<Longrightarrow> holds env a d b e \<Longrightarrow>
     ready env audit job e \<and> b \<in> set (iv_assets e) \<and> at_audit_id b = audit"
  using ready_good by (auto simp: holds_def same_asset_def)

lemma upsert_service_returns:
  assumes "ready env audit job d" "a \<in> set (iv_assets d)" "at_audit_id a = audit"
  shows "returns (upsert_service env audit source now p (a, d)) (\<lambda>(b, e). holds env a d b e)"
proof (cases "tbl_get service_key (iv_services d) (at_id a, np_protocol p, np_port p)")
  case None
  let ?new = "new_service env audit (at_id a) source now p d"
  have ok: "inv_ok env d" "inj (ie_uuid env)" "audit \<in> set (iv_audits d)" using assms(1) by (simp_all add: ready_def)
  note rok = inv_okD(4) [OF ok(1)]
  have new: "service_key ?new \<notin> service_key ` set (iv_services d)"
    using None tbl.get_None [of service_key "iv_services d" "(at_id a, np_protocol p, np_port p)"] by simp
  have fresh: "fresh_id env d \<notin> sr_id ` set (iv_services d)"
    unfolding fresh_id_def by (rule table_ok_fresh [OF rok ok(2)])
  have "services_ok (drawn env (Suc (iv_draws d))) (owned (iv_assets d)) (iv_services d @ [?new])"
    using new fresh owned_held [OF assms(2)] assms(3)
    by (intro table_ok_append table_ok_tick [OF rok]) (simp_all add: fresh_id_def)
  from inv_ok_services [OF ok(1) this] show ?thesis
    using None new fresh ok(3) assms(2)
    by (simp add: upsert_service_def Let_def insert_service_def holds_def good_def inv_ext_def grows_refls grows_appends
        ast.origin_refl)
next
  case (Some old)
  let ?new = "new_service env audit (at_id a) source now p d"
  let ?put = "\<lambda>e. e\<lparr>iv_services := tbl_put service_key (merged_service old ?new) (iv_services e)\<rparr>"
  have ok: "inv_ok env d" using assms(1) by (simp add: ready_def)
  have old: "old \<in> set (iv_services d)" "service_key old = service_key ?new" using tbl.get_Some [OF Some] by simp_all
  have meta: "meta_ok (at_metadata a)" using assets_okD(2) [OF inv_okD(1) [OF ok] assms(2)] by simp
  have put: "good env e (?put e)" if "inv_ok env e" "iv_services e = iv_services d" for e
  proof -
    note rok = inv_okD(4) [OF that(1)]
    have m: "old \<in> set (iv_services e)" using old(1) that(2) by simp
    note same = merged_service_same [OF old(2)]
    have "services_ok (drawn env (iv_draws e)) (owned (iv_assets e)) (tbl_put service_key (merged_service old ?new) (iv_services e))"
      by (rule table_ok_put [OF rok m]) (use same in \<open>simp_all add: same_service_def\<close>)
    from inv_ok_services [OF that(1) this] have "inv_ok env (?put e)" by simp
    moreover have "grows same_service (iv_services e) (tbl_put service_key (merged_service old ?new) (iv_services e))"
      using rok m same(1) by (intro svc.grows_put) (auto simp: table_ok_def same_service_def)
    ultimately show ?thesis by (simp add: good_def inv_ext_def grows_refls)
  qed
  have "returns (rbind (fold_res (add_conflict (np_protocol p) (np_port p)) (compared_fields old ?new) (at_metadata a)) (\<lambda>m.
      rbind (put_asset (a\<lparr>at_metadata := m\<rparr>) d) (\<lambda>e. Inr (a\<lparr>at_metadata := m\<rparr>, ?put e)))) (\<lambda>(b, e). holds env a d b e)"
  proof (intro returns_rbind)
    show "returns (fold_res (add_conflict (np_protocol p) (np_port p)) (compared_fields old ?new) (at_metadata a)) meta_ok"
      by (rule conflicts_return [OF meta])
    fix m assume m: "meta_ok m"
    have same: "same_asset a (a\<lparr>at_metadata := m\<rparr>)" by (simp add: same_asset_def)
    show "returns (put_asset (a\<lparr>at_metadata := m\<rparr>) d)
        (\<lambda>e. good env d e \<and> a\<lparr>at_metadata := m\<rparr> \<in> set (iv_assets e) \<and> iv_services e = iv_services d)"
      using put_asset_same_mac [OF ok assms(2) same] m
      by (auto simp: returns_def put_asset_def split: if_splits)
    fix e assume e: "good env d e \<and> a\<lparr>at_metadata := m\<rparr> \<in> set (iv_assets e) \<and> iv_services e = iv_services d"
    then have "good env e (?put e)" using put by (simp add: good_def)
    with e show "returns (Inr (a\<lparr>at_metadata := m\<rparr>, ?put e)) (\<lambda>(b, e). holds env a d b e)"
      using good_trans same by (auto simp: holds_def)
  qed
  then show ?thesis using Some by (simp add: upsert_service_def Let_def)
qed

section \<open>Hints and classes\<close>

lemma meta_ok_set_opt [simp]: "k \<noteq> ''service_conflicts'' \<Longrightarrow> meta_ok (set_opt_int k v m) \<longleftrightarrow> meta_ok m"
  by (simp add: set_opt_int_def split: option.splits)

lemma held_meta: "ready env audit job d \<Longrightarrow> a \<in> set (iv_assets d) \<Longrightarrow> meta_ok (at_metadata a)"
  using assets_okD(2) [OF inv_okD(1)] by (auto simp: ready_def)

lemma put_held:
  assumes "ready env audit job d" "a \<in> set (iv_assets d)" "same_asset a b" "at_mac b = at_mac a" "meta_ok (at_metadata b)"
  shows "returns (put_asset b d) (\<lambda>e. holds env a d b e)"
  using put_asset_same_mac [OF _ assms(2-5)] assms by (auto simp: ready_def returns_def holds_def)

lemma kept_holds: "kept_assets env d e \<Longrightarrow> a \<in> set (iv_assets d) \<Longrightarrow> holds env a d a e"
  by (simp add: kept_assets_def holds_def ast.origin_refl)

lemma with_os_hint_same: "same_asset a (with_os_hint h best a)" "at_mac (with_os_hint h best a) = at_mac a"
  "meta_ok (at_metadata (with_os_hint h best a)) \<longleftrightarrow> meta_ok (at_metadata a)"
  by (simp_all add: with_os_hint_def same_asset_def)

lemma apply_os_hint_returns:
  assumes "ready env audit job d" "a \<in> set (iv_assets d)" "at_audit_id a = audit"
  shows "returns (apply_os_hint env h job evidence (a, d)) (\<lambda>(b, e). holds env a d b e)"
proof (cases "nh_os_matches h")
  case Nil
  then show ?thesis
    using assms by (simp add: apply_os_hint_def holds_def good_def ready_def ast.origin_refl)
next
  case (Cons m ms)
  define best where "best = best_match m ms"
  define differs where "differs \<longleftrightarrow> truthy (at_os_name a) \<and> at_os_name a \<noteq> Some (om_name best)"
  define data where "data = [(''existing'', JObj [(''name'', opt_json (at_os_name a)), (''family'', opt_json (at_os_family a)),
        (''accuracy'', opt_int_json (at_os_accuracy a))]),
      (''observed'', JObj [(''name'', JStr (om_name best)), (''family'', opt_json (om_family best)),
        (''accuracy'', JInt (om_accuracy best))])]"
  let ?obs = "if differs then observe env (at_audit_id a) (at_id a) job ''os_hint_conflict'' ''nmap'' evidence data d else Inr d"
  have "returns (rbind ?obs (\<lambda>d'.
      if differs \<and> om_accuracy best \<le> (case at_os_accuracy a of None \<Rightarrow> 0 | Some n \<Rightarrow> n) then Inr (a, d')
      else rbind (put_asset (with_os_hint h best a) d') (\<lambda>d''. Inr (with_os_hint h best a, d'')))) (\<lambda>(b, e). holds env a d b e)"
  proof (rule returns_rbind)
    show "returns ?obs (\<lambda>e. holds env a d a e)"
    proof (cases differs)
      case True
      from ready_observe [OF assms(1,2), of "''os_hint_conflict''" "''nmap''" evidence data]
      have "returns (observe env audit (at_id a) job ''os_hint_conflict'' ''nmap'' evidence data d) (\<lambda>e. holds env a d a e)"
        by (rule returns_mono) (rule kept_holds [OF _ assms(2)])
      then show ?thesis using True assms(3) by simp
    next
      case False
      then show ?thesis using assms by (simp add: holds_def good_def ready_def ast.origin_refl)
    qed
    fix e assume e: "holds env a d a e"
    note re = ready_holds [OF assms(1,3) e]
    have "returns (put_asset (with_os_hint h best a) e) (\<lambda>f. holds env a e (with_os_hint h best a) f)"
      using re with_os_hint_same held_meta [of env audit job e a] by (intro put_held) auto
    then show "returns (if differs \<and> om_accuracy best \<le> (case at_os_accuracy a of None \<Rightarrow> 0 | Some n \<Rightarrow> n) then Inr (a, e)
        else rbind (put_asset (with_os_hint h best a) e) (\<lambda>d''. Inr (with_os_hint h best a, d''))) (\<lambda>(b, e). holds env a d b e)"
      using e holds_trans [OF e] by (auto simp: returns_def)
  qed
  then show ?thesis
    unfolding apply_os_hint_def Cons Let_def prod.case list.case best_def differs_def data_def .
qed

lemma classified_same: "same_asset a (classified d a)" "at_mac (classified d a) = at_mac a"
  "meta_ok (at_metadata (classified d a)) \<longleftrightarrow> meta_ok (at_metadata a)" "at_id (classified d a) = at_id a"
  by (simp_all add: classified_def same_asset_def split: prod.splits)

lemma classify_asset_returns:
  assumes "ready env audit job d" "a \<in> set (iv_assets d)"
  shows "returns (classify_asset a d) (\<lambda>e. holds env a d (classified d a) e)"
  unfolding classify_asset_def
  by (rule put_held [OF assms]) (use classified_same held_meta [OF assms] in auto)

section \<open>The asset of an identity\<close>

lemma asset_by_mac_Some:
  "asset_by_mac d audit mac = Some a \<Longrightarrow> a \<in> set (iv_assets d) \<and> at_audit_id a = audit \<and> at_mac a = mac \<and> truthy mac"
  by (auto simp: asset_by_mac_def find_Some_iff split: if_splits)

lemma asset_by_mac_None: "asset_by_mac d audit mac = None \<Longrightarrow> mac \<noteq> Some [] \<Longrightarrow> \<not> mac_taken i audit mac (iv_assets d)"
  by (auto simp: asset_by_mac_def mac_taken_iff find_None_iff truthy_iff split: if_splits)

lemma asset_by_address_Some:
  assumes "inv_ok env d" "asset_by_address d audit address = Some a"
  shows "a \<in> set (iv_assets d)" "at_audit_id a = audit" "(audit, address) \<in> address_key ` set (iv_addresses d)"
proof -
  obtain r where r: "tbl_get address_key (iv_addresses d) (audit, address) = Some r"
    and a: "tbl_get at_id (iv_assets d) (ar_asset_id r) = Some a"
    using assms(2) by (auto simp: asset_by_address_def split: option.splits)
  have rm: "r \<in> set (iv_addresses d)" "address_key r = (audit, address)" using tbl.get_Some [OF r] by simp_all
  have am: "a \<in> set (iv_assets d)" "at_id a = ar_asset_id r" using tbl.get_Some [OF a] by simp_all
  show "a \<in> set (iv_assets d)" by (rule am(1))
  show "(audit, address) \<in> address_key ` set (iv_addresses d)" using rm by force
  obtain b where b: "b \<in> set (iv_assets d)" "at_id b = ar_asset_id r" "at_audit_id b = aa_audit_id r"
    using inv_okD(2) [OF assms(1)] rm(1) by (auto simp: table_ok_def list_all_iff owned_def)
  have "b = a" using tbl.get_unique [OF assets_okD(1) [OF inv_okD(1) [OF assms(1)]] b(1)] b(2) a by simp
  then show "at_audit_id a = audit" using b(3) rm(2) by (simp add: address_key_def)
qed

lemma address_assets_mem:
  "p \<in> set (address_assets d audit xs acc) \<Longrightarrow> p \<in> set acc \<or> asset_by_address d audit (fst p) = Some (snd p)"
proof (induction d audit xs acc rule: address_assets.induct)
  case (2 d audit address family rest acc)
  have dict: "q \<in> set (dict_set address a acc) \<Longrightarrow> q \<in> set acc \<or> q = (address, a)" for q a
    by (induction acc) (auto split: if_splits)
  show ?case
  proof (cases "asset_by_address d audit address")
    case None
    then show ?thesis using "2.IH" "2.prems" by simp
  next
    case (Some a)
    then show ?thesis using "2.IH" "2.prems" dict [of p a] by auto
  qed
qed simp

lemma assets_by_id_mem: "q \<in> set (assets_by_id found) \<Longrightarrow> \<exists>p \<in> set found. snd p = snd q"
proof -
  have dict: "q \<in> set (dict_set k v e) \<Longrightarrow> q \<in> set e \<or> q = (k, v)" for q k v and e :: "(string \<times> asset_row) list"
    by (induction e) (auto split: if_splits)
  have upd: "q \<in> set (dict_update acc xs) \<Longrightarrow> q \<in> set acc \<or> q \<in> set xs" for acc xs
    by (induction acc xs rule: dict_update.induct) (auto dest: dict)
  assume "q \<in> set (assets_by_id found)"
  then have "q \<in> set (map (\<lambda>p. (at_id (snd p), snd p)) found)" using upd [of "[]" "map (\<lambda>p. (at_id (snd p), snd p)) found"] by (simp add: assets_by_id_def)
  then obtain p where "p \<in> set found" "q = (at_id (snd p), snd p)" unfolding set_map image_iff by blast
  then show "\<exists>p \<in> set found. snd p = snd q" by (intro bexI [of _ p]) simp_all
qed

lemma correlate_found:
  assumes "inv_ok env d" "correlate d audit mac addresses = (found, c)"
  shows "found = Some a \<Longrightarrow> a \<in> set (iv_assets d) \<and> at_audit_id a = audit"
    "found = None \<Longrightarrow> asset_by_mac d audit mac = None"
    "b \<in> set (blocked_addresses c) \<Longrightarrow> (audit, b) \<in> address_key ` set (iv_addresses d)"
proof -
  define fs where "fs = address_assets d audit addresses []"
  have fs: "snd p \<in> set (iv_assets d) \<and> at_audit_id (snd p) = audit \<and> (audit, fst p) \<in> address_key ` set (iv_addresses d)"
    if "p \<in> set fs" for p
  proof -
    have "asset_by_address d audit (fst p) = Some (snd p)"
      using address_assets_mem [of p d audit addresses "[]"] that by (simp add: fs_def)
    from asset_by_address_Some [OF assms(1) this] show ?thesis by simp
  qed
  have by_id: "snd q \<in> set (iv_assets d) \<and> at_audit_id (snd q) = audit" if "q \<in> set (assets_by_id fs)" for q
    using assets_by_id_mem [OF that] fs by metis
  have eq: "correlate d audit mac addresses = (case asset_by_mac d audit mac of
      Some m \<Rightarrow> (Some m, if others (at_id m) fs = [] then No_conflict
         else Mac_and_ip_disagree (at_id m) (others (at_id m) fs) (map (\<lambda>p. at_id (snd p)) (assets_by_id fs)))
    | None \<Rightarrow> (case assets_by_id fs of [] \<Rightarrow> (None, No_conflict) | [p] \<Rightarrow> (Some (snd p), No_conflict)
      | p # q # ps \<Rightarrow> (Some (snd p), Addresses_map_to_multiple_assets (map fst (assets_by_id fs)) (others (at_id (snd p)) fs))))"
    unfolding correlate_def Let_def fs_def ..
  show "a \<in> set (iv_assets d) \<and> at_audit_id a = audit" if "found = Some a"
  proof (cases "asset_by_mac d audit mac")
    case None
    then obtain q where "q \<in> set (assets_by_id fs)" "a = snd q"
      using assms(2) \<open>found = Some a\<close> unfolding eq by (auto split: list.splits)
    then show ?thesis using by_id by simp
  next
    case (Some m)
    then show ?thesis using assms(2) that asset_by_mac_Some [OF Some] unfolding eq by auto
  qed
  show "found = None \<Longrightarrow> asset_by_mac d audit mac = None"
    using assms(2) unfolding eq by (auto split: option.splits list.splits)
  have "set (blocked_addresses c) \<subseteq> fst ` set fs"
    using assms(2) unfolding eq others_def by (auto split: option.splits list.splits if_splits)
  then show "b \<in> set (blocked_addresses c) \<Longrightarrow> (audit, b) \<in> address_key ` set (iv_addresses d)" using fs by fastforce
qed

lemma touched_same:
  "same_asset a (touched env audit state mac now a d)" "at_metadata (touched env audit state mac now a d) = at_metadata a"
  by (auto simp: touched_def adopt_mac_def same_asset_def Let_def)

lemma touched_mac:
  "at_mac (touched env audit state mac now a d) = at_mac a \<or>
   at_mac a = None \<and> truthy mac \<and> at_mac (touched env audit state mac now a d) = mac
     \<and> (case asset_by_mac d audit mac of None \<Rightarrow> True | Some x \<Rightarrow> at_id x = at_id a)"
  by (simp add: touched_def adopt_mac_def Let_def split: option.splits)

lemma touched_not_taken:
  assumes "inv_ok env d" "a \<in> set (iv_assets d)" "at_audit_id a = audit"
  shows "\<not> mac_taken (at_id a) audit (at_mac (touched env audit state mac now a d)) (iv_assets d)"
proof -
  note aok = assets_okD(2) [OF inv_okD(1) [OF assms(1)]]
  consider "at_mac (touched env audit state mac now a d) = at_mac a"
    | "at_mac (touched env audit state mac now a d) = mac" "asset_by_mac d audit mac = None" "truthy mac"
    | x where "at_mac (touched env audit state mac now a d) = mac" "asset_by_mac d audit mac = Some x" "at_id x = at_id a"
    using touched_mac [of env audit state mac now a d] by (auto split: option.splits)
  then show ?thesis
  proof cases
    case 1
    then show ?thesis using aok [OF assms(2)] assms(3) by simp
  next
    case 2
    then show ?thesis using asset_by_mac_None [OF 2(2)] by (auto simp: truthy_iff)
  next
    case (3 x)
    then show ?thesis using asset_by_mac_Some [OF 3(2)] aok [of x] by simp
  qed
qed

lemma find_or_create_returns:
  assumes "ready env audit job d" "mac \<noteq> Some []"
    "\<And>a. found = Some a \<Longrightarrow> a \<in> set (iv_assets d) \<and> at_audit_id a = audit" "found = None \<Longrightarrow> asset_by_mac d audit mac = None"
  shows "returns (find_or_create env audit state mac vendor now found d)
    (\<lambda>(a, e). good env d e \<and> a \<in> set (iv_assets e) \<and> at_audit_id a = audit \<and> (\<forall>a0. found = Some a0 \<longrightarrow> same_asset a0 a))"
proof (cases found)
  case None
  let ?a = "new_asset env audit state mac vendor now d"
  have "at_id ?a = fresh_id env d" "at_audit_id ?a = audit" "meta_ok (at_metadata ?a)" "at_mac ?a = mac"
    by (simp_all add: new_asset_def Let_def meta_ok_def jget_def)
  with insert_asset_returns [OF assms(1), of ?a] asset_by_mac_None assms(2,4) None show ?thesis
    by (auto simp: find_or_create_def Let_def returns_def)
next
  case (Some a)
  let ?b = "touched env audit state mac now a d"
  have a: "a \<in> set (iv_assets d)" "at_audit_id a = audit" using assms(3) Some by simp_all
  have ok: "inv_ok env d" using assms(1) by (simp add: ready_def)
  have same: "at_id ?b = at_id a" "at_audit_id ?b = audit" using touched_same(1) [of a] a(2) by (simp_all add: same_asset_def)
  have "at_mac ?b \<noteq> Some []"
    using touched_mac [of env audit state mac now a d] assets_okD(2) [OF inv_okD(1) [OF ok] a(1)] assms(2) by auto
  then have "returns (put_asset ?b d) (\<lambda>e. good env d e \<and> ?b \<in> set (iv_assets e))"
    using touched_not_taken [OF ok a] same held_meta [OF assms(1) a(1)] touched_same
    by (intro put_asset_returns [OF ok a(1)]) auto
  then show ?thesis
    using Some same(2) touched_same(1) by (auto simp: find_or_create_def Let_def returns_def)
qed

section \<open>Scan hosts\<close>

definition kept :: "inv_db \<Rightarrow> inv_db \<Rightarrow> bool" where
  "kept d e \<longleftrightarrow> inv_ext d e \<and> iv_assets e = iv_assets d"

lemma kept_assets_iff: "kept_assets env d e \<longleftrightarrow> inv_ok env e \<and> kept d e"
  by (auto simp: kept_assets_def good_def kept_def)

interpretation name_steps: state_relation "\<lambda>d. ready env audit job d \<and> a \<in> set (iv_assets d)" kept
  for env audit job a
  by unfold_locales (auto simp: kept_def intro: inv_ext_trans)

definition held_rel :: "asset_row \<times> inv_db \<Rightarrow> asset_row \<times> inv_db \<Rightarrow> bool" where
  "held_rel st st' \<longleftrightarrow> inv_ext (snd st) (snd st') \<and> same_asset (fst st) (fst st') \<and> at_mac (fst st') = at_mac (fst st)"

interpretation service_steps: state_relation
  "\<lambda>st. ready env audit job (snd st) \<and> fst st \<in> set (iv_assets (snd st)) \<and> at_audit_id (fst st) = audit" held_rel
  for env audit job
  by unfold_locales (auto simp: held_rel_def ast.origin_refl intro: inv_ext_trans ast.origin_trans)

lemma holds_iff: "holds env a d b e \<longleftrightarrow> inv_ok env e \<and> b \<in> set (iv_assets e) \<and> held_rel (a, d) (b, e)"
  by (auto simp: holds_def good_def held_rel_def)

lemma upsert_names_return:
  assumes "ready env audit job d" "a \<in> set (iv_assets d)" "at_audit_id a = audit"
  shows "returns (fold_res (upsert_name env audit (at_id a) now) xs d) (kept_assets env d)"
proof -
  have step: "returns (upsert_name env audit (at_id a) now x s) (\<lambda>t. (ready env audit job t \<and> a \<in> set (iv_assets t)) \<and> kept s t)"
    if "ready env audit job s \<and> a \<in> set (iv_assets s)" for x s
    using upsert_name_returns [of env audit job s a now x] that assms(3) ready_good [of env audit job s]
    by (auto simp: returns_def kept_assets_def kept_def good_def)
  have "returns (fold_res (upsert_name env audit (at_id a) now) xs d)
      (\<lambda>t. (ready env audit job t \<and> a \<in> set (iv_assets t)) \<and> kept d t)"
    by (rule name_steps.returns_fold) (use step assms in auto)
  then show ?thesis by (rule returns_mono) (auto simp: kept_assets_iff ready_def)
qed

lemma upsert_services_return:
  assumes "ready env audit job d" "a \<in> set (iv_assets d)" "at_audit_id a = audit"
  shows "returns (fold_res (upsert_service env audit source now) ps (a, d)) (\<lambda>(b, e). holds env a d b e)"
proof -
  have step: "returns (upsert_service env audit source now p st) (\<lambda>st'. (ready env audit job (snd st') \<and> fst st' \<in> set (iv_assets (snd st'))
      \<and> at_audit_id (fst st') = audit) \<and> held_rel st st')"
    if "ready env audit job (snd st) \<and> fst st \<in> set (iv_assets (snd st)) \<and> at_audit_id (fst st) = audit" for p st
  proof -
    obtain b e where st: "st = (b, e)" by (cases st)
    from upsert_service_returns [of env audit job e b source now p] that st
    have "returns (upsert_service env audit source now p (b, e)) (\<lambda>(b', e'). holds env b e b' e')" by simp
    then show ?thesis unfolding st
      by (rule returns_mono) (use ready_holds [of env audit job e b] that st in \<open>auto simp: holds_iff\<close>)
  qed
  have "returns (fold_res (upsert_service env audit source now) ps (a, d)) (\<lambda>st'. (ready env audit job (snd st')
      \<and> fst st' \<in> set (iv_assets (snd st')) \<and> at_audit_id (fst st') = audit) \<and> held_rel (a, d) st')"
    by (rule service_steps.returns_fold) (use step assms in auto)
  then show ?thesis by (rule returns_mono) (auto simp: holds_iff ready_def)
qed

text \<open>A row stays: an address that is stored is stored after every extension.\<close>

definition stored :: "string \<Rightarrow> string \<Rightarrow> inv_db \<Rightarrow> bool" where
  "stored audit address d \<longleftrightarrow> (audit, address) \<in> address_key ` set (iv_addresses d)"

lemma stored_ext: "stored audit address d \<Longrightarrow> inv_ext d e \<Longrightarrow> stored audit address e"
proof -
  assume "stored audit address d" "inv_ext d e"
  then obtain r where r: "r \<in> set (iv_addresses d)" "address_key r = (audit, address)"
    and g: "grows same_address (iv_addresses d) (iv_addresses e)" by (auto simp: stored_def inv_ext_def)
  from grows_mem [OF g r(1)] r(2) show ?thesis unfolding stored_def by (force simp: same_address_def)
qed

lemma mac_conflict_returns:
  assumes "ready env audit job d" "\<And>x. found = Some x \<Longrightarrow> at_id x \<in> at_id ` set (iv_assets d)"
  shows "returns (mac_conflict env audit job source evidence mac found d) (kept_assets env d)"
proof (cases found)
  case None
  then show ?thesis using assms(1) by (simp add: mac_conflict_def kept_assets_def good_def ready_def)
next
  case (Some x)
  have "returns (observe env audit (at_id x) job ''mac_conflict'' source evidence
      [(''existing'', opt_json (at_mac x)), (''observed'', opt_json mac)] d) (kept_assets env d)"
    using assms(1) assms(2) [OF Some] unfolding ready_def by (intro observe_returns) auto
  then show ?thesis using assms(1) Some by (auto simp: mac_conflict_def kept_assets_def good_def ready_def)
qed

lemma observe_conflict_returns:
  assumes "ready env audit job d" "a \<in> set (iv_assets d)"
  shows "returns (observe_conflict env audit (at_id a) job source evidence c d) (kept_assets env d)"
  using ready_observe [OF assms] assms(1) by (simp add: observe_conflict_def kept_assets_def good_def ready_def)

lemma ready_kept:
  "ready env audit job d \<Longrightarrow> a \<in> set (iv_assets d) \<Longrightarrow> kept_assets env d e \<Longrightarrow> ready env audit job e \<and> a \<in> set (iv_assets e)"
  using ready_good by (auto simp: kept_assets_def)

lemma upsert_identity_rows:
  assumes "ready env audit job d" "a \<in> set (iv_assets d)" "at_audit_id a = audit" "\<And>b. b \<in> set blocked \<Longrightarrow> stored audit b d"
  shows "returns (rbind (upsert_addresses env audit (at_id a) blocked source now primary xs d)
      (fold_res (upsert_name env audit (at_id a) now) names))
    (\<lambda>e. kept_assets env d e \<and> list_all (\<lambda>x. stored audit (fst x) e) xs)"
proof (rule returns_rbind)
  show "returns (upsert_addresses env audit (at_id a) blocked source now primary xs d)
      (\<lambda>e. kept_assets env d e \<and> list_all (\<lambda>x. stored audit (fst x) e) xs)"
  proof (rule returns_mono [OF upsert_addresses_returns [OF assms(1-3)]])
    fix e assume e: "kept_assets env d e \<and> (\<forall>x \<in> set xs. fst x \<in> set blocked \<or> (audit, fst x) \<in> address_key ` set (iv_addresses e))"
    have "stored audit b e" if "b \<in> set blocked" for b
      using assms(4) [OF that] stored_ext e by (auto simp: kept_assets_def good_def)
    with e show "kept_assets env d e \<and> list_all (\<lambda>x. stored audit (fst x) e) xs" by (auto simp: list_all_iff stored_def)
  qed
  fix e assume e: "kept_assets env d e \<and> list_all (\<lambda>x. stored audit (fst x) e) xs"
  then have r: "ready env audit job e" "a \<in> set (iv_assets e)" using ready_kept [OF assms(1,2)] by auto
  show "returns (fold_res (upsert_name env audit (at_id a) now) names e)
      (\<lambda>e. kept_assets env d e \<and> list_all (\<lambda>x. stored audit (fst x) e) xs)"
  proof (rule returns_mono [OF upsert_names_return [OF r assms(3)]])
    fix f assume f: "kept_assets env e f"
    then have "stored audit x e \<Longrightarrow> stored audit x f" for x using stored_ext by (auto simp: kept_assets_def good_def)
    with e f kept_assets_trans show "kept_assets env d f \<and> list_all (\<lambda>x. stored audit (fst x) f) xs"
      by (auto simp: list_all_iff)
  qed
qed

lemma identify_host_returns:
  assumes "ready env audit job d" "a \<in> set (iv_assets d)" "at_audit_id a = audit"
    "\<And>x. found = Some x \<Longrightarrow> at_id x \<in> at_id ` set (iv_assets d)" "\<And>b. b \<in> set (blocked_addresses c) \<Longrightarrow> stored audit b d"
  shows "returns (identify_host env audit job source evidence h now found c a d)
    (\<lambda>e. kept_assets env d e \<and> list_all (\<lambda>x. stored audit (fst x) e) (host_addresses h))"
  unfolding identify_host_def
proof (rule returns_rbind [OF mac_conflict_returns [OF assms(1,4)]], assumption, rule returns_rbind)
  fix d3 assume d3: "kept_assets env d d3"
  show "returns (observe_conflict env audit (at_id a) job source evidence c d3) (kept_assets env d)"
    by (rule returns_mono [OF observe_conflict_returns])
      (use ready_kept [OF assms(1,2) d3] kept_assets_trans [OF d3] in auto)
next
  fix d4 assume d4: "kept_assets env d d4"
  have r: "ready env audit job d4" "a \<in> set (iv_assets d4)" using ready_kept [OF assms(1,2) d4] by auto
  have blocked: "stored audit b d4" if "b \<in> set (blocked_addresses c)" for b
    using assms(5) [OF that] stored_ext d4 by (auto simp: kept_assets_def good_def)
  show "returns (rbind (upsert_addresses env audit (at_id a) (blocked_addresses c) source now False (host_addresses h) d4)
      (\<lambda>d5. fold_res (upsert_name env audit (at_id a) now)
         (map (\<lambda>(name, name_type). (name, if name_type = [] then ''PTR'' else name_type, ''nmap'')) (nh_hostnames h)) d5))
      (\<lambda>e. kept_assets env d e \<and> list_all (\<lambda>x. stored audit (fst x) e) (host_addresses h))"
    by (rule returns_mono [OF upsert_identity_rows [OF r assms(3) blocked]]) (use kept_assets_trans [OF d4] in auto)
qed

lemma describe_host_returns:
  assumes "ready env audit job d" "a \<in> set (iv_assets d)" "at_audit_id a = audit"
  shows "returns (describe_host env audit job source evidence h now a d) (good env d)"
  unfolding describe_host_def
proof (rule returns_rbind [OF apply_os_hint_returns [OF assms]], rule returns_rbind)
  fix st7 assume st7: "case st7 of (b, e) \<Rightarrow> holds env a d b e"
  obtain b e where b: "st7 = (b, e)" by (cases st7)
  show "returns (fold_res (upsert_service env audit source now) (nh_ports h) st7) (\<lambda>(b, e). holds env a d b e)"
    unfolding b by (rule returns_mono [OF upsert_services_return])
      (use st7 b ready_holds [OF assms(1,3), of b e] holds_trans [of env a d b e] in auto)
next
  fix st8 assume st8: "case st8 of (b, e) \<Rightarrow> holds env a d b e"
  obtain b e where b: "st8 = (b, e)" by (cases st8)
  have be: "holds env a d b e" using st8 b by simp
  note re = ready_holds [OF assms(1,3) be]
  show "returns (case st8 of (a8, d8) \<Rightarrow> rbind (observe env audit (at_id a8) job ''nmap_host'' source evidence
        [(''status'', JStr (nh_status h)), (''reason'', opt_json (nh_status_reason h)),
         (''addresses'', JList (map (\<lambda>x. JStr (fst x)) (host_addresses h))),
         (''mac'', opt_json (canonical_mac (host_mac h)))] d8) (classify_asset a8)) (good env d)"
    unfolding b prod.case
  proof (rule returns_rbind [OF ready_observe])
    fix d9 assume d9: "kept_assets env e d9"
    have r9: "ready env audit job d9" "b \<in> set (iv_assets d9)" using ready_kept [OF _ _ d9] re by auto
    have g: "good env d d9" using be d9 good_trans by (auto simp: holds_def kept_assets_def)
    show "returns (classify_asset b d9) (good env d)"
      by (rule returns_mono [OF classify_asset_returns [OF r9]]) (use good_trans [OF g] in \<open>auto simp: holds_def\<close>)
  qed (use re in auto)
qed

lemma canonical_mac_neq: "canonical_mac m \<noteq> Some []"
proof
  assume "canonical_mac m = Some []"
  then obtain v where v: "length (filter is_hex v) = 12" "join_on '':'' (pairs_of (map upper_hex (filter is_hex v))) = []"
    by (auto simp: canonical_mac_def Let_def split: option.splits if_splits)
  have "length (map upper_hex (filter is_hex v)) = Suc (Suc 10)" using v(1) by simp
  then obtain x y zs where "map upper_hex (filter is_hex v) = x # y # zs" unfolding length_Suc_conv by (elim exE conjE) simp
  with v(2) show False by (cases "pairs_of zs") auto
qed

lemma upsert_nmap_host_returns:
  assumes "ready env audit job d"
  shows "returns (upsert_nmap_host env audit job source evidence persist h d)
    (\<lambda>(e, b). good env d e \<and> b = interesting persist h
       \<and> (b \<longrightarrow> list_all (\<lambda>x. stored audit (fst x) e) (host_addresses h)))"
proof (cases "interesting persist h")
  case False
  then show ?thesis using assms by (simp add: upsert_nmap_host_def Let_def good_def ready_def)
next
  case True
  let ?mac = "canonical_mac (host_mac h)"
  obtain found c where co: "correlate d audit ?mac (host_addresses h) = (found, c)" by fastforce
  let ?d1 = "d\<lparr>iv_draws := Suc (iv_draws d)\<rparr>"
  have ok: "inv_ok env d" using assms by (simp add: ready_def)
  have g1: "good env d ?d1" using inv_ok_clock [OF ok] inv_ext_clock by (simp add: good_def)
  have r1: "ready env audit job ?d1" by (rule ready_good [OF assms g1])
  note cf = correlate_found [OF ok co]
  have by_mac: "asset_by_mac ?d1 audit m = asset_by_mac d audit m" for m by (simp add: asset_by_mac_def)
  have "returns (rbind (find_or_create env audit (host_state (nh_status h)) ?mac (host_vendor env h ?mac) (ie_now env (iv_draws d)) found ?d1)
      (\<lambda>(a, d2). rbind (identify_host env audit job source evidence h (ie_now env (iv_draws d)) found c a d2) (\<lambda>d3.
         rbind (describe_host env audit job source evidence h (ie_now env (iv_draws d)) a d3) (\<lambda>d4. Inr (d4, True)))))
    (\<lambda>(e, b). good env d e \<and> b \<and> list_all (\<lambda>x. stored audit (fst x) e) (host_addresses h))"
  proof (rule returns_rbind [OF find_or_create_returns [OF r1 canonical_mac_neq]])
    fix st assume st: "case st of (a, e) \<Rightarrow> good env ?d1 e \<and> a \<in> set (iv_assets e) \<and> at_audit_id a = audit
        \<and> (\<forall>a0. found = Some a0 \<longrightarrow> same_asset a0 a)"
    obtain a e where ae: "st = (a, e)" by (cases st)
    have e: "good env ?d1 e" "a \<in> set (iv_assets e)" "at_audit_id a = audit" "\<And>x. found = Some x \<Longrightarrow> same_asset x a"
      using st ae by auto
    have ge: "good env d e" by (rule good_trans [OF g1 e(1)])
    have re: "ready env audit job e" by (rule ready_good [OF assms ge])
    have fid: "at_id x \<in> at_id ` set (iv_assets e)" if "found = Some x" for x
      using e(2) e(4) [OF that] by (auto simp: same_asset_def)
    have bl: "stored audit b e" if "b \<in> set (blocked_addresses c)" for b
      using cf(3) [OF that] stored_ext [of audit b d e] ge by (simp add: stored_def good_def)
    show "returns (case st of (a, d2) \<Rightarrow> rbind (identify_host env audit job source evidence h (ie_now env (iv_draws d)) found c a d2) (\<lambda>d3.
         rbind (describe_host env audit job source evidence h (ie_now env (iv_draws d)) a d3) (\<lambda>d4. Inr (d4, True))))
       (\<lambda>(e, b). good env d e \<and> b \<and> list_all (\<lambda>x. stored audit (fst x) e) (host_addresses h))"
      unfolding ae prod.case
    proof (rule returns_rbind [OF identify_host_returns [OF re e(2,3) fid bl]])
      fix f assume f: "kept_assets env e f \<and> list_all (\<lambda>x. stored audit (fst x) f) (host_addresses h)"
      have rf: "ready env audit job f" "a \<in> set (iv_assets f)" using ready_kept [OF re e(2)] f by auto
      have gf: "good env d f" using good_trans [OF ge] f by (simp add: kept_assets_def)
      show "returns (rbind (describe_host env audit job source evidence h (ie_now env (iv_draws d)) a f) (\<lambda>d4. Inr (d4, True)))
          (\<lambda>(e, b). good env d e \<and> b \<and> list_all (\<lambda>x. stored audit (fst x) e) (host_addresses h))"
      proof (rule returns_rbind [OF describe_host_returns [OF rf e(3)]])
        fix u assume u: "good env f u"
        then have "stored audit x f \<Longrightarrow> stored audit x u" for x using stored_ext by (auto simp: good_def)
        with f good_trans [OF gf u] show "returns (Inr (u, True))
            (\<lambda>(e, b). good env d e \<and> b \<and> list_all (\<lambda>x. stored audit (fst x) e) (host_addresses h))"
          by (auto simp: list_all_iff)
      qed
    qed
  qed (use cf by_mac in auto)
  then show ?thesis
    using True co by (auto simp: upsert_nmap_host_def Let_def read_clock_def returns_def split: prod.splits)
qed

section \<open>Passive observations\<close>

text \<open>A document from a sensor may have the wrong shape; a constraint is never violated.\<close>

definition sound :: "inv_error + 'a \<Rightarrow> ('a \<Rightarrow> bool) \<Rightarrow> bool" where
  "sound r P \<longleftrightarrow> (case r of Inl e \<Rightarrow> e \<noteq> IV_IntegrityError | Inr x \<Rightarrow> P x)"

lemma sound_simps [simp]: "sound (Inr x) P \<longleftrightarrow> P x" "sound (Inl e) P \<longleftrightarrow> e \<noteq> IV_IntegrityError"
  by (simp_all add: sound_def)

lemma sound_rbind: "sound m P \<Longrightarrow> (\<And>x. P x \<Longrightarrow> sound (f x) Q) \<Longrightarrow> sound (rbind m f) Q"
  by (cases m) (simp_all add: sound_def)

lemma sound_mono: "sound m P \<Longrightarrow> (\<And>x. P x \<Longrightarrow> Q x) \<Longrightarrow> sound m Q"
  by (cases m) (simp_all add: sound_def)

lemma returns_sound: "returns m P \<Longrightarrow> sound m P"
  by (auto simp: returns_def)

lemma upsert_identity_returns:
  assumes "ready env audit job d" "mac \<noteq> Some []"
  shows "returns (upsert_identity env audit job mac addresses names source evidence state d)
    (\<lambda>e. good env d e \<and> list_all (\<lambda>x. stored audit (fst x) e) addresses)"
proof -
  obtain found c where co: "correlate d audit mac addresses = (found, c)" by fastforce
  let ?d1 = "d\<lparr>iv_draws := Suc (iv_draws d)\<rparr>"
  let ?now = "ie_now env (iv_draws d)"
  have ok: "inv_ok env d" using assms(1) by (simp add: ready_def)
  have g1: "good env d ?d1" using inv_ok_clock [OF ok] inv_ext_clock by (simp add: good_def)
  have r1: "ready env audit job ?d1" by (rule ready_good [OF assms(1) g1])
  note cf = correlate_found [OF ok co]
  have by_mac: "asset_by_mac ?d1 audit m = asset_by_mac d audit m" for m by (simp add: asset_by_mac_def)
  let ?v = "vr_vendor (vendor_lookup (ie_vendors env) mac)"
  show ?thesis
    unfolding upsert_identity_def co prod.case read_clock_def
  proof (rule returns_rbind [OF find_or_create_returns [OF r1 assms(2)]])
    fix st assume st: "case st of (a, e) \<Rightarrow> good env ?d1 e \<and> a \<in> set (iv_assets e) \<and> at_audit_id a = audit
        \<and> (\<forall>a0. found = Some a0 \<longrightarrow> same_asset a0 a)"
    obtain a e where ae: "st = (a, e)" by (cases st)
    have e: "good env ?d1 e" "a \<in> set (iv_assets e)" "at_audit_id a = audit" using st ae by auto
    have ge: "good env d e" by (rule good_trans [OF g1 e(1)])
    have re: "ready env audit job e" by (rule ready_good [OF assms(1) ge])
    show "returns (case st of (a, d2) \<Rightarrow> rbind (observe_conflict env audit (at_id a) job source evidence c d2) (\<lambda>d3.
        rbind (upsert_addresses env audit (at_id a) (blocked_addresses c) source ?now
            (list_ex (\<lambda>r. ar_asset_id r = at_id a) (iv_addresses d3)) addresses d3) (\<lambda>d4.
        fold_res (upsert_name env audit (at_id a) ?now) names d4)))
      (\<lambda>e. good env d e \<and> list_all (\<lambda>x. stored audit (fst x) e) addresses)"
      unfolding ae prod.case
    proof (rule returns_rbind [OF observe_conflict_returns [OF re e(2)]])
      fix d3 assume d3: "kept_assets env e d3"
      have r3: "ready env audit job d3" "a \<in> set (iv_assets d3)" using ready_kept [OF re e(2) d3] by auto
      have g3: "good env d d3" using good_trans [OF ge] d3 by (simp add: kept_assets_def)
      have bl: "stored audit b d3" if "b \<in> set (blocked_addresses c)" for b
        using cf(3) [OF that] stored_ext [of audit b d d3] g3 by (simp add: stored_def good_def)
      show "returns (rbind (upsert_addresses env audit (at_id a) (blocked_addresses c) source ?now
            (list_ex (\<lambda>r. ar_asset_id r = at_id a) (iv_addresses d3)) addresses d3) (\<lambda>d4.
          fold_res (upsert_name env audit (at_id a) ?now) names d4))
        (\<lambda>e. good env d e \<and> list_all (\<lambda>x. stored audit (fst x) e) addresses)"
        by (rule returns_mono [OF upsert_identity_rows [OF r3 e(3) bl]])
          (use good_trans [OF g3] in \<open>auto simp: kept_assets_def\<close>)
    qed
  qed (use cf by_mac in auto)
qed

lemma json_sound:
  "sound (json_fields v) (\<lambda>x. True)" "sound (json_items v) (\<lambda>x. True)" "sound (get_field v k) (\<lambda>x. True)"
  "sound (get_default v k) (\<lambda>x. True)" "sound (json_ip v) (\<lambda>x. True)" "sound (json_text IV_TypeError v) (\<lambda>x. True)"
  by (auto simp: sound_def json_fields_def json_items_def get_field_def get_default_def json_ip_def json_text_def split: json.splits)

lemma json_mac_sound: "sound (json_mac v) (\<lambda>m. m \<noteq> Some [])"
  unfolding json_mac_def by (rule sound_rbind [OF json_sound(6)]) (simp add: canonical_mac_neq)

lemma observation_data_sound: "sound (observation_data x) (\<lambda>x. True)"
  unfolding observation_data_def by (rule sound_rbind [OF json_sound(3)]) (rule json_sound(1))

lemma opt_ip_sound: "sound (opt_ip v) (\<lambda>x. True)"
  unfolding opt_ip_def by (cases "json_truthy v") (simp_all add: sound_rbind [OF json_sound(5)])

lemma parse_ips_sound: "sound (parse_ips vs) (\<lambda>x. True)"
  by (induction vs) (auto intro!: sound_rbind [OF json_sound(5)] sound_rbind [where P = "\<lambda>x. True"])

lemma typed_names_sound: "sound (typed_names ns) (\<lambda>x. True)"
  by (induction ns rule: typed_names.induct) (auto intro!: sound_rbind [where P = "\<lambda>x. True"] split: json.splits)

text \<open>One observation of a sensor.\<close>

definition step_sound :: "inv_env \<Rightarrow> string \<Rightarrow> string option \<Rightarrow> ingest_step \<Rightarrow> bool" where
  "step_sound env audit job f \<longleftrightarrow> (\<forall>x st. ready env audit job (fst st) \<longrightarrow> sound (f x st) (\<lambda>st'. good env (fst st) (fst st')))"

lemma counted_sound:
  assumes "ready env audit job (fst st)" "mac \<noteq> Some []"
  shows "sound (counted st (upsert_identity env audit job mac addresses names source evidence state (fst st)))
    (\<lambda>st'. good env (fst st) (fst st'))"
  unfolding counted_def
  by (rule sound_rbind [OF returns_sound [OF upsert_identity_returns [OF assms]]]) simp

lemma sound_unchanged: "ready env audit job (fst st) \<Longrightarrow> sound (Inr st) (\<lambda>st'. good env (fst st) (fst st'))"
  by (simp add: ready_def good_def)

lemma sound_if: "(c \<Longrightarrow> sound x P) \<Longrightarrow> (\<not> c \<Longrightarrow> sound y P) \<Longrightarrow> sound (if c then x else y) P"
  by simp

lemma dhcp_addresses_sound: "sound (dhcp_addresses data) (\<lambda>x. True)"
  unfolding dhcp_addresses_def using opt_ip_sound by (auto intro!: sound_rbind [OF opt_ip_sound])

lemmas sound_rules = sound_rbind [OF observation_data_sound] sound_rbind [OF json_mac_sound] sound_rbind [OF opt_ip_sound]
  sound_rbind [OF parse_ips_sound] sound_rbind [OF json_sound(1)] sound_rbind [OF json_sound(2)] sound_rbind [OF json_sound(3)]
  sound_rbind [OF typed_names_sound] sound_rbind [OF dhcp_addresses_sound] sound_if counted_sound sound_unchanged

lemma ethernet_step_sound: "step_sound env audit job (ethernet_step env audit job evidence)"
  unfolding step_sound_def ethernet_step_def by (intro allI impI sound_rules) assumption+

lemma arp_step_sound: "step_sound env audit job (arp_step env audit job evidence)"
  unfolding step_sound_def arp_step_def by (intro allI impI sound_rules) assumption+

lemma dhcp_step_sound: "step_sound env audit job (dhcp_step env audit job evidence)"
  unfolding step_sound_def dhcp_step_def Let_def by (intro allI impI sound_rules) assumption+

lemma naming_step_sound: "step_sound env audit job (naming_step env audit job sensor evidence)"
  unfolding step_sound_def naming_step_def Let_def by (intro allI impI sound_rules) assumption+

text \<open>The loops over observations and sensors.\<close>

lemma sound_fold:
  fixes st :: "inv_db \<times> nat"
  assumes "\<And>x st. x \<in> set xs \<Longrightarrow> ready env audit job (fst st) \<Longrightarrow> sound (f x st) (\<lambda>st'. good env (fst st) (fst st'))"
    "ready env audit job (fst st)"
  shows "sound (fold_res f xs st) (\<lambda>st'. good env (fst st) (fst st'))"
  using assms
proof (induction xs arbitrary: st)
  case Nil
  then show ?case by (simp add: ready_def good_def)
next
  case (Cons x xs)
  show ?case
    unfolding fold_res.simps
  proof (rule sound_rbind)
    show "sound (f x st) (\<lambda>st'. good env (fst st) (fst st'))" using Cons.prems by simp
    fix st' :: "inv_db \<times> nat" assume g: "good env (fst st) (fst st')"
    have "sound (fold_res f xs st') (\<lambda>u. good env (fst st') (fst u))"
      using Cons.prems ready_good [OF Cons.prems(2) g] by (intro Cons.IH) auto
    then show "sound (fold_res f xs st') (\<lambda>u. good env (fst st) (fst u))"
      by (rule sound_mono) (rule good_trans [OF g])
  qed
qed

lemma each_observation_sound:
  assumes "step_sound env audit job f" "ready env audit job (fst st)"
  shows "sound (each_observation sensor f st) (\<lambda>st'. good env (fst st) (fst st'))"
  unfolding each_observation_def
  by (intro sound_rbind [OF json_sound(1)] sound_rbind [OF json_sound(2)] sound_fold)
    (use assms in \<open>auto simp: step_sound_def\<close>)

definition same_seen :: "asset_row \<Rightarrow> asset_row \<Rightarrow> bool" where
  "same_seen a b \<longleftrightarrow> at_id a = at_id b \<and> at_state a = at_state b \<and> at_last_seen a = at_last_seen b \<and> at_mac a = at_mac b"

interpretation seen: row_origin at_id same_seen
  by unfold_locales (auto simp: same_seen_def)

lemma classified_seen: "same_seen a (classified d a)"
  by (simp add: classified_def same_seen_def split: prod.splits)

lemma refresh_returns:
  assumes "ready env audit job d"
  shows "returns (refresh_classifications audit d) (\<lambda>e. good env d e \<and> grows same_seen (iv_assets d) (iv_assets e))"
proof -
  have main: "returns (fold_res classify_asset as e) (\<lambda>f. good env e f \<and> grows same_seen (iv_assets e) (iv_assets f))"
    if "ready env audit job e" "distinct (map at_id as)" "set as \<subseteq> set (iv_assets e)" for as e
    using that
  proof (induction as arbitrary: e)
    case Nil
    then show ?case by (simp add: ready_def good_def seen.grows_refl)
  next
    case (Cons a as)
    have ok: "inv_ok env e" using Cons.prems(1) by (simp add: ready_def)
    have a: "a \<in> set (iv_assets e)" using Cons.prems(3) by simp
    show ?case
      unfolding fold_res.simps
    proof (rule returns_rbind [where P = "\<lambda>f. holds env a e (classified e a) f \<and> iv_assets f = tbl_put at_id (classified e a) (iv_assets e)"])
      show "returns (classify_asset a e)
          (\<lambda>f. holds env a e (classified e a) f \<and> iv_assets f = tbl_put at_id (classified e a) (iv_assets e))"
        using classify_asset_returns [OF Cons.prems(1) a]
        by (auto simp: returns_def classify_asset_def put_asset_def split: if_splits)
      fix f assume f: "holds env a e (classified e a) f \<and> iv_assets f = tbl_put at_id (classified e a) (iv_assets e)"
      have g: "good env e f" using f by (simp add: holds_def)
      have s: "grows same_seen (iv_assets e) (iv_assets f)"
        using f seen.grows_put [OF assets_okD(1) [OF inv_okD(1) [OF ok]] a _ classified_seen [of a e]] classified_same(4) [of e a]
        by simp
      have "b \<in> set (iv_assets f)" if "b \<in> set as" for b
      proof -
        have "at_id a \<notin> at_id ` set as" using Cons.prems(2) by simp
        with that have "at_id b \<noteq> at_id a" by (metis imageI)
        moreover have "b \<in> set (iv_assets e)" using that Cons.prems(3) by auto
        ultimately show ?thesis using f classified_same(4) [of e a] by (auto simp: tbl_put_def)
      qed
      then have "returns (fold_res classify_asset as f) (\<lambda>u. good env f u \<and> grows same_seen (iv_assets f) (iv_assets u))"
        using Cons.prems(2) ready_good [OF Cons.prems(1) g] by (intro Cons.IH) auto
      then show "returns (fold_res classify_asset as f) (\<lambda>u. good env e u \<and> grows same_seen (iv_assets e) (iv_assets u))"
        by (rule returns_mono) (use good_trans [OF g] seen.grows_trans [OF s] in blast)
    qed
  qed
  have ok: "inv_ok env d" using assms by (simp add: ready_def)
  have "distinct (map at_id (iv_assets d))" by (rule assets_okD(1) [OF inv_okD(1) [OF ok]])
  then show ?thesis
    unfolding refresh_classifications_def using assms by (intro main) (auto simp: distinct_map_filter)
qed

lemma sensors_sound:
  assumes "ready env audit job (fst st)"
  shows "sound (fold_res (\<lambda>name st. rbind (get_field sensors name) (\<lambda>s.
      each_observation s (naming_step env audit job name evidence) st)) names st) (\<lambda>st'. good env (fst st) (fst st'))"
  by (rule sound_fold [OF _ assms]) (auto intro!: sound_rbind [OF json_sound(3)] each_observation_sound [OF naming_step_sound])

lemma ingest_passive_sound:
  assumes "ready env audit job d"
  shows "sound (ingest_passive_sensors env audit job sensors evidence d) (\<lambda>st. good env d (fst st))"
proof -
  let ?r = "\<lambda>st. ready env audit job (fst st) \<and> good env d (fst st)"
  have sensor: "sound (each_observation x f st) ?r" if "step_sound env audit job f" "?r st" for x f st
    by (rule sound_mono [OF each_observation_sound [OF that(1)]]) (use that(2) ready_good good_trans in blast)+
  have naming: "sound (fold_res (\<lambda>name st. rbind (get_field sensors name) (\<lambda>s.
      each_observation s (naming_step env audit job name evidence) st)) names st) ?r" if "?r st" for names st
    by (rule sound_mono [OF sensors_sound]) (use that ready_good good_trans in blast)+
  have start: "?r (d, 0 :: nat)" using assms by (simp add: ready_def good_def)
  have finish: "sound (case st of (d4, n) \<Rightarrow> rbind (refresh_classifications audit d4) (\<lambda>d5. Inr (d5, n))) (\<lambda>st. good env d (fst st))"
    if "?r st" for st :: "inv_db \<times> nat"
  proof -
    obtain e n where st: "st = (e, n)" by (cases st)
    have "sound (rbind (refresh_classifications audit e) (\<lambda>d5. Inr (d5, n))) (\<lambda>st. good env d (fst st))"
      by (rule sound_rbind [OF returns_sound [OF refresh_returns]]) (use that st good_trans in auto)
    then show ?thesis using st by simp
  qed
  show ?thesis
    unfolding ingest_passive_sensors_def
    by (intro sound_rbind [OF json_sound(3)] sound_rbind [OF sensor [OF ethernet_step_sound start]]
        sound_rbind [OF sensor [OF arp_step_sound]] sound_rbind [OF sensor [OF dhcp_step_sound]]
        sound_rbind [OF naming] finish)
qed

end
