(* ===== verification/Inventory_Text.thy ===== *)
theory Inventory_Text
  imports Inventory_Queries
begin

text \<open>
  Text facts of the inventory: an escaped LIKE pattern is a substring test, canonical MAC addresses are stable, and the
  text a scope snapshot is hashed from determines the profile, the interface and the targets.
\<close>

section \<open>Substring filters\<close>

definition escape_char :: "char \<Rightarrow> string" where
  "escape_char c = (if c \<in> {BACKSLASH, CHR ''%'', CHR ''_''} then [BACKSLASH, c] else [c])"

lemma special_codes [simp]: "code BACKSLASH = 92" "code CHR ''%'' = 37" "code CHR ''_'' = 95"
  by (simp_all add: BACKSLASH_def code_def)

lemma code_neq: "code c \<noteq> code d \<Longrightarrow> c \<noteq> d"
  by auto

lemma backslash_neq [simp]: "BACKSLASH \<noteq> CHR ''%''" "CHR ''%'' \<noteq> BACKSLASH" "BACKSLASH \<noteq> CHR ''_''" "CHR ''_'' \<noteq> BACKSLASH"
  by (rule code_neq, simp)+

lemma escape_like_chars: "escape_like v = concat (map escape_char v)"
  by (induction v) (auto simp: escape_like_def replace_char_def escape_char_def)

lemma like_percent: "like (CHR ''%'' # p) s \<longleftrightarrow> (\<exists>u t. s = u @ t \<and> like p t)"
proof (induction s)
  case Nil
  show ?case by (simp add: like.simps)
next
  case (Cons d s)
  have "like (CHR ''%'' # p) (d # s) \<longleftrightarrow> like p (d # s) \<or> (\<exists>u t. s = u @ t \<and> like p t)"
    using Cons by (simp add: like.simps)
  also have "\<dots> \<longleftrightarrow> (\<exists>u t. d # s = u @ t \<and> like p t)" by (auto simp: Cons_eq_append_conv)
  finally show ?case .
qed

lemma like_escaped: "like (concat (map escape_char v) @ p) s \<longleftrightarrow> (\<exists>t. s = v @ t \<and> like p t)"
proof (induction v arbitrary: s)
  case (Cons c v)
  have "like (escape_char c @ q) s \<longleftrightarrow> (\<exists>t. s = c # t \<and> like q t)" for q
    by (cases s) (auto simp: escape_char_def like.simps)
  then show ?case using Cons by auto
qed simp

lemma like_contains: "like (''%'' @ escape_like v @ ''%'') s \<longleftrightarrow> contains_str s v"
proof -
  have any: "like ''%'' t" for t using like_percent [of "[]" t] by (auto simp: like.simps)
  have "like (''%'' @ escape_like v @ ''%'') s \<longleftrightarrow> (\<exists>u t. s = u @ t \<and> (\<exists>t'. t = v @ t' \<and> like ''%'' t'))"
    using like_percent [of "escape_like v @ ''%''" s] like_escaped [of v "''%''"] by (simp add: escape_like_chars)
  then show ?thesis using any by (auto simp: contains_str_iff)
qed

lemma ascii_lower_simps [simp]: "ascii_lower [] = []" "ascii_lower (s @ t) = ascii_lower s @ ascii_lower t"
  by (simp_all add: ascii_lower_def)

lemma lower_escape: "ascii_lower (escape_char c) = concat (map escape_char (ascii_lower [c]))"
proof (cases "65 \<le> code c \<and> code c \<le> 90")
  case True
  then have n: "code (char_of (code c + 32)) = code c + 32" by (simp add: code_def of_char_of)
  have "c \<noteq> BACKSLASH" "c \<noteq> CHR ''%''" "c \<noteq> CHR ''_''"
    using True by (auto simp del: One_nat_def)
  moreover have "char_of (code c + 32) \<noteq> BACKSLASH" "char_of (code c + 32) \<noteq> CHR ''%''" "char_of (code c + 32) \<noteq> CHR ''_''"
    using n True by (auto intro!: code_neq)
  ultimately show ?thesis using True by (simp add: escape_char_def ascii_lower_def)
next
  case False
  from False show ?thesis by (auto simp: escape_char_def ascii_lower_def)
qed

lemma ascii_lower_escape: "ascii_lower (escape_like v) = escape_like (ascii_lower v)"
proof -
  have "ascii_lower (concat (map escape_char v)) = concat (map escape_char (ascii_lower v))"
  proof (induction v)
    case (Cons c v)
    have "ascii_lower (c # v) = ascii_lower [c] @ ascii_lower v" by (simp add: ascii_lower_def)
    then show ?case using Cons by (simp add: lower_escape)
  qed simp
  then show ?thesis by (simp add: escape_like_chars)
qed

lemma ilike_contains_iff: "ilike_contains (Some s) v \<longleftrightarrow> contains_str (ascii_lower s) (ascii_lower v)"
proof -
  have "ascii_lower (CHR ''%'' # t) = CHR ''%'' # ascii_lower t" for t by (simp add: ascii_lower_def)
  then show ?thesis using like_contains [of "ascii_lower v" "ascii_lower s"] by (simp add: ilike_contains_def ascii_lower_escape)
qed

section \<open>The snapshot text\<close>

text \<open>Reading one escaped character back.\<close>

definition unescape :: "char \<Rightarrow> char" where
  "unescape e = (if e = CHR ''n'' then char_of (10 :: nat) else if e = CHR ''r'' then char_of (13 :: nat)
     else if e = CHR ''t'' then char_of (9 :: nat) else if e = CHR ''f'' then char_of (12 :: nat)
     else if e = CHR ''b'' then char_of (8 :: nat) else e)"

definition read_char :: "string \<Rightarrow> char \<times> string" where
  "read_char s = (if hd s \<noteq> BACKSLASH then (hd s, tl s)
     else if s ! 1 = CHR ''u'' then (char_of (16 * the (digit_val (s ! 4)) + the (digit_val (s ! 5))), drop 6 s)
     else (unescape (s ! 1), drop 2 s))"

lemma char_of_code: "code c = n \<Longrightarrow> c = char_of n"
  by (auto simp: code_def)

lemma read_u00:
  "read_char ([BACKSLASH] @ ''u00'' @ hex2 (code c) @ x) = (c, x)"
proof -
  have n: "code c < 256" by (simp add: code_def of_char_def)
  then have d: "code c div 16 < 16" "code c mod 16 < 16" by simp_all
  have "char_of (16 * (code c div 16) + code c mod 16) = c" by (simp add: code_def)
  then show ?thesis by (simp add: read_char_def hex_pair [OF n] digit_val_char [OF d(1)] digit_val_char [OF d(2)])
qed

lemma read_short: "read_char (BACKSLASH # e # x) = (unescape e, x)" if "e \<noteq> CHR ''u''"
  using that by (simp add: read_char_def)

lemma unescape_simps [simp]: "unescape CHR ''n'' = char_of (10 :: nat)" "unescape CHR ''r'' = char_of (13 :: nat)"
  "unescape CHR ''t'' = char_of (9 :: nat)" "unescape CHR ''f'' = char_of (12 :: nat)" "unescape CHR ''b'' = char_of (8 :: nat)"
  "unescape BACKSLASH = BACKSLASH" "unescape (char_of (34 :: nat)) = char_of (34 :: nat)"
  by code_simp+

lemma read_ascii_char: "read_char (ascii_char c @ x) = (c, x)"
proof -
  have bs: "char_of (92 :: nat) = BACKSLASH" by (simp add: BACKSLASH_def)
  have u: "char_of (34 :: nat) \<noteq> CHR ''u''" "BACKSLASH \<noteq> CHR ''u''"
    by (rule code_neq, simp add: code_def BACKSLASH_def)+
  consider "126 < code c \<or> code c < 32 \<and> code c \<notin> {10, 13, 9, 12, 8}" | "code c \<in> {34, 92, 10, 13, 9, 12, 8}"
    | "\<not> 126 < code c" "code c \<noteq> 34" "code c \<noteq> 92" "\<not> code c < 32" by fastforce
  then show ?thesis
  proof cases
    case 1
    then have "ascii_char c = [BACKSLASH] @ ''u00'' @ hex2 (code c)" by (auto simp: ascii_char_def json_char_def bs)
    then show ?thesis using read_u00 [of c x] by simp
  next
    case 2
    then have "c \<in> {char_of (34 :: nat), BACKSLASH, char_of (10 :: nat), char_of (13 :: nat), char_of (9 :: nat),
        char_of (12 :: nat), char_of (8 :: nat)}"
      using char_of_code [of c] by (auto simp: BACKSLASH_def)
    moreover have "code (char_of (n :: nat)) = n mod 256" for n by (simp add: code_def of_char_of)
    ultimately show ?thesis using u by (auto simp: ascii_char_def json_char_def bs read_short)
  next
    case 3
    then have "c \<noteq> BACKSLASH" by (intro code_neq) simp
    with 3 show ?thesis by (simp add: ascii_char_def json_char_def read_char_def)
  qed
qed

lemma ascii_char_prefix:
  assumes "ascii_char c @ x = ascii_char d @ y"
  shows "c = d \<and> x = y"
proof -
  have "(c, x) = (d, y)" using arg_cong [OF assms, of read_char] unfolding read_ascii_char .
  then show ?thesis by simp
qed

lemma ascii_char_start: "\<exists>h t. ascii_char c = h # t \<and> h \<noteq> char_of (34 :: nat)"
proof -
  have "code (char_of (34 :: nat)) = 34" by (simp add: code_def of_char_of)
  then have "BACKSLASH \<noteq> char_of (34 :: nat)" by (intro code_neq) simp
  then show ?thesis by (auto simp: ascii_char_def json_char_def BACKSLASH_def [symmetric] code_def)
qed

lemma quoted_prefix:
  "concat (map ascii_char s) @ char_of (34 :: nat) # x = concat (map ascii_char t) @ char_of (34 :: nat) # y \<Longrightarrow> s = t \<and> x = y"
proof (induction s arbitrary: t)
  case Nil
  then show ?case using ascii_char_start [of "hd t"] by (cases t) auto
next
  case (Cons c s)
  show ?case
  proof (cases t)
    case Nil
    then show ?thesis using Cons.prems ascii_char_start [of c] by auto
  next
    case (Cons d u)
    with Cons.prems have "c = d" "concat (map ascii_char s) @ char_of (34 :: nat) # x = concat (map ascii_char u) @ char_of (34 :: nat) # y"
      using ascii_char_prefix [of c _ d] by auto
    with Cons.IH [of u] Cons show ?thesis by simp
  qed
qed

lemma ascii_quote_prefix: "ascii_quote s @ x = ascii_quote t @ y \<Longrightarrow> s = t \<and> x = y"
  using quoted_prefix [of s x t y] by (simp add: ascii_quote_def)

lemma quoted_list_prefix:
  "join_on '','' (map ascii_quote ss) @ '']}'' = join_on '','' (map ascii_quote ts) @ '']}'' \<Longrightarrow> ss = ts"
proof (induction ss arbitrary: ts)
  case Nil
  show ?case
  proof (cases ts)
    case (Cons t us)
    then show ?thesis using Nil by (cases us) (auto simp: ascii_quote_def code_def)
  qed simp
next
  case (Cons s ss)
  obtain t us where ts: "ts = t # us"
    using Cons.prems by (cases ts) (cases ss; auto simp: ascii_quote_def)+
  have quote: "join_on '','' (map ascii_quote (w # ws)) = ascii_quote w @ (if ws = [] then [] else '','' @ join_on '','' (map ascii_quote ws))"
    for w ws by (cases ws) simp_all
  from Cons.prems have e: "ascii_quote s @ ((if ss = [] then [] else '','' @ join_on '','' (map ascii_quote ss)) @ '']}'')
      = ascii_quote t @ ((if us = [] then [] else '','' @ join_on '','' (map ascii_quote us)) @ '']}'')"
    unfolding ts quote by simp
  then have "s = t" and r: "(if ss = [] then [] else '','' @ join_on '','' (map ascii_quote ss)) @ '']}''
      = (if us = [] then [] else '','' @ join_on '','' (map ascii_quote us)) @ '']}''"
    using ascii_quote_prefix [OF e] by simp_all
  then show ?case using ts Cons.IH [of us] by (auto split: if_splits)
qed

lemma snapshot_payload_inj:
  assumes "snapshot_payload p i ts = snapshot_payload p' i' ts'"
  shows "p = p' \<and> i = i' \<and> ts = ts'"
proof -
  let ?tail = "\<lambda>p ts. '','' @ ascii_quote ''profile'' @ '':'' @ ascii_quote (profile_value p) @ '','' @ ascii_quote ''targets''
      @ '':['' @ join_on '','' (map ascii_quote ts) @ '']}''"
  have "ascii_quote i @ ?tail p ts = ascii_quote i' @ ?tail p' ts'" using assms by (simp add: snapshot_payload_def)
  from ascii_quote_prefix [OF this] have i: "i = i'" and t: "?tail p ts = ?tail p' ts'" by simp_all
  let ?rest = "\<lambda>ts. '','' @ ascii_quote ''targets'' @ '':['' @ join_on '','' (map ascii_quote ts) @ '']}''"
  have "ascii_quote (profile_value p) @ ?rest ts = ascii_quote (profile_value p') @ ?rest ts'" using t by simp
  from ascii_quote_prefix [OF this] have v: "profile_value p = profile_value p'" and "?rest ts = ?rest ts'" by simp_all
  then have "join_on '','' (map ascii_quote ts) @ '']}'' = join_on '','' (map ascii_quote ts') @ '']}''" by simp
  from quoted_list_prefix [OF this] have "ts = ts'" .
  moreover have "p = p'" using v by (cases p; cases p') simp_all
  ultimately show ?thesis using i by simp
qed

end
