(* ===== verification/Inventory_Properties.thy ===== *)
theory Inventory_Properties
  imports Inventory_Steps Inventory_Text
begin

text \<open>
  The properties of the inventory: scans never violate a constraint and never move or drop a stored row, the search
  filters are substring tests, and a read of the inventory writes.
\<close>

section \<open>Scans\<close>

lemma ingest_hosts_return:
  assumes "ready env audit job d"
  shows "returns (ingest_hosts env audit job source evidence persist hs (d, n))
    (\<lambda>(e, m). good env d e \<and> m = n + length (filter (interesting persist) hs)
       \<and> list_all (\<lambda>h. list_all (\<lambda>x. stored audit (fst x) e) (host_addresses h)) (filter (interesting persist) hs))"
  using assms
proof (induction hs arbitrary: d n)
  case Nil
  then show ?case by (simp add: ready_def good_def)
next
  case (Cons h hs)
  show ?case
    unfolding ingest_hosts.simps fst_conv snd_conv
  proof (rule returns_rbind [OF upsert_nmap_host_returns [OF Cons.prems]])
    fix st assume st: "case st of (e, b) \<Rightarrow> good env d e \<and> b = interesting persist h
        \<and> (b \<longrightarrow> list_all (\<lambda>x. stored audit (fst x) e) (host_addresses h))"
    obtain e b where eb: "st = (e, b)" by (cases st)
    have e: "good env d e" "b = interesting persist h"
      "b \<Longrightarrow> list_all (\<lambda>x. stored audit (fst x) e) (host_addresses h)" using st eb by auto
    have ih: "returns (ingest_hosts env audit job source evidence persist hs (e, if b then Suc n else n))
        (\<lambda>(f, m). good env e f \<and> m = (if b then Suc n else n) + length (filter (interesting persist) hs)
          \<and> list_all (\<lambda>h. list_all (\<lambda>x. stored audit (fst x) f) (host_addresses h)) (filter (interesting persist) hs))"
      by (rule Cons.IH [OF ready_good [OF Cons.prems e(1)]])
    have stays: "list_all (\<lambda>x. stored audit (fst x) f) (host_addresses h)" if "good env e f" b for f
      using e(3) [OF that(2)] that(1) stored_ext [of audit _ e f] by (auto simp: list_all_iff good_def)
    show "returns (case st of (d, b) \<Rightarrow> ingest_hosts env audit job source evidence persist hs (d, if b then Suc n else n))
        (\<lambda>(e, m). good env d e \<and> m = n + length (filter (interesting persist) (h # hs))
          \<and> list_all (\<lambda>h. list_all (\<lambda>x. stored audit (fst x) e) (host_addresses h)) (filter (interesting persist) (h # hs)))"
      unfolding eb prod.case
      by (rule returns_mono [OF ih]) (use e(2) good_trans [OF e(1)] stays in \<open>auto split: if_splits\<close>)
  qed
qed


definition demo_oui :: oui_resolver where
  "demo_oui = load_oui_table [(''oui.txt'', True, Some ''00-1B-63   (hex)  Apple, Inc.'')]"

definition demo_inv_env :: inv_env where
  "demo_inv_env = \<lparr>ie_uuid = (\<lambda>n. replicate n CHR ''u''), ie_now = int, ie_vendors = demo_oui, ie_digest = (\<lambda>s. s)\<rparr>"

definition demo_inventory :: inv_db where
  "demo_inventory = \<lparr>iv_audits = [''a1''], iv_jobs = [''j1''], iv_assets = [], iv_addresses = [], iv_names = [], iv_services = [],
     iv_observations = [], iv_scopes = [], iv_draws = 0\<rparr>"

definition demo_host :: "string \<Rightarrow> nmap_host" where
  "demo_host address = \<lparr>nh_status = ''up'', nh_status_reason = None,
     nh_addresses = [\<lparr>na_address = address, na_family = ''ipv4'', na_vendor = None\<rparr>,
       \<lparr>na_address = ''00-1b-63-00-00-01'', na_family = ''mac'', na_vendor = None\<rparr>],
     nh_hostnames = [(''printer.local.'', [])],
     nh_ports = [\<lparr>np_protocol = ''tcp'', np_port = 9100, np_state = ''open'', np_reason = None, np_service = None\<rparr>],
     nh_os_matches = [], nh_uptime_seconds = None, nh_network_distance = None\<rparr>"

lemma demo_ready: "ready demo_inv_env ''a1'' (Some ''j1'') demo_inventory"
proof -
  have "inj (ie_uuid demo_inv_env)" by (auto simp: inj_def demo_inv_env_def dest: arg_cong [where f = length])
  then show ?thesis
    by (simp add: ready_def demo_inventory_def inv_ok_def assets_ok_def table_ok_def observations_ok_def)
qed


section \<open>Filters\<close>

text \<open>
  C7. The text filters of the inventory lists, which become LIKE patterns, are case-insensitive substring tests: the
  characters percent, underscore and backslash of the operator's text stand for themselves. A missing column never matches.
\<close>

theorem inventory_filters_exact:
  "ilike_contains column v \<longleftrightarrow> (\<exists>s. column = Some s \<and> contains_str (ascii_lower s) (ascii_lower v))"
  by (cases column) (simp_all add: ilike_contains_iff, simp add: ilike_contains_def)

section \<open>Reads\<close>

text \<open>A passive result with one Ethernet observation of the address \<open>m\<close>.\<close>

definition ethernet_report :: "string \<Rightarrow> json" where
  "ethernet_report m = JObj [(''result'', JObj [(''sensors'', JObj [(''ethernet'',
     JObj [(''observations'', JList [JObj [(''data'', JObj [(''mac'', JStr m)])]])])])])]"

lemma each_observation_absent [simp]: "each_observation JNull f st = Inr st"
  by (simp add: each_observation_def json_fields_def json_items_def jget_def)

lemma asset_by_mac_unique:
  assumes "inv_ok env d" "a \<in> set (iv_assets d)" "at_mac a = Some m" "m \<noteq> []"
  shows "asset_by_mac d (at_audit_id a) (Some m) = Some a"
proof -
  have "asset_by_mac d (at_audit_id a) (Some m) \<noteq> None"
    using assms(2-4) by (auto simp: asset_by_mac_def find_None_iff)
  then obtain x where x: "asset_by_mac d (at_audit_id a) (Some m) = Some x" by blast
  note xs = asset_by_mac_Some [OF x]
  have "at_id x = at_id a"
    using assets_okD(2) [OF inv_okD(1) [OF assms(1)] assms(2)] xs assms(3) by (auto simp: mac_taken_iff)
  then have "x = a"
    using tbl.get_unique [OF assets_okD(1) [OF inv_okD(1) [OF assms(1)]]] xs assms(2) by (metis option.inject)
  then show ?thesis using x by simp
qed

lemma upsert_identity_known_mac:
  assumes "inv_ok env d" "a \<in> set (iv_assets d)" "at_audit_id a = audit" "at_mac a = Some m" "m \<noteq> []"
  shows "upsert_identity env audit job (Some m) [] [] source evidence state d =
    Inr (d\<lparr>iv_draws := Suc (iv_draws d), iv_assets := tbl_put at_id (a\<lparr>at_last_seen := ie_now env (iv_draws d),
      at_state := merge_state (at_state a) state\<rparr>) (iv_assets d)\<rparr>)"
proof -
  have "\<not> mac_taken (at_id a) audit (Some m) (iv_assets d)"
    using assets_okD(2) [OF inv_okD(1) [OF assms(1)] assms(2)] assms(3,4) by simp
  moreover have "correlate d audit (Some m) [] = (Some a, No_conflict)"
    using asset_by_mac_unique [OF assms(1,2,4,5)] assms(3) by (simp add: correlate_def Let_def others_def)
  ultimately show ?thesis
    using assms(3,4)
    by (simp add: upsert_identity_def read_clock_def find_or_create_def Let_def touched_def put_asset_def observe_conflict_def)
qed

lemma ethernet_report_steps:
  assumes "canonical_mac (Some m) = Some m" "m \<noteq> ''00:00:00:00:00:00''" "even (first_octet m)"
  shows "ensure_passive_inventory env audit None (Some (i, Inr (ethernet_report m))) d =
    (case rbind (upsert_identity env audit None (Some m) [] [] ''ethernet'' (Some i) AST_OBSERVED d) (\<lambda>d'.
       rbind (refresh_classifications audit d') (\<lambda>e. Inr (e, 1))) of Inl (IV_JobExecutionError e) \<Rightarrow> Inr (d, 0) | r \<Rightarrow> r)"
proof -
  have "m \<noteq> []" using canonical_mac_neq [of "Some m"] assms(1) by auto
  then have "ethernet_step env audit None (Some i) (JObj [(''data'', JObj [(''mac'', JStr m)])]) (d, 0) =
      rbind (upsert_identity env audit None (Some m) [] [] ''ethernet'' (Some i) AST_OBSERVED d) (\<lambda>d'. Inr (d', 1))"
    using assms by (simp add: ethernet_step_def observation_data_def get_field_def json_fields_def jget_def json_mac_def
        json_text_def counted_def)
  then have "each_observation (JObj [(''observations'', JList [JObj [(''data'', JObj [(''mac'', JStr m)])]])])
      (ethernet_step env audit None (Some i)) (d, 0) =
      rbind (upsert_identity env audit None (Some m) [] [] ''ethernet'' (Some i) AST_OBSERVED d) (\<lambda>d'. Inr (d', 1))"
    by (simp add: each_observation_def json_fields_def json_items_def jget_def rbind_assoc)
  then show ?thesis
    by (simp add: ensure_passive_inventory_def ingest_passive_from_audit_def ethernet_report_def get_default_def
        ingest_passive_sensors_def get_field_def jget_def jor_def rbind_assoc)
qed

text \<open>
  C14. Reading the inventory writes: asking for the summary of an audit ingests its passive result again, so an asset
  that a later scan found unresponsive, and whose address was seen before that scan, is back to observed, and its
  last seen time is the time of the request.
\<close>

theorem summary_revives_asset:
  assumes "ready env audit None d" "a \<in> set (iv_assets d)" "at_audit_id a = audit" "at_mac a = Some m"
    and "canonical_mac (Some m) = Some m" "m \<noteq> ''00:00:00:00:00:00''" "even (first_octet m)"
    and "at_state a = AST_UNRESPONSIVE"
  shows "\<exists>e s b. summary env (Some (i, Inr (ethernet_report m))) audit d = Inr (e, s) \<and> b \<in> set (iv_assets e)
    \<and> at_id b = at_id a \<and> at_state b = AST_OBSERVED \<and> at_last_seen b = ie_now env (iv_draws d)"
proof -
  let ?a = "a\<lparr>at_last_seen := ie_now env (iv_draws d), at_state := merge_state (at_state a) AST_OBSERVED\<rparr>"
  let ?d = "d\<lparr>iv_draws := Suc (iv_draws d), iv_assets := tbl_put at_id ?a (iv_assets d)\<rparr>"
  have ok: "inv_ok env d" using assms(1) by (simp add: ready_def)
  have m: "m \<noteq> []" using canonical_mac_neq [of "Some m"] assms(5) by auto
  have up: "upsert_identity env audit None (Some m) [] [] ''ethernet'' (Some i) AST_OBSERVED d = Inr ?d"
    by (rule upsert_identity_known_mac [OF ok assms(2-4) m])
  have mac: "Some m \<noteq> Some []" using m by simp
  from upsert_identity_returns [OF assms(1) mac, of "[]" "[]" "''ethernet''" "Some i" AST_OBSERVED]
  have "good env d ?d" unfolding up by simp
  then have r: "ready env audit None ?d" by (rule ready_good [OF assms(1)])
  obtain e where e: "refresh_classifications audit ?d = Inr e" "grows same_seen (iv_assets ?d) (iv_assets e)"
    using refresh_returns [OF r] by (auto simp: returns_def)
  have "?a \<in> set (iv_assets ?d)" using assms(2) by (auto simp: tbl_put_def)
  from grows_mem [OF e(2) this] obtain b where b: "b \<in> set (iv_assets e)" "same_seen ?a b" by blast
  have "ensure_passive_inventory env audit None (Some (i, Inr (ethernet_report m))) d = Inr (e, 1)"
    by (simp add: ethernet_report_steps [OF assms(5-7)] up e(1))
  then have "summary env (Some (i, Inr (ethernet_report m))) audit d = Inr (e, summary_of audit e)"
    by (simp add: summary_def)
  moreover have "at_id b = at_id a" "at_state b = AST_OBSERVED" "at_last_seen b = ie_now env (iv_draws d)"
    using b(2) assms(8) by (simp_all add: same_seen_def merge_state_def)
  ultimately show ?thesis using b(1) by blast
qed

text \<open>The host is seen, then scanned while it is down.\<close>

definition demo_down :: nmap_host where
  "demo_down = (demo_host ''10.0.0.5'')\<lparr>nh_status := ''down''\<rparr>"

definition demo_scanned :: inv_db where
  "demo_scanned = (case ingest_nmap_document demo_inv_env ''a1'' None ''nmap'' None False [demo_down] demo_inventory of
     Inr (d, n) \<Rightarrow> d | Inl _ \<Rightarrow> demo_inventory)"

definition demo_silent :: asset_row where
  "demo_silent = hd (iv_assets demo_scanned)"

theorem summary_revives_asset_witness:
  "\<exists>e s b. summary demo_inv_env (Some (''p1'', Inr (ethernet_report ''00:1B:63:00:00:01''))) ''a1'' demo_scanned = Inr (e, s)
     \<and> b \<in> set (iv_assets e) \<and> at_id b = at_id demo_silent \<and> at_state b = AST_OBSERVED
     \<and> at_last_seen b = ie_now demo_inv_env (iv_draws demo_scanned)"
proof -
  have "ready demo_inv_env ''a1'' None demo_inventory" using demo_ready ready_no_job by blast
  then have "\<exists>e n. ingest_nmap_document demo_inv_env ''a1'' None ''nmap'' None False [demo_down] demo_inventory = Inr (e, n)
      \<and> ready demo_inv_env ''a1'' None e"
    using ingest_hosts_return [of demo_inv_env "''a1''" None demo_inventory "''nmap''" None False "[demo_down]" 0] ready_good
    by (auto simp: ingest_nmap_document_def returns_def)
  then have r: "ready demo_inv_env ''a1'' None demo_scanned" by (auto simp: demo_scanned_def)
  have "iv_assets demo_scanned \<noteq> []" "at_audit_id demo_silent = ''a1''" "at_mac demo_silent = Some ''00:1B:63:00:00:01''"
    "canonical_mac (Some ''00:1B:63:00:00:01'') = Some ''00:1B:63:00:00:01''"
    "even (first_octet ''00:1B:63:00:00:01'')" "at_state demo_silent = AST_UNRESPONSIVE"
    by code_simp+
  then show ?thesis
    using summary_revives_asset [OF r, of demo_silent "''00:1B:63:00:00:01''" "''p1''"] by (simp add: demo_silent_def)
qed

section \<open>Service conflicts\<close>

text \<open>
  A conflicting value of lower confidence is not taken over, but the stored confidence is lowered to it, so the value
  that was kept is then given up for one that ranks below the confidence it was stored with.
\<close>

lemma confidence_of_kept_value_lost:
  assumes "sr_product old = Some x" "sr_product s1 = Some y" "sr_product s2 = Some y" "x \<noteq> y" "x \<noteq> []" "y \<noteq> []"
    and "sr_confidence old = CL_HIGH" "sr_confidence s1 = CL_LOW" "sr_confidence s2 = CL_MEDIUM"
  shows "sr_product (merged_service old s1) = Some x" "sr_confidence (merged_service old s1) = CL_LOW"
    "sr_product (merged_service (merged_service old s1) s2) = Some y" "sr_product (merged_service old s2) = Some x"
  using assms by (simp_all add: merged_service_def Let_def merge_field_def field_conflict_def opt_json_def)

end
