(* ===== verification/Py_Uuid.thy ===== *)
theory Py_Uuid
  imports Py_Value
begin

text \<open>
  Base sixteen integers and UUIDs of Python's standard library: \<^verbatim>\<open>int(text, 16)\<close>, \<^verbatim>\<open>uuid.UUID(text)\<close> and \<^verbatim>\<open>str\<close> of the
  result, on code points below 256. A \<^verbatim>\<open>ValueError\<close> is \<open>None\<close>.
\<close>

section \<open>Integers in base sixteen\<close>

fun hex_digits :: "bool \<Rightarrow> nat \<Rightarrow> string \<Rightarrow> nat option" where
  "hex_digits after_digit acc [] = (if after_digit then Some acc else None)"
| "hex_digits after_digit acc (c # s) = (case digit_val c of
     Some d \<Rightarrow> hex_digits True (acc * 16 + d) s
   | None \<Rightarrow> if c = CHR ''_'' \<and> after_digit \<and> s \<noteq> [] then hex_digits False acc s else None)"

text \<open>The optional prefix \<^verbatim>\<open>0x\<close>, after which one underscore may stand.\<close>

definition drop_0x :: "string \<Rightarrow> string" where
  "drop_0x s = (if 2 \<le> length s \<and> hd s = CHR ''0'' \<and> s ! 1 \<in> {CHR ''x'', CHR ''X''}
     then (let r = drop 2 s in if r \<noteq> [] \<and> hd r = CHR ''_'' then tl r else r) else s)"

definition py_int16 :: "string \<Rightarrow> int option" where
  "py_int16 t = (let s = strip t in
     case s of [] \<Rightarrow> None
     | c # r \<Rightarrow> if c = CHR ''-'' then map_option (\<lambda>n. - int n) (hex_digits False 0 (drop_0x r))
              else if c = CHR ''+'' then map_option int (hex_digits False 0 (drop_0x r))
              else map_option int (hex_digits False 0 (drop_0x s)))"

section \<open>UUIDs\<close>

text \<open>\<^verbatim>\<open>s.replace(p, "")\<close> for a nonempty \<open>p\<close>.\<close>

fun remove_sub :: "string \<Rightarrow> string \<Rightarrow> string" where
  "remove_sub p [] = []"
| "remove_sub p (c # s) = (if p \<noteq> [] \<and> starts_with (c # s) p then remove_sub p (drop (length p) (c # s))
     else c # remove_sub p s)"

definition strip_braces :: "string \<Rightarrow> string" where
  "strip_braces s = (let brace = (\<lambda>c. c \<in> {CHR ''{'', CHR ''}''}) in rev (dropWhile brace (rev (dropWhile brace s))))"

definition uuid_hex :: "string \<Rightarrow> string" where
  "uuid_hex s = filter (\<lambda>c. c \<noteq> CHR ''-'') (strip_braces (remove_sub ''uuid:'' (remove_sub ''urn:'' s)))"

definition uuid_parse :: "string \<Rightarrow> int option" where
  "uuid_parse s = (let h = uuid_hex s in if length h \<noteq> 32 then None
     else case py_int16 h of None \<Rightarrow> None | Some n \<Rightarrow> if 0 \<le> n \<and> n < 2 ^ 128 then Some n else None)"

definition hex32 :: "nat \<Rightarrow> string" where
  "hex32 n = replicate (32 - length (hex n)) (CHR ''0'') @ hex n"

definition dashed :: "string \<Rightarrow> string" where
  "dashed h = take 8 h @ ''-'' @ take 4 (drop 8 h) @ ''-'' @ take 4 (drop 12 h) @ ''-'' @ take 4 (drop 16 h) @ ''-'' @ drop 20 h"

definition uuid_str :: "int \<Rightarrow> string" where
  "uuid_str n = dashed (hex32 (nat n))"

section \<open>Canonical text\<close>

definition lower_hex :: "char \<Rightarrow> bool" where
  "lower_hex c \<longleftrightarrow> 48 \<le> code c \<and> code c \<le> 57 \<or> 97 \<le> code c \<and> code c \<le> 102"

definition canonical_uuid :: "string \<Rightarrow> bool" where
  "canonical_uuid s \<longleftrightarrow> length s = 36 \<and> s ! 8 = CHR ''-'' \<and> s ! 13 = CHR ''-'' \<and> s ! 18 = CHR ''-'' \<and> s ! 23 = CHR ''-''
     \<and> list_all lower_hex (take 8 s @ take 4 (drop 9 s) @ take 4 (drop 14 s) @ take 4 (drop 19 s) @ drop 24 s)"

lemma digit_val_lower: "lower_hex c \<Longrightarrow> \<exists>d < 16. digit_val c = Some d \<and> digit_char d = c"
proof -
  assume a: "lower_hex c"
  have c: "char_of (code c) = c" by (simp add: code_def)
  show ?thesis
  proof (cases "code c \<le> 57")
    case True
    with a have "digit_val c = Some (code c - 48)" "digit_char (code c - 48) = c"
      using c by (auto simp: lower_hex_def digit_val_def digit_char_def)
    moreover have "code c - 48 < 16" using True by simp
    ultimately show ?thesis by blast
  next
    case False
    with a have r: "97 \<le> code c" "code c \<le> 102" by (auto simp: lower_hex_def)
    then have "digit_val c = Some (code c - 87)" "digit_char (code c - 87) = c"
      using c by (auto simp: digit_val_def digit_char_def)
    moreover have "code c - 87 < 16" using r by simp
    ultimately show ?thesis by blast
  qed
qed

lemma lower_hex_digit: "d < 16 \<Longrightarrow> lower_hex (digit_char d)"
  by (auto simp: lower_hex_def digit_char_def)

lemma hex_digits_lower:
  "list_all lower_hex s \<Longrightarrow> s \<noteq> [] \<or> b \<Longrightarrow> hex_digits b acc s =
    Some (foldl (\<lambda>a d. a * 16 + d) acc (map (\<lambda>c. case digit_val c of Some d \<Rightarrow> d | None \<Rightarrow> 0) s))"
proof (induction s arbitrary: b acc)
  case (Cons c s)
  then obtain d where "digit_val c = Some d" using digit_val_lower [of c] by auto
  with Cons show ?case by simp
qed simp

lemma hex_digits_bound: "hex_digits b acc s = Some n \<Longrightarrow> n < (acc + 1) * 16 ^ length s"
proof (induction s arbitrary: b acc)
  case (Cons c s)
  show ?case
  proof (cases "digit_val c")
    case None
    with Cons.prems have "hex_digits False acc s = Some n" by (auto split: if_splits)
    then have "n < (acc + 1) * 16 ^ length s" by (rule Cons.IH)
    then show ?thesis by simp
  next
    case (Some d)
    have "d < 16" using Some by (auto simp: digit_val_def split: if_splits)
    have "n < (acc * 16 + d + 1) * 16 ^ length s" using Cons Some by simp
    also have "\<dots> \<le> ((acc + 1) * 16) * 16 ^ length s" using \<open>d < 16\<close> by (intro mult_right_mono) auto
    also have "\<dots> = (acc + 1) * 16 ^ length (c # s)" by (simp only: mult.assoc power_Suc list.size add_Suc_right add_0_right)
    finally show ?thesis .
  qed
qed (auto split: if_splits)

lemma undigits_zero: "undigits b ds = 0 \<Longrightarrow> 2 \<le> b \<Longrightarrow> ds = replicate (length ds) 0"
proof (induction ds rule: rev_induct)
  case (snoc d ds)
  then have "ds = replicate (length ds) 0" "d = 0" by auto
  then show ?case by (metis length_append_singleton replicate_Suc replicate_append_same)
qed simp

lemma digits_pad:
  "ds \<noteq> [] \<Longrightarrow> list_all (\<lambda>d. d < b) ds \<Longrightarrow> 2 \<le> b \<Longrightarrow>
    length (digits b (undigits b ds)) \<le> length ds
    \<and> replicate (length ds - length (digits b (undigits b ds))) 0 @ digits b (undigits b ds) = ds"
proof (induction ds rule: rev_induct)
  case (snoc d ds)
  have d: "d < b" using snoc.prems by simp
  show ?case
  proof (cases "undigits b ds = 0")
    case True
    have z: "ds = replicate (length ds) 0" using undigits_zero [OF True] snoc.prems by simp
    have "digits b d = [d]" using d by (simp add: digits.simps)
    with True z d show ?thesis by (simp add: undigits_snoc)
  next
    case False
    then have ne: "ds \<noteq> []" by auto
    have "b \<le> undigits b ds * b" using False by simp
    then have "\<not> undigits b ds * b + d < b" by linarith
    then have "digits b (undigits b ds * b + d) = digits b (undigits b ds) @ [d]"
      using d snoc.prems by (subst digits.simps) simp
    with snoc ne show ?thesis by simp
  qed
qed simp

lemma hex32_lower:
  assumes "list_all lower_hex h" "length h = 32"
  shows "hex32 (from_base 16 h) = h"
proof -
  let ?ds = "map (\<lambda>c. case digit_val c of Some d \<Rightarrow> d | None \<Rightarrow> 0) h"
  have each: "digit_char (case digit_val c of Some d \<Rightarrow> d | None \<Rightarrow> 0) = c
      \<and> (case digit_val c of Some d \<Rightarrow> d | None \<Rightarrow> 0) < 16" if "c \<in> set h" for c
    using digit_val_lower [of c] assms(1) that by (auto simp: list_all_iff)
  have "list_all (\<lambda>d. d < 16) ?ds" "?ds \<noteq> []" using each assms(2) by (auto simp: list_all_iff)
  then have p: "length (digits 16 (from_base 16 h)) \<le> 32"
      "replicate (32 - length (digits 16 (from_base 16 h))) 0 @ digits 16 (from_base 16 h) = ?ds"
    using digits_pad [of ?ds 16] assms(2) by (simp_all add: from_base_def)
  have zero: "CHR ''0'' = digit_char 0" by code_simp
  have "hex32 (from_base 16 h) = map digit_char ?ds"
    unfolding hex32_def hex_def p(2) [symmetric] zero by simp
  also have "\<dots> = h" using each by (simp add: map_idI)
  finally show ?thesis .
qed

lemma hex32_chars:
  assumes "n < 2 ^ 128"
  shows "length (hex32 n) = 32" "list_all lower_hex (hex32 n)"
proof -
  have "n < 16 ^ 32" using assms by simp
  then have "length (hex n) \<le> 32" by (intro length_hex) simp_all
  then show "length (hex32 n) = 32" by (simp add: hex32_def)
  have "lower_hex CHR ''0''" by code_simp
  moreover have "lower_hex c" if "c \<in> set (hex n)" for c
    using that digits_less [of 16 _ n] lower_hex_digit by (auto simp: hex_def)
  ultimately show "list_all lower_hex (hex32 n)" by (auto simp: hex32_def list_all_iff)
qed

lemma split_8:
  assumes "length (h :: string) = 32"
  obtains a b c d e where "h = a @ b @ c @ d @ e" "length a = 8" "length b = 4" "length c = 4" "length d = 4" "length e = 12"
proof -
  have "h = take 8 h @ take 4 (drop 8 h) @ take 4 (drop 12 h) @ take 4 (drop 16 h) @ drop 20 h"
    using append_take_drop_id [of 8 h] append_take_drop_id [of 4 "drop 8 h"] append_take_drop_id [of 4 "drop 12 h"]
      append_take_drop_id [of 4 "drop 16 h"] by simp
  then show thesis by (rule that) (use assms in simp_all)
qed

lemma dashed_parts:
  assumes "length a = 8" "length b = 4" "length c = 4" "length d = 4"
  shows "dashed (a @ b @ c @ d @ e) = a @ ''-'' @ b @ ''-'' @ c @ ''-'' @ d @ ''-'' @ e"
  using assms by (simp add: dashed_def)

lemma canonical_dashed:
  assumes "length h = 32" "list_all lower_hex h"
  shows "canonical_uuid (dashed h)"
proof -
  obtain a b c d e where h: "h = a @ b @ c @ d @ e" "length a = 8" "length b = 4" "length c = 4" "length d = 4" "length e = 12"
    by (rule split_8 [OF assms(1)])
  show ?thesis using assms(2) h(2-6) unfolding h(1) dashed_parts [OF h(2-5)] canonical_uuid_def
    by (simp add: nth_append)
qed

lemma canonical_parts:
  assumes "canonical_uuid s"
  obtains h where "length h = 32" "list_all lower_hex h" "s = dashed h"
proof -
  define h where "h = take 8 s @ take 4 (drop 9 s) @ take 4 (drop 14 s) @ take 4 (drop 19 s) @ drop 24 s"
  have l: "length s = 36" "s ! 8 = CHR ''-''" "s ! 13 = CHR ''-''" "s ! 18 = CHR ''-''" "s ! 23 = CHR ''-''" "list_all lower_hex h"
    using assms by (simp_all add: canonical_uuid_def h_def)
  have cut: "drop n s = s ! n # drop (Suc n) s" if "n < 36" for n using that l(1) by (simp add: Cons_nth_drop_Suc)
  have "s = take 8 s @ s ! 8 # take 4 (drop 9 s) @ s ! 13 # take 4 (drop 14 s) @ s ! 18 # take 4 (drop 19 s) @ s ! 23 # drop 24 s"
    using append_take_drop_id [of 8 s] append_take_drop_id [of 4 "drop 9 s"] append_take_drop_id [of 4 "drop 14 s"]
      append_take_drop_id [of 4 "drop 19 s"] cut [of 8] cut [of 13] cut [of 18] cut [of 23] by simp
  then have "s = dashed h" unfolding h_def using l(1) l(2-5) by (subst dashed_parts) (simp_all)
  moreover have "length h = 32" using l(1) by (simp add: h_def)
  ultimately show thesis using l(6) that by blast
qed

lemma remove_sub_absent: "x \<in> set p \<Longrightarrow> x \<notin> set s \<Longrightarrow> remove_sub p s = s"
proof (induction p s rule: remove_sub.induct)
  case (2 p c s)
  have "\<not> starts_with (c # s) p"
  proof
    assume "starts_with (c # s) p"
    then obtain t where "c # s = p @ t" by (auto simp: starts_with_iff)
    with 2(3,4) show False by (metis UnI1 set_append)
  qed
  with 2 show ?case by simp
qed simp

lemma lower_hex_plain: "lower_hex c \<Longrightarrow> c \<notin> {CHR ''-'', CHR '':'', CHR ''{'', CHR ''}'', CHR ''+'', CHR ''_'', CHR ''x'', CHR ''X''}"
  by (auto simp: lower_hex_def code_def)

lemma lower_hex_not_space: "lower_hex c \<Longrightarrow> \<not> is_space c"
  by (auto simp: lower_hex_def is_space_def)

lemma uuid_hex_dashed:
  assumes "length h = 32" "list_all lower_hex h"
  shows "uuid_hex (dashed h) = h"
proof -
  obtain a b c d e where h: "h = a @ b @ c @ d @ e" "length a = 8" "length b = 4" "length c = 4" "length d = 4" "length e = 12"
    by (rule split_8 [OF assms(1)])
  have plain: "\<And>x. x \<in> set h \<Longrightarrow> x \<notin> {CHR ''-'', CHR '':'', CHR ''{'', CHR ''}''}"
    using lower_hex_plain assms(2) by (auto simp: list_all_iff)
  note s = dashed_parts [OF h(2-5), of e]
  have "CHR '':'' \<notin> set (dashed h)" using plain unfolding h(1) s by auto
  then have r: "remove_sub ''uuid:'' (remove_sub ''urn:'' (dashed h)) = dashed h"
    by (simp add: remove_sub_absent [of "CHR '':''"])
  have "a \<noteq> []" "e \<noteq> []" using h by auto
  moreover from this have "hd a \<in> set h" "last e \<in> set h" by (simp_all add: h(1))
  ultimately have "strip_braces (dashed h) = dashed h"
    using plain unfolding strip_braces_def h(1) s Let_def
    by (subst (1 2) dropWhile_hd) (auto simp: hd_rev)
  with r show ?thesis using plain unfolding uuid_hex_def h(1) s by (auto simp: filter_id_conv)
qed

lemma uuid_parse_canonical:
  assumes "canonical_uuid s"
  shows "\<exists>n. uuid_parse s = Some n \<and> uuid_str n = s"
proof -
  obtain h where h: "length h = 32" "list_all lower_hex h" "s = dashed h" by (rule canonical_parts [OF assms])
  have u: "uuid_hex s = h" using uuid_hex_dashed [OF h(1,2)] h(3) by simp
  obtain c r where c: "h = c # r" using h(1) by (cases h) auto
  have l: "lower_hex x" if "x \<in> set h" for x using h(2) that by (simp add: list_all_iff)
  have "h ! 1 \<in> set h" "c \<in> set h" "last h \<in> set h" using h(1) c by simp_all
  then have p: "strip h = h" "c \<noteq> CHR ''-''" "c \<noteq> CHR ''+''" "h ! 1 \<notin> {CHR ''x'', CHR ''X''}"
    using l lower_hex_plain lower_hex_not_space c by (auto intro!: strip_id)
  have d: "hex_digits False 0 h = Some (from_base 16 h)"
    using hex_digits_lower [OF h(2), of False 0] c by (auto simp: from_base_def undigits_def)
  have i: "py_int16 h = Some (int (from_base 16 h))"
    using p d by (simp add: py_int16_def drop_0x_def c)
  have "from_base 16 h < 2 ^ 128" using hex_digits_bound [OF d] h(1) by simp
  then have "uuid_parse s = Some (int (from_base 16 h))" using u i h(1) by (simp add: uuid_parse_def)
  moreover have "uuid_str (int (from_base 16 h)) = s" using hex32_lower [OF h(2,1)] h(3) by (simp add: uuid_str_def)
  ultimately show ?thesis by blast
qed

lemma uuid_str_canonical: "uuid_parse s = Some n \<Longrightarrow> canonical_uuid (uuid_str n)"
proof -
  assume "uuid_parse s = Some n"
  then have "nat n < 2 ^ 128" by (auto simp: uuid_parse_def Let_def split: if_splits option.splits)
  from hex32_chars [OF this] show ?thesis by (simp add: uuid_str_def canonical_dashed)
qed

end
