(* ===== verification/Evidence_Store.thy ===== *)
theory Evidence_Store
  imports Py_Uuid Job_State
begin

text \<open>
  The evidence store (\<^verbatim>\<open>storage/evidence.py\<close>): files under a private root, written through a temporary file, and the rows
  of the \<^verbatim>\<open>artifacts\<close> table that describe them, with the file part of audit deletion (\<^verbatim>\<open>backend/audit_deletion.py\<close>).

  A path is the list of its components; the file system maps paths to contents (bytes) and modification times. Calls of the
  operating system may fail: \<open>pf_fails\<close> gives the text of the \<^verbatim>\<open>OSError\<close> of a call that fails in this run of an operation.
  \<open>ev_sha256\<close> is the digest, \<open>ev_realpath\<close> the resolution of symbolic links and dot segments, \<open>ev_loads\<close> is \<^verbatim>\<open>json.loads\<close>. The
  UUIDs an operation draws and its clock readings are arguments. Times are microseconds.
\<close>

section \<open>Files\<close>

type_synonym path = "string list"

record stored_file =
  fl_data :: string
  fl_mtime :: int

type_synonym fs = "(path \<times> stored_file) list"

definition fs_get :: "fs \<Rightarrow> path \<Rightarrow> stored_file option" where
  "fs_get f p = map_of f p"

definition fs_put :: "path \<Rightarrow> stored_file \<Rightarrow> fs \<Rightarrow> fs" where
  "fs_put p x f = dict_set p x f"

definition fs_remove :: "path \<Rightarrow> fs \<Rightarrow> fs" where
  "fs_remove p f = filter (\<lambda>e. fst e \<noteq> p) f"

text \<open>A path below a directory.\<close>

definition is_relative_to :: "path \<Rightarrow> path \<Rightarrow> bool" where
  "is_relative_to p d \<longleftrightarrow> take (length d) p = d"

definition relative_to :: "path \<Rightarrow> path \<Rightarrow> string" where
  "relative_to p d = join_on ''/'' (drop (length d) p)"

text \<open>\<^verbatim>\<open>directory / text\<close>: an absolute text replaces the directory, empty and dot segments vanish.\<close>

definition segments :: "string \<Rightarrow> path" where
  "segments s = filter (\<lambda>w. w \<noteq> [] \<and> w \<noteq> ''.'') (split_on CHR ''/'' s)"

definition join_path :: "path \<Rightarrow> string \<Rightarrow> path" where
  "join_path d s = (if s \<noteq> [] \<and> hd s = CHR ''/'' then segments s else d @ segments s)"

section \<open>Rows and state\<close>

datatype retention_class = RC_TEMPORARY | RC_AUDIT | RC_DEBUG | RC_REPORT

record artifact =
  af_id :: string
  af_audit_id :: string
  af_job_id :: "string option"
  af_type :: string
  af_relative_path :: string
  af_content_type :: string
  af_size :: nat
  af_sha256 :: string
  af_created_at :: int
  af_retention :: retention_class
  af_schema_name :: "string option"
  af_schema_version :: "int option"

record evidence =
  ev_root :: path
  ev_files :: fs
  ev_dirs :: "path list"
  ev_audits :: "string list"
  ev_jobs :: "(string \<times> string) list"
  ev_artifacts :: "artifact list"

record ev_env =
  ev_sha256 :: "string \<Rightarrow> string"
  ev_realpath :: "path \<Rightarrow> path"
  ev_loads :: "string \<Rightarrow> string + json"
  ev_integrity_text :: string

datatype ev_error = EV_JobExecutionError job_error | EV_OSError string

section \<open>Errors and identifiers\<close>

definition storage_error :: "string \<Rightarrow> string \<Rightarrow> ev_error" where
  "storage_error ecode message = EV_JobExecutionError \<lparr>je_code = ecode, je_category = EC_STORAGE, je_message = message,
     je_component = ''evidence_store'', je_retryable = False, je_details = []\<rparr>"

definition validate_identifier :: "string \<Rightarrow> ev_error + unit" where
  "validate_identifier value = (case uuid_parse value of
     None \<Rightarrow> Inl (storage_error ''invalid_artifact_identifier'' ''Artifact identifiers must be UUIDs'')
   | Some parsed \<Rightarrow> if uuid_str parsed \<noteq> value
       then Inl (storage_error ''invalid_artifact_identifier'' ''Artifact identifiers must use canonical UUID format'')
       else Inr ())"

definition valid_extension :: "string \<Rightarrow> bool" where
  "valid_extension extension \<longleftrightarrow> starts_with extension ''.'' \<and> CHR ''/'' \<notin> set extension"

section \<open>Writing\<close>

datatype os_call = OS_MKDIR | OS_SOURCE | OS_OPEN | OS_CHMOD | OS_WRITE | OS_FSYNC | OS_REPLACE | OS_FSYNC_DIRECTORY | OS_COMMIT
  | OS_UNLINK_TEMP | OS_UNLINK_FINAL

text \<open>\<open>pf_written\<close> bytes reach the file before a write fails.\<close>

record put_faults =
  pf_fails :: "os_call \<Rightarrow> string option"
  pf_written :: nat

record put_draws =
  pd_artifact :: string
  pd_temp :: string
  pd_now :: int

record put_request =
  pr_audit_id :: string
  pr_job_id :: "string option"
  pr_type :: string
  pr_content_type :: string
  pr_extension :: string
  pr_retention :: retention_class
  pr_schema_name :: "string option"
  pr_schema_version :: "int option"

text \<open>\<^verbatim>\<open>mkdir(parents=True, exist_ok=True)\<close>: the directory and its parents below the root.\<close>

definition mkdirs :: "path \<Rightarrow> path \<Rightarrow> path list \<Rightarrow> path list" where
  "mkdirs root d ds = ds @ filter (\<lambda>x. x \<notin> set ds) (map (\<lambda>n. take n d) [length root..<Suc (length d)])"

definition artifact_directory :: "path \<Rightarrow> put_request \<Rightarrow> path" where
  "artifact_directory root r = root @ [pr_audit_id r, (if truthy (pr_job_id r) then the (pr_job_id r) else ''audit'')]"

definition check_request :: "put_request \<Rightarrow> string \<Rightarrow> ev_error + unit" where
  "check_request r artifact_id =
     rbind (validate_identifier (pr_audit_id r)) (\<lambda>_.
     rbind (case pr_job_id r of None \<Rightarrow> Inr () | Some j \<Rightarrow> validate_identifier j) (\<lambda>_.
     rbind (validate_identifier artifact_id) (\<lambda>_.
       if \<not> valid_extension (pr_extension r)
       then Inl (storage_error ''invalid_artifact_extension'' ''Artifact extension is invalid'') else Inr ())))"

definition os_error :: "put_faults \<Rightarrow> os_call \<Rightarrow> string + unit" where
  "os_error pf c = (case pf_fails pf c of Some t \<Rightarrow> Inl t | None \<Rightarrow> Inr ())"

text \<open>The steps of a write that touch files: the file system when the steps stop, with the text of the error, if any.\<close>

definition write_temp :: "put_faults \<Rightarrow> int \<Rightarrow> path \<Rightarrow> string \<Rightarrow> fs \<Rightarrow> fs \<times> (string + unit)" where
  "write_temp pf now temp payload f =
     (if fs_get f temp \<noteq> None then (f, Inl (''[Errno 17] File exists: '' @ repr_str (''/'' @ join_on ''/'' temp)))
      else case os_error pf OS_OPEN of Inl t \<Rightarrow> (f, Inl t) | Inr _ \<Rightarrow>
       (case os_error pf OS_CHMOD of Inl t \<Rightarrow> (fs_put temp \<lparr>fl_data = [], fl_mtime = now\<rparr> f, Inl t) | Inr _ \<Rightarrow>
        (case os_error pf OS_WRITE of
           Inl t \<Rightarrow> (fs_put temp \<lparr>fl_data = take (pf_written pf) payload, fl_mtime = now\<rparr> f, Inl t)
         | Inr _ \<Rightarrow> (fs_put temp \<lparr>fl_data = payload, fl_mtime = now\<rparr> f, os_error pf OS_FSYNC))))"

definition replace_file :: "put_faults \<Rightarrow> path \<Rightarrow> path \<Rightarrow> fs \<Rightarrow> fs \<times> (string + unit)" where
  "replace_file pf temp final f = (case os_error pf OS_REPLACE of Inl t \<Rightarrow> (f, Inl t) | Inr _ \<Rightarrow>
     (case fs_get f temp of None \<Rightarrow> (f, Inl (''[Errno 2] No such file or directory''))
      | Some x \<Rightarrow> (fs_put final x (fs_remove temp f), os_error pf OS_FSYNC_DIRECTORY)))"

definition integrity_ok :: "evidence \<Rightarrow> artifact \<Rightarrow> bool" where
  "integrity_ok s a \<longleftrightarrow> af_id a \<notin> af_id ` set (ev_artifacts s) \<and> af_relative_path a \<notin> af_relative_path ` set (ev_artifacts s)
     \<and> af_audit_id a \<in> set (ev_audits s) \<and> (case af_job_id a of None \<Rightarrow> True | Some j \<Rightarrow> j \<in> fst ` set (ev_jobs s))"

definition register_artifact :: "ev_env \<Rightarrow> put_faults \<Rightarrow> artifact \<Rightarrow> evidence \<Rightarrow> string + evidence" where
  "register_artifact env pf a s =
     (if \<not> integrity_ok s a then Inl (ev_integrity_text env)
      else case os_error pf OS_COMMIT of Inl t \<Rightarrow> Inl t | Inr _ \<Rightarrow> Inr (s\<lparr>ev_artifacts := ev_artifacts s @ [a]\<rparr>))"

text \<open>The \<^verbatim>\<open>except\<close> clause: remove what was written, then raise. A failing \<^verbatim>\<open>unlink\<close> raises in its place.\<close>

definition cleanup_put :: "put_faults \<Rightarrow> path \<Rightarrow> path \<Rightarrow> ev_error \<Rightarrow> fs \<Rightarrow> fs \<times> ev_error" where
  "cleanup_put pf temp final e f = (case os_error pf OS_UNLINK_TEMP of Inl t \<Rightarrow> (f, EV_OSError t) | Inr _ \<Rightarrow>
     (let f' = fs_remove temp f
      in case os_error pf OS_UNLINK_FINAL of Inl t \<Rightarrow> (f', EV_OSError t) | Inr _ \<Rightarrow> (fs_remove final f', e)))"

definition artifact_of ::
  "ev_env \<Rightarrow> put_request \<Rightarrow> put_draws \<Rightarrow> string \<Rightarrow> nat \<Rightarrow> string \<Rightarrow> artifact" where
  "artifact_of env r d relative sz digest = \<lparr>af_id = pd_artifact d, af_audit_id = pr_audit_id r, af_job_id = pr_job_id r,
     af_type = pr_type r, af_relative_path = relative, af_content_type = pr_content_type r, af_size = sz,
     af_sha256 = digest, af_created_at = pd_now d, af_retention = pr_retention r, af_schema_name = pr_schema_name r,
     af_schema_version = pr_schema_version r\<rparr>"

definition final_path :: "path \<Rightarrow> put_request \<Rightarrow> put_draws \<Rightarrow> path" where
  "final_path root r d = artifact_directory root r @ [pd_artifact d @ pr_extension r]"

definition temp_path :: "path \<Rightarrow> put_request \<Rightarrow> put_draws \<Rightarrow> path" where
  "temp_path root r d = artifact_directory root r @ [pd_artifact d @ pr_extension r @ ''.tmp-'' @ pd_temp d]"

text \<open>
  \<^verbatim>\<open>put_bytes\<close> and \<^verbatim>\<open>import_file\<close> share their frame: \<open>write\<close> is the part between opening the temporary file and closing it, with
  the size and digest it computed.
\<close>

definition store_artifact ::
  "ev_env \<Rightarrow> put_faults \<Rightarrow> put_draws \<Rightarrow> put_request \<Rightarrow> string \<Rightarrow> string
     \<Rightarrow> (path \<Rightarrow> fs \<Rightarrow> fs \<times> (string + nat \<times> string)) \<Rightarrow> evidence \<Rightarrow> evidence \<times> (ev_error + artifact)" where
  "store_artifact env pf d r ecode prefix write s =
     (case check_request r (pd_artifact d) of Inl e \<Rightarrow> (s, Inl e) | Inr _ \<Rightarrow>
      (case os_error pf OS_MKDIR of Inl t \<Rightarrow> (s, Inl (storage_error ecode (prefix @ t))) | Inr _ \<Rightarrow>
        (let root = ev_root s; final = final_path root r d; temp = temp_path root r d;
             s1 = s\<lparr>ev_dirs := mkdirs root (artifact_directory root r) (ev_dirs s)\<rparr>;
             stop = (\<lambda>f t. let (f', e) = cleanup_put pf temp final (storage_error ecode (prefix @ t)) f
                           in (s1\<lparr>ev_files := f'\<rparr>, Inl e))
         in case write temp (ev_files s1) of
              (f, Inl t) \<Rightarrow> stop f t
            | (f, Inr (sz, digest)) \<Rightarrow> (case replace_file pf temp final f of
                (f', Inl t) \<Rightarrow> stop f' t
              | (f', Inr _) \<Rightarrow>
                  let a = artifact_of env r d (relative_to final root) sz digest
                  in case register_artifact env pf a (s1\<lparr>ev_files := f'\<rparr>) of
                       Inl t \<Rightarrow> stop f' t
                     | Inr s' \<Rightarrow> (s', Inr a)))))"

definition put_bytes ::
  "ev_env \<Rightarrow> put_faults \<Rightarrow> put_draws \<Rightarrow> put_request \<Rightarrow> string \<Rightarrow> evidence \<Rightarrow> evidence \<times> (ev_error + artifact)" where
  "put_bytes env pf d r payload s =
     store_artifact env pf d r ''artifact_write_failed'' ''Could not persist artifact: ''
       (\<lambda>temp f. case write_temp pf (pd_now d) temp payload f of
          (f', Inl t) \<Rightarrow> (f', Inl t)
        | (f', Inr _) \<Rightarrow> (f', Inr (length payload, ev_sha256 env payload))) s"

text \<open>The text of a document in UTF-8.\<close>

definition utf8 :: "string \<Rightarrow> string" where
  "utf8 s = concat (map (\<lambda>c. if code c < 128 then [c] else [char_of (192 + code c div 64), char_of (128 + code c mod 64)]) s)"

definition put_json ::
  "ev_env \<Rightarrow> put_faults \<Rightarrow> put_draws \<Rightarrow> put_request \<Rightarrow> json_obj \<Rightarrow> evidence \<Rightarrow> evidence \<times> (ev_error + artifact)" where
  "put_json env pf d r document s =
     put_bytes env pf d (r\<lparr>pr_content_type := ''application/json'', pr_extension := ''.json''\<rparr>) (utf8 (json_dumps (JObj document))) s"

section \<open>Importing\<close>

text \<open>The copying loop of \<^verbatim>\<open>import_file\<close>: read at most \<open>k\<close> bytes, until a read returns none. The state is what was written, the
  bytes given to the digest, and the size.\<close>

function copy_chunks :: "nat \<Rightarrow> string \<Rightarrow> string \<times> string \<times> nat \<Rightarrow> string \<times> string \<times> nat" where
  "copy_chunks k input st =
     (let chunk = take k input
      in if chunk = [] then st
         else copy_chunks k (drop k input)
           (fst st @ chunk, fst (snd st) @ chunk, snd (snd st) + length chunk))"
  by pat_completeness auto
termination
  by (relation "measure (\<lambda>(k, input, st). length input)") auto

declare copy_chunks.simps [simp del]

definition CHUNK :: nat where
  "CHUNK = 1024 * 1024"

definition import_file ::
  "ev_env \<Rightarrow> put_faults \<Rightarrow> put_draws \<Rightarrow> put_request \<Rightarrow> path \<Rightarrow> evidence \<Rightarrow> evidence \<times> (ev_error + artifact)" where
  "import_file env pf d r source s =
     store_artifact env pf d (r\<lparr>pr_schema_name := None, pr_schema_version := None\<rparr>)
       ''artifact_import_failed'' ''Could not import artifact: ''
       (\<lambda>temp f. case os_error pf OS_SOURCE of Inl t \<Rightarrow> (f, Inl t) | Inr _ \<Rightarrow>
          (case fs_get f source of
             None \<Rightarrow> (f, Inl (''[Errno 2] No such file or directory: '' @ repr_str (''/'' @ join_on ''/'' source)))
           | Some x \<Rightarrow> (case copy_chunks CHUNK (fl_data x) ([], [], 0) of (output, digested, sz) \<Rightarrow>
               (case write_temp pf (pd_now d) temp output f of
                  (f', Inl t) \<Rightarrow> (f', Inl t)
                | (f', Inr _) \<Rightarrow> (f', Inr (sz, ev_sha256 env digested)))))) s"

section \<open>Reading\<close>

definition path_for :: "ev_env \<Rightarrow> artifact \<Rightarrow> evidence \<Rightarrow> ev_error + path" where
  "path_for env a s = (let candidate = ev_realpath env (join_path (ev_root s) (af_relative_path a))
     in if is_relative_to candidate (ev_root s) then Inr candidate
        else Inl (storage_error ''unsafe_artifact_path'' ''Artifact path escaped the controlled storage root''))"

definition read_failed :: "string \<Rightarrow> ev_error" where
  "read_failed t = storage_error ''artifact_read_failed'' (''Could not read artifact: '' @ t)"

definition read_bytes :: "ev_env \<Rightarrow> artifact \<Rightarrow> evidence \<Rightarrow> ev_error + string" where
  "read_bytes env a s = rbind (path_for env a s) (\<lambda>p. case fs_get (ev_files s) p of
     None \<Rightarrow> Inl (read_failed (''[Errno 2] No such file or directory: '' @ repr_str (''/'' @ join_on ''/'' p)))
   | Some x \<Rightarrow> if ev_sha256 env (fl_data x) \<noteq> af_sha256 a then Inl (read_failed ''Artifact checksum mismatch'')
       else Inr (fl_data x))"

definition read_json :: "ev_env \<Rightarrow> artifact \<Rightarrow> evidence \<Rightarrow> ev_error + json_obj" where
  "read_json env a s = rbind (read_bytes env a s) (\<lambda>payload. case ev_loads env payload of
     Inl t \<Rightarrow> Inl (read_failed t)
   | Inr (JObj d) \<Rightarrow> Inr d
   | Inr _ \<Rightarrow> Inl (read_failed ''Artifact root must be an object''))"

section \<open>Cleaning up\<close>

definition is_temporary :: "path \<Rightarrow> bool" where
  "is_temporary p \<longleftrightarrow> p \<noteq> [] \<and> contains_str (last p) ''.tmp-''"

text \<open>The loop of both cleanups over the files found below the root: the files left and the number removed, or the error of an
  \<^verbatim>\<open>unlink\<close> that failed.\<close>

fun remove_files ::
  "(path \<Rightarrow> string option) \<Rightarrow> (path \<times> stored_file \<Rightarrow> bool) \<Rightarrow> (path \<times> stored_file) list \<Rightarrow> fs \<times> nat \<Rightarrow> fs \<times> (ev_error + nat)" where
  "remove_files fails old [] st = (fst st, Inr (snd st))"
| "remove_files fails old (e # es) st =
     (if old e then (case fails (fst e) of Some t \<Rightarrow> (fst st, Inl (EV_OSError t))
        | None \<Rightarrow> remove_files fails old es (fs_remove (fst e) (fst st), Suc (snd st)))
      else remove_files fails old es st)"

definition below_root :: "evidence \<Rightarrow> (path \<times> stored_file) list" where
  "below_root s = filter (\<lambda>e. is_relative_to (fst e) (ev_root s) \<and> fst e \<noteq> ev_root s) (ev_files s)"

definition cleanup_stale_temporary_files ::
  "(path \<Rightarrow> string option) \<Rightarrow> int \<Rightarrow> int \<Rightarrow> evidence \<Rightarrow> evidence \<times> (ev_error + nat)" where
  "cleanup_stale_temporary_files fails now age s =
     (case remove_files fails (\<lambda>e. fl_mtime (snd e) < now - age * 1000000)
        (filter (\<lambda>e. is_temporary (fst e)) (below_root s)) (ev_files s, 0) of (f, res) \<Rightarrow> (s\<lparr>ev_files := f\<rparr>, res))"

definition artifact_files :: "evidence \<Rightarrow> (path \<times> stored_file) list" where
  "artifact_files s = filter (\<lambda>e. \<not> is_temporary (fst e)) (below_root s)"

definition cleanup_orphan_files ::
  "(path \<Rightarrow> string option) \<Rightarrow> int \<Rightarrow> int \<Rightarrow> evidence \<Rightarrow> evidence \<times> (ev_error + nat)" where
  "cleanup_orphan_files fails now age s =
     (let known = af_relative_path ` set (ev_artifacts s)
      in case remove_files fails (\<lambda>e. relative_to (fst e) (ev_root s) \<notin> known \<and> fl_mtime (snd e) < now - age * 1000000)
           (artifact_files s) (ev_files s, 0) of (f, res) \<Rightarrow> (s\<lparr>ev_files := f\<rparr>, res))"

section \<open>Deleting an audit\<close>

record audit_deletion =
  dl_audit_id :: string
  dl_artifact_count :: nat
  dl_deleted_files :: nat
  dl_directory_removed :: bool
  dl_cleanup_pending :: bool

text \<open>The deletion of the audit row cascades to its jobs and artifacts; an artifact of another audit loses a deleted job.\<close>

definition drop_audit_rows :: "string \<Rightarrow> evidence \<Rightarrow> evidence" where
  "drop_audit_rows audit s =
     (let gone = fst ` set (filter (\<lambda>j. snd j = audit) (ev_jobs s))
      in s\<lparr>ev_audits := filter (\<lambda>i. i \<noteq> audit) (ev_audits s), ev_jobs := filter (\<lambda>j. snd j \<noteq> audit) (ev_jobs s),
        ev_artifacts := map (\<lambda>a. case af_job_id a of None \<Rightarrow> a | Some j \<Rightarrow> if j \<in> gone then a\<lparr>af_job_id := None\<rparr> else a)
          (filter (\<lambda>a. af_audit_id a \<noteq> audit) (ev_artifacts s))\<rparr>)"

text \<open>\<^verbatim>\<open>shutil.rmtree\<close>: \<open>fault = Some n\<close> when it fails after it removed the first \<open>n\<close> files.\<close>

definition remove_tree :: "nat option \<Rightarrow> path \<Rightarrow> evidence \<Rightarrow> evidence" where
  "remove_tree fault dir s =
     (let inside = filter (\<lambda>e. is_relative_to (fst e) dir) (ev_files s)
      in case fault of
           None \<Rightarrow> s\<lparr>ev_files := filter (\<lambda>e. \<not> is_relative_to (fst e) dir) (ev_files s),
                     ev_dirs := filter (\<lambda>p. \<not> is_relative_to p dir) (ev_dirs s)\<rparr>
         | Some n \<Rightarrow> s\<lparr>ev_files := filter (\<lambda>e. fst e \<notin> fst ` set (take n inside)) (ev_files s)\<rparr>)"

definition delete_audit_files :: "ev_env \<Rightarrow> nat option \<Rightarrow> string \<Rightarrow> evidence \<Rightarrow> evidence \<times> (string + audit_deletion)" where
  "delete_audit_files env fault audit s =
     (let count = length (filter (\<lambda>a. af_audit_id a = audit) (ev_artifacts s)); s1 = drop_audit_rows audit s;
          dir = ev_realpath env (join_path (ev_root s) audit)
      in if \<not> is_relative_to dir (ev_root s) then (s1, Inl ''Audit evidence path escaped the controlled root'')
         else if dir \<in> set (ev_dirs s1)
         then (remove_tree fault dir s1,
           Inr \<lparr>dl_audit_id = audit, dl_artifact_count = count,
             dl_deleted_files = length (filter (\<lambda>e. is_relative_to (fst e) dir) (ev_files s1)),
             dl_directory_removed = (fault = None), dl_cleanup_pending = (fault \<noteq> None)\<rparr>)
         else (s1, Inr \<lparr>dl_audit_id = audit, dl_artifact_count = count, dl_deleted_files = 0,
             dl_directory_removed = True, dl_cleanup_pending = False\<rparr>))"

end
