(* ===== verification/Evidence_Facts.thy ===== *)
theory Evidence_Facts
  imports Evidence_Store
begin

text \<open>
  Laws of the evidence store: the file map as a locale with its interpretation, where artifacts lie, what a write does to the
  files in every outcome, and the invariant that every registered artifact is whole.
\<close>

section \<open>The file map\<close>

locale file_map =
  fixes get :: "'f \<Rightarrow> 'p \<Rightarrow> 'x option" and put :: "'p \<Rightarrow> 'x \<Rightarrow> 'f \<Rightarrow> 'f" and remove :: "'p \<Rightarrow> 'f \<Rightarrow> 'f"
  assumes get_put: "get (put p x f) q = (if q = p then Some x else get f q)"
    and get_remove: "get (remove p f) q = (if q = p then None else get f q)"
begin

lemma get_move: "get f p = Some x \<Longrightarrow> get (put q x (remove p f)) r = (if r = q then Some x else if r = p then None else get f r)"
  by (simp add: get_put get_remove)

lemma remove_put_back:
  assumes "get f p = None" "get f q = None" "\<And>r. r \<notin> {p, q} \<Longrightarrow> get g r = get f r"
  shows "get (remove q (remove p g)) = get f"
  using assms by (auto simp: fun_eq_iff get_remove)

end

interpretation fsm: file_map fs_get fs_put fs_remove
proof
  fix p q :: path and x f
  show "fs_get (fs_put p x f) q = (if q = p then Some x else fs_get f q)"
    by (simp add: fs_get_def fs_put_def)
  show "fs_get (fs_remove p f) q = (if q = p then None else fs_get f q)"
    by (induction f) (auto simp: fs_get_def fs_remove_def)
qed

lemmas fs_simps [simp] = fsm.get_put fsm.get_remove

lemma fs_get_filter: "(\<And>x. P (p, x)) \<Longrightarrow> fs_get (filter P f) p = fs_get f p"
  by (induction f) (auto simp: fs_get_def)

lemma fs_get_mem: "fs_get f p = Some x \<Longrightarrow> (p, x) \<in> set f"
  by (simp add: fs_get_def map_of_SomeD)

section \<open>Where artifacts lie\<close>

lemma validate_identifier_iff: "validate_identifier v = Inr () \<longleftrightarrow> canonical_uuid v"
proof
  assume "validate_identifier v = Inr ()"
  then obtain n where "uuid_parse v = Some n" "uuid_str n = v"
    by (auto simp: validate_identifier_def split: option.splits if_splits)
  then show "canonical_uuid v" using uuid_str_canonical by blast
next
  assume "canonical_uuid v"
  from uuid_parse_canonical [OF this] show "validate_identifier v = Inr ()"
    by (auto simp: validate_identifier_def)
qed

lemma canonical_length: "canonical_uuid v \<Longrightarrow> length v = 36"
  by (simp add: canonical_uuid_def)

lemma canonical_chars:
  assumes "canonical_uuid v" "c \<in> set v"
  shows "lower_hex c \<or> c = CHR ''-''"
proof -
  obtain h where h: "length h = 32" "list_all lower_hex h" "v = dashed h" by (rule canonical_parts [OF assms(1)])
  have "set (dashed h) \<subseteq> set h \<union> {CHR ''-''}"
    by (auto simp: dashed_def dest: in_set_takeD in_set_dropD)
  with assms(2) h show ?thesis by (auto simp: list_all_iff)
qed

lemma canonical_plain: "canonical_uuid v \<Longrightarrow> CHR ''/'' \<notin> set v \<and> CHR ''.'' \<notin> set v"
  using canonical_chars [of v] by (fastforce simp: lower_hex_def code_def)

text \<open>The directory of an artifact's audit and job, and its name.\<close>

definition plain_segment :: "string \<Rightarrow> bool" where
  "plain_segment w \<longleftrightarrow> w \<noteq> [] \<and> w \<noteq> ''.'' \<and> w \<noteq> ''..'' \<and> CHR ''/'' \<notin> set w"

lemma segments_join:
  assumes "ws \<noteq> []" "\<And>w. w \<in> set ws \<Longrightarrow> plain_segment w"
  shows "segments (join_on ''/'' ws) = ws"
proof -
  have "split_on CHR ''/'' (join_on ''/'' ws) = ws"
    using assms by (intro split_join) (auto simp: plain_segment_def)
  then show ?thesis using assms(2) by (simp add: segments_def plain_segment_def filter_id_conv)
qed

lemma hd_join_on: "w \<noteq> [] \<Longrightarrow> hd (join_on sep (w # ws)) = hd w \<and> join_on sep (w # ws) \<noteq> []"
  by (cases ws) auto

lemma join_path_relative:
  assumes "ws \<noteq> []" "\<And>w. w \<in> set ws \<Longrightarrow> plain_segment w"
  shows "join_path root (join_on ''/'' ws) = root @ ws"
proof -
  obtain w vs where ws: "ws = w # vs" using assms(1) by (cases ws) auto
  then have "plain_segment w" using assms(2) by simp
  then have "hd w \<in> set w" "CHR ''/'' \<notin> set w" "w \<noteq> []" by (auto simp: plain_segment_def)
  then have "hd (join_on ''/'' ws) \<noteq> CHR ''/''" using hd_join_on [of w "''/''" vs] ws by metis
  then show ?thesis using segments_join [OF assms] by (simp add: join_path_def)
qed

lemma plain_uuid: "canonical_uuid v \<Longrightarrow> plain_segment v"
  using canonical_plain [of v] canonical_length [of v] by (auto simp: plain_segment_def)

lemma plain_audit: "plain_segment ''audit''"
  by (simp add: plain_segment_def)

lemma plain_name:
  assumes "canonical_uuid v" "valid_extension e"
  shows "plain_segment (v @ e)"
proof -
  have "v @ e \<noteq> w" if "length w < 36" for w using canonical_length [OF assms(1)] that by auto
  from this [of "''.''"] this [of "''..''"] this [of "[]"] have "v @ e \<noteq> ''.''" "v @ e \<noteq> ''..''" "v @ e \<noteq> []" by simp_all
  then show ?thesis using canonical_plain [OF assms(1)] assms(2) by (auto simp: plain_segment_def valid_extension_def)
qed

text \<open>An artifact row is placed when its path is that of its audit, a job directory, and its own name.\<close>

definition placed :: "artifact \<Rightarrow> path \<Rightarrow> bool" where
  "placed a p \<longleftrightarrow> (\<exists>dir e. p = [af_audit_id a, dir, af_id a @ e] \<and> af_relative_path a = join_on ''/'' p \<and> canonical_uuid (af_audit_id a)
     \<and> (dir = ''audit'' \<or> canonical_uuid dir) \<and> canonical_uuid (af_id a) \<and> valid_extension e)"

lemma placed_plain: "placed a p \<Longrightarrow> w \<in> set p \<Longrightarrow> plain_segment w"
  by (auto simp: placed_def intro: plain_uuid plain_audit plain_name)

lemma placed_path: "placed a p \<Longrightarrow> join_path root (af_relative_path a) = root @ p"
  using join_path_relative [of p root] placed_plain [of a p] by (auto simp: placed_def)

lemma placed_unique: "placed a p \<Longrightarrow> placed b q \<Longrightarrow> p = q \<Longrightarrow> af_id a = af_id b"
  by (auto simp: placed_def dest!: canonical_length)

lemma placed_same: "placed a p \<Longrightarrow> placed a q \<Longrightarrow> p = q"
  using placed_path [of a p "[]"] placed_path [of a q "[]"] by simp

text \<open>No symbolic link below the root: a path without dot segments is its own resolution.\<close>

definition no_links :: "ev_env \<Rightarrow> path \<Rightarrow> bool" where
  "no_links env root \<longleftrightarrow> (\<forall>ws. (\<forall>w \<in> set ws. plain_segment w) \<longrightarrow> ev_realpath env (root @ ws) = root @ ws)"

lemma is_relative_to_append [simp]: "is_relative_to (d @ p) d"
  by (simp add: is_relative_to_def)

lemma relative_to_append [simp]: "relative_to (d @ p) d = join_on ''/'' p"
  by (simp add: relative_to_def)

lemma path_for_placed: "placed a p \<Longrightarrow> no_links env (ev_root s) \<Longrightarrow> path_for env a s = Inr (ev_root s @ p)"
  using placed_plain [of a p] by (simp add: path_for_def placed_path no_links_def Let_def)

section \<open>Writing\<close>

text \<open>What the part of a write between opening and closing the temporary file may do: it touches that file only, and on success
  the file holds exactly the bytes that were counted and digested.\<close>

definition local_write :: "ev_env \<Rightarrow> (path \<Rightarrow> fs \<Rightarrow> fs \<times> (string + nat \<times> string)) \<Rightarrow> bool" where
  "local_write env write \<longleftrightarrow> (\<forall>temp f f' res. write temp f = (f', res) \<longrightarrow>
     (\<forall>q. q \<noteq> temp \<longrightarrow> fs_get f' q = fs_get f q)
     \<and> (\<forall>n h. res = Inr (n, h) \<longrightarrow> fs_get f temp = None
          \<and> (\<exists>x. fs_get f' temp = Some x \<and> n = length (fl_data x) \<and> h = ev_sha256 env (fl_data x))))"

lemma os_error_unit: "os_error pf c = Inr u \<longleftrightarrow> pf_fails pf c = None"
  by (cases u) (auto simp: os_error_def split: option.splits)

lemma write_temp_cases:
  assumes "write_temp pf now temp payload f = (f', res)"
  shows "\<forall>q. q \<noteq> temp \<longrightarrow> fs_get f' q = fs_get f q"
    and "res = Inr u \<Longrightarrow> fs_get f temp = None \<and> fs_get f' temp = Some \<lparr>fl_data = payload, fl_mtime = now\<rparr>"
  using assms by (auto simp: write_temp_def split: if_splits sum.splits)

lemma copy_chunks_all:
  "0 < k \<Longrightarrow> copy_chunks k input (out, dig, n) = (out @ input, dig @ input, n + length input)"
proof (induction "length input" arbitrary: input out dig n rule: less_induct)
  case less
  show ?case
  proof (cases "input = []")
    case True
    then show ?thesis by (simp add: copy_chunks.simps)
  next
    case False
    have "take k input \<noteq> []" using False less.prems by (cases input; cases k) auto
    moreover have "length (drop k input) < length input" using False less.prems by simp
    from less.hyps [OF this less.prems, of "out @ take k input" "dig @ take k input" "n + length (take k input)"]
    have "copy_chunks k (drop k input) (out @ take k input, dig @ take k input, n + length (take k input))
        = (out @ input, dig @ input, n + length input)" by simp
    ultimately show ?thesis by (simp add: copy_chunks.simps [of k input] Let_def)
  qed
qed

definition put_write where
  "put_write env pf now payload = (\<lambda>temp f. case write_temp pf now temp payload f of
      (f', Inl t) \<Rightarrow> (f', Inl t)
    | (f', Inr _) \<Rightarrow> (f', Inr (length payload, ev_sha256 env payload)))"

lemma local_put: "local_write env (put_write env pf now payload)"
  using write_temp_cases [of pf now _ payload]
  by (fastforce simp: local_write_def put_write_def split: prod.splits sum.splits)

definition import_write where
  "import_write env pf now source = (\<lambda>temp f. case os_error pf OS_SOURCE of Inl t \<Rightarrow> (f, Inl t) | Inr _ \<Rightarrow>
      (case fs_get f source of
         None \<Rightarrow> (f, Inl (''[Errno 2] No such file or directory: '' @ repr_str (''/'' @ join_on ''/'' source)))
       | Some x \<Rightarrow> (case copy_chunks CHUNK (fl_data x) ([], [], 0) of (output, digested, sz) \<Rightarrow>
           (case write_temp pf now temp output f of
              (f', Inl t) \<Rightarrow> (f', Inl t)
            | (f', Inr _) \<Rightarrow> (f', Inr (sz, ev_sha256 env digested))))))"

lemma import_write_eq:
  "import_write env pf now source temp f = (case os_error pf OS_SOURCE of Inl t \<Rightarrow> (f, Inl t) | Inr _ \<Rightarrow>
      (case fs_get f source of
         None \<Rightarrow> (f, Inl (''[Errno 2] No such file or directory: '' @ repr_str (''/'' @ join_on ''/'' source)))
       | Some x \<Rightarrow> put_write env pf now (fl_data x) temp f))"
  by (simp add: import_write_def put_write_def copy_chunks_all CHUNK_def split: sum.splits option.splits)

lemma local_import: "local_write env (import_write env pf now source)"
proof -
  have "local_write env (\<lambda>temp f. import_write env pf now source temp f)"
    unfolding local_write_def import_write_eq
  proof (intro allI impI)
    fix temp f f' res
    assume e: "(case os_error pf OS_SOURCE of Inl t \<Rightarrow> (f, Inl t) | Inr _ \<Rightarrow> (case fs_get f source of
         None \<Rightarrow> (f, Inl (''[Errno 2] No such file or directory: '' @ repr_str (''/'' @ join_on ''/'' source)))
       | Some x \<Rightarrow> put_write env pf now (fl_data x) temp f)) = (f', res)"
    show "(\<forall>q. q \<noteq> temp \<longrightarrow> fs_get f' q = fs_get f q)
     \<and> (\<forall>n h. res = Inr (n, h) \<longrightarrow> fs_get f temp = None
          \<and> (\<exists>x. fs_get f' temp = Some x \<and> n = length (fl_data x) \<and> h = ev_sha256 env (fl_data x)))"
    proof (cases "\<exists>x :: stored_file. put_write env pf now (fl_data x) temp f = (f', res)")
      case True
      then obtain x :: stored_file where "put_write env pf now (fl_data x) temp f = (f', res)" by blast
      with local_put [of env pf now "fl_data x"] show ?thesis unfolding local_write_def by blast
    next
      case False
      with e show ?thesis by (auto split: sum.splits option.splits)
    qed
  qed
  then show ?thesis by simp
qed

text \<open>Both outcomes of storing: a new row whose file is whole, or no new row, and in either case no other file changed.\<close>

definition stored_whole :: "ev_env \<Rightarrow> artifact \<Rightarrow> evidence \<Rightarrow> bool" where
  "stored_whole env a s \<longleftrightarrow> (\<exists>p x. placed a p \<and> fs_get (ev_files s) (ev_root s @ p) = Some x
     \<and> af_size a = length (fl_data x) \<and> af_sha256 a = ev_sha256 env (fl_data x))"

definition same_rows :: "evidence \<Rightarrow> evidence \<Rightarrow> bool" where
  "same_rows s s' \<longleftrightarrow> ev_root s' = ev_root s \<and> ev_audits s' = ev_audits s \<and> ev_jobs s' = ev_jobs s"

definition unlink_ok :: "put_faults \<Rightarrow> bool" where
  "unlink_ok pf \<longleftrightarrow> pf_fails pf OS_UNLINK_TEMP = None \<and> pf_fails pf OS_UNLINK_FINAL = None"

lemma temp_neq_final: "temp_path root r d \<noteq> final_path root r d"
  by (simp add: temp_path_def final_path_def)

lemma cleanup_put_get:
  "cleanup_put pf temp final e f = (f', e') \<Longrightarrow> q \<notin> {temp, final} \<Longrightarrow> fs_get f' q = fs_get f q"
  "cleanup_put pf temp final e f = (f', e') \<Longrightarrow> unlink_ok pf \<Longrightarrow> f' = fs_remove final (fs_remove temp f) \<and> e' = e"
  by (auto simp: cleanup_put_def Let_def unlink_ok_def os_error_def split: sum.splits option.splits)

lemma replace_file_get:
  assumes "replace_file pf temp final f = (f', res)"
  shows "q \<notin> {temp, final} \<Longrightarrow> fs_get f' q = fs_get f q"
    and "res = Inr u \<Longrightarrow> temp \<noteq> final \<Longrightarrow> fs_get f' final = fs_get f temp \<and> fs_get f' temp = None"
  using assms by (auto simp: replace_file_def split: sum.splits option.splits)

lemma check_request_Inr:
  assumes "check_request r i = Inr ()"
  shows "canonical_uuid (pr_audit_id r)" "canonical_uuid i" "valid_extension (pr_extension r)"
    "\<forall>j. pr_job_id r = Some j \<longrightarrow> canonical_uuid j"
  using assms validate_identifier_iff by (auto simp: check_request_def split: if_splits option.splits)

lemma request_placed:
  assumes "check_request r (pd_artifact d) = Inr ()"
  obtains p where "final_path root r d = root @ p" "placed (artifact_of env r d (relative_to (final_path root r d) root) n h) p"
proof -
  let ?dir = "if truthy (pr_job_id r) then the (pr_job_id r) else ''audit''"
  let ?p = "[pr_audit_id r, ?dir, pd_artifact d @ pr_extension r]"
  note c = check_request_Inr [OF assms]
  have f: "final_path root r d = root @ ?p" by (simp add: final_path_def artifact_directory_def)
  have "?dir = ''audit'' \<or> canonical_uuid ?dir" using c(4) by (auto simp: truthy_iff)
  then have "placed (artifact_of env r d (relative_to (final_path root r d) root) n h) ?p"
    unfolding f relative_to_append placed_def using c(1-3) by (simp add: artifact_of_def)
  with f show thesis by (rule that)
qed

definition put_outcome ::
  "ev_env \<Rightarrow> put_faults \<Rightarrow> put_draws \<Rightarrow> put_request \<Rightarrow> (path \<Rightarrow> fs \<Rightarrow> fs \<times> (string + nat \<times> string)) \<Rightarrow> evidence \<Rightarrow> evidence
     \<Rightarrow> ev_error + artifact \<Rightarrow> bool" where
  "put_outcome env pf d r write s s' res \<longleftrightarrow>
     (let final = final_path (ev_root s) r d; temp = temp_path (ev_root s) r d
      in same_rows s s' \<and> (\<forall>q. q \<notin> {temp, final} \<longrightarrow> fs_get (ev_files s') q = fs_get (ev_files s) q)
        \<and> (case res of
            Inl e \<Rightarrow> ev_artifacts s' = ev_artifacts s
              \<and> (unlink_ok pf \<and> fs_get (ev_files s) temp = None \<and> fs_get (ev_files s) final = None
                  \<longrightarrow> fs_get (ev_files s') = fs_get (ev_files s))
          | Inr a \<Rightarrow> check_request r (pd_artifact d) = Inr () \<and> ev_artifacts s' = ev_artifacts s @ [a] \<and> integrity_ok s a
              \<and> fs_get (ev_files s') temp = None
              \<and> (\<exists>f x. write temp (ev_files s) = (f, Inr (length (fl_data x), ev_sha256 env (fl_data x))) \<and> fs_get f temp = Some x
                  \<and> fs_get (ev_files s') final = Some x
                  \<and> a = artifact_of env r d (relative_to final (ev_root s)) (length (fl_data x)) (ev_sha256 env (fl_data x)))))"

lemma outcome_refused: "put_outcome env pf d r write s s (Inl e)"
  by (simp add: put_outcome_def same_rows_def Let_def)

text \<open>The files when a write stops: nothing but the temporary and the final path may differ.\<close>

definition only_own :: "put_request \<Rightarrow> put_draws \<Rightarrow> evidence \<Rightarrow> fs \<Rightarrow> bool" where
  "only_own r d s f \<longleftrightarrow> (\<forall>q. q \<notin> {temp_path (ev_root s) r d, final_path (ev_root s) r d} \<longrightarrow> fs_get f q = fs_get (ev_files s) q)"

lemma outcome_stopped:
  assumes "cleanup_put pf (temp_path (ev_root s) r d) (final_path (ev_root s) r d) e0 f = (f', e)" "only_own r d s f"
  shows "put_outcome env pf d r write s (s\<lparr>ev_dirs := ds, ev_files := f'\<rparr>) (Inl e)"
proof -
  let ?final = "final_path (ev_root s) r d" and ?temp = "temp_path (ev_root s) r d"
  have "fs_get f' = fs_get (ev_files s)"
    if "unlink_ok pf \<and> fs_get (ev_files s) ?temp = None \<and> fs_get (ev_files s) ?final = None"
    using cleanup_put_get(2) [OF assms(1)] fsm.remove_put_back [of "ev_files s" ?temp ?final f] assms(2) that
    by (simp add: only_own_def)
  then show ?thesis
    using cleanup_put_get(1) [OF assms(1)] assms(2) by (simp add: put_outcome_def same_rows_def only_own_def Let_def)
qed

lemma integrity_ok_files [simp]: "integrity_ok (s\<lparr>ev_dirs := ds, ev_files := f\<rparr>) a = integrity_ok s a"
  by (cases "af_job_id a") (simp_all add: integrity_ok_def)

lemma outcome_registered:
  assumes "check_request r (pd_artifact d) = Inr ()" "only_own r d s f'"
    and "write (temp_path (ev_root s) r d) (ev_files s) = (f, Inr (length (fl_data x), ev_sha256 env (fl_data x)))"
    and "fs_get f (temp_path (ev_root s) r d) = Some x"
    and "replace_file pf (temp_path (ev_root s) r d) (final_path (ev_root s) r d) f = (f', Inr v)"
    and "register_artifact env pf (artifact_of env r d (relative_to (final_path (ev_root s) r d) (ev_root s)) (length (fl_data x))
        (ev_sha256 env (fl_data x))) (s\<lparr>ev_dirs := ds, ev_files := f'\<rparr>) = Inr s'"
  shows "put_outcome env pf d r write s s' (Inr (artifact_of env r d (relative_to (final_path (ev_root s) r d) (ev_root s))
    (length (fl_data x)) (ev_sha256 env (fl_data x))))" (is "put_outcome _ _ _ _ _ _ _ (Inr ?a)")
proof -
  have g: "s' = (s\<lparr>ev_dirs := ds, ev_files := f'\<rparr>)\<lparr>ev_artifacts := ev_artifacts s @ [?a]\<rparr>" "integrity_ok s ?a"
    using assms(6) by (auto simp: register_artifact_def split: if_splits sum.splits)
  have "fs_get f' (final_path (ev_root s) r d) = Some x" "fs_get f' (temp_path (ev_root s) r d) = None"
    using replace_file_get(2) [OF assms(5) refl temp_neq_final] assms(4) by simp_all
  then show ?thesis using g assms(1-4) by (auto simp: put_outcome_def same_rows_def only_own_def Let_def)
qed

lemma store_artifact_outcome:
  assumes run: "store_artifact env pf d r ecode prefix write s = (s', res)" and loc: "local_write env write"
  shows "put_outcome env pf d r write s s' res"
proof -
  let ?final = "final_path (ev_root s) r d" and ?temp = "temp_path (ev_root s) r d"
  obtain f wres where w: "write ?temp (ev_files s) = (f, wres)" by fastforce
  have wl: "\<And>q. q \<noteq> ?temp \<Longrightarrow> fs_get f q = fs_get (ev_files s) q"
    "\<And>n h. wres = Inr (n, h) \<Longrightarrow> \<exists>x. fs_get f ?temp = Some x \<and> n = length (fl_data x) \<and> h = ev_sha256 env (fl_data x)"
    using loc w unfolding local_write_def by blast+
  have own: "only_own r d s f" using wl(1) by (simp add: only_own_def)
  consider e where "check_request r (pd_artifact d) = Inl e" | t where "os_error pf OS_MKDIR = Inl t"
    | "check_request r (pd_artifact d) = Inr ()" "os_error pf OS_MKDIR = Inr ()"
    by (cases "check_request r (pd_artifact d)"; cases "os_error pf OS_MKDIR") auto
  then show ?thesis
  proof cases
    case 3
    note c = 3
    show ?thesis
    proof (cases wres)
      case (Inl t)
      then show ?thesis using run c w outcome_stopped [OF _ own]
        by (auto simp: store_artifact_def Let_def split: prod.splits)
    next
      case W: (Inr nh)
      obtain x where x: "fs_get f ?temp = Some x" "nh = (length (fl_data x), ev_sha256 env (fl_data x))"
        using wl(2) [of "fst nh" "snd nh"] W by (cases nh) auto
      obtain f' rres where rf: "replace_file pf ?temp ?final f = (f', rres)" by fastforce
      have own': "only_own r d s f'" using replace_file_get(1) [OF rf] own by (simp add: only_own_def)
      show ?thesis
        using run c w W x(2) rf outcome_stopped [OF _ own'] outcome_registered [OF c(1) own' _ x(1)]
        by (auto simp: store_artifact_def Let_def split: prod.splits sum.splits)
    qed
  qed (use run outcome_refused in \<open>auto simp: store_artifact_def split: sum.splits\<close>)
qed

end
