(* ===== verification/Evidence_Invariant.thy ===== *)
theory Evidence_Invariant
  imports Evidence_Facts
begin

text \<open>
  The step system of the evidence store: writes and imports with any failing call, both cleanups, audit deletion, and the rows
  the job service adds, with the invariant that every registered artifact can be read back whole. A step that stores draws
  an identifier no row has, and an extension that does not look like that of a temporary file.
\<close>

section \<open>The invariant\<close>

definition ev_inv :: "ev_env \<Rightarrow> evidence \<Rightarrow> bool" where
  "ev_inv env s \<longleftrightarrow> distinct (map af_id (ev_artifacts s))
     \<and> (\<forall>a \<in> set (ev_artifacts s). stored_whole env a s \<and> \<not> is_temporary (segments (af_relative_path a)))"

lemma placed_segments: "placed a p \<Longrightarrow> segments (af_relative_path a) = p"
  using segments_join [of p] placed_plain [of a p] by (auto simp: placed_def)

lemma is_temporary_below [simp]: "p \<noteq> [] \<Longrightarrow> is_temporary (root @ p) = is_temporary p"
  by (simp add: is_temporary_def)

lemma whole_kept:
  assumes "stored_whole env a s" "ev_root s' = ev_root s"
    and "\<And>p. placed a p \<Longrightarrow> fs_get (ev_files s') (ev_root s @ p) = fs_get (ev_files s) (ev_root s @ p)"
  shows "stored_whole env a s'"
  using assms unfolding stored_whole_def by fastforce

lemma ev_invI:
  assumes "ev_inv env s" "ev_root s' = ev_root s" "set (ev_artifacts s') \<subseteq> set (ev_artifacts s)"
    and "distinct (map af_id (ev_artifacts s'))"
    and "\<And>a p. a \<in> set (ev_artifacts s') \<Longrightarrow> placed a p \<Longrightarrow> \<not> is_temporary p
      \<Longrightarrow> fs_get (ev_files s') (ev_root s @ p) = fs_get (ev_files s) (ev_root s @ p)"
  shows "ev_inv env s'"
  unfolding ev_inv_def
proof (intro conjI ballI)
  fix a assume a: "a \<in> set (ev_artifacts s')"
  then have "stored_whole env a s" "\<not> is_temporary (segments (af_relative_path a))"
    using assms(1,3) by (auto simp: ev_inv_def)
  then show "stored_whole env a s'" "\<not> is_temporary (segments (af_relative_path a))"
    using whole_kept [OF _ assms(2)] assms(5) [OF a] placed_segments by blast+
qed (rule assms(4))

section \<open>Storing\<close>

lemma temp_is_temporary: "is_temporary (temp_path root r d)"
  by (auto simp: temp_path_def is_temporary_def contains_str_iff intro: exI [of _ "pd_artifact d @ pr_extension r"])

lemma contains_after_plain: "CHR ''.'' \<notin> set v \<Longrightarrow> contains_str (v @ e) ''.tmp-'' = contains_str e ''.tmp-''"
  by (induction v) auto

definition plain_extension :: "put_request \<Rightarrow> bool" where
  "plain_extension r \<longleftrightarrow> \<not> contains_str (pr_extension r) ''.tmp-''"

definition fresh_draw :: "put_draws \<Rightarrow> evidence \<Rightarrow> bool" where
  "fresh_draw d s \<longleftrightarrow> canonical_uuid (pd_artifact d) \<and> pd_artifact d \<notin> af_id ` set (ev_artifacts s)"

lemma final_not_temporary:
  assumes "check_request r (pd_artifact d) = Inr ()" "plain_extension r" "final_path root r d = root @ p" "p \<noteq> []"
  shows "\<not> is_temporary p"
proof -
  have "\<not> is_temporary (final_path root r d)"
    using contains_after_plain canonical_plain [OF check_request_Inr(2) [OF assms(1)]] assms(2)
    by (simp add: is_temporary_def final_path_def plain_extension_def)
  then show ?thesis using assms(3,4) by simp
qed

lemma ev_inv_put_outcome:
  assumes inv: "ev_inv env s" and out: "put_outcome env pf d r write s s' res" and "fresh_draw d s" "plain_extension r"
  shows "ev_inv env s'"
proof -
  let ?final = "final_path (ev_root s) r d" and ?temp = "temp_path (ev_root s) r d"
  have rows: "ev_root s' = ev_root s" "\<And>q. q \<notin> {?temp, ?final} \<Longrightarrow> fs_get (ev_files s') q = fs_get (ev_files s) q"
    using out by (auto simp: put_outcome_def same_rows_def Let_def)
  have other: "fs_get (ev_files s') (ev_root s @ p) = fs_get (ev_files s) (ev_root s @ p)"
    if a: "a \<in> set (ev_artifacts s)" "placed a p" "\<not> is_temporary p" for a p
  proof (rule rows(2))
    have "p \<noteq> []" using a(2) by (auto simp: placed_def)
    then have "ev_root s @ p \<noteq> ?temp" using a(3) temp_is_temporary is_temporary_below by metis
    moreover have "ev_root s @ p \<noteq> ?final"
    proof
      assume e: "ev_root s @ p = ?final"
      obtain dir ext where p: "p = [af_audit_id a, dir, af_id a @ ext]" "canonical_uuid (af_id a)" using a(2) by (auto simp: placed_def)
      then have "take 36 (last ?final) = af_id a" unfolding e [symmetric] by (simp add: canonical_length)
      moreover have "take 36 (last ?final) = pd_artifact d"
        using assms(3) by (simp add: final_path_def canonical_length fresh_draw_def)
      ultimately show False using assms(3) a(1) by (auto simp: fresh_draw_def)
    qed
    ultimately show "ev_root s @ p \<notin> {?temp, ?final}" by simp
  qed
  show ?thesis
  proof (cases res)
    case (Inl e)
    then have "ev_artifacts s' = ev_artifacts s" using out by (simp add: put_outcome_def Let_def)
    with inv rows(1) other show ?thesis by (intro ev_invI [OF inv]) (auto simp: ev_inv_def)
  next
    case (Inr a)
    obtain x where x: "check_request r (pd_artifact d) = Inr ()" "ev_artifacts s' = ev_artifacts s @ [a]"
        "fs_get (ev_files s') ?final = Some x"
        "a = artifact_of env r d (relative_to ?final (ev_root s)) (length (fl_data x)) (ev_sha256 env (fl_data x))"
      using out Inr by (auto simp: put_outcome_def Let_def)
    obtain p where p: "?final = ev_root s @ p" "placed a p" using request_placed [OF x(1)] x(4) by metis
    have ne: "p \<noteq> []" using p(2) by (auto simp: placed_def)
    have new: "stored_whole env a s'" "\<not> is_temporary (segments (af_relative_path a))"
      using p x(3,4) rows(1) final_not_temporary [OF x(1) assms(4) p(1) ne] placed_segments [OF p(2)]
      by (auto simp: stored_whole_def artifact_of_def)
    have "af_id a \<notin> af_id ` set (ev_artifacts s)" using assms(3) x(4) by (simp add: fresh_draw_def artifact_of_def)
    moreover have "stored_whole env b s' \<and> \<not> is_temporary (segments (af_relative_path b))" if b: "b \<in> set (ev_artifacts s)" for b
    proof -
      have "stored_whole env b s" "\<not> is_temporary (segments (af_relative_path b))" using inv b by (auto simp: ev_inv_def)
      then show ?thesis using whole_kept [OF _ rows(1)] other [OF b] placed_segments by blast
    qed
    ultimately show ?thesis using inv new x(2) by (auto simp: ev_inv_def)
  qed
qed

section \<open>Cleaning up and deleting\<close>

lemma remove_files_get:
  "remove_files fails old es st = (f', res) \<Longrightarrow> (\<And>x. (p, x) \<in> set es \<Longrightarrow> \<not> old (p, x)) \<Longrightarrow> fs_get f' p = fs_get (fst st) p"
proof (induction fails old es st rule: remove_files.induct)
  case (2 fails old e es st)
  show ?case
  proof (cases "old e")
    case False
    then show ?thesis using 2(2) [OF False] 2(3,4) by simp
  next
    case True
    then have n: "fst e \<noteq> p" using 2(4) [of "snd e"] by auto
    show ?thesis
    proof (cases "fails (fst e)")
      case None
      then have "fs_get f' p = fs_get (fs_remove (fst e) (fst st)) p" using 2(1) [OF True None] 2(3,4) True by simp
      then show ?thesis using n by simp
    qed (use 2(3) True in simp)
  qed
qed simp

lemma inv_distinct: "ev_inv env s \<Longrightarrow> distinct (map af_id (ev_artifacts s))"
  by (simp add: ev_inv_def)

lemma ev_inv_stale:
  assumes "ev_inv env s" "cleanup_stale_temporary_files fails now age s = (s', res)"
  shows "ev_inv env s'"
proof -
  obtain f where f: "remove_files fails (\<lambda>e. fl_mtime (snd e) < now - age * 1000000)
      (filter (\<lambda>e. is_temporary (fst e)) (below_root s)) (ev_files s, 0) = (f, res)" "s' = s\<lparr>ev_files := f\<rparr>"
    using assms(2) by (auto simp: cleanup_stale_temporary_files_def split: prod.splits)
  show ?thesis
  proof (rule ev_invI [OF assms(1)])
    fix a p assume "placed a p" "\<not> is_temporary p"
    then have "\<not> is_temporary (ev_root s @ p)" by (auto simp: placed_def)
    then show "fs_get (ev_files s') (ev_root s @ p) = fs_get (ev_files s) (ev_root s @ p)"
      using remove_files_get [OF f(1), of "ev_root s @ p"] f(2) by auto
  qed (use f(2) inv_distinct [OF assms(1)] in simp_all)
qed

lemma ev_inv_orphans:
  assumes "ev_inv env s" "cleanup_orphan_files fails now age s = (s', res)"
  shows "ev_inv env s'"
proof -
  obtain f where f: "remove_files fails (\<lambda>e. relative_to (fst e) (ev_root s) \<notin> af_relative_path ` set (ev_artifacts s)
        \<and> fl_mtime (snd e) < now - age * 1000000) (artifact_files s) (ev_files s, 0) = (f, res)" "s' = s\<lparr>ev_files := f\<rparr>"
    using assms(2) by (auto simp: cleanup_orphan_files_def Let_def split: prod.splits)
  show ?thesis
  proof (rule ev_invI [OF assms(1)])
    fix a p assume a: "a \<in> set (ev_artifacts s')" "placed a p"
    then have "af_relative_path a = relative_to (ev_root s @ p) (ev_root s)" by (auto simp: placed_def)
    then have "relative_to (ev_root s @ p) (ev_root s) \<in> af_relative_path ` set (ev_artifacts s)" using a(1) f(2) by force
    then show "fs_get (ev_files s') (ev_root s @ p) = fs_get (ev_files s) (ev_root s @ p)"
      using remove_files_get [OF f(1), of "ev_root s @ p"] f(2) by auto
  qed (use f(2) inv_distinct [OF assms(1)] in simp_all)
qed

lemma placed_job [simp]: "placed (a\<lparr>af_job_id := j\<rparr>) p = placed a p"
  by (simp add: placed_def)

lemma whole_job [simp]: "stored_whole env (a\<lparr>af_job_id := j\<rparr>) s = stored_whole env a s"
  by (simp add: stored_whole_def)

lemma ev_inv_drop_rows:
  assumes "ev_inv env s"
  shows "ev_inv env (drop_audit_rows audit s)" "\<forall>a \<in> set (ev_artifacts (drop_audit_rows audit s)). af_audit_id a \<noteq> audit"
proof -
  define null where "null = (\<lambda>a :: artifact. case af_job_id a of None \<Rightarrow> a
    | Some j \<Rightarrow> if j \<in> fst ` set (filter (\<lambda>j. snd j = audit) (ev_jobs s)) then a\<lparr>af_job_id := None\<rparr> else a)"
  have null: "af_id (null a) = af_id a" "af_audit_id (null a) = af_audit_id a" "af_relative_path (null a) = af_relative_path a"
      "stored_whole env (null a) u = stored_whole env a u" for a u
    by (simp_all add: null_def split: option.splits)
  have rows: "ev_artifacts (drop_audit_rows audit s) = map null (filter (\<lambda>a. af_audit_id a \<noteq> audit) (ev_artifacts s))"
    by (simp add: drop_audit_rows_def null_def Let_def cong: option.case_cong)
  have "map af_id (ev_artifacts (drop_audit_rows audit s)) = map af_id (filter (\<lambda>a. af_audit_id a \<noteq> audit) (ev_artifacts s))"
    by (simp add: rows null)
  moreover have "stored_whole env a (drop_audit_rows audit s) = stored_whole env a s" for a
    by (simp add: stored_whole_def drop_audit_rows_def)
  ultimately show "ev_inv env (drop_audit_rows audit s)"
    using assms by (auto simp: ev_inv_def rows null comp_def distinct_map_filter)
  show "\<forall>a \<in> set (ev_artifacts (drop_audit_rows audit s)). af_audit_id a \<noteq> audit" by (auto simp: rows null)
qed

lemma remove_tree_get: "\<not> is_relative_to p dir \<Longrightarrow> fs_get (ev_files (remove_tree fault dir s)) p = fs_get (ev_files s) p"
  by (cases fault) (auto simp: remove_tree_def Let_def intro!: fs_get_filter dest: in_set_takeD)

lemma remove_tree_rows [simp]: "ev_root (remove_tree fault dir s) = ev_root s" "ev_artifacts (remove_tree fault dir s) = ev_artifacts s"
    "ev_audits (remove_tree fault dir s) = ev_audits s"
  by (cases fault; simp add: remove_tree_def Let_def)+

lemma audit_directory: "canonical_uuid audit \<Longrightarrow> no_links env root \<Longrightarrow> ev_realpath env (join_path root audit) = root @ [audit]"
  using join_path_relative [of "[audit]" root] plain_uuid by (auto simp: no_links_def)

lemma drop_rows_same [simp]: "ev_root (drop_audit_rows audit s) = ev_root s" "ev_files (drop_audit_rows audit s) = ev_files s"
    "ev_dirs (drop_audit_rows audit s) = ev_dirs s"
  by (simp_all add: drop_audit_rows_def Let_def)

lemma ev_inv_delete:
  assumes "ev_inv env s" "no_links env (ev_root s)" "canonical_uuid audit" "delete_audit_files env fault audit s = (s', res)"
  shows "ev_inv env s'"
proof -
  let ?s1 = "drop_audit_rows audit s" and ?dir = "ev_root s @ [audit]"
  note d = ev_inv_drop_rows [OF assms(1), of audit]
  have "s' = ?s1 \<or> s' = remove_tree fault ?dir ?s1"
    using assms(4) audit_directory [OF assms(3,2)] by (auto simp: delete_audit_files_def Let_def split: if_splits)
  moreover have "ev_inv env (remove_tree fault ?dir ?s1)"
  proof (rule ev_invI [OF d(1)])
    fix a p assume "a \<in> set (ev_artifacts (remove_tree fault ?dir ?s1))" "placed a p"
    then have "\<not> is_relative_to (ev_root s @ p) ?dir" using d(2) by (auto simp: placed_def is_relative_to_def)
    then show "fs_get (ev_files (remove_tree fault ?dir ?s1)) (ev_root ?s1 @ p) = fs_get (ev_files ?s1) (ev_root ?s1 @ p)"
      by (simp add: remove_tree_get)
  qed (use inv_distinct [OF d(1)] in simp_all)
  ultimately show ?thesis using d(1) by blast
qed

section \<open>The step system\<close>

text \<open>\<open>EV_Rows\<close> is what other services commit: new audit and job rows.\<close>

datatype ev_op =
    EV_Put put_faults put_draws put_request string
  | EV_Import put_faults put_draws put_request path
  | EV_Stale "path \<Rightarrow> string option" int int
  | EV_Orphans "path \<Rightarrow> string option" int int
  | EV_Delete "nat option" string
  | EV_Rows "string list" "(string \<times> string) list"

fun ev_allowed :: "ev_op \<Rightarrow> evidence \<Rightarrow> bool" where
  "ev_allowed (EV_Put pf d r payload) s = (fresh_draw d s \<and> plain_extension r)"
| "ev_allowed (EV_Import pf d r source) s = (fresh_draw d s \<and> plain_extension r)"
| "ev_allowed (EV_Delete fault audit) s = canonical_uuid audit"
| "ev_allowed _ s = True"

fun ev_run :: "ev_env \<Rightarrow> ev_op \<Rightarrow> evidence \<Rightarrow> evidence" where
  "ev_run env (EV_Put pf d r payload) s = fst (put_bytes env pf d r payload s)"
| "ev_run env (EV_Import pf d r source) s = fst (import_file env pf d r source s)"
| "ev_run env (EV_Stale fails now age) s = fst (cleanup_stale_temporary_files fails now age s)"
| "ev_run env (EV_Orphans fails now age) s = fst (cleanup_orphan_files fails now age s)"
| "ev_run env (EV_Delete fault audit) s = fst (delete_audit_files env fault audit s)"
| "ev_run env (EV_Rows audits jobs) s = s\<lparr>ev_audits := ev_audits s @ audits, ev_jobs := ev_jobs s @ jobs\<rparr>"

inductive ev_step :: "ev_env \<Rightarrow> evidence \<Rightarrow> evidence \<Rightarrow> bool" for env where
  run: "ev_allowed op s \<Longrightarrow> ev_step env s (ev_run env op s)"

inductive_cases ev_stepE: "ev_step env s s'"

definition ev_init :: "ev_env \<Rightarrow> evidence \<Rightarrow> bool" where
  "ev_init env s \<longleftrightarrow> ev_artifacts s = [] \<and> no_links env (ev_root s)"

definition ev_good :: "ev_env \<Rightarrow> evidence \<Rightarrow> bool" where
  "ev_good env s \<longleftrightarrow> ev_inv env s \<and> no_links env (ev_root s)"

lemma put_bytes_outcome:
  "put_bytes env pf d r payload s = (s', res) \<Longrightarrow> put_outcome env pf d r (put_write env pf (pd_now d) payload) s s' res"
  unfolding put_bytes_def put_write_def [symmetric] by (rule store_artifact_outcome [OF _ local_put])

lemma import_file_outcome:
  "import_file env pf d r source s = (s', res) \<Longrightarrow>
    put_outcome env pf d (r\<lparr>pr_schema_name := None, pr_schema_version := None\<rparr>) (import_write env pf (pd_now d) source) s s' res"
  unfolding import_file_def import_write_def [symmetric] by (rule store_artifact_outcome [OF _ local_import])

lemma ev_root_run: "ev_root (ev_run env op s) = ev_root s"
proof (cases op)
  case (EV_Put pf d r payload)
  obtain s' res where "put_bytes env pf d r payload s = (s', res)" by fastforce
  from put_bytes_outcome [OF this] this EV_Put show ?thesis by (simp add: put_outcome_def same_rows_def Let_def)
next
  case (EV_Import pf d r source)
  obtain s' res where "import_file env pf d r source s = (s', res)" by fastforce
  from import_file_outcome [OF this] this EV_Import show ?thesis by (simp add: put_outcome_def same_rows_def Let_def)
qed (auto simp: cleanup_stale_temporary_files_def cleanup_orphan_files_def delete_audit_files_def Let_def split: prod.splits)

lemma ev_inv_run:
  assumes "ev_good env s" "ev_allowed op s"
  shows "ev_inv env (ev_run env op s)"
proof (cases op)
  case (EV_Put pf d r payload)
  obtain s' res where "put_bytes env pf d r payload s = (s', res)" by fastforce
  from ev_inv_put_outcome [OF _ put_bytes_outcome [OF this]] this EV_Put assms show ?thesis by (simp add: ev_good_def)
next
  case (EV_Import pf d r source)
  obtain s' res where "import_file env pf d r source s = (s', res)" by fastforce
  from ev_inv_put_outcome [OF _ import_file_outcome [OF this]] this EV_Import assms show ?thesis
    by (simp add: ev_good_def plain_extension_def)
next
  case (EV_Stale fails now age)
  then show ?thesis using ev_inv_stale [of env s fails now age] assms(1)
    by (cases "cleanup_stale_temporary_files fails now age s") (simp add: ev_good_def)
next
  case (EV_Orphans fails now age)
  then show ?thesis using ev_inv_orphans [of env s fails now age] assms(1)
    by (cases "cleanup_orphan_files fails now age s") (simp add: ev_good_def)
next
  case (EV_Delete fault audit)
  then show ?thesis using ev_inv_delete [of env s audit fault] assms
    by (cases "delete_audit_files env fault audit s") (simp add: ev_good_def)
next
  case (EV_Rows audits jobs)
  then show ?thesis using assms(1) by (simp add: ev_good_def ev_inv_def stored_whole_def)
qed

interpretation evs: step_system "ev_init env" "ev_step env" "ev_good env" for env
proof
  show "ev_init env s \<Longrightarrow> ev_good env s" for s by (simp add: ev_init_def ev_good_def ev_inv_def)
  show "ev_good env s \<Longrightarrow> ev_step env s t \<Longrightarrow> ev_good env t" for s t
    using ev_inv_run [of env s] ev_root_run [of env _ s] by (auto elim!: ev_stepE simp: ev_good_def)
qed

lemma read_whole:
  assumes "stored_whole env a s" "no_links env (ev_root s)"
  shows "\<exists>x. read_bytes env a s = Inr (fl_data x) \<and> length (fl_data x) = af_size a
    \<and> (\<exists>p. fs_get (ev_files s) (ev_root s @ p) = Some x)"
proof -
  obtain p x where x: "placed a p" "fs_get (ev_files s) (ev_root s @ p) = Some x" "af_size a = length (fl_data x)"
      "af_sha256 a = ev_sha256 env (fl_data x)"
    using assms(1) by (auto simp: stored_whole_def)
  then have "read_bytes env a s = Inr (fl_data x)" by (simp add: read_bytes_def path_for_placed [OF x(1) assms(2)])
  with x show ?thesis by auto
qed

end
