(* ===== verification/Evidence_Properties.thy ===== *)
theory Evidence_Properties
  imports Evidence_Invariant "HOL-Library.While_Combinator"
begin

text \<open>
  The properties of the evidence store: a write is all or nothing, every registered artifact stays readable, no write leaves the
  directory of its audit, the import loop ends, and maintenance removes what a failed deletion left behind.
\<close>

section \<open>Writing\<close>

lemma put_write_payload:
  assumes "put_write env pf now payload temp f = (f', Inr (n, h))"
  shows "fs_get f' temp = Some \<lparr>fl_data = payload, fl_mtime = now\<rparr>"
proof -
  obtain u where "write_temp pf now temp payload f = (f', Inr u)"
    using assms by (auto simp: put_write_def split: prod.splits sum.splits)
  then show ?thesis using write_temp_cases(2) by blast
qed

lemma outcome_read:
  assumes "put_outcome env pf d r write s s' (Inr a)" "no_links env (ev_root s)"
  obtains f x where "write (temp_path (ev_root s) r d) (ev_files s) = (f, Inr (length (fl_data x), ev_sha256 env (fl_data x)))"
    "fs_get f (temp_path (ev_root s) r d) = Some x" "read_bytes env a s' = Inr (fl_data x)" "af_size a = length (fl_data x)"
    "ev_artifacts s' = ev_artifacts s @ [a]" "ev_root s' = ev_root s"
proof -
  let ?final = "final_path (ev_root s) r d"
  obtain f x where x: "check_request r (pd_artifact d) = Inr ()" "ev_artifacts s' = ev_artifacts s @ [a]" "ev_root s' = ev_root s"
      "fs_get (ev_files s') ?final = Some x" "fs_get f (temp_path (ev_root s) r d) = Some x"
      "write (temp_path (ev_root s) r d) (ev_files s) = (f, Inr (length (fl_data x), ev_sha256 env (fl_data x)))"
      "a = artifact_of env r d (relative_to ?final (ev_root s)) (length (fl_data x)) (ev_sha256 env (fl_data x))"
    using assms(1) by (auto simp: put_outcome_def same_rows_def Let_def)
  obtain p where p: "?final = ev_root s @ p" "placed a p" using request_placed [OF x(1)] x(7) by metis
  have "path_for env a s' = Inr ?final" using path_for_placed [OF p(2), of env s'] assms(2) x(3) p(1) by simp
  then have "read_bytes env a s' = Inr (fl_data x)" using x(4,7) by (simp add: read_bytes_def artifact_of_def)
  then show thesis using x by (intro that [of f x]) (simp_all add: artifact_of_def)
qed

lemma put_bytes_reads:
  assumes "put_bytes env pf d r payload s = (s', Inr a)" "no_links env (ev_root s)"
  shows "read_bytes env a s' = Inr payload" "af_size a = length payload" "ev_artifacts s' = ev_artifacts s @ [a]"
proof -
  obtain f x where x: "put_write env pf (pd_now d) payload (temp_path (ev_root s) r d) (ev_files s)
        = (f, Inr (length (fl_data x), ev_sha256 env (fl_data x)))"
      "fs_get f (temp_path (ev_root s) r d) = Some x" "read_bytes env a s' = Inr (fl_data x)" "af_size a = length (fl_data x)"
      "ev_artifacts s' = ev_artifacts s @ [a]"
    using outcome_read [OF put_bytes_outcome [OF assms(1)] assms(2)] by metis
  then have "fl_data x = payload" using put_write_payload [OF x(1)] by auto
  with x show "read_bytes env a s' = Inr payload" "af_size a = length payload" "ev_artifacts s' = ev_artifacts s @ [a]" by simp_all
qed

text \<open>
  C19: storing bytes is all or nothing, whatever call of the operating system fails. Either it returns a record whose bytes read
  back as the payload, with the row of the record as the only new row, or it raises, no row is new, and - when removing the
  partial files succeeds and the drawn names were unused - every file is as before.
\<close>

theorem put_bytes_atomic:
  assumes "put_bytes env pf d r payload s = (s', res)" "no_links env (ev_root s)"
  shows "case res of
      Inr a \<Rightarrow> read_bytes env a s' = Inr payload \<and> af_size a = length payload \<and> ev_artifacts s' = ev_artifacts s @ [a]
    | Inl e \<Rightarrow> ev_artifacts s' = ev_artifacts s
        \<and> (unlink_ok pf \<and> fs_get (ev_files s) (temp_path (ev_root s) r d) = None
            \<and> fs_get (ev_files s) (final_path (ev_root s) r d) = None
            \<longrightarrow> fs_get (ev_files s') = fs_get (ev_files s))"
proof (cases res)
  case (Inl e)
  then show ?thesis using put_bytes_outcome [OF assms(1)] by (simp add: put_outcome_def Let_def)
next
  case (Inr a)
  with put_bytes_reads [OF assms(1) [unfolded Inr] assms(2)] show ?thesis by simp
qed

definition demo_uuid :: "nat \<Rightarrow> string" where
  "demo_uuid n = uuid_str (int n)"

definition demo_ev_env :: ev_env where
  "demo_ev_env = \<lparr>ev_sha256 = (\<lambda>s. dec (length s) @ '':'' @ s), ev_realpath = (\<lambda>p. p), ev_loads = (\<lambda>s. Inl ''no JSON''),
     ev_integrity_text = ''constraint''\<rparr>"

definition demo_evidence :: evidence where
  "demo_evidence = \<lparr>ev_root = [''var'', ''evidence''], ev_files = [], ev_dirs = [[''var'', ''evidence'']],
     ev_audits = [demo_uuid 1], ev_jobs = [], ev_artifacts = []\<rparr>"

definition demo_request :: put_request where
  "demo_request = \<lparr>pr_audit_id = demo_uuid 1, pr_job_id = None, pr_type = ''note'', pr_content_type = ''text/plain'',
     pr_extension = ''.txt'', pr_retention = RC_AUDIT, pr_schema_name = None, pr_schema_version = None\<rparr>"

definition demo_draws :: put_draws where
  "demo_draws = \<lparr>pd_artifact = demo_uuid 2, pd_temp = demo_uuid 3, pd_now = 7\<rparr>"

definition no_faults :: put_faults where
  "no_faults = \<lparr>pf_fails = (\<lambda>_. None), pf_written = 0\<rparr>"

definition commit_fails :: put_faults where
  "commit_fails = \<lparr>pf_fails = (\<lambda>c. if c = OS_COMMIT then Some ''disk full'' else None), pf_written = 0\<rparr>"

lemma demo_links: "no_links demo_ev_env root"
  by (simp add: no_links_def demo_ev_env_def)

lemma demo_put:
  "case snd (put_bytes demo_ev_env no_faults demo_draws demo_request ''hello'' demo_evidence) of Inr a \<Rightarrow> True | Inl e \<Rightarrow> False"
  "case snd (put_bytes demo_ev_env commit_fails demo_draws demo_request ''hello'' demo_evidence) of Inr a \<Rightarrow> False | Inl e \<Rightarrow> True"
  by code_simp+

theorem put_bytes_atomic_witness:
  "(\<exists>s a. put_bytes demo_ev_env no_faults demo_draws demo_request ''hello'' demo_evidence = (s, Inr a)
      \<and> read_bytes demo_ev_env a s = Inr ''hello'')
   \<and> fs_get (ev_files (fst (put_bytes demo_ev_env commit_fails demo_draws demo_request ''hello'' demo_evidence))) = fs_get []"
proof
  obtain s res where r: "put_bytes demo_ev_env no_faults demo_draws demo_request ''hello'' demo_evidence = (s, res)" by fastforce
  from put_bytes_atomic [OF r demo_links] r demo_put(1)
  show "\<exists>s a. put_bytes demo_ev_env no_faults demo_draws demo_request ''hello'' demo_evidence = (s, Inr a)
      \<and> read_bytes demo_ev_env a s = Inr ''hello''" by (auto split: sum.splits)
  obtain s' res' where q: "put_bytes demo_ev_env commit_fails demo_draws demo_request ''hello'' demo_evidence = (s', res')" by fastforce
  have "unlink_ok commit_fails" by (simp add: unlink_ok_def commit_fails_def)
  with put_bytes_atomic [OF q demo_links] q demo_put(2)
  show "fs_get (ev_files (fst (put_bytes demo_ev_env commit_fails demo_draws demo_request ''hello'' demo_evidence))) = fs_get []"
    by (auto simp: demo_evidence_def fs_get_def split: sum.splits)
qed

section \<open>Reading\<close>

text \<open>
  C21: in every state the store reaches - by writes and imports with failing calls at any point, both cleanups at any time,
  audit deletions that fail half way, and rows of other services - every registered artifact resolves to a path below the
  root and reads back with its recorded size and digest.
\<close>

theorem registered_artifacts_readable:
  assumes "ev_init env s0" "(ev_step env)\<^sup>*\<^sup>* s0 s" "a \<in> set (ev_artifacts s)"
  shows "\<exists>p bytes. path_for env a s = Inr p \<and> is_relative_to p (ev_root s) \<and> read_bytes env a s = Inr bytes
    \<and> length bytes = af_size a \<and> ev_sha256 env bytes = af_sha256 a"
proof -
  have g: "ev_good env s" using evs.inv_reachable [OF assms(1,2)] .
  then have "stored_whole env a s" using assms(3) by (simp add: ev_good_def ev_inv_def)
  then obtain p x where x: "placed a p" "fs_get (ev_files s) (ev_root s @ p) = Some x" "af_size a = length (fl_data x)"
      "af_sha256 a = ev_sha256 env (fl_data x)"
    by (auto simp: stored_whole_def)
  then have "path_for env a s = Inr (ev_root s @ p)" using path_for_placed g by (simp add: ev_good_def)
  with x show ?thesis by (auto simp: read_bytes_def)
qed

definition demo_stored :: evidence where
  "demo_stored = fst (put_bytes demo_ev_env no_faults demo_draws demo_request ''hello'' demo_evidence)"

lemma demo_steps:
  "(ev_step demo_ev_env)\<^sup>*\<^sup>* demo_evidence (fst (cleanup_orphan_files (\<lambda>_. None) 99000000 1 demo_stored))"
proof -
  have "ev_allowed (EV_Put no_faults demo_draws demo_request ''hello'') demo_evidence" by code_simp
  from ev_step.run [OF this, of demo_ev_env] have "ev_step demo_ev_env demo_evidence demo_stored" by (simp add: demo_stored_def)
  moreover have "ev_step demo_ev_env demo_stored (fst (cleanup_orphan_files (\<lambda>_. None) 99000000 1 demo_stored))"
    using ev_step.run [of "EV_Orphans (\<lambda>_. None) 99000000 1" demo_stored demo_ev_env] by simp
  ultimately show ?thesis by (meson rtranclp.rtrancl_refl rtranclp.rtrancl_into_rtrancl)
qed

theorem registered_artifacts_readable_witness:
  "\<exists>a bytes. ev_artifacts (fst (cleanup_orphan_files (\<lambda>_. None) 99000000 1 demo_stored)) = [a]
     \<and> read_bytes demo_ev_env a (fst (cleanup_orphan_files (\<lambda>_. None) 99000000 1 demo_stored)) = Inr bytes \<and> length bytes = 5"
proof -
  have i: "ev_init demo_ev_env demo_evidence" using demo_links by (simp add: ev_init_def demo_evidence_def)
  have "map af_size (ev_artifacts (fst (cleanup_orphan_files (\<lambda>_. None) 99000000 1 demo_stored))) = [5]" by code_simp
  then obtain a where a: "ev_artifacts (fst (cleanup_orphan_files (\<lambda>_. None) 99000000 1 demo_stored)) = [a]" "af_size a = 5" by auto
  then show ?thesis using registered_artifacts_readable [OF i demo_steps, of a] by auto
qed

section \<open>Containment\<close>

lemma own_paths_below: "is_relative_to (final_path root r d) (root @ [pr_audit_id r])" "is_relative_to (temp_path root r d) (root @ [pr_audit_id r])"
  by (simp_all add: is_relative_to_def final_path_def temp_path_def artifact_directory_def)

text \<open>
  C22: whatever strings a caller passes as audit, job, extension and whatever fails, a write or an import changes no file outside
  the directory of its audit below the root, and it changes nothing at all unless the audit is a UUID in canonical text, so that
  this directory is a direct child of the root; the file it leaves is the path the artifact resolves to.
\<close>

theorem writes_contained:
  assumes "put_bytes env pf d r payload s = (s', res) \<or> import_file env pf d r source s = (s', res)"
  shows "(\<not> is_relative_to q (ev_root s @ [pr_audit_id r]) \<longrightarrow> fs_get (ev_files s') q = fs_get (ev_files s) q)
    \<and> (\<not> canonical_uuid (pr_audit_id r) \<longrightarrow> s' = s \<and> (\<exists>e. res = Inl e))
    \<and> (no_links env (ev_root s) \<longrightarrow> (\<forall>a. res = Inr a \<longrightarrow> path_for env a s' = Inr (final_path (ev_root s) r d)))"
proof -
  obtain r' wr where w: "put_outcome env pf d r' wr s s' res" and r': "pr_audit_id r' = pr_audit_id r"
      "final_path (ev_root s) r' d = final_path (ev_root s) r d"
      "\<not> canonical_uuid (pr_audit_id r) \<Longrightarrow> s' = s \<and> (\<exists>e. res = Inl e)"
  proof -
    have c: "\<not> canonical_uuid (pr_audit_id r') \<Longrightarrow> \<exists>e. check_request r' i = Inl e" for r' i
      using check_request_Inr(1) [of r' i] by (cases "check_request r' i") auto
    from assms show thesis
    proof
      assume a: "put_bytes env pf d r payload s = (s', res)"
      show thesis by (rule that [OF put_bytes_outcome [OF a]])
          (use a c [of r "pd_artifact d"] in \<open>auto simp: put_bytes_def store_artifact_def\<close>)
    next
      let ?r = "r\<lparr>pr_schema_name := None, pr_schema_version := None\<rparr>"
      assume a: "import_file env pf d r source s = (s', res)"
      show thesis by (rule that [OF import_file_outcome [OF a]])
          (use a c [of ?r "pd_artifact d"] in \<open>auto simp: import_file_def store_artifact_def final_path_def artifact_directory_def\<close>)
    qed
  qed
  have "fs_get (ev_files s') q = fs_get (ev_files s) q" if "\<not> is_relative_to q (ev_root s @ [pr_audit_id r])"
  proof -
    have "q \<notin> {temp_path (ev_root s) r' d, final_path (ev_root s) r' d}"
      using own_paths_below [of "ev_root s" r' d] r'(1) that by auto
    then show ?thesis using w by (simp add: put_outcome_def Let_def)
  qed
  moreover have "path_for env a s' = Inr (final_path (ev_root s) r d)" if "no_links env (ev_root s)" "res = Inr a" for a
  proof -
    have o: "put_outcome env pf d r' wr s s' (Inr a)" using w that(2) by simp
    then obtain n h where a: "check_request r' (pd_artifact d) = Inr ()" "ev_root s' = ev_root s"
        "a = artifact_of env r' d (relative_to (final_path (ev_root s) r' d) (ev_root s)) n h"
      by (auto simp: put_outcome_def same_rows_def Let_def)
    obtain p where p: "final_path (ev_root s) r' d = ev_root s @ p" "placed a p" using request_placed [OF a(1)] a(3) by metis
    show ?thesis using path_for_placed [OF p(2), of env s'] that(1) a(2) p(1) r'(2) by simp
  qed
  ultimately show ?thesis using r'(3) by blast
qed

definition demo_escape :: put_request where
  "demo_escape = demo_request\<lparr>pr_audit_id := ''../../etc''\<rparr>"

theorem writes_contained_witness:
  "fst (put_bytes demo_ev_env no_faults demo_draws demo_escape ''x'' demo_evidence) = demo_evidence
   \<and> path_for demo_ev_env (hd (ev_artifacts demo_stored)) demo_stored = Inr (final_path [''var'', ''evidence''] demo_request demo_draws)"
proof
  have n: "\<not> canonical_uuid (pr_audit_id demo_escape)" by code_simp
  obtain s res where r: "put_bytes demo_ev_env no_faults demo_draws demo_escape ''x'' demo_evidence = (s, res)" by fastforce
  then show "fst (put_bytes demo_ev_env no_faults demo_draws demo_escape ''x'' demo_evidence) = demo_evidence"
    using writes_contained [of _ _ _ _ _ demo_evidence s res] n by fastforce
  obtain s' res' where q: "put_bytes demo_ev_env no_faults demo_draws demo_request ''hello'' demo_evidence = (s', res')" by fastforce
  obtain a where a: "res' = Inr a" using demo_put(1) q by (auto split: sum.splits)
  have "hd (ev_artifacts demo_stored) = a"
    using put_bytes_atomic [OF q demo_links] a q by (simp add: demo_stored_def demo_evidence_def)
  then show "path_for demo_ev_env (hd (ev_artifacts demo_stored)) demo_stored
      = Inr (final_path [''var'', ''evidence''] demo_request demo_draws)"
    using writes_contained [of demo_ev_env no_faults demo_draws demo_request "''hello''" demo_evidence s' res'] q a demo_links
    by (auto simp: demo_stored_def demo_evidence_def)
qed

section \<open>Importing\<close>

text \<open>The \<^verbatim>\<open>while\<close> loop of \<^verbatim>\<open>import_file\<close> as its condition and its body.\<close>

definition copy_continues :: "nat \<Rightarrow> string \<times> string \<times> string \<times> nat \<Rightarrow> bool" where
  "copy_continues k st \<longleftrightarrow> take k (fst st) \<noteq> []"

definition copy_body :: "nat \<Rightarrow> string \<times> string \<times> string \<times> nat \<Rightarrow> string \<times> string \<times> string \<times> nat" where
  "copy_body k st = (case st of (input, out, dig, n) \<Rightarrow>
     (drop k input, out @ take k input, dig @ take k input, n + length (take k input)))"

lemma copy_chunks_while:
  "0 < k \<Longrightarrow> while_option (copy_continues k) (copy_body k) (input, out, dig, n)
     = Some ([], out @ input, dig @ input, n + length input)"
proof (induction "length input" arbitrary: input out dig n rule: less_induct)
  case less
  show ?case
  proof (cases "input = []")
    case True
    then show ?thesis by (simp add: while_option_unfold copy_continues_def)
  next
    case False
    have c: "copy_continues k (input, out, dig, n)" using False less.prems by (cases input; cases k) (auto simp: copy_continues_def)
    have "length (drop k input) < length input" using False less.prems by simp
    from less.hyps [OF this less.prems, of "out @ take k input" "dig @ take k input" "n + length (take k input)"] c
    show ?thesis by (simp add: while_option_unfold [of _ _ "(input, out, dig, n)"] copy_body_def)
  qed
qed

lemma import_reads:
  assumes "import_file env pf d r source s = (s', Inr a)" "no_links env (ev_root s)"
  obtains x where "fs_get (ev_files s) source = Some x" "read_bytes env a s' = Inr (fl_data x)" "af_size a = length (fl_data x)"
    "ev_artifacts s' = ev_artifacts s @ [a]" "ev_root s' = ev_root s"
proof -
  let ?r = "r\<lparr>pr_schema_name := None, pr_schema_version := None\<rparr>"
  obtain f y where y: "import_write env pf (pd_now d) source (temp_path (ev_root s) ?r d) (ev_files s)
        = (f, Inr (length (fl_data y), ev_sha256 env (fl_data y)))"
      "fs_get f (temp_path (ev_root s) ?r d) = Some y" "read_bytes env a s' = Inr (fl_data y)" "af_size a = length (fl_data y)"
      "ev_artifacts s' = ev_artifacts s @ [a]" "ev_root s' = ev_root s"
    using outcome_read [OF import_file_outcome [OF assms(1)] assms(2)] by metis
  then obtain x where x: "fs_get (ev_files s) source = Some x"
      "put_write env pf (pd_now d) (fl_data x) (temp_path (ev_root s) ?r d) (ev_files s)
        = (f, Inr (length (fl_data y), ev_sha256 env (fl_data y)))"
    unfolding import_write_eq by (auto split: sum.splits option.splits)
  then have "fl_data y = fl_data x" using put_write_payload [OF x(2)] y(2) by auto
  then show thesis using that [OF x(1)] y(3-6) by simp
qed

text \<open>
  C11: importing a file ends for every file: the copying loop, run as a loop that may diverge, stops on every input, and then the
  bytes written, digested and counted are those of the source; so an import that returns reads back as the source file.
\<close>

theorem import_terminates:
  "(\<forall>input. \<exists>st. while_option (copy_continues CHUNK) (copy_body CHUNK) (input, [], [], 0) = Some st
      \<and> copy_chunks CHUNK input ([], [], 0) = snd st \<and> snd st = (input, input, length input))
   \<and> (import_file env pf d r source s = (s', Inr a) \<longrightarrow> no_links env (ev_root s) \<longrightarrow>
       (\<exists>x. fs_get (ev_files s) source = Some x \<and> read_bytes env a s' = Inr (fl_data x)))"
proof (intro conjI impI allI)
  fix input
  show "\<exists>st. while_option (copy_continues CHUNK) (copy_body CHUNK) (input, [], [], 0) = Some st
      \<and> copy_chunks CHUNK input ([], [], 0) = snd st \<and> snd st = (input, input, length input)"
    using copy_chunks_while [of CHUNK input "[]" "[]" 0] copy_chunks_all [of CHUNK input] by (simp add: CHUNK_def)
next
  assume i: "import_file env pf d r source s = (s', Inr a)" "no_links env (ev_root s)"
  show "\<exists>x. fs_get (ev_files s) source = Some x \<and> read_bytes env a s' = Inr (fl_data x)" using import_reads [OF i] by blast
qed

theorem import_terminates_witness:
  "\<exists>s a. import_file demo_ev_env no_faults demo_draws demo_request [''tmp'', ''scan.xml'']
      (demo_evidence\<lparr>ev_files := [([''tmp'', ''scan.xml''], \<lparr>fl_data = ''<nmaprun/>'', fl_mtime = 3\<rparr>)]\<rparr>) = (s, Inr a)
     \<and> read_bytes demo_ev_env a s = Inr ''<nmaprun/>''"
proof -
  let ?s = "demo_evidence\<lparr>ev_files := [([''tmp'', ''scan.xml''], \<lparr>fl_data = ''<nmaprun/>'', fl_mtime = 3\<rparr>)]\<rparr>"
  obtain s res where r: "import_file demo_ev_env no_faults demo_draws demo_request [''tmp'', ''scan.xml''] ?s = (s, res)" by fastforce
  have "check_request demo_request (pd_artifact demo_draws) = Inr ()"
      "check_request (demo_request\<lparr>pr_schema_name := None, pr_schema_version := None\<rparr>) (pd_artifact demo_draws) = Inr ()"
    by code_simp+
  then obtain a where a: "res = Inr a" using r
    by (auto simp: import_file_def store_artifact_def os_error_def no_faults_def fs_get_def demo_evidence_def demo_draws_def
        demo_request_def temp_path_def artifact_directory_def copy_chunks_all CHUNK_def write_temp_def replace_file_def
        register_artifact_def integrity_ok_def artifact_of_def fs_put_def fs_remove_def Let_def)
  then show ?thesis
    using import_terminates [of demo_ev_env no_faults demo_draws demo_request "[''tmp'', ''scan.xml'']" ?s s a] r demo_links
    by (auto simp: fs_get_def)
qed

section \<open>Maintenance\<close>

lemma remove_files_subset: "remove_files fails old es st = (f', res) \<Longrightarrow> fs_get f' p = None \<or> fs_get f' p = fs_get (fst st) p"
proof (induction fails old es st rule: remove_files.induct)
  case (2 fails old e es st)
  show ?case
  proof (cases "old e \<and> fails (fst e) = None")
    case True
    then have "fs_get f' p = None \<or> fs_get f' p = fs_get (fs_remove (fst e) (fst st)) p" using 2(1,3) by auto
    then show ?thesis by (auto split: if_splits)
  next
    case False
    then show ?thesis using 2(2,3) by (auto split: if_splits option.splits)
  qed
qed simp

lemma remove_files_all:
  "remove_files fails old es st = (f', Inr n) \<Longrightarrow> (p, x) \<in> set es \<Longrightarrow> old (p, x) \<Longrightarrow> fs_get f' p = None"
proof (induction fails old es st rule: remove_files.induct)
  case (2 fails old e es st)
  show ?case
  proof (cases "old e")
    case False
    then show ?thesis using 2(2) [OF False] 2(3-5) by auto
  next
    case True
    then have f: "fails (fst e) = None" "remove_files fails old es (fs_remove (fst e) (fst st), Suc (snd st)) = (f', Inr n)"
      using 2(3) by (auto split: option.splits)
    show ?thesis
    proof (cases "(p, x) \<in> set es")
      case True
      then show ?thesis using 2(1) [OF \<open>old e\<close> f(1) f(2)] 2(5) by simp
    next
      case False
      then have "e = (p, x)" using 2(4) by simp
      moreover have "fs_get f' p = None \<or> fs_get f' p = fs_get (fs_remove (fst e) (fst st)) p"
        using remove_files_subset [OF f(2)] by auto
      ultimately show ?thesis by simp
    qed
  qed
qed simp

lemma remove_files_total: "\<exists>f n. remove_files (\<lambda>_. None) old es st = (f, Inr n)"
  by (induction "\<lambda>_ :: path. None :: string option" old es st rule: remove_files.induct) auto

lemma cleanups_total:
  "\<exists>s' n. cleanup_stale_temporary_files (\<lambda>_. None) now age s = (s', Inr n)"
  "\<exists>s' n. cleanup_orphan_files (\<lambda>_. None) now age s = (s', Inr n)"
  unfolding cleanup_stale_temporary_files_def cleanup_orphan_files_def Let_def
  by (metis (no_types, lifting) case_prod_conv remove_files_total)+

lemma stale_removes:
  assumes "cleanup_stale_temporary_files fails now age s = (s', Inr m)" "fs_get (ev_files s) q = Some x" "is_temporary q"
    and "is_relative_to q (ev_root s)" "q \<noteq> ev_root s" "fl_mtime x < now - age * 1000000"
  shows "fs_get (ev_files s') q = None"
proof -
  obtain f where f: "remove_files fails (\<lambda>e. fl_mtime (snd e) < now - age * 1000000)
      (filter (\<lambda>e. is_temporary (fst e)) (below_root s)) (ev_files s, 0) = (f, Inr m)" "s' = s\<lparr>ev_files := f\<rparr>"
    using assms(1) by (auto simp: cleanup_stale_temporary_files_def split: prod.splits)
  have "(q, x) \<in> set (filter (\<lambda>e. is_temporary (fst e)) (below_root s))"
    using fs_get_mem [OF assms(2)] assms(3-5) by (simp add: below_root_def)
  from remove_files_all [OF f(1) this] assms(6) f(2) show ?thesis by simp
qed

lemma orphans_remove:
  assumes "cleanup_orphan_files fails now age s = (s', Inr m)" "fs_get (ev_files s) q = Some x" "\<not> is_temporary q"
    and "is_relative_to q (ev_root s)" "q \<noteq> ev_root s" "fl_mtime x < now - age * 1000000"
    and "relative_to q (ev_root s) \<notin> af_relative_path ` set (ev_artifacts s)"
  shows "fs_get (ev_files s') q = None"
proof -
  obtain f where f: "remove_files fails (\<lambda>e. relative_to (fst e) (ev_root s) \<notin> af_relative_path ` set (ev_artifacts s)
        \<and> fl_mtime (snd e) < now - age * 1000000) (artifact_files s) (ev_files s, 0) = (f, Inr m)" "s' = s\<lparr>ev_files := f\<rparr>"
    using assms(1) by (auto simp: cleanup_orphan_files_def Let_def split: prod.splits)
  have "(q, x) \<in> set (artifact_files s)"
    using fs_get_mem [OF assms(2)] assms(3-5) by (simp add: artifact_files_def below_root_def)
  from remove_files_all [OF f(1) this] assms(6,7) f(2) show ?thesis by simp
qed

lemma cleanup_rows:
  "cleanup_stale_temporary_files fails now age s = (s', res) \<Longrightarrow> ev_root s' = ev_root s \<and> ev_artifacts s' = ev_artifacts s
     \<and> (fs_get (ev_files s') q = None \<or> fs_get (ev_files s') q = fs_get (ev_files s) q)"
  "cleanup_orphan_files fails now age s = (s', res) \<Longrightarrow> ev_root s' = ev_root s \<and> ev_artifacts s' = ev_artifacts s
     \<and> (fs_get (ev_files s') q = None \<or> fs_get (ev_files s') q = fs_get (ev_files s) q)"
  using remove_files_subset by (fastforce simp: cleanup_stale_temporary_files_def cleanup_orphan_files_def Let_def split: prod.splits)+

lemma relative_to_child: "is_relative_to q (root @ [c]) \<Longrightarrow> \<exists>rest. q = root @ c # rest"
  using append_take_drop_id [of "length (root @ [c])" q] unfolding is_relative_to_def by (metis append.assoc append_Cons append_Nil)

lemma audit_not_registered:
  assumes "canonical_uuid audit" "is_relative_to q (root @ [audit])" "placed a p" "af_audit_id a \<noteq> audit"
  shows "relative_to q root \<noteq> af_relative_path a"
proof
  assume e: "relative_to q root = af_relative_path a"
  obtain rest where q: "q = root @ audit # rest" using relative_to_child [OF assms(2)] by blast
  have j: "canonical_uuid w \<Longrightarrow> take 36 (join_on ''/'' (w # ws)) = w" for w ws
    using canonical_length [of w] by (cases ws) auto
  have "take 36 (relative_to q root) = audit" using j [OF assms(1)] by (simp add: q)
  moreover have "take 36 (af_relative_path a) = af_audit_id a" using assms(3) canonical_length by (auto simp: placed_def)
  ultimately show False using e assms(4) by simp
qed

lemma delete_audit_files_rows:
  assumes "delete_audit_files env fault audit s = (s', res)"
  shows "ev_root s' = ev_root s" "ev_artifacts s' = ev_artifacts (drop_audit_rows audit s)" "set (ev_files s') \<subseteq> set (ev_files s)"
  using assms by (auto simp: delete_audit_files_def Let_def remove_tree_def split: if_splits option.splits)

text \<open>
  C20: an audit deletion whose removal of files failed half way is completed by maintenance. When both cleanups then run without
  an error, late enough for the files to be stale, no file of the deleted audit is left, while every artifact of another audit
  still reads back.
\<close>

theorem maintenance_completes_deletion:
  assumes good: "ev_good env s" and audit: "canonical_uuid audit"
    and del: "delete_audit_files env fault audit s = (s1, res)"
    and stale: "cleanup_stale_temporary_files fails now age s1 = (s2, Inr m)"
    and orphans: "cleanup_orphan_files fails' now age s2 = (s3, Inr n)"
    and old: "\<forall>e \<in> set (ev_files s). fl_mtime (snd e) < now - age * 1000000"
  shows "(is_relative_to q (ev_root s @ [audit]) \<longrightarrow> fs_get (ev_files s3) q = None)
    \<and> (a \<in> set (ev_artifacts s3) \<longrightarrow> af_audit_id a \<noteq> audit \<and> (\<exists>bytes. read_bytes env a s3 = Inr bytes \<and> length bytes = af_size a))"
proof -
  note dr = delete_audit_files_rows [OF del] and cr = cleanup_rows(1) [OF stale] cleanup_rows(2) [OF orphans]
  have inv: "ev_inv env s1" "ev_inv env s3"
    using ev_inv_delete [OF _ _ audit del] ev_inv_stale [OF _ stale] ev_inv_orphans [OF _ orphans] good by (auto simp: ev_good_def)
  have rows: "ev_artifacts s3 = ev_artifacts (drop_audit_rows audit s)" "ev_root s3 = ev_root s" using dr cr by auto
  have others: "af_audit_id b \<noteq> audit" if "b \<in> set (ev_artifacts s3)" for b
    using ev_inv_drop_rows(2) [of env s audit] good rows(1) that by (auto simp: ev_good_def)
  have "fs_get (ev_files s3) q = None" if q: "is_relative_to q (ev_root s @ [audit])"
  proof (rule ccontr)
    assume "fs_get (ev_files s3) q \<noteq> None"
    then obtain x where x: "fs_get (ev_files s2) q = Some x" "fs_get (ev_files s3) q = Some x" using cr(2) [of q] by auto
    then have x1: "fs_get (ev_files s1) q = Some x" using cr(1) [of q] by auto
    have "(q, x) \<in> set (ev_files s)" using fs_get_mem [OF x1] dr(3) by blast
    then have "fl_mtime x < now - age * 1000000" using old by force
    moreover have "is_relative_to q (ev_root s)" "q \<noteq> ev_root s" using relative_to_child [OF q] by auto
    moreover have "relative_to q (ev_root s) \<notin> af_relative_path ` set (ev_artifacts s2)"
      using audit_not_registered [OF audit q] others inv(2) cr by (fastforce simp: ev_inv_def stored_whole_def)
    ultimately show False
      using stale_removes [OF stale x1] orphans_remove [OF orphans x(1)] x dr(1) cr by auto
  qed
  moreover have "\<exists>bytes. read_bytes env a s3 = Inr bytes \<and> length bytes = af_size a" if "a \<in> set (ev_artifacts s3)"
    using read_whole [of env a s3] inv(2) that good rows(2) by (auto simp: ev_inv_def ev_good_def)
  ultimately show ?thesis using others by blast
qed

definition demo_half_deleted :: evidence where
  "demo_half_deleted = fst (delete_audit_files demo_ev_env (Some 0) (demo_uuid 1) demo_stored)"

theorem maintenance_completes_deletion_witness:
  "fs_get (ev_files demo_half_deleted) (final_path [''var'', ''evidence''] demo_request demo_draws) \<noteq> None
   \<and> fs_get (ev_files (fst (cleanup_orphan_files (\<lambda>_. None) 99000000 1
        (fst (cleanup_stale_temporary_files (\<lambda>_. None) 99000000 1 demo_half_deleted)))))
      (final_path [''var'', ''evidence''] demo_request demo_draws) = None"
proof
  show "fs_get (ev_files demo_half_deleted) (final_path [''var'', ''evidence''] demo_request demo_draws) \<noteq> None" by code_simp
  have g: "ev_good demo_ev_env demo_stored"
  proof (rule evs.inv_reachable)
    show "ev_init demo_ev_env demo_evidence" using demo_links by (simp add: ev_init_def demo_evidence_def)
    have "ev_allowed (EV_Put no_faults demo_draws demo_request ''hello'') demo_evidence" by code_simp
    from ev_step.run [OF this, of demo_ev_env] show "(ev_step demo_ev_env)\<^sup>*\<^sup>* demo_evidence demo_stored" by (simp add: demo_stored_def)
  qed
  have c: "canonical_uuid (demo_uuid 1)" "\<forall>e \<in> set (ev_files demo_stored). fl_mtime (snd e) < 99000000 - 1 * 1000000" by code_simp+
  obtain res where d: "delete_audit_files demo_ev_env (Some 0) (demo_uuid 1) demo_stored = (demo_half_deleted, res)"
    unfolding demo_half_deleted_def by (metis prod.collapse)
  obtain s2 m where t: "cleanup_stale_temporary_files (\<lambda>_. None) 99000000 1 demo_half_deleted = (s2, Inr m)"
    using cleanups_total(1) by blast
  obtain s3 n where o: "cleanup_orphan_files (\<lambda>_. None) 99000000 1 s2 = (s3, Inr n)"
    using cleanups_total(2) by blast
  have r: "ev_root demo_stored = [''var'', ''evidence'']" "pr_audit_id demo_request = demo_uuid 1" by code_simp+
  show "fs_get (ev_files (fst (cleanup_orphan_files (\<lambda>_. None) 99000000 1
        (fst (cleanup_stale_temporary_files (\<lambda>_. None) 99000000 1 demo_half_deleted)))))
      (final_path [''var'', ''evidence''] demo_request demo_draws) = None"
    using maintenance_completes_deletion [OF g c(1) d t o c(2)] own_paths_below(1) [of "[''var'', ''evidence'']" demo_request] t o r by simp
qed

end
