(* ===== verification/Nmap_Progress.thy ===== *)
theory Nmap_Progress
  imports Py_Value Inventory_Base
begin

text \<open>
  The live progress of a scan (\<^verbatim>\<open>providers/nmap_progress.py\<close>): lines put together from the chunks of two pipes, the five patterns
  searched in a line, and the snapshots. A pattern is a function from a suffix of the line to its groups; \<open>search\<close> tries
  the suffixes from the left. No repetition of the patterns can give back characters to what follows it, except in the last two
  patterns, whose choice is written out. \<open>clamp\<close> reads a decimal text as a float and limits it to the range from 0 to 100.
\<close>

section \<open>Patterns\<close>

fun search :: "(string \<Rightarrow> 'a option) \<Rightarrow> string \<Rightarrow> 'a option" where
  "search f [] = f []"
| "search f (c # s) = (case f (c # s) of Some x \<Rightarrow> Some x | None \<Rightarrow> search f s)"

text \<open>The rest after a literal that ignores case (written in lower case).\<close>

definition lit :: "string \<Rightarrow> string \<Rightarrow> string option" where
  "lit w s = (if lower (take (length w) s) = w then Some (drop (length w) s) else None)"

definition some_of :: "(char \<Rightarrow> bool) \<Rightarrow> string \<Rightarrow> (string \<times> string) option" where
  "some_of p s = (let w = takeWhile p s in if w = [] then None else Some (w, dropWhile p s))"

definition spaces :: "string \<Rightarrow> string option" where
  "spaces s = map_option snd (some_of is_space s)"

definition open_here :: "string \<Rightarrow> (nat \<times> string) option" where
  "open_here s =
     Option.bind (lit ''discovered open port'' s) (\<lambda>a. Option.bind (spaces a) (\<lambda>b. Option.bind (some_of is_ascii_digit b) (\<lambda>(port, c).
     Option.bind (lit ''/'' c) (\<lambda>d. Option.bind (case lit ''tcp'' d of Some r \<Rightarrow> Some r | None \<Rightarrow> lit ''udp'' d) (\<lambda>e.
     Option.bind (spaces e) (\<lambda>f. Option.bind (lit ''on'' f) (\<lambda>g. Option.bind (spaces g) (\<lambda>h.
     Option.bind (some_of (\<lambda>x. \<not> is_space x) h) (\<lambda>(host, r). Some (from_base 10 port, host))))))))))"

text \<open>The fraction is taken when a digit follows the dot.\<close>

definition decimal :: "string \<Rightarrow> (string \<times> string) option" where
  "decimal s = Option.bind (some_of is_ascii_digit s) (\<lambda>(a, r). case r of
     c # r' \<Rightarrow> if c = CHR ''.'' then (case some_of is_ascii_digit r' of Some (b, t) \<Rightarrow> Some (a @ ''.'' @ b, t) | None \<Rightarrow> Some (a, r))
              else Some (a, r)
   | [] \<Rightarrow> Some (a, r))"

definition percent_here :: "string \<Rightarrow> string option" where
  "percent_here s =
     Option.bind (lit ''about'' s) (\<lambda>a. Option.bind (spaces a) (\<lambda>b. Option.bind (decimal b) (\<lambda>(v, c).
     Option.bind (lit ''%'' c) (\<lambda>d. Option.bind (spaces d) (\<lambda>e. map_option (\<lambda>_. v) (lit ''done'' e))))))"

definition hosts_here :: "string \<Rightarrow> (nat \<times> nat) option" where
  "hosts_here s =
     Option.bind (some_of is_ascii_digit s) (\<lambda>(completed, a). Option.bind (spaces a) (\<lambda>b. Option.bind (lit ''host'' b) (\<lambda>c.
     Option.bind (spaces (case lit ''s'' c of Some r \<Rightarrow> r | None \<Rightarrow> c)) (\<lambda>d. Option.bind (lit ''completed'' d) (\<lambda>e.
     Option.bind (spaces e) (\<lambda>f. Option.bind (lit ''('' f) (\<lambda>g. Option.bind (some_of is_ascii_digit g) (\<lambda>(up, h).
     Option.bind (spaces h) (\<lambda>i. map_option (\<lambda>_. (from_base 10 completed, from_base 10 up)) (lit ''up)'' i))))))))))"

text \<open>The run without parentheses must end in \<^verbatim>\<open>remaining\<close> before the closing one; the group takes all but one white space.\<close>

definition remaining_here :: "string \<Rightarrow> string option" where
  "remaining_here s = (case s of [] \<Rightarrow> None | c # t \<Rightarrow>
     let inside = takeWhile (\<lambda>x. x \<notin> set ''()'') t; rest = dropWhile (\<lambda>x. x \<notin> set ''()'') t; n = length inside - 9;
         group = take n inside
     in if c = CHR ''('' \<and> rest \<noteq> [] \<and> hd rest = CHR '')'' \<and> 9 \<le> length inside \<and> lower (drop n inside) = ''remaining''
          \<and> 2 \<le> length group \<and> is_space (last group)
        then Some (butlast group) else None)"

definition timing_here :: "string \<Rightarrow> bool" where
  "timing_here s \<longleftrightarrow> Option.bind (spaces s) (\<lambda>a. Option.bind (lit ''timing:'' a) (\<lambda>b. Option.bind (spaces b) (lit ''about''))) \<noteq> None"

text \<open>The shortest group, read into \<open>acc\<close> backwards.\<close>

fun phase_from :: "string \<Rightarrow> string \<Rightarrow> string option" where
  "phase_from acc s = (if acc \<noteq> [] \<and> timing_here s then Some (rev acc) else case s of [] \<Rightarrow> None
     | c # t \<Rightarrow> if c = CHR '':'' \<or> code c = 10 \<or> code c = 13 then None else phase_from (c # acc) t)"

definition phase_here :: "string \<Rightarrow> string option" where
  "phase_here s = phase_from [] s"

section \<open>State\<close>

record progress_snapshot =
  ps_percent :: "string option"
  ps_phase :: "string option"
  ps_hosts_completed :: "nat option"
  ps_hosts_up :: "nat option"
  ps_open_ports :: nat
  ps_last_open_port :: "nat option"
  ps_last_open_host :: "string option"
  ps_remaining :: "string option"

record progress_parser =
  pp_stdout :: string
  pp_stderr :: string
  pp_percent :: "string option"
  pp_phase :: "string option"
  pp_hosts_completed :: "nat option"
  pp_hosts_up :: "nat option"
  pp_remaining :: "string option"
  pp_open :: "(string \<times> nat) list"
  pp_last_open_port :: "nat option"
  pp_last_open_host :: "string option"

definition new_parser :: progress_parser where
  "new_parser = \<lparr>pp_stdout = [], pp_stderr = [], pp_percent = None, pp_phase = None, pp_hosts_completed = None, pp_hosts_up = None,
     pp_remaining = None, pp_open = [], pp_last_open_port = None, pp_last_open_host = None\<rparr>"

definition snapshot :: "progress_parser \<Rightarrow> progress_snapshot" where
  "snapshot p = \<lparr>ps_percent = pp_percent p, ps_phase = pp_phase p, ps_hosts_completed = pp_hosts_completed p,
     ps_hosts_up = pp_hosts_up p, ps_open_ports = length (pp_open p), ps_last_open_port = pp_last_open_port p,
     ps_last_open_host = pp_last_open_host p, ps_remaining = pp_remaining p\<rparr>"

section \<open>One line\<close>

text \<open>Each pattern changes the state and tells whether something changed.\<close>

definition see_open :: "string \<Rightarrow> progress_parser \<Rightarrow> progress_parser \<times> bool" where
  "see_open line p = (case search open_here line of None \<Rightarrow> (p, False)
     | Some (port, host) \<Rightarrow> (p\<lparr>pp_open := (if (host, port) \<in> set (pp_open p) then pp_open p else pp_open p @ [(host, port)]),
         pp_last_open_host := Some host, pp_last_open_port := Some port\<rparr>, (host, port) \<notin> set (pp_open p)))"

definition see_percent :: "(string \<Rightarrow> string) \<Rightarrow> string \<Rightarrow> progress_parser \<Rightarrow> progress_parser \<times> bool" where
  "see_percent clamp line p = (case search percent_here line of None \<Rightarrow> (p, False)
     | Some t \<Rightarrow> if Some (clamp t) \<noteq> pp_percent p then (p\<lparr>pp_percent := Some (clamp t)\<rparr>, True) else (p, False))"

definition see_hosts :: "string \<Rightarrow> progress_parser \<Rightarrow> progress_parser \<times> bool" where
  "see_hosts line p = (case search hosts_here line of None \<Rightarrow> (p, False)
     | Some (completed, up) \<Rightarrow> if Some completed \<noteq> pp_hosts_completed p \<or> Some up \<noteq> pp_hosts_up p
         then (p\<lparr>pp_hosts_completed := Some completed, pp_hosts_up := Some up\<rparr>, True) else (p, False))"

definition see_remaining :: "string \<Rightarrow> progress_parser \<Rightarrow> progress_parser \<times> bool" where
  "see_remaining line p = (case search remaining_here line of None \<Rightarrow> (p, False)
     | Some t \<Rightarrow> if Some (strip t) \<noteq> pp_remaining p then (p\<lparr>pp_remaining := Some (strip t)\<rparr>, True) else (p, False))"

definition see_phase :: "string \<Rightarrow> progress_parser \<Rightarrow> progress_parser \<times> bool" where
  "see_phase line p = (case search phase_here line of None \<Rightarrow> (p, False)
     | Some t \<Rightarrow> if Some (strip t) \<noteq> pp_phase p then (p\<lparr>pp_phase := Some (strip t)\<rparr>, True) else (p, False))"

definition parse_line :: "(string \<Rightarrow> string) \<Rightarrow> string \<Rightarrow> progress_parser \<Rightarrow> progress_parser \<times> progress_snapshot list" where
  "parse_line clamp line p =
     (if line = [] then (p, [])
      else let (p1, c1) = see_open line p; (p2, c2) = see_percent clamp line p1; (p3, c3) = see_hosts line p2;
               (p4, c4) = see_remaining line p3; (p5, c5) = see_phase line p4
           in (p5, if c1 \<or> c2 \<or> c3 \<or> c4 \<or> c5 then [snapshot p5] else []))"

section \<open>Chunks\<close>

fun parse_lines :: "(string \<Rightarrow> string) \<Rightarrow> string list \<Rightarrow> progress_parser \<Rightarrow> progress_parser \<times> progress_snapshot list" where
  "parse_lines clamp [] p = (p, [])"
| "parse_lines clamp (l # ls) p = (let (p', xs) = parse_line clamp (strip l) p; (p'', ys) = parse_lines clamp ls p' in (p'', xs @ ys))"

definition NEWLINE :: char where
  "NEWLINE = char_of (10 :: nat)"

definition buffer :: "bool \<Rightarrow> progress_parser \<Rightarrow> string" where
  "buffer err p = (if err then pp_stderr p else pp_stdout p)"

definition set_buffer :: "bool \<Rightarrow> string \<Rightarrow> progress_parser \<Rightarrow> progress_parser" where
  "set_buffer err t p = (if err then p\<lparr>pp_stderr := t\<rparr> else p\<lparr>pp_stdout := t\<rparr>)"

definition newlines :: "string \<Rightarrow> string" where
  "newlines t = map (\<lambda>c. if code c = 13 then NEWLINE else c) t"

definition feed :: "(string \<Rightarrow> string) \<Rightarrow> string \<Rightarrow> string \<Rightarrow> progress_parser \<Rightarrow> progress_parser \<times> progress_snapshot list" where
  "feed clamp stream chunk p =
     (if chunk = [] then (p, [])
      else let err = (stream = ''stderr''); lines = split_on NEWLINE (buffer err p @ newlines chunk)
           in parse_lines clamp (butlast lines) (set_buffer err (last lines) p))"

definition flush_stream :: "(string \<Rightarrow> string) \<Rightarrow> bool \<Rightarrow> progress_parser \<Rightarrow> progress_parser \<times> progress_snapshot list" where
  "flush_stream clamp err p = parse_line clamp (strip (buffer err p)) (set_buffer err [] p)"

definition flush :: "(string \<Rightarrow> string) \<Rightarrow> progress_parser \<Rightarrow> progress_parser \<times> progress_snapshot list" where
  "flush clamp p = (let (p1, xs) = flush_stream clamp False p; (p2, ys) = flush_stream clamp True p1 in (p2, xs @ ys))"

fun feed_all :: "(string \<Rightarrow> string) \<Rightarrow> (string \<times> string) list \<Rightarrow> progress_parser \<Rightarrow> progress_parser \<times> progress_snapshot list" where
  "feed_all clamp [] p = (p, [])"
| "feed_all clamp ((stream, chunk) # cs) p =
     (let (p1, xs) = feed clamp stream chunk p; (p2, ys) = feed_all clamp cs p1 in (p2, xs @ ys))"

end
