(* ===== verification/Nmap_Progress_Properties.thy ===== *)
theory Nmap_Progress_Properties
  imports Nmap_Progress
begin

text \<open>
  Pipe reads are not aligned with lines: the snapshots of a scan do not depend on where its output was cut into chunks.
\<close>

lemma split_on_app: "split_on c (s @ t) = butlast (split_on c s) @ split_on c (last (split_on c s) @ t)"
proof (induction s)
  case (Cons x s)
  obtain w ws where w: "split_on c s = w # ws" by (cases "split_on c s") simp_all
  show ?case
  proof (cases "ws = []")
    case True
    then show ?thesis using Cons w by (cases "split_on c (w @ t)") simp_all
  next
    case False
    then show ?thesis using Cons w by simp
  qed
qed simp

section \<open>Buffers and lines\<close>

lemma set_buffer_simps [simp]:
  "set_buffer e u (set_buffer e t p) = set_buffer e u p" "buffer e (set_buffer e t p) = t"
  "buffer (\<not> e) (set_buffer e t p) = buffer (\<not> e) p" "set_buffer e (buffer e p) p = p"
  by (auto simp: set_buffer_def buffer_def)

definition parser_run :: "(progress_parser \<Rightarrow> progress_parser \<times> 'a) \<Rightarrow> bool" where
  "parser_run f \<longleftrightarrow> (\<forall>e t p. f (set_buffer e t p) = (set_buffer e t (fst (f p)), snd (f p))) \<and> (\<forall>e p. buffer e (fst (f p)) = buffer e p)"

lemma parser_runI:
  assumes "\<And>e t p. f (set_buffer e t p) = (set_buffer e t (fst (f p)), snd (f p))" "\<And>e p. buffer e (fst (f p)) = buffer e p"
  shows "parser_run f"
  using assms by (simp add: parser_run_def)

lemma parser_run_set: "parser_run f \<Longrightarrow> f (set_buffer e t p) = (set_buffer e t (fst (f p)), snd (f p))"
  by (simp add: parser_run_def)

lemma parser_run_buffer: "parser_run f \<Longrightarrow> buffer e (fst (f p)) = buffer e p"
  by (simp add: parser_run_def)

lemma see_runs:
  "parser_run (see_open l)" "parser_run (see_percent clamp l)" "parser_run (see_hosts l)" "parser_run (see_remaining l)"
  "parser_run (see_phase l)"
  by (auto intro!: parser_runI simp: see_open_def see_percent_def see_hosts_def see_remaining_def see_phase_def set_buffer_def buffer_def
      split: option.split)

lemma snapshot_set_buffer [simp]: "snapshot (set_buffer e t p) = snapshot p"
  by (simp add: snapshot_def set_buffer_def)

lemma parse_line_run: "parser_run (parse_line clamp l)"
  by (rule parser_runI)
    (simp_all add: parse_line_def Let_def case_prod_beta see_runs parser_run_set parser_run_buffer)

lemma parse_lines_run: "parser_run (parse_lines clamp ls)"
proof (induction ls)
  case (Cons l ls)
  then show ?case
    by (intro parser_runI) (simp_all add: Let_def case_prod_beta parse_line_run parser_run_set parser_run_buffer)
qed (simp add: parser_run_def)

lemma parse_lines_append:
  "parse_lines clamp (xs @ ys) p =
     (let (p1, a) = parse_lines clamp xs p; (p2, b) = parse_lines clamp ys p1 in (p2, a @ b))"
  by (induction xs arbitrary: p) (simp_all add: Let_def case_prod_beta)

lemma parse_line_Nil [simp]: "parse_line clamp [] p = (p, [])" "parse_line clamp (strip []) p = (p, [])"
  by (simp_all add: parse_line_def strip_def)

section \<open>Chunks\<close>

text \<open>\<open>feed\<close> without its shortcut for an empty chunk, which it only takes for speed when the buffer is a piece of a line.\<close>

definition one_line :: "string \<Rightarrow> bool" where
  "one_line t \<longleftrightarrow> NEWLINE \<notin> set t"

lemma last_split_one_line: "one_line (last (split_on NEWLINE s))"
  unfolding one_line_def
proof (induction s)
  case (Cons x s)
  then show ?case by (cases "split_on NEWLINE s") (auto split: if_splits)
qed simp

lemma split_one_line: "one_line t \<Longrightarrow> split_on NEWLINE t = [t]"
  by (simp add: one_line_def split_on_word)

lemma feed_split:
  assumes "one_line (buffer (stream = ''stderr'') p)"
  shows "feed clamp stream chunk p = (let lines = split_on NEWLINE (buffer (stream = ''stderr'') p @ newlines chunk)
    in parse_lines clamp (butlast lines) (set_buffer (stream = ''stderr'') (last lines) p))"
  using assms by (cases "chunk = []") (simp_all add: feed_def split_one_line newlines_def Let_def)

lemma feed_buffer:
  assumes "one_line (buffer (stream = ''stderr'') p)"
  shows "one_line (buffer (stream = ''stderr'') (fst (feed clamp stream chunk p)))"
  unfolding feed_split [OF assms] Let_def by (simp add: parser_run_buffer [OF parse_lines_run] last_split_one_line)

lemma feed_append:
  assumes "one_line (buffer (stream = ''stderr'') p)"
  shows "feed clamp stream (a @ b) p =
    (let (p1, xs) = feed clamp stream a p; (p2, ys) = feed clamp stream b p1 in (p2, xs @ ys))"
proof -
  let ?e = "stream = ''stderr''"
  let ?l = "split_on NEWLINE (buffer ?e p @ newlines a)"
  let ?m = "split_on NEWLINE (last ?l @ newlines b)"
  have n: "newlines (a @ b) = newlines a @ newlines b" by (simp add: newlines_def)
  have l: "split_on NEWLINE (buffer ?e p @ newlines (a @ b)) = butlast ?l @ ?m"
    unfolding n append_assoc [symmetric] by (rule split_on_app)
  have "butlast (butlast ?l @ ?m) = butlast ?l @ butlast ?m" "last (butlast ?l @ ?m) = last ?m"
    by (simp_all add: butlast_append)
  then have "feed clamp stream (a @ b) p = parse_lines clamp (butlast ?l @ butlast ?m) (set_buffer ?e (last ?m) p)"
    unfolding feed_split [OF assms] Let_def l by simp
  also have "\<dots> = (let (p1, xs) = feed clamp stream a p; (p2, ys) = feed clamp stream b p1 in (p2, xs @ ys))"
  proof -
    obtain q xs where q: "parse_lines clamp (butlast ?l) p = (q, xs)" by force
    have a: "feed clamp stream a p = (set_buffer ?e (last ?l) q, xs)"
      unfolding feed_split [OF assms] Let_def by (simp add: parser_run_set [OF parse_lines_run] q)
    have "one_line (buffer ?e (set_buffer ?e (last ?l) q))" by (simp add: last_split_one_line)
    from feed_split [OF this] have "feed clamp stream b (set_buffer ?e (last ?l) q) = parse_lines clamp (butlast ?m) (set_buffer ?e (last ?m) q)"
      by (simp add: Let_def)
    then show ?thesis
      by (simp add: a parse_lines_append parser_run_set [OF parse_lines_run] q case_prod_beta Let_def)
  qed
  finally show ?thesis .
qed

lemma feed_all_concat:
  "one_line (buffer (stream = ''stderr'') p) \<Longrightarrow> feed_all clamp (map (Pair stream) chunks) p = feed clamp stream (concat chunks) p"
proof (induction chunks arbitrary: p)
  case Nil
  then show ?case by (simp add: feed_def)
next
  case (Cons c cs)
  show ?case using feed_append [OF Cons.prems, of clamp c "concat cs"] Cons.IH [OF feed_buffer [OF Cons.prems]]
    by (simp add: Let_def case_prod_beta)
qed

section \<open>Properties\<close>

text \<open>
  C18: however the output of a scan on one of the two pipes is cut into chunks, feeding the chunks to a new parser and flushing it
  gives the same final state and the same snapshots, in the same order, as parsing the lines of the whole output one by one.
\<close>

theorem progress_chunk_invariant:
  "(let (p, xs) = feed_all clamp (map (Pair stream) chunks) new_parser; (q, ys) = flush clamp p in (q, xs @ ys))
     = parse_lines clamp (split_on NEWLINE (newlines (concat chunks))) new_parser"
proof -
  let ?e = "stream = ''stderr''" and ?l = "split_on NEWLINE (newlines (concat chunks))"
  have n: "buffer e new_parser = []" "set_buffer e [] new_parser = new_parser" for e
    by (simp_all add: buffer_def set_buffer_def new_parser_def)
  have one: "one_line (buffer ?e new_parser)" by (simp add: n one_line_def)
  obtain q xs where q: "parse_lines clamp (butlast ?l) new_parser = (q, xs)" by force
  have qb: "buffer e q = []" for e using parser_run_buffer [OF parse_lines_run, of e clamp "butlast ?l" new_parser] q n by simp
  have qs: "set_buffer e [] q = q" for e using qb [of e] by (metis set_buffer_simps(4))
  have f: "feed_all clamp (map (Pair stream) chunks) new_parser = (set_buffer ?e (last ?l) q, xs)"
    unfolding feed_all_concat [OF one] feed_split [OF one] Let_def
    by (simp add: n(1) parser_run_set [OF parse_lines_run] q)
  have other: "flush_stream clamp e r = (r, [])" if "buffer e r = []" for e r
    using that set_buffer_simps(4) [of e r] by (simp add: flush_stream_def)
  obtain r ys where r: "parse_line clamp (strip (last ?l)) q = (r, ys)" by force
  have rb: "buffer e r = []" for e using parser_run_buffer [OF parse_line_run, of e clamp "strip (last ?l)" q] r qb by simp
  have own: "flush_stream clamp ?e (set_buffer ?e (last ?l) q) = (r, ys)"
    by (simp add: flush_stream_def qs r)
  have "flush clamp (set_buffer ?e (last ?l) q) = (r, ys)"
  proof (cases ?e)
    case True
    then have "buffer False (set_buffer ?e (last ?l) q) = []" using qb [of False] by (simp add: buffer_def set_buffer_def)
    then show ?thesis using True own other [of False "set_buffer True (last ?l) q"] by (simp add: flush_def)
  next
    case False
    then show ?thesis using own other [OF rb [of True]] by (simp add: flush_def)
  qed
  moreover have "parse_lines clamp ?l new_parser = (r, xs @ ys)"
    using parse_lines_append [of clamp "butlast ?l" "[last ?l]" new_parser] by (simp add: q r)
  ultimately show ?thesis by (simp add: f)
qed

end
