(* ===== verification/Active_Profiles.thy ===== *)
theory Active_Profiles
  imports Scope Py_Value
begin

text \<open>
  The scan profiles of active discovery (\<^verbatim>\<open>engine/active_profiles.py\<close>): the bounded document of a profile, the built-in
  documents, and the profile a scan runs with. \<open>lax\<close> converts a JSON value that is not already an integer or a Boolean, as
  pydantic does in its lax mode; the text of a pydantic error is not kept.
\<close>

section \<open>Documents\<close>

record profile_document =
  ap_timing :: string
  ap_tcp_top_ports :: "int option"
  ap_tcp_ports :: "string option"
  ap_udp_ports :: "int list"
  ap_service_detection :: bool
  ap_version_intensity :: "int option"
  ap_os_detection :: bool
  ap_run_tcp_scan :: bool
  ap_run_udp_scan :: bool

record active_scan_profile = profile_document +
  ap_name :: active_profile
  ap_timeout_seconds :: int

datatype profile_config_error =
    Profiles_unreadable string string
  | Profiles_not_object
  | Profiles_names
  | Profiles_invalid
  | Profile_invalid active_profile

record lax_values =
  lax_int :: "json \<Rightarrow> int option"
  lax_bool :: "json \<Rightarrow> bool option"

definition validate_ports :: "string option \<Rightarrow> int list \<Rightarrow> bool" where
  "validate_ports tcp_ports udp_ports \<longleftrightarrow> length udp_ports \<le> 256 \<and> (\<forall>p \<in> set udp_ports. 1 \<le> p \<and> p \<le> 65535)
     \<and> tcp_ports \<in> {None, Some ''1-65535''}"

definition TIMINGS :: "string list" where
  "TIMINGS = [''T0'', ''T1'', ''T2'', ''T3'', ''T4'']"

text \<open>The field constraints and the validator both model classes declare.\<close>

definition document_ok :: "'a profile_document_scheme \<Rightarrow> bool" where
  "document_ok d \<longleftrightarrow> ap_timing d \<in> set TIMINGS
     \<and> (case ap_tcp_top_ports d of None \<Rightarrow> True | Some n \<Rightarrow> 1 \<le> n \<and> n \<le> 65535)
     \<and> (case ap_tcp_ports d of None \<Rightarrow> True | Some t \<Rightarrow> length t \<le> 64)
     \<and> (case ap_version_intensity d of None \<Rightarrow> True | Some n \<Rightarrow> 0 \<le> n \<and> n \<le> 9)
     \<and> validate_ports (ap_tcp_ports d) (ap_udp_ports d)"

section \<open>Decoding\<close>

definition field_int :: "lax_values \<Rightarrow> json \<Rightarrow> int option" where
  "field_int lax v = (case v of JInt n \<Rightarrow> Some n | _ \<Rightarrow> lax_int lax v)"

text \<open>A field with a default: absent, or a value of its type.\<close>

definition field_or :: "'a \<Rightarrow> (json \<Rightarrow> 'a option) \<Rightarrow> json_obj \<Rightarrow> string \<Rightarrow> 'a option" where
  "field_or absent read d k = (case map_of d k of None \<Rightarrow> Some absent | Some v \<Rightarrow> read v)"

definition read_bool :: "lax_values \<Rightarrow> json \<Rightarrow> bool option" where
  "read_bool lax v = (case v of JBool b \<Rightarrow> Some b | _ \<Rightarrow> lax_bool lax v)"

definition read_opt_int :: "lax_values \<Rightarrow> json \<Rightarrow> int option option" where
  "read_opt_int lax v = (if v = JNull then Some None else map_option Some (field_int lax v))"

definition read_opt_str :: "json \<Rightarrow> string option option" where
  "read_opt_str v = (case v of JNull \<Rightarrow> Some None | JStr s \<Rightarrow> Some (Some s) | _ \<Rightarrow> None)"

definition read_ints :: "lax_values \<Rightarrow> json \<Rightarrow> int list option" where
  "read_ints lax v = (case v of JList xs \<Rightarrow> those (map (field_int lax) xs) | _ \<Rightarrow> None)"

definition DOCUMENT_FIELDS :: "string list" where
  "DOCUMENT_FIELDS = [''timing'', ''tcp_top_ports'', ''tcp_ports'', ''udp_ports'', ''service_detection'', ''version_intensity'',
     ''os_detection'', ''run_tcp_scan'', ''run_udp_scan'']"

definition decode_document :: "lax_values \<Rightarrow> json \<Rightarrow> profile_document option" where
  "decode_document lax v = (case v of
     JObj d \<Rightarrow>
       if \<not> set (map fst d) \<subseteq> set DOCUMENT_FIELDS then None
       else Option.bind (case jget d ''timing'' of JStr t \<Rightarrow> Some t | _ \<Rightarrow> None) (\<lambda>timing.
         Option.bind (field_or None (read_opt_int lax) d ''tcp_top_ports'') (\<lambda>tops.
         Option.bind (field_or None read_opt_str d ''tcp_ports'') (\<lambda>tcp.
         Option.bind (field_or [] (read_ints lax) d ''udp_ports'') (\<lambda>udp.
         Option.bind (field_or False (read_bool lax) d ''service_detection'') (\<lambda>service.
         Option.bind (field_or None (read_opt_int lax) d ''version_intensity'') (\<lambda>intensity.
         Option.bind (field_or False (read_bool lax) d ''os_detection'') (\<lambda>os.
         Option.bind (field_or True (read_bool lax) d ''run_tcp_scan'') (\<lambda>run_tcp.
         Option.bind (field_or False (read_bool lax) d ''run_udp_scan'') (\<lambda>run_udp.
         let doc = \<lparr>ap_timing = timing, ap_tcp_top_ports = tops, ap_tcp_ports = tcp, ap_udp_ports = udp, ap_service_detection = service,
               ap_version_intensity = intensity, ap_os_detection = os, ap_run_tcp_scan = run_tcp, ap_run_udp_scan = run_udp\<rparr>
         in if document_ok doc then Some doc else None)))))))))
   | _ \<Rightarrow> None)"

section \<open>The built-in documents\<close>

definition default_document ::
  "int option \<Rightarrow> string option \<Rightarrow> int list \<Rightarrow> bool \<Rightarrow> int option \<Rightarrow> json" where
  "default_document tops tcp udp deep_checks intensity = JObj
     [(''timing'', JStr ''T3''), (''tcp_top_ports'', case tops of None \<Rightarrow> JNull | Some n \<Rightarrow> JInt n),
      (''tcp_ports'', case tcp of None \<Rightarrow> JNull | Some t \<Rightarrow> JStr t), (''udp_ports'', JList (map JInt udp)),
      (''service_detection'', JBool deep_checks), (''version_intensity'', case intensity of None \<Rightarrow> JNull | Some n \<Rightarrow> JInt n),
      (''os_detection'', JBool deep_checks), (''run_tcp_scan'', JBool deep_checks), (''run_udp_scan'', JBool deep_checks)]"

definition DEFAULTS :: json_obj where
  "DEFAULTS =
     [(''discovery'', default_document (Some 100) None [] False None),
      (''standard'', default_document (Some 1000) None
         [53, 67, 68, 69, 111, 123, 137, 161, 162, 500, 623, 1900, 4500, 5353, 5355] True (Some 5)),
      (''deep'', default_document None (Some ''1-65535'')
         [7, 9, 19, 37, 49, 53, 67, 68, 69, 88, 111, 123, 135, 137, 138, 139, 161, 162, 177, 389, 427, 443, 445, 500, 514, 520, 623,
          631, 1434, 1645, 1646, 1701, 1812, 1813, 1900, 2049, 3478, 4500, 5060, 5353, 5355, 5683, 10000, 17185, 20031]
         True (Some 7))]"

section \<open>Loading\<close>

text \<open>The file: absent, or its path with the text of a read or syntax error or its JSON value.\<close>

type_synonym profile_file = "(string \<times> (string + json)) option"

fun decode_all :: "lax_values \<Rightarrow> json_obj \<Rightarrow> (string \<times> profile_document) list option" where
  "decode_all lax [] = Some []"
| "decode_all lax ((k, v) # d) = Option.bind (decode_document lax v) (\<lambda>x. map_option (\<lambda>rest. (k, x) # rest) (decode_all lax d))"

definition load_documents :: "lax_values \<Rightarrow> profile_file \<Rightarrow> profile_config_error + (string \<times> profile_document) list" where
  "load_documents lax f =
     rbind (case f of None \<Rightarrow> Inr DEFAULTS
       | Some (path, Inl t) \<Rightarrow> Inl (Profiles_unreadable path t)
       | Some (path, Inr (JObj d)) \<Rightarrow> Inr d
       | Some (path, Inr _) \<Rightarrow> Inl Profiles_not_object) (\<lambda>raw.
     if set (map fst raw) \<noteq> set (map profile_value [DISCOVERY, STANDARD, DEEP]) then Inl Profiles_names
     else case decode_all lax raw of None \<Rightarrow> Inl Profiles_invalid | Some docs \<Rightarrow> Inr docs)"

record nmap_settings =
  nmap_binary :: string
  nmap_discovery_timeout_seconds :: int
  nmap_standard_timeout_seconds :: int
  nmap_deep_timeout_seconds :: int

fun profile_timeout :: "nmap_settings \<Rightarrow> active_profile \<Rightarrow> int" where
  "profile_timeout s DISCOVERY = nmap_discovery_timeout_seconds s"
| "profile_timeout s STANDARD = nmap_standard_timeout_seconds s"
| "profile_timeout s DEEP = nmap_deep_timeout_seconds s"

definition scan_profile_of :: "profile_document \<Rightarrow> active_profile \<Rightarrow> int \<Rightarrow> active_scan_profile" where
  "scan_profile_of d p t = profile_document.extend d \<lparr>ap_name = p, ap_timeout_seconds = t\<rparr>"

definition profile_for :: "lax_values \<Rightarrow> profile_file \<Rightarrow> nmap_settings \<Rightarrow> active_profile \<Rightarrow> profile_config_error + active_scan_profile" where
  "profile_for lax f s p = rbind (load_documents lax f) (\<lambda>docs. case map_of docs (profile_value p) of
     None \<Rightarrow> Inl Profiles_names
   | Some d \<Rightarrow> if 0 < profile_timeout s p \<and> document_ok d then Inr (scan_profile_of d p (profile_timeout s p)) else Inl (Profile_invalid p))"

definition profile_named :: "string \<Rightarrow> active_profile option" where
  "profile_named v = find (\<lambda>p. profile_value p = v) [DISCOVERY, STANDARD, DEEP]"

definition document_json :: "profile_document \<Rightarrow> json_obj" where
  "document_json d =
     [(''timing'', JStr (ap_timing d)), (''tcp_top_ports'', case ap_tcp_top_ports d of None \<Rightarrow> JNull | Some n \<Rightarrow> JInt n),
      (''tcp_ports'', case ap_tcp_ports d of None \<Rightarrow> JNull | Some t \<Rightarrow> JStr t), (''udp_ports'', JList (map JInt (ap_udp_ports d))),
      (''service_detection'', JBool (ap_service_detection d)),
      (''version_intensity'', case ap_version_intensity d of None \<Rightarrow> JNull | Some n \<Rightarrow> JInt n),
      (''os_detection'', JBool (ap_os_detection d)), (''run_tcp_scan'', JBool (ap_run_tcp_scan d)),
      (''run_udp_scan'', JBool (ap_run_udp_scan d))]"

text \<open>Every name of the catalogue is a profile, so its timeout is found.\<close>

definition profile_catalog :: "lax_values \<Rightarrow> profile_file \<Rightarrow> nmap_settings \<Rightarrow> profile_config_error + (string \<times> json_obj) list" where
  "profile_catalog lax f s = rbind (load_documents lax f) (\<lambda>docs. Inr (map (\<lambda>(n, d).
     (n, document_json d @ [(''timeout_seconds'', case profile_named n of None \<Rightarrow> JNull | Some p \<Rightarrow> JInt (profile_timeout s p))])) docs))"

section \<open>Facts\<close>

lemma decode_document_ok: "decode_document lax v = Some d \<Longrightarrow> document_ok d"
  by (cases v) (auto simp: decode_document_def Let_def bind_eq_Some_conv split: if_splits)

lemma decode_all_ok: "decode_all lax raw = Some docs \<Longrightarrow> map fst docs = map fst raw \<and> (\<forall>x \<in> set docs. document_ok (snd x))"
  by (induction lax raw arbitrary: docs rule: decode_all.induct) (fastforce simp: bind_eq_Some_conv dest: decode_document_ok)+

lemma profile_value_inj: "profile_value p = profile_value q \<Longrightarrow> p = q"
  by (cases p; cases q) simp_all

lemma load_documents_ok:
  assumes "load_documents lax f = Inr docs"
  shows "fst ` set docs = range profile_value" "\<And>x. x \<in> set docs \<Longrightarrow> document_ok (snd x)"
proof -
  obtain raw where r: "decode_all lax raw = Some docs" "fst ` set raw = {''discovery'', ''standard'', ''deep''}"
    using assms by (auto simp: load_documents_def split: if_splits option.splits)
  moreover have "range profile_value = {''discovery'', ''standard'', ''deep''}"
    by (auto simp: image_iff) (metis profile_value.simps active_profile.exhaust)+
  moreover have "fst ` set docs = fst ` set raw" using decode_all_ok [OF r(1)] by (metis list.set_map)
  ultimately show "fst ` set docs = range profile_value" by simp
  show "\<And>x. x \<in> set docs \<Longrightarrow> document_ok (snd x)" using decode_all_ok [OF r(1)] by simp
qed

text \<open>Loaded profiles always exist: the only error of a loaded file is a timeout that is not positive.\<close>

lemma profile_for_outcome:
  assumes "load_documents lax f = Inr docs"
  shows "\<exists>d. (profile_value p, d) \<in> set docs \<and> document_ok d
    \<and> profile_for lax f s p = (if 0 < profile_timeout s p then Inr (scan_profile_of d p (profile_timeout s p)) else Inl (Profile_invalid p))"
proof -
  have "profile_value p \<in> fst ` set docs" using load_documents_ok(1) [OF assms] by simp
  then obtain d where "map_of docs (profile_value p) = Some d" by (metis map_of_eq_None_iff not_None_eq)
  moreover from this have "(profile_value p, d) \<in> set docs" by (rule map_of_SomeD)
  moreover from this have "document_ok d" using load_documents_ok(2) [OF assms] by fastforce
  ultimately show ?thesis using assms by (auto simp: profile_for_def)
qed

lemma scan_profile_simps [simp]:
  "ap_timing (scan_profile_of d p t) = ap_timing d" "ap_tcp_ports (scan_profile_of d p t) = ap_tcp_ports d"
  "ap_udp_ports (scan_profile_of d p t) = ap_udp_ports d" "ap_name (scan_profile_of d p t) = p"
  "ap_timeout_seconds (scan_profile_of d p t) = t" "document_ok (scan_profile_of d p t) = document_ok d"
  by (simp_all add: scan_profile_of_def profile_document.defs document_ok_def)

lemma profile_for_ok:
  assumes "profile_for lax f s p = Inr q"
  shows "document_ok q" "ap_name q = p" "ap_timeout_seconds q = profile_timeout s p" "0 < ap_timeout_seconds q"
  using assms by (auto simp: profile_for_def split: option.splits if_splits)

lemma default_documents_load: "\<not> isl (load_documents \<lparr>lax_int = (\<lambda>_. None), lax_bool = (\<lambda>_. None)\<rparr> None)"
  by code_simp

end
