(* ===== verification/Interfaces.thy ===== *)
theory Interfaces
  imports Protocol_Run
begin

text \<open>
  Network interfaces and the capture policy (\<^verbatim>\<open>engine/interfaces.py\<close>). \<open>run\<close> is the tool runner, \<open>loads\<close> is \<^verbatim>\<open>json.loads\<close> (the text
  of its error, or the value), \<open>speed\<close> the text of an interface's \<^verbatim>\<open>speed\<close> file when it can be read, \<open>to_int\<close> pydantic's conversion of a
  value to \<^verbatim>\<open>int\<close>, \<open>float_int\<close> the function \<^verbatim>\<open>int\<close> on a float (an infinite one overflows, one that is no number is a value error). A raise of another class than the service's own is kept as its class.
\<close>

section \<open>Data\<close>

datatype interface_code = DISCOVERY_FAILED | INVALID_DISCOVERY_DATA | UNKNOWN_INTERFACE | LOOPBACK_DENIED | NOT_ALLOWED | LINK_NOT_UP

fun interface_code_value :: "interface_code \<Rightarrow> string" where
  "interface_code_value DISCOVERY_FAILED = ''discovery_failed''"
| "interface_code_value INVALID_DISCOVERY_DATA = ''invalid_discovery_data''"
| "interface_code_value UNKNOWN_INTERFACE = ''unknown_interface''"
| "interface_code_value LOOPBACK_DENIED = ''loopback_denied''"
| "interface_code_value NOT_ALLOWED = ''not_allowed''"
| "interface_code_value LINK_NOT_UP = ''link_not_up''"

datatype net_exc =
    NX_Interface interface_code string
  | NX_Route string string json_obj
  | NX_AttributeError
  | NX_TypeError
  | NX_ValueError
  | NX_KeyError
  | NX_OverflowError
  | NX_ValidationError

record interface_info =
  if_name :: string
  if_state :: "string option"
  if_mac :: "string option"
  if_mtu :: "int option"
  if_speed_mbps :: "int option"
  if_ipv4 :: "string list"
  if_ipv6 :: "string list"
  if_is_loopback :: bool
  if_allowed :: bool
  if_selectable :: bool
  if_denial_reason :: "interface_code option"
  if_role_hint :: "string option"
  if_addressing :: string
  if_has_default_route :: bool

record interface_settings =
  allowed_interfaces :: "string list"
  allow_loopback :: bool
  require_interface_up :: bool

record net_world =
  nw_run :: "tool_command \<Rightarrow> tool_result"
  nw_loads :: "string \<Rightarrow> string + json"
  nw_speed :: "string \<Rightarrow> string option"
  nw_to_int :: "json \<Rightarrow> int option"
  nw_float_int :: "string \<Rightarrow> net_exc + int"

definition ip_command :: "string list \<Rightarrow> tool_command" where
  "ip_command args = \<lparr>tc_tool = ''ip'', tc_args = args, tc_timeout = 5, tc_environment = []\<rparr>"

section \<open>Values\<close>

text \<open>\<^verbatim>\<open>s.upper()\<close> where only ASCII results are compared.\<close>

definition upper_ascii :: "string \<Rightarrow> string" where
  "upper_ascii s = map (\<lambda>c. if 97 \<le> code c \<and> code c \<le> 122 then char_of (code c - 32) else c) s"

text \<open>The items of \<^verbatim>\<open>d.get(k, [])\<close>: iterating a value that is not a collection raises.\<close>

definition list_field :: "json_obj \<Rightarrow> string \<Rightarrow> net_exc + json list" where
  "list_field d k = (case map_of d k of None \<Rightarrow> Inr []
     | Some (JList xs) \<Rightarrow> Inr xs
     | Some (JObj e) \<Rightarrow> Inr (map (\<lambda>p. JStr (fst p)) e)
     | Some (JStr s) \<Rightarrow> Inr (map (\<lambda>c. JStr [c]) s)
     | Some _ \<Rightarrow> Inl NX_TypeError)"

definition opt_str_field :: "json \<Rightarrow> net_exc + string option" where
  "opt_str_field v = (case v of JNull \<Rightarrow> Inr None | JStr s \<Rightarrow> Inr (Some s) | _ \<Rightarrow> Inl NX_ValidationError)"

definition opt_int_field :: "net_world \<Rightarrow> json \<Rightarrow> net_exc + int option" where
  "opt_int_field w v = (if v = JNull then Inr None
     else case nw_to_int w v of Some n \<Rightarrow> Inr (Some n) | None \<Rightarrow> Inl NX_ValidationError)"

section \<open>Default routes\<close>

definition NO_METRIC :: int where
  "NO_METRIC = 10 ^ 9"

text \<open>\<^verbatim>\<open>int(metric)\<close>, where a type or a value error gives the default.\<close>

definition metric_value :: "net_world \<Rightarrow> json \<Rightarrow> net_exc + int" where
  "metric_value w v = (case v of JInt n \<Rightarrow> Inr n | JBool b \<Rightarrow> Inr (if b then 1 else 0)
     | JStr s \<Rightarrow> Inr (case py_int_of_str s of Some n \<Rightarrow> n | None \<Rightarrow> NO_METRIC)
     | JFloat t \<Rightarrow> (case nw_float_int w t of Inl NX_ValueError \<Rightarrow> Inr NO_METRIC | r \<Rightarrow> r)
     | _ \<Rightarrow> Inr NO_METRIC)"

text \<open>Membership in a set of texts: a list or an object cannot be hashed.\<close>

definition is_default_destination :: "json \<Rightarrow> net_exc + bool" where
  "is_default_destination v = (case v of JList xs \<Rightarrow> Inl NX_TypeError | JObj d \<Rightarrow> Inl NX_TypeError
     | _ \<Rightarrow> Inr (v \<in> {JNull, JStr [], JStr ''default'', JStr ''unspecified'', JStr ''0.0.0.0/0''}))"

fun ranked_defaults :: "net_world \<Rightarrow> json list \<Rightarrow> net_exc + (int \<times> string) list" where
  "ranked_defaults w [] = Inr []"
| "ranked_defaults w (item # items) = (case item of
     JObj d \<Rightarrow> rbind (is_default_destination (jget d ''dst'')) (\<lambda>found.
       if found \<and> json_truthy (jget d ''dev'')
       then rbind (metric_value w (jget d ''metric'')) (\<lambda>m. rbind (ranked_defaults w items) (\<lambda>rest.
         Inr ((m, py_str (jget d ''dev'')) # rest)))
       else ranked_defaults w items)
   | _ \<Rightarrow> ranked_defaults w items)"

definition min_route :: "(int \<times> string) list \<Rightarrow> string option" where
  "min_route rs = (case sort rs of [] \<Rightarrow> None | r # _ \<Rightarrow> Some (snd r))"

text \<open>\<^verbatim>\<open>k in value\<close>.\<close>

definition json_in :: "string \<Rightarrow> json \<Rightarrow> net_exc + bool" where
  "json_in k v = (case v of JObj d \<Rightarrow> Inr (k \<in> fst ` set d) | JStr t \<Rightarrow> Inr (contains_str t k) | JList xs \<Rightarrow> Inr (JStr k \<in> set xs)
     | _ \<Rightarrow> Inl NX_TypeError)"

definition default_route_info :: "net_world \<Rightarrow> net_exc + string list \<times> string option" where
  "default_route_info w =
     (let r = nw_run w (ip_command [''-j'', ''route''])
      in if \<not> tr_success r then Inr ([], None)
         else case nw_loads w (tr_stdout r) of
           Inr (JList (x # xs)) \<Rightarrow>
             rbind (json_in ''ifname'' x) (\<lambda>named. rbind (if named then json_in ''dst'' x else Inr True) (\<lambda>routed.
               if named \<and> \<not> routed then Inr ([], None)
               else rbind (ranked_defaults w (x # xs)) (\<lambda>ranked. Inr (map snd ranked, min_route ranked))))
         | _ \<Rightarrow> Inr ([], None))"

section \<open>One interface\<close>

definition denial_reason :: "interface_settings \<Rightarrow> string \<Rightarrow> bool \<Rightarrow> json \<Rightarrow> interface_code option" where
  "denial_reason s name is_lo state =
     (if is_lo \<and> \<not> allow_loopback s then Some LOOPBACK_DENIED
      else if allowed_interfaces s \<noteq> [] \<and> name \<notin> set (allowed_interfaces s) then Some NOT_ALLOWED
      else if require_interface_up s \<and> upper_ascii (py_str state) \<noteq> ''UP'' then Some LINK_NOT_UP
      else None)"

text \<open>The addresses of an interface: the IPv4 and IPv6 texts and whether an IPv4 address is dynamic.\<close>

fun interface_addresses :: "json list \<Rightarrow> string list \<times> string list \<times> bool \<Rightarrow> net_exc + string list \<times> string list \<times> bool" where
  "interface_addresses [] st = Inr st"
| "interface_addresses (x # xs) st = (case x of
     JObj a \<Rightarrow> (let l = jget a ''local''; p = jget a ''prefixlen''; value = py_str l @ ''/'' @ py_str p
       in if l = JNull \<or> p = JNull then interface_addresses xs st
          else if jget a ''family'' = JStr ''inet''
          then interface_addresses xs (fst st @ [value], fst (snd st), snd (snd st) \<or> jget a ''dynamic'' = JBool True)
          else if jget a ''family'' = JStr ''inet6''
          then interface_addresses xs (fst st, fst (snd st) @ [value], snd (snd st))
          else interface_addresses xs st)
   | _ \<Rightarrow> Inl NX_AttributeError)"

definition interface_speed :: "net_world \<Rightarrow> string \<Rightarrow> net_exc + int option" where
  "interface_speed w name = (case nw_speed w name of None \<Rightarrow> Inr None
     | Some t \<Rightarrow> (let s = strip t in if \<not> str_isdigit s then Inr None
         else case py_int_of_str s of Some n \<Rightarrow> Inr (Some n) | None \<Rightarrow> Inl NX_ValueError))"

definition normalize_interface ::
  "net_world \<Rightarrow> interface_settings \<Rightarrow> string list \<times> string option \<Rightarrow> json_obj \<Rightarrow> net_exc + interface_info" where
  "normalize_interface w s defaults item =
     (let name = py_str (jget item ''ifname'')
      in rbind (list_field item ''flags'') (\<lambda>flags.
         let is_lo = (name = ''lo'' \<or> ''LOOPBACK'' \<in> (\<lambda>f. upper_ascii (py_str f)) ` set flags \<or> jget item ''link_type'' = JStr ''loopback'');
             state = jget item ''operstate''; denial = denial_reason s name is_lo state
         in rbind (list_field item ''addr_info'') (\<lambda>infos.
            rbind (interface_addresses infos ([], [], False)) (\<lambda>(ipv4, ipv6, dhcp).
            rbind (interface_speed w name) (\<lambda>speed.
            rbind (opt_str_field state) (\<lambda>st.
            rbind (opt_str_field (jget item ''address'')) (\<lambda>mac.
            rbind (opt_int_field w (jget item ''mtu'')) (\<lambda>mtu. Inr
              \<lparr>if_name = name, if_state = st, if_mac = mac, if_mtu = mtu, if_speed_mbps = speed, if_ipv4 = ipv4, if_ipv6 = ipv6,
               if_is_loopback = is_lo, if_allowed = (denial = None), if_selectable = (denial \<in> {None, Some LINK_NOT_UP}),
               if_denial_reason = denial,
               if_role_hint = (if is_lo then None else if snd defaults = Some name then Some ''management''
                 else if ipv4 = [] then Some ''capture'' else None),
               if_addressing = (if ipv4 = [] then ''none'' else if dhcp then ''dhcp'' else ''static''),
               if_has_default_route = (name \<in> set (fst defaults))\<rparr>))))))))"

section \<open>Discovery and validation\<close>

fun normalize_all ::
  "net_world \<Rightarrow> interface_settings \<Rightarrow> string list \<times> string option \<Rightarrow> json list \<Rightarrow> net_exc + interface_info list" where
  "normalize_all w s defaults [] = Inr []"
| "normalize_all w s defaults (x # xs) = (case x of
     JObj d \<Rightarrow> if json_truthy (jget d ''ifname'')
       then rbind (normalize_interface w s defaults d) (\<lambda>i. rbind (normalize_all w s defaults xs) (\<lambda>rest. Inr (i # rest)))
       else normalize_all w s defaults xs
   | _ \<Rightarrow> normalize_all w s defaults xs)"

definition discover :: "net_world \<Rightarrow> interface_settings \<Rightarrow> net_exc + interface_info list" where
  "discover w s =
     (let r = nw_run w (ip_command [''-j'', ''addr''])
      in if \<not> tr_success r
         then Inl (NX_Interface DISCOVERY_FAILED (case tr_error r of Some e \<Rightarrow> te_message e | None \<Rightarrow> ''Interface discovery failed''))
         else case nw_loads w (tr_stdout r) of
             Inl t \<Rightarrow> Inl (NX_Interface INVALID_DISCOVERY_DATA (''iproute2 returned invalid interface JSON: '' @ t))
           | Inr (JList items) \<Rightarrow> rbind (default_route_info w) (\<lambda>defaults. normalize_all w s defaults items)
           | Inr _ \<Rightarrow> Inl (NX_Interface INVALID_DISCOVERY_DATA ''iproute2 interface JSON must be a list''))"

fun denial_message :: "interface_code \<Rightarrow> string" where
  "denial_message LOOPBACK_DENIED = ''Loopback interfaces are disabled by policy''"
| "denial_message NOT_ALLOWED = ''Interface is not in the configured allowlist''"
| "denial_message LINK_NOT_UP = ''Interface link state is not UP''"
| "denial_message _ = []"

definition validate_interface :: "net_world \<Rightarrow> interface_settings \<Rightarrow> string \<Rightarrow> net_exc + interface_info" where
  "validate_interface w s name = rbind (discover w s) (\<lambda>is. case find (\<lambda>i. if_name i = name) is of
     None \<Rightarrow> Inl (NX_Interface UNKNOWN_INTERFACE (''Unknown network interface: '' @ name))
   | Some i \<Rightarrow> (case if_denial_reason i of
       Some c \<Rightarrow> Inl (NX_Interface c (denial_message c))
     | None \<Rightarrow> Inr i))"

section \<open>Facts\<close>

text \<open>What the policy promises of an interface it lets through.\<close>

definition policy_ok :: "interface_settings \<Rightarrow> interface_info \<Rightarrow> bool" where
  "policy_ok s i \<longleftrightarrow> (if_is_loopback i \<longrightarrow> allow_loopback s)
     \<and> (allowed_interfaces s \<noteq> [] \<longrightarrow> if_name i \<in> set (allowed_interfaces s))
     \<and> (require_interface_up s \<longrightarrow> (\<exists>t. if_state i = Some t \<and> upper_ascii t = ''UP''))"

lemma normalize_fields:
  assumes "normalize_interface w s ds item = Inr i"
  shows "if_denial_reason i = denial_reason s (if_name i) (if_is_loopback i) (jget item ''operstate'')"
    "opt_str_field (jget item ''operstate'') = Inr (if_state i)"
proof -
  obtain flags where "list_field item ''flags'' = Inr flags" using assms by (auto simp: normalize_interface_def Let_def)
  then show "if_denial_reason i = denial_reason s (if_name i) (if_is_loopback i) (jget item ''operstate'')"
    "opt_str_field (jget item ''operstate'') = Inr (if_state i)"
    using assms by (clarsimp simp: normalize_interface_def Let_def)+
qed

lemma normalize_policy:
  assumes "normalize_interface w s ds item = Inr i" "if_denial_reason i = None"
  shows "policy_ok s i"
proof -
  note f = normalize_fields [OF assms(1)]
  have "denial_reason s (if_name i) (if_is_loopback i) (jget item ''operstate'') = None" using f(1) assms(2) by simp
  moreover have "upper_ascii (py_str JNull) \<noteq> ''UP''" by code_simp
  ultimately show ?thesis using f(2)
    by (cases "jget item ''operstate''") (auto simp: policy_ok_def denial_reason_def opt_str_field_def py_str_def dest: sym [of "Some _"]
        split: if_splits)
qed

lemma normalize_all_mem:
  "normalize_all w s ds items = Inr is \<Longrightarrow> i \<in> set is \<Longrightarrow> \<exists>d. normalize_interface w s ds d = Inr i"
  by (induction w s ds items arbitrary: "is" rule: normalize_all.induct) (auto split: json.splits if_splits)

lemma validate_interface_policy:
  assumes "validate_interface w s name = Inr i"
  shows "if_name i = name" "policy_ok s i"
proof -
  obtain xs where d: "discover w s = Inr xs" "find (\<lambda>i. if_name i = name) xs = Some i" "if_denial_reason i = None"
    using assms by (auto simp: validate_interface_def split: option.splits)
  then show "if_name i = name" by (auto simp: find_Some_iff)
  have "i \<in> set xs" using d(2) by (auto simp: find_Some_iff)
  moreover obtain ds items where "normalize_all w s ds items = Inr xs"
    using d(1) by (auto simp: discover_def Let_def split: if_splits sum.splits json.splits)
  ultimately show "policy_ok s i" using normalize_all_mem normalize_policy d(3) by blast
qed

end
