(* ===== verification/Routes.thy ===== *)
theory Routes
  imports Interfaces
begin

text \<open>
  Route and source-address validation of an authorized scope (\<^verbatim>\<open>engine/routes.py\<close>): which address stands for a target, what the
  kernel's route to it must be, and which targets count as directly connected.
\<close>

section \<open>Data\<close>

record target_route =
  tr_target :: string
  tr_representative :: string
  tr_family :: nat
  tr_interface :: string
  tr_source :: string
  tr_gateway :: "string option"
  tr_directly_connected :: bool

record resolved_scope =
  rs_interface :: string
  rs_interface_state :: "string option"
  rs_vlan_subinterface :: bool
  rs_routes :: "target_route list"

section \<open>The representative address\<close>

text \<open>The first and the last address of \<^verbatim>\<open>network.hosts()\<close> for a network of more than one address.\<close>

definition host_bounds :: "ipnet \<Rightarrow> nat \<times> nat" where
  "host_bounds n = (let w = max_prefixlen (net_version n)
     in if net_prefixlen n = w - 1 then (first_int n, broadcast_int n)
        else (first_int n + 1, if net_version n = 4 then broadcast_int n - 1 else broadcast_int n))"

definition plain_address :: "nat \<Rightarrow> nat \<Rightarrow> ipaddr" where
  "plain_address v n = \<lparr>ip_version = v, ip_int = n, ip_scope = None\<rparr>"

text \<open>The search through the hosts for one that is not assigned to the interface.\<close>

function first_free :: "nat \<Rightarrow> nat \<Rightarrow> nat \<Rightarrow> ipaddr list \<Rightarrow> nat option" where
  "first_free v n hi taken =
     (if hi < n then None
      else if plain_address v n \<in> set taken then first_free v (Suc n) hi taken else Some n)"
  by pat_completeness auto
termination
  by (relation "measure (\<lambda>(v, n, hi, taken). Suc hi - n)") auto

declare first_free.simps [simp del]

text \<open>\<^verbatim>\<open>ip_interface(value).ip\<close>: without a scope.\<close>

definition ip_interface_ip :: "string \<Rightarrow> ipaddr option" where
  "ip_interface_ip s = (case (ip_interface_network s, split_mask s) of
     (Some n, Some (a, m)) \<Rightarrow> map_option (\<lambda>x. x\<lparr>ip_scope := None\<rparr>) (ip_address a) | _ \<Rightarrow> None)"

definition family_values :: "nat \<Rightarrow> interface_info \<Rightarrow> string list" where
  "family_values v i = (if v = 4 then if_ipv4 i else if_ipv6 i)"

definition representative_address :: "ipnet \<Rightarrow> interface_info \<Rightarrow> string" where
  "representative_address n i =
     (let v = net_version n
      in if net_prefixlen n = max_prefixlen v then ip_str (net_address n)
         else case host_bounds n of (lo, hi) \<Rightarrow>
           (case first_free v lo hi (List.map_filter ip_interface_ip (family_values v i)) of
              Some k \<Rightarrow> ip_str (plain_address v k)
            | None \<Rightarrow> if lo \<le> hi then ip_str (plain_address v lo) else ip_str (net_address n)))"

section \<open>One route\<close>

definition is_local_route :: "json_obj \<Rightarrow> bool" where
  "is_local_route r \<longleftrightarrow>
     (let flags = (case jget r ''flags'' of JList fs \<Rightarrow> fs | _ \<Rightarrow> [])
      in jget r ''type'' = JStr ''local'' \<or> ''local'' \<in> (\<lambda>f. lower (py_str f)) ` set flags
         \<or> (json_truthy (jget r ''dev'') \<and> py_str (jget r ''dev'') = ''lo''))"

fun any_network :: "ipaddr \<Rightarrow> string list \<Rightarrow> net_exc + bool" where
  "any_network a [] = Inr False"
| "any_network a (v # vs) = (case ip_interface_network v of None \<Rightarrow> Inl NX_ValueError
     | Some n \<Rightarrow> if in_network a n then Inr True else any_network a vs)"

definition belongs_to_interface_network :: "string \<Rightarrow> interface_info \<Rightarrow> net_exc + bool" where
  "belongs_to_interface_network address i = (case ip_address address of None \<Rightarrow> Inl NX_ValueError
     | Some a \<Rightarrow> any_network a (family_values (ip_version a) i))"

definition route_error :: "string \<Rightarrow> string \<Rightarrow> json_obj \<Rightarrow> net_exc + 'a" where
  "route_error ecode message details = Inl (NX_Route ecode message details)"

definition target_network :: "scope_target \<Rightarrow> net_exc + ipnet" where
  "target_network t = (case ip_network True (if CHR ''/'' \<in> set (tg_value t) then tg_value t
       else tg_value t @ ''/'' @ (if tg_family t = 4 then ''32'' else ''128'')) of
     None \<Rightarrow> Inl NX_ValueError | Some n \<Rightarrow> Inr n)"

text \<open>\<^verbatim>\<open>json.loads(stdout)[0]\<close>.\<close>

definition first_route :: "net_world \<Rightarrow> scope_target \<Rightarrow> string \<Rightarrow> net_exc + json" where
  "first_route w t stdout =
     (let invalid = route_error ''route_data_invalid'' (''Route lookup returned invalid data for '' @ tg_value t) []
      in case nw_loads w stdout of
           Inr (JList (x # _)) \<Rightarrow> Inr x
         | Inr (JStr (c # _)) \<Rightarrow> Inr (JStr [c])
         | _ \<Rightarrow> invalid)"

text \<open>The version of a source address; \<^verbatim>\<open>ip_address\<close> also takes an integer, which the route record then refuses.\<close>

definition source_version :: "json \<Rightarrow> (nat \<times> string option) option" where
  "source_version v = (case v of
     JStr s \<Rightarrow> map_option (\<lambda>a. (ip_version a, Some s)) (ip_address s)
   | JInt k \<Rightarrow> (if 0 \<le> k \<and> k < 2 ^ 32 then Some (4, None) else if 0 \<le> k \<and> k < 2 ^ 128 then Some (6, None) else None)
   | JBool b \<Rightarrow> Some (4, None)
   | _ \<Rightarrow> None)"

definition checked_source :: "scope_target \<Rightarrow> json \<Rightarrow> net_exc + string option" where
  "checked_source t source =
     (if \<not> json_truthy source
      then route_error ''source_address_missing'' (''Route to '' @ tg_value t @ '' has no source address'') []
      else case source_version source of
          None \<Rightarrow> route_error ''route_data_invalid'' (''Route source address is invalid: '' @ py_str source) []
        | Some (v, text) \<Rightarrow> if v \<noteq> tg_family t
            then route_error ''source_family_mismatch'' (''Route source family does not match '' @ tg_value t) []
            else Inr text)"

text \<open>The record of a route, which needs a text as source and a text or nothing as gateway.\<close>

definition route_record :: "interface_info \<Rightarrow> scope_target \<Rightarrow> string \<Rightarrow> string option \<Rightarrow> json \<Rightarrow> bool \<Rightarrow> net_exc + target_route" where
  "route_record i t rep text gateway direct = (case text of None \<Rightarrow> Inl NX_ValidationError
     | Some src \<Rightarrow> rbind (opt_str_field gateway) (\<lambda>g. Inr \<lparr>tr_target = tg_value t, tr_representative = rep, tr_family = tg_family t,
         tr_interface = if_name i, tr_source = src, tr_gateway = g, tr_directly_connected = direct\<rparr>))"

text \<open>The checks of the kernel's route \<open>r\<close>; \<open>here\<close>: it is a local route of the interface's own network.\<close>

definition checked_route :: "interface_info \<Rightarrow> scope_target \<Rightarrow> string \<Rightarrow> json_obj \<Rightarrow> bool \<Rightarrow> net_exc + target_route" where
  "checked_route i t rep r here =
     (let dev = (if here then JStr (if_name i) else jget r ''dev'');
          source = (let s = jor (jget r ''prefsrc'') (jget r ''src'') in if here then jor s (JStr rep) else s);
          gateway = jget r ''gateway''
      in if dev \<noteq> JStr (if_name i)
         then route_error ''route_interface_mismatch''
           (''Route to '' @ tg_value t @ '' uses '' @ (if json_truthy dev then py_str dev else ''none'')
              @ '', not selected interface '' @ if_name i)
           [(''target'', JStr (tg_value t)), (''selected_interface'', JStr (if_name i)), (''route_interface'', dev)]
         else rbind (checked_source t source) (\<lambda>text.
           rbind (if gateway = JNull then belongs_to_interface_network rep i else Inr False) (route_record i t rep text gateway)))"

definition resolve_target :: "net_world \<Rightarrow> interface_info \<Rightarrow> scope_target \<Rightarrow> net_exc + target_route" where
  "resolve_target w i t =
     rbind (target_network t) (\<lambda>network.
     let rep = representative_address network i;
         result = nw_run w (ip_command [''-j'', ''-'' @ dec (tg_family t), ''route'', ''get'', rep])
     in if \<not> tr_success result
        then route_error ''route_lookup_failed'' (''No usable route to '' @ tg_value t) [(''target'', JStr (tg_value t))]
        else rbind (first_route w t (tr_stdout result)) (\<lambda>item. case item of
          JObj r \<Rightarrow> rbind (if is_local_route r then belongs_to_interface_network rep i else Inr False) (checked_route i t rep r)
        | _ \<Rightarrow> Inl NX_AttributeError))"

section \<open>All routes\<close>

text \<open>Failed targets are remembered; another exception than \<^verbatim>\<open>RouteValidationError\<close> ends the loop.\<close>

fun resolve_targets ::
  "net_world \<Rightarrow> interface_info \<Rightarrow> nat list \<Rightarrow> scope_target list \<Rightarrow> target_route list \<times> net_exc list
     \<Rightarrow> net_exc + target_route list \<times> net_exc list" where
  "resolve_targets w i usable [] st = Inr st"
| "resolve_targets w i usable (t # ts) st =
     (if tg_family t \<notin> set usable then resolve_targets w i usable ts st
      else case resolve_target w i t of
          Inr r \<Rightarrow> resolve_targets w i usable ts (fst st @ [r], snd st)
        | Inl (NX_Route c m d) \<Rightarrow> resolve_targets w i usable ts (fst st, snd st @ [NX_Route c m d])
        | Inl e \<Rightarrow> Inl e)"

definition no_source_address :: "interface_info \<Rightarrow> nat \<Rightarrow> net_exc + 'a" where
  "no_source_address i family = route_error ''address_family_unavailable''
     (''Interface '' @ if_name i @ '' has no IPv'' @ dec family @ '' source address'')
     [(''interface'', JStr (if_name i)), (''family'', JInt (int family))]"

definition resolve_scope ::
  "net_world \<Rightarrow> interface_settings \<Rightarrow> string \<Rightarrow> validated_scope \<Rightarrow> net_exc + resolved_scope" where
  "resolve_scope w s name scope =
     rbind (validate_interface w s name) (\<lambda>i.
     let usable = filter (\<lambda>v. family_values v i \<noteq> []) (vs_address_families scope);
         missing = filter (\<lambda>v. family_values v i = []) (vs_address_families scope)
     in if usable = [] then no_source_address i (if missing \<noteq> [] then hd missing else 4)
        else rbind (resolve_targets w i usable (vs_targets scope) ([], [])) (\<lambda>(routes, errors).
          if routes = []
          then (if errors \<noteq> [] then Inl (hd errors)
                else no_source_address i (if missing \<noteq> [] then hd missing else hd (vs_address_families scope)))
          else Inr \<lparr>rs_interface = if_name i, rs_interface_state = if_state i,
            rs_vlan_subinterface = (CHR ''.'' \<in> set (if_name i)), rs_routes = routes\<rparr>))"

end
