(* ===== verification/Nmap_Parser.thy ===== *)
theory Nmap_Parser
  imports Inventory_Service
begin

text \<open>
  The parser of Nmap's XML (\<^verbatim>\<open>parsers/nmap.py\<close>) from the element tree to the scan document the inventory ingests. Reading the
  file and \<^verbatim>\<open>ElementTree.fromstring\<close> are arguments: the bytes, or the text of the error.
\<close>

section \<open>Element trees\<close>

datatype xml = Element (xml_tag: string) (xml_attrib: "(string \<times> string) list") (xml_text: "string option") (xml_children: "xml list")

definition attr :: "xml \<Rightarrow> string \<Rightarrow> string option" where
  "attr e k = map_of (xml_attrib e) k"

definition attr_or :: "xml \<Rightarrow> string \<Rightarrow> string \<Rightarrow> string" where
  "attr_or e k dflt = (case attr e k of None \<Rightarrow> dflt | Some v \<Rightarrow> v)"

text \<open>\<^verbatim>\<open>find\<close>, \<^verbatim>\<open>findall\<close> of a tag, and \<^verbatim>\<open>findall(".//tag")\<close>: the descendants in document order.\<close>

definition xml_findall :: "xml \<Rightarrow> string \<Rightarrow> xml list" where
  "xml_findall e tag = filter (\<lambda>c. xml_tag c = tag) (xml_children e)"

definition xml_find :: "xml \<Rightarrow> string \<Rightarrow> xml option" where
  "xml_find e tag = find (\<lambda>c. xml_tag c = tag) (xml_children e)"

fun xml_descendants :: "xml \<Rightarrow> string \<Rightarrow> xml list" where
  "xml_descendants (Element t as x cs) tag =
     concat (map (\<lambda>c. (if xml_tag c = tag then [c] else []) @ xml_descendants c tag) cs)"

definition opt_attr :: "xml option \<Rightarrow> string \<Rightarrow> string option" where
  "opt_attr e k = (case e of None \<Rightarrow> None | Some x \<Rightarrow> attr x k)"

definition opt_attr_or :: "xml option \<Rightarrow> string \<Rightarrow> string \<Rightarrow> string" where
  "opt_attr_or e k dflt = (case e of None \<Rightarrow> dflt | Some x \<Rightarrow> attr_or x k dflt)"

text \<open>The nonempty texts of elements.\<close>

definition texts :: "xml list \<Rightarrow> string list" where
  "texts es = List.map_filter (\<lambda>e. if truthy (xml_text e) then xml_text e else None) es"

section \<open>Numbers\<close>

text \<open>\<^verbatim>\<open>int(text)\<close> refuses more than 4300 digits.\<close>

definition int_text :: "string \<Rightarrow> int option" where
  "int_text s = (if 4300 < length (filter is_ascii_digit s) then None else py_int_of_str s)"

definition optional_int :: "string option \<Rightarrow> int option" where
  "optional_int value = (if truthy value then int_text (the value) else None)"

text \<open>\<^verbatim>\<open>datetime.fromtimestamp\<close> in UTC takes the years 1 to 9999; a time is whole seconds.\<close>

datatype nmap_code = MALFORMED_XML | UNSUPPORTED_OUTPUT | INCOMPLETE_OUTPUT

fun nmap_code_value :: "nmap_code \<Rightarrow> string" where
  "nmap_code_value MALFORMED_XML = ''malformed_xml''"
| "nmap_code_value UNSUPPORTED_OUTPUT = ''unsupported_output''"
| "nmap_code_value INCOMPLETE_OUTPUT = ''incomplete_output''"

datatype nmap_error = NmapParseError nmap_code string | Timestamp_out_of_range

definition unix_time :: "string option \<Rightarrow> nmap_error + int option" where
  "unix_time value = (case optional_int value of None \<Rightarrow> Inr None
     | Some t \<Rightarrow> if -62135596800 \<le> t \<and> t \<le> 253402300799 then Inr (Some t) else Inl Timestamp_out_of_range)"

section \<open>Hosts\<close>

definition parse_service :: "xml \<Rightarrow> nmap_service" where
  "parse_service e = \<lparr>ns_name = attr e ''name'', ns_product = attr e ''product'', ns_version = attr e ''version'',
     ns_extra_info = attr e ''extrainfo'', ns_tunnel = attr e ''tunnel'', ns_method = attr e ''method'',
     ns_confidence = optional_int (attr e ''conf''), ns_cpe = texts (xml_findall e ''cpe''), ns_banner = attr e ''servicefp''\<rparr>"

definition parse_port :: "xml \<Rightarrow> nmap_port option" where
  "parse_port e = map_option (\<lambda>port. \<lparr>np_protocol = attr_or e ''protocol'' ''tcp'', np_port = port,
       np_state = opt_attr_or (xml_find e ''state'') ''state'' ''unknown'', np_reason = opt_attr (xml_find e ''state'') ''reason'',
       np_service = map_option parse_service (xml_find e ''service'')\<rparr>)
     (int_text (attr_or e ''portid'' []))"

definition parse_os :: "xml \<Rightarrow> nmap_os_match list" where
  "parse_os e = map (\<lambda>m. let c = xml_find m ''osclass'' in
     \<lparr>om_name = attr_or m ''name'' ''unknown'',
      om_accuracy = (case optional_int (attr m ''accuracy'') of None \<Rightarrow> 0 | Some n \<Rightarrow> n),
      om_family = opt_attr c ''osfamily'', om_generation = opt_attr c ''osgen'', om_vendor = opt_attr c ''vendor'',
      om_cpe = texts (xml_descendants m ''cpe'')\<rparr>) (xml_findall e ''osmatch'')"

definition parse_host :: "xml \<Rightarrow> nmap_host" where
  "parse_host e =
     \<lparr>nh_status = opt_attr_or (xml_find e ''status'') ''state'' ''unknown'',
      nh_status_reason = opt_attr (xml_find e ''status'') ''reason'',
      nh_addresses = List.map_filter (\<lambda>a. if truthy (attr a ''addr'')
        then Some \<lparr>na_address = attr_or a ''addr'' [], na_family = attr_or a ''addrtype'' ''unknown'', na_vendor = attr a ''vendor''\<rparr>
        else None) (xml_findall e ''address''),
      nh_hostnames = List.map_filter (\<lambda>h. if truthy (attr h ''name'')
        then Some (attr_or h ''name'' [], attr_or h ''type'' ''PTR'') else None)
        (concat (map (\<lambda>hs. xml_findall hs ''hostname'') (xml_findall e ''hostnames''))),
      nh_ports = List.map_filter parse_port (concat (map (\<lambda>ps. xml_findall ps ''port'') (xml_findall e ''ports''))),
      nh_os_matches = (case xml_find e ''os'' of None \<Rightarrow> [] | Some x \<Rightarrow> parse_os x),
      nh_uptime_seconds = optional_int (opt_attr (xml_find e ''uptime'') ''seconds''),
      nh_network_distance = optional_int (opt_attr (xml_find e ''distance'') ''value'')\<rparr>"

section \<open>Documents\<close>

record nmap_document =
  nd_scanner :: string
  nd_args :: "string option"
  nd_version :: "string option"
  nd_xml_output_version :: "string option"
  nd_start_time :: "int option"
  nd_hosts :: "nmap_host list"
  nd_hosts_up :: "int option"
  nd_hosts_down :: "int option"
  nd_hosts_total :: "int option"
  nd_finished :: bool

definition parse_nmap_tree :: "xml \<Rightarrow> nmap_error + nmap_document" where
  "parse_nmap_tree root =
     (if xml_tag root \<noteq> ''nmaprun''
      then Inl (NmapParseError UNSUPPORTED_OUTPUT (''Unsupported Nmap XML root element: '' @ xml_tag root))
      else let runstats = xml_find root ''runstats'';
               finished = Option.bind runstats (\<lambda>r. xml_find r ''finished'');
               stats = Option.bind runstats (\<lambda>r. xml_find r ''hosts'')
           in if runstats = None \<or> finished = None
              then Inl (NmapParseError INCOMPLETE_OUTPUT ''Nmap XML is missing runstats/finished'')
              else rbind (unix_time (attr root ''start'')) (\<lambda>start. Inr
                \<lparr>nd_scanner = attr_or root ''scanner'' ''nmap'', nd_args = attr root ''args'', nd_version = attr root ''version'',
                 nd_xml_output_version = attr root ''xmloutputversion'', nd_start_time = start,
                 nd_hosts = map parse_host (xml_findall root ''host''), nd_hosts_up = optional_int (opt_attr stats ''up''),
                 nd_hosts_down = optional_int (opt_attr stats ''down''), nd_hosts_total = optional_int (opt_attr stats ''total''),
                 nd_finished = True\<rparr>))"

definition parse_nmap_xml :: "(string \<Rightarrow> string + xml) \<Rightarrow> string + string \<Rightarrow> nmap_error + nmap_document" where
  "parse_nmap_xml fromstring source = (case source of
     Inl t \<Rightarrow> Inl (NmapParseError INCOMPLETE_OUTPUT (''Could not read Nmap XML: '' @ t))
   | Inr payload \<Rightarrow> (case fromstring payload of
       Inl t \<Rightarrow> Inl (NmapParseError MALFORMED_XML (''Nmap XML is malformed: '' @ t))
     | Inr root \<Rightarrow> parse_nmap_tree root))"

section \<open>What the later scans use\<close>

definition host_ipv4 :: "nmap_host \<Rightarrow> string option" where
  "host_ipv4 h = map_option na_address (find (\<lambda>x. na_family x = ''ipv4'') (nh_addresses h))"

definition host_ipv6 :: "nmap_host \<Rightarrow> string option" where
  "host_ipv6 h = map_option na_address (find (\<lambda>x. na_family x = ''ipv6'') (nh_addresses h))"

text \<open>The loop body both target lists share: append an address unless it was seen.\<close>

definition add_target :: "string option \<Rightarrow> string list \<Rightarrow> string list" where
  "add_target address targets = (if truthy address \<and> the address \<notin> set targets then targets @ [the address] else targets)"

fun targets_of :: "(nmap_host \<Rightarrow> bool) \<Rightarrow> nmap_host list \<Rightarrow> string list \<Rightarrow> string list" where
  "targets_of wanted [] targets = targets"
| "targets_of wanted (h # hs) targets = targets_of wanted hs
     (if wanted h then add_target (host_ipv6 h) (add_target (host_ipv4 h) targets) else targets)"

definition live_targets :: "nmap_document \<Rightarrow> string list" where
  "live_targets d = targets_of (\<lambda>h. nh_status h = ''up'') (nd_hosts d) []"

definition open_tcp :: "nmap_port \<Rightarrow> bool" where
  "open_tcp p \<longleftrightarrow> np_protocol p = ''tcp'' \<and> np_state p = ''open''"

definition open_tcp_ports :: "nmap_document option \<Rightarrow> int list" where
  "open_tcp_ports d = (case d of None \<Rightarrow> []
     | Some x \<Rightarrow> sorted_list_of_set (set (concat (map (\<lambda>h. map np_port (filter open_tcp (nh_ports h)))
         (filter (\<lambda>h. nh_status h = ''up'') (nd_hosts x))))))"

definition targets_with_open_tcp :: "nmap_document option \<Rightarrow> string list" where
  "targets_with_open_tcp d = (case d of None \<Rightarrow> []
     | Some x \<Rightarrow> targets_of (\<lambda>h. nh_status h = ''up'' \<and> list_ex open_tcp (nh_ports h)) (nd_hosts x) [])"

section \<open>Facts\<close>

lemma set_add_target: "set (add_target x ts) = set ts \<union> (if truthy x then {the x} else {})"
  by (auto simp: add_target_def)

lemma distinct_add_target [simp]: "distinct ts \<Longrightarrow> distinct (add_target x ts)"
  by (auto simp: add_target_def)

lemma set_targets_of:
  "set (targets_of P hs ts) = set ts \<union> {a. a \<noteq> [] \<and> (\<exists>h \<in> set hs. P h \<and> (host_ipv4 h = Some a \<or> host_ipv6 h = Some a))}"
  by (induction P hs ts rule: targets_of.induct) (auto simp: set_add_target truthy_iff split: if_splits)

lemma distinct_targets_of: "distinct ts \<Longrightarrow> distinct (targets_of P hs ts)"
  by (induction P hs ts rule: targets_of.induct) auto

lemma live_targets_exact:
  "distinct (live_targets d)"
  "a \<in> set (live_targets d) \<longleftrightarrow> a \<noteq> [] \<and> (\<exists>h \<in> set (nd_hosts d). nh_status h = ''up'' \<and> (host_ipv4 h = Some a \<or> host_ipv6 h = Some a))"
  by (auto simp: live_targets_def set_targets_of intro: distinct_targets_of)

lemma targets_with_open_tcp_live: "set (targets_with_open_tcp (Some d)) \<subseteq> set (live_targets d)"
  by (auto simp: targets_with_open_tcp_def live_targets_exact set_targets_of)

lemma open_tcp_ports_exact:
  "sorted (open_tcp_ports (Some d)) \<and> distinct (open_tcp_ports (Some d))"
  "p \<in> set (open_tcp_ports (Some d)) \<longleftrightarrow>
     (\<exists>h \<in> set (nd_hosts d). nh_status h = ''up'' \<and> (\<exists>x \<in> set (nh_ports h). open_tcp x \<and> np_port x = p))"
  by (auto simp: open_tcp_ports_def)

text \<open>Open ports and targets to fingerprint come and go together, but for hosts without a network address.\<close>

lemma no_targets_no_ports: "open_tcp_ports d = [] \<Longrightarrow> targets_with_open_tcp d = []"
proof (cases d)
  case (Some x)
  assume e: "open_tcp_ports d = []"
  have "a \<notin> set (targets_with_open_tcp (Some x))" for a
    using e open_tcp_ports_exact(2) [of _ x] Some by (fastforce simp: targets_with_open_tcp_def set_targets_of list_ex_iff)
  then show ?thesis using Some by (metis list.set_intros(1) neq_Nil_conv)
qed (simp add: targets_with_open_tcp_def)

lemma finished_or_error:
  assumes "parse_nmap_tree root = Inr d"
  shows "nd_finished d" "xml_tag root = ''nmaprun''" "nd_hosts d = map parse_host (xml_findall root ''host'')"
  using assms by (auto simp: parse_nmap_tree_def Let_def split: if_splits)

end
