(* ===== verification/Nmap_Plans.thy ===== *)
theory Nmap_Plans
  imports Active_Profiles Routes Nmap_Parser Py_Uuid
begin

text \<open>
  The command plans of the Nmap provider (the builders of \<^verbatim>\<open>providers/nmap.py\<close>) and its capabilities (\<^verbatim>\<open>engine/capabilities.py\<close>).
\<close>

section \<open>Capabilities\<close>

definition CAP_NET_RAW :: nat where
  "CAP_NET_RAW = 13"

text \<open>\<open>status\<close> is the text of \<^verbatim>\<open>/proc/self/status\<close> when it can be read; no value stands for the \<^verbatim>\<open>ValueError\<close> of \<^verbatim>\<open>int\<close>.\<close>

fun effective_net_raw :: "string list \<Rightarrow> bool option" where
  "effective_net_raw [] = Some False"
| "effective_net_raw (l # ls) =
     (if starts_with l ''CapEff:'' then map_option (\<lambda>n. bit n CAP_NET_RAW) (py_int16 (drop 7 l)) else effective_net_raw ls)"

definition process_has_net_raw :: "int \<Rightarrow> string option \<Rightarrow> bool option" where
  "process_has_net_raw euid status = (if euid = 0 then Some True
     else case status of None \<Rightarrow> Some False | Some t \<Rightarrow> effective_net_raw (splitlines [] t))"

record nmap_capabilities =
  nc_binary :: string
  nc_version :: "string option"
  nc_privileged :: bool
  nc_syn_scan :: bool
  nc_arp_discovery :: bool
  nc_os_detection :: bool
  nc_udp_scan :: bool

text \<open>The words of a line, as \<^verbatim>\<open>line.split()\<close> gives them.\<close>

fun split_words :: "string \<Rightarrow> string \<Rightarrow> string list" where
  "split_words acc [] = (if acc = [] then [] else [rev acc])"
| "split_words acc (c # s) = (if is_space c then (if acc = [] then split_words [] s else rev acc # split_words [] s) else split_words (c # acc) s)"

fun version_line :: "string list \<Rightarrow> string option" where
  "version_line [] = None"
| "version_line (l # ls) = (let parts = split_words [] l
     in if starts_with (lower l) ''nmap version'' \<and> 3 \<le> length parts then Some (parts ! 2) else version_line ls)"

text \<open>The version is asked once and kept; a tool that is not found has none.\<close>

definition nmap_version :: "(string \<Rightarrow> string option) \<Rightarrow> (tool_command \<Rightarrow> tool_result) \<Rightarrow> string \<Rightarrow> string option" where
  "nmap_version locate run binary = (if locate binary = None then None
     else let r = run \<lparr>tc_tool = binary, tc_args = [''--version''], tc_timeout = 5, tc_environment = []\<rparr>
          in if tr_success r then version_line (splitlines [] (tr_stdout r)) else None)"

definition capabilities :: "nmap_settings \<Rightarrow> bool option \<Rightarrow> bool option \<Rightarrow> string option \<Rightarrow> nmap_capabilities option" where
  "capabilities s forced net_raw version = map_option (\<lambda>p. \<lparr>nc_binary = nmap_binary s, nc_version = version, nc_privileged = p,
     nc_syn_scan = p, nc_arp_discovery = p, nc_os_detection = p, nc_udp_scan = p\<rparr>)
     (case forced of Some p \<Rightarrow> Some p | None \<Rightarrow> net_raw)"

section \<open>Plans\<close>

record nmap_plan =
  pl_args :: "string list"
  pl_xml_path :: string
  pl_target_file :: string
  pl_scan_kind :: string
  pl_tcp_method :: string
  pl_host_discovery_method :: string
  pl_tcp_ports :: "string option"
  pl_udp_ports :: "string option"
  pl_service_detection :: bool
  pl_version_intensity :: "int option"
  pl_os_detection :: bool
  pl_timing :: string
  pl_privileged :: bool
  pl_skip_host_discovery :: bool
  pl_fallbacks :: "string list"
  pl_route_trace_routes :: "target_route list"

definition all_directly_connected_ipv4 :: "resolved_scope \<Rightarrow> validated_scope \<Rightarrow> bool" where
  "all_directly_connected_ipv4 resolved scope \<longleftrightarrow> vs_address_families scope = [4] \<and> list_all tr_directly_connected (rs_routes resolved)"

definition all_routes_direct :: "resolved_scope \<Rightarrow> bool" where
  "all_routes_direct resolved \<longleftrightarrow> rs_routes resolved \<noteq> [] \<and> list_all tr_directly_connected (rs_routes resolved)"

definition ports_text :: "int list \<Rightarrow> string" where
  "ports_text ports = join_on '','' (map int_str ports)"

definition remove_T :: "string \<Rightarrow> string" where
  "remove_T t = (if starts_with t ''T'' then tl t else t)"

definition ipv6_only :: "validated_scope \<Rightarrow> bool" where
  "ipv6_only scope \<longleftrightarrow> 6 \<in> set (vs_address_families scope) \<and> 4 \<notin> set (vs_address_families scope)"

text \<open>The parts the argument lists share.\<close>

definition first_args :: "string \<Rightarrow> string list \<Rightarrow> string list" where
  "first_args timing modes = [''-n'', ''-T'' @ remove_T timing] @ modes @ [''-v'', ''--stats-every'', ''5s'']"

definition family_args :: "validated_scope \<Rightarrow> string list" where
  "family_args scope = (if ipv6_only scope then [''-6''] else [])"

definition last_args :: "resolved_scope \<Rightarrow> string \<Rightarrow> string \<Rightarrow> string list" where
  "last_args resolved xml target = [''-e'', rs_interface resolved, ''-oX'', xml, ''-iL'', target]"

definition tcp_args :: "bool \<Rightarrow> string list" where
  "tcp_args privileged = (if privileged then [''-sS''] else [''--unprivileged'', ''-sT''])"

definition tcp_method_of :: "bool \<Rightarrow> string" where
  "tcp_method_of privileged = (if privileged then ''syn'' else ''connect'')"

definition tcp_fallbacks :: "bool \<Rightarrow> string list" where
  "tcp_fallbacks privileged = (if privileged then [] else [''syn-to-connect''])"

definition service_args :: "active_scan_profile \<Rightarrow> string list" where
  "service_args p = (if ap_service_detection p
     then ''-sV'' # (case ap_version_intensity p of None \<Rightarrow> [] | Some n \<Rightarrow> [''--version-intensity'', int_str n]) else [])"

definition os_args :: "active_scan_profile \<Rightarrow> bool \<Rightarrow> string list" where
  "os_args p privileged = (if ap_os_detection p \<and> privileged then [''-O'', ''--osscan-limit''] else [])"

definition os_fallbacks :: "active_scan_profile \<Rightarrow> bool \<Rightarrow> string list" where
  "os_fallbacks p privileged = (if ap_os_detection p \<and> \<not> privileged then [''os-detection-skipped-unprivileged''] else [])"

definition host_discovery_args :: "validated_scope \<Rightarrow> resolved_scope \<Rightarrow> bool \<Rightarrow> string list \<times> string" where
  "host_discovery_args scope resolved privileged =
     (if \<not> privileged
      then ([''--unprivileged'', ''-PS22,80,443''], if ipv6_only scope then ''ipv6-tcp-probes'' else ''tcp-connect-probes'')
      else let (args, m) = (if ipv6_only scope then ([''-PR''], ''ipv6-neighbor-discovery'')
             else if all_directly_connected_ipv4 resolved scope then ([''-PR''], ''arp'')
             else if list_ex tr_directly_connected (rs_routes resolved)
             then ([''-PE'', ''-PP'', ''-PS22,80,443'', ''-PR''], ''arp-icmp-tcp'')
             else ([''-PE'', ''-PP'', ''-PS22,80,443''], ''icmp-and-tcp-probes''))
           in (args, if 6 \<in> set (vs_address_families scope) \<and> \<not> ipv6_only scope then m @ ''+ipv6-nd'' else m))"

definition build_host_discovery ::
  "nmap_capabilities \<Rightarrow> validated_scope \<Rightarrow> resolved_scope \<Rightarrow> active_scan_profile \<Rightarrow> string \<Rightarrow> string \<Rightarrow> nmap_plan" where
  "build_host_discovery c scope resolved p xml target =
     (let (probes, m) = host_discovery_args scope resolved (nc_privileged c)
      in \<lparr>pl_args = first_args (ap_timing p) [''-sn''] @ family_args scope @ probes @ last_args resolved xml target,
          pl_xml_path = xml, pl_target_file = target, pl_scan_kind = ''host_discovery'', pl_tcp_method = ''none'',
          pl_host_discovery_method = m, pl_tcp_ports = None, pl_udp_ports = None, pl_service_detection = False,
          pl_version_intensity = None, pl_os_detection = False, pl_timing = ap_timing p, pl_privileged = nc_privileged c,
          pl_skip_host_discovery = False,
          pl_fallbacks = (if nc_privileged c then [] else [''unprivileged-host-discovery'']),
          pl_route_trace_routes = (if ap_name p \<in> {STANDARD, DEEP}
            then filter (\<lambda>r. \<not> tr_directly_connected r) (rs_routes resolved) else [])\<rparr>)"

text \<open>A scan that follows host discovery: what the TCP and UDP plans have in common.\<close>

definition scan_plan :: "string list \<Rightarrow> string \<Rightarrow> string \<Rightarrow> string \<Rightarrow> string \<Rightarrow> bool \<Rightarrow> nmap_plan" where
  "scan_plan args xml target kind timing privileged =
     \<lparr>pl_args = args, pl_xml_path = xml, pl_target_file = target, pl_scan_kind = kind, pl_tcp_method = ''none'',
      pl_host_discovery_method = ''none'', pl_tcp_ports = None, pl_udp_ports = None, pl_service_detection = False,
      pl_version_intensity = None, pl_os_detection = False, pl_timing = timing, pl_privileged = privileged,
      pl_skip_host_discovery = True, pl_fallbacks = [], pl_route_trace_routes = []\<rparr>"

text \<open>The truth of an optional text and of an optional number decide which port option is given.\<close>

definition tcp_port_args :: "active_scan_profile \<Rightarrow> string list \<times> string option" where
  "tcp_port_args p = (if truthy (ap_tcp_ports p) then ([''-p'', the (ap_tcp_ports p)], ap_tcp_ports p)
     else case ap_tcp_top_ports p of None \<Rightarrow> ([], None)
       | Some n \<Rightarrow> if n = 0 then ([], None) else ([''--top-ports'', int_str n], Some (''top-'' @ int_str n)))"

definition build_tcp_scan ::
  "nmap_capabilities \<Rightarrow> validated_scope \<Rightarrow> resolved_scope \<Rightarrow> active_scan_profile \<Rightarrow> string \<Rightarrow> string \<Rightarrow> nmap_plan" where
  "build_tcp_scan c scope resolved p xml target =
     (let priv = nc_privileged c; (ports, text) = tcp_port_args p
      in (scan_plan (first_args (ap_timing p) [''-Pn''] @ family_args scope @ tcp_args priv @ ports @ service_args p @ os_args p priv
            @ [''--max-retries'', ''2''] @ last_args resolved xml target) xml target ''tcp_scan'' (ap_timing p) priv)
         \<lparr>pl_tcp_method := tcp_method_of priv, pl_tcp_ports := text, pl_service_detection := ap_service_detection p,
          pl_version_intensity := ap_version_intensity p, pl_os_detection := ap_os_detection p \<and> priv,
          pl_fallbacks := tcp_fallbacks priv @ os_fallbacks p priv\<rparr>)"

definition sweep_timing :: "resolved_scope \<Rightarrow> active_scan_profile \<Rightarrow> string" where
  "sweep_timing resolved p = (if all_routes_direct resolved then ''T4'' else ap_timing p)"

definition sweep_retries :: "resolved_scope \<Rightarrow> string" where
  "sweep_retries resolved = (if all_routes_direct resolved then ''1'' else ''2'')"

definition build_tcp_sweep ::
  "nmap_capabilities \<Rightarrow> validated_scope \<Rightarrow> resolved_scope \<Rightarrow> active_scan_profile \<Rightarrow> string \<Rightarrow> string \<Rightarrow> nmap_plan" where
  "build_tcp_sweep c scope resolved p xml target =
     (let priv = nc_privileged c; timing = sweep_timing resolved p;
          ports = (if truthy (ap_tcp_ports p) then the (ap_tcp_ports p) else ''1-65535'')
      in (scan_plan (first_args timing [''-Pn''] @ family_args scope @ tcp_args priv
            @ [''-p'', ports, ''--open'', ''--max-retries'', sweep_retries resolved] @ last_args resolved xml target)
            xml target ''tcp_sweep'' timing priv)
         \<lparr>pl_tcp_method := tcp_method_of priv, pl_tcp_ports := Some ports, pl_fallbacks := tcp_fallbacks priv\<rparr>)"

definition build_tcp_fingerprint ::
  "nmap_capabilities \<Rightarrow> validated_scope \<Rightarrow> resolved_scope \<Rightarrow> active_scan_profile \<Rightarrow> int list \<Rightarrow> string \<Rightarrow> string \<Rightarrow> nmap_plan option" where
  "build_tcp_fingerprint c scope resolved p ports xml target =
     (if ports = [] then None
      else let priv = nc_privileged c; timing = sweep_timing resolved p; text = ports_text (sorted_list_of_set (set ports))
           in Some ((scan_plan (first_args timing [''-Pn''] @ family_args scope @ tcp_args priv @ [''-p'', text, ''--open'']
                @ service_args p @ os_args p priv @ [''--max-retries'', sweep_retries resolved] @ last_args resolved xml target)
                xml target ''tcp_fingerprint'' timing priv)
              \<lparr>pl_tcp_method := tcp_method_of priv, pl_tcp_ports := Some text, pl_service_detection := ap_service_detection p,
               pl_version_intensity := ap_version_intensity p, pl_os_detection := ap_os_detection p \<and> priv,
               pl_fallbacks := tcp_fallbacks priv @ os_fallbacks p priv\<rparr>))"

definition build_udp_scan ::
  "nmap_capabilities \<Rightarrow> validated_scope \<Rightarrow> resolved_scope \<Rightarrow> active_scan_profile \<Rightarrow> string \<Rightarrow> string \<Rightarrow> nmap_plan option" where
  "build_udp_scan c scope resolved p xml target =
     (if \<not> ap_run_udp_scan p \<or> ap_udp_ports p = [] then None
      else if \<not> nc_privileged c
      then Some ((scan_plan [] xml target ''udp_scan_skipped'' (ap_timing p) False)
             \<lparr>pl_udp_ports := Some (ports_text (ap_udp_ports p)), pl_fallbacks := [''udp-skipped-unprivileged'']\<rparr>)
      else let deep = (ap_name p = DEEP); timing = (if deep \<and> all_routes_direct resolved then ''T4'' else ap_timing p)
           in Some ((scan_plan (first_args timing [''-Pn'', ''-sU''] @ family_args scope @ (if deep then service_args p else [])
                @ [''-p'', ports_text (ap_udp_ports p), ''--max-retries'', ''1''] @ last_args resolved xml target)
                xml target ''udp_scan'' timing True)
              \<lparr>pl_udp_ports := Some (ports_text (ap_udp_ports p)), pl_service_detection := ap_service_detection p \<and> deep,
               pl_version_intensity := (if deep then ap_version_intensity p else None)\<rparr>))"

end
