(* ===== verification/Route_Trace.thy ===== *)
theory Route_Trace
  imports Nmap_Progress Protocol_Run Routes
begin

text \<open>
  Bounded route tracing of a confirmed scope (\<^verbatim>\<open>providers/route_trace.py\<close>): which live hosts are traced, the command of a trace, and the
  hops read from the output of \<^verbatim>\<open>traceroute\<close> and \<^verbatim>\<open>tracepath\<close>. \<open>exec\<close> is the result of the n-th command, \<open>cancelled\<close> the token at its n-th reading,
  \<open>locate\<close> is \<^verbatim>\<open>shutil.which\<close>, \<open>number\<close> the printed form of \<^verbatim>\<open>float(t)\<close>.
\<close>

section \<open>Targets\<close>

definition MAX_HOPS :: nat where
  "MAX_HOPS = 16"

definition MAX_TARGETS :: nat where
  "MAX_TARGETS = 4"

record trace_target =
  tt_address :: string
  tt_scope_target :: string
  tt_source_address :: "string option"
  tt_gateway :: "string option"

definition route_network :: "target_route \<Rightarrow> ipnet option" where
  "route_network r = ip_network False (if CHR ''/'' \<in> set (tr_target r) then tr_target r
     else tr_target r @ ''/'' @ (if tr_family r = 4 \<or> tr_family r = 0 then ''32'' else ''128''))"

text \<open>The live address that stands for a route: the first one in its network.\<close>

definition live_match :: "ipaddr list \<Rightarrow> target_route \<Rightarrow> ipaddr option" where
  "live_match live r = (if tr_directly_connected r \<or> tr_target r = [] then None
     else case route_network r of None \<Rightarrow> None
       | Some n \<Rightarrow> find (\<lambda>a. ip_version a = net_version n \<and> in_network a n) live)"

fun select_targets :: "ipaddr list \<Rightarrow> target_route list \<Rightarrow> trace_target list \<Rightarrow> trace_target list" where
  "select_targets live [] selected = selected"
| "select_targets live (r # rs) selected = (case live_match live r of
     None \<Rightarrow> select_targets live rs selected
   | Some a \<Rightarrow> if ip_str a \<in> tt_address ` set selected then select_targets live rs selected
       else let selected' = selected @ [\<lparr>tt_address = ip_str a, tt_scope_target = tr_target r,
                  tt_source_address = (if tr_source r = [] then None else Some (tr_source r)),
                  tt_gateway = (if truthy (tr_gateway r) then tr_gateway r else None)\<rparr>]
            in if MAX_TARGETS \<le> length selected' then selected' else select_targets live rs selected')"

definition representative_routed_targets :: "string list \<Rightarrow> target_route list \<Rightarrow> trace_target list" where
  "representative_routed_targets live_addresses routes = select_targets (List.map_filter ip_address live_addresses) routes []"

section \<open>Commands\<close>

definition available_tool :: "(string \<Rightarrow> string option) \<Rightarrow> string option" where
  "available_tool locate = (if truthy (locate ''traceroute'') then Some ''traceroute''
     else if truthy (locate ''tracepath'') then Some ''tracepath'' else None)"

text \<open>\<^verbatim>\<open>ip_address\<close> raises on a text that is no address.\<close>

definition trace_command :: "string \<Rightarrow> string \<Rightarrow> string \<Rightarrow> tool_command option" where
  "trace_command tool target interface = (case ip_address target of None \<Rightarrow> None
     | Some a \<Rightarrow> let family = (if ip_version a = 4 then ''-4'' else ''-6'')
         in Some \<lparr>tc_tool = tool, tc_args = (if tool = ''traceroute''
              then [''-n'', ''-m'', dec MAX_HOPS, ''-q'', ''1'', ''-w'', ''1'', ''-i'', interface, family, target]
              else [''-n'', ''-m'', dec MAX_HOPS, family, target]), tc_timeout = 22, tc_environment = []\<rparr>)"

section \<open>Hops\<close>

record hop =
  hp_ttl :: nat
  hp_address :: "string option"
  hp_rtt_ms :: "string option"
  hp_responded :: bool

definition silent_hop :: "nat \<Rightarrow> hop" where
  "silent_hop ttl = \<lparr>hp_ttl = ttl, hp_address = None, hp_rtt_ms = None, hp_responded = False\<rparr>"

definition octet_text :: "string \<Rightarrow> (string \<times> string) option" where
  "octet_text s = (let w = takeWhile is_ascii_digit (take 3 s) in if w = [] then None else Some (w, drop (length w) s))"

definition dotted_here :: "string \<Rightarrow> string option" where
  "dotted_here s =
     Option.bind (octet_text s) (\<lambda>(a, r). Option.bind (lit ''.'' r) (\<lambda>r. Option.bind (octet_text r) (\<lambda>(b, r). Option.bind (lit ''.'' r) (\<lambda>r.
     Option.bind (octet_text r) (\<lambda>(c, r). Option.bind (lit ''.'' r) (\<lambda>r. map_option (\<lambda>(d, r). join_on ''.'' [a, b, c, d]) (octet_text r)))))))"

definition address_here :: "string \<Rightarrow> string option" where
  "address_here s = (case dotted_here s of Some t \<Rightarrow> Some t
     | None \<Rightarrow> (let w = takeWhile (\<lambda>c. is_hex c \<or> c = CHR '':'') s in if 2 \<le> length w then Some w else None))"

definition rtt_here :: "string \<Rightarrow> string option" where
  "rtt_here s = Option.bind (decimal s) (\<lambda>(v, r). if starts_with (dropWhile is_space r) ''ms'' then Some v else None)"

definition hop_of :: "(string \<Rightarrow> string) \<Rightarrow> nat \<Rightarrow> string \<Rightarrow> hop" where
  "hop_of number ttl rest = (let a = search address_here rest
     in \<lparr>hp_ttl = ttl, hp_address = a, hp_rtt_ms = map_option number (search rtt_here rest), hp_responded = (a \<noteq> None)\<rparr>)"

definition traceroute_line :: "(string \<Rightarrow> string) \<Rightarrow> string \<Rightarrow> hop option" where
  "traceroute_line number raw =
     Option.bind (some_of is_ascii_digit (strip raw)) (\<lambda>(ttl, r). Option.bind (spaces r) (\<lambda>rest.
       if rest = [] then None
       else Some (if starts_with rest ''*'' then silent_hop (from_base 10 ttl) else hop_of number (from_base 10 ttl) rest)))"

text \<open>A letter, a digit or an underscore, below code point 256.\<close>

definition is_word :: "char \<Rightarrow> bool" where
  "is_word c \<longleftrightarrow> (let n = code c in 48 \<le> n \<and> n \<le> 57 \<or> 65 \<le> n \<and> n \<le> 90 \<or> 97 \<le> n \<and> n \<le> 122 \<or> n = 95
     \<or> n \<in> {170, 178, 179, 181, 185, 186, 188, 189, 190} \<or> 192 \<le> n \<and> n \<le> 255 \<and> n \<noteq> 215 \<and> n \<noteq> 247)"

fun has_word_ms :: "bool \<Rightarrow> string \<Rightarrow> bool" where
  "has_word_ms inside [] = False"
| "has_word_ms inside (c # s) =
     (\<not> inside \<and> starts_with (c # s) ''ms'' \<and> (tl s = [] \<or> \<not> is_word (hd (tl s))) \<or> has_word_ms (is_word c) s)"

definition tracepath_line :: "(string \<Rightarrow> string) \<Rightarrow> string \<Rightarrow> hop option" where
  "tracepath_line number raw =
     Option.bind (some_of is_ascii_digit (strip raw)) (\<lambda>(ttl, r).
     Option.bind (lit '':'' (case lit ''?'' r of Some t \<Rightarrow> t | None \<Rightarrow> r)) (\<lambda>r. Option.bind (spaces r) (\<lambda>rest.
       if rest = [] \<or> contains_str rest ''LOCALHOST'' \<or> contains_str (lower rest) ''pmtu'' \<and> \<not> has_word_ms False rest then None
       else Some (if starts_with rest ''no reply'' \<or> starts_with rest ''*'' then silent_hop (from_base 10 ttl)
                  else hop_of number (from_base 10 ttl) rest))))"

definition better_hop :: "hop list \<Rightarrow> hop \<Rightarrow> hop list" where
  "better_hop hops h = (case tbl_get hp_ttl hops (hp_ttl h) of None \<Rightarrow> hops @ [h]
     | Some c \<Rightarrow> if \<not> hp_responded c \<and> hp_responded h then tbl_put hp_ttl h hops else hops)"

definition dedupe_hops :: "hop list \<Rightarrow> hop list" where
  "dedupe_hops hops = sort_key hp_ttl (foldl better_hop [] hops)"

definition parse_traceroute :: "(string \<Rightarrow> string) \<Rightarrow> string \<Rightarrow> hop list" where
  "parse_traceroute number t = dedupe_hops (List.map_filter (traceroute_line number) (splitlines [] t))"

definition parse_tracepath :: "(string \<Rightarrow> string) \<Rightarrow> string \<Rightarrow> hop list" where
  "parse_tracepath number t = dedupe_hops (List.map_filter (tracepath_line number) (splitlines [] t))"

section \<open>Traces\<close>

record trace =
  tc_target :: trace_target
  tc_failed :: "string option"
  tc_reached_target :: bool
  tc_hops :: "hop list"

record trace_env =
  tv_locate :: "string \<Rightarrow> string option"
  tv_exec :: "nat \<Rightarrow> tool_command \<Rightarrow> tool_result"
  tv_cancelled :: "nat \<Rightarrow> bool"
  tv_number :: "string \<Rightarrow> string"

definition trace_of :: "(string \<Rightarrow> string) \<Rightarrow> string \<Rightarrow> trace_target \<Rightarrow> tool_result \<Rightarrow> trace" where
  "trace_of number tool t r =
     (if \<not> tr_success r
      then \<lparr>tc_target = t, tc_failed = Some (case tr_error r of Some e \<Rightarrow> te_message e | None \<Rightarrow> ''route trace failed''),
            tc_reached_target = False, tc_hops = []\<rparr>
      else let hops = (if tool = ''traceroute'' then parse_traceroute number (tr_stdout r) else parse_tracepath number (tr_stdout r))
           in \<lparr>tc_target = t, tc_failed = None, tc_reached_target = list_ex (\<lambda>h. hp_address h = Some (tt_address t)) hops, tc_hops = hops\<rparr>)"

text \<open>The loop over the selected targets: the traces and the commands run, or nothing when an address does not parse.\<close>

fun trace_loop ::
  "trace_env \<Rightarrow> string \<Rightarrow> string \<Rightarrow> nat \<Rightarrow> trace_target list \<Rightarrow> (trace list \<times> tool_command list) option" where
  "trace_loop v tool interface n [] = Some ([], [])"
| "trace_loop v tool interface n (t # ts) =
     (if tv_cancelled v n then Some ([], [])
      else case trace_command tool (tt_address t) interface of None \<Rightarrow> None
        | Some c \<Rightarrow> let r = tv_exec v n c
            in if tr_cancelled r then Some ([], [c])
               else map_option (\<lambda>(xs, cs). (trace_of (tv_number v) tool t r # xs, c # cs)) (trace_loop v tool interface (Suc n) ts))"

definition opt_str_json :: "string option \<Rightarrow> json" where
  "opt_str_json v = (case v of None \<Rightarrow> JNull | Some t \<Rightarrow> JStr t)"

definition hop_json :: "hop \<Rightarrow> json" where
  "hop_json h = JObj [(''ttl'', JInt (int (hp_ttl h))), (''address'', opt_str_json (hp_address h)),
     (''rtt_ms'', case hp_rtt_ms h of None \<Rightarrow> JNull | Some t \<Rightarrow> JFloat t), (''responded'', JBool (hp_responded h))]"

definition target_json :: "trace_target \<Rightarrow> json" where
  "target_json t = JObj [(''address'', JStr (tt_address t)), (''scope_target'', JStr (tt_scope_target t)),
     (''source_address'', opt_str_json (tt_source_address t)), (''gateway'', opt_str_json (tt_gateway t))]"

definition trace_json :: "trace \<Rightarrow> json" where
  "trace_json x = JObj ([(''target'', JStr (tt_address (tc_target x))), (''scope_target'', JStr (tt_scope_target (tc_target x))),
     (''source_address'', opt_str_json (tt_source_address (tc_target x))), (''gateway'', opt_str_json (tt_gateway (tc_target x))),
     (''status'', JStr (if tc_failed x = None then ''completed'' else ''failed'')), (''reached_target'', JBool (tc_reached_target x)),
     (''hops'', JList (map hop_json (tc_hops x)))]
     @ (case tc_failed x of None \<Rightarrow> [] | Some t \<Rightarrow> [(''error'', JStr t)]))"

definition trace_document :: "string \<Rightarrow> string option \<Rightarrow> string \<Rightarrow> trace_target list \<Rightarrow> trace list \<Rightarrow> string list \<Rightarrow> json_obj" where
  "trace_document status tool interface selected traces warnings =
     [(''schema'', JStr ''route-trace-result''), (''schema_version'', JInt 1), (''status'', JStr status), (''tool'', opt_str_json tool),
      (''interface'', JStr interface), (''max_hops'', JInt (int MAX_HOPS)), (''target_limit'', JInt (int MAX_TARGETS)),
      (''targets'', JList (map target_json selected)), (''traces'', JList (map trace_json traces)),
      (''warnings'', JList (map JStr warnings))]"

definition trace_many :: "trace_env \<Rightarrow> trace_target list \<Rightarrow> string \<Rightarrow> (json_obj \<times> tool_command list) option" where
  "trace_many v targets interface =
     (let selected = take MAX_TARGETS targets
      in case available_tool (tv_locate v) of
           None \<Rightarrow> Some (trace_document ''tool_unavailable'' None interface selected []
             [''Neither traceroute nor tracepath is installed; routed topology tracing was skipped.''], [])
         | Some tool \<Rightarrow> map_option (\<lambda>(traces, cs). (trace_document (if traces \<noteq> [] then ''completed'' else ''no_targets'') (Some tool) interface
             selected traces (if length selected < length targets
               then [''Route tracing was bounded to '' @ dec MAX_TARGETS @ '' representative routed targets.''] else []), cs))
             (trace_loop v tool interface 0 selected))"

section \<open>Facts\<close>

lemma live_match_in:
  "live_match live r = Some a \<Longrightarrow> a \<in> set live \<and> \<not> tr_directly_connected r \<and> (\<exists>n. route_network r = Some n \<and> in_network a n)"
  by (auto simp: live_match_def find_Some_iff split: if_splits option.splits)

definition traced :: "ipaddr list \<Rightarrow> target_route list \<Rightarrow> trace_target \<Rightarrow> bool" where
  "traced live routes t \<longleftrightarrow> (\<exists>r \<in> set routes. \<exists>a \<in> set live. \<exists>n. tt_address t = ip_str a \<and> tt_scope_target t = tr_target r
     \<and> \<not> tr_directly_connected r \<and> route_network r = Some n \<and> in_network a n)"

lemma select_targets_sound:
  assumes "length selected \<le> MAX_TARGETS" "distinct (map tt_address selected)" "\<forall>t \<in> set selected. traced live all t" "set rs \<subseteq> set all"
    and "length selected < MAX_TARGETS"
  shows "length (select_targets live rs selected) \<le> MAX_TARGETS \<and> distinct (map tt_address (select_targets live rs selected))
    \<and> (\<forall>t \<in> set (select_targets live rs selected). traced live all t)"
  using assms
proof (induction live rs selected rule: select_targets.induct)
  case (2 live r rs selected)
  show ?case
  proof (cases "live_match live r")
    case None
    then show ?thesis using 2 by simp
  next
    case (Some a)
    let ?t = "\<lparr>tt_address = ip_str a, tt_scope_target = tr_target r, tt_source_address = (if tr_source r = [] then None else Some (tr_source r)),
      tt_gateway = (if truthy (tr_gateway r) then tr_gateway r else None)\<rparr>"
    have t: "traced live all ?t" using live_match_in [OF Some] "2.prems"(4) by (auto simp: traced_def)
    show ?thesis
    proof (cases "ip_str a \<in> tt_address ` set selected")
      case True
      then show ?thesis using Some 2(2) [OF Some] 2(4-) by simp
    next
      case False
      then show ?thesis using Some 2(3) [OF Some False refl] 2(4-) t by (auto simp: Let_def)
    qed
  qed
next
  case (1 live selected)
  then show ?case by simp
qed

lemma representative_targets_sound:
  "length (representative_routed_targets live routes) \<le> MAX_TARGETS"
  "distinct (map tt_address (representative_routed_targets live routes))"
  "t \<in> set (representative_routed_targets live routes) \<Longrightarrow> traced (List.map_filter ip_address live) routes t"
  using select_targets_sound [of "[]" "List.map_filter ip_address live" routes routes]
  by (auto simp: representative_routed_targets_def MAX_TARGETS_def)

text \<open>Every address the selection prints parses again, so tracing never stops on one.\<close>

lemma trace_loop_total:
  assumes "\<forall>t \<in> set ts. ip_address (tt_address t) \<noteq> None"
  shows "\<exists>xs cs. trace_loop v tool interface n ts = Some (xs, cs) \<and> length cs \<le> length ts
    \<and> (\<forall>c \<in> set cs. \<exists>t \<in> set ts. trace_command tool (tt_address t) interface = Some c)"
  using assms
proof (induction v tool interface n ts rule: trace_loop.induct)
  case (2 v tool interface n t ts)
  obtain c where c: "trace_command tool (tt_address t) interface = Some c"
    using 2(2) by (auto simp: trace_command_def Let_def)
  show ?case
  proof (cases "tv_cancelled v n \<or> tr_cancelled (tv_exec v n c)")
    case True
    then show ?thesis using c by (auto simp: Let_def)
  next
    case False
    then obtain xs cs where "trace_loop v tool interface (Suc n) ts = Some (xs, cs)" "length cs \<le> length ts"
        "\<forall>c \<in> set cs. \<exists>t \<in> set ts. trace_command tool (tt_address t) interface = Some c"
      using 2(1) [OF _ c refl] 2(2) by (auto simp: Let_def)
    then show ?thesis using False c by (auto simp: Let_def)
  qed
qed simp

end
