(* ===== verification/Nmap_Provider.thy ===== *)
theory Nmap_Provider
  imports Nmap_Plans Nmap_Progress Route_Trace Evidence_Store
begin

text \<open>
  Running a plan (\<^verbatim>\<open>NmapProvider.run_plan\<close>, \<^verbatim>\<open>write_target_file\<close>, \<^verbatim>\<open>_persist_route_trace_if_needed\<close> of \<^verbatim>\<open>providers/nmap.py\<close>) and the live
  progress of a run (\<^verbatim>\<open>_nmap_live_callback\<close> of \<^verbatim>\<open>jobs/handlers/active.py\<close>).

  The state holds the inventory, the evidence store with its file system, and a log of what the handler did: the progress it
  reported, the target files it wrote, and the commands it ran, a scan together with its target file and what that file held at the moment. What
  the world answers is a function of the number of questions asked so far (\<open>ss_n\<close>): the cancellation token, the clock, the outcome
  of a scan, a failing file operation, a failing progress report, and the draws and faults of the evidence store. The outcome of a
  scan has the chunks of both pipes in the order in which they reached the callback, and the XML file, if there is one, as its bytes
  or the text of the error of reading it. An exception in a callback while the pipes are drained ends that chunk's reports
  only. The two drain threads are interleaved chunk by chunk. The capabilities are those of the process, which do not change while it runs.
\<close>

section \<open>State and environment\<close>

datatype scan_exc =
    SX_JobExecutionError job_error
  | SX_JobCancelled string
  | SX_Profile profile_config_error
  | SX_Network net_exc
  | SX_Inventory inv_error
  | SX_OSError string
  | SX_ValueError
  | SX_Report string

datatype live_part = LP_live | LP_percent string | LP_hosts string | LP_ports string nat | LP_last nat string | LP_remaining string

datatype scan_event =
    SE_Progress int string string
  | SE_Live int string "live_part list"
  | SE_Targets string "string list"
  | SE_Nmap tool_command string "string option"
  | SE_Trace "tool_command list"

record scan_state =
  ss_inv :: inv_db
  ss_ev :: evidence
  ss_log :: "scan_event list"
  ss_n :: nat

record nmap_outcome =
  no_result :: tool_result
  no_started_at :: string
  no_finished_at :: string
  no_stream :: "(string \<times> string) list"
  no_xml :: "(string + string) option"

record scan_env =
  sv_cancelled :: "nat \<Rightarrow> bool"
  sv_clock :: "nat \<Rightarrow> int"
  sv_exec :: "nat \<Rightarrow> tool_command \<Rightarrow> string option \<Rightarrow> nmap_outcome"
  sv_os :: "nat \<Rightarrow> string option"
  sv_report :: "nat \<Rightarrow> string option"
  sv_uuid :: "nat \<Rightarrow> string"
  sv_put :: "nat \<Rightarrow> put_faults \<times> put_draws"
  sv_trace :: "nat \<Rightarrow> trace_env"
  sv_passive :: "nat \<Rightarrow> passive_artifact"
  sv_fromstring :: "string \<Rightarrow> string + xml"
  sv_clamp :: "string \<Rightarrow> string"
  sv_scaled :: "int \<Rightarrow> string \<Rightarrow> int"
  sv_fixed1 :: "string \<Rightarrow> string"
  sv_ev :: ev_env
  sv_inv :: inv_env
  sv_net :: net_world
  sv_capabilities :: nmap_capabilities

type_synonym 'a scan = "scan_state \<Rightarrow> scan_state \<times> (scan_exc + 'a)"

definition sreturn :: "'a \<Rightarrow> 'a scan" where
  "sreturn x s = (s, Inr x)"

definition sraise :: "scan_exc \<Rightarrow> 'a scan" where
  "sraise e s = (s, Inl e)"

definition sbind :: "'a scan \<Rightarrow> ('a \<Rightarrow> 'b scan) \<Rightarrow> 'b scan" where
  "sbind m f s = (case m s of (s', Inl e) \<Rightarrow> (s', Inl e) | (s', Inr x) \<Rightarrow> f x s')"

definition slift :: "('e \<Rightarrow> scan_exc) \<Rightarrow> 'e + 'a \<Rightarrow> 'a scan" where
  "slift wrap r s = (s, case r of Inl e \<Rightarrow> Inl (wrap e) | Inr x \<Rightarrow> Inr x)"

definition draw :: "(nat \<Rightarrow> 'a) \<Rightarrow> 'a scan" where
  "draw f s = (s\<lparr>ss_n := Suc (ss_n s)\<rparr>, Inr (f (ss_n s)))"

definition emit :: "scan_event \<Rightarrow> unit scan" where
  "emit e s = (s\<lparr>ss_log := ss_log s @ [e]\<rparr>, Inr ())"

section \<open>Effects\<close>

definition os_step :: "scan_env \<Rightarrow> unit scan" where
  "os_step v = sbind (draw (sv_os v)) (\<lambda>r. case r of Some t \<Rightarrow> sraise (SX_OSError t) | None \<Rightarrow> sreturn ())"

definition ensure_not_cancelled :: "scan_env \<Rightarrow> unit scan" where
  "ensure_not_cancelled v = sbind (draw (sv_cancelled v)) (\<lambda>c. if c then sraise (SX_JobCancelled ''Active discovery was cancelled'') else sreturn ())"

definition progress :: "scan_env \<Rightarrow> int \<Rightarrow> string \<Rightarrow> string \<Rightarrow> unit scan" where
  "progress v percentage stage message =
     sbind (emit (SE_Progress percentage stage message)) (\<lambda>_. sbind (draw (sv_report v)) (\<lambda>r.
       case r of Some t \<Rightarrow> sraise (SX_Report t) | None \<Rightarrow> sreturn ()))"

definition ev_exc :: "ev_error \<Rightarrow> scan_exc" where
  "ev_exc e = (case e of EV_JobExecutionError j \<Rightarrow> SX_JobExecutionError j | EV_OSError t \<Rightarrow> SX_OSError t)"

definition ev_call :: "scan_env \<Rightarrow> (put_faults \<Rightarrow> put_draws \<Rightarrow> evidence \<Rightarrow> evidence \<times> (ev_error + artifact)) \<Rightarrow> artifact scan" where
  "ev_call v f = sbind (draw (sv_put v)) (\<lambda>(pf, d) s. case f pf d (ss_ev s) of
     (e, r) \<Rightarrow> (s\<lparr>ss_ev := e\<rparr>, case r of Inl x \<Rightarrow> Inl (ev_exc x) | Inr a \<Rightarrow> Inr a))"

definition inv_call :: "(inv_db \<Rightarrow> inv_error + inv_db \<times> 'a) \<Rightarrow> 'a scan" where
  "inv_call f s = (case f (ss_inv s) of Inl e \<Rightarrow> (s, Inl (SX_Inventory e)) | Inr (d, x) \<Rightarrow> (s\<lparr>ss_inv := d\<rparr>, Inr x))"

definition put_file :: "string \<Rightarrow> string \<Rightarrow> unit scan" where
  "put_file p t s = (s\<lparr>ss_ev := (ss_ev s)\<lparr>ev_files := fs_put (segments p) \<lparr>fl_data = t, fl_mtime = 0\<rparr> (ev_files (ss_ev s))\<rparr>\<rparr>, Inr ())"

definition remove_file :: "string \<Rightarrow> unit scan" where
  "remove_file p s = (s\<lparr>ss_ev := (ss_ev s)\<lparr>ev_files := fs_remove (segments p) (ev_files (ss_ev s))\<rparr>\<rparr>, Inr ())"

definition read_file :: "string \<Rightarrow> string option scan" where
  "read_file p s = (s, Inr (map_option fl_data (fs_get (ev_files (ss_ev s)) (segments p))))"

text \<open>\<^verbatim>\<open>path.unlink(missing_ok=True)\<close>.\<close>

definition unlink :: "scan_env \<Rightarrow> string \<Rightarrow> unit scan" where
  "unlink v p = sbind (os_step v) (\<lambda>_. remove_file p)"

definition target_payload :: "string list \<Rightarrow> string" where
  "target_payload targets = join_on [NEWLINE] targets @ [NEWLINE]"

definition write_target_file :: "scan_env \<Rightarrow> string list \<Rightarrow> string \<Rightarrow> string scan" where
  "write_target_file v targets directory =
     sbind (draw (sv_uuid v)) (\<lambda>u. let p = directory @ ''/targets-'' @ u @ ''.txt''
       in sbind (os_step v) (\<lambda>_. sbind (emit (SE_Targets p targets)) (\<lambda>_. sbind (put_file p (target_payload targets)) (\<lambda>_. sreturn p))))"

section \<open>Live progress\<close>

record live_params =
  lq_stage :: string
  lq_start :: int
  lq_end :: int
  lq_total_hosts :: int
  lq_port_label :: "string option"

text \<open>Times are whole microseconds.\<close>

record live_state =
  lv_last_emit :: int
  lv_last_open :: int
  lv_last_percent :: "string option"
  lv_last_overall :: int

definition live_start :: "live_params \<Rightarrow> live_state" where
  "live_start q = \<lparr>lv_last_emit = 0, lv_last_open = - 1, lv_last_percent = None, lv_last_overall = lq_start q\<rparr>"

text \<open>Whether a snapshot is worth a report at the time \<open>now\<close>.\<close>

definition live_due :: "progress_snapshot \<Rightarrow> live_state \<Rightarrow> int \<Rightarrow> bool" where
  "live_due x l now \<longleftrightarrow>
     (let percent_changed = (ps_percent x \<noteq> None \<and> ps_percent x \<noteq> lv_last_percent l);
          open_changed = (int (ps_open_ports x) \<noteq> lv_last_open l)
      in \<not> (lv_last_emit l \<noteq> 0 \<and> now - lv_last_emit l < 4000000 \<and> \<not> open_changed)
         \<and> \<not> (\<not> percent_changed \<and> \<not> open_changed \<and> now - lv_last_emit l < 8000000))"

definition live_overall :: "scan_env \<Rightarrow> live_params \<Rightarrow> progress_snapshot \<Rightarrow> live_state \<Rightarrow> int" where
  "live_overall v q x l = (case ps_percent x of None \<Rightarrow> lv_last_overall l
     | Some p \<Rightarrow> max (lv_last_overall l) (min (lq_end q) (lq_start q + sv_scaled v (max 0 (lq_end q - lq_start q)) p)))"

definition live_parts :: "scan_env \<Rightarrow> live_params \<Rightarrow> progress_snapshot \<Rightarrow> live_part list" where
  "live_parts v q x = LP_live # (case ps_percent x of None \<Rightarrow> [] | Some p \<Rightarrow> [LP_percent (sv_fixed1 v p @ ''%'')])
     @ (case ps_hosts_completed x of None \<Rightarrow> []
        | Some n \<Rightarrow> [LP_hosts (dec n @ (if 0 < lq_total_hosts q then ''/'' @ int_str (lq_total_hosts q) else [])
            @ (case ps_hosts_up x of None \<Rightarrow> [] | Some u \<Rightarrow> '' ('' @ dec u @ '' up)''))])
     @ (case lq_port_label q of None \<Rightarrow> [] | Some t \<Rightarrow> [LP_ports t (ps_open_ports x)])
     @ (case ps_last_open_port x of None \<Rightarrow> [] | Some n \<Rightarrow> if truthy (ps_last_open_host x) then [LP_last n (the (ps_last_open_host x))] else [])
     @ (if truthy (ps_remaining x) then [LP_remaining (the (ps_remaining x))] else [])"

definition live_seen :: "scan_env \<Rightarrow> live_params \<Rightarrow> progress_snapshot \<Rightarrow> int \<Rightarrow> live_state \<Rightarrow> live_state" where
  "live_seen v q x now l = \<lparr>lv_last_emit = now, lv_last_open = int (ps_open_ports x), lv_last_percent = ps_percent x,
     lv_last_overall = live_overall v q x l\<rparr>"

text \<open>One call of the callback: the new state of the callback, and the text of the exception of the report, if any.\<close>

definition live_report ::
  "scan_env \<Rightarrow> live_params \<Rightarrow> progress_snapshot \<Rightarrow> live_state \<Rightarrow> scan_state \<Rightarrow> scan_state \<times> live_state \<times> string option" where
  "live_report v q x l s =
     (let n = ss_n s; now = sv_clock v (Suc n); l' = live_seen v q x now l
      in if sv_cancelled v n then (s\<lparr>ss_n := Suc n\<rparr>, l, None)
         else if \<not> live_due x l now then (s\<lparr>ss_n := n + 2\<rparr>, l, None)
         else (s\<lparr>ss_n := n + 3, ss_log := ss_log s @ [SE_Live (lv_last_overall l') (lq_stage q) (live_parts v q x)]\<rparr>, l', sv_report v (n + 2)))"

fun live_reports ::
  "scan_env \<Rightarrow> live_params \<Rightarrow> progress_snapshot list \<Rightarrow> live_state \<Rightarrow> scan_state \<Rightarrow> scan_state \<times> live_state \<times> string option" where
  "live_reports v q [] l s = (s, l, None)"
| "live_reports v q (x # xs) l s = (case live_report v q x l s of
     (s', l', Some t) \<Rightarrow> (s', l', Some t) | (s', l', None) \<Rightarrow> live_reports v q xs l' s')"

text \<open>The chunks while the process runs, then what the buffers still hold.\<close>

fun live_chunks ::
  "scan_env \<Rightarrow> live_params \<Rightarrow> (string \<times> string) list \<Rightarrow> progress_parser \<Rightarrow> live_state \<Rightarrow> scan_state
     \<Rightarrow> scan_state \<times> progress_parser \<times> live_state" where
  "live_chunks v q [] p l s = (s, p, l)"
| "live_chunks v q ((stream, chunk) # cs) p l s =
     (let (p', xs) = feed (sv_clamp v) stream chunk p; (s', l', e) = live_reports v q xs l s in live_chunks v q cs p' l' s')"

definition live_run :: "scan_env \<Rightarrow> live_params \<Rightarrow> (string \<times> string) list \<Rightarrow> unit scan" where
  "live_run v q chunks s =
     (let (s1, p, l) = live_chunks v q chunks new_parser (live_start q) s; (p', xs) = flush (sv_clamp v) p;
          (s2, l', e) = live_reports v q xs l s1
      in (s2, case e of None \<Rightarrow> Inr () | Some t \<Rightarrow> Inl (SX_Report t)))"

section \<open>Running a plan\<close>

record nmap_run =
  nr_plan :: nmap_plan
  nr_exit_code :: "int option"
  nr_started_at :: string
  nr_finished_at :: string
  nr_document :: "nmap_document option"
  nr_xml_artifact_id :: "string option"
  nr_xml_sha256 :: "string option"

definition nmap_tool_error :: "tool_result \<Rightarrow> job_error" where
  "nmap_tool_error r =
     (let ecode = (case tr_error r of Some e \<Rightarrow> te_code e | None \<Rightarrow> TE_NON_ZERO_EXIT)
      in \<lparr>je_code = tool_error_value ecode,
          je_category = (case ecode of TE_MISSING_BINARY \<Rightarrow> EC_TOOL_MISSING | TE_PERMISSION_DENIED \<Rightarrow> EC_PERMISSION | TE_TIMEOUT \<Rightarrow> EC_TIMEOUT
            | TE_CANCELLED \<Rightarrow> EC_CANCELLED | _ \<Rightarrow> EC_INTERNAL),
          je_message = (case tr_error r of Some e \<Rightarrow> te_message e | None \<Rightarrow> ''Nmap scan failed''), je_component = ''nmap_provider'',
          je_retryable = (case tr_error r of Some e \<Rightarrow> te_retryable e | None \<Rightarrow> False),
          je_details = [(''exit_code'', json_opt_int (tr_exit_code r))]\<rparr>)"

definition parse_job_error :: "nmap_code \<Rightarrow> string \<Rightarrow> job_error" where
  "parse_job_error c m = \<lparr>je_code = nmap_code_value c, je_category = EC_PARSE, je_message = m, je_component = ''nmap_parser'',
     je_retryable = False, je_details = []\<rparr>"

definition nmap_command :: "string \<Rightarrow> nmap_plan \<Rightarrow> int \<Rightarrow> tool_command" where
  "nmap_command binary plan timeout = \<lparr>tc_tool = binary, tc_args = pl_args plan, tc_timeout = timeout, tc_environment = [(''LC_ALL'', ''C'')]\<rparr>"

text \<open>The process: it reads its target file and may leave an XML file.\<close>

definition exec_nmap :: "scan_env \<Rightarrow> string \<Rightarrow> nmap_plan \<Rightarrow> int \<Rightarrow> nmap_outcome scan" where
  "exec_nmap v binary plan timeout =
     sbind (read_file (pl_target_file plan)) (\<lambda>content. let c = nmap_command binary plan timeout
       in sbind (emit (SE_Nmap c (pl_target_file plan) content)) (\<lambda>_. sbind (draw (\<lambda>n. sv_exec v n c content)) (\<lambda>out.
          sbind (case no_xml out of None \<Rightarrow> sreturn () | Some (Inl t) \<Rightarrow> put_file (pl_xml_path plan) [] | Some (Inr t) \<Rightarrow> put_file (pl_xml_path plan) t)
            (\<lambda>_. sreturn out))))"

definition xml_request :: "string \<Rightarrow> string \<Rightarrow> put_request" where
  "xml_request audit job = \<lparr>pr_audit_id = audit, pr_job_id = Some job, pr_type = ''nmap_xml'', pr_content_type = ''application/xml'',
     pr_extension = ''.xml'', pr_retention = RC_AUDIT, pr_schema_name = None, pr_schema_version = None\<rparr>"

definition json_request :: "string \<Rightarrow> string \<Rightarrow> string \<Rightarrow> string \<Rightarrow> put_request" where
  "json_request audit job kind schema = \<lparr>pr_audit_id = audit, pr_job_id = Some job, pr_type = kind, pr_content_type = ''application/json'',
     pr_extension = ''.json'', pr_retention = RC_AUDIT, pr_schema_name = Some schema, pr_schema_version = Some 1\<rparr>"

definition persist_route_trace_if_needed :: "scan_env \<Rightarrow> string \<Rightarrow> string \<Rightarrow> nmap_plan \<Rightarrow> nmap_document \<Rightarrow> unit scan" where
  "persist_route_trace_if_needed v audit job plan d =
     (if pl_scan_kind plan \<noteq> ''host_discovery'' \<or> pl_route_trace_routes plan = [] then sreturn ()
      else let targets = representative_routed_targets (live_targets d) (pl_route_trace_routes plan)
           in if targets = [] then sreturn ()
              else sbind (draw (sv_trace v)) (\<lambda>tv. case trace_many tv targets (tr_interface (hd (pl_route_trace_routes plan))) of
                  None \<Rightarrow> sraise SX_ValueError
                | Some (document, commands) \<Rightarrow> sbind (emit (SE_Trace commands)) (\<lambda>_.
                    sbind (ev_call v (\<lambda>pf dr. put_json (sv_ev v) pf dr (json_request audit job ''route_trace_result'' ''route-trace-result'') document))
                      (\<lambda>_. sreturn ()))))"

definition finish_run :: "scan_env \<Rightarrow> string \<Rightarrow> string \<Rightarrow> nmap_plan \<Rightarrow> nmap_outcome \<Rightarrow> nmap_run scan" where
  "finish_run v audit job plan out =
     (let done = (\<lambda>d a h. \<lparr>nr_plan = plan, nr_exit_code = tr_exit_code (no_result out), nr_started_at = no_started_at out,
            nr_finished_at = no_finished_at out, nr_document = d, nr_xml_artifact_id = a, nr_xml_sha256 = h\<rparr>)
      in case no_xml out of None \<Rightarrow> sreturn (done None None None)
       | Some source \<Rightarrow> (case parse_nmap_xml (sv_fromstring v) source of
           Inl (NmapParseError c m) \<Rightarrow> sbind (unlink v (pl_xml_path plan)) (\<lambda>_. sraise (SX_JobExecutionError (parse_job_error c m)))
         | Inl Timestamp_out_of_range \<Rightarrow> sraise SX_ValueError
         | Inr d \<Rightarrow>
             sbind (ev_call v (\<lambda>pf dr. import_file (sv_ev v) pf dr (xml_request audit job) (segments (pl_xml_path plan)))) (\<lambda>a.
             sbind (persist_route_trace_if_needed v audit job plan d) (\<lambda>_. sbind (unlink v (pl_xml_path plan)) (\<lambda>_.
               sreturn (done (Some d) (Some (af_id a)) (Some (af_sha256 a))))))))"

definition run_plan :: "scan_env \<Rightarrow> string \<Rightarrow> string \<Rightarrow> string \<Rightarrow> live_params \<Rightarrow> nmap_plan \<Rightarrow> int \<Rightarrow> nmap_run scan" where
  "run_plan v binary audit job q plan timeout =
     (if pl_args plan = []
      then sreturn \<lparr>nr_plan = plan, nr_exit_code = Some 0, nr_started_at = [], nr_finished_at = [], nr_document = None,
             nr_xml_artifact_id = None, nr_xml_sha256 = None\<rparr>
      else sbind (os_step v) (\<lambda>_. sbind (exec_nmap v binary plan timeout) (\<lambda>out. sbind (live_run v q (no_stream out)) (\<lambda>_.
        if tr_cancelled (no_result out)
        then sbind (unlink v (pl_xml_path plan)) (\<lambda>_. sraise (SX_JobCancelled ''Active discovery was cancelled''))
        else if \<not> tr_success (no_result out)
        then sbind (unlink v (pl_xml_path plan)) (\<lambda>_. sraise (SX_JobExecutionError (nmap_tool_error (no_result out))))
        else finish_run v audit job plan out))))"

end
