(* ===== verification/Active_Discovery.thy ===== *)
theory Active_Discovery
  imports Nmap_Provider Inventory_Queries
begin

text \<open>
  The handler of active discovery jobs (\<^verbatim>\<open>jobs/handlers/active.py\<close>): the authorization of the scope, host discovery, the TCP and UDP
  scans of the live hosts, and the stored result.
\<close>

section \<open>Context\<close>

record scan_settings =
  sg_scope :: scope_settings
  sg_nmap :: nmap_settings
  sg_profiles :: profile_file
  sg_lax :: lax_values
  sg_interfaces :: interface_settings
  sg_nmap_runtime_dir :: string

record scan_context =
  sx_audit_id :: string
  sx_job_id :: string
  sx_parameters :: json_obj
  sx_settings :: scan_settings

definition runtime_dir :: "scan_context \<Rightarrow> string" where
  "runtime_dir x = sg_nmap_runtime_dir (sx_settings x) @ ''/'' @ sx_job_id x"

definition validation_error :: "string \<Rightarrow> string \<Rightarrow> string \<Rightarrow> json_obj \<Rightarrow> scan_exc" where
  "validation_error ecode message component details = SX_JobExecutionError \<lparr>je_code = ecode, je_category = EC_VALIDATION,
     je_message = message, je_component = component, je_retryable = False, je_details = details\<rparr>"

section \<open>The authorized scope\<close>

definition scope_details :: "scope_error \<Rightarrow> json_obj" where
  "scope_details e = (case se_details e of None \<Rightarrow> []
     | Some d \<Rightarrow> [(''address_count'', JInt (ld_address_count d)),
         (''family_counts'', JObj [(''4'', JInt (fst (ld_family_counts d))), (''6'', JInt (snd (ld_family_counts d)))]),
         (''limits'', JObj [(''ipv4'', JInt (fst (ld_limits d))), (''ipv6'', JInt (snd (ld_limits d)))]),
         (''profile'', JStr (ld_profile d))])"

definition load_profile :: "json_obj \<Rightarrow> scan_exc + active_profile" where
  "load_profile parameters = (case profile_named (case map_of parameters ''profile'' of None \<Rightarrow> ''standard'' | Some v \<Rightarrow> py_str v) of
     None \<Rightarrow> Inl (validation_error ''invalid_profile'' ''Active discovery profile is invalid'' ''scope_validator'' [])
   | Some p \<Rightarrow> Inr p)"

definition load_validated :: "scan_settings \<Rightarrow> json_obj \<Rightarrow> active_profile \<Rightarrow> scan_exc + validated_scope" where
  "load_validated g parameters p = (case jget parameters ''scope'' of
     JList (t # ts) \<Rightarrow> (case validate (sg_scope g) (map py_str (t # ts)) p of
         Inl e \<Rightarrow> Inl (validation_error (scope_code_value (se_code e)) (se_message e) ''scope_validator'' (scope_details e))
       | Inr scope \<Rightarrow> Inr scope)
   | _ \<Rightarrow> Inl (validation_error ''empty_scope'' ''Active discovery requires a confirmed scope'' ''scope_validator'' []))"

definition load_scope ::
  "scan_settings \<Rightarrow> json_obj \<Rightarrow> inv_db \<Rightarrow> scan_exc + active_profile \<times> validated_scope \<times> confirmed_scope" where
  "load_scope g parameters d =
     rbind (load_profile parameters) (\<lambda>p. rbind (load_validated g parameters p) (\<lambda>scope.
       let scope_id = jget parameters ''confirmed_scope_id'';
           interface = (let i = jget parameters ''interface'' in if json_truthy i then py_str i else [])
       in case (if json_truthy scope_id then get_scope (py_str scope_id) d else None) of
            None \<Rightarrow> Inl (validation_error ''scope_not_confirmed'' ''Active discovery requires a confirmed authorized scope'' ''scope_validator'' [])
          | Some confirmed \<Rightarrow>
              if cs_targets confirmed \<noteq> vs_canonical_targets scope \<or> cs_profile confirmed \<noteq> p \<or> cs_interface confirmed \<noteq> interface
              then Inl (validation_error ''scope_snapshot_mismatch'' ''Job parameters do not match the confirmed scope snapshot'' ''scope_validator'' [])
              else Inr (p, scope, confirmed)))"

section \<open>Metadata\<close>

definition arg_value :: "string list \<Rightarrow> string \<Rightarrow> string option" where
  "arg_value args flag = (case dropWhile (\<lambda>a. a \<noteq> flag) args of _ # x # _ \<Rightarrow> Some x | _ \<Rightarrow> None)"

definition str_list :: "string list \<Rightarrow> json" where
  "str_list xs = JList (map JStr xs)"

definition run_metadata :: "nmap_run \<Rightarrow> nmap_capabilities \<Rightarrow> json" where
  "run_metadata r c = (let p = nr_plan r in JObj
     [(''tool'', JStr (nc_binary c)), (''tool_version'', opt_str_json (nc_version c)), (''scan_kind'', JStr (pl_scan_kind p)),
      (''scan_method'', JStr (pl_tcp_method p)), (''host_discovery_method'', JStr (pl_host_discovery_method p)),
      (''profile_timing'', JStr (pl_timing p)), (''interface'', opt_str_json (arg_value (pl_args p) ''-e'')),
      (''started_at'', JStr (nr_started_at r)), (''finished_at'', JStr (nr_finished_at r)), (''exit_code'', json_opt_int (nr_exit_code r)),
      (''artifact_id'', opt_str_json (nr_xml_artifact_id r)), (''sha256'', opt_str_json (nr_xml_sha256 r)),
      (''tcp_ports'', opt_str_json (pl_tcp_ports p)), (''udp_ports'', opt_str_json (pl_udp_ports p)),
      (''service_detection'', JBool (pl_service_detection p)), (''os_detection'', JBool (pl_os_detection p)),
      (''fallbacks'', str_list (pl_fallbacks p)),
      (''command_metadata'', JObj [(''arg_count'', JInt (int (length (pl_args p)))), (''skip_host_discovery'', JBool (pl_skip_host_discovery p)),
         (''privileged'', JBool (pl_privileged p))])])"

section \<open>One scan\<close>

text \<open>What the phases share: the context, the validated scope, its routes, the profile and the capabilities.\<close>

record scan_job =
  sj_context :: scan_context
  sj_scope :: validated_scope
  sj_resolved :: resolved_scope
  sj_profile :: active_scan_profile
  sj_capabilities :: nmap_capabilities

definition execute_plan :: "scan_env \<Rightarrow> scan_job \<Rightarrow> live_params \<Rightarrow> nmap_plan \<Rightarrow> nmap_run scan" where
  "execute_plan v j q plan = sbind (ensure_not_cancelled v) (\<lambda>_.
     run_plan v (nc_binary (sj_capabilities j)) (sx_audit_id (sj_context j)) (sx_job_id (sj_context j)) q plan
       (ap_timeout_seconds (sj_profile j)))"

text \<open>A document is ingested under the scan's artifact; the number of hosts is only used after host discovery.\<close>

definition ingest_run :: "scan_env \<Rightarrow> scan_job \<Rightarrow> bool \<Rightarrow> nmap_run \<Rightarrow> nat scan" where
  "ingest_run v j persist r = (case nr_document r of None \<Rightarrow> sreturn 0
     | Some d \<Rightarrow> inv_call (ingest_nmap_document (sv_inv v) (sx_audit_id (sj_context j)) (Some (sx_job_id (sj_context j))) ''nmap''
         (nr_xml_artifact_id r) persist (nd_hosts d)))"

text \<open>Write the target file of a scan, build its plan, run it and ingest its document.\<close>

definition scan_targets ::
  "scan_env \<Rightarrow> scan_job \<Rightarrow> string list \<Rightarrow> live_params \<Rightarrow> bool \<Rightarrow> (string \<Rightarrow> nmap_plan) \<Rightarrow> (nmap_run \<times> nat) scan" where
  "scan_targets v j targets q persist build =
     sbind (write_target_file v targets (runtime_dir (sj_context j))) (\<lambda>target. sbind (execute_plan v j q (build target)) (\<lambda>r.
       sbind (ingest_run v j persist r) (\<lambda>n. sreturn (r, n))))"

definition xml_of :: "scan_job \<Rightarrow> string \<Rightarrow> string" where
  "xml_of j name = runtime_dir (sj_context j) @ ''/'' @ name"

definition live_of :: "string \<Rightarrow> int \<Rightarrow> int \<Rightarrow> int \<Rightarrow> string option \<Rightarrow> live_params" where
  "live_of stage low high hosts label = \<lparr>lq_stage = stage, lq_start = low, lq_end = high, lq_total_hosts = hosts, lq_port_label = label\<rparr>"

section \<open>The phases\<close>

definition host_phase :: "scan_env \<Rightarrow> scan_job \<Rightarrow> nmap_run scan" where
  "host_phase v j =
     sbind (ensure_not_cancelled v) (\<lambda>_. sbind (progress v 15 ''discovering_hosts'' ''Discovering hosts'') (\<lambda>_.
     sbind (scan_targets v j (vs_canonical_targets (sj_scope j))
       (live_of ''discovering_hosts'' 15 29 (vs_address_count (sj_scope j)) None) (vs_address_count (sj_scope j) = 1)
       (build_host_discovery (sj_capabilities j) (sj_scope j) (sj_resolved j) (sj_profile j) (xml_of j ''host-discovery.xml''))) (\<lambda>(r, n).
     sbind (progress v 30 ''hosts_discovered'' (dec n @ '' hosts discovered'')) (\<lambda>_. sreturn r))))"

text \<open>The plans the result document names, the open ports, the runs in order and the fallbacks.\<close>

record phase_result =
  ph_tcp :: "nmap_plan option"
  ph_fingerprint :: "nmap_plan option"
  ph_open :: "int list"
  ph_runs :: "json list"
  ph_fallbacks :: "string list"

text \<open>What follows the sweep: the open ports, and the fingerprint scan of the hosts that have some.\<close>

definition after_sweep :: "scan_env \<Rightarrow> scan_job \<Rightarrow> nmap_run \<Rightarrow> phase_result scan" where
  "after_sweep v j sweep =
     (let c = sj_capabilities j; ports = open_tcp_ports (nr_document sweep); hosts = targets_with_open_tcp (nr_document sweep);
          swept = \<lparr>ph_tcp = Some (nr_plan sweep), ph_fingerprint = None, ph_open = ports, ph_runs = [run_metadata sweep c],
            ph_fallbacks = pl_fallbacks (nr_plan sweep)\<rparr>
      in sbind (progress v 61 ''tcp_ports_discovered'' (dec (length ports) @ '' unique open TCP ports discovered'')) (\<lambda>_.
         if ports = [] \<or> hosts = []
         then sbind (progress v 79 ''fingerprinting_services'' ''No open TCP ports require fingerprinting'') (\<lambda>_. sreturn swept)
         else sbind (ensure_not_cancelled v) (\<lambda>_.
           sbind (progress v 62 ''fingerprinting_services'' (''Fingerprinting '' @ dec (length ports) @ '' open TCP ports'')) (\<lambda>_.
           sbind (scan_targets v j hosts (live_of ''fingerprinting_services'' 62 79 (int (length hosts)) (Some ''open TCP'')) False
             (\<lambda>t. the (build_tcp_fingerprint c (sj_scope j) (sj_resolved j) (sj_profile j) ports (xml_of j ''tcp-fingerprint.xml'') t))) (\<lambda>(f, m).
           sreturn (swept\<lparr>ph_fingerprint := Some (nr_plan f), ph_runs := ph_runs swept @ [run_metadata f c],
             ph_fallbacks := ph_fallbacks swept @ pl_fallbacks (nr_plan f)\<rparr>))))))"

definition run_deep_tcp :: "scan_env \<Rightarrow> scan_job \<Rightarrow> string list \<Rightarrow> phase_result scan" where
  "run_deep_tcp v j targets =
     sbind (progress v 35 ''scanning_tcp'' ''Deep TCP full-range sweep'') (\<lambda>_.
     sbind (scan_targets v j targets (live_of ''scanning_tcp'' 35 60 (int (length targets)) (Some ''open TCP'')) False
       (build_tcp_sweep (sj_capabilities j) (sj_scope j) (sj_resolved j) (sj_profile j) (xml_of j ''tcp-sweep.xml''))) (\<lambda>(sweep, n).
     after_sweep v j sweep))"

definition tcp_phase :: "scan_env \<Rightarrow> scan_job \<Rightarrow> string list \<Rightarrow> phase_result scan" where
  "tcp_phase v j targets =
     (let c = sj_capabilities j; none = \<lparr>ph_tcp = None, ph_fingerprint = None, ph_open = [], ph_runs = [], ph_fallbacks = []\<rparr>
      in if \<not> ap_run_tcp_scan (sj_profile j) \<or> targets = [] then sreturn none
         else sbind (ensure_not_cancelled v) (\<lambda>_.
           if ap_name (sj_profile j) = DEEP then run_deep_tcp v j targets
           else sbind (progress v 35 ''scanning_tcp'' ''Scanning TCP services'') (\<lambda>_.
             sbind (scan_targets v j targets (live_of ''scanning_tcp'' 35 69 (int (length targets)) (Some ''open TCP'')) False
               (build_tcp_scan c (sj_scope j) (sj_resolved j) (sj_profile j) (xml_of j ''tcp-scan.xml''))) (\<lambda>(r, n).
             sbind (progress v 70 ''fingerprinting_services'' ''Fingerprinting services'') (\<lambda>_.
             sreturn (none\<lparr>ph_tcp := Some (nr_plan r), ph_runs := [run_metadata r c], ph_fallbacks := pl_fallbacks (nr_plan r)\<rparr>))))))"

text \<open>The UDP scan: the target file is written before the plan is known to have arguments.\<close>

definition udp_phase :: "scan_env \<Rightarrow> scan_job \<Rightarrow> string list \<Rightarrow> (nmap_plan option \<times> json list \<times> string list) scan" where
  "udp_phase v j targets =
     (let c = sj_capabilities j
      in if \<not> ap_run_udp_scan (sj_profile j) \<or> targets = [] then sreturn (None, [], [])
         else sbind (ensure_not_cancelled v) (\<lambda>_. sbind (progress v 82 ''udp_discovery'' ''Selected UDP discovery'') (\<lambda>_.
           sbind (write_target_file v targets (runtime_dir (sj_context j))) (\<lambda>target.
           case build_udp_scan c (sj_scope j) (sj_resolved j) (sj_profile j) (xml_of j ''udp-scan.xml'') target of
             None \<Rightarrow> sreturn (None, [], [])
           | Some p \<Rightarrow> if pl_args p \<noteq> []
               then sbind (execute_plan v j (live_of ''udp_discovery'' 82 89 (int (length targets)) (Some ''open UDP'')) p) (\<lambda>r.
                 sbind (ingest_run v j False r) (\<lambda>n. sreturn (Some p, [run_metadata r c], pl_fallbacks (nr_plan r))))
               else sreturn (Some p, [JObj [(''scan_kind'', JStr (pl_scan_kind p)), (''fallbacks'', str_list (pl_fallbacks p)),
                      (''udp_ports'', opt_str_json (pl_udp_ports p))]], pl_fallbacks p)))))"

section \<open>The result\<close>

definition plan_text :: "(nmap_plan \<Rightarrow> string option) \<Rightarrow> nmap_plan option \<Rightarrow> json" where
  "plan_text f p = (case p of None \<Rightarrow> JNull | Some q \<Rightarrow> opt_str_json (f q))"

definition scan_methods :: "scan_job \<Rightarrow> nmap_run \<Rightarrow> phase_result \<Rightarrow> nmap_plan option \<Rightarrow> string list \<Rightarrow> json_obj" where
  "scan_methods j host tcp udp fallbacks = (let p = sj_profile j in
     [(''tcp_scan_method'', JStr (case ph_tcp tcp of Some q \<Rightarrow> pl_tcp_method q | None \<Rightarrow> ''none'')),
      (''host_discovery_method'', JStr (pl_host_discovery_method (nr_plan host))),
      (''tcp_ports_requested'', plan_text pl_tcp_ports (ph_tcp tcp)),
      (''tcp_strategy'', JStr (if ap_name p = DEEP \<and> ph_tcp tcp \<noteq> None then ''full-sweep-then-fingerprint'' else ''single-pass'')),
      (''tcp_open_ports_discovered'', JInt (int (length (ph_open tcp)))),
      (''tcp_fingerprint_ports'', plan_text pl_tcp_ports (ph_fingerprint tcp)),
      (''effective_tcp_timing'', plan_text (\<lambda>q. Some (pl_timing q)) (ph_tcp tcp)),
      (''udp_ports_requested'', plan_text pl_udp_ports udp), (''service_detection'', JBool (ap_service_detection p)),
      (''version_intensity'', json_opt_int (ap_version_intensity p)),
      (''os_detection_enabled'', JBool (case ph_tcp tcp of None \<Rightarrow> False
         | Some q \<Rightarrow> (case ph_fingerprint tcp of Some f \<Rightarrow> pl_os_detection f | None \<Rightarrow> pl_os_detection q))),
      (''timing_profile'', JStr (ap_timing p)), (''fallbacks'', str_list (sort (remdups fallbacks))),
      (''privileged'', JBool (nc_privileged (sj_capabilities j))),
      (''directly_connected'', JBool (list_ex tr_directly_connected (rs_routes (sj_resolved j))))])"

definition summary_json :: "inventory_summary \<Rightarrow> json_obj" where
  "summary_json s = [(''assets'', JInt (int (is_assets s))), (''services'', JInt (int (is_services s))),
     (''tcp_services'', JInt (int (is_tcp_services s))), (''udp_services'', JInt (int (is_udp_services s))),
     (''ipv4_addresses'', JInt (int (is_ipv4_addresses s))), (''ipv6_addresses'', JInt (int (is_ipv6_addresses s))),
     (''device_classes'', JObj (map (\<lambda>(k, n). (k, JInt (int n))) (is_device_classes s)))]"

definition result_document ::
  "scan_job \<Rightarrow> confirmed_scope \<Rightarrow> json_obj \<Rightarrow> json list \<Rightarrow> inventory_summary \<Rightarrow> json_obj" where
  "result_document j confirmed methods runs sm =
     [(''schema'', JStr ''active-discovery-result''), (''schema_version'', JInt 1), (''audit_id'', JStr (sx_audit_id (sj_context j))),
      (''job_id'', JStr (sx_job_id (sj_context j))), (''confirmed_scope_id'', JStr (cs_id confirmed)),
      (''profile'', JStr (profile_value (ap_name (sj_profile j)))), (''interface'', JStr (cs_interface confirmed)),
      (''scope'', str_list (vs_canonical_targets (sj_scope j))), (''scan_methods'', JObj methods),
      (''nmap_version'', opt_str_json (nc_version (sj_capabilities j))), (''runs'', JList runs), (''summary'', JObj (summary_json sm))]"

definition finish_phase ::
  "scan_env \<Rightarrow> scan_job \<Rightarrow> confirmed_scope \<Rightarrow> nmap_run \<Rightarrow> phase_result \<Rightarrow> nmap_plan option \<times> json list \<times> string list
     \<Rightarrow> (string \<times> json_obj) scan" where
  "finish_phase v j confirmed host tcp udp =
     (let audit = sx_audit_id (sj_context j); job = sx_job_id (sj_context j);
          methods = scan_methods j host tcp (fst udp) (pl_fallbacks (nr_plan host) @ ph_fallbacks tcp @ snd (snd udp));
          runs = run_metadata host (sj_capabilities j) # ph_runs tcp @ fst (snd udp)
      in sbind (ensure_not_cancelled v) (\<lambda>_. sbind (progress v 90 ''correlating_observations'' ''Correlating observations'') (\<lambda>_.
         sbind (draw (sv_passive v)) (\<lambda>passive. sbind (inv_call (ingest_passive_from_audit (sv_inv v) audit (Some job) passive)) (\<lambda>_.
         sbind (inv_call (\<lambda>d. rbind (refresh_classifications audit d) (\<lambda>d'. Inr (d', ())))) (\<lambda>_.
         sbind (progress v 96 ''persisting_inventory'' ''Persisting inventory'') (\<lambda>_.
         sbind (draw (sv_passive v)) (\<lambda>passive'. sbind (inv_call (summary (sv_inv v) passive' audit)) (\<lambda>sm.
         sbind (ev_call v (\<lambda>pf dr. put_json (sv_ev v) pf dr (json_request audit job ''active_discovery_result'' ''active-discovery-result'')
             (result_document j confirmed methods runs sm))) (\<lambda>a.
         sreturn (af_id a, [(''schema'', JStr ''active-discovery-summary''), (''schema_version'', JInt 1), (''result_reference'', JStr (af_id a)),
           (''interface'', JStr (cs_interface confirmed)), (''profile'', JStr (profile_value (ap_name (sj_profile j)))),
           (''scan_methods'', JObj methods)] @ summary_json sm)))))))))))"

section \<open>The handler\<close>

text \<open>Only the route resolver's own error becomes a validation error of the job.\<close>

definition resolve_route :: "scan_env \<Rightarrow> scan_settings \<Rightarrow> string \<Rightarrow> validated_scope \<Rightarrow> resolved_scope scan" where
  "resolve_route v g interface scope = slift (\<lambda>e. case e of NX_Route c m d \<Rightarrow> validation_error c m ''route_resolver'' d | _ \<Rightarrow> SX_Network e)
     (resolve_scope (sv_net v) (sg_interfaces g) interface scope)"

definition scan_phases :: "scan_env \<Rightarrow> scan_job \<Rightarrow> confirmed_scope \<Rightarrow> (string \<times> json_obj) scan" where
  "scan_phases v j confirmed =
     sbind (host_phase v j) (\<lambda>host. let targets = (case nr_document host of None \<Rightarrow> [] | Some d \<Rightarrow> live_targets d)
       in sbind (tcp_phase v j targets) (\<lambda>tcp. sbind (udp_phase v j targets) (\<lambda>udp. finish_phase v j confirmed host tcp udp)))"

definition run_discovery :: "scan_env \<Rightarrow> scan_context \<Rightarrow> (string \<times> json_obj) scan" where
  "run_discovery v x =
     (let g = sx_settings x
      in sbind (ensure_not_cancelled v) (\<lambda>_. sbind (progress v 5 ''validating_scope'' ''Validating scope'') (\<lambda>_.
         sbind (\<lambda>s. slift id (load_scope g (sx_parameters x) (ss_inv s)) s) (\<lambda>(p, scope, confirmed).
         sbind (slift SX_Profile (profile_for (sg_lax g) (sg_profiles g) (sg_nmap g) p)) (\<lambda>profile.
         sbind (progress v 10 ''resolving_route'' (''Resolving route via '' @ cs_interface confirmed)) (\<lambda>_.
         sbind (resolve_route v g (cs_interface confirmed) scope) (\<lambda>resolved.
         sbind (inv_call (activate_scope (sv_inv v) (cs_id confirmed))) (\<lambda>_.
         scan_phases v \<lparr>sj_context = x, sj_scope = scope, sj_resolved = resolved, sj_profile = profile,
           sj_capabilities = sv_capabilities v\<rparr> confirmed))))))))"

text \<open>The runtime directory is removed whatever happened; its removal ignores errors.\<close>

definition remove_runtime_dir :: "string \<Rightarrow> scan_state \<Rightarrow> scan_state" where
  "remove_runtime_dir d s = s\<lparr>ss_ev := (ss_ev s)\<lparr>ev_files := filter (\<lambda>e. \<not> is_relative_to (fst e) (segments d)) (ev_files (ss_ev s))\<rparr>\<rparr>"

definition execute :: "scan_env \<Rightarrow> scan_context \<Rightarrow> (string \<times> json_obj) scan" where
  "execute v x = sbind (os_step v) (\<lambda>_ s. case run_discovery v x s of (s', r) \<Rightarrow> (remove_runtime_dir (runtime_dir x) s', r))"

end
