(* ===== verification/Active_Facts.thy ===== *)
theory Active_Facts
  imports Active_Discovery
begin

text \<open>
  A logic for the scanning code: what an operation adds to the log, and what its result and the state satisfy when it returns. The
  locale takes the condition on logged events; only scans can violate it.
\<close>

section \<open>Triples\<close>

locale scan_log =
  fixes good :: "scan_event \<Rightarrow> bool"
  assumes quiet: "good (SE_Progress percentage stage message)" "good (SE_Live percentage stage parts)" "good (SE_Targets name targets)"
    "good (SE_Trace commands)"
begin

definition logged :: "scan_state \<Rightarrow> bool" where
  "logged s \<longleftrightarrow> (\<forall>e \<in> set (ss_log s). good e)"

definition triple :: "(scan_state \<Rightarrow> bool) \<Rightarrow> 'a scan \<Rightarrow> ('a \<Rightarrow> scan_state \<Rightarrow> bool) \<Rightarrow> bool" where
  "triple P m Q \<longleftrightarrow> (\<forall>s s' r. P s \<longrightarrow> logged s \<longrightarrow> m s = (s', r) \<longrightarrow> logged s' \<and> (\<forall>x. r = Inr x \<longrightarrow> Q x s'))"

lemma tripleI: "(\<And>s s' r. P s \<Longrightarrow> logged s \<Longrightarrow> m s = (s', r) \<Longrightarrow> logged s' \<and> (\<forall>x. r = Inr x \<longrightarrow> Q x s')) \<Longrightarrow> triple P m Q"
  by (simp add: triple_def)

lemma tripleD: "triple P m Q \<Longrightarrow> P s \<Longrightarrow> logged s \<Longrightarrow> m s = (s', r) \<Longrightarrow> logged s' \<and> (\<forall>x. r = Inr x \<longrightarrow> Q x s')"
  by (simp add: triple_def)

lemma triple_bind:
  assumes m: "triple P m Q" and f: "\<And>x. triple (Q x) (f x) R"
  shows "triple P (sbind m f) R"
proof (rule tripleI)
  fix s s' r
  assume s: "P s" "logged s" "sbind m f s = (s', r)"
  obtain s1 r1 where m1: "m s = (s1, r1)" by force
  note q = tripleD [OF m s(1,2) m1]
  show "logged s' \<and> (\<forall>x. r = Inr x \<longrightarrow> R x s')"
  proof (cases r1)
    case (Inl e)
    then show ?thesis using s(3) m1 q by (auto simp: sbind_def)
  next
    case (Inr x)
    then have "Q x s1" "logged s1" "f x s1 = (s', r)" using s(3) m1 q by (auto simp: sbind_def)
    then show ?thesis using tripleD [OF f] by blast
  qed
qed

lemma triple_pure: "(A \<Longrightarrow> triple P m Q) \<Longrightarrow> triple (\<lambda>s. P s \<and> A) m Q"
  by (auto simp: triple_def)

lemma triple_conseq: "triple P m Q \<Longrightarrow> (\<And>s. P' s \<Longrightarrow> P s) \<Longrightarrow> (\<And>x s. Q x s \<Longrightarrow> Q' x s) \<Longrightarrow> triple P' m Q'"
  unfolding triple_def by blast

lemma triple_return: "(\<And>s. P s \<Longrightarrow> Q x s) \<Longrightarrow> triple P (sreturn x) Q"
  by (auto simp: triple_def sreturn_def)

lemma triple_raise: "triple P (sraise e) Q"
  by (auto simp: triple_def sraise_def)

lemma triple_lift: "(\<And>s x. P s \<Longrightarrow> r = Inr x \<Longrightarrow> Q x s) \<Longrightarrow> triple P (slift wrap r) Q"
  by (auto simp: triple_def slift_def split: sum.splits)

text \<open>A condition that does not look at the counter and the log survives draws and quiet events.\<close>

definition stable :: "(scan_state \<Rightarrow> bool) \<Rightarrow> bool" where
  "stable P \<longleftrightarrow> (\<forall>s n l. P (s\<lparr>ss_n := n, ss_log := l\<rparr>) = P s)"

lemma stable_n: "stable P \<Longrightarrow> P (s\<lparr>ss_n := n\<rparr>) = P s" and stable_log: "stable P \<Longrightarrow> P (s\<lparr>ss_log := l\<rparr>) = P s"
  unfolding stable_def by (metis scan_state.surjective scan_state.update_convs(3,4))+

lemma stable_True [simp]: "stable (\<lambda>s. True)"
  by (simp add: stable_def)

lemma triple_draw: "stable P \<Longrightarrow> (\<And>n. Q (f n)) \<Longrightarrow> triple P (draw f) (\<lambda>x s. P s \<and> Q x)"
  by (auto simp: triple_def draw_def logged_def stable_n)

lemma triple_emit: "stable P \<Longrightarrow> good e \<Longrightarrow> triple P (emit e) (\<lambda>x. P)"
  by (auto simp: triple_def emit_def logged_def stable_log)

lemma triple_draw': "stable P \<Longrightarrow> triple P (draw f) (\<lambda>x. P)"
  using triple_draw [of P "\<lambda>x. True" f] by simp

lemma triple_os_step: "stable P \<Longrightarrow> triple P (os_step v) (\<lambda>x. P)"
  unfolding os_step_def by (rule triple_bind [OF triple_draw']) (auto intro: triple_return triple_raise split: option.split)

lemma triple_ensure: "stable P \<Longrightarrow> triple P (ensure_not_cancelled v) (\<lambda>x. P)"
  unfolding ensure_not_cancelled_def by (rule triple_bind [OF triple_draw']) (auto intro: triple_return triple_raise)

lemma triple_progress: "stable P \<Longrightarrow> triple P (progress v n stage message) (\<lambda>x. P)"
  unfolding progress_def
  by (intro triple_bind [OF triple_emit] triple_bind [OF triple_draw']) (auto intro: triple_return triple_raise quiet split: option.split)

lemma triple_quiet: "(\<And>s. ss_log (fst (m s)) = ss_log s) \<Longrightarrow> triple P m (\<lambda>x s. True)"
  unfolding triple_def logged_def by (metis fst_conv)

lemma triple_ev_call: "triple P (ev_call v f) (\<lambda>x s. True)"
  by (rule triple_quiet) (auto simp: ev_call_def sbind_def draw_def split: prod.split)

lemma triple_inv_call: "triple P (inv_call f) (\<lambda>x s. True)"
  by (rule triple_quiet) (auto simp: inv_call_def split: sum.split)

lemma triple_remove_file: "triple P (remove_file p) (\<lambda>x s. True)"
  by (rule triple_quiet) (simp add: remove_file_def)

lemma triple_unlink: "triple P (unlink v p) (\<lambda>x s. True)"
  unfolding unlink_def
  by (rule triple_conseq [where P = "\<lambda>s. True" and Q = "\<lambda>x s. True"]) (auto intro!: triple_bind [OF triple_os_step] triple_remove_file)

text \<open>What a file holds.\<close>

definition file_holds :: "string \<Rightarrow> string \<Rightarrow> scan_state \<Rightarrow> bool" where
  "file_holds p t s \<longleftrightarrow> map_option fl_data (fs_get (ev_files (ss_ev s)) (segments p)) = Some t"

lemma stable_file_holds [simp]: "stable (file_holds p t)"
  by (simp add: stable_def file_holds_def)

lemma triple_put_file: "triple P (put_file p t) (\<lambda>x. file_holds p t)"
  by (auto simp: triple_def put_file_def logged_def file_holds_def fs_get_def fs_put_def)

lemma triple_read_file: "triple (file_holds p t) (read_file p) (\<lambda>x s. x = Some t)"
  by (auto simp: triple_def read_file_def file_holds_def)

lemma triple_write_target_file:
  "triple P (write_target_file v targets d) (\<lambda>p. file_holds p (target_payload targets))"
proof (rule triple_conseq [where P = "\<lambda>s. True"])
  show "triple (\<lambda>s. True) (write_target_file v targets d) (\<lambda>p. file_holds p (target_payload targets))"
    unfolding write_target_file_def Let_def
    by (intro triple_bind [OF triple_draw'] triple_bind [OF triple_os_step] triple_bind [OF triple_emit] triple_bind [OF triple_put_file])
      (auto intro: triple_return quiet)
qed auto

section \<open>Live progress\<close>

lemma live_report_logged: "logged s \<Longrightarrow> live_report v q x l s = (s', r) \<Longrightarrow> logged s'"
  by (auto simp: live_report_def logged_def Let_def quiet split: if_splits)

lemma live_reports_logged: "logged s \<Longrightarrow> live_reports v q xs l s = (s', r) \<Longrightarrow> logged s'"
proof (induction v q xs l s rule: live_reports.induct)
  case (2 v q x xs l s)
  obtain s1 l1 e where r: "live_report v q x l s = (s1, l1, e)" by (metis prod_cases3)
  then show ?case using 2 live_report_logged [OF "2.prems"(1) r] by (cases e) auto
qed simp

lemma live_chunks_logged: "logged s \<Longrightarrow> live_chunks v q cs p l s = (s', r) \<Longrightarrow> logged s'"
proof (induction v q cs p l s rule: live_chunks.induct)
  case (2 v q stream chunk cs p l s)
  obtain p1 xs where f: "feed (sv_clamp v) stream chunk p = (p1, xs)" by force
  obtain s1 l1 e where r: "live_reports v q xs l s = (s1, l1, e)" by (metis prod_cases3)
  show ?case using 2 f r live_reports_logged [OF "2.prems"(1) r] by auto
qed simp

lemma triple_live_run: "triple P (live_run v q chunks) (\<lambda>x s. True)"
proof -
  have "logged s'" if s: "logged s" "live_run v q chunks s = (s', r)" for s s' r
  proof -
    obtain s1 p l where c: "live_chunks v q chunks new_parser (live_start q) s = (s1, p, l)" by (metis prod_cases3)
    obtain p' xs where f: "flush (sv_clamp v) p = (p', xs)" by force
    obtain s2 l' e where r: "live_reports v q xs l s1 = (s2, l', e)" by (metis prod_cases3)
    have "s' = s2" using s(2) c f r by (simp add: live_run_def)
    then show ?thesis using live_reports_logged [OF live_chunks_logged [OF s(1) c] r] by simp
  qed
  then show ?thesis unfolding triple_def by blast
qed

section \<open>Scans\<close>

lemma triple_exec_nmap:
  assumes "good (SE_Nmap (nmap_command b plan timeout) (pl_target_file plan) (Some t))"
  shows "triple (file_holds (pl_target_file plan) t) (exec_nmap v b plan timeout)
    (\<lambda>out s. \<exists>n. out = sv_exec v n (nmap_command b plan timeout) (Some t))"
proof -
  let ?c = "nmap_command b plan timeout"
  have "triple (\<lambda>s. content = Some t) (let c = ?c in sbind (emit (SE_Nmap c (pl_target_file plan) content)) (\<lambda>_.
      sbind (draw (\<lambda>n. sv_exec v n c content)) (\<lambda>out.
      sbind (case no_xml out of None \<Rightarrow> sreturn () | Some (Inl t) \<Rightarrow> put_file (pl_xml_path plan) [] | Some (Inr t) \<Rightarrow> put_file (pl_xml_path plan) t)
        (\<lambda>_. sreturn out)))) (\<lambda>out s. \<exists>n. out = sv_exec v n ?c (Some t))" for content
  proof (cases "content = Some t")
    case True
    have x: "triple (\<lambda>s. True) (case no_xml out of None \<Rightarrow> sreturn () | Some (Inl t) \<Rightarrow> put_file (pl_xml_path plan) []
        | Some (Inr t) \<Rightarrow> put_file (pl_xml_path plan) t) (\<lambda>x s. True)" for out
      by (auto intro!: triple_quiet simp: sreturn_def put_file_def split: option.split sum.split)
    have d: "triple (\<lambda>s. True) (draw (\<lambda>n. sv_exec v n ?c (Some t))) (\<lambda>out s. True \<and> (\<exists>n. out = sv_exec v n ?c (Some t)))"
      by (rule triple_draw) auto
    have r: "triple (\<lambda>s. True \<and> (\<exists>n. out = sv_exec v n ?c (Some t))) (sbind (case no_xml out of None \<Rightarrow> sreturn ()
        | Some (Inl t) \<Rightarrow> put_file (pl_xml_path plan) [] | Some (Inr t) \<Rightarrow> put_file (pl_xml_path plan) t) (\<lambda>_. sreturn out))
        (\<lambda>out s. \<exists>n. out = sv_exec v n ?c (Some t))" for out
      by (rule triple_pure, rule triple_bind [OF x], rule triple_return)
    have "triple (\<lambda>s. True) (emit (SE_Nmap ?c (pl_target_file plan) (Some t))) (\<lambda>x s. True)" by (rule triple_emit) (simp_all add: assms)
    from triple_bind [OF this triple_bind [OF d r]] show ?thesis unfolding Let_def True by simp
  qed (simp add: triple_def)
  then show ?thesis unfolding exec_nmap_def by (rule triple_bind [OF triple_read_file])
qed

text \<open>A document Nmap reported for a target list.\<close>

definition reported :: "scan_env \<Rightarrow> string list \<Rightarrow> nmap_document \<Rightarrow> bool" where
  "reported v ts d \<longleftrightarrow> (\<exists>n c source. no_xml (sv_exec v n c (Some (target_payload ts))) = Some source
     \<and> parse_nmap_xml (sv_fromstring v) source = Inr d)"

definition run_reports :: "scan_env \<Rightarrow> string list \<Rightarrow> nmap_run \<Rightarrow> bool" where
  "run_reports v ts r \<longleftrightarrow> (\<forall>d. nr_document r = Some d \<longrightarrow> reported v ts d)"

lemma triple_route_trace: "triple P (persist_route_trace_if_needed v audit job plan d) (\<lambda>x s. True)"
proof (rule triple_conseq [where P = "\<lambda>s. True"])
  show "triple (\<lambda>s. True) (persist_route_trace_if_needed v audit job plan d) (\<lambda>x s. True)"
    unfolding persist_route_trace_if_needed_def Let_def
    by (auto intro!: triple_return triple_raise triple_bind [OF triple_draw'] triple_bind [OF triple_emit] triple_bind [OF triple_ev_call] quiet
        split: option.split)
qed auto

lemma triple_finish_run:
  assumes "out = sv_exec v n c (Some (target_payload ts))"
  shows "triple P (finish_run v audit job plan out) (\<lambda>r s. run_reports v ts r)"
proof (cases "no_xml out")
  case None
  then show ?thesis by (auto simp: finish_run_def run_reports_def intro!: triple_return)
next
  case (Some source)
  show ?thesis
  proof (cases "parse_nmap_xml (sv_fromstring v) source")
    case (Inl e)
    then show ?thesis using Some
      by (cases e) (auto simp: finish_run_def intro!: triple_raise triple_bind [OF triple_unlink])
  next
    case (Inr d)
    have "reported v ts d" unfolding reported_def using Some Inr assms by blast
    then show ?thesis using Some Inr unfolding finish_run_def Let_def
      by (auto simp: run_reports_def intro!: triple_bind [OF triple_ev_call] triple_bind [OF triple_route_trace] triple_bind [OF triple_unlink]
          triple_return)
  qed
qed

lemma triple_run_plan:
  assumes "pl_args plan \<noteq> [] \<Longrightarrow> good (SE_Nmap (nmap_command b plan timeout) (pl_target_file plan) (Some (target_payload ts)))"
  shows "triple (file_holds (pl_target_file plan) (target_payload ts)) (run_plan v b audit job q plan timeout) (\<lambda>r s. run_reports v ts r)"
proof (cases "pl_args plan = []")
  case True
  then show ?thesis by (auto simp: run_plan_def run_reports_def intro!: triple_return)
next
  case False
  have rest: "triple (\<lambda>s. \<exists>n. out = sv_exec v n (nmap_command b plan timeout) (Some (target_payload ts)))
      (sbind (live_run v q (no_stream out)) (\<lambda>_. if tr_cancelled (no_result out)
        then sbind (unlink v (pl_xml_path plan)) (\<lambda>_. sraise (SX_JobCancelled ''Active discovery was cancelled''))
        else if \<not> tr_success (no_result out)
        then sbind (unlink v (pl_xml_path plan)) (\<lambda>_. sraise (SX_JobExecutionError (nmap_tool_error (no_result out))))
        else finish_run v audit job plan out)) (\<lambda>r s. run_reports v ts r)" for out
  proof (cases "\<exists>n. out = sv_exec v n (nmap_command b plan timeout) (Some (target_payload ts))")
    case True
    then show ?thesis
      by (auto intro!: triple_bind [OF triple_live_run] triple_bind [OF triple_unlink] triple_raise triple_finish_run)
  qed (simp add: triple_def)
  show ?thesis unfolding run_plan_def using False
    by (auto intro!: triple_bind [OF triple_os_step] triple_bind [OF triple_exec_nmap [OF assms]] rest)
qed

lemma triple_execute_plan:
  assumes "pl_args plan \<noteq> [] \<Longrightarrow> good (SE_Nmap (nmap_command (nc_binary (sj_capabilities j)) plan (ap_timeout_seconds (sj_profile j)))
    (pl_target_file plan) (Some (target_payload ts)))"
  shows "triple (file_holds (pl_target_file plan) (target_payload ts)) (execute_plan v j q plan) (\<lambda>r s. run_reports v ts r)"
  unfolding execute_plan_def by (rule triple_bind [OF triple_ensure]) (auto intro: triple_run_plan [OF assms])

lemma triple_ingest_run: "triple P (ingest_run v j persist r) (\<lambda>x s. True)"
proof (cases "nr_document r")
  case None
  then show ?thesis by (auto simp: ingest_run_def intro!: triple_return)
next
  case (Some d)
  then show ?thesis by (auto simp: ingest_run_def intro!: triple_inv_call)
qed

section \<open>The handler\<close>

lemma triple_load_scope:
  "triple (\<lambda>s. load_scope g ps (ss_inv s) = R) (\<lambda>s. slift id (load_scope g ps (ss_inv s)) s) (\<lambda>x s. R = Inr x)"
  by (auto simp: triple_def slift_def split: sum.splits)

lemma triple_false: "triple (\<lambda>s. False) m Q"
  by (simp add: triple_def)

text \<open>Whatever the handler logs is good when the scans of the scope it loaded are.\<close>

lemma triple_run_discovery:
  assumes scans: "\<And>p scope confirmed profile resolved. R = Inr (p, scope, confirmed) \<Longrightarrow>
      profile_for (sg_lax (sx_settings x)) (sg_profiles (sx_settings x)) (sg_nmap (sx_settings x)) p = Inr profile \<Longrightarrow>
      resolve_scope (sv_net v) (sg_interfaces (sx_settings x)) (cs_interface confirmed) scope = Inr resolved \<Longrightarrow>
      triple (\<lambda>s. True) (scan_phases v \<lparr>sj_context = x, sj_scope = scope, sj_resolved = resolved, sj_profile = profile,
        sj_capabilities = sv_capabilities v\<rparr> confirmed) (\<lambda>x s. True)"
  shows "triple (\<lambda>s. load_scope (sx_settings x) (sx_parameters x) (ss_inv s) = R) (run_discovery v x) (\<lambda>x s. True)"
proof -
  let ?g = "sx_settings x"
  have stable: "stable (\<lambda>s. load_scope ?g (sx_parameters x) (ss_inv s) = R)" by (simp add: stable_def)
  have rest: "triple (\<lambda>s. R = Inr y) (case y of (p, scope, confirmed) \<Rightarrow>
      sbind (slift SX_Profile (profile_for (sg_lax ?g) (sg_profiles ?g) (sg_nmap ?g) p)) (\<lambda>profile.
      sbind (progress v 10 ''resolving_route'' (''Resolving route via '' @ cs_interface confirmed)) (\<lambda>_.
      sbind (resolve_route v ?g (cs_interface confirmed) scope) (\<lambda>resolved.
      sbind (inv_call (activate_scope (sv_inv v) (cs_id confirmed))) (\<lambda>_.
      scan_phases v \<lparr>sj_context = x, sj_scope = scope, sj_resolved = resolved, sj_profile = profile,
        sj_capabilities = sv_capabilities v\<rparr> confirmed))))) (\<lambda>x s. True)" for y
  proof (cases y)
    case (fields p scope confirmed)
    have profile: "triple (\<lambda>s. R = Inr y) (slift SX_Profile (profile_for (sg_lax ?g) (sg_profiles ?g) (sg_nmap ?g) p))
        (\<lambda>profile s. R = Inr y \<and> profile_for (sg_lax ?g) (sg_profiles ?g) (sg_nmap ?g) p = Inr profile)"
      by (rule triple_lift) simp
    have route: "triple (\<lambda>s. A) (resolve_route v ?g (cs_interface confirmed) scope)
        (\<lambda>resolved s. A \<and> resolve_scope (sv_net v) (sg_interfaces ?g) (cs_interface confirmed) scope = Inr resolved)" for A
      unfolding resolve_route_def by (rule triple_lift) simp
    have last: "triple (\<lambda>s. (R = Inr y \<and> profile_for (sg_lax ?g) (sg_profiles ?g) (sg_nmap ?g) p = Inr profile)
          \<and> resolve_scope (sv_net v) (sg_interfaces ?g) (cs_interface confirmed) scope = Inr resolved)
        (sbind (inv_call (activate_scope (sv_inv v) (cs_id confirmed))) (\<lambda>_. scan_phases v \<lparr>sj_context = x, sj_scope = scope,
          sj_resolved = resolved, sj_profile = profile, sj_capabilities = sv_capabilities v\<rparr> confirmed)) (\<lambda>x s. True)" for profile resolved
    proof (cases "(R = Inr y \<and> profile_for (sg_lax ?g) (sg_profiles ?g) (sg_nmap ?g) p = Inr profile)
          \<and> resolve_scope (sv_net v) (sg_interfaces ?g) (cs_interface confirmed) scope = Inr resolved")
      case True
      then show ?thesis using scans [of p scope confirmed profile resolved] fields by (intro triple_bind [OF triple_inv_call]) simp
    qed (auto simp: triple_def)
    have "triple (\<lambda>s. R = Inr y) (sbind (slift SX_Profile (profile_for (sg_lax ?g) (sg_profiles ?g) (sg_nmap ?g) p)) (\<lambda>profile.
        sbind (progress v 10 ''resolving_route'' (''Resolving route via '' @ cs_interface confirmed)) (\<lambda>_.
        sbind (resolve_route v ?g (cs_interface confirmed) scope) (\<lambda>resolved.
        sbind (inv_call (activate_scope (sv_inv v) (cs_id confirmed))) (\<lambda>_. scan_phases v \<lparr>sj_context = x, sj_scope = scope,
          sj_resolved = resolved, sj_profile = profile, sj_capabilities = sv_capabilities v\<rparr> confirmed))))) (\<lambda>x s. True)"
      by (rule triple_bind [OF profile], rule triple_bind [OF triple_progress], simp add: stable_def, rule triple_bind [OF route last])
    then show ?thesis by (simp add: fields)
  qed
  show ?thesis unfolding run_discovery_def Let_def
    by (rule triple_bind [OF triple_ensure [OF stable]], rule triple_bind [OF triple_progress [OF stable]],
        rule triple_bind [OF triple_load_scope rest])
qed

lemma triple_execute:
  assumes "triple P (run_discovery v x) (\<lambda>x s. True)" "stable P"
  shows "triple P (execute v x) (\<lambda>x s. True)"
proof -
  have "triple P (\<lambda>s. case run_discovery v x s of (s', r) \<Rightarrow> (remove_runtime_dir (runtime_dir x) s', r)) (\<lambda>x s. True)"
  proof (rule tripleI)
    fix s s' r
    assume s: "P s" "logged s" "(case run_discovery v x s of (s', r) \<Rightarrow> (remove_runtime_dir (runtime_dir x) s', r)) = (s', r)"
    obtain s1 r1 where d: "run_discovery v x s = (s1, r1)" by force
    then show "logged s' \<and> (\<forall>x. r = Inr x \<longrightarrow> True)"
      using tripleD [OF assms(1) s(1,2) d] s(3) by (auto simp: remove_runtime_dir_def logged_def)
  qed
  then show ?thesis unfolding execute_def by (rule triple_bind [OF triple_os_step [OF assms(2)]])
qed

end

end
