(* ===== verification/Nmap_Plan_Properties.thy ===== *)
theory Nmap_Plan_Properties
  imports Nmap_Plans
begin

text \<open>
  What the plans of the Nmap provider may make Nmap do. The argument vectors are read the way Nmap reads them: some options take
  the next argument as value, other arguments that start with a dash are flags, and everything else is a target.
\<close>

section \<open>Reading an argument vector\<close>

definition VALUE_OPTIONS :: "string list" where
  "VALUE_OPTIONS = [''--stats-every'', ''-p'', ''--top-ports'', ''--version-intensity'', ''--max-retries'', ''-e'', ''-oX'', ''-iL'']"

text \<open>The options with their values, and the targets.\<close>

fun read_args :: "string list \<Rightarrow> (string \<times> string option) list \<times> string list" where
  "read_args [] = ([], [])"
| "read_args [a] = (if a \<in> set VALUE_OPTIONS then ([(a, None)], []) else if starts_with a ''-'' then ([(a, None)], []) else ([], [a]))"
| "read_args (a # b # r) =
     (if a \<in> set VALUE_OPTIONS then let (os, ts) = read_args r in ((a, Some b) # os, ts)
      else let (os, ts) = read_args (b # r) in if starts_with a ''-'' then ((a, None) # os, ts) else (os, a # ts))"

text \<open>The options that need raw sockets: SYN and UDP scans, operating system detection, ARP and ICMP probes.\<close>

definition RAW_OPTIONS :: "string list" where
  "RAW_OPTIONS = [''-sS'', ''-sU'', ''-O'', ''-PE'', ''-PP'', ''-PR'']"

definition confined :: "nmap_capabilities \<Rightarrow> resolved_scope \<Rightarrow> string \<Rightarrow> string \<Rightarrow> (string \<times> string option) list \<times> string list \<Rightarrow> bool" where
  "confined c resolved xml target x \<longleftrightarrow>
     snd x = [] \<and> filter (\<lambda>o'. fst o' = ''-iL'') (fst x) = [(''-iL'', Some target)]
     \<and> filter (\<lambda>o'. fst o' = ''-e'') (fst x) = [(''-e'', Some (rs_interface resolved))]
     \<and> filter (\<lambda>o'. fst o' = ''-oX'') (fst x) = [(''-oX'', Some xml)]
     \<and> (\<not> nc_privileged c \<longrightarrow> (''--unprivileged'', None) \<in> set (fst x) \<and> fst ` set (fst x) \<inter> set RAW_OPTIONS = {})
     \<and> {t. ''-T'' @ t \<in> fst ` set (fst x)} \<subseteq> {''0'', ''1'', ''2'', ''3'', ''4''}"

section \<open>Parts\<close>

text \<open>A part of an argument vector that reads on its own.\<close>

definition part :: "string list \<Rightarrow> (string \<times> string option) list \<Rightarrow> bool" where
  "part xs os \<longleftrightarrow> (\<forall>r. read_args (xs @ r) = (os @ fst (read_args r), snd (read_args r)))"

lemma part_append: "part xs a \<Longrightarrow> part ys b \<Longrightarrow> part (xs @ ys) (a @ b)"
  by (simp add: part_def)

lemma part_Nil: "part [] []"
  by (simp add: part_def)

lemma part_value: "a \<in> set VALUE_OPTIONS \<Longrightarrow> part [a, v] [(a, Some v)]"
  by (simp add: part_def case_prod_beta)

lemma part_flag: "a \<notin> set VALUE_OPTIONS \<Longrightarrow> starts_with a ''-'' \<Longrightarrow> part [a] [(a, None)]"
  unfolding part_def
proof
  fix r
  assume "a \<notin> set VALUE_OPTIONS" "starts_with a ''-''"
  then show "read_args ([a] @ r) = ([(a, None)] @ fst (read_args r), snd (read_args r))"
    by (cases r) (simp_all add: case_prod_beta)
qed

lemma part_read: "part xs os \<Longrightarrow> read_args xs = (os, [])"
  unfolding part_def by (metis append_Nil2 fst_conv read_args.simps(1) snd_conv)

lemma part_first: "part (''-n'' # (''-T'' @ t) # modes @ [''-v'', ''--stats-every'', ''5s''])
    ([(''-n'', None), (''-T'' @ t, None)] @ os @ [(''-v'', None), (''--stats-every'', Some ''5s'')])" if "part modes os"
proof -
  have "part ([''-n''] @ [''-T'' @ t] @ modes @ [''-v''] @ [''--stats-every'', ''5s''])
      ([(''-n'', None)] @ [(''-T'' @ t, None)] @ os @ [(''-v'', None)] @ [(''--stats-every'', Some ''5s'')])"
    by (intro part_append part_value part_flag that) (simp_all add: VALUE_OPTIONS_def)
  then show ?thesis by simp
qed

text \<open>An option that leaves the interface, the files, the privileges and the timing alone.\<close>

definition harmless :: "bool \<Rightarrow> string \<Rightarrow> bool" where
  "harmless priv k \<longleftrightarrow> k \<notin> {''-iL'', ''-e'', ''-oX''} \<and> (\<not> priv \<longrightarrow> k \<notin> set RAW_OPTIONS) \<and> \<not> starts_with k ''-T''"

definition good_args :: "bool \<Rightarrow> bool \<Rightarrow> string list \<Rightarrow> bool" where
  "good_args priv m xs \<longleftrightarrow> (\<exists>os. part xs os \<and> (\<forall>x \<in> set os. harmless priv (fst x)) \<and> (m \<longrightarrow> (''--unprivileged'', None) \<in> set os))"

lemma good_append:
  assumes "good_args priv m xs" "good_args priv m' ys"
  shows "good_args priv (m \<or> m') (xs @ ys)"
proof -
  obtain a b where "part xs a" "\<forall>x \<in> set a. harmless priv (fst x)" "m \<longrightarrow> (''--unprivileged'', None) \<in> set a"
      "part ys b" "\<forall>x \<in> set b. harmless priv (fst x)" "m' \<longrightarrow> (''--unprivileged'', None) \<in> set b"
    using assms unfolding good_args_def by blast
  then show ?thesis unfolding good_args_def by (intro exI [of _ "a @ b"]) (auto intro: part_append)
qed

lemma good_both: "good_args priv m xs \<Longrightarrow> good_args priv False ys \<Longrightarrow> good_args priv m (xs @ ys)"
  and good_then: "good_args priv False xs \<Longrightarrow> good_args priv m ys \<Longrightarrow> good_args priv m (xs @ ys)"
  using good_append [of priv m xs False ys] good_append [of priv False xs m ys] by simp_all

lemma good_Nil: "good_args priv False []"
  unfolding good_args_def by (intro exI [of _ "[]"]) (simp add: part_Nil)

lemma good_flag:
  assumes "a \<notin> set VALUE_OPTIONS" "starts_with a ''-''" "harmless priv a" "good_args priv m xs"
  shows "good_args priv m (a # xs)"
proof -
  have "good_args priv False [a]" unfolding good_args_def using part_flag [OF assms(1,2)] assms(3) by (intro exI [of _ "[(a, None)]"]) simp
  from good_then [OF this assms(4)] show ?thesis by simp
qed

lemma good_value:
  assumes "a \<in> set VALUE_OPTIONS" "harmless priv a" "good_args priv m xs"
  shows "good_args priv m (a # v # xs)"
proof -
  have "good_args priv False [a, v]" unfolding good_args_def using part_value [OF assms(1), of v] assms(2) by (intro exI [of _ "[(a, Some v)]"]) simp
  from good_then [OF this assms(3)] show ?thesis by simp
qed

lemma harmless_options [simp]:
  "harmless priv ''-6''" "harmless priv ''-sV''" "harmless priv ''--version-intensity''" "harmless priv ''--osscan-limit''"
  "harmless priv ''--unprivileged''" "harmless priv ''-sT''" "harmless priv ''-p''" "harmless priv ''--top-ports''"
  "harmless priv ''--max-retries''" "harmless priv ''--open''" "harmless priv ''-sn''" "harmless priv ''-Pn''" "harmless priv ''-PS22,80,443''"
  "harmless True ''-sS''" "harmless True ''-sU''" "harmless True ''-O''" "harmless True ''-PE''" "harmless True ''-PP''" "harmless True ''-PR''"
  by (simp_all add: harmless_def RAW_OPTIONS_def)

lemma value_options [simp]:
  "''-p'' \<in> set VALUE_OPTIONS" "''--top-ports'' \<in> set VALUE_OPTIONS" "''--version-intensity'' \<in> set VALUE_OPTIONS"
  "''--max-retries'' \<in> set VALUE_OPTIONS" "''-6'' \<notin> set VALUE_OPTIONS" "''-sV'' \<notin> set VALUE_OPTIONS" "''--osscan-limit'' \<notin> set VALUE_OPTIONS"
  "''--unprivileged'' \<notin> set VALUE_OPTIONS" "''-sT'' \<notin> set VALUE_OPTIONS" "''--open'' \<notin> set VALUE_OPTIONS" "''-sn'' \<notin> set VALUE_OPTIONS"
  "''-Pn'' \<notin> set VALUE_OPTIONS" "''-PS22,80,443'' \<notin> set VALUE_OPTIONS" "''-sS'' \<notin> set VALUE_OPTIONS" "''-sU'' \<notin> set VALUE_OPTIONS"
  "''-O'' \<notin> set VALUE_OPTIONS" "''-PE'' \<notin> set VALUE_OPTIONS" "''-PP'' \<notin> set VALUE_OPTIONS" "''-PR'' \<notin> set VALUE_OPTIONS"
  by (simp_all add: VALUE_OPTIONS_def)

lemmas good_intros = good_Nil good_value good_flag

lemma good_unprivileged: "good_args priv False xs \<Longrightarrow> good_args priv True (''--unprivileged'' # xs)"
proof -
  assume xs: "good_args priv False xs"
  have "part [''--unprivileged''] [(''--unprivileged'', None)]" by (rule part_flag) simp_all
  then have "good_args priv True [''--unprivileged'']" unfolding good_args_def by (intro exI [of _ "[(''--unprivileged'', None)]"]) simp
  from good_both [OF this xs] show ?thesis by simp
qed

text \<open>The parts of the plans.\<close>

lemma good_family: "good_args priv False (family_args scope)"
  by (cases "ipv6_only scope") (simp_all add: family_args_def good_intros)

lemma good_service: "good_args priv False (service_args p)"
  by (cases "ap_version_intensity p"; cases "ap_service_detection p") (simp_all add: service_args_def good_intros)

lemma good_os: "good_args priv False (os_args p priv)"
  by (cases priv; cases "ap_os_detection p") (simp_all add: os_args_def good_intros)

lemma good_tcp: "good_args priv (\<not> priv) (tcp_args priv)"
  by (cases priv) (simp_all add: tcp_args_def good_intros good_unprivileged)

lemma good_ports: "good_args priv False (fst (tcp_port_args p))"
  by (cases "ap_tcp_top_ports p") (simp_all add: tcp_port_args_def good_intros)

lemma good_pair: "good_args priv False [''-p'', v]" "good_args priv False [''--max-retries'', v]" and good_open: "good_args priv False [''--open'']"
  by (simp_all add: good_intros)

lemma good_probes: "good_args priv (\<not> priv) (fst (host_discovery_args scope resolved priv))"
  by (cases priv) (simp_all add: host_discovery_args_def Let_def good_intros good_unprivileged)

lemma part_last: "part (last_args resolved xml target)
    [(''-e'', Some (rs_interface resolved)), (''-oX'', Some xml), (''-iL'', Some target)]"
proof -
  have "part ([''-e'', rs_interface resolved] @ [''-oX'', xml] @ [''-iL'', target])
      ([(''-e'', Some (rs_interface resolved))] @ [(''-oX'', Some xml)] @ [(''-iL'', Some target)])"
    by (intro part_append part_value) (simp_all add: VALUE_OPTIONS_def)
  then show ?thesis by (simp add: last_args_def)
qed

text \<open>Harmless options around the fixed ones.\<close>

lemma harmless_filter: "\<forall>x \<in> set os. harmless priv (fst x) \<Longrightarrow> k \<in> {''-iL'', ''-e'', ''-oX''} \<Longrightarrow> filter (\<lambda>o'. fst o' = k) os = []"
  by (auto simp: filter_empty_conv harmless_def)

lemma harmless_raw: "\<forall>x \<in> set os. harmless False (fst x) \<Longrightarrow> fst ` set os \<inter> set RAW_OPTIONS = {}"
  unfolding harmless_def by blast

lemma harmless_timing:
  assumes "\<forall>x \<in> set os. harmless priv (fst x)"
  shows "''-T'' @ u \<notin> fst ` set os"
proof
  assume "''-T'' @ u \<in> fst ` set os"
  then obtain x where x: "x \<in> set os" "''-T'' @ u = fst x" by (rule imageE) blast
  have "starts_with (fst x) ''-T''" unfolding x(2) [symmetric] by simp
  then show False using assms x(1) by (simp add: harmless_def)
qed

text \<open>A vector of the shape all plans have is confined.\<close>

lemma confinedI:
  assumes args: "args = first_args timing modes @ middle @ last_args resolved xml target" and timing: "timing \<in> set TIMINGS"
    and modes: "good_args (nc_privileged c) False modes" and middle: "good_args (nc_privileged c) (\<not> nc_privileged c) middle"
  shows "confined c resolved xml target (read_args args)"
proof -
  let ?p = "nc_privileged c"
  obtain t where t: "remove_T timing = t" "t \<in> {''0'', ''1'', ''2'', ''3'', ''4''}"
    using timing by (auto simp: TIMINGS_def remove_T_def)
  obtain mo where mo: "part modes mo" "\<forall>x \<in> set mo. harmless ?p (fst x)" using modes unfolding good_args_def by blast
  obtain mi where mi: "part middle mi" "\<forall>x \<in> set mi. harmless ?p (fst x)" "\<not> ?p \<longrightarrow> (''--unprivileged'', None) \<in> set mi"
    using middle unfolding good_args_def by blast
  let ?os = "[(''-n'', None), (''-T'' @ t, None)] @ mo @ [(''-v'', None), (''--stats-every'', Some ''5s'')] @ mi
      @ [(''-e'', Some (rs_interface resolved)), (''-oX'', Some xml), (''-iL'', Some target)]"
  have "part args ?os"
    unfolding args first_args_def t(1) using part_append [OF part_first [OF mo(1), of t] part_append [OF mi(1) part_last]] by simp
  then have r: "read_args args = (?os, [])" by (rule part_read)
  have files: "filter (\<lambda>o'. fst o' = ''-iL'') ?os = [(''-iL'', Some target)]"
    "filter (\<lambda>o'. fst o' = ''-e'') ?os = [(''-e'', Some (rs_interface resolved))]" "filter (\<lambda>o'. fst o' = ''-oX'') ?os = [(''-oX'', Some xml)]"
    using harmless_filter [OF mo(2)] harmless_filter [OF mi(2)] by simp_all
  have raw: "fst ` set ?os \<inter> set RAW_OPTIONS = {}" if "\<not> ?p"
    using harmless_raw [of mo] harmless_raw [of mi] mo(2) mi(2) that by (simp add: RAW_OPTIONS_def image_Un)
  have "u \<in> {''0'', ''1'', ''2'', ''3'', ''4''}" if "''-T'' @ u \<in> fst ` set ?os" for u
    using that harmless_timing [OF mo(2), of u] harmless_timing [OF mi(2), of u] t(2) by (simp add: image_Un)
  then show ?thesis unfolding confined_def r using files raw mi(3) by auto
qed

section \<open>Plans\<close>

text \<open>Every plan the provider builds from one profile, resolved scope and target file.\<close>

definition built_plans ::
  "nmap_capabilities \<Rightarrow> validated_scope \<Rightarrow> resolved_scope \<Rightarrow> active_scan_profile \<Rightarrow> int list \<Rightarrow> string \<Rightarrow> string \<Rightarrow> nmap_plan list" where
  "built_plans c scope resolved p ports xml target =
     [build_host_discovery c scope resolved p xml target, build_tcp_scan c scope resolved p xml target,
      build_tcp_sweep c scope resolved p xml target]
     @ (case build_tcp_fingerprint c scope resolved p ports xml target of None \<Rightarrow> [] | Some q \<Rightarrow> [q])
     @ (case build_udp_scan c scope resolved p xml target of None \<Rightarrow> [] | Some q \<Rightarrow> [q])"

lemma timing_ok: "document_ok p \<Longrightarrow> ap_timing p \<in> set TIMINGS \<and> sweep_timing resolved p \<in> set TIMINGS"
  by (simp add: document_ok_def sweep_timing_def TIMINGS_def)

lemma host_discovery_confined:
  assumes "document_ok p"
  shows "confined c resolved xml target (read_args (pl_args (build_host_discovery c scope resolved p xml target)))"
proof -
  have t: "ap_timing p \<in> set TIMINGS" using timing_ok [OF assms] by blast
  have m: "good_args (nc_privileged c) False [''-sn'']" by (simp add: good_intros)
  have "good_args (nc_privileged c) (\<not> nc_privileged c) (family_args scope @ fst (host_discovery_args scope resolved (nc_privileged c)))"
    by (intro good_then good_family good_probes)
  from confinedI [OF refl t m this, of resolved xml target] show ?thesis by (simp add: build_host_discovery_def case_prod_beta)
qed

lemma tcp_confined:
  assumes "timing \<in> set TIMINGS" "good_args (nc_privileged c) False tail"
  shows "confined c resolved xml target (read_args (first_args timing [''-Pn''] @ (family_args scope @ tcp_args (nc_privileged c) @ tail)
    @ last_args resolved xml target))"
proof (rule confinedI [OF refl assms(1)])
  show "good_args (nc_privileged c) False [''-Pn'']" by (simp add: good_intros)
  show "good_args (nc_privileged c) (\<not> nc_privileged c) (family_args scope @ tcp_args (nc_privileged c) @ tail)"
    by (intro good_then good_both good_family good_tcp assms(2))
qed

lemma tcp_scan_confined:
  assumes "document_ok p"
  shows "confined c resolved xml target (read_args (pl_args (build_tcp_scan c scope resolved p xml target)))"
proof -
  have "good_args (nc_privileged c) False (fst (tcp_port_args p) @ service_args p @ os_args p (nc_privileged c) @ [''--max-retries'', ''2''])"
    by (intro good_both good_ports good_service good_os good_pair)
  from tcp_confined [OF _ this, of "ap_timing p" resolved xml target scope] show ?thesis
    using timing_ok [OF assms] by (simp add: build_tcp_scan_def scan_plan_def case_prod_beta Let_def)
qed

lemma tcp_sweep_confined:
  assumes "document_ok p"
  shows "confined c resolved xml target (read_args (pl_args (build_tcp_sweep c scope resolved p xml target)))"
proof -
  let ?ports = "if truthy (ap_tcp_ports p) then the (ap_tcp_ports p) else ''1-65535''"
  have "good_args (nc_privileged c) False ([''-p'', ?ports] @ [''--open''] @ [''--max-retries'', sweep_retries resolved])"
    by (intro good_both good_pair good_open)
  from tcp_confined [OF _ this, of "sweep_timing resolved p" resolved xml target scope] show ?thesis
    using timing_ok [OF assms] by (simp add: build_tcp_sweep_def scan_plan_def Let_def)
qed

lemma tcp_fingerprint_confined:
  assumes "document_ok p" "build_tcp_fingerprint c scope resolved p ports xml target = Some q"
  shows "confined c resolved xml target (read_args (pl_args q))"
proof -
  have "good_args (nc_privileged c) False ([''-p'', ports_text (sorted_list_of_set (set ports))] @ [''--open''] @ service_args p
      @ os_args p (nc_privileged c) @ [''--max-retries'', sweep_retries resolved])"
    by (intro good_both good_pair good_open good_service good_os)
  from tcp_confined [OF _ this, of "sweep_timing resolved p" resolved xml target scope] show ?thesis
    using timing_ok [OF assms(1)] assms(2) by (auto simp: build_tcp_fingerprint_def scan_plan_def Let_def split: if_splits)
qed

lemma udp_confined:
  assumes "document_ok p" "build_udp_scan c scope resolved p xml target = Some q" "pl_args q \<noteq> []"
  shows "confined c resolved xml target (read_args (pl_args q))"
proof -
  let ?deep = "ap_name p = DEEP"
  let ?timing = "if ?deep \<and> all_routes_direct resolved then ''T4'' else ap_timing p"
  let ?middle = "family_args scope @ (if ?deep then service_args p else []) @ [''-p'', ports_text (ap_udp_ports p)] @ [''--max-retries'', ''1'']"
  have priv: "nc_privileged c" using assms(2,3) by (auto simp: build_udp_scan_def scan_plan_def split: if_splits)
  have t: "?timing \<in> set TIMINGS" using timing_ok [OF assms(1)] by (simp add: TIMINGS_def)
  have args: "pl_args q = first_args ?timing [''-Pn'', ''-sU''] @ ?middle @ last_args resolved xml target"
    using assms(2) priv by (auto simp: build_udp_scan_def scan_plan_def Let_def split: if_splits)
  have "good_args True False [''-Pn'', ''-sU'']" by (simp add: good_intros)
  moreover have "good_args True False ?middle" by (intro good_both good_family good_pair) (simp add: good_service good_Nil)
  ultimately show ?thesis using confinedI [OF args t] priv by simp
qed

text \<open>
  Whatever the scope, routes and ports are, the argument vector of every plan the provider builds from a valid profile names
  no target itself: its targets come from the one target file, its packets leave through the resolved interface and its
  output goes to the one XML file. Without raw-socket privileges the vector has the flag that says so and none of the options that need raw sockets,
  and its timing is never above \<^verbatim>\<open>T4\<close>.
\<close>

lemma plans_confined:
  assumes "document_ok p" "q \<in> set (built_plans c scope resolved p ports xml target)" "pl_args q \<noteq> []"
  shows "confined c resolved xml target (read_args (pl_args q))"
  using assms host_discovery_confined tcp_scan_confined tcp_sweep_confined tcp_fingerprint_confined udp_confined
  by (fastforce simp: built_plans_def split: option.splits)

definition demo_profile :: active_scan_profile where
  "demo_profile = \<lparr>ap_timing = ''T3'', ap_tcp_top_ports = Some 1000, ap_tcp_ports = None, ap_udp_ports = [53, 161],
     ap_service_detection = True, ap_version_intensity = Some 5, ap_os_detection = True, ap_run_tcp_scan = True, ap_run_udp_scan = True,
     ap_name = STANDARD, ap_timeout_seconds = 900\<rparr>"

definition demo_capabilities :: nmap_capabilities where
  "demo_capabilities = \<lparr>nc_binary = ''nmap'', nc_version = Some ''7.94'', nc_privileged = False, nc_syn_scan = False,
     nc_arp_discovery = False, nc_os_detection = False, nc_udp_scan = False\<rparr>"

definition demo_scan_scope :: validated_scope where
  "demo_scan_scope = \<lparr>vs_profile = STANDARD, vs_targets = [], vs_canonical_targets = [''10.0.0.5''], vs_address_families = [4],
     vs_address_count = 1, vs_safety_limits = (1, 1)\<rparr>"

definition demo_resolved :: resolved_scope where
  "demo_resolved = \<lparr>rs_interface = ''eth0'', rs_interface_state = Some ''UP'', rs_vlan_subinterface = False, rs_routes = []\<rparr>"

lemma plans_confined_example:
  "confined demo_capabilities demo_resolved ''/run/x.xml'' ''/run/t.txt'' (read_args (pl_args
     (build_tcp_scan demo_capabilities demo_scan_scope demo_resolved demo_profile ''/run/x.xml'' ''/run/t.txt'')))"
proof (rule plans_confined [of demo_profile _ _ demo_scan_scope _ "[]"])
  show "document_ok demo_profile" by code_simp
  show "build_tcp_scan demo_capabilities demo_scan_scope demo_resolved demo_profile ''/run/x.xml'' ''/run/t.txt''
      \<in> set (built_plans demo_capabilities demo_scan_scope demo_resolved demo_profile [] ''/run/x.xml'' ''/run/t.txt'')"
    by (simp add: built_plans_def)
  show "pl_args (build_tcp_scan demo_capabilities demo_scan_scope demo_resolved demo_profile ''/run/x.xml'' ''/run/t.txt'') \<noteq> []"
    by (simp add: build_tcp_scan_def scan_plan_def first_args_def case_prod_beta Let_def)
qed

end
