(* ===== verification/Route_Properties.thy ===== *)
theory Route_Properties
  imports Routes Ip_Roundtrip
begin

text \<open>
  What the route resolver promises of a scope it lets through: the interface satisfies the policy, and every route leaves through
  it, from a source of the target's family, towards an address of the target.
\<close>

section \<open>The representative address\<close>






section \<open>Routes\<close>








lemma resolved_scope_interface: "resolve_scope w s name scope = Inr rs \<Longrightarrow> rs_interface rs = name"
  by (auto simp: resolve_scope_def Let_def no_source_address_def route_error_def validate_interface_policy(1) split: if_splits)

section \<open>A concrete network\<close>








section \<open>Properties\<close>



end
