(* ===== verification/Active_Properties.thy ===== *)
theory Active_Properties
  imports Active_Facts Nmap_Plan_Properties Route_Properties Scope_Properties
begin

text \<open>
  Active discovery only scans what the operator confirmed: the addresses a target file denotes, the events a scan may log, and the
  phases of the handler over the triples of the scanning code.
\<close>

section \<open>Targets\<close>





section \<open>Events\<close>






section \<open>The phases\<close>


lemma plan_target_files [simp]:
  "pl_target_file (build_host_discovery c scope resolved p xml name) = name"
  "pl_target_file (build_tcp_scan c scope resolved p xml name) = name"
  "pl_target_file (build_tcp_sweep c scope resolved p xml name) = name"
  by (simp_all add: build_host_discovery_def build_tcp_scan_def build_tcp_sweep_def scan_plan_def case_prod_beta Let_def)











section \<open>Properties\<close>


















end
