(* ===== verification/Netctl.thy ===== *)
theory Netctl
  imports Interfaces
begin

text \<open>
  The privileged network helper (\<^verbatim>\<open>appliance/netctl.py\<close>): the inventory of network cards, the validation and the safety check of a
  requested change, and its application through NetworkManager, ifupdown, systemd-networkd or the \<^verbatim>\<open>ip\<close> tool.

  The state has the commands run so far, the files the helper reads and writes with the modes it sets, and a counter. What a process
  answers, whether a call of the operating system fails and what \<^verbatim>\<open>/etc/resolv.conf\<close> holds are functions of that counter, so every
  call may answer differently. A failing write may leave a prefix of the text in the file. \<open>ne_pick\<close> is the element a Python set gives
  first, \<open>ne_loads\<close> is \<^verbatim>\<open>json.loads\<close>.
\<close>

section \<open>Data\<close>

datatype netctl_exc =
    NE_Netctl string string json_obj
  | NE_OSError
  | NE_UnicodeDecodeError
  | NE_Raw net_exc

record cmd_result =
  cr_argv :: "string list"
  cr_returncode :: int
  cr_stdout :: string
  cr_stderr :: string

definition cmd_ok :: "cmd_result \<Rightarrow> bool" where
  "cmd_ok r \<longleftrightarrow> cr_returncode r = 0"

record nic_snapshot =
  nic_name :: string
  nic_mac :: json
  nic_state :: json
  nic_ipv4 :: "string list"
  nic_ipv6 :: "string list"
  nic_addressing :: string
  nic_has_default_route :: bool
  nic_role :: string
  nic_role_source :: string
  nic_is_loopback :: bool

record nic_inventory =
  ni_interfaces :: "nic_snapshot list"
  ni_backend :: string
  ni_default_route_dev :: "string option"
  ni_dns :: "string list"

record apply_spec =
  aps_interface :: string
  aps_role :: string
  aps_method :: string
  aps_address :: "string option"
  aps_gateway :: "string option"
  aps_dns :: "string list"
  aps_confirm :: bool
  aps_session_interface :: "string option"
  aps_bind_host :: string

record safety_decision =
  sd_ok :: bool
  sd_needs_confirm :: bool
  sd_reasons :: "string list"
  sd_remaining_ipv4 :: "string list"

record apply_result =
  ar_inventory :: nic_inventory
  ar_gui_urls :: "string list"
  ar_warnings :: "string list"

definition netctl_error :: "string \<Rightarrow> string \<Rightarrow> netctl_exc" where
  "netctl_error ecode message = NE_Netctl ecode message []"

section \<open>Constants\<close>

definition ROLES :: "string list" where
  "ROLES = [''management'', ''capture'']"

definition METHODS :: "string list" where
  "METHODS = [''dhcp'', ''static'', ''none'']"

definition LOOPBACK_HOSTS :: "string list" where
  "LOOPBACK_HOSTS = [''127.0.0.1'', ''localhost'', ''::1'']"

definition PUBLIC_BIND_HOSTS :: "string list" where
  "PUBLIC_BIND_HOSTS = [''0.0.0.0'', ''::'', ''*'']"

definition NMCLI_METRIC_CAPTURE :: string where
  "NMCLI_METRIC_CAPTURE = ''4096''"

definition ROLES_PATH :: string where
  "ROLES_PATH = ''/etc/wirescope/network-roles.json''"

definition INTERFACES_PATH :: string where
  "INTERFACES_PATH = ''/etc/network/interfaces''"

definition INTERFACES_D :: string where
  "INTERFACES_D = ''/etc/network/interfaces.d''"

definition NETWORKD_DIR :: string where
  "NETWORKD_DIR = ''/etc/systemd/network''"

section \<open>Validation\<close>

definition ascii_letter :: "char \<Rightarrow> bool" where
  "ascii_letter c \<longleftrightarrow> 65 \<le> code c \<and> code c \<le> 90 \<or> 97 \<le> code c \<and> code c \<le> 122"

definition iface_char :: "char \<Rightarrow> bool" where
  "iface_char c \<longleftrightarrow> ascii_letter c \<or> is_ascii_digit c \<or> c \<in> set ''._:-''"

text \<open>A full match of \<^verbatim>\<open>IFACE_RE\<close>.\<close>

definition iface_match :: "string \<Rightarrow> bool" where
  "iface_match s \<longleftrightarrow> (case s of [] \<Rightarrow> False | c # cs \<Rightarrow> ascii_letter c \<and> length cs \<le> 15 \<and> list_all iface_char cs)"

definition validate_interface_name :: "string \<Rightarrow> netctl_exc + string" where
  "validate_interface_name name = (if iface_match name then Inr name
     else Inl (netctl_error ''invalid_interface'' (''Invalid interface name: '' @ name)))"

text \<open>The static address and its gateway.\<close>

definition validate_static :: "apply_spec \<Rightarrow> netctl_exc + unit" where
  "validate_static spec =
     (if \<not> truthy (aps_address spec) then Inl (netctl_error ''address_required'' ''Static addressing needs address/prefix'')
      else case ip_interface_network (the (aps_address spec)) of
        None \<Rightarrow> Inl (netctl_error ''invalid_address'' (''Invalid address: '' @ the (aps_address spec)))
      | Some n \<Rightarrow>
          if net_version n \<noteq> 4 then Inl (netctl_error ''ipv4_only'' ''Only IPv4 static configuration is supported'')
          else if truthy (aps_gateway spec)
          then case ip_address (the (aps_gateway spec)) of
              None \<Rightarrow> Inl (netctl_error ''invalid_gateway'' (''Invalid gateway: '' @ the (aps_gateway spec)))
            | Some g \<Rightarrow> if ip_version g \<noteq> 4 then Inl (netctl_error ''ipv4_only'' ''Gateway must be IPv4'') else Inr ()
          else Inr ())"

fun validate_dns :: "string list \<Rightarrow> netctl_exc + string list" where
  "validate_dns [] = Inr []"
| "validate_dns (item # items) = (case ip_address item of
     None \<Rightarrow> Inl (netctl_error ''invalid_dns'' (''Invalid DNS server: '' @ item))
   | Some a \<Rightarrow> if ip_version a \<noteq> 4 then Inl (netctl_error ''ipv4_only'' ''DNS servers must be IPv4'')
       else rbind (validate_dns items) (\<lambda>rest. Inr (ip_str a # rest)))"

definition validate_spec :: "apply_spec \<Rightarrow> netctl_exc + apply_spec" where
  "validate_spec spec = rbind (validate_interface_name (aps_interface spec)) (\<lambda>_.
     if aps_role spec \<notin> set ROLES then Inl (netctl_error ''invalid_role'' ''Role must be management or capture'')
     else if aps_method spec \<notin> set METHODS then Inl (netctl_error ''invalid_method'' ''Method must be dhcp, static, or none'')
     else if aps_role spec = ''management'' \<and> aps_method spec = ''none''
     then Inl (netctl_error ''management_needs_address'' ''Management interface must use DHCP or a static IPv4 address'')
     else rbind (if aps_method spec = ''static'' then validate_static spec
                 else if truthy (aps_address spec)
                 then Inl (netctl_error ''address_not_allowed'' ''Address is only used with static method'') else Inr ()) (\<lambda>_.
       rbind (validate_dns (aps_dns spec)) (\<lambda>dns. Inr (spec\<lparr>aps_dns := dns\<rparr>))))"

section \<open>Safety\<close>

definition lan_bound :: "string \<Rightarrow> bool" where
  "lan_bound bind_host = (let host = strip bind_host in host \<notin> set LOOPBACK_HOSTS \<and> host \<noteq> [])"

definition before_slash :: "string \<Rightarrow> string" where
  "before_slash = takeWhile (\<lambda>c. c \<noteq> CHR ''/'')"

definition ipv4_hosts :: "nic_snapshot list \<Rightarrow> (string \<times> string) list" where
  "ipv4_hosts nics = concat (map (\<lambda>nic. if nic_is_loopback nic then []
     else map (\<lambda>v. (nic_name nic, before_slash v)) (nic_ipv4 nic)) nics)"

definition projected_ipv4 :: "nic_inventory \<Rightarrow> apply_spec \<Rightarrow> (string \<times> string) list" where
  "projected_ipv4 iv spec = filter (\<lambda>p. fst p \<noteq> aps_interface spec) (ipv4_hosts (ni_interfaces iv)) @
     (if aps_method spec = ''static'' \<and> truthy (aps_address spec) then [(aps_interface spec, before_slash (the (aps_address spec)))]
      else if aps_method spec = ''dhcp'' then [(aps_interface spec, ''dhcp'')] else [])"

definition evaluate_safety :: "nic_inventory \<Rightarrow> apply_spec \<Rightarrow> safety_decision" where
  "evaluate_safety iv spec =
     (let projected = projected_ipv4 iv spec;
          real_ipv4 = filter (\<lambda>p. snd p \<noteq> ''dhcp'') projected;
          dhcp_kept = list_ex (\<lambda>p. snd p = ''dhcp'') projected;
          session = truthy (aps_session_interface spec) \<and> aps_session_interface spec = Some (aps_interface spec);
          last_ip = (if lan_bound (aps_bind_host spec) \<and> real_ipv4 = [] \<and> \<not> dhcp_kept then [''last_lan_ipv4''] else []);
          first_reasons = last_ip @ (if session \<and> aps_interface spec \<notin> set LOOPBACK_HOSTS \<and> aps_interface spec \<noteq> ''lo'' \<and> aps_method spec = ''none''
            then [''session_iface''] else []);
          reasons = first_reasons @ (if session \<and> aps_role spec = ''capture'' \<and> aps_method spec \<noteq> ''dhcp'' \<and> aps_method spec \<noteq> ''static''
              \<and> ''session_iface'' \<notin> set first_reasons then [''session_iface''] else [])
      in \<lparr>sd_ok = (reasons = [] \<or> aps_confirm spec), sd_needs_confirm = (reasons \<noteq> [] \<and> \<not> aps_confirm spec), sd_reasons = reasons,
          sd_remaining_ipv4 = map (\<lambda>p. fst p @ '':'' @ snd p) projected\<rparr>)"

section \<open>Addresses of the interface\<close>

text \<open>\<^verbatim>\<open>list(dict.fromkeys(xs))\<close>.\<close>

definition unique_items :: "'a list \<Rightarrow> 'a list" where
  "unique_items xs = rev (remdups (rev xs))"

definition nic_urls :: "(string \<Rightarrow> string) \<Rightarrow> nic_snapshot \<Rightarrow> string list" where
  "nic_urls url nic = (if nic_is_loopback nic then []
     else if upper_ascii (if json_truthy (nic_state nic) then py_str (nic_state nic) else []) \<notin> {''UP'', ''UNKNOWN''} then []
     else map url (filter (\<lambda>a. a \<notin> set LOOPBACK_HOSTS) (map before_slash (nic_ipv4 nic))))"

definition gui_urls :: "string \<Rightarrow> int \<Rightarrow> nic_snapshot list \<Rightarrow> bool \<Rightarrow> string list" where
  "gui_urls bind_host bind_port nics tls =
     (let url = (\<lambda>host. (if tls then ''https'' else ''http'') @ ''://'' @ host @ '':'' @ int_str bind_port @ ''/'')
      in if \<not> lan_bound bind_host then [url ''127.0.0.1'']
         else unique_items ((if bind_host \<notin> set PUBLIC_BIND_HOSTS then [url bind_host] else []) @ [url ''127.0.0.1'']
           @ concat (map (nic_urls url) nics)))"

section \<open>Roles and the inventory\<close>

definition infer_role :: "nic_snapshot \<Rightarrow> (string \<times> string) list \<Rightarrow> string option \<Rightarrow> nat \<Rightarrow> string \<times> string" where
  "infer_role nic configured default_dev non_loopback = (case map_of configured (nic_name nic) of
     Some role \<Rightarrow> (role, ''configured'')
   | None \<Rightarrow>
       if nic_is_loopback nic then (''unknown'', ''inferred'')
       else if truthy default_dev \<and> default_dev = Some (nic_name nic) then (''management'', ''inferred'')
       else if nic_ipv4 nic \<noteq> [] \<and> nic_has_default_route nic then (''management'', ''inferred'')
       else if nic_ipv4 nic = [] then (''capture'', ''inferred'')
       else if non_loopback = 1 then (''management'', ''inferred'')
       else (''unknown'', ''inferred''))"

text \<open>The entries of a parsed roles file that name an interface and a role.\<close>

definition roles_of :: "json \<Rightarrow> (string \<times> string) list" where
  "roles_of v = (case v of JObj d \<Rightarrow>
       List.map_filter (\<lambda>p. case snd p of JStr r \<Rightarrow> if iface_match (fst p) \<and> r \<in> set ROLES then Some (fst p, r) else None | _ \<Rightarrow> None) d
     | _ \<Rightarrow> [])"

text \<open>\<^verbatim>\<open>json.dumps(roles, indent=2, sort_keys=True)\<close> and a line end.\<close>

definition nl :: string where
  "nl = [char_of (10 :: nat)]"

definition roles_text :: "(string \<times> string) list \<Rightarrow> string" where
  "roles_text roles = (if roles = [] then ''{}''
     else ''{'' @ nl @ join_on ('','' @ nl) (map (\<lambda>p. ''  '' @ json_quote (fst p) @ '': '' @ json_quote (snd p)) (sort_key fst roles)) @ nl @ ''}'') @ nl"

fun name_servers :: "string list \<Rightarrow> string list" where
  "name_servers [] = []"
| "name_servers (line # rest) = (if starts_with (strip line) ''nameserver''
     then case words_of [] (strip line) of _ # server # _ \<Rightarrow> server # name_servers rest | _ \<Rightarrow> name_servers rest
     else name_servers rest)"

text \<open>The items of \<^verbatim>\<open>item.get("addr_info") or []\<close>.\<close>

definition addr_items :: "json_obj \<Rightarrow> net_exc + json list" where
  "addr_items d = (if json_truthy (jget d ''addr_info'') then list_field d ''addr_info'' else Inr [])"

definition json_object :: "json \<Rightarrow> net_exc + json_obj" where
  "json_object v = (case v of JObj d \<Rightarrow> Inr d | _ \<Rightarrow> Inl NX_AttributeError)"

fun nic_addresses :: "json list \<Rightarrow> net_exc + string list \<times> string list" where
  "nic_addresses [] = Inr ([], [])"
| "nic_addresses (address # items) = rbind (json_object address) (\<lambda>a. rbind (nic_addresses items) (\<lambda>(four, six).
     let local = jget a ''local''; p = jget a ''prefixlen''; v = py_str local @ ''/'' @ py_str p
     in if local = JNull \<or> p = JNull then Inr (four, six)
        else if jget a ''family'' = JStr ''inet'' then Inr (v # four, six)
        else if jget a ''family'' = JStr ''inet6'' then Inr (four, v # six)
        else Inr (four, six)))"

text \<open>Whether an IPv4 address is among the items, and whether one of those is dynamic.\<close>

fun addressing_flags :: "json list \<Rightarrow> net_exc + bool \<times> bool" where
  "addressing_flags [] = Inr (False, False)"
| "addressing_flags (item # items) = rbind (json_object item) (\<lambda>a. rbind (addressing_flags items) (\<lambda>(has_v4, dhcp).
     if jget a ''family'' \<noteq> JStr ''inet'' then Inr (has_v4, dhcp) else Inr (True, jget a ''dynamic'' = JBool True \<or> dhcp)))"

definition addressing_from_addr_info :: "json list \<Rightarrow> net_exc + string" where
  "addressing_from_addr_info items = rbind (addressing_flags items) (\<lambda>(has_v4, dhcp).
     Inr (if \<not> has_v4 then ''none'' else if dhcp then ''dhcp'' else ''static''))"

definition nic_of :: "string list \<Rightarrow> json_obj \<Rightarrow> net_exc + nic_snapshot" where
  "nic_of default_devs d = (let name = py_str (jget d ''ifname'') in
     rbind (list_field d ''flags'') (\<lambda>flags. rbind (addr_items d) (\<lambda>items. rbind (nic_addresses items) (\<lambda>(four, six).
       rbind (addressing_from_addr_info items) (\<lambda>addressing.
         Inr \<lparr>nic_name = name, nic_mac = jget d ''address'', nic_state = jget d ''operstate'', nic_ipv4 = four, nic_ipv6 = six,
           nic_addressing = addressing, nic_has_default_route = (name \<in> set default_devs), nic_role = ''unknown'',
           nic_role_source = ''inferred'',
           nic_is_loopback = (name = ''lo'' \<or> ''LOOPBACK'' \<in> set (map (\<lambda>f. upper_ascii (py_str f)) flags)
             \<or> jget d ''link_type'' = JStr ''loopback'')\<rparr>)))))"

fun nics_of :: "string list \<Rightarrow> json list \<Rightarrow> net_exc + nic_snapshot list" where
  "nics_of default_devs [] = Inr []"
| "nics_of default_devs (item # items) = (case item of
     JObj d \<Rightarrow> if json_truthy (jget d ''ifname'')
       then rbind (nic_of default_devs d) (\<lambda>nic. rbind (nics_of default_devs items) (\<lambda>rest. Inr (nic # rest)))
       else nics_of default_devs items
   | _ \<Rightarrow> nics_of default_devs items)"

definition with_roles :: "(string \<times> string) list \<Rightarrow> string option \<Rightarrow> nic_snapshot list \<Rightarrow> nic_snapshot list" where
  "with_roles configured default_dev nics =
     (let non_loopback = length (filter (\<lambda>nic. \<not> nic_is_loopback nic) nics)
      in map (\<lambda>nic. case infer_role nic configured default_dev non_loopback of (role, src) \<Rightarrow>
           nic\<lparr>nic_role := role, nic_role_source := src\<rparr>) nics)"

text \<open>The routes of the payload, and the devices of the default routes among them without repetition.\<close>

definition route_items :: "json \<Rightarrow> net_exc + json list" where
  "route_items v = (case v of JList [] \<Rightarrow> Inr []
     | JList (x # xs) \<Rightarrow> rbind (json_in ''ifname'' x) (\<lambda>named. Inr (if named then [] else x # xs))
     | _ \<Rightarrow> Inr [])"

fun default_devices :: "json list \<Rightarrow> net_exc + string list" where
  "default_devices [] = Inr []"
| "default_devices (item # items) = (case item of
     JObj d \<Rightarrow> rbind (is_default_destination (jget d ''dst'')) (\<lambda>found. rbind (default_devices items) (\<lambda>rest.
       Inr (if found \<and> json_truthy (jget d ''dev'') \<and> py_str (jget d ''dev'') \<noteq> [] then List.insert (py_str (jget d ''dev'')) rest else rest)))
   | _ \<Rightarrow> default_devices items)"

end
