(* ===== verification/Netctl_Apply.thy ===== *)
theory Netctl_Apply
  imports Netctl
begin

text \<open>
  The effects of the network helper (\<^verbatim>\<open>appliance/netctl.py\<close>): running commands, reading and writing its files, collecting the
  inventory and applying a validated change through one of the four backends.
\<close>

section \<open>State and environment\<close>

datatype process_outcome = PO_Done int string string | PO_NotFound | PO_Timeout | PO_OSError | PO_Decode

datatype os_fault = OF_None | OF_OSError | OF_Partial nat | OF_Decode

record netctl_env =
  ne_process :: "nat \<Rightarrow> string list \<Rightarrow> process_outcome"
  ne_which :: "string \<Rightarrow> string option"
  ne_os :: "nat \<Rightarrow> os_fault"
  ne_networkd_dir :: bool
  ne_resolv :: "nat \<Rightarrow> netctl_exc + string"
  ne_loads :: "string \<Rightarrow> json option"
  ne_pick :: "string list \<Rightarrow> string"

record net_state =
  nst_trace :: "string list list"
  nst_files :: "string \<rightharpoonup> string"
  nst_modes :: "string \<rightharpoonup> nat"
  nst_n :: nat

type_synonym 'a nc = "net_state \<Rightarrow> net_state \<times> (netctl_exc + 'a)"

definition nreturn :: "'a \<Rightarrow> 'a nc" where
  "nreturn x s = (s, Inr x)"

definition nraise :: "netctl_exc \<Rightarrow> 'a nc" where
  "nraise e s = (s, Inl e)"

definition nbind :: "'a nc \<Rightarrow> ('a \<Rightarrow> 'b nc) \<Rightarrow> 'b nc" where
  "nbind m f s = (case m s of (s', Inl e) \<Rightarrow> (s', Inl e) | (s', Inr x) \<Rightarrow> f x s')"

definition nlift :: "netctl_exc + 'a \<Rightarrow> 'a nc" where
  "nlift r s = (s, r)"

definition nraw :: "net_exc + 'a \<Rightarrow> 'a nc" where
  "nraw r = nlift (case r of Inl e \<Rightarrow> Inl (NE_Raw e) | Inr x \<Rightarrow> Inr x)"

definition nwhen :: "bool \<Rightarrow> unit nc \<Rightarrow> unit nc" where
  "nwhen b m = (if b then m else nreturn ())"

text \<open>The next answer of the world.\<close>

definition nask :: "(nat \<Rightarrow> 'a) \<Rightarrow> 'a nc" where
  "nask f s = (s\<lparr>nst_n := Suc (nst_n s)\<rparr>, Inr (f (nst_n s)))"

section \<open>Commands\<close>

definition nexec :: "netctl_env \<Rightarrow> string list \<Rightarrow> process_outcome nc" where
  "nexec v argv s = (s\<lparr>nst_trace := nst_trace s @ [argv], nst_n := Suc (nst_n s)\<rparr>, Inr (ne_process v (nst_n s) argv))"

definition run_argv :: "netctl_env \<Rightarrow> string list \<Rightarrow> cmd_result nc" where
  "run_argv v argv =
     (if argv = [] \<or> list_ex (\<lambda>item. char_of (0 :: nat) \<in> set item) argv
      then nraise (netctl_error ''invalid_argv'' ''refusing invalid command'')
      else nbind (nexec v argv) (\<lambda>r. case r of
          PO_Done c out err \<Rightarrow> nreturn \<lparr>cr_argv = argv, cr_returncode = c, cr_stdout = out, cr_stderr = err\<rparr>
        | PO_NotFound \<Rightarrow> nreturn \<lparr>cr_argv = argv, cr_returncode = 127, cr_stdout = [], cr_stderr = ''not found: '' @ hd argv\<rparr>
        | PO_Timeout \<Rightarrow> nraise (netctl_error ''timeout'' (''command timed out: '' @ hd argv))
        | PO_OSError \<Rightarrow> nraise NE_OSError
        | PO_Decode \<Rightarrow> nraise NE_UnicodeDecodeError))"

text \<open>A command whose result is not used.\<close>

definition run_ignored :: "netctl_env \<Rightarrow> string list \<Rightarrow> unit nc" where
  "run_ignored v argv = nbind (run_argv v argv) (\<lambda>_. nreturn ())"

definition json_command :: "netctl_env \<Rightarrow> string list \<Rightarrow> json option nc" where
  "json_command v argv = nbind (run_argv v argv) (\<lambda>r.
     nreturn (if \<not> cmd_ok r \<or> strip (cr_stdout r) = [] then None else ne_loads v (cr_stdout r)))"

text \<open>\<^verbatim>\<open>_json_command(...) or []\<close>.\<close>

definition json_or_empty :: "json option \<Rightarrow> json" where
  "json_or_empty p = (case p of Some j \<Rightarrow> if json_truthy j then j else JList [] | None \<Rightarrow> JList [])"

definition require_ok :: "cmd_result \<Rightarrow> string \<Rightarrow> string \<Rightarrow> unit nc" where
  "require_ok r ecode message =
     (if cmd_ok r then nreturn ()
      else let detail = strip (if cr_stderr r \<noteq> [] then cr_stderr r else cr_stdout r)
        in nraise (NE_Netctl ecode (message @ (if detail \<noteq> [] then '': '' @ detail else []))
          [(''argv'', JList (map JStr (cr_argv r))), (''returncode'', JInt (cr_returncode r))]))"

section \<open>Files\<close>

definition os_ok :: "netctl_env \<Rightarrow> unit nc" where
  "os_ok v = nbind (nask (ne_os v)) (\<lambda>f. case f of OF_None \<Rightarrow> nreturn () | OF_Decode \<Rightarrow> nreturn () | _ \<Rightarrow> nraise NE_OSError)"

definition get_file :: "string \<Rightarrow> string option nc" where
  "get_file p s = (s, Inr (nst_files s p))"

definition put_text :: "string \<Rightarrow> string \<Rightarrow> unit nc" where
  "put_text p t s = (s\<lparr>nst_files := (nst_files s)(p \<mapsto> t)\<rparr>, Inr ())"

definition put_mode :: "string \<Rightarrow> nat \<Rightarrow> unit nc" where
  "put_mode p m s = (s\<lparr>nst_modes := (nst_modes s)(p \<mapsto> m)\<rparr>, Inr ())"

text \<open>Reading in text mode turns every line end into a line feed.\<close>

fun universal_newlines :: "string \<Rightarrow> string" where
  "universal_newlines [] = []"
| "universal_newlines (c # s) = (if code c = 13
     then char_of (10 :: nat) # universal_newlines (if s \<noteq> [] \<and> code (hd s) = 10 then tl s else s)
     else c # universal_newlines s)"

definition read_text :: "netctl_env \<Rightarrow> string \<Rightarrow> string nc" where
  "read_text v p = nbind (nask (ne_os v)) (\<lambda>f. case f of
     OF_None \<Rightarrow> nbind (get_file p) (\<lambda>t. case t of None \<Rightarrow> nraise NE_OSError | Some x \<Rightarrow> nreturn (universal_newlines x))
   | OF_Decode \<Rightarrow> nraise NE_UnicodeDecodeError
   | _ \<Rightarrow> nraise NE_OSError)"

definition write_text :: "netctl_env \<Rightarrow> string \<Rightarrow> string \<Rightarrow> unit nc" where
  "write_text v p t = nbind (nask (ne_os v)) (\<lambda>f. case f of
     OF_OSError \<Rightarrow> nraise NE_OSError
   | OF_Partial k \<Rightarrow> nbind (put_text p (take k t)) (\<lambda>_. nraise NE_OSError)
   | _ \<Rightarrow> put_text p t)"

definition chmod :: "netctl_env \<Rightarrow> string \<Rightarrow> nat \<Rightarrow> unit nc" where
  "chmod v p m = nbind (os_ok v) (\<lambda>_. put_mode p m)"

definition mkdir :: "netctl_env \<Rightarrow> unit nc" where
  "mkdir v = os_ok v"

text \<open>Only an \<^verbatim>\<open>OSError\<close> or an undecodable document gives no roles: a file that is not UTF-8 raises.\<close>

definition load_roles :: "netctl_env \<Rightarrow> (string \<times> string) list nc" where
  "load_roles v s = (case read_text v ROLES_PATH s of
     (s', Inl NE_OSError) \<Rightarrow> (s', Inr [])
   | (s', Inl e) \<Rightarrow> (s', Inl e)
   | (s', Inr t) \<Rightarrow> (s', Inr (case ne_loads v t of None \<Rightarrow> [] | Some j \<Rightarrow> roles_of j)))"

definition save_roles :: "netctl_env \<Rightarrow> (string \<times> string) list \<Rightarrow> unit nc" where
  "save_roles v roles = nbind (mkdir v) (\<lambda>_. nbind (write_text v ROLES_PATH (roles_text roles)) (\<lambda>_. chmod v ROLES_PATH 416))"

section \<open>The inventory\<close>

definition dns_servers :: "netctl_env \<Rightarrow> string list nc" where
  "dns_servers v = nbind (nask (ne_resolv v)) (\<lambda>r. case r of
     Inr t \<Rightarrow> nreturn (name_servers (splitlines [] t))
   | Inl NE_OSError \<Rightarrow> nreturn []
   | Inl e \<Rightarrow> nraise e)"

definition fallback_backend :: "netctl_env \<Rightarrow> string nc" where
  "fallback_backend v = nbind (get_file INTERFACES_PATH) (\<lambda>f.
     nreturn (if f \<noteq> None \<or> truthy (ne_which v ''ifup'') then ''ifupdown''
       else if ne_networkd_dir v \<or> truthy (ne_which v ''networkctl'') then ''networkd'' else ''ip''))"

definition nmcli_status_argv :: "string \<Rightarrow> string list" where
  "nmcli_status_argv nmcli = [nmcli, ''-t'', ''-f'', ''RUNNING'', ''general'', ''status'']"

definition detect_backend :: "netctl_env \<Rightarrow> string nc" where
  "detect_backend v = (case ne_which v ''nmcli'' of
     Some (c # nmcli) \<Rightarrow> nbind (run_argv v (nmcli_status_argv (c # nmcli))) (\<lambda>r.
       if cmd_ok r \<and> contains_str (lower (cr_stdout r)) ''running'' then nreturn ''nmcli'' else fallback_backend v)
   | _ \<Rightarrow> fallback_backend v)"

definition collect_inventory :: "netctl_env \<Rightarrow> nic_inventory nc" where
  "collect_inventory v =
     nbind (json_command v [''ip'', ''-j'', ''addr'']) (\<lambda>addr. nbind (json_command v [''ip'', ''-j'', ''route'']) (\<lambda>route.
       case json_or_empty addr of
         JList items \<Rightarrow>
           nbind (nraw (rbind (route_items (json_or_empty route)) default_devices)) (\<lambda>devs.
             let default_dev = (if devs = [] then None else Some (ne_pick v devs)) in
             nbind (load_roles v) (\<lambda>configured. nbind (nraw (nics_of devs items)) (\<lambda>nics.
               nbind (detect_backend v) (\<lambda>backend. nbind (dns_servers v) (\<lambda>dns.
                 nreturn \<lparr>ni_interfaces = with_roles configured default_dev nics, ni_backend = backend,
                   ni_default_route_dev = default_dev, ni_dns = dns\<rparr>)))))
       | _ \<Rightarrow> nraise (netctl_error ''discovery_failed'' ''iproute2 address JSON must be a list'')))"

definition session_interface_for :: "netctl_env \<Rightarrow> string option \<Rightarrow> string option nc" where
  "session_interface_for v client_host =
     (let host = strip (case client_host of Some h \<Rightarrow> h | None \<Rightarrow> [])
      in if host = [] \<or> host \<in> set LOOPBACK_HOSTS \<or> host \<in> {''testclient'', ''testserver''} \<or> ip_address host = None then nreturn None
         else nbind (json_command v [''ip'', ''-j'', ''route'', ''get'', host]) (\<lambda>p.
           nreturn (case p of Some (JList (JObj d # _)) \<Rightarrow>
               if json_truthy (jget d ''dev'') \<and> py_str (jget d ''dev'') \<noteq> [] then Some (py_str (jget d ''dev'')) else None
             | _ \<Rightarrow> None)))"

section \<open>Default routes of a capture interface\<close>

definition route_del_argv :: "string \<Rightarrow> json \<Rightarrow> string list" where
  "route_del_argv iface gateway = [''ip'', ''route'', ''del'', ''default'', ''dev'', iface]
     @ (if json_truthy gateway then [''via'', py_str gateway] else [])"

fun drop_routes :: "netctl_env \<Rightarrow> string \<Rightarrow> json list \<Rightarrow> unit nc" where
  "drop_routes v iface [] = nreturn ()"
| "drop_routes v iface (item # items) = nbind (case item of
     JObj d \<Rightarrow> nwhen (jget d ''dev'' = JStr iface) (run_ignored v (route_del_argv iface (jget d ''gateway'')))
   | _ \<Rightarrow> nreturn ()) (\<lambda>_. drop_routes v iface items)"

definition drop_default_via :: "netctl_env \<Rightarrow> string \<Rightarrow> unit nc" where
  "drop_default_via v iface = nbind (json_command v [''ip'', ''-j'', ''route'', ''show'', ''default'']) (\<lambda>listed.
     case json_or_empty listed of JList items \<Rightarrow> drop_routes v iface items | _ \<Rightarrow> nreturn ())"

section \<open>NetworkManager\<close>

definition partition_colon :: "string \<Rightarrow> string \<times> string" where
  "partition_colon line = (takeWhile (\<lambda>c. c \<noteq> CHR '':'') line, drop 1 (dropWhile (\<lambda>c. c \<noteq> CHR '':'') line))"

fun find_connection :: "string \<Rightarrow> string list \<Rightarrow> string option" where
  "find_connection iface [] = None"
| "find_connection iface (line # rest) = (case partition_colon line of (name, device) \<Rightarrow>
     if device = iface \<and> name \<noteq> [] then Some name else find_connection iface rest)"

definition nmcli_connection :: "netctl_env \<Rightarrow> string \<Rightarrow> string \<Rightarrow> string nc" where
  "nmcli_connection v nmcli iface =
     nbind (run_argv v [nmcli, ''-t'', ''-f'', ''NAME,DEVICE'', ''connection'', ''show'']) (\<lambda>listed.
       case (if cmd_ok listed then find_connection iface (splitlines [] (cr_stdout listed)) else None) of
         Some name \<Rightarrow> nreturn name
       | None \<Rightarrow>
           let desired = ''wirescope-'' @ iface in
           nbind (run_argv v [nmcli, ''connection'', ''add'', ''type'', ''ethernet'', ''ifname'', iface, ''con-name'', desired]) (\<lambda>added.
             if cmd_ok added \<or> contains_str (lower (cr_stderr added @ cr_stdout added)) ''already exists'' then nreturn desired
             else nbind (require_ok added ''nmcli_failed'' ''nmcli connection add failed'') (\<lambda>_. nreturn desired)))"

definition nmcli_modify :: "apply_spec \<Rightarrow> string \<Rightarrow> string \<Rightarrow> string list" where
  "nmcli_modify spec nmcli con = [nmcli, ''connection'', ''modify'', con] @
     (if aps_method spec = ''dhcp'' then [''ipv4.method'', ''auto'', ''ipv4.addresses'', [], ''ipv4.gateway'', []]
      else if aps_method spec = ''static''
      then [''ipv4.method'', ''manual'', ''ipv4.addresses'', (case aps_address spec of Some a \<Rightarrow> a | None \<Rightarrow> []), ''ipv4.gateway'',
            (if truthy (aps_gateway spec) then the (aps_gateway spec) else [])]
      else [''ipv4.method'', ''disabled'', ''ipv4.addresses'', [], ''ipv4.gateway'', []]) @
     [''ipv4.dns'', join_on '' '' (aps_dns spec)] @
     (if aps_role spec = ''capture''
      then [''ipv4.never-default'', ''yes'', ''ipv6.never-default'', ''yes'', ''ipv4.route-metric'', NMCLI_METRIC_CAPTURE]
      else [''ipv4.never-default'', ''no'', ''ipv6.never-default'', ''no'']) @
     [''connection.autoconnect'', ''yes'', ''ipv6.method'', ''ignore'']"

definition apply_nmcli :: "netctl_env \<Rightarrow> apply_spec \<Rightarrow> string list nc" where
  "apply_nmcli v spec = (case ne_which v ''nmcli'' of
     Some (c # cs) \<Rightarrow> (let nmcli = c # cs in
       nbind (nmcli_connection v nmcli (aps_interface spec)) (\<lambda>con.
       nbind (run_argv v (nmcli_modify spec nmcli con)) (\<lambda>m. nbind (require_ok m ''nmcli_failed'' ''nmcli connection modify failed'') (\<lambda>_.
       nbind (run_argv v [nmcli, ''connection'', ''up'', con]) (\<lambda>u. nbind (require_ok u ''nmcli_failed'' ''nmcli connection up failed'') (\<lambda>_.
         if aps_role spec = ''capture''
         then nbind (drop_default_via v (aps_interface spec)) (\<lambda>_. nreturn [''capture_no_default_route''])
         else nreturn []))))))
   | _ \<Rightarrow> nraise (netctl_error ''nmcli_missing'' ''nmcli is not installed''))"

section \<open>The ip tool\<close>

definition path_base :: "string \<Rightarrow> string" where
  "path_base p = (case rev (filter (\<lambda>w. w \<noteq> [] \<and> w \<noteq> ''.'') (split_on CHR ''/'' p)) of [] \<Rightarrow> [] | w # _ \<Rightarrow> w)"

definition which_or :: "netctl_env \<Rightarrow> string \<Rightarrow> string \<Rightarrow> string" where
  "which_or v name fallback = (if truthy (ne_which v name) then the (ne_which v name) else fallback)"

definition apply_ip_live :: "netctl_env \<Rightarrow> apply_spec \<Rightarrow> string list nc" where
  "apply_ip_live v spec =
     nbind (run_ignored v [''ip'', ''link'', ''set'', aps_interface spec, ''up'']) (\<lambda>_.
     nbind (run_ignored v [''ip'', ''addr'', ''flush'', ''dev'', aps_interface spec]) (\<lambda>_.
     nbind (if aps_method spec = ''static'' \<and> truthy (aps_address spec)
            then nbind (run_argv v [''ip'', ''addr'', ''add'', the (aps_address spec), ''dev'', aps_interface spec]) (\<lambda>r.
                 nbind (require_ok r ''ip_failed'' ''ip addr add failed'') (\<lambda>_.
                   nwhen (truthy (aps_gateway spec) \<and> aps_role spec = ''management'')
                     (run_ignored v [''ip'', ''route'', ''replace'', ''default'', ''via'', the (aps_gateway spec), ''dev'', aps_interface spec])))
            else if aps_method spec = ''dhcp''
            then let dhclient = which_or v ''dhclient'' (which_or v ''dhcpcd'' []) in
                 if dhclient = [] then nraise (netctl_error ''dhcp_client_missing'' ''No dhclient/dhcpcd for live DHCP'')
                 else nbind (run_argv v [dhclient, if path_base dhclient = ''dhclient'' then ''-1'' else ''-n'', aps_interface spec])
                   (\<lambda>r. require_ok r ''dhcp_failed'' ''DHCP client failed'')
            else nreturn ()) (\<lambda>_.
     nbind (nwhen (aps_role spec = ''capture'') (drop_default_via v (aps_interface spec))) (\<lambda>_.
     nreturn [''not_persistent'']))))"

text \<open>The end of the two file backends: a capture interface loses its default routes, and one without addressing its addresses.\<close>

definition finish_capture :: "netctl_env \<Rightarrow> apply_spec \<Rightarrow> string list \<Rightarrow> string list nc" where
  "finish_capture v spec warnings =
     (if aps_role spec = ''capture''
      then nbind (drop_default_via v (aps_interface spec)) (\<lambda>_.
           nbind (nwhen (aps_method spec = ''none'') (nbind (run_ignored v [''ip'', ''addr'', ''flush'', ''dev'', aps_interface spec]) (\<lambda>_.
             run_ignored v [''ip'', ''link'', ''set'', aps_interface spec, ''up'']))) (\<lambda>_.
           nreturn (warnings @ [''capture_no_default_route''])))
      else nreturn warnings)"

section \<open>ifupdown\<close>

definition opt_text :: "string option \<Rightarrow> string" where
  "opt_text a = (case a of Some t \<Rightarrow> t | None \<Rightarrow> ''None'')"

definition stanza_lines :: "apply_spec \<Rightarrow> string list" where
  "stanza_lines spec = [''auto '' @ aps_interface spec] @
     (if aps_method spec = ''dhcp''
      then [''iface '' @ aps_interface spec @ '' inet dhcp''] @ (if aps_role spec = ''capture'' then [''    metric '' @ NMCLI_METRIC_CAPTURE] else [])
      else if aps_method spec = ''static''
      then [''iface '' @ aps_interface spec @ '' inet static'', ''    address '' @ opt_text (aps_address spec)]
        @ (if truthy (aps_gateway spec) \<and> aps_role spec = ''management'' then [''    gateway '' @ the (aps_gateway spec)] else [])
        @ (if aps_dns spec \<noteq> [] then [''    dns-nameservers '' @ join_on '' '' (aps_dns spec)] else [])
      else [''iface '' @ aps_interface spec @ '' inet manual'', ''    pre-up /sbin/ip link set $IFACE up'']) @ [[]]"

definition iface_stanza :: "apply_spec \<Rightarrow> string" where
  "iface_stanza spec = join_on nl (stanza_lines spec)"

text \<open>\<^verbatim>\<open>text.splitlines(keepends=True)\<close>.\<close>

fun splitlines_keep :: "string \<Rightarrow> string \<Rightarrow> string list" where
  "splitlines_keep acc [] = (if acc = [] then [] else [rev acc])"
| "splitlines_keep acc (c # s) =
     (if line_end c then (if code c = 13 \<and> s \<noteq> [] \<and> code (hd s) = 10 then (rev acc @ [c, hd s]) # splitlines_keep [] (tl s)
        else (rev acc @ [c]) # splitlines_keep [] s)
      else splitlines_keep (c # acc) s)"

definition snippet_path :: "string \<Rightarrow> string" where
  "snippet_path iface = INTERFACES_D @ ''/wirescope-'' @ iface"

definition stanza_marker :: "string \<Rightarrow> string" where
  "stanza_marker iface = ''# WireScope manages '' @ iface @ '' in '' @ snippet_path iface"

definition names_iface :: "string \<Rightarrow> string \<Rightarrow> bool" where
  "names_iface iface line \<longleftrightarrow> (case words_of [] (strip line) of [] \<Rightarrow> False
     | w # ws \<Rightarrow> w \<in> {''auto'', ''allow-hotplug'', ''iface''} \<and> iface \<in> set (w # ws))"

text \<open>A line that ends the stanza being skipped: it is not blank, not indented, and its first word is not a lone hash sign.\<close>

definition ends_stanza :: "string \<Rightarrow> bool" where
  "ends_stanza line \<longleftrightarrow> strip line \<noteq> [] \<and> \<not> is_space (hd line) \<and> hd (words_of [] (strip line)) \<noteq> ''#''"

fun keep_lines :: "string \<Rightarrow> bool \<Rightarrow> string list \<Rightarrow> string list" where
  "keep_lines iface skipping [] = []"
| "keep_lines iface skipping (line # rest) =
     (if strip line = stanza_marker iface then keep_lines iface skipping rest
      else if names_iface iface line then keep_lines iface True rest
      else if skipping \<and> \<not> ends_stanza line then keep_lines iface True rest
      else line # keep_lines iface False rest)"

definition rstrip :: "string \<Rightarrow> string" where
  "rstrip s = rev (dropWhile is_space (rev s))"

definition strip_iface_stanzas :: "string \<Rightarrow> string \<Rightarrow> string" where
  "strip_iface_stanzas t iface =
     (let rebuilt = rstrip (concat (keep_lines iface False (splitlines_keep [] t))) @ nl
      in if contains_str rebuilt (stanza_marker iface) then rebuilt else rebuilt @ stanza_marker iface @ nl)"

definition apply_ifupdown :: "netctl_env \<Rightarrow> apply_spec \<Rightarrow> string list nc" where
  "apply_ifupdown v spec = (let iface = aps_interface spec in
     nbind (mkdir v) (\<lambda>_. nbind (get_file INTERFACES_PATH) (\<lambda>present.
     nbind (nwhen (present \<noteq> None) (nbind (read_text v INTERFACES_PATH) (\<lambda>original.
       write_text v INTERFACES_PATH (strip_iface_stanzas original iface)))) (\<lambda>_.
     nbind (write_text v (snippet_path iface) (iface_stanza spec)) (\<lambda>_.
     nbind (chmod v (snippet_path iface) 420) (\<lambda>_.
     nbind (run_ignored v [which_or v ''ifdown'' ''/sbin/ifdown'', ''--force'', iface]) (\<lambda>_.
     nbind (run_argv v [which_or v ''ifup'' ''/sbin/ifup'', iface]) (\<lambda>up.
     nbind (if cmd_ok up then nreturn [] else nbind (apply_ip_live v spec) (\<lambda>w. nreturn (w @ [''ifup_fallback_ip'']))) (\<lambda>warnings.
     finish_capture v spec warnings)))))))))"

section \<open>systemd-networkd\<close>

definition networkd_lines :: "apply_spec \<Rightarrow> string list" where
  "networkd_lines spec = [''# WireScope-managed '' @ aps_interface spec, ''[Match]'', ''Name='' @ aps_interface spec, [], ''[Network]''] @
     (if aps_method spec = ''dhcp'' then [''DHCP=ipv4''] @ (if aps_role spec = ''capture'' then [''IPv4DefaultRoute=no''] else [])
      else if aps_method spec = ''static''
      then [''DHCP=no'', ''Address='' @ opt_text (aps_address spec)]
        @ (if truthy (aps_gateway spec) \<and> aps_role spec = ''management'' then [''Gateway='' @ the (aps_gateway spec)] else [])
        @ map (\<lambda>server. ''DNS='' @ server) (aps_dns spec)
      else [''DHCP=no'', ''LinkLocalAddressing=no'']) @ [[], ''[Link]'', ''RequiredForOnline=no'', []]"

definition networkd_path :: "string \<Rightarrow> string" where
  "networkd_path iface = NETWORKD_DIR @ ''/20-wirescope-'' @ iface @ ''.network''"

definition apply_networkd :: "netctl_env \<Rightarrow> apply_spec \<Rightarrow> string list nc" where
  "apply_networkd v spec = (let iface = aps_interface spec; networkctl = which_or v ''networkctl'' ''/usr/bin/networkctl'' in
     nbind (mkdir v) (\<lambda>_.
     nbind (write_text v (networkd_path iface) (join_on nl (networkd_lines spec))) (\<lambda>_.
     nbind (run_ignored v [networkctl, ''reload'']) (\<lambda>_.
     nbind (run_ignored v [networkctl, ''reconfigure'', iface]) (\<lambda>_.
     finish_capture v spec [])))))"

section \<open>Applying a change\<close>

definition apply_backend :: "netctl_env \<Rightarrow> string \<Rightarrow> apply_spec \<Rightarrow> string list nc" where
  "apply_backend v backend spec =
     (if backend = ''nmcli'' then apply_nmcli v spec
      else if backend = ''ifupdown'' then apply_ifupdown v spec
      else if backend = ''networkd'' then apply_networkd v spec
      else apply_ip_live v spec)"

definition approve :: "nic_inventory \<Rightarrow> apply_spec \<Rightarrow> netctl_exc + unit" where
  "approve iv spec =
     (if aps_interface spec \<notin> nic_name ` set (ni_interfaces iv)
      then Inl (netctl_error ''unknown_interface'' (''Unknown network interface: '' @ aps_interface spec))
      else let safety = evaluate_safety iv spec in
        if sd_needs_confirm safety
        then Inl (NE_Netctl ''confirm_required'' ''This change needs confirmation: it may remove the last LAN IPv4 or the interface serving this GUI session''
          [(''reasons'', JList (map JStr (sd_reasons safety))), (''remaining_ipv4'', JList (map JStr (sd_remaining_ipv4 safety)))])
        else if \<not> sd_ok safety then Inl (netctl_error ''unsafe'' ''Refusing unsafe network change'')
        else Inr ())"

definition apply_configuration :: "netctl_env \<Rightarrow> apply_spec \<Rightarrow> int \<Rightarrow> bool \<Rightarrow> apply_result nc" where
  "apply_configuration v requested bind_port tls =
     nbind (nlift (validate_spec requested)) (\<lambda>spec.
     nbind (collect_inventory v) (\<lambda>iv.
     nbind (nlift (approve iv spec)) (\<lambda>_.
     nbind (apply_backend v (ni_backend iv) spec) (\<lambda>warnings.
     nbind (load_roles v) (\<lambda>roles.
     nbind (save_roles v (dict_set (aps_interface spec) (aps_role spec) roles)) (\<lambda>_.
     nbind (collect_inventory v) (\<lambda>updated.
     nreturn \<lparr>ar_inventory = updated, ar_gui_urls = gui_urls (aps_bind_host spec) bind_port (ni_interfaces updated) tls,
       ar_warnings = warnings\<rparr>)))))))"

section \<open>The command line\<close>

definition nic_to_dict :: "nic_snapshot \<Rightarrow> json" where
  "nic_to_dict nic = JObj
     [(''name'', JStr (nic_name nic)), (''mac'', nic_mac nic), (''state'', nic_state nic), (''ipv4'', JList (map JStr (nic_ipv4 nic))),
      (''ipv6'', JList (map JStr (nic_ipv6 nic))), (''addressing'', JStr (nic_addressing nic)),
      (''has_default_route'', JBool (nic_has_default_route nic)), (''role'', JStr (nic_role nic)),
      (''role_source'', JStr (nic_role_source nic)), (''is_loopback'', JBool (nic_is_loopback nic))]"

definition inventory_to_dict :: "nic_inventory \<Rightarrow> json_obj" where
  "inventory_to_dict iv =
     [(''interfaces'', JList (map nic_to_dict (ni_interfaces iv))), (''backend'', JStr (ni_backend iv)),
      (''default_route_dev'', case ni_default_route_dev iv of Some d \<Rightarrow> JStr d | None \<Rightarrow> JNull), (''dns'', JList (map JStr (ni_dns iv)))]"

text \<open>The parsed command line; the parser admits only the listed roles and methods.\<close>

datatype netctl_command = NC_List | NC_Apply apply_spec int

text \<open>The document printed to standard output with exit status 0, or the one printed to standard error with status 2.\<close>

definition netctl_main :: "netctl_env \<Rightarrow> netctl_command \<Rightarrow> (int \<times> json_obj) nc" where
  "netctl_main v command s = (case (case command of
       NC_List \<Rightarrow> nbind (collect_inventory v) (\<lambda>iv. nreturn (0, inventory_to_dict iv))
     | NC_Apply spec bind_port \<Rightarrow> nbind (apply_configuration v spec bind_port False) (\<lambda>r.
         nreturn (0, inventory_to_dict (ar_inventory r)
           @ [(''gui_urls'', JList (map JStr (ar_gui_urls r))), (''warnings'', JList (map JStr (ar_warnings r)))]))) s of
     (s', Inl (NE_Netctl ecode message details)) \<Rightarrow>
       (s', Inr (2, [(''error'', JStr ecode), (''message'', JStr message), (''details'', JObj details)]))
   | r \<Rightarrow> r)"

end
