(* ===== verification/Netctl_Text.thy ===== *)
theory Netctl_Text
  imports Netctl_Apply Ip_Roundtrip
begin

text \<open>
  The texts the network helper writes: the rewritten \<^verbatim>\<open>/etc/network/interfaces\<close>, the stanza of an interface and the unit of
  systemd-networkd.
\<close>

section \<open>Lines\<close>

lemma universal_no_cr: "c \<in> set (universal_newlines s) \<Longrightarrow> code c \<noteq> 13"
  by (induction s rule: universal_newlines.induct) (auto split: if_splits)

lemma concat_splitlines_keep: "concat (splitlines_keep acc s) = rev acc @ s"
  by (induction acc s rule: splitlines_keep.induct) (auto simp: neq_Nil_conv)

definition no_cr :: "string \<Rightarrow> bool" where
  "no_cr s \<longleftrightarrow> (\<forall>c \<in> set s. code c \<noteq> 13)"

lemma no_cr_simps [simp]: "no_cr []" "no_cr (c # s) \<longleftrightarrow> code c \<noteq> 13 \<and> no_cr s" "no_cr (s @ t) \<longleftrightarrow> no_cr s \<and> no_cr t"
  by (auto simp: no_cr_def)

lemma nl_char [simp]: "code (char_of (10 :: nat)) = 10" "line_end (char_of (10 :: nat))" "is_space (char_of (10 :: nat))"
  by (simp_all add: line_end_def is_space_def)

lemma splitlines_keep_nl:
  "no_cr u \<Longrightarrow> splitlines_keep acc (u @ nl @ s) = splitlines_keep acc (u @ nl) @ splitlines_keep [] s"
  by (induction acc u rule: splitlines_keep.induct) (simp_all add: nl_def)

lemma strip_append_space:
  assumes "list_all is_space w"
  shows "strip (u @ w) = strip u"
proof -
  have w: "dropWhile is_space (rev w @ x) = dropWhile is_space x" for x
    using assms by (intro dropWhile_append2) (auto simp: list_all_iff)
  show ?thesis
  proof (cases "\<forall>c \<in> set u. is_space c")
    case True
    then have "dropWhile is_space u = []" "dropWhile is_space (u @ w) = []"
      using assms by (simp_all only: dropWhile_eq_Nil_conv set_append list_all_iff) blast
    then show ?thesis by (simp only: strip_def)
  next
    case False
    then have "dropWhile is_space (u @ w) = dropWhile is_space u @ w" by (auto intro: dropWhile_append1)
    then show ?thesis by (simp add: strip_def w)
  qed
qed

text \<open>A condition on stripped lines that the empty line satisfies.\<close>

definition lines_all :: "(string \<Rightarrow> bool) \<Rightarrow> string \<Rightarrow> string \<Rightarrow> bool" where
  "lines_all P acc s \<longleftrightarrow> (\<forall>l \<in> set (splitlines_keep acc s). P (strip l))"

lemma first_line_spaces:
  "list_all is_space w \<Longrightarrow> no_cr w \<Longrightarrow> acc \<noteq> [] \<or> w \<noteq> [] \<Longrightarrow>
   \<exists>x ls. splitlines_keep acc w = (rev acc @ x) # ls \<and> list_all is_space x"
proof (induction acc w rule: splitlines_keep.induct)
  case (2 acc c s)
  show ?case
  proof (cases "line_end c")
    case True
    then show ?thesis using "2.prems" by auto
  next
    case False
    then have "\<exists>x ls. splitlines_keep (c # acc) s = (rev (c # acc) @ x) # ls \<and> list_all is_space x"
      using "2.IH"(3) "2.prems" by auto
    then show ?thesis using False "2.prems"(1) by auto
  qed
qed auto

lemma lines_all_truncate:
  assumes w: "list_all is_space w" "no_cr w" and P: "P []"
  shows "no_cr u \<Longrightarrow> lines_all P acc (u @ w) \<Longrightarrow> lines_all P acc u"
proof (induction acc u rule: splitlines_keep.induct)
  case (1 acc)
  show ?case
  proof (cases "acc = []")
    case False
    then obtain x ls where x: "splitlines_keep acc w = (rev acc @ x) # ls" "list_all is_space x"
      using first_line_spaces [OF w] by blast
    then have "P (strip (rev acc @ x))" using "1.prems"(2) by (simp add: lines_all_def)
    then show ?thesis using False by (simp add: lines_all_def strip_append_space [OF x(2)])
  qed (simp add: lines_all_def)
next
  case (2 acc c s)
  show ?case
  proof (cases "line_end c")
    case True
    then have "lines_all P [] s" using "2.IH"(2) "2.prems" by (auto simp: lines_all_def)
    then show ?thesis using True "2.prems" by (simp add: lines_all_def)
  next
    case False
    then show ?thesis using "2.IH"(3) "2.prems" by (simp add: lines_all_def)
  qed
qed

lemma strip_nl: "strip (u @ nl) = strip u"
  by (rule strip_append_space) (simp add: nl_def)

lemma lines_all_nl:
  assumes P: "P []"
  shows "no_cr u \<Longrightarrow> lines_all P acc u \<Longrightarrow> lines_all P acc (u @ nl)"
proof (induction acc u rule: splitlines_keep.induct)
  case (1 acc)
  have "strip nl = []" by (simp add: strip_def nl_def)
  then have "P (strip (rev acc @ nl))" using 1 P strip_nl [of "rev acc"] by (cases "acc = []") (simp_all add: lines_all_def)
  then show ?case by (simp add: lines_all_def nl_def)
next
  case (2 acc c s)
  show ?case
  proof (cases "line_end c")
    case True
    then have "lines_all P [] (s @ nl)" using "2.IH"(2) "2.prems" by (simp add: lines_all_def)
    then show ?thesis using True "2.prems" by (simp add: lines_all_def)
  next
    case False
    then have "lines_all P (c # acc) (s @ nl)" using "2.IH"(3) "2.prems" by (simp add: lines_all_def)
    then show ?thesis using False by (simp add: lines_all_def)
  qed
qed

lemma rstrip_split:
  obtains w where "s = rstrip s @ w" "list_all is_space w"
proof
  show "s = rstrip s @ rev (takeWhile is_space (rev s))"
    unfolding rstrip_def by (metis rev_append rev_rev_ident takeWhile_dropWhile_id)
  show "list_all is_space (rev (takeWhile is_space (rev s)))"
    by (auto simp: list_all_iff dest: set_takeWhileD)
qed

lemma rstrip_rstrip [simp]: "rstrip (rstrip s @ nl) = rstrip s"
  by (simp add: rstrip_def nl_def dropWhile_hd hd_dropWhile_neg)

lemma no_cr_rstrip: "no_cr s \<Longrightarrow> no_cr (rstrip s)"
  by (metis no_cr_simps(3) rstrip_split)

section \<open>The interfaces file\<close>

definition foreign_line :: "string \<Rightarrow> string \<Rightarrow> bool" where
  "foreign_line iface line \<longleftrightarrow> strip line \<noteq> stanza_marker iface \<and> \<not> names_iface iface line"

lemma names_iface_strip: "names_iface iface (strip l) = names_iface iface l"
  by (simp add: names_iface_def strip_strip)

lemma foreign_strip: "foreign_line iface (strip l) = foreign_line iface l"
  by (simp add: foreign_line_def names_iface_strip strip_strip)

lemma foreign_empty [simp]: "foreign_line iface []"
  by (simp add: foreign_line_def names_iface_def stanza_marker_def strip_def)

abbreviation foreign_text :: "string \<Rightarrow> string \<Rightarrow> bool" where
  "foreign_text iface s \<equiv> lines_all (foreign_line iface) [] s"

lemma keep_lines_foreign: "l \<in> set (keep_lines iface b ls) \<Longrightarrow> foreign_line iface l \<and> l \<in> set ls"
  by (induction iface b ls rule: keep_lines.induct) (auto simp: foreign_line_def split: if_splits)

lemma keep_lines_id: "\<forall>l \<in> set ls. foreign_line iface l \<Longrightarrow> keep_lines iface False ls = ls"
  by (induction ls) (auto simp: foreign_line_def)

lemma keep_lines_others:
  "\<forall>l \<in> set ls. \<not> names_iface iface l \<Longrightarrow> keep_lines iface False ls = filter (\<lambda>l. strip l \<noteq> stanza_marker iface) ls"
  by (induction ls) auto

text \<open>The lines that are kept are lines of the text they are joined to.\<close>

definition proper_line :: "string \<Rightarrow> bool" where
  "proper_line l \<longleftrightarrow> (\<exists>b c. l = b @ [c] \<and> line_end c \<and> (\<forall>x \<in> set b. \<not> line_end x))"

lemma splitlines_keep_word: "(\<forall>x \<in> set b. \<not> line_end x) \<Longrightarrow> splitlines_keep acc (b @ s) = splitlines_keep (rev b @ acc) s"
  by (induction b arbitrary: acc) auto

lemma splitlines_keep_proper: "proper_line l \<Longrightarrow> no_cr l \<Longrightarrow> splitlines_keep [] (l @ s) = l # splitlines_keep [] s"
  by (auto simp: proper_line_def splitlines_keep_word)

lemma splitlines_keep_lines:
  "no_cr s \<Longrightarrow> (\<forall>x \<in> set acc. \<not> line_end x) \<Longrightarrow>
   list_all proper_line (butlast (splitlines_keep acc s)) \<and>
   (\<forall>l \<in> set (splitlines_keep acc s). l \<noteq> [] \<and> (proper_line l \<or> (\<forall>x \<in> set l. \<not> line_end x)))"
proof (induction acc s rule: splitlines_keep.induct)
  case (2 acc c s)
  show ?case
  proof (cases "line_end c")
    case True
    then have p: "proper_line (rev acc @ [c])" using "2.prems"(2) unfolding proper_line_def by (metis set_rev)
    have "list_all proper_line (butlast (splitlines_keep [] s)) \<and>
       (\<forall>l \<in> set (splitlines_keep [] s). l \<noteq> [] \<and> (proper_line l \<or> (\<forall>x \<in> set l. \<not> line_end x)))"
      using True "2.IH"(2) "2.prems" by simp
    then show ?thesis using True "2.prems"(1) p by simp
  next
    case False
    then show ?thesis using "2.IH"(3) "2.prems" by simp
  qed
qed auto

lemma splitlines_keep_join:
  "list_all proper_line (butlast ls) \<Longrightarrow> (\<forall>l \<in> set ls. l \<noteq> [] \<and> no_cr l \<and> (proper_line l \<or> (\<forall>x \<in> set l. \<not> line_end x))) \<Longrightarrow>
   splitlines_keep [] (concat ls) = ls"
proof (induction ls)
  case (Cons l ls)
  show ?case
  proof (cases "ls = []")
    case True
    then show ?thesis using Cons.prems(2) splitlines_keep_proper [of l "[]"] splitlines_keep_word [of l "[]" "[]"] by auto
  next
    case False
    then show ?thesis using Cons splitlines_keep_proper [of l "concat ls"] by simp
  qed
qed simp

lemma butlast_keep_lines: "set (butlast (keep_lines iface b ls)) \<subseteq> set (butlast ls)"
proof (induction ls arbitrary: b)
  case (Cons line rest)
  show ?case
  proof (cases "rest = []")
    case False
    then show ?thesis using Cons.IH [of True] Cons.IH [of False] Cons.IH [of b] by (simp split: if_splits) blast
  qed simp
qed simp

lemma kept_text_foreign:
  assumes "no_cr t"
  shows "foreign_text iface (concat (keep_lines iface b (splitlines_keep [] t)))" (is "foreign_text _ (concat ?k)")
proof -
  note l = splitlines_keep_lines [OF assms, of "[]", simplified]
  have "set t = (\<Union>x \<in> set (splitlines_keep [] t). set x)" using arg_cong [OF concat_splitlines_keep [of "[]" t], of set] by simp
  then have c: "no_cr x" if "x \<in> set (splitlines_keep [] t)" for x using that assms unfolding no_cr_def by blast
  have "splitlines_keep [] (concat ?k) = ?k"
    by (rule splitlines_keep_join) (use l c butlast_keep_lines keep_lines_foreign in \<open>fastforce simp: list_all_iff\<close>)+
  then show ?thesis using keep_lines_foreign by (auto simp: lines_all_def foreign_strip)
qed

lemma rebuilt_foreign:
  fixes iface :: string
  assumes "no_cr t"
  defines "u \<equiv> rstrip (concat (keep_lines iface False (splitlines_keep [] t)))"
  shows "no_cr u" "foreign_text iface (u @ nl)"
proof -
  let ?k = "concat (keep_lines iface False (splitlines_keep [] t))"
  obtain w where w: "?k = u @ w" "list_all is_space w" using rstrip_split u_def by metis
  have "set ?k \<subseteq> set (concat (splitlines_keep [] t))" using keep_lines_foreign by fastforce
  then have "no_cr ?k" using assms(1) by (auto simp: concat_splitlines_keep no_cr_def)
  then have n: "no_cr u" "no_cr w" using w(1) by simp_all
  then have "foreign_text iface u"
    using lines_all_truncate [OF w(2) n(2)] kept_text_foreign [OF assms(1), of iface False] w(1) by simp
  then show "no_cr u" "foreign_text iface (u @ nl)" using n lines_all_nl by simp_all
qed

lemma keep_lines_marked:
  "\<forall>l \<in> set ls. foreign_line iface l \<Longrightarrow> strip m = stanza_marker iface \<Longrightarrow> keep_lines iface False (ls @ [m]) = ls"
  by (induction ls) (auto simp: foreign_line_def)

lemma iface_chars:
  assumes "iface_match iface" "c \<in> set iface"
  shows "\<not> is_space c \<and> \<not> line_end c \<and> code c \<noteq> 0 \<and> c \<noteq> CHR ''/''"
proof -
  have "iface_char c" using assms by (auto simp: iface_match_def list_all_iff iface_char_def split: list.splits)
  moreover have "code CHR ''.'' = 46" "code CHR ''_'' = 95" "code CHR '':'' = 58" "code CHR ''-'' = 45" "code CHR ''/'' = 47"
    by (simp_all add: code_def)
  ultimately show ?thesis by (auto simp: iface_char_def ascii_letter_def is_ascii_digit_def is_space_def line_end_def)
qed

lemma literal_chars: "\<forall>c \<in> set ''# WireScope manages /etc/network/interfaces.d/wirescope- in ''. \<not> line_end c"
  by (simp add: line_end_def code_def)

lemma marker_line:
  assumes "iface_match iface"
  shows "\<forall>c \<in> set (stanza_marker iface). \<not> line_end c" "strip (stanza_marker iface) = stanza_marker iface"
    "\<not> names_iface iface (stanza_marker iface)"
proof -
  show "\<forall>c \<in> set (stanza_marker iface). \<not> line_end c"
    using literal_chars iface_chars [OF assms] by (auto simp: stanza_marker_def snippet_path_def INTERFACES_D_def)
  have "iface \<noteq> []" using assms by (auto simp: iface_match_def)
  moreover have "hd (stanza_marker iface) = CHR ''#''" "\<not> is_space CHR ''#''" by (simp_all add: stanza_marker_def is_space_def code_def)
  moreover have "last (stanza_marker iface) = last iface" using \<open>iface \<noteq> []\<close> by (simp add: stanza_marker_def snippet_path_def)
  ultimately show s: "strip (stanza_marker iface) = stanza_marker iface"
    using strip_id [of "stanza_marker iface"] iface_chars [OF assms] last_in_set by metis
  have "\<exists>ws. words_of [] (stanza_marker iface) = ''#'' # ws" by (simp add: stanza_marker_def is_space_def code_def)
  then show "\<not> names_iface iface (stanza_marker iface)" by (auto simp: names_iface_def s)
qed

lemma rewritten_text:
  assumes "iface_match iface" "no_cr t"
  defines "t' \<equiv> strip_iface_stanzas t iface"
  shows "no_cr t'" "\<forall>l \<in> set (splitlines_keep [] t'). \<not> names_iface iface l" "contains_str t' (stanza_marker iface)"
    "strip_iface_stanzas t' iface = t'"
proof -
  let ?m = "stanza_marker iface"
  define u where "u = rstrip (concat (keep_lines iface False (splitlines_keep [] t)))"
  have u: "no_cr u" "\<forall>l \<in> set (splitlines_keep [] (u @ nl)). foreign_line iface l"
    using rebuilt_foreign [OF assms(2)] by (auto simp: u_def lines_all_def foreign_strip)
  have r: "rstrip (u @ nl) = u" by (simp add: u_def)
  have t': "t' = (if contains_str (u @ nl) ?m then u @ nl else u @ nl @ ?m @ nl)" by (simp add: t'_def strip_iface_stanzas_def u_def Let_def)
  have m: "no_cr ?m" "splitlines_keep [] (?m @ nl) = [?m @ nl]" "strip (?m @ nl) = ?m" "\<not> names_iface iface (?m @ nl)"
    using marker_line [OF assms(1)] splitlines_keep_word [of ?m "[]" nl] names_iface_strip [of iface "?m @ nl"]
    by (auto simp: nl_def strip_nl [unfolded nl_def] no_cr_def line_end_def)
  have l: "splitlines_keep [] (u @ nl @ ?m @ nl) = splitlines_keep [] (u @ nl) @ [?m @ nl]"
    by (simp add: splitlines_keep_nl [OF u(1)] m)
  show "no_cr t'" using u(1) m(1) by (simp add: t' nl_def)
  show "\<forall>l \<in> set (splitlines_keep [] t'). \<not> names_iface iface l" using u(2) m(4) by (auto simp: t' l foreign_line_def)
  show "contains_str t' ?m" unfolding t' contains_str_iff by (metis append.assoc contains_str_iff)
  have "concat (keep_lines iface False (splitlines_keep [] t')) = u @ nl"
    using keep_lines_id [OF u(2)] keep_lines_marked [OF u(2) m(3)] concat_splitlines_keep [of "[]" "u @ nl"] by (auto simp: t' l)
  then show "strip_iface_stanzas t' iface = t'" by (simp add: strip_iface_stanzas_def r t' Let_def)
qed

end
