(* ===== verification/Netctl_Frame.thy ===== *)
theory Netctl_Frame
  imports Netctl_Text
begin

text \<open>
  What the operations of the network helper may run and write. The first locale is for operations that only look: the queries of the
  inventory are allowed commands. The second one extends it with the programs and the files of a change.
\<close>

section \<open>Looking\<close>

locale net_frame =
  fixes v :: netctl_env and good :: "string list \<Rightarrow> bool" and writable :: "string \<Rightarrow> bool"
  assumes ip_queries: "good [''ip'', ''-j'', ''addr'']" "good [''ip'', ''-j'', ''route'']"
    and nmcli_query: "ne_which v ''nmcli'' = Some p \<Longrightarrow> good (nmcli_status_argv p)"
begin

definition framed :: "'a nc \<Rightarrow> bool" where
  "framed m \<longleftrightarrow> (\<forall>s. (\<exists>new. nst_trace (fst (m s)) = nst_trace s @ new \<and> list_all good new)
     \<and> (\<forall>p. nst_files (fst (m s)) p \<noteq> nst_files s p \<longrightarrow> writable p))"

lemma framed_same: "(\<And>s. nst_trace (fst (m s)) = nst_trace s) \<Longrightarrow> (\<And>s. nst_files (fst (m s)) = nst_files s) \<Longrightarrow> framed m"
  by (simp add: framed_def)

lemma framed_pure: "framed (nreturn x)" "framed (nraise e)" "framed (nlift r)" "framed (nraw r')" "framed (nask f)" "framed (get_file p)"
  "framed (put_mode p k)"
  by (rule framed_same; simp add: nreturn_def nraise_def nlift_def nraw_def nask_def get_file_def put_mode_def)+

lemma framed_bind:
  assumes m: "framed m" and f: "\<And>x. framed (f x)"
  shows "framed (nbind m f)"
  unfolding framed_def
proof
  fix s
  obtain s1 r where r: "m s = (s1, r)" by force
  obtain new where n: "nst_trace s1 = nst_trace s @ new" "list_all good new" "\<forall>p. nst_files s1 p \<noteq> nst_files s p \<longrightarrow> writable p"
    using m unfolding framed_def by (metis r fst_conv)
  show "(\<exists>new. nst_trace (fst (nbind m f s)) = nst_trace s @ new \<and> list_all good new)
     \<and> (\<forall>p. nst_files (fst (nbind m f s)) p \<noteq> nst_files s p \<longrightarrow> writable p)"
  proof (cases r)
    case (Inl e)
    then show ?thesis using n by (auto simp: nbind_def r)
  next
    case (Inr x)
    obtain new' where n': "nst_trace (fst (f x s1)) = nst_trace s1 @ new'" "list_all good new'"
      "\<forall>p. nst_files (fst (f x s1)) p \<noteq> nst_files s1 p \<longrightarrow> writable p" using f [of x] unfolding framed_def by blast
    have "nst_trace (fst (nbind m f s)) = nst_trace s @ (new @ new')" "list_all good (new @ new')"
      using n n' by (simp_all add: nbind_def r Inr)
    moreover have "\<forall>p. nst_files (fst (nbind m f s)) p \<noteq> nst_files s p \<longrightarrow> writable p"
      using n(3) n'(3) by (simp add: nbind_def r Inr) metis
    ultimately show ?thesis by blast
  qed
qed

lemma framed_when: "framed m \<Longrightarrow> framed (nwhen b m)"
  by (simp add: nwhen_def framed_pure)

lemma framed_require: "framed (require_ok r c t)"
  by (simp add: require_ok_def framed_pure Let_def)

lemma framed_exec: "good argv \<Longrightarrow> framed (nexec v argv)"
  by (simp add: framed_def nexec_def)

lemma framed_run: "good argv \<Longrightarrow> framed (run_argv v argv)"
  unfolding run_argv_def by (auto intro!: framed_bind framed_exec framed_pure split: process_outcome.split)

lemma framed_ignored: "good argv \<Longrightarrow> framed (run_ignored v argv)"
  unfolding run_ignored_def by (intro framed_bind framed_run framed_pure)

lemma framed_json: "good argv \<Longrightarrow> framed (json_command v argv)"
  unfolding json_command_def by (intro framed_bind framed_run framed_pure)

lemma framed_os_ok: "framed (os_ok v)"
  unfolding os_ok_def by (auto intro!: framed_bind framed_pure split: os_fault.split)

lemma framed_chmod: "framed (chmod v p k)" and framed_mkdir: "framed (mkdir v)"
  unfolding chmod_def mkdir_def by (intro framed_bind framed_os_ok framed_pure)+

lemma framed_read: "framed (read_text v p)"
  unfolding read_text_def by (auto intro!: framed_bind framed_pure split: os_fault.split option.split)

lemma framed_load_roles: "framed (load_roles v)"
proof -
  have "fst (load_roles v s) = fst (read_text v ROLES_PATH s)" for s
    by (auto simp: load_roles_def split: prod.split sum.split netctl_exc.split)
  then show ?thesis using framed_read by (simp add: framed_def)
qed

lemma framed_backend: "framed (detect_backend v)"
proof -
  have f: "framed (fallback_backend v)" unfolding fallback_backend_def by (intro framed_bind framed_pure)
  show ?thesis unfolding detect_backend_def
    by (auto intro!: framed_bind framed_run framed_pure f nmcli_query split: option.split list.split)
qed

lemma framed_dns: "framed (dns_servers v)"
  unfolding dns_servers_def by (auto intro!: framed_bind framed_pure split: sum.split netctl_exc.split)

lemma framed_collect: "framed (collect_inventory v)"
  unfolding collect_inventory_def Let_def
  by (auto intro!: framed_bind framed_json framed_load_roles framed_backend framed_dns framed_pure ip_queries split: json.split)

end

section \<open>Changing\<close>

definition programs :: "netctl_env \<Rightarrow> string set" where
  "programs v = {''ip'', which_or v ''ifdown'' ''/sbin/ifdown'', which_or v ''ifup'' ''/sbin/ifup'', which_or v ''networkctl'' ''/usr/bin/networkctl''}
     \<union> {p. ne_which v ''nmcli'' = Some p \<or> ne_which v ''dhclient'' = Some p \<or> ne_which v ''dhcpcd'' = Some p}"

locale net_change = net_frame +
  fixes iface :: string
  assumes allowed: "hd c \<in> programs v \<Longrightarrow> c \<noteq> [] \<Longrightarrow> good c"
    and files: "writable ROLES_PATH" "writable INTERFACES_PATH" "writable (snippet_path iface)" "writable (networkd_path iface)"
begin

lemma framed_write: "writable p \<Longrightarrow> framed (write_text v p t)"
proof -
  assume "writable p"
  then have p: "framed (put_text p t')" for t' by (simp add: framed_def put_text_def)
  show ?thesis unfolding write_text_def by (auto intro!: framed_bind framed_pure p split: os_fault.split)
qed

lemma framed_save_roles: "framed (save_roles v roles)"
  unfolding save_roles_def by (intro framed_bind framed_mkdir framed_write framed_chmod files)

lemma good_ip: "good (''ip'' # args)"
  by (rule allowed) (simp_all add: programs_def)

lemma good_nmcli: "ne_which v ''nmcli'' = Some p \<Longrightarrow> good (p # args)"
  by (rule allowed) (simp_all add: programs_def)

lemmas framed_rules = framed_bind framed_when framed_require framed_pure framed_ignored framed_run framed_json good_ip

lemma framed_drop: "framed (drop_default_via v i)"
proof -
  have "framed (drop_routes v i items)" for items
    by (induction items) (auto intro!: framed_rules simp: route_del_argv_def split: json.split)
  then show ?thesis unfolding drop_default_via_def by (auto intro!: framed_rules split: json.split)
qed

lemma framed_connection: "ne_which v ''nmcli'' = Some p \<Longrightarrow> framed (nmcli_connection v p i)"
  unfolding nmcli_connection_def Let_def by (auto intro!: framed_rules good_nmcli split: option.split)

lemma framed_nmcli: "framed (apply_nmcli v spec)"
  unfolding apply_nmcli_def Let_def
  by (auto intro!: framed_rules framed_connection framed_drop good_nmcli simp: nmcli_modify_def split: option.split list.split)

lemma framed_live: "framed (apply_ip_live v spec)"
proof -
  have d: "which_or v ''dhclient'' (which_or v ''dhcpcd'' []) \<noteq> [] \<Longrightarrow> which_or v ''dhclient'' (which_or v ''dhcpcd'' []) \<in> programs v"
    by (auto simp: which_or_def programs_def truthy_iff split: if_splits)
  show ?thesis unfolding apply_ip_live_def Let_def by (auto intro!: framed_rules framed_drop allowed d)
qed

lemma framed_finish: "framed (finish_capture v spec w)"
  unfolding finish_capture_def by (auto intro!: framed_rules framed_drop)

lemma framed_ifupdown: "aps_interface spec = iface \<Longrightarrow> framed (apply_ifupdown v spec)"
  using files unfolding apply_ifupdown_def Let_def
  by (auto intro!: framed_rules framed_mkdir framed_read framed_write framed_chmod framed_live framed_finish allowed simp: programs_def)

lemma framed_networkd: "aps_interface spec = iface \<Longrightarrow> framed (apply_networkd v spec)"
  using files unfolding apply_networkd_def Let_def
  by (auto intro!: framed_rules framed_mkdir framed_write framed_finish allowed simp: programs_def)

lemma framed_apply_backend: "aps_interface spec = iface \<Longrightarrow> framed (apply_backend v b spec)"
  unfolding apply_backend_def by (auto intro!: framed_nmcli framed_ifupdown framed_networkd framed_live)

end

section \<open>The two frames of the helper\<close>

definition is_query :: "netctl_env \<Rightarrow> string list \<Rightarrow> bool" where
  "is_query v c \<longleftrightarrow> c = [''ip'', ''-j'', ''addr''] \<or> c = [''ip'', ''-j'', ''route'']
     \<or> (case ne_which v ''nmcli'' of Some p \<Rightarrow> c = nmcli_status_argv p | None \<Rightarrow> False)"

interpretation look: net_frame v "is_query v" "\<lambda>p. False" for v
  by unfold_locales (auto simp: is_query_def)

interpretation change: net_change v "\<lambda>c. c \<noteq> [] \<and> hd c \<in> programs v"
  "\<lambda>p. p \<in> {ROLES_PATH, INTERFACES_PATH, snippet_path iface, networkd_path iface}" iface for v iface
  by unfold_locales (auto simp: programs_def nmcli_status_argv_def)

end
