(* ===== verification/Netctl_Properties.thy ===== *)
theory Netctl_Properties
  imports Netctl_Frame
begin

text \<open>
  The network helper: a change needs approval, stays within its files and programs, and its texts mean what was validated.
\<close>

section \<open>Validated requests\<close>

definition plain_ipv4 :: "string \<Rightarrow> bool" where
  "plain_ipv4 s \<longleftrightarrow> (\<forall>c \<in> set s. is_ascii_digit c \<or> c = CHR ''.'' \<or> c = CHR ''/'')"


lemma ipv4_address_plain: "ip_address s = Some a \<Longrightarrow> ip_version a = 4 \<Longrightarrow> plain_ipv4 s \<and> plain_ipv4 (ip_str a)"
proof -
  assume a: "ip_address s = Some a" "ip_version a = 4"
  have "ipv4_address s \<noteq> None" using a ipv6_address_valid [of s a] by (auto simp: ip_address_def split: option.splits)
  then have "plain_ipv4 s" using ipv4_int_chars by (force simp: plain_ipv4_def ipv4_address_def split: if_splits)
  moreover have "plain_ipv4 (ip_str a)" using a(2) ipv4_str_chars by (auto simp: plain_ipv4_def ip_str_def)
  ultimately show ?thesis by simp
qed

lemma mask_plain: "parse_mask4 s = Some k \<Longrightarrow> plain_ipv4 s"
  using ipv4_int_chars
  by (force simp: parse_mask4_def parse_prefix_def plain_ipv4_def list_all_iff bind_eq_Some_conv split: option.splits if_splits)

lemma ipv4_network_plain:
  assumes "ipv4_network strict s = Inr n"
  shows "plain_ipv4 s"
proof -
  obtain a m where sm: "split_mask s = Some (a, m)" using assms by (auto simp: ipv4_network_def split: option.splits)
  have "network_from strict (ipv4_address a) (case m of None \<Rightarrow> Some 32 | Some t \<Rightarrow> parse_mask4 t) = Inr n"
    using assms sm by (simp add: ipv4_network_def)
  then obtain x k where x: "ipv4_address a = Some x" "(case m of None \<Rightarrow> Some 32 | Some t \<Rightarrow> parse_mask4 t) = Some k"
    by (rule network_from_Inr)
  have "plain_ipv4 a" using x(1) ipv4_address_plain [of a x] ipv4_address_valid [of a x] by (simp add: ip_address_def)
  moreover have "plain_ipv4 t" if "m = Some t" for t using that x(2) mask_plain by simp
  moreover have "set (split_on CHR ''/'' s) \<subseteq> insert a (set_option m)" using sm by (auto simp: split_mask_def split: list.splits)
  ultimately have "plain_ipv4 w" if "w \<in> set (split_on CHR ''/'' s)" for w using that by (cases m) auto
  then show ?thesis using set_split_on unfolding plain_ipv4_def by metis
qed

lemma network_from_version: "network_from strict (Some a) y = Inr n \<Longrightarrow> net_version n = ip_version a"
  by (auto simp: network_from_def split: option.splits if_splits)

lemma interface_plain:
  assumes "ip_interface_network s = Some n" "net_version n = 4"
  shows "plain_ipv4 s"
proof -
  have "net_version n = 6" if n: "ipv6_network False s = Inr n"
  proof -
    obtain a m where "network_from False (ipv6_address a) m = Inr n"
      using n by (auto simp: ipv6_network_def split: option.splits)
    then show ?thesis using network_from_Inr network_from_version ipv6_address_valid by metis
  qed
  then have "ipv4_network False s = Inr n"
    using assms by (auto simp: ip_interface_network_def ip_network_def split: sum.splits net_error.splits)
  then show ?thesis by (rule ipv4_network_plain)
qed

lemma validate_dns_plain: "validate_dns ds = Inr ds' \<Longrightarrow> \<forall>d \<in> set ds'. plain_ipv4 d"
  by (induction ds arbitrary: ds') (auto dest: ipv4_address_plain split: option.splits if_splits)

text \<open>What validation leaves of a request.\<close>

lemma validate_specD:
  assumes "validate_spec spec = Inr spec'"
  shows "iface_match (aps_interface spec')" "spec' = spec\<lparr>aps_dns := aps_dns spec'\<rparr>" "aps_method spec' \<in> set METHODS"
    "aps_role spec' = ''capture'' \<or> aps_role spec' = ''management'' \<and> aps_method spec' \<noteq> ''none''"
    "\<forall>d \<in> set (aps_dns spec'). plain_ipv4 d"
    "aps_method spec' = ''static'' \<Longrightarrow> \<exists>a. aps_address spec' = Some a \<and> a \<noteq> [] \<and> plain_ipv4 a"
    "aps_method spec' = ''static'' \<Longrightarrow> truthy (aps_gateway spec') \<Longrightarrow> plain_ipv4 (the (aps_gateway spec'))"
proof -
  obtain dns where d: "validate_dns (aps_dns spec) = Inr dns" "spec' = spec\<lparr>aps_dns := dns\<rparr>" and
    v: "iface_match (aps_interface spec)" "aps_role spec \<in> set ROLES" "aps_method spec \<in> set METHODS"
      "\<not> (aps_role spec = ''management'' \<and> aps_method spec = ''none'')"
      "aps_method spec = ''static'' \<Longrightarrow> validate_static spec = Inr ()"
    using assms by (auto simp: validate_spec_def validate_interface_name_def split: if_splits)
  show "iface_match (aps_interface spec')" "spec' = spec\<lparr>aps_dns := aps_dns spec'\<rparr>" "aps_method spec' \<in> set METHODS"
    "aps_role spec' = ''capture'' \<or> aps_role spec' = ''management'' \<and> aps_method spec' \<noteq> ''none''"
    "\<forall>d \<in> set (aps_dns spec'). plain_ipv4 d"
    using v d validate_dns_plain by (auto simp: ROLES_def)
  show "\<exists>a. aps_address spec' = Some a \<and> a \<noteq> [] \<and> plain_ipv4 a" if "aps_method spec' = ''static''"
    using v(5) that d(2) by (auto simp: validate_static_def truthy_iff interface_plain split: if_splits option.splits)
  show "plain_ipv4 (the (aps_gateway spec'))" if "aps_method spec' = ''static''" "truthy (aps_gateway spec')"
    using v(5) that d(2) by (auto simp: validate_static_def ipv4_address_plain split: if_splits option.splits)
qed

section \<open>Texts\<close>



definition one_line :: "string \<Rightarrow> bool" where
  "one_line l \<longleftrightarrow> (\<forall>c \<in> set l. \<not> line_end c)"

lemma one_line_simps [simp]:
  "one_line []" "one_line (c # l) \<longleftrightarrow> \<not> line_end c \<and> one_line l" "one_line (l @ k) \<longleftrightarrow> one_line l \<and> one_line k"
  by (auto simp: one_line_def)







section \<open>Runs\<close>

lemma safety_kept:
  assumes "iface_match (aps_interface spec)" "sd_reasons (evaluate_safety iv spec) = []" "aps_role spec = ''capture'' \<or> aps_method spec \<noteq> ''none''"
    "aps_method spec \<in> set METHODS"
  shows "lan_bound (aps_bind_host spec) \<Longrightarrow> aps_method spec \<in> {''static'', ''dhcp''}
      \<or> (\<exists>nic \<in> set (ni_interfaces iv). nic_name nic \<noteq> aps_interface spec \<and> \<not> nic_is_loopback nic \<and> nic_ipv4 nic \<noteq> [])"
    "aps_session_interface spec = Some (aps_interface spec) \<Longrightarrow> aps_method spec \<noteq> ''none''"
proof -
  have n: "aps_interface spec \<noteq> []" using assms(1) by (auto simp: iface_match_def)
  show "aps_method spec \<noteq> ''none''" if "aps_session_interface spec = Some (aps_interface spec)"
    using assms(2,3) that n by (auto simp: evaluate_safety_def Let_def split: if_splits)
  assume "lan_bound (aps_bind_host spec)"
  then have "projected_ipv4 iv spec \<noteq> []" using assms(2) by (auto simp: evaluate_safety_def Let_def split: if_splits)
  then show "aps_method spec \<in> {''static'', ''dhcp''}
      \<or> (\<exists>nic \<in> set (ni_interfaces iv). nic_name nic \<noteq> aps_interface spec \<and> \<not> nic_is_loopback nic \<and> nic_ipv4 nic \<noteq> [])"
    by (force simp: projected_ipv4_def ipv4_hosts_def filter_empty_conv split: if_splits)
qed

lemma approveD:
  assumes "approve iv spec = Inr ()"
  shows "aps_interface spec \<in> nic_name ` set (ni_interfaces iv)" "aps_confirm spec \<or> sd_reasons (evaluate_safety iv spec) = []"
  using assms by (auto simp: approve_def Let_def evaluate_safety_def split: if_splits)

lemma apply_run_cases:
  obtains (invalid) e where "validate_spec spec = Inl e" "fst (apply_configuration v spec port tls s) = s"
  | (looked) spec' where "validate_spec spec = Inr spec'" "fst (apply_configuration v spec port tls s) = fst (collect_inventory v s)"
  | (approved) spec' s1 iv where "validate_spec spec = Inr spec'" "collect_inventory v s = (s1, Inr iv)" "approve iv spec' = Inr ()"
proof (cases "validate_spec spec")
  case (Inl e)
  then show thesis by (intro invalid) (auto simp: apply_configuration_def nbind_def nlift_def)
next
  case v: (Inr spec')
  obtain s1 r where c: "collect_inventory v s = (s1, r)" by force
  show thesis
  proof (cases "\<exists>iv. r = Inr iv \<and> approve iv spec' = Inr ()")
    case True
    then show thesis using approved v c by blast
  next
    case False
    then have "fst (apply_configuration v spec port tls s) = s1"
      by (auto simp: apply_configuration_def nbind_def nlift_def v c split: sum.split)
    then show thesis using looked v c by simp
  qed
qed

lemma look_run:
  "nst_files (fst (collect_inventory v s)) = nst_files s" "\<exists>new. nst_trace (fst (collect_inventory v s)) = nst_trace s @ new \<and> list_all (is_query v) new"
  using look.framed_collect [of v] unfolding look.framed_def by blast+





section \<open>Properties\<close>

definition demo_spec :: apply_spec where
  "demo_spec = \<lparr>aps_interface = ''eth0'', aps_role = ''capture'', aps_method = ''dhcp'', aps_address = None, aps_gateway = None,
     aps_dns = [''1.1.1.1''], aps_confirm = False, aps_session_interface = None, aps_bind_host = ''0.0.0.0''\<rparr>"

text \<open>A host without a network manager on which the first changing command cannot be run.\<close>

definition demo_net_env :: netctl_env where
  "demo_net_env = \<lparr>ne_process = (\<lambda>n argv. if n < 3 then PO_Done 0 ''x'' [] else PO_OSError), ne_which = (\<lambda>p. None),
     ne_os = (\<lambda>n. OF_OSError), ne_networkd_dir = False, ne_resolv = (\<lambda>n. Inl NE_OSError),
     ne_loads = (\<lambda>t. Some (JList [JObj [(''ifname'', JStr ''eth0'')]])), ne_pick = hd\<rparr>"

definition demo_net_state :: net_state where
  "demo_net_state = \<lparr>nst_trace = [], nst_files = Map.empty, nst_modes = Map.empty, nst_n = 0\<rparr>"

text \<open>
  C32. The helper changes the host only with approval. If a run of \<^verbatim>\<open>apply_configuration\<close>, with any answers of the world, changes a file
  or runs a command other than the three queries of the inventory, then the request was valid, the interface is one of the host, and
  the operator confirmed the change or, with the interface bound to the LAN, an address or a DHCP client remains on the host, and the
  interface that serves the session is not left without addressing.
\<close>

theorem network_change_approved:
  assumes "nst_files (fst (apply_configuration v spec port tls s)) p \<noteq> nst_files s p \<or>
    (c \<in> set (drop (length (nst_trace s)) (nst_trace (fst (apply_configuration v spec port tls s)))) \<and> \<not> is_query v c)"
  shows "\<exists>spec' s1 iv. validate_spec spec = Inr spec' \<and> collect_inventory v s = (s1, Inr iv)
    \<and> aps_interface spec \<in> nic_name ` set (ni_interfaces iv)
    \<and> (aps_confirm spec \<or>
       (lan_bound (aps_bind_host spec) \<longrightarrow> aps_method spec \<in> {''static'', ''dhcp''}
          \<or> (\<exists>nic \<in> set (ni_interfaces iv). nic_name nic \<noteq> aps_interface spec \<and> \<not> nic_is_loopback nic \<and> nic_ipv4 nic \<noteq> []))
       \<and> (aps_session_interface spec = Some (aps_interface spec) \<longrightarrow> aps_method spec \<noteq> ''none''))"
proof (cases rule: apply_run_cases [of spec v port tls s])
  case (approved spec' s1 iv)
  note d = validate_specD [OF approved(1)]
  obtain ds where e: "spec' = spec\<lparr>aps_dns := ds\<rparr>" using d(2) by blast
  have f: "aps_interface spec' = aps_interface spec" "aps_confirm spec' = aps_confirm spec" "aps_role spec' = aps_role spec"
    "aps_method spec' = aps_method spec" "aps_session_interface spec' = aps_session_interface spec"
    "aps_bind_host spec' = aps_bind_host spec" "projected_ipv4 iv spec' = projected_ipv4 iv spec" by (simp_all add: e projected_ipv4_def)
  have "evaluate_safety iv spec' = evaluate_safety iv spec" unfolding evaluate_safety_def f by (rule refl)
  then have a: "aps_interface spec \<in> nic_name ` set (ni_interfaces iv)" "aps_confirm spec \<or> sd_reasons (evaluate_safety iv spec) = []"
    using f approveD [OF approved(3)] by simp_all
  have m: "iface_match (aps_interface spec)" "aps_role spec = ''capture'' \<or> aps_method spec \<noteq> ''none''" "aps_method spec \<in> set METHODS"
    using d(1,3,4) by (simp_all add: e) blast
  show ?thesis using approved(1,2) a safety_kept [OF m(1) _ m(2,3), of iv] by blast
next
  case (looked spec')
  then show ?thesis using assms look_run [of v s] by (auto simp: list_all_iff)
qed (use assms in simp)

lemma demo_run:
  "nst_trace (fst (apply_configuration demo_net_env demo_spec 8000 False demo_net_state)) =
   [[''ip'', ''-j'', ''addr''], [''ip'', ''-j'', ''route''], [''ip'', ''link'', ''set'', ''eth0'', ''up'']]"
  by code_simp

theorem network_change_approved_witness:
  "\<exists>spec' s1 iv. validate_spec demo_spec = Inr spec' \<and> collect_inventory demo_net_env demo_net_state = (s1, Inr iv)
    \<and> ''eth0'' \<in> nic_name ` set (ni_interfaces iv)"
proof -
  have "[''ip'', ''link'', ''set'', ''eth0'', ''up''] \<in> set (drop (length (nst_trace demo_net_state))
     (nst_trace (fst (apply_configuration demo_net_env demo_spec 8000 False demo_net_state))))"
    unfolding demo_run by (simp add: demo_net_state_def)
  moreover have "\<not> is_query demo_net_env [''ip'', ''link'', ''set'', ''eth0'', ''up'']" by (simp add: is_query_def demo_net_env_def)
  moreover have "aps_interface demo_spec = ''eth0''" by (simp add: demo_spec_def)
  ultimately show ?thesis using network_change_approved [of demo_net_env demo_spec 8000 False demo_net_state] by metis
qed



text \<open>
  Rewriting \<^verbatim>\<open>/etc/network/interfaces\<close>: whatever the file holds, no line of the result starts a stanza of the interface or brings
  it up, the marker is there, and rewriting again changes nothing. If the file never mentions the interface in such a line, every line but
  earlier markers is kept.
\<close>

lemma interfaces_rewrite:
  assumes "iface_match iface"
  shows "(\<forall>l \<in> set (splitlines_keep [] (strip_iface_stanzas (universal_newlines t) iface)). \<not> names_iface iface l)
    \<and> contains_str (strip_iface_stanzas (universal_newlines t) iface) (stanza_marker iface)
    \<and> strip_iface_stanzas (strip_iface_stanzas (universal_newlines t) iface) iface = strip_iface_stanzas (universal_newlines t) iface
    \<and> ((\<forall>l \<in> set (splitlines_keep [] (universal_newlines t)). \<not> names_iface iface l) \<longrightarrow>
        (\<exists>rest. strip_iface_stanzas (universal_newlines t) iface =
          rstrip (concat (filter (\<lambda>l. strip l \<noteq> stanza_marker iface) (splitlines_keep [] (universal_newlines t)))) @ nl @ rest))"
proof -
  have n: "no_cr (universal_newlines t)" using universal_no_cr by (auto simp: no_cr_def)
  have "\<exists>rest. strip_iface_stanzas (universal_newlines t) iface =
      rstrip (concat (filter (\<lambda>l. strip l \<noteq> stanza_marker iface) (splitlines_keep [] (universal_newlines t)))) @ nl @ rest"
    if "\<forall>l \<in> set (splitlines_keep [] (universal_newlines t)). \<not> names_iface iface l"
    by (simp add: strip_iface_stanzas_def Let_def keep_lines_others [OF that])
  then show ?thesis using rewritten_text [OF assms n] by blast
qed

lemma interfaces_rewrite_example:
  "strip_iface_stanzas (strip_iface_stanzas (universal_newlines ''auto eth0 eth1'') ''eth0'') ''eth0''
     = strip_iface_stanzas (universal_newlines ''auto eth0 eth1'') ''eth0''"
proof -
  have "iface_match ''eth0''" by code_simp
  then show ?thesis using interfaces_rewrite [of "''eth0''" "''auto eth0 eth1''"] by blast
qed

text \<open>Two effects of the rewriting on other interfaces: a line that names several interfaces is dropped for all of them, and options
  that are not indented stay behind without their stanza.\<close>

lemma rewrite_drops_shared_auto: "keep_lines ''eth0'' False [''auto eth0 eth1''] = []"
  by code_simp

lemma rewrite_keeps_flat_options:
  "keep_lines ''eth0'' False [''iface eth0 inet static'', ''address 10.0.0.1'', ''gateway 10.0.0.254''] = [''address 10.0.0.1'', ''gateway 10.0.0.254'']"
  by code_simp

end
