(* ===== verification/Network_Service.thy ===== *)
theory Network_Service
  imports Netctl_Properties
begin

text \<open>
  The unprivileged side of the network configuration (\<^verbatim>\<open>engine/network.py\<close>): the service checks a request itself and has the helper
  apply it through \<^verbatim>\<open>sudo\<close>. What the helper prints is read back; the payload is given as the document the service returns.
\<close>

section \<open>Settings and the list\<close>

record net_settings =
  nt_bind_host :: string
  nt_bind_port :: int
  nt_tls_enabled :: bool
  nt_netctl_binary :: string
  nt_use_sudo :: bool

definition list_payload :: "netctl_env \<Rightarrow> net_settings \<Rightarrow> json_obj nc" where
  "list_payload v g = nbind (collect_inventory v) (\<lambda>iv. nreturn (inventory_to_dict iv @
     [(''bind_host'', JStr (nt_bind_host g)), (''bind_port'', JInt (nt_bind_port g)),
      (''lan_bound'', JBool (nt_bind_host g \<notin> {''127.0.0.1'', ''localhost'', ''::1''})),
      (''gui_urls'', JList (map JStr (gui_urls (nt_bind_host g) (nt_bind_port g) (ni_interfaces iv) (nt_tls_enabled g))))]))"

section \<open>The helper's command line\<close>

definition opt_arg :: "string \<Rightarrow> string option \<Rightarrow> string list" where
  "opt_arg flag x = (if truthy x then [flag, the x] else [])"

definition sudo_argv :: "netctl_env \<Rightarrow> net_settings \<Rightarrow> apply_spec \<Rightarrow> string list" where
  "sudo_argv v g spec = [which_or v ''sudo'' ''/usr/bin/sudo'', ''-n'', nt_netctl_binary g, ''apply'', ''--interface'', aps_interface spec,
       ''--role'', aps_role spec, ''--method'', aps_method spec, ''--bind-host'', aps_bind_host spec, ''--bind-port'', int_str (nt_bind_port g)]
     @ opt_arg ''--address'' (aps_address spec) @ opt_arg ''--gateway'' (aps_gateway spec)
     @ concat (map (\<lambda>server. [''--dns'', server]) (aps_dns spec))
     @ (if aps_confirm spec then [''--confirm''] else []) @ opt_arg ''--session-interface'' (aps_session_interface spec)"

section \<open>The helper's answer\<close>

definition parse_error_json :: "netctl_env \<Rightarrow> string \<Rightarrow> json_obj option" where
  "parse_error_json v t = (let t' = strip t in if \<not> starts_with t' ''{'' then None
     else case ne_loads v t' of Some (JObj d) \<Rightarrow> Some d | _ \<Rightarrow> None)"

text \<open>\<^verbatim>\<open>list(d.get(k) or [])\<close>.\<close>

definition list_or_empty :: "json_obj \<Rightarrow> string \<Rightarrow> net_exc + json list" where
  "list_or_empty d k = (if json_truthy (jget d k) then list_field d k else Inr [])"

definition str_or :: "json \<Rightarrow> string \<Rightarrow> string" where
  "str_or j dflt = (if json_truthy j then py_str j else dflt)"

text \<open>The exception for a failed helper. A message that is not text is kept by its text, details that are no object under a key of their own.\<close>

definition helper_failure :: "netctl_env \<Rightarrow> cmd_result \<Rightarrow> netctl_exc" where
  "helper_failure v r =
     (let err = cr_stderr r; out = cr_stdout r; both = (if err \<noteq> [] then err else if out \<noteq> [] then out else ''netctl failed'');
          payload = (case parse_error_json v err of Some (x # xs) \<Rightarrow> Some (x # xs) | _ \<Rightarrow> parse_error_json v out)
      in case payload of
           Some (x # xs) \<Rightarrow>
             (let d = x # xs; details = (if json_truthy (jget d ''details'') then jget d ''details'' else JObj [])
              in if jget d ''error'' = JStr ''confirm_required''
                 then case details of
                     JObj e \<Rightarrow> (case (list_or_empty e ''reasons'', list_or_empty e ''remaining_ipv4'') of
                         (Inr rs, Inr ips) \<Rightarrow> NE_Netctl ''confirm_required'' (str_or (jget d ''message'') ''Confirmation required'')
                           [(''reasons'', JList rs), (''remaining_ipv4'', JList ips)]
                       | _ \<Rightarrow> NE_Raw NX_TypeError)
                   | _ \<Rightarrow> NE_Raw NX_AttributeError
                 else NE_Netctl (str_or (jget d ''error'') ''netctl_failed'') (str_or (jget d ''message'') both)
                   (case details of JObj e \<Rightarrow> e | _ \<Rightarrow> [(''details'', details)]))
         | _ \<Rightarrow> netctl_error ''netctl_failed'' (if strip both \<noteq> [] then strip both else ''netctl failed''))"

definition helper_nic :: "json \<Rightarrow> net_exc + json" where
  "helper_nic item = (case item of
     JObj d \<Rightarrow> if ''name'' \<notin> fst ` set d then Inl NX_KeyError
       else rbind (list_or_empty d ''ipv4'') (\<lambda>four. rbind (list_or_empty d ''ipv6'') (\<lambda>six. Inr (JObj
         [(''name'', JStr (py_str (jget d ''name''))), (''mac'', jget d ''mac''), (''state'', jget d ''state''), (''ipv4'', JList four),
          (''ipv6'', JList six), (''addressing'', JStr (str_or (jget d ''addressing'') ''none'')),
          (''has_default_route'', JBool (json_truthy (jget d ''has_default_route''))), (''role'', JStr (str_or (jget d ''role'') ''unknown'')),
          (''role_source'', JStr (str_or (jget d ''role_source'') ''inferred'')), (''is_loopback'', JBool (json_truthy (jget d ''is_loopback'')))])))
   | _ \<Rightarrow> Inl NX_TypeError)"

fun helper_nics :: "json list \<Rightarrow> net_exc + json list" where
  "helper_nics [] = Inr []"
| "helper_nics (item # items) = rbind (helper_nic item) (\<lambda>n. rbind (helper_nics items) (\<lambda>rest. Inr (n # rest)))"

text \<open>The inventory, the addresses and the warnings of the helper's document, as the service returns them.\<close>

definition helper_payload :: "json \<Rightarrow> net_exc + json_obj" where
  "helper_payload body = (case body of
     JObj d \<Rightarrow> rbind (rbind (list_or_empty d ''interfaces'') helper_nics) (\<lambda>nics. rbind (list_or_empty d ''dns'') (\<lambda>dns.
       rbind (list_or_empty d ''gui_urls'') (\<lambda>urls. rbind (list_or_empty d ''warnings'') (\<lambda>warnings. Inr
         [(''interfaces'', JList nics), (''backend'', JStr (str_or (jget d ''backend'') ''unknown'')),
          (''default_route_dev'', jget d ''default_route_dev''), (''dns'', JList dns), (''gui_urls'', JList urls), (''warnings'', JList warnings)]))))
   | _ \<Rightarrow> Inl NX_AttributeError)"

definition sudo_apply :: "netctl_env \<Rightarrow> net_settings \<Rightarrow> apply_spec \<Rightarrow> json_obj nc" where
  "sudo_apply v g spec = nbind (run_argv v (sudo_argv v g spec)) (\<lambda>r.
     if \<not> cmd_ok r then nraise (helper_failure v r)
     else case ne_loads v (if cr_stdout r \<noteq> [] then cr_stdout r else ''{}'') of
       None \<Rightarrow> nraise (NE_Raw NX_ValueError)
     | Some body \<Rightarrow> nraw (helper_payload body))"

section \<open>Applying a request\<close>

definition result_payload :: "apply_result \<Rightarrow> json_obj" where
  "result_payload r = inventory_to_dict (ar_inventory r)
     @ [(''gui_urls'', JList (map JStr (ar_gui_urls r))), (''warnings'', JList (map JStr (ar_warnings r)))]"

definition confirm_exc :: "safety_decision \<Rightarrow> netctl_exc" where
  "confirm_exc d = NE_Netctl ''confirm_required'' ''This change needs confirmation: it may remove the last LAN IPv4 or the interface serving this GUI session''
     [(''reasons'', JList (map JStr (sd_reasons d))), (''remaining_ipv4'', JList (map JStr (sd_remaining_ipv4 d)))]"

text \<open>The request with the service's own bind host, and the session's interface when the client gave none.\<close>

definition complete_spec :: "netctl_env \<Rightarrow> net_settings \<Rightarrow> string option \<Rightarrow> apply_spec \<Rightarrow> apply_spec nc" where
  "complete_spec v g client spec =
     (let own = spec\<lparr>aps_bind_host := nt_bind_host g\<rparr>
      in if truthy (aps_session_interface own) then nreturn own
         else nbind (session_interface_for v client) (\<lambda>i. nreturn (own\<lparr>aps_session_interface := i\<rparr>)))"

definition service_apply :: "netctl_env \<Rightarrow> net_settings \<Rightarrow> string option \<Rightarrow> apply_spec \<Rightarrow> json_obj nc" where
  "service_apply v g client requested =
     nbind (nlift (validate_spec requested)) (\<lambda>valid. nbind (complete_spec v g client valid) (\<lambda>spec.
     nbind (collect_inventory v) (\<lambda>iv.
       if sd_needs_confirm (evaluate_safety iv spec) then nraise (confirm_exc (evaluate_safety iv spec))
       else nbind (if nt_use_sudo g then sudo_apply v g spec
              else nbind (apply_configuration v spec (nt_bind_port g) (nt_tls_enabled g)) (\<lambda>r. nreturn (result_payload r))) (\<lambda>payload.
         nreturn (payload @ [(''bind_host'', JStr (nt_bind_host g)), (''bind_port'', JInt (nt_bind_port g))])))))"

section \<open>Reading back\<close>

lemma list_or_empty_list: "map_of d k = Some (JList xs) \<Longrightarrow> list_or_empty d k = Inr xs"
  by (simp add: list_or_empty_def list_field_def jget_def)

definition named_nic :: "nic_snapshot \<Rightarrow> bool" where
  "named_nic nic \<longleftrightarrow> nic_addressing nic \<noteq> [] \<and> nic_role nic \<noteq> [] \<and> nic_role_source nic \<noteq> []"

lemma helper_nic_dict: "named_nic nic \<Longrightarrow> helper_nic (nic_to_dict nic) = Inr (nic_to_dict nic)"
  by (simp add: helper_nic_def nic_to_dict_def named_nic_def list_or_empty_list jget_def str_or_def py_str_def)

lemma helper_nics_dict: "\<forall>nic \<in> set nics. named_nic nic \<Longrightarrow> helper_nics (map nic_to_dict nics) = Inr (map nic_to_dict nics)"
  by (induction nics) (simp_all add: helper_nic_dict)

lemma helper_payload_result:
  assumes "\<forall>nic \<in> set (ni_interfaces (ar_inventory r)). named_nic nic" "ni_backend (ar_inventory r) \<noteq> []"
  shows "helper_payload (JObj (result_payload r)) = Inr (result_payload r)"
  using assms
  by (simp add: helper_payload_def result_payload_def inventory_to_dict_def list_or_empty_list helper_nics_dict jget_def str_or_def py_str_def)

lemma nic_of_named: "nic_of devs d = Inr nic \<Longrightarrow> nic_addressing nic \<noteq> []"
  by (auto simp: nic_of_def addressing_from_addr_info_def Let_def split: if_splits)

lemma nics_of_named: "nics_of devs items = Inr nics \<Longrightarrow> \<forall>nic \<in> set nics. nic_addressing nic \<noteq> []"
  by (induction items arbitrary: nics) (auto dest: nic_of_named split: json.splits if_splits)

lemma roles_of_named: "p \<in> set (roles_of j) \<Longrightarrow> snd p \<noteq> []"
  by (auto simp: roles_of_def List.map_filter_def ROLES_def split: json.splits if_splits)

lemma infer_role_named: "\<forall>p \<in> set configured. snd p \<noteq> [] \<Longrightarrow> infer_role nic configured dev k = (role, src) \<Longrightarrow> role \<noteq> [] \<and> src \<noteq> []"
  by (auto simp: infer_role_def dest!: map_of_SomeD split: option.splits if_splits)

lemma with_roles_named:
  "\<forall>p \<in> set configured. snd p \<noteq> [] \<Longrightarrow> \<forall>nic \<in> set nics. nic_addressing nic \<noteq> [] \<Longrightarrow> nic \<in> set (with_roles configured dev nics) \<Longrightarrow> named_nic nic"
  by (auto simp: with_roles_def Let_def named_nic_def split: prod.splits) (metis infer_role_named)+

lemma nbind_Inr: "nbind m f s = (s', Inr y) \<longleftrightarrow> (\<exists>s1 x. m s = (s1, Inr x) \<and> f x s1 = (s', Inr y))"
  by (auto simp: nbind_def split: prod.splits sum.splits)

lemma load_roles_named: "load_roles v s = (s', Inr roles) \<Longrightarrow> \<forall>p \<in> set roles. snd p \<noteq> []"
  by (auto simp: load_roles_def dest: roles_of_named split: prod.splits sum.splits netctl_exc.splits option.splits)

lemma detect_backend_named: "detect_backend v s = (s', Inr b) \<Longrightarrow> b \<noteq> []"
  by (auto simp: detect_backend_def fallback_backend_def nbind_Inr nreturn_def split: option.splits list.splits if_splits)

lemma collect_named:
  assumes "collect_inventory v s = (s', Inr iv)"
  shows "\<forall>nic \<in> set (ni_interfaces iv). named_nic nic" "ni_backend iv \<noteq> []"
proof -
  obtain s0 s1 addr route where a: "json_command v [''ip'', ''-j'', ''addr''] s = (s0, Inr addr)"
    "json_command v [''ip'', ''-j'', ''route''] s0 = (s1, Inr route)"
    using assms unfolding collect_inventory_def nbind_Inr by blast
  obtain items where l: "json_or_empty addr = JList items"
    using assms a by (cases "json_or_empty addr") (auto simp: collect_inventory_def nbind_def nraise_def)
  obtain s2 s3 s4 devs configured nics b dns dev where
    c: "load_roles v s1 = (s2, Inr configured)" "nics_of devs items = Inr nics" "detect_backend v s3 = (s4, Inr b)"
      "iv = \<lparr>ni_interfaces = with_roles configured dev nics, ni_backend = b, ni_default_route_dev = dev, ni_dns = dns\<rparr>"
    using assms a l by (auto simp: collect_inventory_def nbind_Inr Let_def nreturn_def nraw_def nlift_def split: sum.splits)
  show "\<forall>nic \<in> set (ni_interfaces iv). named_nic nic" "ni_backend iv \<noteq> []"
    using with_roles_named [OF load_roles_named [OF c(1)] nics_of_named [OF c(2)]] detect_backend_named [OF c(3)] by (simp_all add: c(4))
qed

text \<open>
  C34. What the helper prints is what the service returns: whenever the helper ends a change with status 0, the service's reading of
  the printed document gives that document back, entry by entry.
\<close>

theorem service_reads_helper:
  assumes "netctl_main v (NC_Apply spec port) s = (s', Inr (0, document))"
  shows "helper_payload (JObj document) = Inr document"
proof -
  obtain r where r: "apply_configuration v spec port False s = (s', Inr r)" "document = result_payload r"
    using assms by (auto simp: netctl_main_def nbind_def nreturn_def result_payload_def split: prod.splits sum.splits netctl_exc.splits)
  then obtain s1 where "collect_inventory v s1 = (s', Inr (ar_inventory r))"
    by (auto simp: apply_configuration_def nbind_Inr nreturn_def)
  then show ?thesis using helper_payload_result [of r] collect_named r(2) by simp
qed

definition calm_net_env :: netctl_env where
  "calm_net_env = demo_net_env\<lparr>ne_process := (\<lambda>n argv. PO_Done 0 ''x'' []), ne_which := (\<lambda>p. if p = ''dhclient'' then Some ''/sbin/dhclient'' else None),
     ne_os := (\<lambda>n. OF_None)\<rparr>"

lemma calm_run: "\<not> isl (snd (netctl_main calm_net_env (NC_Apply demo_spec 8000) demo_net_state))"
  "fst (projr (snd (netctl_main calm_net_env (NC_Apply demo_spec 8000) demo_net_state))) = 0"
  by code_simp+

theorem service_reads_helper_witness:
  "\<exists>s' document. netctl_main calm_net_env (NC_Apply demo_spec 8000) demo_net_state = (s', Inr (0, document))
     \<and> helper_payload (JObj document) = Inr document"
proof -
  obtain s' document where "netctl_main calm_net_env (NC_Apply demo_spec 8000) demo_net_state = (s', Inr (0, document))"
    using calm_run by (cases "netctl_main calm_net_env (NC_Apply demo_spec 8000) demo_net_state"; cases "snd (netctl_main calm_net_env (NC_Apply demo_spec 8000) demo_net_state)") auto
  then show ?thesis using service_reads_helper by blast
qed

end
