(* ===== verification/Pcap_Import.thy ===== *)
theory Pcap_Import
  imports Evidence_Store
begin

text \<open>
  Operator-supplied captures: the checks of a staged file (\<^verbatim>\<open>storage/pcap_import.py\<close>) and the worker that stores it
  (\<^verbatim>\<open>jobs/handlers/imported_capture.py\<close>), over the files and rows of the evidence store. Bytes are characters. \<open>ie_gunzip\<close> is what
  \<^verbatim>\<open>gzip\<close> gives for a file: the chunks of its reads, and whether the stream ends well after them; \<open>ie_unquote\<close> is
  \<^verbatim>\<open>urllib.parse.unquote\<close>. A call of the operating system that fails in a run is given by \<open>ie_fails\<close> with the text of its error. File
  names are over code points below 256, where the Cyrillic letters the program also allows do not occur.
\<close>

section \<open>Data\<close>

record pcap_info =
  pi_format :: string
  pi_extension :: string
  pi_content_type :: string
  pi_size :: nat
  pi_sha256 :: string
  pi_capture_size :: nat
  pi_capture_sha256 :: string
  pi_compression :: "string option"

datatype import_exc =
    IX_Validation string string
  | IX_Job job_error
  | IX_Evidence ev_error
  | IX_OSError string
  | IX_RuntimeError string
  | IX_ValueError
  | IX_TypeError
  | IX_Report string

datatype import_call = IC_MKDIR | IC_STAT | IC_OPEN | IC_GZIP_OPEN | IC_DEST_OPEN | IC_DEST_CHMOD | IC_DEST_WRITE | IC_DEST_FSYNC
  | IC_DEST_STAT | IC_DEST_READ | IC_UNLINK_DEST | IC_UNLINK_NORMALIZED | IC_UNLINK_STAGING

record gzip_stream =
  gs_chunks :: "string list"
  gs_complete :: bool

record import_env =
  ie_ev :: ev_env
  ie_gunzip :: "string \<Rightarrow> gzip_stream"
  ie_unquote :: "string \<Rightarrow> string"
  ie_fails :: "import_call \<Rightarrow> string option"
  ie_written :: nat
  ie_now :: int

section \<open>Names\<close>

definition safe_name_char :: "char \<Rightarrow> bool" where
  "safe_name_char c \<longleftrightarrow> 65 \<le> code c \<and> code c \<le> 90 \<or> 97 \<le> code c \<and> code c \<le> 122 \<or> is_ascii_digit c \<or> c \<in> set ''._ ()+-''"

text \<open>\<^verbatim>\<open>_SAFE_NAME.sub("_", text)\<close>: a run of other characters gives one underscore. The flag says that such a run is open.\<close>

fun sub_unsafe :: "bool \<Rightarrow> string \<Rightarrow> string" where
  "sub_unsafe b [] = []"
| "sub_unsafe b (c # s) = (if safe_name_char c then c # sub_unsafe False s
     else if b then sub_unsafe True s else CHR ''_'' # sub_unsafe True s)"

text \<open>\<^verbatim>\<open>re.sub(r"\s+", " ", text)\<close>.\<close>

fun squeeze_spaces :: "bool \<Rightarrow> string \<Rightarrow> string" where
  "squeeze_spaces b [] = []"
| "squeeze_spaces b (c # s) = (if \<not> is_space c then c # squeeze_spaces False s
     else if b then squeeze_spaces True s else CHR '' '' # squeeze_spaces True s)"

definition strip_dots :: "string \<Rightarrow> string" where
  "strip_dots s = rstrip_dots (dropWhile (\<lambda>c. c = CHR ''.'') s)"

definition sanitize_original_filename :: "(string \<Rightarrow> string) \<Rightarrow> string option \<Rightarrow> string" where
  "sanitize_original_filename unquote raw =
     (let decoded = map (\<lambda>c. if c = CHR 0x5C then CHR ''/'' else c) (unquote (case raw of Some r \<Rightarrow> r | None \<Rightarrow> []));
          base = strip_dots (strip (last (split_on CHR ''/'' decoded)));
          name = strip (squeeze_spaces False (sub_unsafe False base))
      in if name = [] then ''imported-capture'' else take 128 name)"

definition call_ok :: "import_env \<Rightarrow> import_call \<Rightarrow> import_exc + unit" where
  "call_ok v c = (case ie_fails v c of Some t \<Rightarrow> Inl (IX_OSError t) | None \<Rightarrow> Inr ())"

definition import_staging_path :: "import_env \<Rightarrow> path \<Rightarrow> string \<Rightarrow> import_exc + path" where
  "import_staging_path v root token = (case uuid_parse token of
     None \<Rightarrow> Inl (IX_Validation ''invalid_import_token'' ''Import staging token is invalid'')
   | Some parsed \<Rightarrow>
       if uuid_str parsed \<noteq> token then Inl (IX_Validation ''invalid_import_token'' ''Import staging token is invalid'')
       else let directory = ev_realpath (ie_ev v) (root @ [''_imports'']) in
         if \<not> is_relative_to directory (ev_realpath (ie_ev v) root)
         then Inl (IX_Validation ''unsafe_import_path'' ''Import staging directory escaped evidence storage'')
         else rbind (call_ok v IC_MKDIR) (\<lambda>_. Inr (directory @ [''pcap.tmp-'' @ uuid_str parsed])))"

section \<open>Formats\<close>

definition bytes_of :: "nat list \<Rightarrow> string" where
  "bytes_of ns = map char_of ns"

definition PCAP_MAGIC :: "string list" where
  "PCAP_MAGIC = map bytes_of [[0xd4, 0xc3, 0xb2, 0xa1], [0xa1, 0xb2, 0xc3, 0xd4], [0x4d, 0x3c, 0xb2, 0xa1], [0xa1, 0xb2, 0x3c, 0x4d],
     [0x34, 0xcd, 0xb2, 0xa1], [0xa1, 0xb2, 0xcd, 0x34]]"

definition PCAPNG_MAGIC :: string where
  "PCAPNG_MAGIC = bytes_of [0x0a, 0x0d, 0x0d, 0x0a]"

definition PCAPNG_BOM_LE :: string where
  "PCAPNG_BOM_LE = bytes_of [0x4d, 0x3c, 0x2b, 0x1a]"

definition PCAPNG_BOM_BE :: string where
  "PCAPNG_BOM_BE = bytes_of [0x1a, 0x2b, 0x3c, 0x4d]"

definition GZIP_MAGIC :: string where
  "GZIP_MAGIC = bytes_of [0x1f, 0x8b, 0x08]"

text \<open>\<^verbatim>\<open>int.from_bytes\<close>.\<close>

definition from_bytes :: "bool \<Rightarrow> string \<Rightarrow> nat" where
  "from_bytes little s = undigits 256 (map code (if little then rev s else s))"

definition slice :: "nat \<Rightarrow> nat \<Rightarrow> string \<Rightarrow> string" where
  "slice a b s = take (b - a) (drop a s)"

definition invalid_pcap :: "string \<Rightarrow> import_exc" where
  "invalid_pcap message = IX_Validation ''pcap_import_invalid'' message"

definition detect_format :: "string \<Rightarrow> nat \<Rightarrow> import_exc + string \<times> string \<times> string" where
  "detect_format header sz =
     (if take 4 header \<in> set PCAP_MAGIC
      then if sz < 24 \<or> length header < 24 then Inl (IX_Validation ''pcap_import_truncated'' ''Classic PCAP header is truncated'')
        else Inr (''pcap'', ''.pcap'', ''application/vnd.tcpdump.pcap'')
      else if take 4 header = PCAPNG_MAGIC
      then if sz < 28 \<or> length header < 28 then Inl (IX_Validation ''pcap_import_truncated'' ''PCAPNG section header is truncated'')
        else let bom = slice 8 12 header in
          if bom \<noteq> PCAPNG_BOM_LE \<and> bom \<noteq> PCAPNG_BOM_BE then Inl (invalid_pcap ''PCAPNG byte-order magic is invalid'')
          else let little = (bom = PCAPNG_BOM_LE); block_length = from_bytes little (slice 4 8 header) in
            if block_length < 28 \<or> block_length > sz then Inl (invalid_pcap ''PCAPNG section header length is invalid'')
            else if block_length \<le> length header \<and> from_bytes little (slice (block_length - 4) block_length header) \<noteq> block_length
            then Inl (invalid_pcap ''PCAPNG section header length markers disagree'')
            else Inr (''pcapng'', ''.pcapng'', ''application/x-pcapng'')
      else let magic = join_on '' '' (map (\<lambda>c. hex2 (code c)) (take 4 header)) in
        Inl (IX_Validation ''pcap_import_unsupported'' (''File is not a supported PCAP or PCAPNG capture (magic: ''
          @ (if magic = [] then ''<empty>'' else magic) @ '')'')))"

section \<open>Inspection\<close>

definition too_large :: import_exc where
  "too_large = IX_Validation ''pcap_import_too_large'' ''Decompressed PCAP exceeds the configured size limit''"

definition bad_gzip :: import_exc where
  "bad_gzip = IX_Validation ''pcap_import_invalid_compression'' ''GZIP-compressed capture is corrupt or truncated''"

text \<open>The reading loop over a decompressed stream: the size, the header of at most 32 bytes and the digested bytes.\<close>

fun scan_stream :: "nat \<Rightarrow> string list \<Rightarrow> nat \<times> string \<times> string \<Rightarrow> import_exc + nat \<times> string \<times> string" where
  "scan_stream limit [] st = Inr st"
| "scan_stream limit (chunk # chunks) (sz, header, digested) =
     (if chunk = [] then Inr (sz, header, digested)
      else if sz + length chunk > limit then Inl too_large
      else scan_stream limit chunks (sz + length chunk,
        (if length header < 32 then header @ take (32 - length header) chunk else header), digested @ chunk))"

definition inspect_gzip_capture :: "import_env \<Rightarrow> string \<Rightarrow> nat \<Rightarrow> import_exc + pcap_info" where
  "inspect_gzip_capture v data limit =
     (if ie_fails v IC_GZIP_OPEN \<noteq> None then Inl bad_gzip
      else rbind (scan_stream limit (gs_chunks (ie_gunzip v data)) (0, [], [])) (\<lambda>(sz, header, digested).
        if \<not> gs_complete (ie_gunzip v data) then Inl bad_gzip
        else if sz = 0 then Inl (IX_Validation ''pcap_import_empty'' ''GZIP-compressed capture contains no data'')
        else rbind (detect_format header sz) (\<lambda>(fmt, ext, ctype). Inr \<lparr>pi_format = fmt, pi_extension = ext, pi_content_type = ctype,
          pi_size = length data, pi_sha256 = ev_sha256 (ie_ev v) data, pi_capture_size = sz,
          pi_capture_sha256 = ev_sha256 (ie_ev v) digested, pi_compression = Some ''gzip''\<rparr>)))"

text \<open>The calls for the file's size and its content are \<open>st\<close> and \<open>rd\<close>.\<close>

definition inspect_pcap_file :: "import_env \<Rightarrow> import_call \<Rightarrow> import_call \<Rightarrow> nat \<Rightarrow> stored_file option \<Rightarrow> import_exc + pcap_info" where
  "inspect_pcap_file v st rd limit file = (case file of
     None \<Rightarrow> Inl (IX_Validation ''pcap_import_unavailable'' ''Uploaded PCAP staging file is unavailable'')
   | Some x \<Rightarrow>
       let data = fl_data x; sz = length data; header = take 32 data in
       if ie_fails v st \<noteq> None then Inl (IX_Validation ''pcap_import_unavailable'' ''Uploaded PCAP staging file is unavailable'')
       else if sz = 0 then Inl (IX_Validation ''pcap_import_empty'' ''Uploaded file is empty'')
       else if sz > limit then Inl (IX_Validation ''pcap_import_too_large'' ''Uploaded PCAP exceeds the configured size limit'')
       else rbind (call_ok v rd) (\<lambda>_.
         let digest = ev_sha256 (ie_ev v) (fst (snd (copy_chunks CHUNK data ([], [], 0)))) in
         if take 3 header = GZIP_MAGIC then inspect_gzip_capture v data limit
         else rbind (detect_format header sz) (\<lambda>(fmt, ext, ctype). Inr \<lparr>pi_format = fmt, pi_extension = ext, pi_content_type = ctype,
           pi_size = sz, pi_sha256 = digest, pi_capture_size = sz, pi_capture_sha256 = digest, pi_compression = None\<rparr>)))"

section \<open>Decompression\<close>

text \<open>The copying loop: what reached the file, and an error, if any.\<close>

fun copy_stream :: "nat \<Rightarrow> string list \<Rightarrow> string \<Rightarrow> string \<times> (import_exc + unit)" where
  "copy_stream limit [] out = (out, Inr ())"
| "copy_stream limit (chunk # chunks) out =
     (if chunk = [] then (out, Inr ())
      else if length out + length chunk > limit then (out, Inl too_large)
      else copy_stream limit chunks (out @ chunk))"

text \<open>Removing the destination after an error: a failing \<^verbatim>\<open>unlink\<close> raises in its place.\<close>

definition drop_destination :: "import_env \<Rightarrow> path \<Rightarrow> import_exc \<Rightarrow> fs \<Rightarrow> fs \<times> (import_exc + path)" where
  "drop_destination v dest e f = (case ie_fails v IC_UNLINK_DEST of Some t \<Rightarrow> (f, Inl (IX_OSError t)) | None \<Rightarrow> (fs_remove dest f, Inl e))"

definition decompress :: "import_env \<Rightarrow> nat \<Rightarrow> path \<Rightarrow> path \<Rightarrow> fs \<Rightarrow> fs \<times> (import_exc + string)" where
  "decompress v limit source dest f =
     (let stored = (\<lambda>t. fs_put dest \<lparr>fl_data = t, fl_mtime = ie_now v\<rparr> f)
      in case fs_get f source of None \<Rightarrow> (f, Inl bad_gzip) | Some x \<Rightarrow>
        if ie_fails v IC_GZIP_OPEN \<noteq> None \<or> fs_get f dest \<noteq> None \<or> ie_fails v IC_DEST_OPEN \<noteq> None then (f, Inl bad_gzip)
        else if ie_fails v IC_DEST_CHMOD \<noteq> None then (stored [], Inl bad_gzip)
        else case copy_stream limit (gs_chunks (ie_gunzip v (fl_data x))) [] of
          (out, res) \<Rightarrow>
            if out \<noteq> [] \<and> ie_fails v IC_DEST_WRITE \<noteq> None then (stored (take (ie_written v) out), Inl bad_gzip)
            else (case res of Inl e \<Rightarrow> (stored out, Inl e)
              | Inr _ \<Rightarrow> if \<not> gs_complete (ie_gunzip v (fl_data x)) \<or> ie_fails v IC_DEST_FSYNC \<noteq> None then (stored out, Inl bad_gzip)
                  else (stored out, Inr out)))"

definition materialize_capture_file :: "import_env \<Rightarrow> path \<Rightarrow> path \<Rightarrow> pcap_info \<Rightarrow> nat \<Rightarrow> fs \<Rightarrow> fs \<times> (import_exc + path)" where
  "materialize_capture_file v source dest info limit f = (case pi_compression info of
     None \<Rightarrow> (f, Inr source)
   | Some c \<Rightarrow>
       if c \<noteq> ''gzip'' then (f, Inl (IX_Validation ''pcap_import_unsupported_compression'' (''Unsupported capture compression: '' @ c)))
       else case decompress v limit source dest f of
           (f1, Inl e) \<Rightarrow> drop_destination v dest e f1
         | (f1, Inr out) \<Rightarrow>
             if length out \<noteq> pi_capture_size info \<or> ev_sha256 (ie_ev v) out \<noteq> pi_capture_sha256 info
             then drop_destination v dest (IX_Validation ''pcap_import_decompression_mismatch''
               ''Decompressed PCAP changed between validation and durable storage'') f1
             else case inspect_pcap_file v IC_DEST_STAT IC_DEST_READ limit (fs_get f1 dest) of
                 Inl e \<Rightarrow> (f1, Inl e)
               | Inr normalized \<Rightarrow>
                   if pi_compression normalized \<noteq> None \<or> pi_format normalized \<noteq> pi_format info
                   then drop_destination v dest (IX_Validation ''pcap_import_decompression_mismatch''
                     ''Decompressed capture format changed during import'') f1
                   else (f1, Inr dest))"

end
