(* ===== verification/Imported_Capture.thy ===== *)
theory Imported_Capture
  imports Pcap_Import Evidence_Invariant Job_Worker
begin

text \<open>
  The worker for imported captures (\<^verbatim>\<open>jobs/handlers/imported_capture.py\<close>). The state is the evidence store and the progress that was
  reported. A run has the limit from the process environment, the outcome of each progress report, the cancellation token, and the
  faults and draws of its two writes to the evidence store.
\<close>

section \<open>Context\<close>

record import_job =
  ij_audit_id :: string
  ij_job_id :: string
  ij_parameters :: json_obj

record import_run =
  ir_limit :: "string option"
  ir_report :: "int \<Rightarrow> string option"
  ir_cancelled :: bool
  ir_import :: "put_faults \<times> put_draws"
  ir_result :: "put_faults \<times> put_draws"
  ir_float_int :: "string \<Rightarrow> import_exc + int"

record import_state =
  is_ev :: evidence
  is_log :: "(int \<times> string \<times> string) list"

definition max_import_bytes :: "string option \<Rightarrow> import_exc + nat" where
  "max_import_bytes setting = (case py_int_of_str (strip (case setting of Some t \<Rightarrow> t | None \<Rightarrow> ''256'')) of
     None \<Rightarrow> Inl (IX_RuntimeError ''WIRESCOPE_PCAP_IMPORT_MAX_FILESIZE_MB must be an integer'')
   | Some n \<Rightarrow> if \<not> (1 \<le> n \<and> n \<le> 4096) then Inl (IX_RuntimeError ''WIRESCOPE_PCAP_IMPORT_MAX_FILESIZE_MB must be 1..4096'')
       else Inr (nat n * 1024 * 1024))"

definition param_text :: "json_obj \<Rightarrow> string \<Rightarrow> string" where
  "param_text d k = (if json_truthy (jget d k) then py_str (jget d k) else [])"

text \<open>\<^verbatim>\<open>int(parameters.get(k) or 0)\<close>.\<close>

definition param_int :: "import_run \<Rightarrow> json_obj \<Rightarrow> string \<Rightarrow> import_exc + int" where
  "param_int r d k = (let v = jget d k in if \<not> json_truthy v then Inr 0
     else case v of JInt n \<Rightarrow> Inr n | JBool b \<Rightarrow> Inr 1 | JFloat t \<Rightarrow> ir_float_int r t
       | JStr s \<Rightarrow> (case py_int_of_str s of Some n \<Rightarrow> Inr n | None \<Rightarrow> Inl IX_ValueError)
       | _ \<Rightarrow> Inl IX_TypeError)"

definition import_error :: "string \<Rightarrow> string \<Rightarrow> import_exc" where
  "import_error ecode message = IX_Job \<lparr>je_code = ecode, je_category = EC_VALIDATION, je_message = message,
     je_component = ''pcap_import'', je_retryable = False, je_details = []\<rparr>"

text \<open>\<^verbatim>\<open>except PcapImportValidationError\<close>.\<close>

definition as_job_error :: "import_exc \<Rightarrow> import_exc" where
  "as_job_error e = (case e of IX_Validation c m \<Rightarrow> import_error c m | _ \<Rightarrow> e)"

definition compression_json :: "string option \<Rightarrow> json" where
  "compression_json c = (case c of None \<Rightarrow> JNull | Some t \<Rightarrow> JStr t)"

text \<open>The checks of the staged file against what was uploaded.\<close>

definition check_upload :: "string \<Rightarrow> int \<Rightarrow> json \<Rightarrow> pcap_info \<Rightarrow> import_exc + unit" where
  "check_upload sha expected compression info =
     (if expected \<noteq> 0 \<and> int (pi_size info) \<noteq> expected
      then Inl (import_error ''pcap_import_size_mismatch'' ''Uploaded PCAP size changed before worker processing'')
      else if sha \<noteq> [] \<and> pi_sha256 info \<noteq> sha
      then Inl (import_error ''pcap_import_checksum_mismatch'' ''Uploaded PCAP checksum changed before worker processing'')
      else if compression \<noteq> compression_json (pi_compression info)
      then Inl (import_error ''pcap_import_compression_mismatch'' ''Uploaded PCAP compression changed before worker processing'')
      else Inr ())"

section \<open>Documents\<close>

definition import_document :: "import_job \<Rightarrow> string \<Rightarrow> pcap_info \<Rightarrow> artifact \<Rightarrow> json_obj" where
  "import_document j original info a =
     [(''schema'', JStr ''packet-capture-result''), (''schema_version'', JInt 1), (''audit_id'', JStr (ij_audit_id j)),
      (''job_id'', JStr (ij_job_id j)), (''source_origin'', JStr ''imported''), (''source_compression'', compression_json (pi_compression info)),
      (''original_filename'', JStr original), (''capture_format'', JStr (pi_format info)), (''uploaded_bytes'', JInt (int (pi_size info))),
      (''upload_sha256'', JStr (pi_sha256 info)), (''capture_sha256'', JStr (pi_capture_sha256 info)), (''interface'', JNull),
      (''filter'', JNull), (''promiscuous'', JBool False), (''duration_seconds'', JNull), (''max_filesize_kb'', JNull),
      (''frame_count'', JNull), (''byte_count'', JInt (int (af_size a))), (''dropped_packets'', JNull), (''pcap_artifact_id'', JStr (af_id a)),
      (''artifacts'', JList [JStr (af_id a)]), (''warnings'', JList []), (''stopped_by_operator'', JBool False),
      (''network_io_performed'', JBool False), (''active_scope_authorized'', JBool False)]"

definition import_summary :: "string \<Rightarrow> pcap_info \<Rightarrow> artifact \<Rightarrow> artifact \<Rightarrow> json_obj" where
  "import_summary original info a res =
     [(''schema'', JStr ''packet-capture-summary''), (''schema_version'', JInt 1), (''result_reference'', JStr (af_id res)),
      (''source_origin'', JStr ''imported''), (''source_compression'', compression_json (pi_compression info)),
      (''original_filename'', JStr original), (''capture_format'', JStr (pi_format info)), (''uploaded_bytes'', JInt (int (pi_size info))),
      (''capture_sha256'', JStr (pi_capture_sha256 info)), (''interface'', JNull), (''filter'', JNull), (''promiscuous'', JBool False),
      (''duration_seconds'', JNull), (''max_filesize_kb'', JNull), (''frame_count'', JNull), (''byte_count'', JInt (int (af_size a))),
      (''pcap_artifact_id'', JStr (af_id a)), (''pcap_bytes'', JInt (int (af_size a))), (''warning_count'', JInt 0),
      (''stopped_by_operator'', JBool False), (''network_io_performed'', JBool False), (''active_scope_authorized'', JBool False)]"

section \<open>Steps\<close>

definition report_import :: "import_run \<Rightarrow> int \<Rightarrow> string \<Rightarrow> string \<Rightarrow> import_state \<Rightarrow> import_state \<times> (import_exc + unit)" where
  "report_import r percentage stage message s = (s\<lparr>is_log := is_log s @ [(percentage, stage, message)]\<rparr>,
     case ir_report r percentage of Some t \<Rightarrow> Inl (IX_Report t) | None \<Rightarrow> Inr ())"

definition capture_request :: "import_job \<Rightarrow> pcap_info \<Rightarrow> put_request" where
  "capture_request j info = \<lparr>pr_audit_id = ij_audit_id j, pr_job_id = Some (ij_job_id j), pr_type = ''packet_capture'',
     pr_content_type = pi_content_type info, pr_extension = pi_extension info, pr_retention = RC_AUDIT, pr_schema_name = None,
     pr_schema_version = None\<rparr>"

definition result_request :: "import_job \<Rightarrow> put_request" where
  "result_request j = \<lparr>pr_audit_id = ij_audit_id j, pr_job_id = Some (ij_job_id j), pr_type = ''packet_capture_result'',
     pr_content_type = ''application/json'', pr_extension = ''.json'', pr_retention = RC_AUDIT,
     pr_schema_name = Some ''packet-capture-result'', pr_schema_version = Some 1\<rparr>"

definition save_capture ::
  "import_env \<Rightarrow> import_run \<Rightarrow> import_job \<Rightarrow> string \<Rightarrow> pcap_info \<Rightarrow> path \<Rightarrow> import_state \<Rightarrow> import_state \<times> (import_exc + handler_result)" where
  "save_capture v r j original info source s = (case report_import r 70 ''saving'' ''Saving imported PCAP'' s of
     (s1, Inl e) \<Rightarrow> (s1, Inl e)
   | (s1, Inr _) \<Rightarrow> (case import_file (ie_ev v) (fst (ir_import r)) (snd (ir_import r)) (capture_request j info) source (is_ev s1) of
       (d2, Inl e) \<Rightarrow> (s1\<lparr>is_ev := d2\<rparr>, Inl (IX_Evidence e))
     | (d2, Inr a) \<Rightarrow>
         if af_size a \<noteq> pi_capture_size info \<or> af_sha256 a \<noteq> pi_capture_sha256 info
         then (s1\<lparr>is_ev := d2\<rparr>, Inl (import_error ''pcap_import_normalization_mismatch'' ''Canonical capture changed while being stored''))
         else (case put_json (ie_ev v) (fst (ir_result r)) (snd (ir_result r)) (result_request j) (import_document j original info a) d2 of
             (d3, Inl e) \<Rightarrow> (s1\<lparr>is_ev := d3\<rparr>, Inl (IX_Evidence e))
           | (d3, Inr res) \<Rightarrow> (s1\<lparr>is_ev := d3\<rparr>, Inr \<lparr>hr_reference = Some (af_id res), hr_summary = import_summary original info a res\<rparr>))))"

definition normalized_path :: "path \<Rightarrow> path" where
  "normalized_path staging = butlast staging @ [last staging @ ''.normalized'']"

text \<open>The part between the checks and the saving: the path to store and whether the name of the decompressed file was set.\<close>

definition normalize_capture ::
  "import_env \<Rightarrow> import_run \<Rightarrow> nat \<Rightarrow> path \<Rightarrow> pcap_info \<Rightarrow> import_state \<Rightarrow> import_state \<times> bool \<times> (import_exc + path)" where
  "normalize_capture v r limit staging info s =
     (if \<not> truthy (pi_compression info) then (s, False, Inr staging)
      else case report_import r 55 ''normalizing_import'' ''Decompressing imported PCAP'' s of
          (s1, Inl e) \<Rightarrow> (s1, False, Inl e)
        | (s1, Inr _) \<Rightarrow> (case materialize_capture_file v staging (normalized_path staging) info limit (ev_files (is_ev s1)) of
            (f, Inl e) \<Rightarrow> (s1\<lparr>is_ev := (is_ev s1)\<lparr>ev_files := f\<rparr>\<rparr>, True, Inl (as_job_error e))
          | (f, Inr p) \<Rightarrow> (s1\<lparr>is_ev := (is_ev s1)\<lparr>ev_files := f\<rparr>\<rparr>, True, Inr p)))"

definition import_body ::
  "import_env \<Rightarrow> import_run \<Rightarrow> import_job \<Rightarrow> nat \<Rightarrow> int \<Rightarrow> path \<Rightarrow> import_state \<Rightarrow> import_state \<times> bool \<times> (import_exc + handler_result)" where
  "import_body v r j limit expected staging s =
     (let ps = ij_parameters j;
          original = sanitize_original_filename (ie_unquote v) (Some (param_text ps ''original_filename''))
      in case inspect_pcap_file v IC_STAT IC_OPEN limit (fs_get (ev_files (is_ev s)) staging) of
          Inl e \<Rightarrow> (s, False, Inl (as_job_error e))
        | Inr info \<Rightarrow> (case check_upload (param_text ps ''upload_sha256'') expected (jget ps ''source_compression'') info of
            Inl e \<Rightarrow> (s, False, Inl e)
          | Inr _ \<Rightarrow> (case report_import r 35 ''validating_import'' ''Validated imported PCAP'' s of
              (s1, Inl e) \<Rightarrow> (s1, False, Inl e)
            | (s1, Inr _) \<Rightarrow>
                if ir_cancelled r then (s1, False, Inr \<lparr>hr_reference = None, hr_summary = []\<rparr>)
                else (case normalize_capture v r limit staging info s1 of
                    (s2, named, Inl e) \<Rightarrow> (s2, named, Inl e)
                  | (s2, named, Inr source) \<Rightarrow> (case save_capture v r j original info source s2 of (s3, res) \<Rightarrow> (s3, named, res))))))"

text \<open>The \<^verbatim>\<open>finally\<close> clause: an error of an \<^verbatim>\<open>unlink\<close> replaces the outcome and ends the clause.\<close>

definition unlink_staged :: "import_env \<Rightarrow> import_call \<Rightarrow> path \<Rightarrow> import_state \<Rightarrow> import_state \<times> (import_exc + unit)" where
  "unlink_staged v c p s = (case ie_fails v c of Some t \<Rightarrow> (s, Inl (IX_OSError t))
     | None \<Rightarrow> (s\<lparr>is_ev := (is_ev s)\<lparr>ev_files := fs_remove p (ev_files (is_ev s))\<rparr>\<rparr>, Inr ()))"

definition finally_unlink ::
  "import_env \<Rightarrow> path \<Rightarrow> import_state \<times> bool \<times> (import_exc + handler_result) \<Rightarrow> import_state \<times> (import_exc + handler_result)" where
  "finally_unlink v staging out = (case out of (s, named, res) \<Rightarrow>
     (case (if named then unlink_staged v IC_UNLINK_NORMALIZED (normalized_path staging) s else (s, Inr ())) of
        (s1, Inl e) \<Rightarrow> (s1, Inl e)
      | (s1, Inr _) \<Rightarrow> (case unlink_staged v IC_UNLINK_STAGING staging s1 of
          (s2, Inl e) \<Rightarrow> (s2, Inl e)
        | (s2, Inr _) \<Rightarrow> (s2, res))))"

definition imported_capture :: "import_env \<Rightarrow> import_run \<Rightarrow> import_job \<Rightarrow> import_state \<Rightarrow> import_state \<times> (import_exc + handler_result)" where
  "imported_capture v r j s =
     (case rbind (param_int r (ij_parameters j) ''uploaded_bytes'') (\<lambda>n. rbind (max_import_bytes (ir_limit r)) (\<lambda>m. Inr (n, m))) of
        Inl e \<Rightarrow> (s, Inl e)
      | Inr (expected, limit) \<Rightarrow>
          (case import_staging_path v (ev_root (is_ev s)) (param_text (ij_parameters j) ''staging_token'') of
             Inl e \<Rightarrow> (s, Inl (as_job_error e))
           | Inr staging \<Rightarrow> finally_unlink v staging (import_body v r j limit expected staging s)))"

end
