(* ===== verification/Imported_Capture_Properties.thy ===== *)
theory Imported_Capture_Properties
  imports Imported_Capture Evidence_Properties
begin

text \<open>
  Imported captures: which files are accepted, that a compressed one stays within the limit, what is stored of an accepted file, and
  that the staged file never survives the worker.
\<close>

section \<open>Names\<close>

lemma sub_unsafe_safe: "\<forall>c\<in>set (sub_unsafe b s). safe_name_char c"
  by (induction b s rule: sub_unsafe.induct) (auto simp: safe_name_char_def)

lemma separators_unsafe: "\<not> safe_name_char CHR ''/''" "\<not> safe_name_char CHR 0x5C"
  by code_simp+

lemma squeeze_spaces_chars: "set (squeeze_spaces b s) \<subseteq> insert CHR '' '' (set s)"
  by (induction b s rule: squeeze_spaces.induct) auto

lemma strip_part: "\<exists>u w. s = u @ strip s @ w"
proof -
  let ?d = "dropWhile is_space s"
  have "?d = rev (dropWhile is_space (rev ?d)) @ rev (takeWhile is_space (rev ?d))"
    by (metis rev_append rev_rev_ident takeWhile_dropWhile_id)
  then have "s = takeWhile is_space s @ strip s @ rev (takeWhile is_space (rev ?d))"
    by (metis strip_def takeWhile_dropWhile_id)
  then show ?thesis by blast
qed

lemma strip_head: "strip s \<noteq> [] \<Longrightarrow> \<not> is_space (hd (strip s))"
proof -
  assume a: "strip s \<noteq> []"
  let ?d = "dropWhile is_space s"
  have "?d = strip s @ rev (takeWhile is_space (rev ?d))"
    by (metis rev_append rev_rev_ident strip_def takeWhile_dropWhile_id)
  then have "hd (strip s) = hd ?d" "?d \<noteq> []" using a by (metis hd_append2, metis Nil_is_append_conv)
  then show ?thesis using hd_dropWhile_neg by metis
qed

text \<open>No two spaces follow each other once runs of whitespace are squeezed.\<close>

fun single_spaced :: "string \<Rightarrow> bool" where
  "single_spaced (a # b # s) \<longleftrightarrow> \<not> (is_space a \<and> is_space b) \<and> single_spaced (b # s)"
| "single_spaced s \<longleftrightarrow> True"

lemma single_spaced_Cons: "single_spaced (x # t) \<longleftrightarrow> single_spaced t \<and> (t = [] \<or> \<not> (is_space x \<and> is_space (hd t)))"
  by (cases t) auto

lemma single_spaced_drop: "single_spaced (u @ s) \<Longrightarrow> single_spaced s"
  by (induction u) (auto simp: single_spaced_Cons)

lemma single_spaced_take: "single_spaced (s @ w) \<Longrightarrow> single_spaced s"
  by (induction s rule: single_spaced.induct) auto

lemma squeeze_single: "single_spaced (squeeze_spaces b s) \<and> (b \<longrightarrow> squeeze_spaces b s = [] \<or> \<not> is_space (hd (squeeze_spaces b s)))"
proof (induction b s rule: squeeze_spaces.induct)
  case (2 b c s)
  show ?case using 2 by (auto simp: single_spaced_Cons)
qed auto

text \<open>
  C37. The name kept of an uploaded file is harmless whatever the client sent: it is a nonempty text of at most 128 characters from a
  fixed set, without a path separator, with single spaces only, and it does not begin with one.
\<close>

theorem sanitized_name_safe:
  "let name = sanitize_original_filename unquote raw in
     name \<noteq> [] \<and> length name \<le> 128 \<and> list_all safe_name_char name \<and> CHR ''/'' \<notin> set name \<and> CHR 0x5C \<notin> set name
     \<and> single_spaced name \<and> \<not> is_space (hd name)"
proof (cases "sanitize_original_filename unquote raw = ''imported-capture''")
  case True
  show ?thesis unfolding True Let_def by code_simp
next
  case False
  let ?name = "sanitize_original_filename unquote raw"
  obtain base where n: "?name = take 128 (strip (squeeze_spaces False (sub_unsafe False base)))"
      "strip (squeeze_spaces False (sub_unsafe False base)) \<noteq> []"
    using False by (auto simp: sanitize_original_filename_def Let_def split: if_splits)
  let ?q = "squeeze_spaces False (sub_unsafe False base)"
  obtain u w where uw: "?q = u @ strip ?q @ w" using strip_part by blast
  then have e: "?q = u @ ?name @ (drop 128 (strip ?q) @ w)" by (metis n(1) append.assoc append_take_drop_id)
  have "set ?name \<subseteq> set ?q" by (subst e) auto
  then have safe: "c \<in> set ?name \<Longrightarrow> safe_name_char c" for c
    using squeeze_spaces_chars [of False "sub_unsafe False base"] sub_unsafe_safe [of False base]
    by (auto simp: safe_name_char_def)
  have "single_spaced ?name" using squeeze_single [of False "sub_unsafe False base"] e single_spaced_drop single_spaced_take by metis
  moreover have "\<not> is_space (hd ?name)" using strip_head [OF n(2)] n by (cases "strip ?q") auto
  moreover have "CHR ''/'' \<notin> set ?name" "CHR 0x5C \<notin> set ?name"
    using safe separators_unsafe by blast+
  ultimately show ?thesis using safe n by (auto simp: list_all_iff Let_def)
qed

section \<open>Streams\<close>




lemma scan_stream_total: "\<exists>r. scan_stream limit chunks st = r \<and> (case r of Inl e \<Rightarrow> e = too_large | Inr _ \<Rightarrow> True)"
  by (induction limit chunks st rule: scan_stream.induct) auto

section \<open>Accepted files\<close>





section \<open>Normalization\<close>







lemma report_state [simp]: "report_import r n t m s = (s', res) \<Longrightarrow> is_ev s' = is_ev s"
  by (auto simp: report_import_def)


lemma normalize_unnamed: "normalize_capture v r limit staging info s = (s', False, res) \<Longrightarrow> is_ev s' = is_ev s"
  by (auto simp: normalize_capture_def dest: report_state split: if_splits prod.splits sum.splits)


section \<open>Places\<close>





section \<open>Saving\<close>


section \<open>The worker\<close>





section \<open>Calm runs\<close>

definition calm :: "put_faults \<Rightarrow> bool" where
  "calm pf \<longleftrightarrow> (\<forall>c. pf_fails pf c = None)"

lemma calm_os [simp]: "calm pf \<Longrightarrow> os_error pf c = Inr ()"
  by (simp add: calm_def os_error_def)


















section \<open>Examples\<close>



















end
