(* ===== verification/Handler_Monad.thy ===== *)
theory Handler_Monad
  imports Prelude
begin

text \<open>
  Job handlers as state transformers that may raise. Unlike a transaction, a handler keeps what it did before a raise. The locale
  \<open>kept_relation\<close> is the frame rule of such code: a reflexive and transitive relation that every step keeps is kept by the whole run.
\<close>

section \<open>Actions\<close>

type_synonym ('s, 'e, 'a) act = "'s \<Rightarrow> 's \<times> ('e + 'a)"

definition hreturn :: "'a \<Rightarrow> ('s, 'e, 'a) act" where
  "hreturn x s = (s, Inr x)"

definition hraise :: "'e \<Rightarrow> ('s, 'e, 'a) act" where
  "hraise e s = (s, Inl e)"

definition hbind :: "('s, 'e, 'a) act \<Rightarrow> ('a \<Rightarrow> ('s, 'e, 'b) act) \<Rightarrow> ('s, 'e, 'b) act" where
  "hbind m f s = (case m s of (s', Inl e) \<Rightarrow> (s', Inl e) | (s', Inr x) \<Rightarrow> f x s')"

definition hlift :: "('x \<Rightarrow> 'e) \<Rightarrow> 'x + 'a \<Rightarrow> ('s, 'e, 'a) act" where
  "hlift wrap r s = (s, case r of Inl e \<Rightarrow> Inl (wrap e) | Inr x \<Rightarrow> Inr x)"

lemma hbind_Inr: "hbind m f s = (s', Inr y) \<longleftrightarrow> (\<exists>s1 x. m s = (s1, Inr x) \<and> f x s1 = (s', Inr y))"
  by (auto simp: hbind_def split: prod.splits sum.splits)

lemma hbind_cases:
  assumes "hbind m f s = (s', r)"
  obtains (raised) e where "m s = (s', Inl e)" "r = Inl e"
  | (returned) s1 x where "m s = (s1, Inr x)" "f x s1 = (s', r)"
  using assms by (auto simp: hbind_def split: prod.splits sum.splits)

lemma hbind_assoc: "hbind (hbind m f) g = hbind m (\<lambda>x. hbind (f x) g)"
  by (rule ext) (auto simp: hbind_def split: prod.splits sum.splits)

lemma hlift_Inr [simp]: "hlift wrap r s = (s', Inr x) \<longleftrightarrow> s' = s \<and> r = Inr x"
  by (auto simp: hlift_def split: sum.splits)

lemma hlift_state [simp]: "fst (hlift wrap r s) = s"
  by (simp add: hlift_def)

lemma hreturn_iff [simp]: "hreturn x s = (s', r) \<longleftrightarrow> s' = s \<and> r = Inr x"
  by (auto simp: hreturn_def)

lemma hraise_iff [simp]: "hraise e s = (s', r) \<longleftrightarrow> s' = s \<and> r = Inl e"
  by (auto simp: hraise_def)

section \<open>Frames\<close>

locale kept_relation =
  fixes R :: "'s \<Rightarrow> 's \<Rightarrow> bool"
  assumes kept_refl: "R s s" and kept_trans: "R a b \<Longrightarrow> R b c \<Longrightarrow> R a c"
begin

definition keeps :: "('s, 'e, 'a) act \<Rightarrow> bool" where
  "keeps m \<longleftrightarrow> (\<forall>s. R s (fst (m s)))"

lemma keepsD: "keeps m \<Longrightarrow> m s = (s', r) \<Longrightarrow> R s s'"
  by (auto simp: keeps_def dest: spec [of _ s])

lemma keepsI: "(\<And>s s' r. m s = (s', r) \<Longrightarrow> R s s') \<Longrightarrow> keeps m"
  unfolding keeps_def by (metis prod.collapse)

lemma keeps_bind_result:
  assumes "keeps m" "\<And>x s1 s0. m s0 = (s1, Inr x) \<Longrightarrow> keeps (f x)"
  shows "keeps (hbind m f)"
proof (rule keepsI)
  fix s s' r
  assume "hbind m f s = (s', r)"
  then show "R s s'"
  proof (cases rule: hbind_cases)
    case (raised e)
    show ?thesis by (rule keepsD [OF assms(1) raised(1)])
  next
    case (returned s1 x)
    show ?thesis by (rule kept_trans [OF keepsD [OF assms(1) returned(1)] keepsD [OF assms(2) [OF returned(1)] returned(2)]])
  qed
qed

lemma keeps_bind: "keeps m \<Longrightarrow> (\<And>x. keeps (f x)) \<Longrightarrow> keeps (hbind m f)"
  by (rule keeps_bind_result)

lemma keeps_return: "keeps (hreturn x)"
  by (simp add: keeps_def hreturn_def kept_refl)

lemma keeps_raise: "keeps (hraise e)"
  by (simp add: keeps_def hraise_def kept_refl)

lemma keeps_lift: "keeps (hlift wrap r)"
  by (simp add: keeps_def kept_refl)

lemmas keeps_intros = keeps_bind keeps_return keeps_raise keeps_lift

end

end
