(* ===== verification/Protocol_Handler.thy ===== *)
theory Protocol_Handler
  imports Handler_Monad Protocol_Run Inventory_Queries Evidence_Store Job_Worker
begin

text \<open>
  The handler of protocol audit jobs (\<^verbatim>\<open>jobs/handlers/protocol.py\<close>) over the inventory, the observation table and the evidence store,
  with the evidence of a module run (\<^verbatim>\<open>_store_evidence\<close> of \<^verbatim>\<open>protocol_audits/execute.py\<close>). The log has the progress reported and the
  module runs started. What the world answers depends on the number of questions asked so far (\<open>hs_n\<close>): the cancellation token, a
  progress report, the passive result the inventory reads, the world of a module run, and the faults and draws of a write. Durations
  are printed by \<open>hv_float\<close>; \<open>hv_decode\<close> is the decoding of cut UTF-8, whose replacement character is not below 256; \<open>hv_stamps\<close> gives
  the printed times of the results of a run.
\<close>

section \<open>State\<close>

datatype handler_exc =
    HX_Job job_error
  | HX_Cancelled string
  | HX_Protocol pa_error
  | HX_Inventory inv_error
  | HX_Evidence ev_error
  | HX_Report string

datatype handler_event =
    HE_Progress int string string
  | HE_Run string probe_target

record audit_state =
  hs_inv :: inv_db
  hs_obs :: "observation_row list"
  hs_ev :: evidence
  hs_log :: "handler_event list"
  hs_n :: nat

record audit_env =
  hv_cancelled :: "nat \<Rightarrow> bool"
  hv_report :: "nat \<Rightarrow> string option"
  hv_passive :: "nat \<Rightarrow> passive_artifact"
  hv_world :: "nat \<Rightarrow> run_world"
  hv_put :: "nat \<Rightarrow> put_faults \<times> put_draws"
  hv_stamps :: "nat \<Rightarrow> nat \<Rightarrow> string \<times> string"
  hv_float :: "int \<Rightarrow> string"
  hv_decode :: "string \<Rightarrow> string"
  hv_inv :: inv_env
  hv_ev :: ev_env

record audit_context =
  hx_audit_id :: string
  hx_job_id :: string
  hx_parameters :: json_obj
  hx_settings :: protocol_settings
  hx_registry :: module_registry

type_synonym 'a audit = "(audit_state, handler_exc, 'a) act"

section \<open>Effects\<close>

definition ask :: "(nat \<Rightarrow> 'a) \<Rightarrow> 'a audit" where
  "ask f s = (s\<lparr>hs_n := Suc (hs_n s)\<rparr>, Inr (f (hs_n s)))"

definition record_event :: "handler_event \<Rightarrow> unit audit" where
  "record_event e s = (s\<lparr>hs_log := hs_log s @ [e]\<rparr>, Inr ())"

definition protocol_not_cancelled :: "audit_env \<Rightarrow> unit audit" where
  "protocol_not_cancelled v = hbind (ask (hv_cancelled v)) (\<lambda>c. if c then hraise (HX_Cancelled ''Protocol audit was cancelled'') else hreturn ())"

definition protocol_progress :: "audit_env \<Rightarrow> int \<Rightarrow> string \<Rightarrow> string \<Rightarrow> unit audit" where
  "protocol_progress v percentage stage message = hbind (record_event (HE_Progress percentage stage message)) (\<lambda>_.
     hbind (ask (hv_report v)) (\<lambda>r. case r of Some t \<Rightarrow> hraise (HX_Report t) | None \<Rightarrow> hreturn ()))"

definition with_inventory :: "(inv_db \<Rightarrow> inv_error + inv_db \<times> 'a) \<Rightarrow> 'a audit" where
  "with_inventory f s = (case f (hs_inv s) of Inl e \<Rightarrow> (s, Inl (HX_Inventory e)) | Inr (d, x) \<Rightarrow> (s\<lparr>hs_inv := d\<rparr>, Inr x))"

definition protocol_error :: "string \<Rightarrow> string \<Rightarrow> json_obj \<Rightarrow> handler_exc" where
  "protocol_error ecode message details = HX_Job \<lparr>je_code = ecode, je_category = EC_VALIDATION, je_message = message,
     je_component = ''protocol_audit'', je_retryable = False, je_details = details\<rparr>"

section \<open>Parameters\<close>

definition protocol_profile :: "json_obj \<Rightarrow> handler_exc + string" where
  "protocol_profile ps = (let p = (case map_of ps ''profile'' of None \<Rightarrow> ''default'' | Some v \<Rightarrow> py_str v)
     in if p = ''default'' then Inr p else Inl (protocol_error ''invalid_profile'' ''Protocol audit profile is invalid'' []))"

text \<open>A set of names as the sorted list of its members.\<close>

definition name_set :: "string list \<Rightarrow> string list" where
  "name_set ns = sort (remdups ns)"

definition allowed_modules :: "module_registry \<Rightarrow> json_obj \<Rightarrow> handler_exc + string list option" where
  "allowed_modules reg ps = (case jget ps ''modules'' of
     JNull \<Rightarrow> Inr None
   | JList (m # ms) \<Rightarrow>
       (let allowed = name_set (map py_str (m # ms));
            unknown = filter (\<lambda>n. n \<notin> set (default_names reg)) allowed;
            gated = filter (is_gated reg) allowed
        in if gated \<noteq> [] then Inl (protocol_error ''module_gated'' ''Requested protocol modules are gated off'' [(''modules'', JList (map JStr gated))])
           else if unknown \<noteq> [] then Inl (protocol_error ''unknown_module'' ''Requested protocol modules are not available'' [(''modules'', JList (map JStr unknown))])
           else Inr (Some allowed))
   | _ \<Rightarrow> Inl (protocol_error ''invalid_modules'' ''modules must be a non-empty list of module names'' []))"

definition protocol_parameters :: "module_registry \<Rightarrow> json_obj \<Rightarrow> handler_exc + string \<times> string list option" where
  "protocol_parameters reg ps = rbind (protocol_profile ps) (\<lambda>p. rbind (allowed_modules reg ps) (\<lambda>a. Inr (p, a)))"

section \<open>Evidence of a run\<close>

definition MAX_EVIDENCE_TEXT_BYTES :: nat where
  "MAX_EVIDENCE_TEXT_BYTES = 256 * 1024"

definition bound_text :: "(string \<Rightarrow> string) \<Rightarrow> string \<Rightarrow> string" where
  "bound_text decode value = (let encoded = utf8 value in if length encoded \<le> MAX_EVIDENCE_TEXT_BYTES then value
     else decode (take MAX_EVIDENCE_TEXT_BYTES encoded) @ [CHR 0x0A] @ ''[truncated]'')"

definition result_json :: "audit_env \<Rightarrow> string \<times> string \<Rightarrow> tool_result \<Rightarrow> json" where
  "result_json v stamps r = JObj
     [(''exit_code'', json_opt_int (tr_exit_code r)), (''timed_out'', JBool (tr_timed_out r)), (''success'', JBool (tr_success r)),
      (''started_at'', JStr (fst stamps)), (''finished_at'', JStr (snd stamps)), (''duration_seconds'', JFloat (hv_float v (tr_duration r))),
      (''stdout'', JStr (bound_text (hv_decode v) (tr_stdout r))), (''stderr'', JStr (bound_text (hv_decode v) (tr_stderr r))),
      (''error_code'', case tr_error r of None \<Rightarrow> JNull | Some e \<Rightarrow> JStr (tool_error_value (te_code e)))]"

definition tool_output_document ::
  "audit_env \<Rightarrow> (nat \<Rightarrow> string \<times> string) \<Rightarrow> protocol_settings \<Rightarrow> protocol_module \<Rightarrow> probe_target \<Rightarrow> tool_command list \<Rightarrow> tool_result list
     \<Rightarrow> string option \<Rightarrow> json_obj" where
  "tool_output_document v stamps g m target cs rs version =
     [(''schema'', JStr ''protocol-tool-output''), (''schema_version'', JInt 1), (''module'', JStr (pm_name m)), (''tool'', JStr (pm_tool_name m g)),
      (''tool_version'', opt_json version), (''asset_id'', JStr (as_id (pt_asset target))), (''service_id'', JStr (sr_id (pt_service target))),
      (''address'', JStr (pt_address target)), (''port'', JInt (pt_port target)), (''command_metadata'', JObj (command_metadata m cs)),
      (''results'', JList (map (\<lambda>(k, r). result_json v (stamps k) r) (enumerate 0 rs)))]"

definition protocol_request :: "audit_context \<Rightarrow> string \<Rightarrow> string \<Rightarrow> put_request" where
  "protocol_request x kind schema = \<lparr>pr_audit_id = hx_audit_id x, pr_job_id = Some (hx_job_id x), pr_type = kind, pr_content_type = ''application/json'',
     pr_extension = ''.json'', pr_retention = RC_AUDIT, pr_schema_name = Some schema, pr_schema_version = Some 1\<rparr>"

definition put_document :: "audit_env \<Rightarrow> put_request \<Rightarrow> json_obj \<Rightarrow> artifact audit" where
  "put_document v r document = hbind (ask (hv_put v)) (\<lambda>(pf, d) s. case put_json (hv_ev v) pf d r document (hs_ev s) of
     (e, res) \<Rightarrow> (s\<lparr>hs_ev := e\<rparr>, case res of Inl x \<Rightarrow> Inl (HX_Evidence x) | Inr a \<Rightarrow> Inr a))"

definition store_evidence ::
  "audit_env \<Rightarrow> audit_context \<Rightarrow> (nat \<Rightarrow> string \<times> string) \<Rightarrow> protocol_module \<Rightarrow> probe_target \<Rightarrow> tool_command list \<Rightarrow> tool_result list
     \<Rightarrow> string option \<Rightarrow> string audit" where
  "store_evidence v x stamps m target cs rs version =
     hbind (put_document v (protocol_request x ''protocol_tool_output'' ''protocol-tool-output'')
       (tool_output_document v stamps (hx_settings x) m target cs rs version)) (\<lambda>a. hreturn (af_id a))"

section \<open>One module run\<close>

definition pa_exc :: "pa_error \<Rightarrow> handler_exc" where
  "pa_exc e = (case e of PA_JobCancelled t \<Rightarrow> HX_Cancelled t | _ \<Rightarrow> HX_Protocol e)"

definition with_observations :: "(observation_row list \<Rightarrow> observation_row list \<times> (pa_error + 'a)) \<Rightarrow> 'a audit" where
  "with_observations f s = (case f (hs_obs s) of (t, r) \<Rightarrow> (s\<lparr>hs_obs := t\<rparr>, case r of Inl e \<Rightarrow> Inl (pa_exc e) | Inr y \<Rightarrow> Inr y))"

text \<open>The commands, their results and the drafts, before the evidence is stored.\<close>

definition probe_drafts ::
  "run_world \<Rightarrow> protocol_settings \<Rightarrow> protocol_module \<Rightarrow> probe_target \<Rightarrow> pa_error + tool_command list \<times> tool_result list \<times> observation_draft list" where
  "probe_drafts w g m target = rbind (pm_build_commands m target g) (\<lambda>cs. rbind (run_commands (rw_exec w) (rw_cancelled w) 1 cs) (\<lambda>rs.
     rbind (module_parse_results (rw_parse w) m rs) (\<lambda>ds. Inr (cs, rs, ds))))"

definition store_drafts ::
  "run_world \<Rightarrow> string \<Rightarrow> protocol_module \<Rightarrow> probe_target \<Rightarrow> tool_availability \<Rightarrow> tool_command list \<Rightarrow> tool_result list \<Rightarrow> observation_draft list
     \<Rightarrow> string \<Rightarrow> observation_row list \<Rightarrow> observation_row list \<times> (pa_error + module_run)" where
  "store_drafts w audit m target a cs rs ds art t =
     (case upsert_many (rw_fresh w) (rw_parents w) (work_context audit m target (Some art)) (without_cancelled ds) t of
        (t', Inl e) \<Rightarrow> (t', Inl e)
      | (t', Inr ps) \<Rightarrow> (t', Inr (probe_report m a cs rs art (length ps))))"

definition executor_run :: "audit_env \<Rightarrow> audit_context \<Rightarrow> protocol_module \<Rightarrow> probe_target \<Rightarrow> module_run audit" where
  "executor_run v x m target = hbind (ask (\<lambda>n. (hv_world v n, hv_stamps v n))) (\<lambda>(w, stamps).
     if rw_cancelled w 0 then hraise (pa_exc job_cancelled)
     else let a = module_availability (rw_locate w) (rw_exec w 0) (hx_settings x) m
       in if \<not> ta_available a \<or> \<not> ta_meets_minimum a then with_observations (skip_run w (hx_audit_id x) m target a)
       else hbind (hlift pa_exc (probe_drafts w (hx_settings x) m target)) (\<lambda>(cs, rs, ds).
         hbind (store_evidence v x stamps m target cs rs (ta_version a)) (\<lambda>art.
           with_observations (store_drafts w (hx_audit_id x) m target a cs rs ds art))))"

section \<open>The job\<close>

definition module_run_json :: "audit_env \<Rightarrow> module_run \<Rightarrow> json" where
  "module_run_json v r = JObj
     [(''module'', JStr (mr_module r)), (''protocol'', JStr (mr_protocol r)), (''tool'', JStr (mr_tool r)), (''available'', JBool (mr_available r)),
      (''skipped'', JBool (mr_skipped r)), (''skip_reason'', opt_json (mr_skip_reason r)), (''observation_count'', JInt (int (mr_observation_count r))),
      (''exit_code'', json_opt_int (mr_exit_code r)), (''timed_out'', JBool (mr_timed_out r)), (''cancelled'', JBool False),
      (''duration_seconds'', JFloat (hv_float v (mr_duration r))), (''evidence_artifact_id'', opt_json (mr_evidence_artifact_id r)),
      (''command_metadata'', JObj (mr_command_metadata r))]"

text \<open>The loop over the matched work: \<open>index\<close> of \<open>cnt\<close>. The quotient of the floats is that of the integers, rounded down.\<close>

fun run_work :: "audit_env \<Rightarrow> audit_context \<Rightarrow> nat \<Rightarrow> nat \<Rightarrow> matched_work list \<Rightarrow> module_run list audit" where
  "run_work v x cnt index [] = hreturn []"
| "run_work v x cnt index (w # ws) = hbind (protocol_not_cancelled v) (\<lambda>_.
     hbind (hlift pa_exc (get_module (hx_registry x) (mw_module w))) (\<lambda>m.
     hbind (protocol_progress v (min (15 + int (75 * index div cnt)) 90) (''auditing_'' @ pm_name m)
       (''Auditing '' @ pm_name m @ '' on '' @ pt_address (mw_target w) @ '':'' @ int_str (pt_port (mw_target w)))) (\<lambda>_.
     hbind (record_event (HE_Run (pm_name m) (mw_target w))) (\<lambda>_.
     hbind (executor_run v x m (mw_target w)) (\<lambda>r. hbind (run_work v x cnt (Suc index) ws) (\<lambda>rs. hreturn (r # rs)))))))"

record loaded_inventory =
  li_profile :: string
  li_allowed :: "string list option"
  li_scope :: confirmed_scope
  li_assets :: "asset_record list"
  li_services :: "service_record list"

definition any_asset :: asset_query where
  "any_asset = \<lparr>aq_address = None, aq_hostname = None, aq_mac = None, aq_vendor = None, aq_state = None, aq_device_class = None\<rparr>"

definition any_service :: service_query where
  "any_service = \<lparr>sq_asset_id = None, sq_protocol = None, sq_port = None, sq_state = None, sq_service_name = None, sq_product = None\<rparr>"

definition load_inventory :: "audit_env \<Rightarrow> audit_context \<Rightarrow> loaded_inventory audit" where
  "load_inventory v x =
     hbind (protocol_not_cancelled v) (\<lambda>_. hbind (protocol_progress v 5 ''loading_inventory'' ''Loading inventory'') (\<lambda>_.
     hbind (hlift id (protocol_parameters (hx_registry x) (hx_parameters x))) (\<lambda>(profile, allowed).
     hbind (with_inventory (\<lambda>d. Inr (d, latest_scope (hx_audit_id x) d))) (\<lambda>found. case found of
       None \<Rightarrow> hraise (protocol_error ''scope_not_confirmed'' ''Protocol audits require a confirmed authorized scope'' [])
     | Some scope \<Rightarrow>
         hbind (ask (hv_passive v)) (\<lambda>art.
         hbind (with_inventory (list_assets (hv_inv v) art (hx_audit_id x) 10000 0 any_asset False)) (\<lambda>assets.
         hbind (ask (hv_passive v)) (\<lambda>art'.
         hbind (with_inventory (list_services (hv_inv v) art' (hx_audit_id x) 10000 0 any_service)) (\<lambda>services.
         if p_items services = []
         then hraise (protocol_error ''inventory_empty'' ''Protocol audits require persisted inventory services'' [])
         else hreturn \<lparr>li_profile = profile, li_allowed = allowed, li_scope = scope, li_assets = p_items assets,
           li_services = p_items services\<rparr>))))))))"

definition protocol_summary :: "audit_context \<Rightarrow> loaded_inventory \<Rightarrow> matched_work list \<Rightarrow> module_run list \<Rightarrow> nat \<Rightarrow> json_obj" where
  "protocol_summary x l ws rs n =
     [(''schema'', JStr ''protocol-audit-summary''), (''schema_version'', JInt 1), (''profile'', JStr (li_profile l)),
      (''modules'', JList (map JStr (if ws \<noteq> [] then name_set (map mw_module ws)
         else case li_allowed l of Some (a # as) \<Rightarrow> a # as | _ \<Rightarrow> default_names (hx_registry x)))),
      (''matched_services'', JInt (int (length ws))), (''module_runs'', JInt (int (length rs))), (''observations'', JInt (int n)),
      (''unavailable_tools'', JList (map (\<lambda>r. JStr (mr_tool r)) (filter (\<lambda>r. mr_skipped r \<and> \<not> mr_available r) rs)))]"

definition protocol_document :: "audit_env \<Rightarrow> audit_context \<Rightarrow> loaded_inventory \<Rightarrow> module_run list \<Rightarrow> json_obj \<Rightarrow> json_obj" where
  "protocol_document v x l rs summ =
     [(''schema'', JStr ''protocol-audit-result''), (''schema_version'', JInt 1), (''audit_id'', JStr (hx_audit_id x)), (''job_id'', JStr (hx_job_id x)),
      (''profile'', JStr (li_profile l)), (''confirmed_scope_id'', JStr (cs_id (li_scope l))), (''interface'', JStr (cs_interface (li_scope l))),
      (''runs'', JList (map (module_run_json v) rs)), (''summary'', JObj summ)]"

definition finish_protocol :: "audit_env \<Rightarrow> audit_context \<Rightarrow> loaded_inventory \<Rightarrow> matched_work list \<Rightarrow> module_run list \<Rightarrow> handler_result audit" where
  "finish_protocol v x l ws rs =
     hbind (protocol_not_cancelled v) (\<lambda>_. hbind (protocol_progress v 94 ''summarizing'' ''Summarizing protocol observations'') (\<lambda>_.
     hbind (with_observations (\<lambda>t. (t, Inr (count_observations (hx_audit_id x) t)))) (\<lambda>n.
     let summ = protocol_summary x l ws rs n
     in hbind (put_document v (protocol_request x ''protocol_audit_result'' ''protocol-audit-result'') (protocol_document v x l rs summ)) (\<lambda>a.
       hreturn \<lparr>hr_reference = Some (af_id a), hr_summary = summ @ [(''result_reference'', JStr (af_id a))]\<rparr>))))"

definition plan_work :: "audit_env \<Rightarrow> audit_context \<Rightarrow> loaded_inventory \<Rightarrow> matched_work list audit" where
  "plan_work v x l = hbind (protocol_not_cancelled v) (\<lambda>_. hbind (protocol_progress v 12 ''matching_services'' ''Matching services'') (\<lambda>_.
     hlift pa_exc (match_work (hx_registry x) (li_assets l) (li_services l) (li_scope l) (li_allowed l))))"

definition protocol_audit :: "audit_env \<Rightarrow> audit_context \<Rightarrow> handler_result audit" where
  "protocol_audit v x = hbind (load_inventory v x) (\<lambda>l. hbind (plan_work v x l) (\<lambda>ws.
     hbind (run_work v x (max (length ws) 1) 0 ws) (\<lambda>rs. finish_protocol v x l ws rs)))"

end
