(* ===== verification/Spec2Isabelle.thy ===== *)
theory Spec2Isabelle
  imports Job_Properties Finding_Properties Auth_Properties Inventory_Properties Evidence_Properties Nmap_Progress_Properties Active_Properties
    Network_Service Imported_Capture_Properties Protocol_Handler_Properties
begin

text \<open>
  WireScope: a verification library of the backend of a network audit appliance.

  The program. An operator signs in (\<^verbatim>\<open>auth/\<close>, \<^verbatim>\<open>backend/security.py\<close>), opens an audit and confirms a scope of targets
  (\<^verbatim>\<open>engine/scope.py\<close>, \<^verbatim>\<open>inventory/service.py\<close>). Work runs as durable jobs of a relational store (\<^verbatim>\<open>jobs/service.py\<close>,
  \<^verbatim>\<open>jobs/worker.py\<close>): active discovery drives Nmap over the confirmed scope (\<^verbatim>\<open>jobs/handlers/active.py\<close>, \<^verbatim>\<open>providers/nmap.py\<close>) and
  feeds the inventory; protocol audits probe the services found (\<^verbatim>\<open>protocol_audits/\<close>); rules turn observations into findings
  (\<^verbatim>\<open>findings/\<close>); files of evidence are kept under a controlled directory (\<^verbatim>\<open>storage/evidence.py\<close>), to which captures the operator
  uploads are added (\<^verbatim>\<open>storage/pcap_import.py\<close>). The addressing of the appliance's own interfaces is changed by a privileged helper
  (\<^verbatim>\<open>appliance/netctl.py\<close>) behind a service (\<^verbatim>\<open>engine/network.py\<close>).

  Conventions. Definitions follow the source function by function; the names are those of the source where the logic has no
  constant of that name. A raise is the left value of a sum, with the exceptions of a component as a datatype; an operation that
  changes state before it raises returns the new state beside the result. A transaction returns the new database or the error alone.
  A string is a list of code points below 256, a JSON number that is a float is kept as its printed text, a time is whole
  microseconds (whole seconds in the Nmap parser), Python's integers are \<open>int\<close> or, where they cannot be negative, \<open>nat\<close>. Random
  identifiers, clocks, failing system calls, external programs, digests, \<^verbatim>\<open>json.loads\<close> and the conversions of pydantic
  are arguments; a property that relies on one of them says so in a named hypothesis, and its witness gives a concrete function.

  \<^bold>\<open>Foundations\<close>
  \<^item> \<open>Prelude\<close>: results, optional texts, dictionaries as association lists, tables with a key (locale \<open>keyed_table\<close>) and transition
    systems (locale \<open>step_system\<close>), which the stores and the reachability proofs interpret.
  \<^item> \<open>Py_String\<close>, \<open>Py_Value\<close>, \<open>Py_Uuid\<close>: the parts of Python's strings, JSON values and UUIDs the code uses.
  \<^item> \<open>Ip_Address\<close>, \<open>Ip_Roundtrip\<close>: \<^verbatim>\<open>ipaddress\<close>: parsing, printing with zero compression, networks; printing and parsing are inverse.

  \<^bold>\<open>Jobs\<close> (\<^verbatim>\<open>jobs/state.py\<close>, \<^verbatim>\<open>models.py\<close>, \<^verbatim>\<open>service.py\<close>, \<^verbatim>\<open>registry.py\<close>, \<^verbatim>\<open>worker.py\<close>, \<^verbatim>\<open>maintenance.py\<close>, \<^verbatim>\<open>backend/recovery.py\<close>,
  \<^verbatim>\<open>backend/audit_deletion.py\<close>)
  \<^item> \<open>Job_State\<close>, \<open>Job_Store\<close>, \<open>Job_Service\<close>, \<open>Job_Recovery\<close>, \<open>Job_Worker\<close>: the data, tables and operations.
  \<^item> \<open>Job_Operations\<close>, \<open>Job_Invariant\<close>, \<open>Job_History\<close>, \<open>Job_System\<close>: the outcome of every operation, the invariant of the tables, the
    step relation and what a step may do to a job.
  \<^item> \<open>Job_Properties\<close>: exclusive resources, audit summaries, job histories, claiming, ending, retries and deletion.

  \<^bold>\<open>Evidence\<close> (\<^verbatim>\<open>storage/evidence.py\<close>, the file part of \<^verbatim>\<open>backend/audit_deletion.py\<close>)
  \<^item> \<open>Evidence_Store\<close>: files as an association list from paths, artifact rows, writes and imports as the sequence of system calls
    of which any may fail, reads with their checks, cleanups.
  \<^item> \<open>Evidence_Facts\<close> (locale \<open>file_map\<close>), \<open>Evidence_Invariant\<close> (steps and invariant), \<open>Evidence_Properties\<close>: atomic writes,
    termination of the copy loop, containment, readable artifacts in every reachable state, completed deletions.

  \<^bold>\<open>Scopes and the network\<close>
  \<^item> \<open>Scope\<close>, \<open>Scope_Facts\<close>, \<open>Scope_Properties\<close> (\<^verbatim>\<open>engine/scope.py\<close>): validation, canonical targets, limits, proposals, expansion.
  \<^item> \<open>Interfaces\<close>, \<open>Routes\<close>, \<open>Route_Properties\<close> (\<^verbatim>\<open>engine/interfaces.py\<close>, \<^verbatim>\<open>engine/routes.py\<close>): the capture policy, and the routes of a scope.

  \<^bold>\<open>Active discovery\<close>
  \<^item> \<open>Active_Profiles\<close> (\<^verbatim>\<open>engine/active_profiles.py\<close>), \<open>Nmap_Plans\<close>, \<open>Nmap_Plan_Properties\<close> (\<^verbatim>\<open>engine/capabilities.py\<close>, the builders of
    \<^verbatim>\<open>providers/nmap.py\<close>): profiles, argument vectors, and what the vectors can make Nmap do.
  \<^item> \<open>Nmap_Parser\<close> (\<^verbatim>\<open>parsers/nmap.py\<close>), \<open>Nmap_Progress\<close>, \<open>Nmap_Progress_Properties\<close> (\<^verbatim>\<open>providers/nmap_progress.py\<close>), \<open>Route_Trace\<close>
    (\<^verbatim>\<open>providers/route_trace.py\<close>): reading what Nmap and the tracing tools print. A regular expression is a function on the
    suffixes of a line, with the choice of its repetitions written out.
  \<^item> \<open>Nmap_Provider\<close>, \<open>Active_Discovery\<close>: running a plan, and the handler, over a state of inventory, evidence store and a log of
    what was done. \<open>Active_Facts\<close> has the triples of this code (locale \<open>scan_log\<close>, for a condition on logged events);
    \<open>Active_Properties\<close> interprets it and shows that only confirmed targets are scanned.

  \<^bold>\<open>Inventory\<close> (\<^verbatim>\<open>inventory/\<close>): \<open>Inventory_Models\<close>, \<open>Inventory_Base\<close>, \<open>Inventory_Store\<close>, \<open>Inventory_Service\<close>, \<open>Inventory_Queries\<close>: correlation of
    hosts, names, services, classification, passive ingestion, confirmed scopes, queries; \<open>Inventory_Text\<close>, \<open>Inventory_Facts\<close>,
    \<open>Inventory_Steps\<close>, \<open>Inventory_Properties\<close>: the table invariant, total ingestion, exact filters.

  \<^bold>\<open>Protocol audits\<close> (\<^verbatim>\<open>protocol_audits/\<close>): \<open>Protocol_Targets\<close>, \<open>Protocol_Facts\<close>, \<open>Protocol_Properties\<close>: targets, predicates, registry, command
    vectors and matching inside the scope; \<open>Bounded_Data\<close>, \<open>Upsert\<close>, \<open>Protocol_Run\<close>, \<open>Protocol_Run_Properties\<close>: one module run and the
    observation store; \<open>Handler_Monad\<close> (locale \<open>kept_relation\<close>, the frame rule of code that may raise after it changed something),
    \<open>Protocol_Handler\<close>, \<open>Protocol_Handler_Properties\<close> (\<^verbatim>\<open>jobs/handlers/protocol.py\<close>): the whole job, which probes are started, what is stored and
    reported.

  \<^bold>\<open>Findings\<close> (\<^verbatim>\<open>findings/\<close>): \<open>Finding_Base\<close>, \<open>Finding_Rules\<close>, \<open>Finding_Merge\<close>, \<open>Finding_Store\<close>, \<open>Finding_Trail\<close>, \<open>Finding_Properties\<close>: the nineteen
    rules, merging, the store with the operator's decisions, grounding of findings in evidence.

  \<^bold>\<open>Authentication\<close> (\<^verbatim>\<open>auth/\<close>, \<^verbatim>\<open>backend/security.py\<close>): \<open>Auth\<close>, \<open>Auth_Facts\<close>, \<open>Auth_Properties\<close>: passwords, sessions, the failure window, the guard.

  \<^bold>\<open>Network helper\<close> (\<^verbatim>\<open>appliance/netctl.py\<close>, \<^verbatim>\<open>engine/network.py\<close>)
  \<^item> \<open>Netctl\<close>, \<open>Netctl_Apply\<close>: requests, validation, lock-out checks and inventory; then the backends as a state monad over the files, their
    modes and the trace of commands, where the answer to every command and file operation comes from the environment.
  \<^item> \<open>Netctl_Text\<close>, \<open>Netctl_Frame\<close> (locales \<open>net_frame\<close> and \<open>net_change\<close>, for relations between states that the operations keep),
    \<open>Netctl_Properties\<close>: changes are approved and confined, and how the interfaces file is rewritten.
  \<^item> \<open>Network_Service\<close>: the service, directly or through sudo, and that it reads what the helper prints.

  \<^bold>\<open>Capture import\<close> (\<^verbatim>\<open>storage/pcap_import.py\<close>, \<^verbatim>\<open>jobs/handlers/imported_capture.py\<close>): \<open>Pcap_Import\<close>, \<open>Imported_Capture\<close>,
    \<open>Imported_Capture_Properties\<close>: names, formats, bounded decompression and the worker over the evidence store with every failing call.

  This theory has the property that spans scopes, inventory and the protocol audit job: from the operator's targets to the probes.

  Bounds and fuel. No definition uses fuel: every loop is structural or has a measure (\<open>copy_chunks\<close>, \<open>first_free\<close>).

  Not modelled. The threads of the supervisor and the two drain threads of a process (interleaved chunk by chunk here),
  signal handling and logging; process execution; the other job handlers (live capture, passive, findings, topology, traffic, report) and the
  capture process; topology, traffic analysis, global analysis and reports, which aggregate and render the stores modelled here; the HTTP
  routers and request schemas; appliance installation; settings from the environment; migrations; the JavaScript
  user interface. The prose of findings and the vendor files are data the models take as arguments.
\<close>

section \<open>From the operator's targets to the probes\<close>








end
